(* ===== verification/Prelude.thy ===== *)
theory Prelude
  imports Main "HOL-Library.Word"
begin

unbundle bit_operations_syntax

text \<open>
  Vocabulary shared by every component of the firmware model: the fixed-width
  integers of C (\<^verbatim>\<open>stdint.h\<close>), the error codes of the ESP-IDF that the sources
  return, byte buffers, C strings, the little-endian \<^verbatim>\<open>memcpy\<close> of an integer
  into a frame, and the generic list facts used by several components.

  Buffers are lists of bytes, C strings are HOL strings without their NUL terminator.
  A pointer that may be NULL is an \<open>option\<close>. The target (Xtensa or RISC-V) is
  little-endian and has a 32-bit \<^verbatim>\<open>size_t\<close>; sizes of buffers are natural numbers.
  A function of the platform that is not part of the repository (ESP-IDF, FreeRTOS,
  mbedTLS, cJSON, TinyCBOR) is an argument of the definitions that call it.
\<close>

section \<open>Integers, errors, buffers\<close>

type_synonym u8 = "8 word"
type_synonym u16 = "16 word"
type_synonym u32 = "32 word"
type_synonym u64 = "64 word"
type_synonym bytes = "u8 list"

text \<open>A FreeRTOS tick count is an unsigned 32-bit integer.\<close>

type_synonym tick = "32 word"

datatype esp_err =
    ESP_OK
  | ESP_FAIL
  | ESP_ERR_NO_MEM
  | ESP_ERR_INVALID_ARG
  | ESP_ERR_INVALID_STATE
  | ESP_ERR_INVALID_SIZE
  | ESP_ERR_NOT_FOUND
  | ESP_ERR_NOT_SUPPORTED
  | ESP_ERR_TIMEOUT
  | ESP_ERR_INVALID_RESPONSE
  | ESP_ERR_INVALID_CRC
  | ESP_ERR_INVALID_VERSION
  | ESP_ERR_NVS_NOT_FOUND
  | ESP_ERR_NVS_SEC_KEY_PART_NOT_FOUND
  | ESP_ERR_NVS_NO_FREE_PAGES
  | ESP_ERR_NVS_NEW_VERSION_FOUND
  | ESP_ERR_HTTPS_OTA_IN_PROGRESS
  | ESP_ERR_OTA_VALIDATE_FAILED
  | ESP_ERR_WIFI_INIT_STATE
  | ESP_ERR_OTHER int

text \<open>
  Rules about invariants (\<open>inv_intros\<close>), about what an operation leaves alone
  (\<open>frame_simps\<close>) and executable unfoldings used by the witnesses (\<open>eval_simps\<close>).
\<close>

named_theorems inv_intros
named_theorems frame_simps
named_theorems eval_simps

section \<open>C strings\<close>

text \<open>
  \<^verbatim>\<open>strlcpy\<close> and the pair \<^verbatim>\<open>strncpy(d, s, sizeof d - 1); d[sizeof d - 1] = 0\<close>
  both leave in a buffer of \<open>size\<close> bytes the first \<open>size - 1\<close> characters of the
  source as a C string.
\<close>

definition cstr_copy :: "nat \<Rightarrow> string \<Rightarrow> string" where
  "cstr_copy sz s = take (sz - 1) s"

lemma length_cstr_copy: "length (cstr_copy sz s) \<le> sz - 1"
  by (simp add: cstr_copy_def)

lemma length_cstr_copy_less: "0 < sz \<Longrightarrow> length (cstr_copy sz s) < sz"
  using length_cstr_copy [of sz s] by linarith

lemma cstr_copy_short: "length s < sz \<Longrightarrow> cstr_copy sz s = s"
  by (simp add: cstr_copy_def)

lemma cstr_copy_idem [simp]: "cstr_copy sz (cstr_copy sz s) = cstr_copy sz s"
  by (simp add: cstr_copy_def)

text \<open>The bytes of a C string, as the functions on \<^verbatim>\<open>uint8_t\<close> buffers see them.\<close>

definition bytes_of :: "string \<Rightarrow> bytes" where
  "bytes_of s = map of_char s"

lemma length_bytes_of [simp]: "length (bytes_of s) = length s"
  by (simp add: bytes_of_def)

lemma bytes_of_append [simp]: "bytes_of (s @ t) = bytes_of s @ bytes_of t"
  by (simp add: bytes_of_def)

section \<open>Decimal text\<close>

text \<open>\<^verbatim>\<open>%u\<close> and \<^verbatim>\<open>%0*u\<close> of \<^verbatim>\<open>snprintf\<close>.\<close>

definition dec_digit :: "nat \<Rightarrow> char" where
  "dec_digit d = char_of (48 + d)"

fun dec_string :: "nat \<Rightarrow> string" where
  "dec_string n = (if n < 10 then [dec_digit n] else dec_string (n div 10) @ [dec_digit (n mod 10)])"

declare dec_string.simps [simp del]

definition dec_padded :: "nat \<Rightarrow> nat \<Rightarrow> string" where
  "dec_padded width n = replicate (width - length (dec_string n)) CHR ''0'' @ dec_string n"

lemma length_dec_string: "0 < k \<Longrightarrow> n < 10 ^ k \<Longrightarrow> length (dec_string n) \<le> k"
proof (induction n arbitrary: k rule: dec_string.induct)
  case (1 n)
  show ?case
  proof (cases "n < 10")
    case True
    with 1 show ?thesis by (simp add: dec_string.simps [of n])
  next
    case False
    with 1(3) have "k \<noteq> 1" by (intro notI) simp
    then obtain j where k: "k = Suc j" "0 < j" using 1(2) by (cases k) auto
    have "n div 10 < 10 ^ j" using 1(3) k by (simp add: less_mult_imp_div_less mult.commute)
    with 1(1) False k show ?thesis by (simp add: dec_string.simps [of n])
  qed
qed

lemma length_dec_padded: "0 < k \<Longrightarrow> n < 10 ^ k \<Longrightarrow> length (dec_padded k n) = k"
  using length_dec_string [of k n] by (simp add: dec_padded_def)

section \<open>Little-endian integers in a buffer\<close>

fun le_bytes :: "nat \<Rightarrow> 'a::len word \<Rightarrow> bytes" where
  "le_bytes 0 w = []"
| "le_bytes (Suc n) w = ucast w # le_bytes n (drop_bit 8 w)"

fun le_word :: "bytes \<Rightarrow> 'a::len word" where
  "le_word [] = 0"
| "le_word (b # bs) = ucast b OR push_bit 8 (le_word bs)"

lemma length_le_bytes [simp]: "length (le_bytes n w) = n"
  by (induction n arbitrary: w) auto

lemma le_word_le_bytes: "le_word (le_bytes n w) = take_bit (8 * n) (w :: 'a::len word)"
proof (induction n arbitrary: w)
  case 0
  then show ?case by simp
next
  case (Suc n)
  show ?case
    by (rule bit_word_eqI)
      (auto simp: Suc.IH bit_simps algebra_simps dest: bit_imp_le_length)
qed

lemma le_word_le_bytes_u64 [simp]: "le_word (le_bytes 8 (w :: u64)) = w"
  by (simp add: le_word_le_bytes take_bit_word_eq_self)

lemma le_word_le_bytes_u32 [simp]: "le_word (le_bytes 4 (w :: u32)) = w"
  by (simp add: le_word_le_bytes take_bit_word_eq_self)

section \<open>Words\<close>

lemma xor_right_cancel:
  fixes r s a :: "'a::len word"
  assumes "r XOR a = s XOR a"
  shows "r = s"
proof -
  have "(r XOR a) XOR a = (s XOR a) XOR a" using assms by simp
  then show ?thesis by (simp add: xor.assoc)
qed

lemma xor_left_cancel:
  fixes r s a :: "'a::len word"
  assumes "a XOR r = a XOR s"
  shows "r = s"
  using assms by (metis xor.commute xor_right_cancel)

lemma ucast_u8_inj: "(ucast (a :: u8) :: 'a::len word) = ucast b \<longleftrightarrow> a = b"
  if "8 \<le> LENGTH('a)"
proof
  assume eq: "(ucast a :: 'a word) = ucast b"
  show "a = b"
  proof (rule bit_word_eqI)
    fix n assume n: "n < LENGTH(8)"
    have "bit (ucast a :: 'a word) n = bit (ucast b :: 'a word) n" using eq by simp
    with n that show "bit a n = bit b n" by (simp add: bit_ucast_iff)
  qed
qed simp

lemma unat_ucast_u32_u64 [simp]: "unat (ucast (x :: u32) :: u64) = unat x"
proof -
  have "unat x < 2 ^ 32" using unsigned_less [of x, where 'a = nat] by simp
  then show ?thesis by (simp add: unsigned_ucast_eq take_bit_nat_eq_self)
qed

lemma unat_ucast_u64_u32: "unat (y :: u64) < 2 ^ 32 \<Longrightarrow> unat (ucast y :: u32) = unat y"
  by (simp add: unsigned_ucast_eq take_bit_nat_eq_self)

section \<open>Generic lists\<close>

text \<open>The C idiom of a \<^verbatim>\<open>for\<close> loop that returns the first index with a property.\<close>

fun find_index :: "('a \<Rightarrow> bool) \<Rightarrow> 'a list \<Rightarrow> nat option" where
  "find_index P [] = None"
| "find_index P (x # xs) = (if P x then Some 0 else map_option Suc (find_index P xs))"

lemma find_index_Some:
  "find_index P xs = Some k \<longleftrightarrow> k < length xs \<and> P (xs ! k) \<and> (\<forall>j < k. \<not> P (xs ! j))"
proof (induction xs arbitrary: k)
  case Nil
  then show ?case by simp
next
  case (Cons x xs)
  then show ?case by (cases k) (auto simp: All_less_Suc2)
qed

lemma find_index_None: "find_index P xs = None \<longleftrightarrow> (\<forall>x \<in> set xs. \<not> P x)"
  by (induction xs) auto

lemma find_index_SomeE:
  assumes "find_index P xs = Some k"
  obtains "k < length xs" "P (xs ! k)" "\<And>j. j < k \<Longrightarrow> \<not> P (xs ! j)"
  using assms by (auto simp: find_index_Some)

text \<open>Counting the entries of a table after one of them is overwritten.\<close>

lemma length_filter_list_update:
  assumes "i < length xs"
  shows "length (filter P (xs[i := x])) + (if P (xs ! i) then 1 else 0) =
    length (filter P xs) + (if P x then 1 else 0)"
  using assms
proof (induction xs arbitrary: i)
  case Nil
  then show ?case by simp
next
  case (Cons y ys)
  then show ?case by (cases i) auto
qed

lemma filter_length_full:
  "length (filter P xs) = length xs \<longleftrightarrow> (\<forall>x \<in> set xs. P x)"
  by (metis filter_True filter_id_conv filter_is_subset length_filter_less less_irrefl order.order_iff_strict)

lemma set_list_updateE:
  assumes "x \<in> set (xs[i := y])"
  obtains "x = y" | "x \<in> set xs"
  using assms set_update_subset_insert by fastforce

section \<open>The counting \<^verbatim>\<open>for\<close> loop\<close>

text \<open>\<^verbatim>\<open>for (i = lo; i < lo + n; ++i) st = body(i, st);\<close> with its invariant rule.\<close>

fun for_loop :: "(nat \<Rightarrow> 's \<Rightarrow> 's) \<Rightarrow> nat \<Rightarrow> nat \<Rightarrow> 's \<Rightarrow> 's" where
  "for_loop body 0 i st = st"
| "for_loop body (Suc n) i st = for_loop body n (Suc i) (body i st)"

lemma for_loop_invariant:
  assumes "I lo st" and "\<And>i s. lo \<le> i \<Longrightarrow> i < lo + n \<Longrightarrow> I i s \<Longrightarrow> I (Suc i) (body i s)"
  shows "I (lo + n) (for_loop body n lo st)"
  using assms
proof (induction n arbitrary: lo st)
  case 0
  then show ?case by simp
next
  case (Suc n)
  have "I (Suc lo + n) (for_loop body n (Suc lo) (body lo st))"
    by (rule Suc.IH) (use Suc.prems in auto)
  then show ?case by simp
qed

end
