(* ===== verification/ClientTable.thy ===== *)
theory ClientTable
  imports Prelude "HOL-Library.Multiset"
begin

text \<open>
  The table of connected clients of \<^verbatim>\<open>common/net/ws_server.c\<close>. The array \<^verbatim>\<open>s_clients\<close> with
  its \<^verbatim>\<open>s_client_capacity\<close> is a list, a pointer to an entry its index, and a negative
  descriptor marks a free slot. The locale \<open>slot_table\<close> holds what any table of slots
  provides: claiming the first free slot and releasing a slot change the used entries by
  exactly one.
\<close>

section \<open>Tables of slots\<close>

locale slot_table =
  fixes used :: "'e \<Rightarrow> bool"
    and vacant :: "'e"
  assumes vacant_unused: "\<not> used vacant"
begin

definition occupied :: "'e list \<Rightarrow> 'e multiset" where
  "occupied xs = filter_mset used (mset xs)"

lemma occupied_update:
  "i < length xs \<Longrightarrow> occupied (xs[i := x]) + (if used (xs ! i) then {#xs ! i#} else {#}) =
    occupied xs + (if used x then {#x#} else {#})"
proof (induction xs arbitrary: i)
  case Nil
  then show ?case by simp
next
  case (Cons y ys)
  show ?case
  proof (cases i)
    case 0
    then show ?thesis by (simp add: occupied_def)
  next
    case (Suc j)
    with Cons.prems Cons.IH [of j] show ?thesis
      by (cases "used y"; cases "used x"; cases "used (ys ! j)") (auto simp: occupied_def)
  qed
qed

lemma claim_occupied:
  assumes "find_index (\<lambda>e. \<not> used e) xs = Some i" and "used e"
  shows "occupied (xs[i := e]) = add_mset e (occupied xs)"
proof -
  have "i < length xs" "\<not> used (xs ! i)" using assms(1) by (auto elim: find_index_SomeE)
  with occupied_update [of i xs e] assms(2) show ?thesis by simp
qed

lemma release_occupied:
  assumes "i < length xs" and "used (xs ! i)"
  shows "occupied xs = add_mset (xs ! i) (occupied (xs[i := vacant]))"
  using occupied_update [OF assms(1), of vacant] assms(2) vacant_unused by simp

lemma claim_fails_iff: "find_index (\<lambda>e. \<not> used e) xs = None \<longleftrightarrow> length (filter used xs) = length xs"
  by (auto simp: find_index_None filter_length_full)

end

section \<open>The clients\<close>

record ws_client_t =
  cl_fd :: int
  cl_last_seen :: tick
  cl_awaiting_pong :: bool
  cl_handshake_verified :: bool
  cl_last_counter :: u64

definition client_used :: "ws_client_t \<Rightarrow> bool" where
  "client_used c \<longleftrightarrow> cl_fd c \<ge> 0"

text \<open>What a free slot holds; \<open>hs\<close> says whether the handshake is enabled.\<close>

definition client_cleared :: "bool \<Rightarrow> ws_client_t" where
  "client_cleared hs =
     \<lparr>cl_fd = - 1, cl_last_seen = 0, cl_awaiting_pong = False, cl_handshake_verified = (\<not> hs), cl_last_counter = 0\<rparr>"

definition client_registered :: "bool \<Rightarrow> int \<Rightarrow> tick \<Rightarrow> ws_client_t" where
  "client_registered hs fd now =
     \<lparr>cl_fd = fd, cl_last_seen = now, cl_awaiting_pong = False, cl_handshake_verified = (\<not> hs), cl_last_counter = 0\<rparr>"

definition find_client :: "ws_client_t list \<Rightarrow> int \<Rightarrow> nat option" where
  "find_client cs fd = find_index (\<lambda>c. cl_fd c = fd) cs"

definition drop_client_locked :: "bool \<Rightarrow> int \<Rightarrow> ws_client_t list \<Rightarrow> ws_client_t list" where
  "drop_client_locked hs fd cs =
     (case find_index (\<lambda>c. cl_fd c = fd) cs of None \<Rightarrow> cs | Some i \<Rightarrow> cs[i := client_cleared hs])"

definition add_client :: "bool \<Rightarrow> int \<Rightarrow> tick \<Rightarrow> ws_client_t list option \<Rightarrow> esp_err \<times> ws_client_t list option" where
  "add_client hs fd now table =
     (case table of
        None \<Rightarrow> (ESP_ERR_INVALID_STATE, None)
      | Some cs \<Rightarrow>
          (case find_index (\<lambda>c. cl_fd c < 0) cs of
             None \<Rightarrow> (ESP_FAIL, Some cs)
           | Some i \<Rightarrow> (ESP_OK, Some (cs[i := client_registered hs fd now]))))"

definition mark_client_verified :: "int \<Rightarrow> ws_client_t list \<Rightarrow> ws_client_t list" where
  "mark_client_verified fd cs =
     (case find_client cs fd of
        None \<Rightarrow> cs
      | Some i \<Rightarrow> cs[i := (cs ! i)\<lparr>cl_handshake_verified := True, cl_last_counter := 0\<rparr>])"

definition active_client_count :: "ws_client_t list option \<Rightarrow> nat" where
  "active_client_count table =
     (case table of None \<Rightarrow> 0 | Some cs \<Rightarrow> length (filter (\<lambda>c. cl_fd c \<ge> 0) cs))"

interpretation clients: slot_table client_used "client_cleared hs" for hs
  by unfold_locales (simp add: client_used_def client_cleared_def)

abbreviation active :: "ws_client_t list \<Rightarrow> ws_client_t multiset" where
  "active cs \<equiv> filter_mset client_used (mset cs)"

lemma clients_occupied [simp]: "clients.occupied cs = active cs"
  by (simp add: clients.occupied_def)

lemma not_client_used: "(\<lambda>c. \<not> client_used c) = (\<lambda>c. cl_fd c < 0)"
  by (auto simp: client_used_def)

lemma active_client_count_filter: "active_client_count (Some cs) = length (filter client_used cs)"
  by (simp add: active_client_count_def client_used_def [abs_def])

text \<open>The descriptors of the active clients, which the sockets layer keeps distinct.\<close>

definition client_fds :: "ws_client_t list \<Rightarrow> int list" where
  "client_fds cs = map cl_fd (filter client_used cs)"

definition clients_inv :: "ws_client_t list \<Rightarrow> bool" where
  "clients_inv cs \<longleftrightarrow> distinct (client_fds cs)"

lemma clients_inv_count: "clients_inv cs \<Longrightarrow> count (image_mset cl_fd (active cs)) fd \<le> 1"
  using distinct_count_atmost_1 [of "client_fds cs"] by (simp add: clients_inv_def client_fds_def)

text \<open>
  Registration. A client is admitted exactly when a slot is free; it then is the only
  change of the active clients, unverified as long as the handshake is enabled, and the
  capacity stays.
\<close>

theorem add_client_spec:
  assumes "0 \<le> fd"
  shows "case add_client hs fd now (Some cs) of
      (ESP_OK, Some cs') \<Rightarrow> active_client_count (Some cs) < length cs \<and> length cs' = length cs \<and>
        active cs' = add_mset (client_registered hs fd now) (active cs)
    | (err, table) \<Rightarrow> err = ESP_FAIL \<and> table = Some cs \<and> active_client_count (Some cs) = length cs"
proof (cases "find_index (\<lambda>c. cl_fd c < 0) cs")
  case None
  then show ?thesis
    using clients.claim_fails_iff [of cs] by (simp add: add_client_def active_client_count_filter not_client_used)
next
  case (Some i)
  have "client_used (client_registered hs fd now)" using assms by (simp add: client_used_def client_registered_def)
  with clients.claim_occupied [of cs i] Some have "active (cs[i := client_registered hs fd now]) = add_mset (client_registered hs fd now) (active cs)"
    by (simp add: not_client_used)
  moreover have "length (filter client_used cs) \<noteq> length cs"
    using clients.claim_fails_iff [of cs] Some by (simp add: not_client_used)
  then have "active_client_count (Some cs) < length cs"
    by (simp add: active_client_count_filter le_neq_implies_less)
  ultimately show ?thesis using Some by (simp add: add_client_def)
qed

theorem add_client_spec_witness:
  "fst (add_client True 5 9 (Some [client_cleared True])) = ESP_OK"
  using add_client_spec [where fd = 5 and hs = True and now = 9 and cs = "[client_cleared True]"]
  by (auto simp: add_client_def client_cleared_def split: option.splits)

lemma filter_mset_all: "(\<And>x. x \<in># M \<Longrightarrow> P x) \<Longrightarrow> filter_mset P M = M"
  by (simp add: filter_mset_eq_conv)

lemma drop_client_active:
  assumes "0 \<le> fd" and "clients_inv cs"
  shows "active (drop_client_locked hs fd cs) = filter_mset (\<lambda>c. cl_fd c \<noteq> fd) (active cs)"
proof (cases "find_index (\<lambda>c. cl_fd c = fd) cs")
  case None
  then have "filter_mset (\<lambda>c. cl_fd c \<noteq> fd) (active cs) = active cs"
    by (intro filter_mset_all) (auto simp: find_index_None)
  with None show ?thesis by (simp add: drop_client_locked_def)
next
  case (Some i)
  then have i: "i < length cs" "cl_fd (cs ! i) = fd" by (auto elim: find_index_SomeE)
  then have split: "active cs = add_mset (cs ! i) (active (cs[i := client_cleared hs]))"
    using clients.release_occupied [of i cs hs] assms(1) by (simp add: client_used_def)
  have "count (image_mset cl_fd (active cs)) fd \<le> 1" using assms(2) by (rule clients_inv_count)
  then have "count (image_mset cl_fd (active (cs[i := client_cleared hs]))) fd = 0"
    unfolding split using i by simp
  then have "fd \<notin># image_mset cl_fd (active (cs[i := client_cleared hs]))" by (simp only: not_in_iff)
  then have "filter_mset (\<lambda>c. cl_fd c \<noteq> fd) (active (cs[i := client_cleared hs])) = active (cs[i := client_cleared hs])"
    by (intro filter_mset_all) auto
  with Some i split show ?thesis by (simp add: drop_client_locked_def)
qed

lemma length_drop_client [simp]: "length (drop_client_locked hs fd cs) = length cs"
  by (simp add: drop_client_locked_def split: option.split)

lemma drop_client_set: "c \<in> set (drop_client_locked hs fd cs) \<Longrightarrow> c = client_cleared hs \<or> c \<in> set cs"
  by (auto simp: drop_client_locked_def split: option.splits elim: set_list_updateE)

lemma filter_distinct_index:
  assumes "distinct (map f (filter P xs))" and "i < length xs" and "j < length xs" and "P (xs ! i)" and "P (xs ! j)"
    and "f (xs ! i) = f (xs ! j)"
  shows "i = j"
  using assms
proof (induction xs arbitrary: i j)
  case Nil
  then show ?case by simp
next
  case (Cons x xs)
  have tail: "f y \<noteq> f x" if "P x" "k < length xs" "P (xs ! k)" "y = xs ! k" for y k
    using Cons.prems(1) that by (auto simp: image_iff)
  show ?case
    using Cons.IH [of "i - 1" "j - 1"] Cons.prems tail [of "j - 1"] tail [of "i - 1"]
    by (cases i; cases j) (auto split: if_splits)
qed

lemma drop_client_at:
  assumes "clients_inv cs" and "i < length cs" and "0 \<le> cl_fd (cs ! i)"
  shows "drop_client_locked hs (cl_fd (cs ! i)) cs = cs[i := client_cleared hs]"
proof -
  have "find_index (\<lambda>c. cl_fd c = cl_fd (cs ! i)) cs = Some i"
    unfolding find_index_Some
  proof (intro conjI allI impI)
    fix j assume "j < i"
    then show "cl_fd (cs ! j) \<noteq> cl_fd (cs ! i)"
      using filter_distinct_index [of cl_fd client_used cs i j] assms
      by (auto simp: clients_inv_def client_fds_def client_used_def)
  qed (use assms in auto)
  then show ?thesis by (simp add: drop_client_locked_def)
qed

text \<open>Releasing a slot, or changing an entry without its descriptor, keeps the descriptors distinct.\<close>

lemma clients_inv_clear [inv_intros]:
  "clients_inv cs \<Longrightarrow> clients_inv (cs[i := client_cleared hs])"
proof (cases "i < length cs")
  case True
  have app: "client_fds (xs @ ys) = client_fds xs @ client_fds ys" for xs ys
    by (simp add: client_fds_def)
  have "client_fds (client_cleared hs # ys) = client_fds ys" for ys
    by (simp add: client_fds_def client_used_def client_cleared_def)
  moreover have "set (client_fds ys) \<subseteq> set (client_fds (c # ys))" "distinct (client_fds (c # ys)) \<Longrightarrow> distinct (client_fds ys)" for c ys
    by (auto simp: client_fds_def split: if_splits)
  moreover assume "clients_inv cs"
  then have "distinct (client_fds (take i cs @ cs ! i # drop (Suc i) cs))"
    using id_take_nth_drop [OF True] by (simp add: clients_inv_def)
  ultimately show ?thesis
    unfolding clients_inv_def upd_conv_take_nth_drop [OF True] app by (simp add: distinct_append) blast
qed (simp add: list_update_beyond)

lemma client_fds_keep: "cl_fd c = cl_fd (cs ! i) \<Longrightarrow> client_fds (cs[i := c]) = client_fds cs"
  unfolding client_fds_def
proof (induction cs arbitrary: i)
  case (Cons x cs)
  then show ?case by (cases i) (auto simp: client_used_def)
qed simp

lemma clients_inv_keep [inv_intros]: "clients_inv cs \<Longrightarrow> cl_fd c = cl_fd (cs ! i) \<Longrightarrow> clients_inv (cs[i := c])"
  by (simp add: clients_inv_def client_fds_keep)

end
