(* ===== verification/Totp.thy ===== *)
theory Totp
  imports Prelude
begin

text \<open>
  Time-based one-time passwords, \<^verbatim>\<open>common/util/totp.c\<close>. The HMAC-SHA1 of mbedTLS is the
  argument \<open>hmac\<close> (key, message, digest), \<open>None\<close> where one of its calls fails.
\<close>

section \<open>The code\<close>

record totp_config_t =
  totp_secret :: "bytes option"
  totp_period_s :: u32
  totp_digits :: u8

type_synonym hmac_sha1 = "bytes \<Rightarrow> bytes \<Rightarrow> bytes option"

fun pow10_loop :: "nat \<Rightarrow> u32 \<Rightarrow> u32" where
  "pow10_loop 0 value = value"
| "pow10_loop (Suc n) value = pow10_loop n (value * 10)"

definition pow10_u32 :: "u8 \<Rightarrow> u32" where
  "pow10_u32 digits = pow10_loop (unat digits) 1"

text \<open>The eight counter bytes, filled from the last to the first.\<close>

fun counter_bytes_loop :: "nat \<Rightarrow> u64 \<Rightarrow> bytes \<Rightarrow> bytes" where
  "counter_bytes_loop 0 counter acc = acc"
| "counter_bytes_loop (Suc i) counter acc =
     counter_bytes_loop i (drop_bit 8 counter) (ucast (counter AND 0xFF) # acc)"

definition totp_valid_cfg :: "totp_config_t \<Rightarrow> bool" where
  "totp_valid_cfg cfg \<longleftrightarrow>
     \<not> (totp_secret cfg = None \<or> totp_secret cfg = Some [] \<or> totp_digits cfg < 6 \<or> totp_digits cfg > 8 \<or>
        totp_period_s cfg = 0)"

definition totp_offset :: "bytes \<Rightarrow> nat" where
  "totp_offset digest = unat (digest ! 19 AND 0x0F)"

definition totp_truncate :: "bytes \<Rightarrow> u32" where
  "totp_truncate digest =
     (let off = totp_offset digest in
        push_bit 24 (ucast (digest ! off) AND 0x7F) OR
        push_bit 16 (ucast (digest ! (off + 1)) AND 0xFF) OR
        push_bit 8 (ucast (digest ! (off + 2)) AND 0xFF) OR
        (ucast (digest ! (off + 3)) AND 0xFF))"

definition totp_compute :: "hmac_sha1 \<Rightarrow> totp_config_t option \<Rightarrow> u64 \<Rightarrow> esp_err \<times> u32 option" where
  "totp_compute hmac cfgp unix_time =
     (case cfgp of
        None \<Rightarrow> (ESP_ERR_INVALID_ARG, None)
      | Some cfg \<Rightarrow>
          if \<not> totp_valid_cfg cfg then (ESP_ERR_INVALID_ARG, None)
          else
            let counter = unix_time div ucast (totp_period_s cfg);
                counter_bytes = counter_bytes_loop 8 counter []
            in case hmac (the (totp_secret cfg)) counter_bytes of
                 None \<Rightarrow> (ESP_FAIL, None)
               | Some digest \<Rightarrow> (ESP_OK, Some (totp_truncate digest mod pow10_u32 (totp_digits cfg))))"

text \<open>
  One candidate time of \<^verbatim>\<open>totp_verify\<close>: \<open>None\<close> where it would lie before the epoch and the
  loop continues. The addition is on \<^verbatim>\<open>uint64_t\<close>.
\<close>

definition totp_adjusted :: "totp_config_t \<Rightarrow> u64 \<Rightarrow> int \<Rightarrow> u64 option" where
  "totp_adjusted cfg unix_time off =
     (let delta = off * uint (totp_period_s cfg) in
      if off < 0 then
        (if (word_of_int (- delta) :: u64) > unix_time then None
         else Some (unix_time - word_of_int (- delta)))
      else Some (unix_time + word_of_int delta))"

text \<open>
  The loop over the offsets: \<open>n\<close> of them are left, the next is \<open>off\<close>. The number of turns
  is fixed on entry by the window, which C reads as a signed integer.
\<close>

fun totp_verify_loop :: "hmac_sha1 \<Rightarrow> totp_config_t \<Rightarrow> u64 \<Rightarrow> u32 \<Rightarrow> int \<Rightarrow> nat \<Rightarrow> esp_err \<times> bool" where
  "totp_verify_loop hmac cfg unix_time code off 0 = (ESP_OK, False)"
| "totp_verify_loop hmac cfg unix_time code off (Suc n) =
     (case totp_adjusted cfg unix_time off of
        None \<Rightarrow> totp_verify_loop hmac cfg unix_time code (off + 1) n
      | Some adjusted_time \<Rightarrow>
          (case totp_compute hmac (Some cfg) adjusted_time of
             (ESP_OK, Some expected) \<Rightarrow>
               if expected = code then (ESP_OK, True)
               else totp_verify_loop hmac cfg unix_time code (off + 1) n
           | (err, _) \<Rightarrow> (err, False)))"

definition totp_verify :: "hmac_sha1 \<Rightarrow> totp_config_t option \<Rightarrow> u64 \<Rightarrow> u32 \<Rightarrow> u32 \<Rightarrow> esp_err \<times> bool" where
  "totp_verify hmac cfgp unix_time window code =
     (case cfgp of
        None \<Rightarrow> (ESP_ERR_INVALID_ARG, False)
      | Some cfg \<Rightarrow>
          if totp_secret cfg = None \<or> totp_secret cfg = Some [] then (ESP_ERR_INVALID_ARG, False)
          else
            let w = sint window
            in totp_verify_loop hmac cfg unix_time code (- w) (nat (2 * w + 1)))"

section \<open>Bounds\<close>

lemma totp_offset_bound: "totp_offset digest \<le> 15"
proof -
  have "digest ! 19 AND 0x0F \<le> 0x0F" by (rule word_and_le1)
  then have "unat (digest ! 19 AND 0x0F) \<le> unat (0x0F :: u8)" by (simp only: word_le_nat_alt)
  then show ?thesis by (simp add: totp_offset_def)
qed

lemma pow10_cases:
  assumes "6 \<le> d" and "d \<le> 8"
  shows "unat (pow10_u32 d) = 10 ^ unat d"
proof -
  have "unat d \<in> {6, 7, 8}"
    using assms by (auto simp: word_le_nat_alt)
  moreover have "pow10_loop 6 1 = 1000000" "pow10_loop 7 1 = 10000000" "pow10_loop 8 1 = 100000000"
    by code_simp+
  ultimately show ?thesis by (auto simp: pow10_u32_def)
qed

text \<open>
  For a valid configuration and an HMAC that returns its 20 bytes, the code is computed: the
  dynamic truncation reads inside the digest, and the code has the configured number of digits.
\<close>

theorem totp_compute_in_range:
  assumes "totp_valid_cfg cfg"
    and "\<And>k m. \<exists>digest. hmac k m = Some digest \<and> length digest = 20"
  shows "\<exists>code digest. totp_compute hmac (Some cfg) t = (ESP_OK, Some code) \<and>
    unat code < 10 ^ unat (totp_digits cfg) \<and>
    hmac (the (totp_secret cfg)) (counter_bytes_loop 8 (t div ucast (totp_period_s cfg)) []) = Some digest \<and>
    totp_offset digest + 3 < length digest"
proof -
  obtain digest where d: "hmac (the (totp_secret cfg)) (counter_bytes_loop 8 (t div ucast (totp_period_s cfg)) []) = Some digest"
    "length digest = 20" using assms(2) by blast
  have "6 \<le> totp_digits cfg" "totp_digits cfg \<le> 8" using assms(1) by (auto simp: totp_valid_cfg_def not_less)
  then have p: "unat (pow10_u32 (totp_digits cfg)) = 10 ^ unat (totp_digits cfg)" by (rule pow10_cases)
  then have "unat (totp_truncate digest mod pow10_u32 (totp_digits cfg)) < 10 ^ unat (totp_digits cfg)"
    by (simp add: unat_mod)
  with d assms(1) show ?thesis
    using totp_offset_bound [of digest] by (simp add: totp_compute_def)
qed

theorem totp_compute_in_range_witness:
  "\<exists>code. totp_compute (\<lambda>k m. Some (replicate 19 0x11 @ [0x25]))
      (Some \<lparr>totp_secret = Some [1, 2, 3], totp_period_s = 30, totp_digits = 6\<rparr>) 59 = (ESP_OK, Some code) \<and>
    unat code < 10 ^ 6"
  using totp_compute_in_range
    [of "\<lparr>totp_secret = Some [1, 2, 3], totp_period_s = 30, totp_digits = 6\<rparr>"
       "\<lambda>k m. Some (replicate 19 0x11 @ [0x25])" 59]
  by (auto simp: totp_valid_cfg_def)

section \<open>The acceptance window\<close>

definition totp_code_at :: "hmac_sha1 \<Rightarrow> totp_config_t \<Rightarrow> u64 \<Rightarrow> u32" where
  "totp_code_at hmac cfg t = the (snd (totp_compute hmac (Some cfg) t))"

lemma totp_verify_loop_match:
  assumes "\<And>t. \<exists>code. totp_compute hmac (Some cfg) t = (ESP_OK, Some code)"
  shows "totp_verify_loop hmac cfg t code off n =
    (ESP_OK, \<exists>k \<in> {off..<off + int n}. \<exists>a. totp_adjusted cfg t k = Some a \<and> totp_code_at hmac cfg a = code)"
proof (induction n arbitrary: off)
  case 0
  then show ?case by simp
next
  case (Suc n)
  have split: "{off..<off + int (Suc n)} = insert off {off + 1..<(off + 1) + int n}" by auto
  show ?case
  proof (cases "totp_adjusted cfg t off")
    case None
    then show ?thesis unfolding split by (simp add: Suc.IH)
  next
    case (Some a)
    obtain c where "totp_compute hmac (Some cfg) a = (ESP_OK, Some c)" using assms by blast
    with Some show ?thesis unfolding split by (simp add: Suc.IH totp_code_at_def)
  qed
qed

lemma totp_adjusted_past:
  assumes "0 < k" and "k < 2 ^ 31"
  shows "totp_adjusted cfg t (- int k) =
    (if k * unat (totp_period_s cfg) \<le> unat t then Some (t - of_nat (k * unat (totp_period_s cfg))) else None)"
proof -
  define d where "d = k * unat (totp_period_s cfg)"
  have "d < 2 ^ 31 * 2 ^ 32"
    unfolding d_def using assms unsigned_less [of "totp_period_s cfg"] by (intro mult_strict_mono) auto
  then have u: "unat (of_nat d :: u64) = d"
    unfolding unat_of_nat by (intro mod_less) simp
  have "- (- int k * uint (totp_period_s cfg)) = int d" by (simp add: d_def)
  then have w: "(word_of_int (- (- int k * uint (totp_period_s cfg))) :: u64) = of_nat d"
    by (simp only: of_int_of_nat_eq)
  have "(of_nat d > t) = (\<not> d \<le> unat t)" by (simp only: word_less_nat_alt u not_le)
  then show ?thesis
    unfolding totp_adjusted_def Let_def w d_def [symmetric] using assms by simp
qed

lemma totp_adjusted_future:
  "totp_adjusted cfg t (int k) = Some (t + of_nat (k * unat (totp_period_s cfg)))"
proof -
  have "int k * uint (totp_period_s cfg) = int (k * unat (totp_period_s cfg))" by simp
  then have "(word_of_int (int k * uint (totp_period_s cfg)) :: u64) = of_nat (k * unat (totp_period_s cfg))"
    by (simp only: of_int_of_nat_eq)
  then show ?thesis unfolding totp_adjusted_def Let_def by simp
qed

lemma totp_verify_iff:
  assumes "\<And>t. \<exists>code. totp_compute hmac (Some cfg) t = (ESP_OK, Some code)"
    and "unat window < 2 ^ 31"
  shows "totp_verify hmac (Some cfg) t window code =
    (ESP_OK, \<exists>k \<le> unat window.
       totp_code_at hmac cfg (t + of_nat (k * unat (totp_period_s cfg))) = code \<or>
       (k * unat (totp_period_s cfg) \<le> unat t \<and>
        totp_code_at hmac cfg (t - of_nat (k * unat (totp_period_s cfg))) = code))"
proof -
  let ?w = "unat window" and ?p = "unat (totp_period_s cfg)"
  let ?hit = "\<lambda>i. \<exists>a. totp_adjusted cfg t i = Some a \<and> totp_code_at hmac cfg a = code"
  obtain c where "totp_compute hmac (Some cfg) t = (ESP_OK, Some c)" using assms(1) by blast
  then have sec: "\<not> (totp_secret cfg = None \<or> totp_secret cfg = Some [])"
    by (auto simp: totp_compute_def totp_valid_cfg_def split: if_splits)
  have w: "sint window = int ?w"
  proof -
    have "unat window < 2147483648" using assms(2) by simp
    then have "uint window < 2147483648" unfolding uint_nat by linarith
    moreover have "- 2147483648 \<le> uint window" by (rule order_trans [of _ 0]) simp_all
    ultimately show ?thesis
      unfolding sint_uint uint_nat [symmetric] by (intro signed_take_bit_int_eq_self) simp_all
  qed
  have "(\<exists>i \<in> {- int ?w..<- int ?w + int (nat (2 * int ?w + 1))}. ?hit i) \<longleftrightarrow>
      (\<exists>k \<le> ?w. ?hit (int k) \<or> ?hit (- int k))" (is "?L \<longleftrightarrow> ?R")
  proof
    assume ?L
    then obtain i where i: "- int ?w \<le> i" "i \<le> int ?w" "?hit i" by auto
    then have "nat \<bar>i\<bar> \<le> ?w" "i = int (nat \<bar>i\<bar>) \<or> i = - int (nat \<bar>i\<bar>)" by linarith+
    with i(3) show ?R by metis
  next
    assume ?R
    then obtain k where "k \<le> ?w" and "?hit (int k) \<or> ?hit (- int k)" by blast
    moreover from \<open>k \<le> ?w\<close> have "int k \<in> {- int ?w..<- int ?w + int (nat (2 * int ?w + 1))}"
      "- int k \<in> {- int ?w..<- int ?w + int (nat (2 * int ?w + 1))}"
      unfolding atLeastLessThan_iff by linarith+
    ultimately show ?L by blast
  qed
  also have "\<dots> \<longleftrightarrow> (\<exists>k \<le> ?w. totp_code_at hmac cfg (t + of_nat (k * ?p)) = code \<or>
      (k * ?p \<le> unat t \<and> totp_code_at hmac cfg (t - of_nat (k * ?p)) = code))"
  proof (intro ex_cong1 conj_cong refl)
    fix k assume "k \<le> ?w"
    then have "?hit (- int k) \<longleftrightarrow> (k * ?p \<le> unat t \<and> totp_code_at hmac cfg (t - of_nat (k * ?p)) = code)"
      using totp_adjusted_past [of k cfg t] totp_adjusted_future [of cfg t 0] assms(2) by (cases k) auto
    then show "?hit (int k) \<or> ?hit (- int k) \<longleftrightarrow> totp_code_at hmac cfg (t + of_nat (k * ?p)) = code \<or>
        (k * ?p \<le> unat t \<and> totp_code_at hmac cfg (t - of_nat (k * ?p)) = code)"
      by (simp add: totp_adjusted_future del: of_nat_mult)
  qed
  finally show ?thesis
    using sec by (simp only: totp_verify_def option.case if_False Let_def w totp_verify_loop_match [OF assms(1)])
qed

text \<open>
  The acceptance window. For a window of at most 2^31 - 1 periods, verification succeeds without
  an error, and it reports a match exactly when the presented code is the one of the current
  time, of at most \<open>window\<close> periods later, or of at most \<open>window\<close> periods earlier but not
  before the epoch.
\<close>

theorem totp_verify_window:
  assumes "\<And>t. \<exists>code. totp_compute hmac (Some cfg) t = (ESP_OK, Some code)"
    and "unat window < 2 ^ 31"
  shows "totp_verify hmac (Some cfg) t window code =
    (ESP_OK, \<exists>k \<le> unat window.
       totp_code_at hmac cfg (t + of_nat (k * unat (totp_period_s cfg))) = code \<or>
       (k * unat (totp_period_s cfg) \<le> unat t \<and>
        totp_code_at hmac cfg (t - of_nat (k * unat (totp_period_s cfg))) = code))"
  using assms by (rule totp_verify_iff)

theorem totp_verify_window_witness:
  "totp_verify (\<lambda>k m. Some (replicate 20 0)) (Some \<lparr>totp_secret = Some [1], totp_period_s = 30, totp_digits = 6\<rparr>)
     100 1 0 = (ESP_OK, True)"
proof -
  let ?cfg = "\<lparr>totp_secret = Some [1], totp_period_s = 30, totp_digits = 6 :: u8\<rparr>"
  let ?h = "\<lambda>(k :: bytes) (m :: bytes). Some (replicate 20 (0 :: u8))"
  have ok: "\<exists>code. totp_compute ?h (Some ?cfg) t = (ESP_OK, Some code)" for t
    by (simp add: totp_compute_def totp_valid_cfg_def Let_def)
  have "totp_truncate (replicate 20 0) = 0" by code_simp
  then have "totp_code_at ?h ?cfg t = 0" for t
    by (simp add: totp_code_at_def totp_compute_def totp_valid_cfg_def Let_def)
  then show ?thesis
    using totp_verify_window [where hmac = ?h and cfg = ?cfg and t = 100 and window = 1 and code = 0, OF ok] by auto
qed

end
