(* ===== verification/WsSecurity.thy ===== *)
theory WsSecurity
  imports Totp
begin

text \<open>
  Security of the WebSocket link, \<^verbatim>\<open>common/net/ws_security.c\<close>: key derivation, the
  encrypted frame (version, flags, counter, IV, ciphertext, tag), the replay counter, the
  handshake signature and the one-time password of a session. The primitives of mbedTLS are
  the fields of a record \<open>crypto\<close>, an argument of the operations; \<open>None\<close> is a return code
  other than 0. The locale \<open>replay_guard\<close> is the contract a receiver relies on.
\<close>

section \<open>Receivers with a counter\<close>

text \<open>
  A receiver accepts or rejects a message in the state of a counter. \<open>guard_run\<close> feeds it a
  sequence of messages and collects those it accepted.
\<close>

fun guard_run :: "('m \<Rightarrow> 'c \<Rightarrow> ('p \<times> 'c) option) \<Rightarrow> 'm list \<Rightarrow> 'c \<Rightarrow> 'm list \<times> 'c" where
  "guard_run accept [] c = ([], c)"
| "guard_run accept (m # ms) c =
     (case accept m c of
        None \<Rightarrow> guard_run accept ms c
      | Some (p, c') \<Rightarrow> (let (as, c'') = guard_run accept ms c' in (m # as, c'')))"

locale replay_guard =
  fixes accept :: "'m \<Rightarrow> 'c::linorder \<Rightarrow> ('p \<times> 'c) option"
    and counter :: "'m \<Rightarrow> 'c"
  assumes accept_advances: "accept m c = Some (p, c') \<Longrightarrow> c < c' \<and> c' = counter m"
begin

lemma run_increasing:
  "guard_run accept ms c = (as, c') \<Longrightarrow>
    sorted_wrt (<) (c # map counter as) \<and> c' = last (c # map counter as)"
proof (induction ms arbitrary: c c' as)
  case Nil
  then show ?case by simp
next
  case (Cons m ms)
  show ?case
  proof (cases "accept m c")
    case None
    with Cons show ?thesis by simp
  next
    case (Some r)
    obtain p d where r: "r = (p, d)" by fastforce
    obtain bs e where b: "guard_run accept ms d = (bs, e)" by fastforce
    from accept_advances [of m c p d] Some r have "c < d" "d = counter m" by auto
    with Cons.IH [OF b] Cons.prems Some r b show ?thesis by (auto intro: less_trans)
  qed
qed

lemma run_distinct:
  assumes "guard_run accept ms c = (as, c')"
  shows "distinct as"
proof -
  have "sorted_wrt (<) (map counter as)" using run_increasing [OF assms] by simp
  then have "distinct (map counter as)" by (simp add: strict_sorted_iff)
  then show ?thesis by (simp add: distinct_map)
qed

lemma no_second_acceptance:
  assumes "accept m c = Some (p, c')" and "guard_run accept ms c' = (as, c'')"
  shows "accept m c'' = None"
proof (cases "accept m c''")
  case (Some r)
  obtain q d where r: "r = (q, d)" by fastforce
  have "c'' < counter m" using accept_advances [of m c'' q d] Some r by auto
  moreover have "counter m \<le> c''"
    using accept_advances [OF assms(1)] run_increasing [OF assms(2)]
    by (cases as rule: rev_cases) (auto simp: sorted_wrt_append)
  ultimately show ?thesis by simp
qed simp

end

section \<open>The context\<close>

definition WS_SECURITY_VERSION :: u8 where "WS_SECURITY_VERSION = 1"
definition WS_SECURITY_IV_LEN :: nat where "WS_SECURITY_IV_LEN = 12"
definition WS_SECURITY_TAG_LEN :: nat where "WS_SECURITY_TAG_LEN = 16"
definition WS_SECURITY_COUNTER_LEN :: nat where "WS_SECURITY_COUNTER_LEN = 8"
definition WS_SECURITY_FIXED_HEADER_LEN :: nat where
  "WS_SECURITY_FIXED_HEADER_LEN = 1 + 1 + WS_SECURITY_COUNTER_LEN"
definition WS_SECURITY_HEADER_LEN :: nat where
  "WS_SECURITY_HEADER_LEN = WS_SECURITY_FIXED_HEADER_LEN + WS_SECURITY_IV_LEN"
definition WS_SECURITY_NONCE_LEN :: nat where "WS_SECURITY_NONCE_LEN = 16"

lemmas ws_security_lens = WS_SECURITY_IV_LEN_def WS_SECURITY_TAG_LEN_def WS_SECURITY_COUNTER_LEN_def
  WS_SECURITY_FIXED_HEADER_LEN_def WS_SECURITY_HEADER_LEN_def WS_SECURITY_NONCE_LEN_def

text \<open>AES-GCM takes key, IV and associated data; encryption returns ciphertext and tag.\<close>

record crypto =
  gcm_encrypt :: "bytes \<Rightarrow> bytes \<Rightarrow> bytes \<Rightarrow> bytes \<Rightarrow> (bytes \<times> bytes) option"
  gcm_decrypt :: "bytes \<Rightarrow> bytes \<Rightarrow> bytes \<Rightarrow> bytes \<Rightarrow> bytes \<Rightarrow> bytes option"
  hmac_sha256 :: "bytes \<Rightarrow> bytes \<Rightarrow> bytes option"
  hmac_sha1 :: hmac_sha1

record ws_security_config_t =
  wsc_secret :: "bytes option"
  wsc_enable_encryption :: bool
  wsc_enable_handshake :: bool
  wsc_enable_totp :: bool
  wsc_totp_secret :: "bytes option"
  wsc_totp_period_s :: u32
  wsc_totp_digits :: u8
  wsc_totp_window :: u32

record ws_security_context_t =
  sec_handshake_enabled :: bool
  sec_encryption_enabled :: bool
  sec_totp_enabled :: bool
  sec_handshake_key :: bytes
  sec_frame_key :: bytes
  sec_tx_counter :: u64
  sec_totp_secret :: bytes
  sec_totp_period_s :: u32
  sec_totp_digits :: u8
  sec_totp_window :: u32

definition ws_security_zero :: ws_security_context_t where
  "ws_security_zero =
     \<lparr>sec_handshake_enabled = False, sec_encryption_enabled = False, sec_totp_enabled = False,
      sec_handshake_key = replicate 32 0, sec_frame_key = replicate 32 0, sec_tx_counter = 0,
      sec_totp_secret = [], sec_totp_period_s = 0, sec_totp_digits = 0, sec_totp_window = 0\<rparr>"

definition derive_key :: "crypto \<Rightarrow> bytes option \<Rightarrow> string \<Rightarrow> nat \<Rightarrow> esp_err \<times> bytes option" where
  "derive_key cr secret label out_len =
     (case secret of
        None \<Rightarrow> (ESP_ERR_INVALID_ARG, None)
      | Some s \<Rightarrow>
          if s = [] \<or> out_len = 0 then (ESP_ERR_INVALID_ARG, None)
          else (case hmac_sha256 cr s (bytes_of label) of
                  None \<Rightarrow> (ESP_FAIL, None)
                | Some digest \<Rightarrow>
                    if out_len > 32 then (ESP_ERR_INVALID_SIZE, None)
                    else (ESP_OK, Some (take out_len digest))))"

text \<open>
  The three feature blocks of \<^verbatim>\<open>ws_security_context_init\<close>, each an early return on error.
\<close>

definition init_handshake :: "crypto \<Rightarrow> ws_security_config_t \<Rightarrow> ws_security_context_t \<Rightarrow> esp_err \<times> ws_security_context_t" where
  "init_handshake cr config ctx =
     (if wsc_enable_handshake config then
        (case derive_key cr (wsc_secret config) ''ws-handshake'' 32 of
           (ESP_OK, Some key) \<Rightarrow> (ESP_OK, ctx\<lparr>sec_handshake_key := key, sec_handshake_enabled := True\<rparr>)
         | (err, _) \<Rightarrow> (err, ctx))
      else (ESP_OK, ctx))"

definition init_encryption :: "crypto \<Rightarrow> ws_security_config_t \<Rightarrow> ws_security_context_t \<Rightarrow> esp_err \<times> ws_security_context_t" where
  "init_encryption cr config ctx =
     (if wsc_enable_encryption config then
        (case derive_key cr (wsc_secret config) ''ws-frame'' 32 of
           (ESP_OK, Some key) \<Rightarrow>
             (ESP_OK, ctx\<lparr>sec_frame_key := key, sec_encryption_enabled := True, sec_tx_counter := 0\<rparr>)
         | (err, _) \<Rightarrow> (err, ctx))
      else (ESP_OK, ctx))"

definition init_totp :: "ws_security_config_t \<Rightarrow> ws_security_context_t \<Rightarrow> esp_err \<times> ws_security_context_t" where
  "init_totp config ctx =
     (if wsc_enable_totp config then
        (case wsc_totp_secret config of
           None \<Rightarrow> (ESP_ERR_INVALID_ARG, ctx)
         | Some s \<Rightarrow>
             if s = [] \<or> length s > 64 then (ESP_ERR_INVALID_ARG, ctx)
             else if wsc_totp_digits config < 6 \<or> wsc_totp_digits config > 8 \<or> wsc_totp_period_s config = 0
             then (ESP_ERR_INVALID_ARG, ctx)
             else (ESP_OK, ctx\<lparr>sec_totp_secret := s, sec_totp_digits := wsc_totp_digits config,
                     sec_totp_period_s := wsc_totp_period_s config,
                     sec_totp_window := wsc_totp_window config, sec_totp_enabled := True\<rparr>))
      else (ESP_OK, ctx))"

definition ws_security_context_init ::
    "crypto \<Rightarrow> ws_security_config_t option \<Rightarrow> esp_err \<times> ws_security_context_t" where
  "ws_security_context_init cr configp =
     (case configp of
        None \<Rightarrow> (ESP_OK, ws_security_zero)
      | Some config \<Rightarrow>
          if (wsc_secret config = None \<or> wsc_secret config = Some []) \<and>
             (wsc_enable_encryption config \<or> wsc_enable_handshake config)
          then (ESP_ERR_INVALID_ARG, ws_security_zero)
          else
            (case init_handshake cr config ws_security_zero of
               (ESP_OK, ctx) \<Rightarrow>
                 (case init_encryption cr config ctx of
                    (ESP_OK, ctx) \<Rightarrow> init_totp config ctx
                  | (err, ctx) \<Rightarrow> (err, ctx))
             | (err, ctx) \<Rightarrow> (err, ctx)))"

section \<open>Frames\<close>

definition ws_security_encrypted_size :: "ws_security_context_t option \<Rightarrow> nat \<Rightarrow> nat" where
  "ws_security_encrypted_size ctxp plaintext_len =
     (case ctxp of
        None \<Rightarrow> plaintext_len
      | Some ctx \<Rightarrow>
          if \<not> sec_encryption_enabled ctx then plaintext_len
          else WS_SECURITY_HEADER_LEN + plaintext_len + WS_SECURITY_TAG_LEN)"

definition ws_security_fixed_header :: "u64 \<Rightarrow> bytes" where
  "ws_security_fixed_header counter = [WS_SECURITY_VERSION, 0] @ le_bytes 8 counter"

text \<open>
  \<^verbatim>\<open>ws_security_encrypt\<close>: the bytes written to \<open>out\<close> on success and the context after the
  call. \<open>iv\<close> is what \<^verbatim>\<open>esp_fill_random\<close> delivers for this frame.
\<close>

definition ws_security_encrypt ::
    "crypto \<Rightarrow> bytes \<Rightarrow> ws_security_context_t \<Rightarrow> bytes \<Rightarrow> nat \<Rightarrow> esp_err \<times> bytes option \<times> ws_security_context_t" where
  "ws_security_encrypt cr iv ctx plaintext out_size =
     (if \<not> sec_encryption_enabled ctx then
        (if out_size < length plaintext then (ESP_ERR_NO_MEM, None, ctx)
         else (ESP_OK, Some plaintext, ctx))
      else
        let required = ws_security_encrypted_size (Some ctx) (length plaintext) in
        if out_size < required then (ESP_ERR_NO_MEM, None, ctx)
        else
          let counter = sec_tx_counter ctx + 1;
              ctx' = ctx\<lparr>sec_tx_counter := counter\<rparr>;
              header = ws_security_fixed_header counter
          in case gcm_encrypt cr (sec_frame_key ctx') iv header plaintext of
               None \<Rightarrow> (ESP_FAIL, None, ctx')
             | Some (ciphertext, tag) \<Rightarrow> (ESP_OK, Some (header @ iv @ ciphertext @ tag), ctx'))"

definition frame_counter :: "bytes \<Rightarrow> u64" where
  "frame_counter buffer = le_word (take WS_SECURITY_COUNTER_LEN (drop 2 buffer))"

text \<open>
  The part of \<^verbatim>\<open>ws_security_decrypt\<close> for an encrypted frame. The counter state is a pointer
  that may be NULL. The result is the plaintext moved to the front of the buffer.
\<close>

definition ws_security_open_frame ::
    "crypto \<Rightarrow> ws_security_context_t \<Rightarrow> bytes \<Rightarrow> u64 option \<Rightarrow> esp_err \<times> bytes \<times> u64 option" where
  "ws_security_open_frame cr ctx buffer counter_state =
     (if length buffer < WS_SECURITY_HEADER_LEN + WS_SECURITY_TAG_LEN then (ESP_ERR_INVALID_SIZE, [], counter_state)
      else if buffer ! 0 \<noteq> WS_SECURITY_VERSION then (ESP_ERR_INVALID_VERSION, [], counter_state)
      else if buffer ! 1 \<noteq> 0 then (ESP_ERR_INVALID_STATE, [], counter_state)
      else
        let counter = frame_counter buffer in
        if (case counter_state of None \<Rightarrow> False | Some seen \<Rightarrow> counter \<le> seen)
        then (ESP_ERR_INVALID_RESPONSE, [], counter_state)
        else
          let ciphertext_len = length buffer - WS_SECURITY_HEADER_LEN - WS_SECURITY_TAG_LEN;
              header = take WS_SECURITY_FIXED_HEADER_LEN buffer;
              iv = take WS_SECURITY_IV_LEN (drop WS_SECURITY_FIXED_HEADER_LEN buffer);
              ciphertext = take ciphertext_len (drop WS_SECURITY_HEADER_LEN buffer);
              tag = take WS_SECURITY_TAG_LEN (drop (WS_SECURITY_HEADER_LEN + ciphertext_len) buffer)
          in case gcm_decrypt cr (sec_frame_key ctx) iv header ciphertext tag of
               None \<Rightarrow> (ESP_ERR_INVALID_RESPONSE, [], counter_state)
             | Some plaintext \<Rightarrow> (ESP_OK, plaintext, map_option (\<lambda>_. counter) counter_state))"

definition ws_security_decrypt ::
    "crypto \<Rightarrow> ws_security_context_t option \<Rightarrow> bytes option \<Rightarrow> u64 option \<Rightarrow> esp_err \<times> bytes \<times> u64 option" where
  "ws_security_decrypt cr ctxp bufferp counter_state =
     (case (ctxp, bufferp) of
        (Some ctx, Some buffer) \<Rightarrow>
          if \<not> sec_encryption_enabled ctx then (ESP_OK, buffer, counter_state)
          else ws_security_open_frame cr ctx buffer counter_state
      | _ \<Rightarrow> (ESP_ERR_INVALID_ARG, [], counter_state))"

section \<open>Handshake and one-time password\<close>

definition handshake_hmac ::
    "crypto \<Rightarrow> ws_security_context_t option \<Rightarrow> bytes option \<Rightarrow> string option \<Rightarrow> nat \<Rightarrow> esp_err \<times> bytes" where
  "handshake_hmac cr ctxp noncep auth_token signature_len =
     (case (ctxp, noncep, auth_token) of
        (Some ctx, Some nonce, Some token) \<Rightarrow>
          if nonce = [] \<or> signature_len < 32 then (ESP_ERR_INVALID_ARG, [])
          else if \<not> sec_handshake_enabled ctx then (ESP_ERR_INVALID_STATE, [])
          else (case hmac_sha256 cr (sec_handshake_key ctx) (nonce @ bytes_of token) of
                  None \<Rightarrow> (ESP_FAIL, [])
                | Some signature \<Rightarrow> (ESP_OK, signature))
      | _ \<Rightarrow> (ESP_ERR_INVALID_ARG, []))"

definition ws_security_compute_handshake_signature ::
    "crypto \<Rightarrow> ws_security_context_t option \<Rightarrow> bytes option \<Rightarrow> string option \<Rightarrow> nat \<Rightarrow> esp_err \<times> bytes" where
  "ws_security_compute_handshake_signature cr ctxp noncep auth_token signature_len =
     handshake_hmac cr ctxp noncep auth_token signature_len"

definition ws_security_verify_handshake ::
    "crypto \<Rightarrow> ws_security_context_t option \<Rightarrow> bytes option \<Rightarrow> string option \<Rightarrow> bytes option \<Rightarrow> esp_err" where
  "ws_security_verify_handshake cr ctxp noncep auth_token signaturep =
     (case signaturep of
        None \<Rightarrow> ESP_ERR_INVALID_ARG
      | Some signature \<Rightarrow>
          if length signature < 32 then ESP_ERR_INVALID_ARG
          else (case handshake_hmac cr ctxp noncep auth_token 32 of
                  (ESP_OK, expected) \<Rightarrow>
                    if take 32 expected \<noteq> take 32 signature then ESP_ERR_INVALID_RESPONSE else ESP_OK
                | (err, _) \<Rightarrow> err))"

definition ws_security_is_encryption_enabled :: "ws_security_context_t option \<Rightarrow> bool" where
  "ws_security_is_encryption_enabled ctxp = (case ctxp of None \<Rightarrow> False | Some ctx \<Rightarrow> sec_encryption_enabled ctx)"

definition ws_security_is_handshake_enabled :: "ws_security_context_t option \<Rightarrow> bool" where
  "ws_security_is_handshake_enabled ctxp = (case ctxp of None \<Rightarrow> False | Some ctx \<Rightarrow> sec_handshake_enabled ctx)"

definition ws_security_is_totp_enabled :: "ws_security_context_t option \<Rightarrow> bool" where
  "ws_security_is_totp_enabled ctxp = (case ctxp of None \<Rightarrow> False | Some ctx \<Rightarrow> sec_totp_enabled ctx)"

definition ws_security_totp_digits :: "ws_security_context_t option \<Rightarrow> u8" where
  "ws_security_totp_digits ctxp =
     (case ctxp of None \<Rightarrow> 0 | Some ctx \<Rightarrow> if sec_totp_enabled ctx then sec_totp_digits ctx else 0)"

definition ws_security_reset_counters :: "ws_security_context_t option \<Rightarrow> ws_security_context_t option" where
  "ws_security_reset_counters ctxp = map_option (\<lambda>ctx. ctx\<lparr>sec_tx_counter := 0\<rparr>) ctxp"

definition ws_security_totp_cfg :: "ws_security_context_t \<Rightarrow> totp_config_t" where
  "ws_security_totp_cfg ctx =
     \<lparr>totp_secret = Some (sec_totp_secret ctx), totp_period_s = sec_totp_period_s ctx,
      totp_digits = sec_totp_digits ctx\<rparr>"

definition ws_security_compute_totp ::
    "crypto \<Rightarrow> ws_security_context_t option \<Rightarrow> u64 \<Rightarrow> esp_err \<times> u32 option" where
  "ws_security_compute_totp cr ctxp unix_time =
     (case ctxp of
        None \<Rightarrow> (ESP_ERR_INVALID_STATE, None)
      | Some ctx \<Rightarrow>
          if \<not> sec_totp_enabled ctx then (ESP_ERR_INVALID_STATE, None)
          else totp_compute (hmac_sha1 cr) (Some (ws_security_totp_cfg ctx)) unix_time)"

definition ws_security_verify_totp ::
    "crypto \<Rightarrow> ws_security_context_t option \<Rightarrow> u64 \<Rightarrow> u32 \<Rightarrow> esp_err \<times> bool" where
  "ws_security_verify_totp cr ctxp unix_time code =
     (case ctxp of
        None \<Rightarrow> (ESP_ERR_INVALID_STATE, False)
      | Some ctx \<Rightarrow>
          if \<not> sec_totp_enabled ctx then (ESP_ERR_INVALID_STATE, False)
          else totp_verify (hmac_sha1 cr) (Some (ws_security_totp_cfg ctx)) unix_time (sec_totp_window ctx) code)"

section \<open>Initialisation\<close>

text \<open>What a context promises once it is initialised without an error.\<close>

definition ws_security_inv :: "ws_security_context_t \<Rightarrow> bool" where
  "ws_security_inv ctx \<longleftrightarrow>
     (sec_totp_enabled ctx \<longrightarrow> totp_valid_cfg (ws_security_totp_cfg ctx) \<and> length (sec_totp_secret ctx) \<le> 64)"

lemma derive_key_some [simp]: "derive_key cr secret label n \<noteq> (ESP_OK, None)"
  by (auto simp: derive_key_def split: option.splits)

lemma init_handshakeE:
  assumes "init_handshake cr config ctx = (ESP_OK, ctx')"
  obtains "\<not> wsc_enable_handshake config" "ctx' = ctx"
  | key where "wsc_enable_handshake config" "derive_key cr (wsc_secret config) ''ws-handshake'' 32 = (ESP_OK, Some key)"
      "ctx' = ctx\<lparr>sec_handshake_key := key, sec_handshake_enabled := True\<rparr>"
  using assms by (auto simp: init_handshake_def split: if_splits prod.splits esp_err.splits option.splits)

lemma init_encryptionE:
  assumes "init_encryption cr config ctx = (ESP_OK, ctx')"
  obtains "\<not> wsc_enable_encryption config" "ctx' = ctx"
  | key where "wsc_enable_encryption config" "derive_key cr (wsc_secret config) ''ws-frame'' 32 = (ESP_OK, Some key)"
      "ctx' = ctx\<lparr>sec_frame_key := key, sec_encryption_enabled := True, sec_tx_counter := 0\<rparr>"
  using assms by (auto simp: init_encryption_def split: if_splits prod.splits esp_err.splits option.splits)

lemma init_totpE:
  assumes "init_totp config ctx = (ESP_OK, ctx')"
  obtains "\<not> wsc_enable_totp config" "ctx' = ctx"
  | s where "wsc_enable_totp config" "wsc_totp_secret config = Some s" "s \<noteq> []" "length s \<le> 64"
      "6 \<le> wsc_totp_digits config" "wsc_totp_digits config \<le> 8" "wsc_totp_period_s config \<noteq> 0"
      "ctx' = ctx\<lparr>sec_totp_secret := s, sec_totp_digits := wsc_totp_digits config,
         sec_totp_period_s := wsc_totp_period_s config, sec_totp_window := wsc_totp_window config, sec_totp_enabled := True\<rparr>"
  using assms by (auto simp: init_totp_def not_less split: if_splits option.splits)

lemma ws_security_context_initE:
  assumes "ws_security_context_init cr (Some config) = (ESP_OK, ctx)"
  obtains c1 c2 where "init_handshake cr config ws_security_zero = (ESP_OK, c1)"
    "init_encryption cr config c1 = (ESP_OK, c2)" "init_totp config c2 = (ESP_OK, ctx)"
  using assms
  by (auto simp: ws_security_context_init_def split: if_splits prod.splits esp_err.splits)

lemma ws_security_context_init_ok:
  assumes "ws_security_context_init cr (Some config) = (ESP_OK, ctx)"
  shows "sec_handshake_enabled ctx = wsc_enable_handshake config \<and>
    sec_encryption_enabled ctx = wsc_enable_encryption config \<and>
    sec_totp_enabled ctx = wsc_enable_totp config \<and> sec_tx_counter ctx = 0 \<and> ws_security_inv ctx"
  using assms
  by (elim ws_security_context_initE init_handshakeE init_encryptionE init_totpE)
    (auto simp: ws_security_zero_def ws_security_inv_def totp_valid_cfg_def ws_security_totp_cfg_def not_less)

text \<open>
  A context is initialised to exactly the features configured: on success each feature flag
  equals its request, the transmit counter is 0, and an enabled one-time password has a
  usable configuration, so that computing a code never reports an invalid argument.
\<close>

theorem ws_security_context_init_features:
  assumes "ws_security_context_init cr (Some config) = (ESP_OK, ctx)"
  shows "sec_handshake_enabled ctx = wsc_enable_handshake config \<and>
    sec_encryption_enabled ctx = wsc_enable_encryption config \<and>
    sec_totp_enabled ctx = wsc_enable_totp config \<and> sec_tx_counter ctx = 0 \<and> ws_security_inv ctx"
  using assms by (rule ws_security_context_init_ok)

definition demo_crypto :: crypto where
  "demo_crypto = \<lparr>gcm_encrypt = (\<lambda>k iv aad p. Some (map (\<lambda>b. b XOR 0x5A) p, replicate 16 7)),
     gcm_decrypt = (\<lambda>k iv aad c t. if t = replicate 16 7 then Some (map (\<lambda>b. b XOR 0x5A) c) else None),
     hmac_sha256 = (\<lambda>k m. Some (replicate 32 (of_nat (length m)))),
     hmac_sha1 = (\<lambda>k m. Some (replicate 20 0))\<rparr>"

definition demo_config :: ws_security_config_t where
  "demo_config = \<lparr>wsc_secret = Some [1, 2, 3], wsc_enable_encryption = True, wsc_enable_handshake = True,
     wsc_enable_totp = True, wsc_totp_secret = Some [9], wsc_totp_period_s = 30, wsc_totp_digits = 6,
     wsc_totp_window = 1\<rparr>"

definition demo_ctx :: ws_security_context_t where
  "demo_ctx = snd (ws_security_context_init demo_crypto (Some demo_config))"

lemma demo_init: "ws_security_context_init demo_crypto (Some demo_config) = (ESP_OK, demo_ctx)"
  by (simp add: demo_ctx_def ws_security_context_init_def demo_config_def init_handshake_def init_encryption_def
      init_totp_def derive_key_def demo_crypto_def)

theorem ws_security_context_init_features_witness:
  "sec_encryption_enabled demo_ctx \<and> ws_security_inv demo_ctx"
  using ws_security_context_init_features [OF demo_init] by (simp add: demo_config_def)

section \<open>Frames: round trip\<close>

text \<open>
  The documented behaviour of AES-GCM: encryption keeps the length and makes a tag of 16
  bytes, and authenticated decryption with the same key, IV and data returns the plaintext.
\<close>

definition gcm_correct :: "crypto \<Rightarrow> bool" where
  "gcm_correct cr \<longleftrightarrow> (\<forall>key iv aad p. \<exists>c t. gcm_encrypt cr key iv aad p = Some (c, t) \<and>
     length c = length p \<and> length t = 16 \<and> gcm_decrypt cr key iv aad c t = Some p)"

lemma gcm_correctE:
  assumes "gcm_correct cr"
  obtains c t where "gcm_encrypt cr key iv aad p = Some (c, t)" "length c = length p" "length t = 16"
    "gcm_decrypt cr key iv aad c t = Some p"
  using assms unfolding gcm_correct_def by blast

lemma gcm_correct_demo: "gcm_correct demo_crypto"
  by (auto simp: gcm_correct_def demo_crypto_def comp_def xor.assoc)

lemma length_fixed_header [simp]: "length (ws_security_fixed_header c) = 10"
  by (simp add: ws_security_fixed_header_def)

lemma frame_counter_fixed_header [simp]: "frame_counter (ws_security_fixed_header c @ rest) = c"
  by (simp add: frame_counter_def ws_security_fixed_header_def ws_security_lens)

lemma fixed_header_bytes [simp]:
  "(ws_security_fixed_header c @ rest) ! 0 = WS_SECURITY_VERSION" "(ws_security_fixed_header c @ rest) ! 1 = 0"
  by (simp_all add: ws_security_fixed_header_def)

lemma ws_security_open_frame_fixed:
  assumes "length iv = 12" and "length t = 16" and "gcm_decrypt cr (sec_frame_key ctx) iv (ws_security_fixed_header n) c t = Some p"
    and "\<And>seen. cs = Some seen \<Longrightarrow> seen < n"
  shows "ws_security_open_frame cr ctx (ws_security_fixed_header n @ iv @ c @ t) cs = (ESP_OK, p, map_option (\<lambda>_. n) cs)"
proof -
  have "\<not> (case cs of None \<Rightarrow> False | Some seen \<Rightarrow> n \<le> seen)" using assms(4) by (auto split: option.split)
  with assms(1-3) show ?thesis
    by (simp add: ws_security_open_frame_def ws_security_lens Let_def del: One_nat_def)
qed

lemma ws_security_encrypt_open:
  assumes "gcm_correct cr" and "sec_encryption_enabled ctx" and "length iv = 12"
    and "38 + length p \<le> out_size" and "\<And>seen. cs = Some seen \<Longrightarrow> seen < sec_tx_counter ctx + 1"
  obtains frame where
    "ws_security_encrypt cr iv ctx p out_size = (ESP_OK, Some frame, ctx\<lparr>sec_tx_counter := sec_tx_counter ctx + 1\<rparr>)"
    "length frame = 38 + length p"
    "ws_security_decrypt cr (Some ctx) (Some frame) cs = (ESP_OK, p, map_option (\<lambda>_. sec_tx_counter ctx + 1) cs)"
proof -
  let ?h = "ws_security_fixed_header (sec_tx_counter ctx + 1)"
  obtain c t where g: "gcm_encrypt cr (sec_frame_key ctx) iv ?h p = Some (c, t)" "length c = length p" "length t = 16"
    "gcm_decrypt cr (sec_frame_key ctx) iv ?h c t = Some p"
    using gcm_correctE [OF assms(1)] by blast
  show thesis
  proof (rule that [of "?h @ iv @ c @ t"])
    show "ws_security_encrypt cr iv ctx p out_size =
        (ESP_OK, Some (?h @ iv @ c @ t), ctx\<lparr>sec_tx_counter := sec_tx_counter ctx + 1\<rparr>)"
      using g assms by (simp add: ws_security_encrypt_def ws_security_encrypted_size_def ws_security_lens Let_def)
    show "length (?h @ iv @ c @ t) = 38 + length p" using g assms by simp
    show "ws_security_decrypt cr (Some ctx) (Some (?h @ iv @ c @ t)) cs = (ESP_OK, p, map_option (\<lambda>_. sec_tx_counter ctx + 1) cs)"
      using ws_security_open_frame_fixed [OF assms(3) g(3,4) assms(5)] assms(2) by (simp add: ws_security_decrypt_def)
  qed
qed

text \<open>A sender that encrypts a list of messages, each with its IV, in buffers that fit.\<close>

fun ws_security_encrypt_all ::
    "crypto \<Rightarrow> (bytes \<times> bytes) list \<Rightarrow> ws_security_context_t \<Rightarrow> bytes list \<times> ws_security_context_t" where
  "ws_security_encrypt_all cr [] ctx = ([], ctx)"
| "ws_security_encrypt_all cr ((iv, p) # msgs) ctx =
     (case ws_security_encrypt cr iv ctx p (ws_security_encrypted_size (Some ctx) (length p)) of
        (ESP_OK, Some frame, ctx') \<Rightarrow>
          (let (frames, ctx'') = ws_security_encrypt_all cr msgs ctx' in (frame # frames, ctx''))
      | (_, _, ctx') \<Rightarrow> ws_security_encrypt_all cr msgs ctx')"

fun ws_security_decrypt_all ::
    "crypto \<Rightarrow> ws_security_context_t \<Rightarrow> bytes list \<Rightarrow> u64 \<Rightarrow> bytes list \<times> u64" where
  "ws_security_decrypt_all cr ctx [] counter = ([], counter)"
| "ws_security_decrypt_all cr ctx (f # fs) counter =
     (case ws_security_decrypt cr (Some ctx) (Some f) (Some counter) of
        (ESP_OK, p, Some counter') \<Rightarrow>
          (let (ps, counter'') = ws_security_decrypt_all cr ctx fs counter' in (p # ps, counter''))
      | _ \<Rightarrow> ws_security_decrypt_all cr ctx fs counter)"

lemma ws_security_decrypt_key:
  "sec_frame_key ctx' = sec_frame_key ctx \<Longrightarrow> sec_encryption_enabled ctx' = sec_encryption_enabled ctx \<Longrightarrow>
    ws_security_decrypt cr (Some ctx') f cs = ws_security_decrypt cr (Some ctx) f cs"
  by (auto simp: ws_security_decrypt_def ws_security_open_frame_def Let_def split: option.splits)

lemma ws_security_decrypt_all_key:
  "sec_frame_key ctx' = sec_frame_key ctx \<Longrightarrow> sec_encryption_enabled ctx' = sec_encryption_enabled ctx \<Longrightarrow>
    ws_security_decrypt_all cr ctx' fs c = ws_security_decrypt_all cr ctx fs c"
  by (induction fs arbitrary: c)
    (auto simp: ws_security_decrypt_key [of ctx' ctx] split: prod.splits esp_err.splits option.splits)

text \<open>
  C12. A session delivers every message. A sender and a receiver that share the frame key and
  agree on the counter lose nothing: the frames of any list of messages, decrypted in order,
  give back exactly the messages, as long as the 64-bit counter does not wrap.
\<close>

theorem ws_security_session_delivers:
  assumes "gcm_correct cr" and "sec_encryption_enabled ctx"
    and "\<forall>(iv, p) \<in> set msgs. length iv = 12"
    and "unat (sec_tx_counter ctx) + length msgs < 2 ^ 64"
  shows "fst (ws_security_decrypt_all cr ctx (fst (ws_security_encrypt_all cr msgs ctx)) (sec_tx_counter ctx)) = map snd msgs"
  using assms(2-4)
proof (induction msgs arbitrary: ctx)
  case Nil
  then show ?case by simp
next
  case (Cons m msgs)
  obtain iv p where m: "m = (iv, p)" by fastforce
  let ?n = "sec_tx_counter ctx" and ?ctx = "ctx\<lparr>sec_tx_counter := sec_tx_counter ctx + 1\<rparr>"
  have n: "unat (?n + 1) = unat ?n + 1" using Cons.prems(3) by (simp add: unat_word_ariths)
  then have less: "?n < ?n + 1" by (simp add: word_less_nat_alt)
  obtain frame where f:
    "ws_security_encrypt cr iv ctx p (38 + length p) = (ESP_OK, Some frame, ?ctx)"
    "ws_security_decrypt cr (Some ctx) (Some frame) (Some ?n) = (ESP_OK, p, Some (?n + 1))"
    using ws_security_encrypt_open [OF assms(1) Cons.prems(1), of iv p "38 + length p" "Some ?n"] Cons.prems(2) m less
    by auto
  have size: "ws_security_encrypted_size (Some ctx) (length p) = 38 + length p"
    using Cons.prems(1) by (simp add: ws_security_encrypted_size_def ws_security_lens)
  have "fst (ws_security_decrypt_all cr ?ctx (fst (ws_security_encrypt_all cr msgs ?ctx)) (?n + 1)) = map snd msgs"
    using Cons.IH [of ?ctx] Cons.prems n by simp
  then show ?case
    unfolding m using f ws_security_decrypt_all_key [of ?ctx ctx]
    by (simp add: size case_prod_unfold Let_def)
qed

theorem ws_security_session_delivers_witness:
  "fst (ws_security_decrypt_all demo_crypto demo_ctx
     (fst (ws_security_encrypt_all demo_crypto [(replicate 12 1, [1, 2]), (replicate 12 2, [3])] demo_ctx))
     (sec_tx_counter demo_ctx)) = [[1, 2], [3]]"
  using ws_security_session_delivers [of demo_crypto demo_ctx "[(replicate 12 1, [1, 2]), (replicate 12 2, [3])]"]
    gcm_correct_demo
  by (simp add: demo_ctx_def ws_security_context_init_def demo_config_def init_handshake_def init_encryption_def
      init_totp_def derive_key_def demo_crypto_def ws_security_zero_def)

section \<open>Frames: replay\<close>

text \<open>A receiver of encrypted frames, in the form of the guard.\<close>

definition open_guard :: "crypto \<Rightarrow> ws_security_context_t \<Rightarrow> bytes \<Rightarrow> u64 \<Rightarrow> (bytes \<times> u64) option" where
  "open_guard cr ctx frame counter =
     (case ws_security_open_frame cr ctx frame (Some counter) of
        (ESP_OK, p, Some counter') \<Rightarrow> Some (p, counter')
      | _ \<Rightarrow> None)"

lemma ws_security_open_frame_advances:
  "ws_security_open_frame cr ctx frame (Some c) = (ESP_OK, p, cs) \<Longrightarrow> c < frame_counter frame \<and> cs = Some (frame_counter frame)"
  by (auto simp: ws_security_open_frame_def Let_def not_le split: if_splits option.splits)

interpretation rx: replay_guard "open_guard cr ctx" frame_counter for cr ctx
  by unfold_locales
    (auto simp: open_guard_def dest: ws_security_open_frame_advances split: prod.splits esp_err.splits option.splits)

text \<open>
  C13. Replay protection. Whatever frames reach a receiver, replayed, reordered or forged, the
  frames it accepts carry strictly increasing counters above its initial one; in particular
  no frame is accepted twice.
\<close>

theorem ws_security_no_replay:
  "sorted_wrt (<) (c # map frame_counter (fst (guard_run (open_guard cr ctx) frames c))) \<and>
   distinct (fst (guard_run (open_guard cr ctx) frames c))"
proof -
  obtain as c' where r: "guard_run (open_guard cr ctx) frames c = (as, c')" by fastforce
  show ?thesis using rx.run_increasing [OF r] rx.run_distinct [OF r] r by simp
qed

section \<open>Handshake\<close>

text \<open>
  The handshake signature. With the handshake enabled, a signature verifies exactly when its
  first 32 bytes are those of the HMAC of the nonce followed by the token under the
  handshake key; the signature the other node computes for them therefore verifies.
\<close>

theorem ws_security_verify_handshake_iff:
  assumes "sec_handshake_enabled ctx" and "nonce \<noteq> []"
    and "hmac_sha256 cr (sec_handshake_key ctx) (nonce @ bytes_of token) = Some digest"
  shows "ws_security_verify_handshake cr (Some ctx) (Some nonce) (Some token) (Some signature) = ESP_OK \<longleftrightarrow>
    32 \<le> length signature \<and> take 32 signature = take 32 digest"
  using assms by (auto simp: ws_security_verify_handshake_def handshake_hmac_def)

theorem ws_security_verify_handshake_iff_witness:
  "ws_security_verify_handshake demo_crypto (Some demo_ctx) (Some [1, 2]) (Some ''tok'') (Some (replicate 32 0)) \<noteq> ESP_OK"
proof -
  have "sec_handshake_enabled demo_ctx" "hmac_sha256 demo_crypto (sec_handshake_key demo_ctx) ([1, 2] @ bytes_of ''tok'') =
      Some (replicate 32 5)"
    using ws_security_context_init_ok [OF demo_init] by (simp_all add: demo_config_def demo_crypto_def)
  from ws_security_verify_handshake_iff [OF this(1) _ this(2), of "replicate 32 0"]
  show ?thesis by simp
qed

end
