(* ===== verification/NonceCache.thy ===== *)
theory NonceCache
  imports WsSecurity
begin

text \<open>
  The parsers of the upgrade headers and the cache of handshake nonces of
  \<^verbatim>\<open>common/net/ws_server.c\<close>. The array \<^verbatim>\<open>s_nonce_cache\<close> with its \<^verbatim>\<open>s_nonce_capacity\<close> is a
  list; the pointer may be NULL. Ages are differences of 32-bit ticks and wrap.
\<close>

section \<open>Header values\<close>

definition code_of :: "char \<Rightarrow> nat" where
  "code_of c = of_char c"

definition c_tolower :: "char \<Rightarrow> nat" where
  "c_tolower c = (if 65 \<le> code_of c \<and> code_of c \<le> 90 then code_of c + 32 else code_of c)"

definition hex_value :: "char \<Rightarrow> u8" where
  "hex_value c =
     (if code_of c \<ge> 48 \<and> code_of c \<le> 57 then of_nat (code_of c - 48)
      else if c_tolower c \<ge> 97 \<and> c_tolower c \<le> 102 then of_nat (c_tolower c - 97 + 10)
      else 0xFF)"

text \<open>The loop over the pairs of digits; \<open>n\<close> bytes are still to be read.\<close>

fun parse_nonce_loop :: "nat \<Rightarrow> string \<Rightarrow> bytes option" where
  "parse_nonce_loop (Suc n) (h # l # cs) =
     (let hi = hex_value h; lo = hex_value l in
      if hi > 0x0F \<or> lo > 0x0F then None
      else map_option (Cons (push_bit 4 hi OR lo)) (parse_nonce_loop n cs))"
| "parse_nonce_loop 0 cs = Some []"
| "parse_nonce_loop (Suc n) cs = None"

definition parse_nonce_hex :: "string \<Rightarrow> bytes option" where
  "parse_nonce_hex hex = parse_nonce_loop WS_SECURITY_NONCE_LEN hex"

fun parse_decimal_loop :: "string \<Rightarrow> u32 \<Rightarrow> u32 option" where
  "parse_decimal_loop [] acc = Some acc"
| "parse_decimal_loop (c # cs) acc =
     (if \<not> (48 \<le> code_of c \<and> code_of c \<le> 57) then None
      else parse_decimal_loop cs (acc * 10 + of_nat (code_of c - 48)))"

definition parse_decimal_header :: "string \<Rightarrow> u8 \<Rightarrow> u32 option" where
  "parse_decimal_header val digits =
     (if digits < 1 \<or> digits > 8 then None
      else if length val \<noteq> unat digits then None
      else parse_decimal_loop val 0)"

lemma parse_nonce_loop_length: "parse_nonce_loop n cs = Some bs \<Longrightarrow> length bs = n"
  by (induction n cs arbitrary: bs rule: parse_nonce_loop.induct) (auto simp: Let_def split: if_splits)

lemma parse_nonce_hex_length: "parse_nonce_hex cs = Some bs \<Longrightarrow> length bs = 16"
  unfolding parse_nonce_hex_def WS_SECURITY_NONCE_LEN_def by (rule parse_nonce_loop_length)

text \<open>A decimal header never overflows: eight digits stay below 10^8.\<close>

lemma parse_decimal_loop_bound:
  "parse_decimal_loop cs acc = Some code \<Longrightarrow> (unat acc + 1) * 10 ^ length cs \<le> 2 ^ 32 \<Longrightarrow>
    unat code < (unat acc + 1) * 10 ^ length cs"
proof (induction cs arbitrary: acc)
  case Nil
  then show ?case by simp
next
  case (Cons c cs)
  define d where "d = code_of c - 48"
  have d: "d < 10" and rest: "parse_decimal_loop cs (acc * 10 + of_nat d) = Some code"
    using Cons.prems(1) by (auto simp: d_def split: if_splits)
  have le: "(unat acc * 10 + d + 1) * 10 ^ length cs \<le> (unat acc + 1) * 10 ^ length (c # cs)"
  proof -
    have "unat acc * 10 + d + 1 \<le> (unat acc + 1) * 10"
      using d by (simp add: algebra_simps)
    from mult_le_mono1 [OF this, of "10 ^ length cs"] show ?thesis by (simp only: mult.assoc list.size power_Suc add_Suc_right add_0_right)
  qed
  have "unat acc * 10 + d < 2 ^ 32"
  proof -
    have "(unat acc * 10 + d + 1) * 1 \<le> (unat acc * 10 + d + 1) * 10 ^ length cs"
      by (rule mult_le_mono2) simp
    from order_trans [OF order_trans [OF this le] Cons.prems(2)] show ?thesis by simp
  qed
  then have "unat (acc * 10 + of_nat d) = unat acc * 10 + d"
    by (simp add: unat_word_ariths unat_of_nat)
  with Cons.IH [OF rest] le Cons.prems(2) show ?case by simp
qed

section \<open>The cache\<close>

record ws_nonce_entry_t =
  nce_valid :: bool
  nce_timestamp :: tick
  nce_nonce :: bytes

definition nonce_expired :: "tick \<Rightarrow> tick \<Rightarrow> ws_nonce_entry_t \<Rightarrow> bool" where
  "nonce_expired ttl now e \<longleftrightarrow> ttl > 0 \<and> now - nce_timestamp e > ttl"

fun nonce_duplicate_loop ::
    "tick \<Rightarrow> bytes \<Rightarrow> tick \<Rightarrow> ws_nonce_entry_t list \<Rightarrow> bool \<times> ws_nonce_entry_t list" where
  "nonce_duplicate_loop ttl nonce now [] = (False, [])"
| "nonce_duplicate_loop ttl nonce now (e # es) =
     (if \<not> nce_valid e then
        (let (dup, es') = nonce_duplicate_loop ttl nonce now es in (dup, e # es'))
      else if nonce_expired ttl now e then
        (let (dup, es') = nonce_duplicate_loop ttl nonce now es in (dup, e\<lparr>nce_valid := False\<rparr> # es'))
      else if nce_nonce e = nonce then (True, e # es)
      else (let (dup, es') = nonce_duplicate_loop ttl nonce now es in (dup, e # es')))"

definition nonce_is_duplicate ::
    "ws_nonce_entry_t list option \<Rightarrow> tick \<Rightarrow> bytes \<Rightarrow> tick \<Rightarrow> bool \<times> ws_nonce_entry_t list option" where
  "nonce_is_duplicate cache ttl nonce now =
     (case cache of
        None \<Rightarrow> (False, None)
      | Some es \<Rightarrow> (let (dup, es') = nonce_duplicate_loop ttl nonce now es in (dup, Some es')))"

text \<open>The choice of a slot: the first invalid entry, else the first one of the greatest age.\<close>

fun nonce_slot_loop :: "tick \<Rightarrow> ws_nonce_entry_t list \<Rightarrow> nat \<Rightarrow> nat option \<Rightarrow> tick \<Rightarrow> nat option" where
  "nonce_slot_loop now [] i slot oldest_age = slot"
| "nonce_slot_loop now (e # es) i slot oldest_age =
     (if \<not> nce_valid e then Some i
      else
        let age = now - nce_timestamp e in
        if slot = None \<or> age > oldest_age then nonce_slot_loop now es (i + 1) (Some i) age
        else nonce_slot_loop now es (i + 1) slot oldest_age)"

definition nonce_store ::
    "ws_nonce_entry_t list option \<Rightarrow> bytes \<Rightarrow> tick \<Rightarrow> ws_nonce_entry_t list option" where
  "nonce_store cache nonce now =
     (case cache of
        None \<Rightarrow> None
      | Some es \<Rightarrow>
          if es = [] then Some es
          else
            let slot = (case nonce_slot_loop now es 0 None 0 of None \<Rightarrow> 0 | Some i \<Rightarrow> i)
            in Some (es[slot := \<lparr>nce_valid = True, nce_timestamp = now, nce_nonce = nonce\<rparr>]))"

subsection \<open>Looking a nonce up\<close>

definition nonce_live :: "tick \<Rightarrow> tick \<Rightarrow> ws_nonce_entry_t \<Rightarrow> bool" where
  "nonce_live ttl now e \<longleftrightarrow> nce_valid e \<and> \<not> nonce_expired ttl now e"

lemma nonce_duplicate_loop_iff:
  "fst (nonce_duplicate_loop ttl nonce now es) \<longleftrightarrow> (\<exists>e \<in> set es. nonce_live ttl now e \<and> nce_nonce e = nonce)"
  by (induction es) (auto simp: nonce_live_def case_prod_unfold Let_def)

lemma nonce_duplicate_loop_live:
  "filter (nonce_live ttl now) (snd (nonce_duplicate_loop ttl nonce now es)) = filter (nonce_live ttl now) es"
  by (induction es) (auto simp: nonce_live_def nonce_expired_def case_prod_unfold Let_def)

lemma nonce_duplicate_loop_length: "length (snd (nonce_duplicate_loop ttl nonce now es)) = length es"
  by (induction es) (auto simp: case_prod_unfold Let_def)

lemma nonce_duplicate_loop_valid:
  "\<not> fst (nonce_duplicate_loop ttl nonce now es) \<Longrightarrow>
    \<forall>e \<in> set (snd (nonce_duplicate_loop ttl nonce now es)). nce_valid e \<longrightarrow> nonce_live ttl now e"
  by (induction es) (auto simp: nonce_live_def case_prod_unfold Let_def split: if_splits)

subsection \<open>The slot\<close>

lemma nonce_slot_loop_props:
  assumes "nonce_slot_loop now es i slot oldest = r" and "slot = None \<longrightarrow> es \<noteq> []"
    and "\<And>s. slot = Some s \<Longrightarrow> s < i"
  shows "\<exists>s. r = Some s \<and> s < i + length es \<and>
    ((s \<ge> i \<and> \<not> nce_valid (es ! (s - i))) \<or>
     ((\<forall>e \<in> set es. nce_valid e) \<and>
      ((slot = Some s \<and> (\<forall>e \<in> set es. now - nce_timestamp e \<le> oldest)) \<or>
       (s \<ge> i \<and> (slot \<noteq> None \<longrightarrow> oldest \<le> now - nce_timestamp (es ! (s - i))) \<and>
        (\<forall>e \<in> set es. now - nce_timestamp e \<le> now - nce_timestamp (es ! (s - i)))))))"
  using assms
proof (induction es arbitrary: i slot oldest)
  case Nil
  then show ?case by auto
next
  case (Cons e es)
  let ?age = "now - nce_timestamp e"
  show ?case
  proof (cases "nce_valid e")
    case False
    then show ?thesis using Cons.prems(1) by auto
  next
    case valid: True
    show ?thesis
    proof (cases "slot = None \<or> ?age > oldest")
      case True
      then have rec: "nonce_slot_loop now es (i + 1) (Some i) ?age = r"
        using Cons.prems(1) valid by (simp add: Let_def)
      from Cons.IH [OF rec] obtain s where s: "r = Some s" "s < Suc i + length es"
        "(s \<ge> Suc i \<and> \<not> nce_valid (es ! (s - Suc i))) \<or>
         ((\<forall>e \<in> set es. nce_valid e) \<and>
          ((i = s \<and> (\<forall>e \<in> set es. now - nce_timestamp e \<le> ?age)) \<or>
           (s \<ge> Suc i \<and> ?age \<le> now - nce_timestamp (es ! (s - Suc i)) \<and>
            (\<forall>e \<in> set es. now - nce_timestamp e \<le> now - nce_timestamp (es ! (s - Suc i))))))"
        by auto
      have idx: "(e # es) ! (s - i) = es ! (s - Suc i)" if "s \<ge> Suc i" using that by (simp add: Suc_diff_le nth_Cons')
      show ?thesis
        by (rule exI [of _ s]) (use s valid True idx in \<open>auto simp: less_imp_le intro: order_trans\<close>)
    next
      case False
      then obtain s0 where s0: "slot = Some s0" "?age \<le> oldest" by auto
      then have rec: "nonce_slot_loop now es (i + 1) (Some s0) oldest = r" and "s0 < i"
        using Cons.prems valid leD [OF s0(2)] by (simp_all add: Let_def)
      from Cons.IH [OF rec] \<open>s0 < i\<close> obtain s where s: "r = Some s" "s < Suc i + length es"
        "(s \<ge> Suc i \<and> \<not> nce_valid (es ! (s - Suc i))) \<or>
         ((\<forall>e \<in> set es. nce_valid e) \<and>
          ((s0 = s \<and> (\<forall>e \<in> set es. now - nce_timestamp e \<le> oldest)) \<or>
           (s \<ge> Suc i \<and> oldest \<le> now - nce_timestamp (es ! (s - Suc i)) \<and>
            (\<forall>e \<in> set es. now - nce_timestamp e \<le> now - nce_timestamp (es ! (s - Suc i))))))"
        by auto
      have idx: "(e # es) ! (s - i) = es ! (s - Suc i)" if "s \<ge> Suc i" using that by (simp add: Suc_diff_le nth_Cons')
      show ?thesis
        by (rule exI [of _ s]) (use s s0 valid idx in \<open>auto intro: order_trans\<close>)
    qed
  qed
qed

text \<open>A store into a cache that has slots overwrites one entry, at the index the loop chose.\<close>

lemma nonce_store_cases:
  assumes "es \<noteq> []"
  obtains i where "i < length es"
    "nonce_store (Some es) nonce now = Some (es[i := \<lparr>nce_valid = True, nce_timestamp = now, nce_nonce = nonce\<rparr>])"
    "nce_valid (es ! i) \<Longrightarrow> \<forall>e \<in> set es. nce_valid e \<and> now - nce_timestamp e \<le> now - nce_timestamp (es ! i)"
proof -
  obtain i where i: "nonce_slot_loop now es 0 None 0 = Some i" "i < length es"
    "\<not> nce_valid (es ! i) \<or> (\<forall>e \<in> set es. nce_valid e) \<and> (\<forall>e \<in> set es. now - nce_timestamp e \<le> now - nce_timestamp (es ! i))"
    using nonce_slot_loop_props [OF refl, where es = es and slot = None and now = now and i = 0 and oldest = 0] assms by auto
  show thesis by (rule that [OF i(2)]) (use i assms in \<open>auto simp: nonce_store_def\<close>)
qed

text \<open>
  The nonce cache refuses a replay. Right after a nonce is stored, and as long as its entry
  has neither expired nor been overwritten, it is reported as a duplicate; storing it
  overwrites at most one entry, and a valid one only when every slot is taken, and then one
  of the greatest age.
\<close>

theorem nonce_store_lru:
  assumes "es \<noteq> []"
  shows "\<exists>i es'. i < length es \<and> nonce_store (Some es) nonce now = Some es' \<and> length es' = length es \<and>
    (\<forall>j < length es. j \<noteq> i \<longrightarrow> es' ! j = es ! j) \<and>
    (nce_valid (es ! i) \<longrightarrow> (\<forall>e \<in> set es. nce_valid e \<and> now - nce_timestamp e \<le> now - nce_timestamp (es ! i))) \<and>
    fst (nonce_is_duplicate (Some es') ttl nonce now)"
proof -
  obtain i where i: "i < length es"
    "nonce_store (Some es) nonce now = Some (es[i := \<lparr>nce_valid = True, nce_timestamp = now, nce_nonce = nonce\<rparr>])"
    "nce_valid (es ! i) \<Longrightarrow> \<forall>e \<in> set es. nce_valid e \<and> now - nce_timestamp e \<le> now - nce_timestamp (es ! i)"
    using nonce_store_cases [OF assms] by blast
  let ?e = "\<lparr>nce_valid = True, nce_timestamp = now, nce_nonce = nonce\<rparr>"
  have "?e \<in> set (es[i := ?e])" using i(1) by (simp add: set_update_memI)
  moreover have "nonce_live ttl now ?e" by (auto simp: nonce_live_def nonce_expired_def)
  ultimately have "fst (nonce_is_duplicate (Some (es[i := ?e])) ttl nonce now)"
    using nonce_duplicate_loop_iff [of ttl nonce now "es[i := ?e]"]
    by (force simp: nonce_is_duplicate_def case_prod_unfold Let_def)
  with i show ?thesis by (intro exI [of _ i] exI [of _ "es[i := ?e]"]) auto
qed

theorem nonce_store_lru_witness:
  "\<exists>es'. nonce_store (Some [\<lparr>nce_valid = False, nce_timestamp = 0, nce_nonce = []\<rparr>]) [1] 5 = Some es' \<and>
    fst (nonce_is_duplicate (Some es') 10 [1] 5)"
  using nonce_store_lru [of "[\<lparr>nce_valid = False, nce_timestamp = 0, nce_nonce = []\<rparr>]" "[1]" 5 10] by auto

text \<open>
  Within one tick every entry has age 0, so the oldest entry is always slot 0: a third nonce
  in a cache of two slots evicts the first, and a fourth evicts the third while the second,
  stored before it, stays. The evicted nonce is accepted again inside its replay window.
\<close>

lemma nonce_eviction_same_tick:
  "fst (nonce_is_duplicate
     (nonce_store (nonce_store (nonce_store (nonce_store
        (Some (replicate 2 \<lparr>nce_valid = False, nce_timestamp = 0, nce_nonce = []\<rparr>)) [1] 7) [2] 7) [3] 7) [4] 7)
     300 [3] 8) = False"
  by code_simp

end
