(* ===== verification/Base32.thy ===== *)
theory Base32
  imports Prelude
begin

text \<open>
  The text encodings of secrets: the Base32 decoder of \<^verbatim>\<open>common/util/base32_utils.c\<close>, with
  its specification as a stream of bits, and the wrappers of \<^verbatim>\<open>common/util/base64_utils.c\<close>
  around the mbedTLS codec, which is an argument of the model.
\<close>

section \<open>The Base32 decoder\<close>

definition char_code :: "char \<Rightarrow> nat" where
  "char_code c = of_char c"

definition decode_char :: "char \<Rightarrow> int" where
  "decode_char c =
     (if char_code c \<ge> char_code CHR ''A'' \<and> char_code c \<le> char_code CHR ''Z''
        then int (char_code c) - int (char_code CHR ''A'')
      else if char_code c \<ge> char_code CHR ''a'' \<and> char_code c \<le> char_code CHR ''z''
        then int (char_code c) - int (char_code CHR ''a'')
      else if char_code c \<ge> char_code CHR ''2'' \<and> char_code c \<le> char_code CHR ''7''
        then int (char_code c) - int (char_code CHR ''2'') + 26
      else - 1)"

text \<open>\<^verbatim>\<open>isspace\<close> of the C locale.\<close>

definition c_isspace :: "char \<Rightarrow> bool" where
  "c_isspace c \<longleftrightarrow> char_code c = 32 \<or> (9 \<le> char_code c \<and> char_code c \<le> 13)"

text \<open>The check after the loop: the bits left over must be zero.\<close>

definition base32_finish :: "u32 \<Rightarrow> nat \<Rightarrow> bytes \<Rightarrow> esp_err \<times> bytes" where
  "base32_finish buffer bits output =
     (if bits > 0 \<and> buffer AND (push_bit bits 1 - 1) \<noteq> 0 then (ESP_ERR_INVALID_SIZE, output)
      else (ESP_OK, output))"

text \<open>
  The loop over the characters. \<^verbatim>\<open>buffer\<close> is a 32-bit \<^verbatim>\<open>size_t\<close> whose high bits are
  shifted out; \<open>output\<close> is what has been written to the output buffer so far.
\<close>

fun base32_loop :: "string \<Rightarrow> nat \<Rightarrow> u32 \<Rightarrow> nat \<Rightarrow> bytes \<Rightarrow> esp_err \<times> bytes" where
  "base32_loop [] out_size buffer bits output = base32_finish buffer bits output"
| "base32_loop (c # cs) out_size buffer bits output =
     (if c = CHR ''='' then base32_finish buffer bits output
      else if c_isspace c then base32_loop cs out_size buffer bits output
      else
        let value = decode_char c in
        if value < 0 then (ESP_ERR_INVALID_ARG, output)
        else
          let buffer = push_bit 5 buffer OR word_of_int value; bits = bits + 5 in
          if bits \<ge> 8 then
            if length output \<ge> out_size then (ESP_ERR_NO_MEM, output)
            else base32_loop cs out_size buffer (bits - 8)
              (output @ [ucast (drop_bit (bits - 8) buffer AND 0xFF)])
          else base32_loop cs out_size buffer bits output)"

definition base32_utils_decode :: "string option \<Rightarrow> nat option \<Rightarrow> esp_err \<times> bytes" where
  "base32_utils_decode input output_size =
     (case (input, output_size) of
        (Some s, Some out_size) \<Rightarrow> base32_loop s out_size 0 0 []
      | _ \<Rightarrow> (ESP_ERR_INVALID_ARG, []))"

section \<open>The specification: a stream of bits\<close>

definition be_bits :: "nat \<Rightarrow> 'a::len word \<Rightarrow> bool list" where
  "be_bits n w = map (bit w) (rev [0..<n])"

lemma length_be_bits [simp]: "length (be_bits n w) = n"
  by (simp add: be_bits_def)

lemma be_bits_0 [simp]: "be_bits 0 w = []"
  by (simp add: be_bits_def)

lemma nth_be_bits: "k < n \<Longrightarrow> be_bits n w ! k = bit w (n - Suc k)"
  by (simp add: be_bits_def rev_nth)

lemma be_bits_split: "be_bits (m + n) w = be_bits m (drop_bit n w) @ be_bits n w"
  by (rule nth_equalityI) (auto simp: nth_be_bits nth_append bit_simps add.commute)

lemma be_bits_cong: "(\<And>k. k < n \<Longrightarrow> bit v k = bit w k) \<Longrightarrow> be_bits n v = be_bits n w"
  by (simp add: be_bits_def)

lemma be_bits_inject_u8: "be_bits 8 (a :: u8) = be_bits 8 b \<longleftrightarrow> a = b"
proof
  assume eq: "be_bits 8 a = be_bits 8 b"
  show "a = b"
  proof (rule bit_word_eqI)
    fix n assume "n < LENGTH(8)"
    then show "bit a n = bit b n"
      using nth_be_bits [of "7 - n" 8 a] nth_be_bits [of "7 - n" 8 b] eq by simp
  qed
qed simp

text \<open>The characters that carry data, and the bits they stand for.\<close>

definition base32_digits :: "string \<Rightarrow> string" where
  "base32_digits s = filter (\<lambda>c. \<not> c_isspace c) (takeWhile (\<lambda>c. c \<noteq> CHR ''='') s)"

definition char_bits :: "char \<Rightarrow> bool list" where
  "char_bits c = be_bits 5 (word_of_int (decode_char c) :: u32)"

lemma decode_char_range: "- 1 \<le> decode_char c" "decode_char c < 32"
  by (simp_all add: decode_char_def char_code_def)

lemma base32_finish_result:
  assumes "bits < 8"
  shows "fst (base32_finish buffer bits output) = ESP_OK \<longleftrightarrow> be_bits bits buffer = replicate bits False"
    and "snd (base32_finish buffer bits output) = output"
proof -
  have lim: "k < 32" if "bit buffer k" for k using that bit_imp_le_length by fastforce
  have "buffer AND (push_bit bits 1 - 1) = take_bit bits buffer"
    by (simp add: take_bit_eq_mask mask_eq_exp_minus_1 push_bit_eq_mult)
  moreover have "take_bit bits buffer = 0 \<longleftrightarrow> (\<forall>k < bits. \<not> bit buffer k)"
    by (simp only: bit_eq_iff bit_take_bit_iff) (auto dest: lim)
  moreover have "be_bits bits buffer = replicate bits False \<longleftrightarrow> (\<forall>k < bits. \<not> bit buffer k)"
  proof -
    have "be_bits bits buffer = replicate bits False \<longleftrightarrow> (\<forall>x \<in> set (be_bits bits buffer). x = False)"
      using replicate_eqI [of "be_bits bits buffer" bits False] by (metis in_set_replicate length_be_bits)
    then show ?thesis by (auto simp: be_bits_def)
  qed
  ultimately show "fst (base32_finish buffer bits output) = ESP_OK \<longleftrightarrow> be_bits bits buffer = replicate bits False"
    by (auto simp: base32_finish_def)
  show "snd (base32_finish buffer bits output) = output" by (simp add: base32_finish_def)
qed

lemma be_bits_shift_in:
  assumes "n + 5 \<le> 32" and "0 \<le> v" and "v < 32"
  shows "be_bits (n + 5) (push_bit 5 (b :: u32) OR word_of_int v) = be_bits n b @ be_bits 5 (word_of_int v :: u32)"
proof -
  have v: "\<not> bit (word_of_int v :: u32) k" if "5 \<le> k" for k
  proof -
    have "v = take_bit 5 v" using assms by (simp add: take_bit_eq_mod)
    then have "\<not> bit v k" using that by (metis bit_take_bit_iff not_less)
    then show ?thesis by (simp add: bit_word_of_int_iff)
  qed
  have "be_bits n (drop_bit 5 (push_bit 5 b OR word_of_int v)) = be_bits n b"
    using assms(1) v by (intro be_bits_cong) (auto simp: bit_simps)
  moreover have "be_bits 5 (push_bit 5 b OR word_of_int v) = be_bits 5 (word_of_int v :: u32)"
    by (intro be_bits_cong) (auto simp: bit_simps)
  ultimately show ?thesis by (simp only: be_bits_split [of n 5])
qed

lemma be_bits_byte: "be_bits 8 (ucast ((x :: u32) AND 0xFF) :: u8) = be_bits 8 x"
proof (rule be_bits_cong)
  fix k :: nat assume "k < 8"
  moreover have "bit (0xFF :: u32) k"
  proof -
    have "(0xFF :: u32) = mask 8" by (simp add: mask_eq_exp_minus_1)
    with \<open>k < 8\<close> show ?thesis by (simp only: bit_mask_iff) simp
  qed
  ultimately show "bit (ucast (x AND 0xFF) :: u8) k = bit x k" by (simp add: bit_simps)
qed


text \<open>The loop invariant, carried to the end of the input.\<close>

lemma base32_loop_ok:
  assumes "base32_loop cs out_size buffer bits acc = (ESP_OK, out)" and "bits < 8"
  shows "\<exists>m < 8. (\<forall>c \<in> set (base32_digits cs). 0 \<le> decode_char c) \<and>
    concat (map (be_bits 8) acc) @ be_bits bits buffer @ concat (map char_bits (base32_digits cs)) =
      concat (map (be_bits 8) out) @ replicate m False \<and>
    (length acc \<le> out_size \<longrightarrow> length out \<le> out_size)"
  using assms
proof (induction cs out_size buffer bits acc rule: base32_loop.induct)
  case (1 out_size buffer bits acc)
  then show ?case using base32_finish_result [of bits buffer acc]
    by (auto simp: base32_digits_def)
next
  case (2 c cs out_size buffer bits acc)
  show ?case
  proof (cases "c = CHR ''='' \<or> c_isspace c")
    case True
    then show ?thesis
      using 2(1,4,5) base32_finish_result [of bits buffer acc]
      by (auto simp: base32_digits_def split: if_splits)
  next
    case data: False
    let ?v = "decode_char c" and ?b = "push_bit 5 buffer OR word_of_int (decode_char c)"
    have v: "0 \<le> ?v" using 2(4) data by (auto simp: Let_def split: if_splits)
    have digits: "base32_digits (c # cs) = c # base32_digits cs"
      using data by (simp add: base32_digits_def)
    have shift: "be_bits (bits + 5) ?b = be_bits bits buffer @ char_bits c"
      unfolding char_bits_def using 2(5) v decode_char_range(2) [of c] by (intro be_bits_shift_in) auto
    show ?thesis
    proof (cases "bits + 5 \<ge> 8")
      case True
      have sp: "be_bits (bits + 5) ?b = be_bits 8 (drop_bit (bits + 5 - 8) ?b) @ be_bits (bits + 5 - 8) ?b"
        using be_bits_split [of 8 "bits + 5 - 8" ?b] by (simp only: le_add_diff_inverse [OF True])
      have room: "length acc < out_size"
        and rec: "base32_loop cs out_size ?b (bits + 5 - 8) (acc @ [ucast (drop_bit (bits + 5 - 8) ?b AND 0xFF)]) = (ESP_OK, out)"
        using 2(4) data v True by (auto simp: Let_def split: if_splits)
      have small: "bits + 5 - 8 < 8" and "length (acc @ [ucast (drop_bit (bits + 5 - 8) ?b AND 0xFF)]) \<le> out_size"
        using 2(5) room by auto
      moreover have "\<not> ?v < 0" "\<not> out_size \<le> length acc" "c \<noteq> CHR ''=''" "\<not> c_isspace c"
        using v room data by auto
      ultimately obtain m where "m < 8" "\<forall>c \<in> set (base32_digits cs). 0 \<le> decode_char c"
        "concat (map (be_bits 8) (acc @ [ucast (drop_bit (bits + 5 - 8) ?b AND 0xFF)])) @ be_bits (bits + 5 - 8) ?b @
          concat (map char_bits (base32_digits cs)) = concat (map (be_bits 8) out) @ replicate m False"
        "length out \<le> out_size"
        using 2(2) [OF _ _ refl _ refl refl True _ rec small] by blast
      moreover have "concat (map (be_bits 8) (acc @ [ucast (drop_bit (bits + 5 - 8) ?b AND 0xFF)])) @ be_bits (bits + 5 - 8) ?b =
          concat (map (be_bits 8) acc) @ be_bits bits buffer @ char_bits c"
        using shift sp by (simp only: map_append concat_append list.map concat.simps be_bits_byte append_assoc append_Nil2)
      ultimately show ?thesis
        unfolding digits using v by (intro exI [of _ m]) (simp flip: append_assoc)
    next
      case False
      then have rec: "base32_loop cs out_size ?b (bits + 5) acc = (ESP_OK, out)"
        using 2(4) data v by (simp add: Let_def)
      from 2(3) [OF _ _ refl _ refl refl _ rec] data v False
      show ?thesis unfolding digits by (auto simp: shift)
    qed
  qed
qed


lemma be_bits_bytes_cancel:
  assumes "concat (map (be_bits 8) as) @ us = concat (map (be_bits 8) bs) @ vs"
    and "length us < 8" and "length vs < 8"
  shows "as = (bs :: bytes)"
  using assms(1)
proof (induction as arbitrary: bs)
  case Nil
  then show ?case using assms(2) arg_cong [OF Nil, of length] by (cases bs) auto
next
  case (Cons a as)
  show ?case
  proof (cases bs)
    case Nil
    then show ?thesis using assms(3) arg_cong [OF Cons.prems, of length] by simp
  next
    case (Cons b bs')
    with Cons.prems show ?thesis using Cons.IH [of bs'] by (simp add: be_bits_inject_u8)
  qed
qed

text \<open>
  Functional correctness of the Base32 decoder. When it succeeds, every character before
  the first padding sign is a space or a Base32 digit, the bytes written fit the buffer, and
  the five-bit groups of the digits are exactly the bits of the bytes written, followed by
  fewer than eight zero bits.
\<close>

theorem base32_utils_decode_correct:
  assumes "base32_utils_decode (Some s) (Some out_size) = (ESP_OK, out)"
  shows "length out \<le> out_size \<and> (\<forall>c \<in> set (base32_digits s). 0 \<le> decode_char c) \<and>
    (\<exists>m < 8. concat (map char_bits (base32_digits s)) = concat (map (be_bits 8) out) @ replicate m False)"
  using base32_loop_ok [of s out_size 0 0 "[]" out] assms by (auto simp: base32_utils_decode_def)

theorem base32_utils_decode_correct_witness:
  "base32_utils_decode (Some ''MZXw 6==='') (Some 4) = (ESP_OK, [102, 111, 111]) \<and> length [102, 111, 111 :: u8] \<le> 4"
proof -
  have e: "base32_utils_decode (Some ''MZXw 6==='') (Some 4) = (ESP_OK, [102, 111, 111])"
    by code_simp
  from base32_utils_decode_correct [OF e] e show ?thesis by blast
qed

section \<open>Round trip with the encoder of RFC 4648\<close>

text \<open>The encoder the secrets were produced with, as the standard states it (unpadded).\<close>

definition base32_symbol :: "bool list \<Rightarrow> char" where
  "base32_symbol g =
     (let v = horner_sum (of_bool :: bool \<Rightarrow> nat) 2 (rev g)
      in if v < 26 then char_of (65 + v) else char_of (24 + v))"

fun five_groups :: "bool list \<Rightarrow> bool list list" where
  "five_groups [] = []"
| "five_groups (b # bs) = take 5 ((b # bs) @ replicate 4 False) # five_groups (drop 4 bs)"

definition base32_encode :: "bytes \<Rightarrow> string" where
  "base32_encode bs = map base32_symbol (five_groups (concat (map (be_bits 8) bs)))"

lemma append_eq_lengthD: "length as = length bs \<Longrightarrow> as @ xs = bs @ ys \<Longrightarrow> as = bs \<and> xs = ys"
  by simp

lemma length_be_bits_eq: "length (be_bits n v) = length (be_bits n w)"
  by simp

lemma length_concat_bytes [simp]: "length (concat (map (be_bits 8) bs)) = 8 * length bs"
  by (induction bs) auto

lemma horner_bits_less: "horner_sum of_bool (2 :: nat) xs < 2 ^ length xs"
  by (induction xs) auto

lemma base32_symbol_decode:
  assumes "v < 32"
  shows "decode_char (if v < 26 then char_of (65 + v) else char_of (24 + v)) = int v"
    and "char_code (if v < 26 then char_of (65 + v) else char_of (24 + v)) = (if v < 26 then 65 + v else 24 + v)"
  using assms by (auto simp: decode_char_def char_code_def)

lemma base32_symbol_bits:
  assumes "length g = 5"
  shows "char_bits (base32_symbol g) = g \<and> 0 \<le> decode_char (base32_symbol g) \<and>
    base32_symbol g \<noteq> CHR ''='' \<and> \<not> c_isspace (base32_symbol g)"
proof -
  let ?v = "horner_sum of_bool (2 :: nat) (rev g)"
  have v: "?v < 32" using horner_bits_less [of "rev g"] assms by simp
  have dec: "decode_char (base32_symbol g) = int ?v"
    and code: "char_code (base32_symbol g) = (if ?v < 26 then 65 + ?v else 24 + ?v)"
    using base32_symbol_decode [OF v] by (simp_all add: base32_symbol_def Let_def)
  have bit: "bit (word_of_int (int ?v) :: u32) k \<longleftrightarrow> g ! (4 - k)" if "k < 5" for k
  proof -
    have "bit ?v k \<longleftrightarrow> rev g ! k" using that assms by (simp add: bit_horner_sum_bit_iff)
    then show ?thesis using that assms by (simp add: bit_word_of_int_iff bit_of_nat_iff rev_nth)
  qed
  have "char_bits (base32_symbol g) = g"
    unfolding char_bits_def dec
    by (rule nth_equalityI) (simp_all only: nth_be_bits length_be_bits bit assms, simp)
  moreover have "base32_symbol g \<noteq> CHR ''=''"
  proof
    assume "base32_symbol g = CHR ''=''"
    then have "char_code (base32_symbol g) = 61" by (simp add: char_code_def)
    with code v show False by (auto split: if_splits)
  qed
  moreover have "\<not> c_isspace (base32_symbol g)" using code by (auto simp: c_isspace_def split: if_splits)
  ultimately show ?thesis using dec by simp
qed

lemma five_groups_lengths: "g \<in> set (five_groups xs) \<Longrightarrow> length g = 5"
  by (induction xs rule: five_groups.induct) auto

lemma five_groups_concat: "\<exists>m < 5. concat (five_groups xs) = xs @ replicate m False"
proof (induction xs rule: five_groups.induct)
  case 1
  then show ?case by (intro exI [of _ 0]) simp
next
  case (2 b bs)
  then obtain m where m: "m < 5" "concat (five_groups (drop 4 bs)) = drop 4 bs @ replicate m False" by blast
  show ?case
  proof (cases "4 \<le> length bs")
    case True
    then have "take 4 bs @ drop 4 bs @ replicate m False = bs @ replicate m False" by (metis append_assoc append_take_drop_id)
    with m True show ?thesis by (intro exI [of _ m]) simp
  next
    case False
    then have "take 4 (bs @ replicate 4 False) = bs @ replicate (4 - length bs) False" "drop 4 bs = []" by auto
    with False show ?thesis by (intro exI [of _ "4 - length bs"]) simp
  qed
qed

lemma base32_loop_complete:
  assumes "\<forall>c \<in> set cs. 0 \<le> decode_char c \<and> c \<noteq> CHR ''='' \<and> \<not> c_isspace c"
    and "be_bits bits buffer @ concat (map char_bits cs) = concat (map (be_bits 8) bs) @ replicate m False"
    and "bits < 8" and "m < 8" and "length acc + length bs \<le> out_size"
  shows "base32_loop cs out_size buffer bits acc = (ESP_OK, acc @ bs)"
  using assms
proof (induction cs arbitrary: buffer bits acc bs)
  case Nil
  have len: "bits = 8 * length bs + m" using arg_cong [OF Nil.prems(2), of length] by simp
  with Nil.prems(3) have "bs = []" by (cases bs) auto
  moreover from this len have "m = bits" by simp
  ultimately show ?case using Nil base32_finish_result [of bits buffer acc] by (auto simp: prod_eq_iff)
next
  case (Cons c cs)
  let ?v = "decode_char c" and ?b = "push_bit 5 buffer OR word_of_int (decode_char c)"
  have v: "0 \<le> ?v" using Cons.prems(1) by simp
  have shift: "be_bits (bits + 5) ?b = be_bits bits buffer @ char_bits c"
    unfolding char_bits_def using Cons.prems(3) v decode_char_range(2) [of c] by (intro be_bits_shift_in) auto
  have stream: "be_bits (bits + 5) ?b @ concat (map char_bits cs) = concat (map (be_bits 8) bs) @ replicate m False"
    using Cons.prems(2) by (simp only: shift list.map concat.simps append_assoc)
  show ?case
  proof (cases "bits + 5 \<ge> 8")
    case True
    let ?x = "ucast (drop_bit (bits + 5 - 8) ?b AND 0xFF) :: u8"
    have sp: "be_bits (bits + 5) ?b = be_bits 8 (drop_bit (bits + 5 - 8) ?b) @ be_bits (bits + 5 - 8) ?b"
      using be_bits_split [of 8 "bits + 5 - 8" ?b] by (simp only: le_add_diff_inverse [OF True])
    have "bs \<noteq> []" using arg_cong [OF stream, of length] True Cons.prems(4) by auto
    then obtain y bs' where bs: "bs = y # bs'" by (cases bs) auto
    have "be_bits 8 ?x @ be_bits (bits + 5 - 8) ?b @ concat (map char_bits cs) =
        be_bits 8 y @ concat (map (be_bits 8) bs') @ replicate m False"
      using stream by (simp only: sp bs be_bits_byte append_assoc list.map concat.simps)
    then have "be_bits 8 ?x = be_bits 8 y"
      and rest: "be_bits (bits + 5 - 8) ?b @ concat (map char_bits cs) = concat (map (be_bits 8) bs') @ replicate m False"
      by (blast dest: append_eq_lengthD [rotated] intro: length_be_bits_eq)+
    then have "?x = y" by (simp only: be_bits_inject_u8)
    moreover have "base32_loop cs out_size ?b (bits + 5 - 8) (acc @ [?x]) = (ESP_OK, (acc @ [?x]) @ bs')"
      using Cons.prems bs by (intro Cons.IH rest) auto
    ultimately show ?thesis using True v Cons.prems bs by (simp add: Let_def)
  next
    case False
    then have "base32_loop cs out_size ?b (bits + 5) acc = (ESP_OK, acc @ bs)"
      using Cons.prems by (intro Cons.IH stream) auto
    with False v Cons.prems show ?thesis by (simp add: Let_def)
  qed
qed

text \<open>
  C32. Round trip: decoding the RFC 4648 encoding of a secret gives the secret back whenever it
  fits the output buffer.
\<close>

theorem base32_roundtrip:
  assumes "length bs \<le> out_size"
  shows "base32_utils_decode (Some (base32_encode bs)) (Some out_size) = (ESP_OK, bs)"
proof -
  obtain m where m: "m < 5" "concat (five_groups (concat (map (be_bits 8) bs))) = concat (map (be_bits 8) bs) @ replicate m False"
    using five_groups_concat by blast
  have sym: "\<forall>c \<in> set (base32_encode bs). 0 \<le> decode_char c \<and> c \<noteq> CHR ''='' \<and> \<not> c_isspace c"
    using base32_symbol_bits five_groups_lengths by (fastforce simp: base32_encode_def)
  have "map char_bits (base32_encode bs) = five_groups (concat (map (be_bits 8) bs))"
    unfolding base32_encode_def map_map
    by (rule map_idI) (simp add: base32_symbol_bits five_groups_lengths)
  then have "be_bits 0 (0 :: u32) @ concat (map char_bits (base32_encode bs)) = concat (map (be_bits 8) bs) @ replicate m False"
    using m by simp
  from base32_loop_complete [OF sym this, of "[]" out_size] show ?thesis
    using assms m by (simp add: base32_utils_decode_def)
qed

theorem base32_roundtrip_witness:
  "base32_utils_decode (Some (base32_encode [1, 255, 7])) (Some 3) = (ESP_OK, [1, 255, 7])"
  by (rule base32_roundtrip) simp

section \<open>The Base64 wrappers\<close>

text \<open>
  \<^verbatim>\<open>mbedtls_base64_decode\<close> and \<^verbatim>\<open>_encode\<close> are arguments: from the input and the size of the
  output buffer they give the return code, the output length and the bytes written.
\<close>

datatype base64_rc = B64_OK | B64_BUFFER_TOO_SMALL | B64_INVALID

definition base64_utils_decode ::
    "(bytes \<Rightarrow> nat \<Rightarrow> base64_rc \<times> bytes) \<Rightarrow> string option \<Rightarrow> nat option \<Rightarrow> esp_err \<times> bytes" where
  "base64_utils_decode dec encoded out_buf =
     (case (encoded, out_buf) of
        (Some s, Some out_size) \<Rightarrow>
          if out_size = 0 then (ESP_ERR_INVALID_ARG, [])
          else if length s = 0 then (ESP_ERR_INVALID_ARG, [])
          else (case dec (bytes_of s) out_size of
                  (B64_BUFFER_TOO_SMALL, _) \<Rightarrow> (ESP_ERR_NO_MEM, [])
                | (B64_INVALID, _) \<Rightarrow> (ESP_FAIL, [])
                | (B64_OK, out) \<Rightarrow> (ESP_OK, out))
      | _ \<Rightarrow> (ESP_ERR_INVALID_ARG, []))"

definition base64_utils_encode ::
    "(bytes \<Rightarrow> nat \<Rightarrow> base64_rc \<times> string) \<Rightarrow> bytes option \<Rightarrow> nat option \<Rightarrow> esp_err \<times> string" where
  "base64_utils_encode enc input out_buf =
     (case (input, out_buf) of
        (Some bs, Some out_size) \<Rightarrow>
          if out_size = 0 then (ESP_ERR_INVALID_ARG, [])
          else (case enc bs out_size of
                  (B64_BUFFER_TOO_SMALL, _) \<Rightarrow> (ESP_ERR_NO_MEM, [])
                | (B64_INVALID, _) \<Rightarrow> (ESP_FAIL, [])
                | (B64_OK, out) \<Rightarrow> if length out \<ge> out_size then (ESP_ERR_NO_MEM, []) else (ESP_OK, out))
      | _ \<Rightarrow> (ESP_ERR_INVALID_ARG, []))"

lemma base64_utils_encode_fits:
  "base64_utils_encode enc input (Some n) = (ESP_OK, out) \<Longrightarrow> length out < n"
  by (auto simp: base64_utils_encode_def split: option.splits if_splits prod.splits base64_rc.splits)

end
