(* ===== verification/WsServer.thy ===== *)
theory WsServer
  imports ClientTable NonceCache Base32
begin

text \<open>
  The secure WebSocket server of the sensor node, \<^verbatim>\<open>common/net/ws_server.c\<close>. The file's
  static variables are the record \<open>ws_server\<close>. Calls into the platform (the HTTPS server,
  timers, semaphores, the heap, the application callback) are recorded as events, newest
  first, and a reply of the platform may depend on everything that happened before: the
  replies are the functions of the record \<open>srv_env\<close>, an argument of every operation. Each
  handler runs to completion; the mutex around the client table is what makes them atomic.
\<close>

section \<open>State and environment\<close>

datatype ws_frame_type = WS_CONTINUE | WS_TEXT | WS_BINARY | WS_CLOSE | WS_PING | WS_PONG

datatype srv_event =
    EvSend int ws_frame_type bytes
  | EvClose int
  | EvRx bytes u32
  | EvStatus string
  | EvHeader string string
  | EvBody string
  | EvAlloc string nat
  | EvFree string
  | EvLockCreate
  | EvLockDelete
  | EvTimerCreate tick
  | EvTimerStart
  | EvTimerStop
  | EvTimerDelete
  | EvHttpdStart u16 nat
  | EvHttpdStop
  | EvRegister string

record srv_env =
  env_crypto :: crypto
  env_base64 :: "bytes \<Rightarrow> nat \<Rightarrow> base64_rc \<times> bytes"
  env_ticks :: "srv_event list \<Rightarrow> tick"
  env_ms_to_ticks :: "u32 \<Rightarrow> tick"
  env_time :: "srv_event list \<Rightarrow> int"
  env_random_iv :: "srv_event list \<Rightarrow> bytes"
  env_send :: "srv_event list \<Rightarrow> int \<Rightarrow> ws_frame_type \<Rightarrow> bytes \<Rightarrow> esp_err"
  env_alloc :: "srv_event list \<Rightarrow> string \<Rightarrow> nat \<Rightarrow> bool"
  env_lock :: "srv_event list \<Rightarrow> bool"
  env_timer :: "srv_event list \<Rightarrow> bool"
  env_httpd :: "srv_event list \<Rightarrow> esp_err"

record ws_server_config_t =
  wss_port :: u16
  wss_max_clients :: nat
  wss_auth_token :: "string option"
  wss_server_cert :: "bytes option"
  wss_server_key :: "bytes option"
  wss_ping_interval_ms :: u32
  wss_pong_timeout_ms :: u32
  wss_rx_buffer_size :: nat
  wss_crypto_secret :: "bytes option"
  wss_enable_frame_encryption :: bool
  wss_enable_handshake_token :: bool
  wss_handshake_replay_window_ms :: u32
  wss_handshake_cache_size :: nat
  wss_enable_totp :: bool
  wss_totp_secret :: "bytes option"
  wss_totp_period_s :: u32
  wss_totp_digits :: u8
  wss_totp_window :: u32
  wss_get_time_unix :: "(srv_event list \<Rightarrow> u64) option"

record ws_server =
  srv_handle :: bool
  srv_cfg :: ws_server_config_t
  srv_clients :: "ws_client_t list option"
  srv_rx_cb :: bool
  srv_lock :: bool
  srv_ping_timer :: bool
  srv_rx_buffer :: bool
  srv_sec :: ws_security_context_t
  srv_time_fn :: "(srv_event list \<Rightarrow> u64) option"
  srv_nonces :: "ws_nonce_entry_t list option"
  srv_nonce_ttl :: tick
  srv_log :: "srv_event list"

text \<open>An upgrade request or a frame, as the HTTP server hands it over.\<close>

record httpd_req =
  req_is_get :: bool
  req_fd :: int
  req_header :: "string \<Rightarrow> nat \<Rightarrow> esp_err \<times> string"
  req_frame_len :: "esp_err \<times> nat"
  req_frame :: "esp_err \<times> ws_frame_type \<times> bytes"

definition emit :: "srv_event \<Rightarrow> ws_server \<Rightarrow> ws_server" where
  "emit ev st = st\<lparr>srv_log := ev # srv_log st\<rparr>"

definition handshake_on :: "ws_server \<Rightarrow> bool" where
  "handshake_on st = ws_security_is_handshake_enabled (Some (srv_sec st))"

definition send_ws_frame :: "srv_env \<Rightarrow> int \<Rightarrow> ws_frame_type \<Rightarrow> bytes \<Rightarrow> ws_server \<Rightarrow> esp_err \<times> ws_server" where
  "send_ws_frame env fd ty payload st =
     (env_send env (srv_log st) fd ty payload, emit (EvSend fd ty payload) st)"

definition drop_client :: "int \<Rightarrow> ws_server \<Rightarrow> ws_server" where
  "drop_client fd st = st\<lparr>srv_clients := map_option (drop_client_locked (handshake_on st) fd) (srv_clients st)\<rparr>"

section \<open>Authorisation of an upgrade\<close>

definition get_authorize_time :: "srv_env \<Rightarrow> ws_server \<Rightarrow> u64" where
  "get_authorize_time env st =
     (case srv_time_fn st of
        Some f \<Rightarrow> f (srv_log st)
      | None \<Rightarrow> if env_time env (srv_log st) < 0 then 0 else word_of_int (env_time env (srv_log st)))"

definition configured_token :: "ws_server \<Rightarrow> string" where
  "configured_token st = (case wss_auth_token (srv_cfg st) of None \<Rightarrow> [] | Some t \<Rightarrow> t)"

definition authorize_bearer :: "ws_server \<Rightarrow> httpd_req \<Rightarrow> bool" where
  "authorize_bearer st req =
     (let token = configured_token st in
      if token \<noteq> [] then
        (case req_header req ''Authorization'' 192 of
           (ESP_OK, header) \<Rightarrow>
             if take 7 header \<noteq> ''Bearer '' then False
             else if drop 7 header \<noteq> token then False
             else True
         | _ \<Rightarrow> False)
      else True)"

text \<open>The nonce and signature presented, where the headers are well formed.\<close>

definition handshake_headers :: "srv_env \<Rightarrow> httpd_req \<Rightarrow> (bytes \<times> bytes) option" where
  "handshake_headers env req =
     (case req_header req ''X-WS-Nonce'' (WS_SECURITY_NONCE_LEN * 2 + 1) of
        (ESP_OK, nonce_hex) \<Rightarrow>
          if length nonce_hex \<noteq> WS_SECURITY_NONCE_LEN * 2 then None
          else (case parse_nonce_hex nonce_hex of
                  None \<Rightarrow> None
                | Some nonce \<Rightarrow>
                    (case req_header req ''X-WS-Signature'' 160 of
                       (ESP_OK, signature_b64) \<Rightarrow>
                         (case base64_utils_decode (env_base64 env) (Some signature_b64) (Some 64) of
                            (ESP_OK, signature) \<Rightarrow> Some (nonce, signature)
                          | _ \<Rightarrow> None)
                     | _ \<Rightarrow> None))
      | _ \<Rightarrow> None)"

definition authorize_handshake :: "srv_env \<Rightarrow> ws_server \<Rightarrow> httpd_req \<Rightarrow> bool \<times> ws_server" where
  "authorize_handshake env st req =
     (if handshake_on st then
        (case handshake_headers env req of
           None \<Rightarrow> (False, st)
         | Some (nonce, signature) \<Rightarrow>
             let now_ticks = env_ticks env (srv_log st);
                 (dup, cache) = nonce_is_duplicate (srv_nonces st) (srv_nonce_ttl st) nonce now_ticks;
                 st = st\<lparr>srv_nonces := cache\<rparr>
             in if dup then (False, st)
                else if ws_security_verify_handshake (env_crypto env) (Some (srv_sec st)) (Some nonce)
                          (Some (configured_token st)) (Some signature) \<noteq> ESP_OK
                then (False, st)
                else (True, st\<lparr>srv_nonces := nonce_store (srv_nonces st) nonce now_ticks\<rparr>))
      else (True, st))"

definition authorize_totp :: "srv_env \<Rightarrow> ws_server \<Rightarrow> httpd_req \<Rightarrow> bool" where
  "authorize_totp env st req =
     (if ws_security_is_totp_enabled (Some (srv_sec st)) then
        (case req_header req ''X-WS-TOTP'' 16 of
           (ESP_OK, totp_header) \<Rightarrow>
             (case parse_decimal_header totp_header (ws_security_totp_digits (Some (srv_sec st))) of
                None \<Rightarrow> False
              | Some totp_code \<Rightarrow>
                  (case ws_security_verify_totp (env_crypto env) (Some (srv_sec st)) (get_authorize_time env st) totp_code of
                     (ESP_OK, is_match) \<Rightarrow> is_match
                   | _ \<Rightarrow> False))
         | _ \<Rightarrow> False)
      else True)"

definition authorize_request :: "srv_env \<Rightarrow> ws_server \<Rightarrow> httpd_req \<Rightarrow> bool \<times> ws_server" where
  "authorize_request env st req =
     (if \<not> authorize_bearer st req then (False, st)
      else
        case authorize_handshake env st req of
          (False, st) \<Rightarrow> (False, st)
        | (True, st) \<Rightarrow> (authorize_totp env st req, st))"

section \<open>The endpoint handler\<close>

definition srv_add_client :: "srv_env \<Rightarrow> int \<Rightarrow> ws_server \<Rightarrow> esp_err \<times> ws_server" where
  "srv_add_client env fd st =
     (let (err, table) = add_client (handshake_on st) fd (env_ticks env (srv_log st)) (srv_clients st)
      in (err, st\<lparr>srv_clients := table\<rparr>))"

definition ws_handler_upgrade :: "srv_env \<Rightarrow> httpd_req \<Rightarrow> ws_server \<Rightarrow> esp_err \<times> ws_server" where
  "ws_handler_upgrade env req st =
     (case authorize_request env st req of
        (False, st) \<Rightarrow>
          (ESP_FAIL, emit (EvBody ''Unauthorized'') (emit (EvHeader ''WWW-Authenticate'' ''Bearer'')
            (emit (EvStatus ''401 Unauthorized'') st)))
      | (True, st) \<Rightarrow>
          let fd = req_fd req; (err, st) = srv_add_client env fd st in
          if err \<noteq> ESP_OK then
            (ESP_FAIL, emit (EvBody ''Too many clients'') (emit (EvStatus ''503 Service Unavailable'') st))
          else
            (ESP_OK, if handshake_on st then st\<lparr>srv_clients := map_option (mark_client_verified fd) (srv_clients st)\<rparr> else st))"

definition update_client :: "nat \<Rightarrow> (ws_client_t \<Rightarrow> ws_client_t) \<Rightarrow> ws_server \<Rightarrow> ws_server" where
  "update_client i f st = st\<lparr>srv_clients := map_option (\<lambda>cs. cs[i := f (cs ! i)]) (srv_clients st)\<rparr>"

text \<open>Delivery to the application: a binary payload of at least four bytes starts with the CRC.\<close>

definition deliver :: "ws_frame_type \<Rightarrow> bytes \<Rightarrow> ws_server \<Rightarrow> ws_server" where
  "deliver ty payload st =
     (if ty = WS_BINARY \<and> length payload \<ge> 4
      then emit (EvRx (drop 4 payload) (le_word (take 4 payload))) st
      else emit (EvRx payload 0) st)"

definition ws_handler_data :: "srv_env \<Rightarrow> int \<Rightarrow> nat \<Rightarrow> ws_client_t \<Rightarrow> ws_frame_type \<Rightarrow> bytes \<Rightarrow> ws_server \<Rightarrow> esp_err \<times> ws_server" where
  "ws_handler_data env fd i client ty payload st =
     (if srv_rx_cb st then
        (if ws_security_is_encryption_enabled (Some (srv_sec st)) \<and> ty = WS_BINARY then
           (if \<not> cl_handshake_verified client then (ESP_ERR_INVALID_STATE, st)
            else
              case ws_security_decrypt (env_crypto env) (Some (srv_sec st)) (Some payload) (Some (cl_last_counter client)) of
                (ESP_OK, plaintext, counter) \<Rightarrow>
                  (ESP_OK, update_client i (\<lambda>c. c\<lparr>cl_awaiting_pong := False\<rparr>)
                     (deliver ty plaintext (update_client i (\<lambda>c. c\<lparr>cl_last_counter := the counter\<rparr>) st)))
              | (dec_err, _, _) \<Rightarrow> (dec_err, drop_client fd (emit (EvClose fd) st)))
         else (ESP_OK, update_client i (\<lambda>c. c\<lparr>cl_awaiting_pong := False\<rparr>) (deliver ty payload st)))
      else (ESP_OK, update_client i (\<lambda>c. c\<lparr>cl_awaiting_pong := False\<rparr>) st))"

definition srv_find_client :: "ws_server \<Rightarrow> int \<Rightarrow> nat option" where
  "srv_find_client st fd = (case srv_clients st of None \<Rightarrow> None | Some cs \<Rightarrow> find_client cs fd)"

definition ws_handler_frame :: "srv_env \<Rightarrow> httpd_req \<Rightarrow> ws_server \<Rightarrow> esp_err \<times> ws_server" where
  "ws_handler_frame env req st =
     (case req_frame_len req of
        (ESP_OK, frame_len) \<Rightarrow>
          if frame_len > wss_rx_buffer_size (srv_cfg st) then (ESP_ERR_NO_MEM, st)
          else
            (case req_frame req of
               (ESP_OK, ty, payload) \<Rightarrow>
                 let fd = req_fd req in
                 (case srv_find_client st fd of
                    None \<Rightarrow> (ESP_ERR_INVALID_STATE, st)
                  | Some i \<Rightarrow>
                      let st = update_client i (\<lambda>c. c\<lparr>cl_last_seen := env_ticks env (srv_log st)\<rparr>) st in
                      if ty = WS_PONG then (ESP_OK, update_client i (\<lambda>c. c\<lparr>cl_awaiting_pong := False\<rparr>) st)
                      else if ty = WS_PING then (ESP_OK, snd (send_ws_frame env fd WS_PONG payload st))
                      else ws_handler_data env fd i (the (srv_clients st) ! i) ty payload st)
             | (ret, _, _) \<Rightarrow> (ret, st))
      | (ret, _) \<Rightarrow> (ret, st))"

definition ws_handler :: "srv_env \<Rightarrow> httpd_req \<Rightarrow> ws_server \<Rightarrow> esp_err \<times> ws_server" where
  "ws_handler env req st =
     (if req_is_get req then ws_handler_upgrade env req st else ws_handler_frame env req st)"

definition ws_close_hook :: "int \<Rightarrow> ws_server \<Rightarrow> ws_server" where
  "ws_close_hook fd st = drop_client fd st"

section \<open>Keep-alive and broadcast\<close>

text \<open>One turn of the loop of the ping timer, on slot \<open>i\<close>, and the callback.\<close>

definition ping_client :: "srv_env \<Rightarrow> tick \<Rightarrow> tick \<Rightarrow> tick \<Rightarrow> nat \<Rightarrow> ws_server \<Rightarrow> ws_server" where
  "ping_client env now ping_interval pong_timeout i st =
     (let client = the (srv_clients st) ! i; fd = cl_fd client in
      if fd < 0 then st
      else
        let elapsed = now - cl_last_seen client in
        if cl_awaiting_pong client \<and> elapsed \<ge> pong_timeout then drop_client fd (emit (EvClose fd) st)
        else if \<not> cl_awaiting_pong client \<and> elapsed \<ge> ping_interval then
          (case send_ws_frame env fd WS_PING [] st of
             (ESP_OK, st) \<Rightarrow> update_client i (\<lambda>c. c\<lparr>cl_awaiting_pong := True\<rparr>) st
           | (_, st) \<Rightarrow> drop_client fd (emit (EvClose fd) st))
        else st)"

definition ping_timer_cb :: "srv_env \<Rightarrow> ws_server \<Rightarrow> ws_server" where
  "ping_timer_cb env st =
     (case srv_clients st of
        None \<Rightarrow> st
      | Some cs \<Rightarrow>
          let now = env_ticks env (srv_log st);
              ping_interval = env_ms_to_ticks env (wss_ping_interval_ms (srv_cfg st));
              pong_timeout = env_ms_to_ticks env (wss_pong_timeout_ms (srv_cfg st))
          in for_loop (ping_client env now ping_interval pong_timeout) (length cs) 0 st)"

text \<open>One turn of the loop of \<^verbatim>\<open>ws_server_send\<close>, which keeps the last error.\<close>

definition send_client :: "srv_env \<Rightarrow> bytes \<Rightarrow> nat \<Rightarrow> esp_err \<times> ws_server \<Rightarrow> esp_err \<times> ws_server" where
  "send_client env frame i rs =
     (case rs of (result, st) \<Rightarrow>
        let fd = cl_fd (the (srv_clients st) ! i) in
        if fd < 0 then (result, st)
        else
          (case send_ws_frame env fd WS_BINARY frame st of
             (ESP_OK, st) \<Rightarrow> (result, st)
           | (err, st) \<Rightarrow> (err, drop_client fd (emit (EvClose fd) st))))"

definition broadcast :: "srv_env \<Rightarrow> bytes \<Rightarrow> ws_server \<Rightarrow> esp_err \<times> ws_server" where
  "broadcast env frame st =
     for_loop (send_client env frame) (case srv_clients st of None \<Rightarrow> 0 | Some cs \<Rightarrow> length cs) 0 (ESP_OK, st)"

definition ws_server_send :: "srv_env \<Rightarrow> bytes option \<Rightarrow> ws_server \<Rightarrow> esp_err \<times> ws_server" where
  "ws_server_send env datap st =
     (case datap of
        None \<Rightarrow> (ESP_ERR_INVALID_STATE, st)
      | Some data \<Rightarrow>
          if \<not> srv_handle st \<or> data = [] then (ESP_ERR_INVALID_STATE, st)
          else if ws_security_is_encryption_enabled (Some (srv_sec st)) then
            let required = ws_security_encrypted_size (Some (srv_sec st)) (length data) in
            if \<not> env_alloc env (srv_log st) ''frame'' required then (ESP_ERR_NO_MEM, st)
            else
              let log = srv_log st; st = emit (EvAlloc ''frame'' required) st in
              (case ws_security_encrypt (env_crypto env) (env_random_iv env log) (srv_sec st) data required of
                 (ESP_OK, Some frame, sec) \<Rightarrow>
                   (let (result, st) = broadcast env frame (st\<lparr>srv_sec := sec\<rparr>) in (result, emit (EvFree ''frame'') st))
               | (enc_err, _, sec) \<Rightarrow> (enc_err, emit (EvFree ''frame'') (st\<lparr>srv_sec := sec\<rparr>)))
          else broadcast env data st)"

definition ws_server_active_client_count :: "ws_server \<Rightarrow> nat" where
  "ws_server_active_client_count st = active_client_count (srv_clients st)"

section \<open>Starting and stopping\<close>

definition u32_or :: "u32 \<Rightarrow> u32 \<Rightarrow> u32" where
  "u32_or v d = (if v = 0 then d else v)"

text \<open>The defaults that \<^verbatim>\<open>ws_server_start\<close> fills in.\<close>

definition cfg_defaults :: "ws_server_config_t \<Rightarrow> ws_server_config_t" where
  "cfg_defaults cfg =
     (let clients = (if wss_max_clients cfg = 0 then 4 else wss_max_clients cfg) in
      cfg\<lparr>wss_max_clients := clients,
          wss_rx_buffer_size := (if wss_rx_buffer_size cfg = 0 then 2048 else wss_rx_buffer_size cfg),
          wss_ping_interval_ms := u32_or (wss_ping_interval_ms cfg) 10000,
          wss_pong_timeout_ms := u32_or (wss_pong_timeout_ms cfg) 5000,
          wss_handshake_replay_window_ms := u32_or (wss_handshake_replay_window_ms cfg) 300000\<rparr>)"

definition cfg_cache_size :: "ws_server_config_t \<Rightarrow> ws_server_config_t" where
  "cfg_cache_size cfg =
     (if wss_handshake_cache_size cfg = 0
      then cfg\<lparr>wss_handshake_cache_size := (if wss_max_clients cfg \<noteq> 0 then wss_max_clients cfg * 4 else 16)\<rparr>
      else cfg)"

definition blank :: "bytes option \<Rightarrow> bool" where
  "blank b \<longleftrightarrow> b = None \<or> b = Some []"

definition sec_config_of :: "ws_server_config_t \<Rightarrow> ws_security_config_t" where
  "sec_config_of cfg =
     \<lparr>wsc_secret = wss_crypto_secret cfg, wsc_enable_encryption = wss_enable_frame_encryption cfg,
      wsc_enable_handshake = wss_enable_handshake_token cfg, wsc_enable_totp = wss_enable_totp cfg,
      wsc_totp_secret = wss_totp_secret cfg, wsc_totp_period_s = wss_totp_period_s cfg,
      wsc_totp_digits = wss_totp_digits cfg, wsc_totp_window = wss_totp_window cfg\<rparr>"

text \<open>The releases of the error paths and of \<^verbatim>\<open>ws_server_stop\<close>.\<close>

definition free_nonces :: "ws_server \<Rightarrow> ws_server" where
  "free_nonces st =
     (if srv_nonces st = None then st else emit (EvFree ''nonces'') st)\<lparr>srv_nonces := None\<rparr>"

definition free_clients :: "ws_server \<Rightarrow> ws_server" where
  "free_clients st =
     (if srv_clients st = None then st else emit (EvFree ''clients'') st)\<lparr>srv_clients := None\<rparr>"

definition free_rx_buffer :: "ws_server \<Rightarrow> ws_server" where
  "free_rx_buffer st =
     (if \<not> srv_rx_buffer st then st else emit (EvFree ''rx'') st)\<lparr>srv_rx_buffer := False\<rparr>"

definition delete_lock :: "ws_server \<Rightarrow> ws_server" where
  "delete_lock st = (emit EvLockDelete st)\<lparr>srv_lock := False\<rparr>"

definition delete_timer :: "ws_server \<Rightarrow> ws_server" where
  "delete_timer st = (emit EvTimerDelete st)\<lparr>srv_ping_timer := False\<rparr>"

text \<open>The stages of \<^verbatim>\<open>ws_server_start\<close> after the checks, last one first.\<close>

definition start_httpd :: "srv_env \<Rightarrow> bool \<Rightarrow> ws_server \<Rightarrow> esp_err \<times> ws_server" where
  "start_httpd env cb st =
     (let st = st\<lparr>srv_rx_cb := cb\<rparr>;
          ret = env_httpd env (srv_log st);
          st = emit (EvHttpdStart (wss_port (srv_cfg st)) (wss_max_clients (srv_cfg st) + 4)) st
      in if ret \<noteq> ESP_OK then
           (ret, free_clients (free_nonces (free_rx_buffer (delete_lock (delete_timer st)))))
         else
           (ESP_OK, emit EvTimerStart (emit (EvRegister ''disconnected'') (emit (EvRegister ''connected'')
              (emit (EvRegister ''/'') (emit (EvRegister ''/ws'') (st\<lparr>srv_handle := True\<rparr>)))))))"

definition start_timer :: "srv_env \<Rightarrow> bool \<Rightarrow> ws_server \<Rightarrow> esp_err \<times> ws_server" where
  "start_timer env cb st =
     (if \<not> env_timer env (srv_log st)
      then (ESP_ERR_NO_MEM, free_clients (free_nonces (free_rx_buffer (delete_lock st))))
      else start_httpd env cb
        (emit (EvTimerCreate (env_ms_to_ticks env (wss_ping_interval_ms (srv_cfg st)))) (st\<lparr>srv_ping_timer := True\<rparr>)))"

definition start_lock :: "srv_env \<Rightarrow> bool \<Rightarrow> ws_server \<Rightarrow> esp_err \<times> ws_server" where
  "start_lock env cb st =
     (if \<not> env_lock env (srv_log st)
      then (ESP_ERR_NO_MEM, free_clients (free_nonces (free_rx_buffer st)))
      else start_timer env cb (emit EvLockCreate (st\<lparr>srv_lock := True\<rparr>)))"

definition start_rx_buffer :: "srv_env \<Rightarrow> bool \<Rightarrow> ws_server \<Rightarrow> esp_err \<times> ws_server" where
  "start_rx_buffer env cb st =
     (if \<not> env_alloc env (srv_log st) ''rx'' (wss_rx_buffer_size (srv_cfg st) + 1)
      then (ESP_ERR_NO_MEM, free_clients (free_nonces st))
      else start_lock env cb
        (emit (EvAlloc ''rx'' (wss_rx_buffer_size (srv_cfg st) + 1)) (st\<lparr>srv_rx_buffer := True\<rparr>)))"

definition start_clients :: "srv_env \<Rightarrow> bool \<Rightarrow> ws_server \<Rightarrow> esp_err \<times> ws_server" where
  "start_clients env cb st =
     (let n = wss_max_clients (srv_cfg st) in
      if \<not> env_alloc env (srv_log st) ''clients'' n then (ESP_ERR_NO_MEM, free_nonces (st\<lparr>srv_clients := None\<rparr>))
      else start_rx_buffer env cb
        (emit (EvAlloc ''clients'' n) (st\<lparr>srv_clients := Some (replicate n (client_cleared (handshake_on st)))\<rparr>)))"

definition start_nonces :: "srv_env \<Rightarrow> bool \<Rightarrow> ws_server \<Rightarrow> esp_err \<times> ws_server" where
  "start_nonces env cb st =
     (let st = st\<lparr>srv_nonces := None,
                 srv_nonce_ttl := env_ms_to_ticks env (wss_handshake_replay_window_ms (srv_cfg st))\<rparr> in
      if handshake_on st then
        let cache = wss_handshake_cache_size (srv_cfg st); n = (if cache = 0 then 16 else cache) in
        if \<not> env_alloc env (srv_log st) ''nonces'' n then (ESP_ERR_NO_MEM, st)
        else start_clients env cb
          (emit (EvAlloc ''nonces'' n)
             (st\<lparr>srv_nonces := Some (replicate n \<lparr>nce_valid = False, nce_timestamp = 0, nce_nonce = replicate 16 0\<rparr>)\<rparr>))
      else start_clients env cb st)"

definition ws_server_start :: "srv_env \<Rightarrow> ws_server_config_t option \<Rightarrow> bool \<Rightarrow> ws_server \<Rightarrow> esp_err \<times> ws_server" where
  "ws_server_start env configp cb st =
     (case configp of
        None \<Rightarrow> (ESP_ERR_INVALID_ARG, st)
      | Some config \<Rightarrow>
          if blank (wss_server_cert config) \<or> blank (wss_server_key config) then (ESP_ERR_INVALID_ARG, st)
          else if srv_handle st then (ESP_ERR_INVALID_STATE, st)
          else
            let cfg = cfg_defaults config; st = st\<lparr>srv_cfg := cfg, srv_time_fn := wss_get_time_unix cfg\<rparr> in
            if (wss_enable_frame_encryption cfg \<or> wss_enable_handshake_token cfg) \<and> blank (wss_crypto_secret cfg)
            then (ESP_ERR_INVALID_ARG, st)
            else
              let cfg = cfg_cache_size cfg; st = st\<lparr>srv_cfg := cfg\<rparr> in
              if wss_enable_totp cfg \<and>
                 (blank (wss_totp_secret cfg) \<or> wss_totp_digits cfg < 6 \<or> wss_totp_digits cfg > 8 \<or> wss_totp_period_s cfg = 0)
              then (ESP_ERR_INVALID_ARG, st)
              else
                (case ws_security_context_init (env_crypto env) (Some (sec_config_of cfg)) of
                   (ESP_OK, sec) \<Rightarrow>
                     start_nonces env cb (st\<lparr>srv_sec := the (ws_security_reset_counters (Some sec))\<rparr>)
                 | (sec_err, sec) \<Rightarrow> (sec_err, st\<lparr>srv_sec := sec\<rparr>)))"

definition ws_server_stop :: "ws_server \<Rightarrow> ws_server" where
  "ws_server_stop st =
     (let st = (if srv_ping_timer st then delete_timer (emit EvTimerStop st) else st);
          st = (if srv_handle st then (emit EvHttpdStop st)\<lparr>srv_handle := False\<rparr> else st);
          st = (if srv_lock st then delete_lock st else st);
          st = free_nonces ((free_clients (free_rx_buffer st))\<lparr>srv_rx_cb := False\<rparr>)
      in st\<lparr>srv_nonce_ttl := 0, srv_sec := ws_security_zero, srv_time_fn := None\<rparr>)"

section \<open>Frames of the operations\<close>

lemma emit_simps [frame_simps, simp]:
  "srv_clients (emit ev st) = srv_clients st" "srv_sec (emit ev st) = srv_sec st"
  "srv_cfg (emit ev st) = srv_cfg st" "srv_nonces (emit ev st) = srv_nonces st"
  "srv_nonce_ttl (emit ev st) = srv_nonce_ttl st" "srv_log (emit ev st) = ev # srv_log st"
  "srv_handle (emit ev st) = srv_handle st" "srv_rx_cb (emit ev st) = srv_rx_cb st"
  "srv_lock (emit ev st) = srv_lock st" "srv_ping_timer (emit ev st) = srv_ping_timer st"
  "srv_rx_buffer (emit ev st) = srv_rx_buffer st" "handshake_on (emit ev st) = handshake_on st"
  by (simp_all add: emit_def handshake_on_def)

lemma update_client_simps [frame_simps, simp]:
  "srv_clients (update_client i f st) = map_option (\<lambda>cs. cs[i := f (cs ! i)]) (srv_clients st)"
  "srv_sec (update_client i f st) = srv_sec st" "srv_cfg (update_client i f st) = srv_cfg st"
  "srv_rx_cb (update_client i f st) = srv_rx_cb st" "srv_log (update_client i f st) = srv_log st"
  "handshake_on (update_client i f st) = handshake_on st"
  by (simp_all add: update_client_def handshake_on_def)

lemma drop_client_simps [frame_simps, simp]:
  "srv_clients (drop_client fd st) = map_option (drop_client_locked (handshake_on st) fd) (srv_clients st)"
  "srv_sec (drop_client fd st) = srv_sec st" "srv_cfg (drop_client fd st) = srv_cfg st"
  "srv_log (drop_client fd st) = srv_log st" "handshake_on (drop_client fd st) = handshake_on st"
  by (simp_all add: drop_client_def handshake_on_def)

lemma deliver_simps [frame_simps, simp]:
  "srv_clients (deliver ty p st) = srv_clients st" "srv_sec (deliver ty p st) = srv_sec st"
  "srv_cfg (deliver ty p st) = srv_cfg st" "srv_rx_cb (deliver ty p st) = srv_rx_cb st"
  by (simp_all add: deliver_def)

section \<open>Authorisation\<close>

lemma configured_token_nonces [simp]: "configured_token (st\<lparr>srv_nonces := x\<rparr>) = configured_token st"
  by (simp add: configured_token_def)

lemma case_ok_True: "(case p of (ESP_OK, m) \<Rightarrow> m | _ \<Rightarrow> False) \<longleftrightarrow> p = (ESP_OK, True)"
  by (auto split: prod.splits esp_err.splits)

lemma authorize_totpE:
  assumes "authorize_totp env st req" and "sec_totp_enabled (srv_sec st)"
  obtains header code where "req_header req ''X-WS-TOTP'' 16 = (ESP_OK, header)"
    "parse_decimal_header header (sec_totp_digits (srv_sec st)) = Some code"
    "ws_security_verify_totp (env_crypto env) (Some (srv_sec st)) (get_authorize_time env st) code = (ESP_OK, True)"
  using assms unfolding authorize_totp_def case_ok_True
  by (auto simp: ws_security_is_totp_enabled_def ws_security_totp_digits_def
      split: prod.splits esp_err.splits option.splits)

lemma authorize_handshakeE:
  assumes "authorize_handshake env st req = (True, st')" and "handshake_on st"
  obtains nonce signature where "handshake_headers env req = Some (nonce, signature)"
    "\<not> fst (nonce_is_duplicate (srv_nonces st) (srv_nonce_ttl st) nonce (env_ticks env (srv_log st)))"
    "ws_security_verify_handshake (env_crypto env) (Some (srv_sec st)) (Some nonce) (Some (configured_token st)) (Some signature) = ESP_OK"
    "st' = st\<lparr>srv_nonces := nonce_store (snd (nonce_is_duplicate (srv_nonces st) (srv_nonce_ttl st) nonce (env_ticks env (srv_log st))))
       nonce (env_ticks env (srv_log st))\<rparr>"
  using assms
  by (auto simp: authorize_handshake_def Let_def case_prod_unfold split: option.splits if_splits)

lemma authorize_request_True:
  "authorize_request env st req = (True, st') \<longleftrightarrow>
    authorize_bearer st req \<and> authorize_handshake env st req = (True, st') \<and> authorize_totp env st' req"
  by (auto simp: authorize_request_def split: prod.splits bool.splits)

lemma authorize_bearerD:
  assumes "authorize_bearer st req" and "configured_token st \<noteq> []"
  shows "req_header req ''Authorization'' 192 = (ESP_OK, ''Bearer '' @ configured_token st)"
proof -
  obtain header where h: "req_header req ''Authorization'' 192 = (ESP_OK, header)"
    "take 7 header = ''Bearer ''" "drop 7 header = configured_token st"
    using assms by (auto simp: authorize_bearer_def Let_def split: prod.splits esp_err.splits if_splits)
  from h(2,3) have "header = ''Bearer '' @ configured_token st" by (metis append_take_drop_id)
  with h(1) show ?thesis by simp
qed

text \<open>
  C9. Authorisation. A client is admitted only when it presents the configured bearer token
  and, with the handshake enabled, a nonce not seen before with its valid signature, and,
  with one-time passwords enabled, a code that verifies at the current time.
\<close>

theorem authorize_request_sound:
  assumes "authorize_request env st req = (True, st')"
  shows "(configured_token st \<noteq> [] \<longrightarrow> req_header req ''Authorization'' 192 = (ESP_OK, ''Bearer '' @ configured_token st)) \<and>
    (handshake_on st \<longrightarrow> (\<exists>nonce signature. handshake_headers env req = Some (nonce, signature) \<and>
       \<not> fst (nonce_is_duplicate (srv_nonces st) (srv_nonce_ttl st) nonce (env_ticks env (srv_log st))) \<and>
       ws_security_verify_handshake (env_crypto env) (Some (srv_sec st)) (Some nonce) (Some (configured_token st)) (Some signature) = ESP_OK)) \<and>
    (sec_totp_enabled (srv_sec st) \<longrightarrow> (\<exists>header code. req_header req ''X-WS-TOTP'' 16 = (ESP_OK, header) \<and>
       parse_decimal_header header (sec_totp_digits (srv_sec st)) = Some code \<and>
       ws_security_verify_totp (env_crypto env) (Some (srv_sec st)) (get_authorize_time env st) code = (ESP_OK, True)))"
proof -
  from assms have a: "authorize_bearer st req" "authorize_handshake env st req = (True, st')" "authorize_totp env st' req"
    by (simp_all add: authorize_request_True)
  have same: "srv_sec st' = srv_sec st" "srv_log st' = srv_log st" "srv_time_fn st' = srv_time_fn st"
    using a(2) by (auto simp: authorize_handshake_def Let_def split: prod.splits option.splits if_splits)
  then have time: "get_authorize_time env st' = get_authorize_time env st" by (simp add: get_authorize_time_def split: option.split)
  have "sec_totp_enabled (srv_sec st) \<longrightarrow> (\<exists>header code. req_header req ''X-WS-TOTP'' 16 = (ESP_OK, header) \<and>
       parse_decimal_header header (sec_totp_digits (srv_sec st)) = Some code \<and>
       ws_security_verify_totp (env_crypto env) (Some (srv_sec st)) (get_authorize_time env st) code = (ESP_OK, True))"
    using a(3) same time by (auto elim!: authorize_totpE)
  with a authorize_bearerD show ?thesis by (auto elim!: authorize_handshakeE)
qed

end
