(* ===== verification/WsServerProps.thy ===== *)
theory WsServerProps
  imports WsServer
begin

text \<open>
  What the WebSocket server guarantees: the delivery of frames to the application, the
  keep-alive of the clients, the broadcast, and the life cycle of its resources.
\<close>

section \<open>Delivery\<close>

text \<open>A frame of a known client, after the two receive calls of the handler.\<close>

definition frame_req :: "int \<Rightarrow> ws_frame_type \<Rightarrow> bytes \<Rightarrow> httpd_req" where
  "frame_req fd ty payload =
     \<lparr>req_is_get = False, req_fd = fd, req_header = (\<lambda>_ _. (ESP_ERR_NOT_FOUND, [])),
      req_frame_len = (ESP_OK, length payload), req_frame = (ESP_OK, ty, payload)\<rparr>"

lemma ws_handler_frame_req:
  assumes "srv_clients st = Some cs" and "find_client cs fd = Some i" and "length payload \<le> wss_rx_buffer_size (srv_cfg st)"
    and "ty \<noteq> WS_PING" and "ty \<noteq> WS_PONG"
  shows "ws_handler env (frame_req fd ty payload) st =
    ws_handler_data env fd i ((cs ! i)\<lparr>cl_last_seen := env_ticks env (srv_log st)\<rparr>) ty payload
      (update_client i (\<lambda>c. c\<lparr>cl_last_seen := env_ticks env (srv_log st)\<rparr>) st)"
proof -
  have "i < length cs" using assms(2) by (auto simp: find_client_def elim: find_index_SomeE)
  with assms show ?thesis
    by (simp add: ws_handler_def frame_req_def ws_handler_frame_def srv_find_client_def Let_def)
qed

lemma srv_log_deliver:
  "srv_log (deliver ty p st) =
    (if ty = WS_BINARY \<and> 4 \<le> length p then EvRx (drop 4 p) (le_word (take 4 p)) else EvRx p 0) # srv_log st"
  by (simp add: deliver_def)

lemma ws_handler_binary_cases:
  assumes "srv_clients st = Some cs" and "find_client cs fd = Some i"
    and "length payload \<le> wss_rx_buffer_size (srv_cfg st)" and "srv_rx_cb st" and "sec_encryption_enabled (srv_sec st)"
    and "ws_handler env (frame_req fd WS_BINARY payload) st = (ret, st')"
  shows "if \<not> cl_handshake_verified (cs ! i) then ret = ESP_ERR_INVALID_STATE \<and> srv_log st' = srv_log st
    else case ws_security_decrypt (env_crypto env) (Some (srv_sec st)) (Some payload) (Some (cl_last_counter (cs ! i))) of
        (ESP_OK, p, counter) \<Rightarrow> ret = ESP_OK \<and> counter = Some (frame_counter payload) \<and>
          cl_last_counter (cs ! i) < frame_counter payload \<and>
          srv_clients st' = Some (cs[i := (cs ! i)\<lparr>cl_last_seen := env_ticks env (srv_log st),
            cl_last_counter := frame_counter payload, cl_awaiting_pong := False\<rparr>]) \<and>
          srv_log st' = (if 4 \<le> length p then EvRx (drop 4 p) (le_word (take 4 p)) else EvRx p 0) # srv_log st
      | (err, p, counter) \<Rightarrow> ret = err \<and> srv_log st' = EvClose fd # srv_log st \<and>
          srv_clients st' = Some (cs[i := client_cleared (handshake_on st)])"
proof -
  have i: "i < length cs" "cl_fd (cs ! i) = fd" "\<And>j. j < i \<Longrightarrow> cl_fd (cs ! j) \<noteq> fd"
    using assms(2) by (auto simp: find_client_def elim: find_index_SomeE)
  have drop: "drop_client_locked hs fd (cs[i := (cs ! i)\<lparr>cl_last_seen := now\<rparr>]) = cs[i := client_cleared hs]" for hs now
  proof -
    have "find_index (\<lambda>c. cl_fd c = fd) (cs[i := (cs ! i)\<lparr>cl_last_seen := now\<rparr>]) = Some i"
      using i by (auto simp: find_index_Some nth_list_update)
    then show ?thesis by (simp add: drop_client_locked_def)
  qed
  show ?thesis
  proof (cases "cl_handshake_verified (cs ! i)")
    case False
    then show ?thesis using assms
      by (auto simp: ws_handler_frame_req ws_handler_data_def ws_security_is_encryption_enabled_def)
  next
    case True
    obtain err p counter where d: "ws_security_decrypt (env_crypto env) (Some (srv_sec st)) (Some payload) (Some (cl_last_counter (cs ! i))) = (err, p, counter)"
      by (metis prod.collapse)
    have run: "ws_handler env (frame_req fd WS_BINARY payload) st =
        (case (err, p, counter) of
           (ESP_OK, plaintext, counter) \<Rightarrow>
             (ESP_OK, update_client i (\<lambda>c. c\<lparr>cl_awaiting_pong := False\<rparr>)
               (deliver WS_BINARY plaintext (update_client i (\<lambda>c. c\<lparr>cl_last_counter := the counter\<rparr>)
                 (update_client i (\<lambda>c. c\<lparr>cl_last_seen := env_ticks env (srv_log st)\<rparr>) st))))
         | (dec_err, _, _) \<Rightarrow> (dec_err, drop_client fd (emit (EvClose fd)
             (update_client i (\<lambda>c. c\<lparr>cl_last_seen := env_ticks env (srv_log st)\<rparr>) st))))"
      using assms True d
      by (simp add: ws_handler_frame_req ws_handler_data_def ws_security_is_encryption_enabled_def)
    show ?thesis
    proof (cases "err = ESP_OK")
      case ok: True
      have "cl_last_counter (cs ! i) < frame_counter payload \<and> counter = Some (frame_counter payload)"
        using d ok assms(5) by (auto simp: ws_security_decrypt_def dest: ws_security_open_frame_advances)
      with ok True d run assms(1,6) i show ?thesis by (auto simp: srv_log_deliver)
    next
      case False
      then have "ws_handler env (frame_req fd WS_BINARY payload) st =
          (err, drop_client fd (emit (EvClose fd) (update_client i (\<lambda>c. c\<lparr>cl_last_seen := env_ticks env (srv_log st)\<rparr>) st)))"
        unfolding run by (auto split: esp_err.split)
      with False True d assms(1,6) drop show ?thesis by (auto split: esp_err.split)
    qed
  qed
qed

text \<open>
  C10. Delivery of an encrypted frame. With encryption on, the application sees a binary frame
  only if its client has completed the handshake and the frame decrypts under a counter
  above the last one of that client; it then sees exactly the plaintext after its four
  CRC bytes. A frame that does not decrypt closes the connection and removes the client.
\<close>

theorem ws_handler_encrypted_binary:
  assumes "srv_clients st = Some cs" and "find_client cs fd = Some i"
    and "length payload \<le> wss_rx_buffer_size (srv_cfg st)" and "srv_rx_cb st" and "sec_encryption_enabled (srv_sec st)"
    and "ws_handler env (frame_req fd WS_BINARY payload) st = (ret, st')"
  shows "if \<not> cl_handshake_verified (cs ! i) then ret = ESP_ERR_INVALID_STATE \<and> srv_log st' = srv_log st
    else case ws_security_decrypt (env_crypto env) (Some (srv_sec st)) (Some payload) (Some (cl_last_counter (cs ! i))) of
        (ESP_OK, p, counter) \<Rightarrow> ret = ESP_OK \<and> counter = Some (frame_counter payload) \<and>
          cl_last_counter (cs ! i) < frame_counter payload \<and>
          srv_clients st' = Some (cs[i := (cs ! i)\<lparr>cl_last_seen := env_ticks env (srv_log st),
            cl_last_counter := frame_counter payload, cl_awaiting_pong := False\<rparr>]) \<and>
          srv_log st' = (if 4 \<le> length p then EvRx (drop 4 p) (le_word (take 4 p)) else EvRx p 0) # srv_log st
      | (err, p, counter) \<Rightarrow> ret = err \<and> srv_log st' = EvClose fd # srv_log st \<and>
          srv_clients st' = Some (cs[i := client_cleared (handshake_on st)])"
  using assms by (rule ws_handler_binary_cases)

text \<open>
  C18. Text frames bypass the encryption. With encryption on, a text frame of any client in the
  table, even one whose handshake is not verified, reaches the application as it came, with
  a CRC of 0, which the decoders take as "no checksum".
\<close>

theorem ws_handler_text_bypasses_encryption:
  assumes "srv_clients st = Some cs" and "find_client cs fd = Some i"
    and "length payload \<le> wss_rx_buffer_size (srv_cfg st)" and "srv_rx_cb st" and "sec_encryption_enabled (srv_sec st)"
  shows "\<exists>st'. ws_handler env (frame_req fd WS_TEXT payload) st = (ESP_OK, st') \<and> srv_log st' = EvRx payload 0 # srv_log st"
  using assms by (simp add: ws_handler_frame_req ws_handler_data_def srv_log_deliver)

text \<open>
  A replayed frame removes its sender. Once an encrypted frame is accepted, handing the
  same bytes to the handler again delivers nothing: the connection is closed and the client
  leaves the table.
\<close>

theorem ws_handler_replay_drops_client:
  assumes "srv_clients st = Some cs" and "find_client cs fd = Some i"
    and "length payload \<le> wss_rx_buffer_size (srv_cfg st)" and "srv_rx_cb st" and "sec_encryption_enabled (srv_sec st)"
    and "cl_handshake_verified (cs ! i)"
    and "ws_handler env (frame_req fd WS_BINARY payload) st = (ESP_OK, st1)"
    and "ws_handler env (frame_req fd WS_BINARY payload) st1 = (ret, st2)"
  shows "ret \<noteq> ESP_OK \<and> srv_log st2 = EvClose fd # srv_log st1 \<and>
    srv_clients st2 = Some (cs[i := client_cleared (handshake_on st)])"
proof -
  have i: "i < length cs" "cl_fd (cs ! i) = fd" "\<And>j. j < i \<Longrightarrow> cl_fd (cs ! j) \<noteq> fd"
    using assms(2) by (auto simp: find_client_def elim: find_index_SomeE)
  let ?d = "ws_security_decrypt (env_crypto env) (Some (srv_sec st)) (Some payload)"
  let ?c = "(cs ! i)\<lparr>cl_last_seen := env_ticks env (srv_log st), cl_last_counter := frame_counter payload, cl_awaiting_pong := False\<rparr>"
  note first = ws_handler_binary_cases [OF assms(1-5,7)]
  obtain err p counter where d: "?d (Some (cl_last_counter (cs ! i))) = (err, p, counter)" by (metis prod.collapse)
  have "err = ESP_OK" using first assms(6) d by (auto split: esp_err.splits)
  with first assms(6) d have st1: "srv_clients st1 = Some (cs[i := ?c])" by simp
  have keep: "srv_sec st1 = srv_sec st" "srv_cfg st1 = srv_cfg st" "srv_rx_cb st1 = srv_rx_cb st"
    using assms(7) \<open>err = ESP_OK\<close> d assms(1-6)
    by (auto simp: ws_handler_frame_req ws_handler_data_def ws_security_is_encryption_enabled_def)
  have find: "find_client (cs[i := ?c]) fd = Some i"
    using i by (auto simp: find_client_def find_index_Some nth_list_update)
  note second = ws_handler_binary_cases [OF st1 find, of payload env ret st2]
  have "?d (Some (frame_counter payload)) = (err2, p2, c2) \<Longrightarrow> err2 \<noteq> ESP_OK" for err2 p2 c2
    using assms(5) ws_security_open_frame_advances [of "env_crypto env" "srv_sec st" payload "frame_counter payload" p2 c2]
    by (auto simp: ws_security_decrypt_def)
  moreover have "handshake_on st1 = handshake_on st" by (simp add: handshake_on_def keep)
  ultimately show ?thesis
    using second assms(3-6,8) i keep by (auto split: prod.splits esp_err.splits)
qed

section \<open>One slot at a time\<close>

lemma drop_client_slot:
  assumes "srv_clients st = Some cs" and "clients_inv cs" and "i < length cs" and "0 \<le> cl_fd (cs ! i)"
  shows "srv_clients (drop_client (cl_fd (cs ! i)) st) = Some (cs[i := client_cleared (handshake_on st)])"
  using assms by (simp add: drop_client_at)

lemma send_ws_frame_simps:
  "send_ws_frame env fd ty p st = (err, st') \<longleftrightarrow> err = env_send env (srv_log st) fd ty p \<and> st' = emit (EvSend fd ty p) st"
  by (auto simp: send_ws_frame_def)

text \<open>What one turn of the ping loop makes of a client.\<close>

definition ping_outcome :: "bool \<Rightarrow> tick \<Rightarrow> tick \<Rightarrow> tick \<Rightarrow> srv_event list \<Rightarrow> ws_client_t \<Rightarrow> ws_client_t \<Rightarrow> bool" where
  "ping_outcome hs now ping_interval pong_timeout log c c' \<longleftrightarrow>
     (if cl_fd c < 0 then c' = c
      else if cl_awaiting_pong c then
        (if now - cl_last_seen c \<ge> pong_timeout then c' = client_cleared hs \<and> EvClose (cl_fd c) \<in> set log else c' = c)
      else if now - cl_last_seen c \<ge> ping_interval then
        EvSend (cl_fd c) WS_PING [] \<in> set log \<and>
        (c' = c\<lparr>cl_awaiting_pong := True\<rparr> \<or> c' = client_cleared hs \<and> EvClose (cl_fd c) \<in> set log)
      else c' = c)"

lemma ping_outcome_mono:
  "ping_outcome hs now pi pt log c c' \<Longrightarrow> set log \<subseteq> set log' \<Longrightarrow> ping_outcome hs now pi pt log' c c'"
  by (auto simp: ping_outcome_def split: if_splits)

lemma ping_client_step:
  assumes "srv_clients st = Some cs" and "clients_inv cs" and "i < length cs"
  shows "\<exists>c'. srv_clients (ping_client env now pi pt i st) = Some (cs[i := c']) \<and> clients_inv (cs[i := c']) \<and>
    srv_sec (ping_client env now pi pt i st) = srv_sec st \<and>
    set (srv_log st) \<subseteq> set (srv_log (ping_client env now pi pt i st)) \<and>
    ping_outcome (handshake_on st) now pi pt (srv_log (ping_client env now pi pt i st)) (cs ! i) c'"
proof -
  let ?c = "cs ! i"
  have drop: "drop_client_locked (handshake_on st) (cl_fd ?c) cs = cs[i := client_cleared (handshake_on st)]" if "0 \<le> cl_fd ?c"
    using drop_client_at [OF assms(2,3) that] .
  consider (free) "cl_fd ?c < 0" | (timeout) "0 \<le> cl_fd ?c" "cl_awaiting_pong ?c" "now - cl_last_seen ?c \<ge> pt"
    | (ping) "0 \<le> cl_fd ?c" "\<not> cl_awaiting_pong ?c" "now - cl_last_seen ?c \<ge> pi"
    | (idle) "0 \<le> cl_fd ?c" "if cl_awaiting_pong ?c then \<not> now - cl_last_seen ?c \<ge> pt else \<not> now - cl_last_seen ?c \<ge> pi"
    by (cases "cl_fd ?c < 0"; cases "cl_awaiting_pong ?c"; auto)
  then show ?thesis
  proof cases
    case free
    then show ?thesis using assms by (intro exI [of _ ?c]) (simp add: ping_client_def Let_def ping_outcome_def)
  next
    case timeout
    then have "ping_client env now pi pt i st = drop_client (cl_fd ?c) (emit (EvClose (cl_fd ?c)) st)"
      using assms by (simp add: ping_client_def Let_def)
    with timeout assms drop show ?thesis
      by (intro exI [of _ "client_cleared (handshake_on st)"]) (auto simp: ping_outcome_def intro: clients_inv_clear)
  next
    case ping
    show ?thesis
    proof (cases "env_send env (srv_log st) (cl_fd ?c) WS_PING [] = ESP_OK")
      case True
      with ping assms have "ping_client env now pi pt i st =
          update_client i (\<lambda>c. c\<lparr>cl_awaiting_pong := True\<rparr>) (emit (EvSend (cl_fd ?c) WS_PING []) st)"
        by (simp add: ping_client_def Let_def send_ws_frame_def)
      with ping assms show ?thesis
        by (intro exI [of _ "?c\<lparr>cl_awaiting_pong := True\<rparr>"]) (auto simp: ping_outcome_def intro: clients_inv_keep)
    next
      case False
      with ping assms have "ping_client env now pi pt i st =
          drop_client (cl_fd ?c) (emit (EvClose (cl_fd ?c)) (emit (EvSend (cl_fd ?c) WS_PING []) st))"
        by (simp add: ping_client_def Let_def send_ws_frame_def split: esp_err.split)
      with ping assms drop show ?thesis
        by (intro exI [of _ "client_cleared (handshake_on st)"]) (auto simp: ping_outcome_def intro: clients_inv_clear)
    qed
  next
    case idle
    then show ?thesis using assms
      by (intro exI [of _ ?c]) (auto simp: ping_client_def Let_def ping_outcome_def split: if_splits)
  qed
qed

lemma handshake_on_sec: "srv_sec s = srv_sec st \<Longrightarrow> handshake_on s = handshake_on st"
  by (simp add: handshake_on_def)

lemma ping_loop_outcome:
  assumes "srv_clients st = Some cs" and "clients_inv cs"
  shows "\<exists>cs'. srv_clients (for_loop (ping_client env now pi pt) (length cs) 0 st) = Some cs' \<and> length cs' = length cs \<and>
    clients_inv cs' \<and> (\<forall>j < length cs. ping_outcome (handshake_on st) now pi pt
      (srv_log (for_loop (ping_client env now pi pt) (length cs) 0 st)) (cs ! j) (cs' ! j))"
proof -
  let ?I = "\<lambda>i (s :: ws_server). \<exists>cs'. srv_clients s = Some cs' \<and> length cs' = length cs \<and> clients_inv cs' \<and> srv_sec s = srv_sec st \<and>
    (\<forall>j. i \<le> j \<and> j < length cs \<longrightarrow> cs' ! j = cs ! j) \<and>
    (\<forall>j < i. ping_outcome (handshake_on st) now pi pt (srv_log s) (cs ! j) (cs' ! j))"
  have "?I (0 + length cs) (for_loop (ping_client env now pi pt) (length cs) 0 st)"
  proof (rule for_loop_invariant)
    show "?I 0 st" using assms by auto
  next
    fix i s assume i: "0 \<le> i" "i < 0 + length cs" and I: "?I i s"
    then obtain cs' where cs': "srv_clients s = Some cs'" "length cs' = length cs" "clients_inv cs'" "srv_sec s = srv_sec st"
      "\<And>j. i \<le> j \<Longrightarrow> j < length cs \<Longrightarrow> cs' ! j = cs ! j"
      "\<And>j. j < i \<Longrightarrow> ping_outcome (handshake_on st) now pi pt (srv_log s) (cs ! j) (cs' ! j)" by auto
    let ?s = "ping_client env now pi pt i s"
    obtain c' where c': "srv_clients ?s = Some (cs'[i := c'])" "clients_inv (cs'[i := c'])" "srv_sec ?s = srv_sec s"
      "set (srv_log s) \<subseteq> set (srv_log ?s)" "ping_outcome (handshake_on s) now pi pt (srv_log ?s) (cs' ! i) c'"
      using ping_client_step [OF cs'(1,3), of i env now pi pt] i cs'(2) by auto
    have outcome: "ping_outcome (handshake_on st) now pi pt (srv_log ?s) (cs ! j) (cs'[i := c'] ! j)" if "j < Suc i" for j
    proof (cases "j = i")
      case True
      then show ?thesis using c'(5) cs'(2) cs'(5) [of i] handshake_on_sec [OF cs'(4)] i by simp
    next
      case False
      then have "j < i" using that by simp
      with ping_outcome_mono [OF cs'(6) c'(4)] show ?thesis by simp
    qed
    have rest: "\<forall>j. Suc i \<le> j \<and> j < length cs \<longrightarrow> cs'[i := c'] ! j = cs ! j" using cs'(5) by simp
    have all: "\<forall>j < Suc i. ping_outcome (handshake_on st) now pi pt (srv_log ?s) (cs ! j) (cs'[i := c'] ! j)"
      by (intro allI impI) (rule outcome)
    have len: "length (cs'[i := c']) = length cs" and sec: "srv_sec ?s = srv_sec st" using c'(3) cs'(2,4) by simp_all
    show "?I (Suc i) ?s"
      by (rule exI [of _ "cs'[i := c']"]) (intro conjI c'(1,2) len sec rest all)
  qed
  then show ?thesis by auto
qed

text \<open>
  Keep-alive. The ping timer removes exactly the clients that owe a pong for at least the
  timeout (their sessions are closed), pings exactly those that have been silent for the
  interval and owe none (and marks them, or removes them when the ping cannot be sent), and
  leaves every other slot as it is.
\<close>

theorem ping_timer_cb_spec:
  assumes "srv_clients st = Some cs" and "clients_inv cs"
  shows "\<exists>cs'. srv_clients (ping_timer_cb env st) = Some cs' \<and> length cs' = length cs \<and> clients_inv cs' \<and>
    (\<forall>j < length cs. ping_outcome (handshake_on st) (env_ticks env (srv_log st))
       (env_ms_to_ticks env (wss_ping_interval_ms (srv_cfg st))) (env_ms_to_ticks env (wss_pong_timeout_ms (srv_cfg st)))
       (srv_log (ping_timer_cb env st)) (cs ! j) (cs' ! j))"
  using ping_loop_outcome [OF assms] assms(1) by (simp add: ping_timer_cb_def Let_def)

section \<open>Broadcast\<close>

definition send_outcome :: "bool \<Rightarrow> bytes \<Rightarrow> srv_event list \<Rightarrow> ws_client_t \<Rightarrow> ws_client_t \<Rightarrow> bool" where
  "send_outcome hs frame log c c' \<longleftrightarrow>
     (if cl_fd c < 0 then c' = c
      else EvSend (cl_fd c) WS_BINARY frame \<in> set log \<and>
        (c' = c \<or> c' = client_cleared hs \<and> EvClose (cl_fd c) \<in> set log))"

lemma send_outcome_mono:
  "send_outcome hs frame log c c' \<Longrightarrow> set log \<subseteq> set log' \<Longrightarrow> send_outcome hs frame log' c c'"
  by (auto simp: send_outcome_def split: if_splits)

lemma send_client_step:
  assumes "srv_clients st = Some cs" and "clients_inv cs" and "i < length cs"
    and "send_client env frame i (r, st) = (r', st')"
  shows "\<exists>c'. srv_clients st' = Some (cs[i := c']) \<and> clients_inv (cs[i := c']) \<and> srv_sec st' = srv_sec st \<and>
    set (srv_log st) \<subseteq> set (srv_log st') \<and> send_outcome (handshake_on st) frame (srv_log st') (cs ! i) c' \<and>
    (r' = ESP_OK \<longleftrightarrow> r = ESP_OK \<and> c' = cs ! i)"
proof (cases "cl_fd (cs ! i) < 0")
  case True
  then show ?thesis using assms by (intro exI [of _ "cs ! i"]) (auto simp: send_client_def Let_def send_outcome_def)
next
  case False
  then have drop: "drop_client_locked (handshake_on st) (cl_fd (cs ! i)) cs = cs[i := client_cleared (handshake_on st)]"
    using drop_client_at [OF assms(2,3)] by simp
  have other: "client_cleared (handshake_on st) \<noteq> cs ! i"
  proof
    assume "client_cleared (handshake_on st) = cs ! i"
    then have "cl_fd (cs ! i) = - 1" by (simp add: client_cleared_def flip: \<open>client_cleared (handshake_on st) = cs ! i\<close>)
    with False show False by simp
  qed
  show ?thesis
  proof (cases "env_send env (srv_log st) (cl_fd (cs ! i)) WS_BINARY frame = ESP_OK")
    case True
    with False assms show ?thesis
      by (intro exI [of _ "cs ! i"]) (auto simp: send_client_def Let_def send_outcome_def send_ws_frame_def)
  next
    case err: False
    with False assms have "r' = env_send env (srv_log st) (cl_fd (cs ! i)) WS_BINARY frame \<and>
        st' = drop_client (cl_fd (cs ! i)) (emit (EvClose (cl_fd (cs ! i))) (emit (EvSend (cl_fd (cs ! i)) WS_BINARY frame) st))"
      by (auto simp: send_client_def Let_def send_ws_frame_def split: esp_err.splits)
    with False err assms drop other show ?thesis
      by (intro exI [of _ "client_cleared (handshake_on st)"]) (auto simp: send_outcome_def intro: clients_inv_clear)
  qed
qed

lemma broadcast_outcome:
  assumes "srv_clients st = Some cs" and "clients_inv cs" and "broadcast env frame st = (r, st')"
  shows "\<exists>cs'. srv_clients st' = Some cs' \<and> length cs' = length cs \<and> clients_inv cs' \<and>
    (\<forall>j < length cs. send_outcome (handshake_on st) frame (srv_log st') (cs ! j) (cs' ! j)) \<and>
    (r = ESP_OK \<longleftrightarrow> cs' = cs)"
proof -
  let ?I = "\<lambda>i (r, s :: ws_server). \<exists>cs'. srv_clients s = Some cs' \<and> length cs' = length cs \<and> clients_inv cs' \<and> srv_sec s = srv_sec st \<and>
    (\<forall>j. i \<le> j \<and> j < length cs \<longrightarrow> cs' ! j = cs ! j) \<and>
    (\<forall>j < i. send_outcome (handshake_on st) frame (srv_log s) (cs ! j) (cs' ! j)) \<and>
    (r = ESP_OK \<longleftrightarrow> (\<forall>j < i. cs' ! j = cs ! j))"
  have "?I (0 + length cs) (for_loop (send_client env frame) (length cs) 0 (ESP_OK, st))"
  proof (rule for_loop_invariant)
    show "?I 0 (ESP_OK, st)" using assms by auto
  next
    fix i rs assume i: "0 \<le> i" "i < 0 + length cs" and I: "?I i rs"
    obtain r s where rs: "rs = (r, s)" by fastforce
    obtain r2 s2 where step: "send_client env frame i (r, s) = (r2, s2)" by fastforce
    from I rs obtain cs' where cs': "srv_clients s = Some cs'" "length cs' = length cs" "clients_inv cs'" "srv_sec s = srv_sec st"
      "\<And>j. i \<le> j \<Longrightarrow> j < length cs \<Longrightarrow> cs' ! j = cs ! j"
      "\<And>j. j < i \<Longrightarrow> send_outcome (handshake_on st) frame (srv_log s) (cs ! j) (cs' ! j)"
      "r = ESP_OK \<longleftrightarrow> (\<forall>j < i. cs' ! j = cs ! j)" by auto
    obtain c' where c': "srv_clients s2 = Some (cs'[i := c'])" "clients_inv (cs'[i := c'])" "srv_sec s2 = srv_sec s"
      "set (srv_log s) \<subseteq> set (srv_log s2)" "send_outcome (handshake_on s) frame (srv_log s2) (cs' ! i) c'"
      "r2 = ESP_OK \<longleftrightarrow> r = ESP_OK \<and> c' = cs' ! i"
      using send_client_step [OF cs'(1,3) _ step] i cs'(2) by auto
    have outcome: "send_outcome (handshake_on st) frame (srv_log s2) (cs ! j) (cs'[i := c'] ! j)" if "j < Suc i" for j
    proof (cases "j = i")
      case True
      then show ?thesis using c'(5) cs'(2) cs'(5) [of i] handshake_on_sec [OF cs'(4)] i by simp
    next
      case False
      then have "j < i" using that by simp
      with send_outcome_mono [OF cs'(6) c'(4)] show ?thesis by simp
    qed
    have "r2 = ESP_OK \<longleftrightarrow> (\<forall>j < Suc i. cs'[i := c'] ! j = cs ! j)"
      unfolding c'(6) cs'(7) All_less_Suc using cs'(2) cs'(5) [of i] i by (auto simp: nth_list_update)
    note ok = this
    have rest: "\<forall>j. Suc i \<le> j \<and> j < length cs \<longrightarrow> cs'[i := c'] ! j = cs ! j" using cs'(5) by simp
    have all: "\<forall>j < Suc i. send_outcome (handshake_on st) frame (srv_log s2) (cs ! j) (cs'[i := c'] ! j)"
      by (intro allI impI) (rule outcome)
    have len: "length (cs'[i := c']) = length cs" and sec: "srv_sec s2 = srv_sec st" using c'(3) cs'(2,4) by simp_all
    show "?I (Suc i) (send_client env frame i rs)"
      unfolding rs step prod.case
      by (rule exI [of _ "cs'[i := c']"]) (intro conjI c'(1,2) len sec rest all ok)
  qed
  with assms(1,3) have "?I (length cs) (r, st')" by (simp add: broadcast_def)
  then obtain cs' where cs': "srv_clients st' = Some cs'" "length cs' = length cs" "clients_inv cs'"
    "\<forall>j < length cs. send_outcome (handshake_on st) frame (srv_log st') (cs ! j) (cs' ! j)"
    "r = ESP_OK \<longleftrightarrow> (\<forall>j < length cs. cs' ! j = cs ! j)" by auto
  moreover have "(\<forall>j < length cs. cs' ! j = cs ! j) \<longleftrightarrow> cs' = cs" using cs'(2) by (auto simp: list_eq_iff_nth_eq)
  ultimately show ?thesis by blast
qed

text \<open>
  Broadcast. A send without encryption offers the payload to every connected client, in a
  binary frame; a client whose frame cannot be queued is closed and removed and no other
  slot changes; the call reports success exactly when no client was removed.
\<close>

theorem ws_server_send_plain:
  assumes "srv_clients st = Some cs" and "clients_inv cs" and "srv_handle st" and "data \<noteq> []"
    and "\<not> sec_encryption_enabled (srv_sec st)" and "ws_server_send env (Some data) st = (r, st')"
  shows "\<exists>cs'. srv_clients st' = Some cs' \<and> length cs' = length cs \<and> clients_inv cs' \<and>
    (\<forall>j < length cs. send_outcome (handshake_on st) data (srv_log st') (cs ! j) (cs' ! j)) \<and>
    (r = ESP_OK \<longleftrightarrow> cs' = cs)"
  using broadcast_outcome [OF assms(1,2)] assms(3-6)
  by (simp add: ws_server_send_def ws_security_is_encryption_enabled_def)

lemma ws_server_send_frame:
  assumes "srv_clients st = Some cs" and "clients_inv cs" and "srv_handle st" and "data \<noteq> []"
    and "sec_encryption_enabled (srv_sec st)" and "gcm_correct (env_crypto env)"
    and "length (env_random_iv env (srv_log st)) = 12"
    and "env_alloc env (srv_log st) ''frame'' (38 + length data)"
    and "seen < sec_tx_counter (srv_sec st) + 1"
    and "ws_server_send env (Some data) st = (r, st')"
  shows "\<exists>frame. length frame = 38 + length data \<and>
    ws_security_decrypt (env_crypto env) (Some (srv_sec st)) (Some frame) (Some seen) =
      (ESP_OK, data, Some (sec_tx_counter (srv_sec st) + 1)) \<and>
    (\<forall>j < length cs. cl_fd (cs ! j) \<ge> 0 \<longrightarrow> EvSend (cl_fd (cs ! j)) WS_BINARY frame \<in> set (srv_log st'))"
proof -
  let ?n = "sec_tx_counter (srv_sec st) + 1"
  obtain frame where f:
    "ws_security_encrypt (env_crypto env) (env_random_iv env (srv_log st)) (srv_sec st) data (38 + length data) =
       (ESP_OK, Some frame, (srv_sec st)\<lparr>sec_tx_counter := ?n\<rparr>)"
    "length frame = 38 + length data"
    "ws_security_decrypt (env_crypto env) (Some (srv_sec st)) (Some frame) (Some seen) = (ESP_OK, data, Some ?n)"
    using ws_security_encrypt_open [OF assms(6,5,7), of data "38 + length data" "Some seen"] assms(9) by auto
  let ?st = "(emit (EvAlloc ''frame'' (38 + length data)) st)\<lparr>srv_sec := (srv_sec st)\<lparr>sec_tx_counter := ?n\<rparr>\<rparr>"
  obtain r1 st1 where b: "broadcast env frame ?st = (r1, st1)" by fastforce
  have "ws_security_encrypted_size (Some (srv_sec st)) (length data) = 38 + length data"
    using assms(5) by (simp add: ws_security_encrypted_size_def ws_security_lens)
  then have st': "st' = emit (EvFree ''frame'') st1"
    using assms(3-5,8,10) f(1) b by (simp add: ws_server_send_def ws_security_is_encryption_enabled_def Let_def)
  have "\<forall>j < length cs. send_outcome (handshake_on ?st) frame (srv_log st1) (cs ! j) (the (srv_clients st1) ! j)"
    using broadcast_outcome [OF _ assms(2) b] assms(1) by auto
  then have "\<forall>j < length cs. cl_fd (cs ! j) \<ge> 0 \<longrightarrow> EvSend (cl_fd (cs ! j)) WS_BINARY frame \<in> set (srv_log st')"
    unfolding st' by (auto simp: send_outcome_def split: if_splits)
  with f(2,3) show ?thesis by blast
qed

text \<open>
  Encrypted broadcast. With encryption on and enough memory, every connected client is
  offered one and the same frame, and a receiver that holds the frame key and has seen no
  later counter decrypts it to the payload; each broadcast uses the next counter.
\<close>

theorem ws_server_send_encrypted:
  assumes "srv_clients st = Some cs" and "clients_inv cs" and "srv_handle st" and "data \<noteq> []"
    and "sec_encryption_enabled (srv_sec st)" and "gcm_correct (env_crypto env)"
    and "length (env_random_iv env (srv_log st)) = 12"
    and "env_alloc env (srv_log st) ''frame'' (38 + length data)"
    and "seen < sec_tx_counter (srv_sec st) + 1"
    and "ws_server_send env (Some data) st = (r, st')"
  shows "\<exists>frame. length frame = 38 + length data \<and>
    ws_security_decrypt (env_crypto env) (Some (srv_sec st)) (Some frame) (Some seen) =
      (ESP_OK, data, Some (sec_tx_counter (srv_sec st) + 1)) \<and>
    (\<forall>j < length cs. cl_fd (cs ! j) \<ge> 0 \<longrightarrow> EvSend (cl_fd (cs ! j)) WS_BINARY frame \<in> set (srv_log st'))"
  using assms by (rule ws_server_send_frame)

section \<open>Life cycle\<close>

text \<open>
  The balance of a resource in the log: acquisitions minus releases. A state owns what its
  variables point to when the balance of every resource is 1 where the variable is set and
  0 where it is not.
\<close>

fun acquires :: "string \<Rightarrow> srv_event \<Rightarrow> int" where
  "acquires r (EvAlloc n _) = (if n = r then 1 else 0)"
| "acquires r (EvFree n) = (if n = r then - 1 else 0)"
| "acquires r EvLockCreate = (if r = ''lock'' then 1 else 0)"
| "acquires r EvLockDelete = (if r = ''lock'' then - 1 else 0)"
| "acquires r (EvTimerCreate _) = (if r = ''timer'' then 1 else 0)"
| "acquires r EvTimerDelete = (if r = ''timer'' then - 1 else 0)"
| "acquires r _ = 0"

definition balance :: "string \<Rightarrow> ws_server \<Rightarrow> int" where
  "balance r st = sum_list (map (acquires r) (srv_log st))"

definition owned :: "ws_server \<Rightarrow> bool" where
  "owned st \<longleftrightarrow>
     balance ''nonces'' st = of_bool (srv_nonces st \<noteq> None) \<and>
     balance ''clients'' st = of_bool (srv_clients st \<noteq> None) \<and>
     balance ''rx'' st = of_bool (srv_rx_buffer st) \<and>
     balance ''lock'' st = of_bool (srv_lock st) \<and>
     balance ''timer'' st = of_bool (srv_ping_timer st)"

definition srv_stopped :: "ws_server \<Rightarrow> bool" where
  "srv_stopped st \<longleftrightarrow> \<not> srv_handle st \<and> srv_nonces st = None \<and> srv_clients st = None \<and> \<not> srv_rx_buffer st \<and>
     \<not> srv_lock st \<and> \<not> srv_ping_timer st"

definition srv_running :: "ws_server_config_t \<Rightarrow> ws_server \<Rightarrow> bool" where
  "srv_running config st \<longleftrightarrow> srv_handle st \<and> srv_lock st \<and> srv_ping_timer st \<and> srv_rx_buffer st \<and>
     wss_max_clients (srv_cfg st) \<noteq> 0 \<and>
     srv_clients st = Some (replicate (wss_max_clients (srv_cfg st)) (client_cleared (handshake_on st))) \<and>
     handshake_on st = wss_enable_handshake_token config \<and>
     sec_encryption_enabled (srv_sec st) = wss_enable_frame_encryption config \<and>
     sec_totp_enabled (srv_sec st) = wss_enable_totp config \<and>
     (handshake_on st \<longrightarrow> (\<exists>es. srv_nonces st = Some es \<and> es \<noteq> []))"

lemma balance_emit [simp]: "balance r (emit ev st) = acquires r ev + balance r st"
  by (simp add: balance_def)

lemma balance_updates [simp]:
  "balance r (srv_nonces_update a st) = balance r st" "balance r (srv_clients_update b st) = balance r st"
  "balance r (srv_rx_buffer_update c st) = balance r st" "balance r (srv_lock_update d st) = balance r st"
  "balance r (srv_ping_timer_update c st) = balance r st" "balance r (srv_cfg_update e st) = balance r st"
  "balance r (srv_time_fn_update f st) = balance r st" "balance r (srv_sec_update g st) = balance r st"
  "balance r (srv_nonce_ttl_update h st) = balance r st" "balance r (srv_rx_cb_update c st) = balance r st"
  "balance r (srv_handle_update c st) = balance r st"
  by (simp_all add: balance_def)

lemma handshake_on_updates [simp]:
  "handshake_on (srv_nonces_update a st) = handshake_on st" "handshake_on (srv_clients_update b st) = handshake_on st"
  "handshake_on (srv_rx_buffer_update c st) = handshake_on st" "handshake_on (srv_lock_update d st) = handshake_on st"
  "handshake_on (srv_ping_timer_update c st) = handshake_on st" "handshake_on (srv_cfg_update e st) = handshake_on st"
  "handshake_on (srv_nonce_ttl_update h st) = handshake_on st" "handshake_on (srv_rx_cb_update c st) = handshake_on st"
  "handshake_on (srv_handle_update c st) = handshake_on st"
  by (simp_all add: handshake_on_def)

lemma owned_free [inv_intros]:
  "owned st \<Longrightarrow> owned (free_nonces st)" "owned st \<Longrightarrow> owned (free_clients st)" "owned st \<Longrightarrow> owned (free_rx_buffer st)"
  "owned st \<Longrightarrow> srv_lock st \<Longrightarrow> owned (delete_lock st)" "owned st \<Longrightarrow> srv_ping_timer st \<Longrightarrow> owned (delete_timer st)"
  by (simp_all add: owned_def free_nonces_def free_clients_def free_rx_buffer_def delete_lock_def delete_timer_def)

lemma free_simps [frame_simps, simp]:
  "srv_nonces (free_nonces st) = None" "srv_clients (free_nonces st) = srv_clients st" "srv_rx_buffer (free_nonces st) = srv_rx_buffer st"
  "srv_lock (free_nonces st) = srv_lock st" "srv_ping_timer (free_nonces st) = srv_ping_timer st" "srv_handle (free_nonces st) = srv_handle st"
  "srv_nonces (free_clients st) = srv_nonces st" "srv_clients (free_clients st) = None" "srv_rx_buffer (free_clients st) = srv_rx_buffer st"
  "srv_lock (free_clients st) = srv_lock st" "srv_ping_timer (free_clients st) = srv_ping_timer st" "srv_handle (free_clients st) = srv_handle st"
  "srv_nonces (free_rx_buffer st) = srv_nonces st" "srv_clients (free_rx_buffer st) = srv_clients st" "\<not> srv_rx_buffer (free_rx_buffer st)"
  "srv_lock (free_rx_buffer st) = srv_lock st" "srv_ping_timer (free_rx_buffer st) = srv_ping_timer st" "srv_handle (free_rx_buffer st) = srv_handle st"
  "srv_nonces (delete_lock st) = srv_nonces st" "srv_clients (delete_lock st) = srv_clients st" "srv_rx_buffer (delete_lock st) = srv_rx_buffer st"
  "\<not> srv_lock (delete_lock st)" "srv_ping_timer (delete_lock st) = srv_ping_timer st" "srv_handle (delete_lock st) = srv_handle st"
  "srv_nonces (delete_timer st) = srv_nonces st" "srv_clients (delete_timer st) = srv_clients st" "srv_rx_buffer (delete_timer st) = srv_rx_buffer st"
  "srv_lock (delete_timer st) = srv_lock st" "\<not> srv_ping_timer (delete_timer st)" "srv_handle (delete_timer st) = srv_handle st"
  by (simp_all add: free_nonces_def free_clients_def free_rx_buffer_def delete_lock_def delete_timer_def)

text \<open>The result every stage of the start must reach.\<close>

definition start_result :: "ws_server_config_t \<Rightarrow> esp_err \<times> ws_server \<Rightarrow> bool" where
  "start_result config r \<longleftrightarrow> owned (snd r) \<and> (if fst r = ESP_OK then srv_running config (snd r) else srv_stopped (snd r))"

definition start_ready :: "ws_server_config_t \<Rightarrow> ws_server \<Rightarrow> bool" where
  "start_ready config st \<longleftrightarrow> owned st \<and> \<not> srv_handle st \<and> wss_max_clients (srv_cfg st) \<noteq> 0 \<and>
     handshake_on st = wss_enable_handshake_token config \<and>
     sec_encryption_enabled (srv_sec st) = wss_enable_frame_encryption config \<and>
     sec_totp_enabled (srv_sec st) = wss_enable_totp config \<and>
     (handshake_on st \<longrightarrow> (\<exists>es. srv_nonces st = Some es \<and> es \<noteq> []))"

lemma start_httpd_result:
  assumes "start_ready config st" and "srv_clients st = Some (replicate (wss_max_clients (srv_cfg st)) (client_cleared (handshake_on st)))"
    and "srv_rx_buffer st" and "srv_lock st" and "srv_ping_timer st"
  shows "start_result config (start_httpd env cb st)"
  using assms
  by (auto simp: start_httpd_def Let_def start_result_def srv_stopped_def srv_running_def start_ready_def
      intro!: owned_free) (simp_all add: owned_def)

lemma start_timer_result:
  assumes "start_ready config st" and "srv_clients st = Some (replicate (wss_max_clients (srv_cfg st)) (client_cleared (handshake_on st)))"
    and "srv_rx_buffer st" and "srv_lock st" and "\<not> srv_ping_timer st"
  shows "start_result config (start_timer env cb st)"
proof (cases "env_timer env (srv_log st)")
  case True
  have "start_ready config (emit (EvTimerCreate t) (st\<lparr>srv_ping_timer := True\<rparr>))" for t
    using assms by (simp add: start_ready_def owned_def)
  from start_httpd_result [OF this] True assms show ?thesis by (simp add: start_timer_def)
next
  case False
  with assms show ?thesis
    by (auto simp: start_timer_def start_result_def srv_stopped_def start_ready_def intro!: owned_free)
qed

lemma start_lock_result:
  assumes "start_ready config st" and "srv_clients st = Some (replicate (wss_max_clients (srv_cfg st)) (client_cleared (handshake_on st)))"
    and "srv_rx_buffer st" and "\<not> srv_lock st" and "\<not> srv_ping_timer st"
  shows "start_result config (start_lock env cb st)"
proof (cases "env_lock env (srv_log st)")
  case True
  have "start_ready config (emit EvLockCreate (st\<lparr>srv_lock := True\<rparr>))"
    using assms by (simp add: start_ready_def owned_def)
  from start_timer_result [OF this] True assms show ?thesis by (simp add: start_lock_def)
next
  case False
  with assms show ?thesis
    by (auto simp: start_lock_def start_result_def srv_stopped_def start_ready_def intro!: owned_free)
qed

lemma start_rx_buffer_result:
  assumes "start_ready config st" and "srv_clients st = Some (replicate (wss_max_clients (srv_cfg st)) (client_cleared (handshake_on st)))"
    and "\<not> srv_rx_buffer st" and "\<not> srv_lock st" and "\<not> srv_ping_timer st"
  shows "start_result config (start_rx_buffer env cb st)"
proof (cases "env_alloc env (srv_log st) ''rx'' (wss_rx_buffer_size (srv_cfg st) + 1)")
  case True
  have "start_ready config (emit (EvAlloc ''rx'' n) (st\<lparr>srv_rx_buffer := True\<rparr>))" for n
    using assms by (simp add: start_ready_def owned_def)
  from start_lock_result [OF this] True assms show ?thesis by (simp add: start_rx_buffer_def)
next
  case False
  with assms show ?thesis
    by (auto simp: start_rx_buffer_def start_result_def srv_stopped_def start_ready_def intro!: owned_free)
qed

lemma start_clients_result:
  assumes "start_ready config st" and "srv_clients st = None"
    and "\<not> srv_rx_buffer st" and "\<not> srv_lock st" and "\<not> srv_ping_timer st"
  shows "start_result config (start_clients env cb st)"
proof (cases "env_alloc env (srv_log st) ''clients'' (wss_max_clients (srv_cfg st))")
  case True
  have "start_ready config (emit (EvAlloc ''clients'' n) (st\<lparr>srv_clients := Some cs\<rparr>))" for n cs
    using assms by (simp add: start_ready_def owned_def)
  from start_rx_buffer_result [OF this] True assms show ?thesis by (simp add: start_clients_def Let_def)
next
  case False
  have "st\<lparr>srv_clients := None\<rparr> = st" using assms(2) by simp
  with False assms show ?thesis
    by (auto simp: start_clients_def Let_def start_result_def srv_stopped_def start_ready_def intro!: owned_free)
      (simp_all add: owned_def)
qed

lemma start_nonces_result:
  assumes "owned st" and "srv_stopped st" and "wss_max_clients (srv_cfg st) \<noteq> 0" and "handshake_on st = wss_enable_handshake_token config"
    and "sec_encryption_enabled (srv_sec st) = wss_enable_frame_encryption config"
    and "sec_totp_enabled (srv_sec st) = wss_enable_totp config"
  shows "start_result config (start_nonces env cb st)"
proof -
  let ?ttl = "env_ms_to_ticks env (wss_handshake_replay_window_ms (srv_cfg st))"
  let ?st = "st\<lparr>srv_nonces := None, srv_nonce_ttl := ?ttl\<rparr>"
  have stopped: "srv_stopped ?st" "owned ?st" using assms(1,2) by (simp_all add: srv_stopped_def owned_def)
  show ?thesis
  proof (cases "handshake_on st")
    case False
    then have "start_ready config ?st" using assms stopped by (simp add: start_ready_def srv_stopped_def)
    then have "start_result config (start_clients env cb ?st)"
      using stopped(1) by (intro start_clients_result) (simp_all add: srv_stopped_def)
    with False show ?thesis by (simp add: start_nonces_def Let_def)
  next
    case True
    let ?n = "if wss_handshake_cache_size (srv_cfg st) = 0 then 16 else wss_handshake_cache_size (srv_cfg st)"
    let ?es = "replicate ?n \<lparr>nce_valid = False, nce_timestamp = 0, nce_nonce = replicate 16 0\<rparr>"
    let ?st2 = "emit (EvAlloc ''nonces'' ?n) (?st\<lparr>srv_nonces := Some ?es\<rparr>)"
    have "start_ready config ?st2" using assms True by (auto simp: start_ready_def srv_stopped_def owned_def)
    then have "start_result config (start_clients env cb ?st2)"
      using assms(2) by (intro start_clients_result) (simp_all add: srv_stopped_def)
    moreover have "start_result config (ESP_ERR_NO_MEM, ?st)" using stopped by (simp add: start_result_def)
    ultimately show ?thesis using True by (simp add: start_nonces_def Let_def)
  qed
qed

lemma owned_cong [inv_intros]:
  "owned st \<Longrightarrow> owned (srv_cfg_update a st)" "owned st \<Longrightarrow> owned (srv_time_fn_update b st)" "owned st \<Longrightarrow> owned (srv_sec_update c st)"
  by (simp_all add: owned_def)

lemma srv_stopped_cong [inv_intros]:
  "srv_stopped st \<Longrightarrow> srv_stopped (srv_cfg_update a st)" "srv_stopped st \<Longrightarrow> srv_stopped (srv_time_fn_update b st)"
  "srv_stopped st \<Longrightarrow> srv_stopped (srv_sec_update c st)"
  by (simp_all add: srv_stopped_def)

lemma cfg_simps [simp]:
  "wss_max_clients (cfg_cache_size (cfg_defaults c)) \<noteq> 0"
  "wss_enable_handshake_token (cfg_cache_size (cfg_defaults c)) = wss_enable_handshake_token c"
  "wss_enable_frame_encryption (cfg_cache_size (cfg_defaults c)) = wss_enable_frame_encryption c"
  "wss_enable_totp (cfg_cache_size (cfg_defaults c)) = wss_enable_totp c"
  by (simp_all add: cfg_cache_size_def cfg_defaults_def Let_def)

lemma server_start_result:
  assumes "srv_stopped st" and "owned st" and "ws_server_start env (Some config) cb st = (err, st')"
  shows "owned st' \<and> (if err = ESP_OK then srv_running config st' else srv_stopped st')"
proof -
  let ?cfg1 = "cfg_defaults config" and ?cfg = "cfg_cache_size (cfg_defaults config)"
  let ?st1 = "st\<lparr>srv_cfg := ?cfg1, srv_time_fn := wss_get_time_unix ?cfg1\<rparr>"
  let ?st2 = "?st1\<lparr>srv_cfg := ?cfg\<rparr>"
  have keep: "srv_stopped ?st1" "owned ?st1" "srv_stopped ?st2" "owned ?st2"
    using assms(1,2) by (auto intro: owned_cong srv_stopped_cong)
  have "start_result config (ws_server_start env (Some config) cb st)"
  proof (cases "ws_security_context_init (env_crypto env) (Some (sec_config_of ?cfg))")
    case (Pair err sec)
    show ?thesis
    proof (cases "err = ESP_OK")
      case True
      let ?st3 = "?st2\<lparr>srv_sec := the (ws_security_reset_counters (Some sec))\<rparr>"
      have f: "sec_handshake_enabled sec = wss_enable_handshake_token config"
        "sec_encryption_enabled sec = wss_enable_frame_encryption config" "sec_totp_enabled sec = wss_enable_totp config"
        using ws_security_context_init_ok [of "env_crypto env" "sec_config_of ?cfg" sec] Pair True
        by (simp_all add: sec_config_of_def)
      have "start_result config (start_nonces env cb ?st3)"
        by (rule start_nonces_result)
          (use keep f in \<open>simp_all add: owned_cong srv_stopped_cong ws_security_reset_counters_def handshake_on_def
            ws_security_is_handshake_enabled_def\<close>)
      with True Pair keep assms(1,2) show ?thesis
        by (auto simp: ws_server_start_def Let_def start_result_def srv_stopped_def)
    next
      case False
      have "start_result config (err, ?st2\<lparr>srv_sec := sec\<rparr>)"
        using False keep by (simp add: start_result_def owned_cong srv_stopped_cong)
      with False Pair keep assms(1,2) show ?thesis
        by (auto simp: ws_server_start_def Let_def start_result_def srv_stopped_def split: esp_err.split)
    qed
  qed
  with assms(3) show ?thesis by (auto simp: start_result_def split: if_splits)
qed


text \<open>
  Starting is all or nothing. From a stopped server, \<^verbatim>\<open>ws_server_start\<close> either succeeds,
  and then the server runs with the configured features and an empty client table, or it
  fails at some step and leaves the server stopped; either way every buffer, lock and timer
  it acquired and no longer points to has been released exactly once.
\<close>

theorem ws_server_start_all_or_nothing:
  assumes "srv_stopped st" and "owned st" and "ws_server_start env (Some config) cb st = (err, st')"
  shows "owned st' \<and> (if err = ESP_OK then srv_running config st' else srv_stopped st')"
  using assms by (rule server_start_result)
lemma owned_release_lock: "owned st \<Longrightarrow> owned (if srv_lock st then delete_lock st else st)"
  by (simp add: owned_free)

text \<open>
  Stopping releases everything. After \<^verbatim>\<open>ws_server_stop\<close> the server is stopped, the security
  context is wiped, and every buffer, lock and timer acquired since the start has been
  released exactly once.
\<close>

theorem ws_server_stop_releases:
  assumes "owned st"
  shows "srv_stopped (ws_server_stop st) \<and> srv_sec (ws_server_stop st) = ws_security_zero \<and>
    (\<forall>r \<in> {''nonces'', ''clients'', ''rx'', ''lock'', ''timer''}. balance r (ws_server_stop st) = 0)"
proof -
  have stopped: "srv_stopped (ws_server_stop st)" "srv_sec (ws_server_stop st) = ws_security_zero"
    by (simp_all add: ws_server_stop_def Let_def srv_stopped_def)
  let ?a = "if srv_ping_timer st then delete_timer (emit EvTimerStop st) else st"
  let ?b = "if srv_handle ?a then (emit EvHttpdStop ?a)\<lparr>srv_handle := False\<rparr> else ?a"
  let ?c = "if srv_lock ?b then delete_lock ?b else ?b"
  have "owned (emit EvTimerStop st)" using assms by (simp add: owned_def)
  then have "owned ?a" using assms by (auto intro!: owned_free)
  then have "owned ?b" by (auto simp: owned_def)
  then have "owned ?c" by (rule owned_release_lock)
  then have "owned (free_clients (free_rx_buffer ?c))" by (intro owned_free)
  then have "owned ((free_clients (free_rx_buffer ?c))\<lparr>srv_rx_cb := False\<rparr>)" by (simp add: owned_def)
  then have "owned (free_nonces ((free_clients (free_rx_buffer ?c))\<lparr>srv_rx_cb := False\<rparr>))" by (rule owned_free)
  then have "owned (ws_server_stop st)" unfolding ws_server_stop_def Let_def by (simp add: owned_def)
  with stopped show ?thesis by (simp add: owned_def srv_stopped_def)
qed

section \<open>Concrete runs\<close>

definition demo_env :: srv_env where
  "demo_env = \<lparr>env_crypto = demo_crypto, env_base64 = (\<lambda>_ _. (B64_OK, replicate 32 19)), env_ticks = (\<lambda>log. 100),
     env_ms_to_ticks = (\<lambda>ms. ms div 10), env_time = (\<lambda>_. 0), env_random_iv = (\<lambda>_. replicate 12 1),
     env_send = (\<lambda>_ fd _ _. if fd = 9 then ESP_FAIL else ESP_OK), env_alloc = (\<lambda>_ _ _. True),
     env_lock = (\<lambda>_. True), env_timer = (\<lambda>_. True), env_httpd = (\<lambda>_. ESP_OK)\<rparr>"

definition demo_cfg :: ws_server_config_t where
  "demo_cfg = \<lparr>wss_port = 443, wss_max_clients = 2, wss_auth_token = Some ''tok'', wss_server_cert = Some [1],
     wss_server_key = Some [2], wss_ping_interval_ms = 100, wss_pong_timeout_ms = 50, wss_rx_buffer_size = 128,
     wss_crypto_secret = Some [1, 2, 3], wss_enable_frame_encryption = True, wss_enable_handshake_token = True,
     wss_handshake_replay_window_ms = 3000, wss_handshake_cache_size = 2, wss_enable_totp = True,
     wss_totp_secret = Some [9], wss_totp_period_s = 30, wss_totp_digits = 6, wss_totp_window = 1,
     wss_get_time_unix = None\<rparr>"

definition demo_srv :: ws_server where
  "demo_srv = \<lparr>srv_handle = True, srv_cfg = demo_cfg,
     srv_clients = Some [client_cleared True,
       \<lparr>cl_fd = 5, cl_last_seen = 40, cl_awaiting_pong = True, cl_handshake_verified = True, cl_last_counter = 0\<rparr>,
       \<lparr>cl_fd = 9, cl_last_seen = 90, cl_awaiting_pong = False, cl_handshake_verified = True, cl_last_counter = 0\<rparr>],
     srv_rx_cb = True, srv_lock = True, srv_ping_timer = True, srv_rx_buffer = True, srv_sec = demo_ctx,
     srv_time_fn = None, srv_nonces = Some (replicate 2 \<lparr>nce_valid = False, nce_timestamp = 0, nce_nonce = []\<rparr>),
     srv_nonce_ttl = 300, srv_log = []\<rparr>"

definition demo_req :: httpd_req where
  "demo_req = \<lparr>req_is_get = True, req_fd = 7,
     req_header = (\<lambda>name n. if name = ''Authorization'' then (ESP_OK, ''Bearer tok'')
       else if name = ''X-WS-Nonce'' then (ESP_OK, replicate 32 CHR ''a'')
       else if name = ''X-WS-Signature'' then (ESP_OK, ''AAAA'') else (ESP_OK, ''000000'')),
     req_frame_len = (ESP_FAIL, 0), req_frame = (ESP_FAIL, WS_TEXT, [])\<rparr>"

definition demo_frame :: bytes where
  "demo_frame = ws_security_fixed_header 1 @ replicate 12 0 @ map (\<lambda>b. b XOR 0x5A) [1, 2, 3, 4, 5] @ replicate 16 7"

lemma demo_ctx_eval:
  "demo_ctx = \<lparr>sec_handshake_enabled = True, sec_encryption_enabled = True, sec_totp_enabled = True,
     sec_handshake_key = replicate 32 12, sec_frame_key = replicate 32 8, sec_tx_counter = 0,
     sec_totp_secret = [9], sec_totp_period_s = 30, sec_totp_digits = 6, sec_totp_window = 1\<rparr>"
  by (simp add: demo_ctx_def ws_security_context_init_def demo_config_def init_handshake_def init_encryption_def
      init_totp_def derive_key_def demo_crypto_def ws_security_zero_def)

lemma demo_authorized: "fst (authorize_request demo_env demo_srv demo_req)"
  by code_simp

lemma demo_headers: "handshake_headers demo_env demo_req = Some (replicate 16 0xAA, replicate 32 19)"
  by code_simp

theorem authorize_request_sound_witness:
  "ws_security_verify_handshake demo_crypto (Some demo_ctx) (Some (replicate 16 0xAA)) (Some ''tok'') (Some (replicate 32 19)) = ESP_OK"
proof -
  obtain st' where "authorize_request demo_env demo_srv demo_req = (True, st')"
    using demo_authorized by (metis prod.collapse)
  note sound = authorize_request_sound [OF this]
  have "handshake_on demo_srv" "srv_sec demo_srv = demo_ctx" "configured_token demo_srv = ''tok''" "env_crypto demo_env = demo_crypto"
    by (simp_all add: handshake_on_def ws_security_is_handshake_enabled_def demo_srv_def demo_ctx_eval
        configured_token_def demo_cfg_def demo_env_def)
  with sound demo_headers show ?thesis by auto
qed

lemma demo_find: "find_client (the (srv_clients demo_srv)) 5 = Some 1" "length demo_frame \<le> wss_rx_buffer_size (srv_cfg demo_srv)"
  by code_simp+

lemma demo_clients: "srv_clients demo_srv = Some (the (srv_clients demo_srv))" "srv_rx_cb demo_srv"
  "sec_encryption_enabled (srv_sec demo_srv)" "cl_handshake_verified (the (srv_clients demo_srv) ! 1)"
  by (simp_all add: demo_srv_def demo_ctx_eval)

lemma demo_frame_ok: "fst (ws_handler demo_env (frame_req 5 WS_BINARY demo_frame) demo_srv) = ESP_OK"
  by code_simp

theorem ws_handler_encrypted_binary_witness:
  "srv_log (snd (ws_handler demo_env (frame_req 5 WS_BINARY demo_frame) demo_srv)) = [EvRx [5] 0x04030201]"
proof -
  obtain ret st' where h: "ws_handler demo_env (frame_req 5 WS_BINARY demo_frame) demo_srv = (ret, st')" by fastforce
  have d: "ws_security_decrypt (env_crypto demo_env) (Some (srv_sec demo_srv)) (Some demo_frame)
      (Some (cl_last_counter (the (srv_clients demo_srv) ! 1))) = (ESP_OK, [1, 2, 3, 4, 5], Some 1)"
    by code_simp
  note run = ws_handler_encrypted_binary [OF demo_clients(1) demo_find demo_clients(2,3) h]
  have "srv_log st' = EvRx [5] (le_word [1, 2, 3, 4]) # srv_log demo_srv"
    using run unfolding d using demo_clients(4) by simp
  then show ?thesis by (simp add: h) (simp add: demo_srv_def)
qed

theorem ws_handler_text_bypasses_encryption_witness:
  "\<exists>st'. ws_handler demo_env (frame_req 5 WS_TEXT [0x7B]) demo_srv = (ESP_OK, st') \<and> srv_log st' = EvRx [0x7B] 0 # srv_log demo_srv"
  by (rule ws_handler_text_bypasses_encryption [OF demo_clients(1) demo_find(1) _ demo_clients(2,3)])
    (simp add: demo_srv_def demo_cfg_def)

theorem ws_handler_replay_drops_client_witness:
  "fst (ws_handler demo_env (frame_req 5 WS_BINARY demo_frame)
     (snd (ws_handler demo_env (frame_req 5 WS_BINARY demo_frame) demo_srv))) \<noteq> ESP_OK"
proof -
  obtain st1 where h1: "ws_handler demo_env (frame_req 5 WS_BINARY demo_frame) demo_srv = (ESP_OK, st1)"
    using demo_frame_ok by (metis prod.collapse)
  obtain ret st2 where h2: "ws_handler demo_env (frame_req 5 WS_BINARY demo_frame) st1 = (ret, st2)" by fastforce
  from ws_handler_replay_drops_client [OF demo_clients(1) demo_find demo_clients(2,3,4) h1 h2] h1 h2 show ?thesis by simp
qed

lemma demo_inv: "clients_inv (the (srv_clients demo_srv))"
  by (simp add: demo_srv_def clients_inv_def client_fds_def client_used_def client_cleared_def)

theorem ping_timer_cb_spec_witness:
  "\<exists>cs'. srv_clients (ping_timer_cb demo_env demo_srv) = Some cs' \<and> cs' ! 1 = client_cleared True"
proof -
  obtain cs' where "srv_clients (ping_timer_cb demo_env demo_srv) = Some cs'"
    "\<forall>j < length (the (srv_clients demo_srv)). ping_outcome (handshake_on demo_srv) (env_ticks demo_env (srv_log demo_srv))
       (env_ms_to_ticks demo_env (wss_ping_interval_ms (srv_cfg demo_srv))) (env_ms_to_ticks demo_env (wss_pong_timeout_ms (srv_cfg demo_srv)))
       (srv_log (ping_timer_cb demo_env demo_srv)) (the (srv_clients demo_srv) ! j) (cs' ! j)"
    using ping_timer_cb_spec [OF demo_clients(1) demo_inv] by blast
  then show ?thesis
    by (auto simp: ping_outcome_def demo_srv_def demo_env_def demo_cfg_def demo_ctx_eval handshake_on_def
        ws_security_is_handshake_enabled_def dest: spec [of _ 1])
qed

theorem ws_server_send_encrypted_witness:
  "\<exists>frame. length frame = 40 \<and>
    EvSend 5 WS_BINARY frame \<in> set (srv_log (snd (ws_server_send demo_env (Some [1, 2]) demo_srv)))"
proof -
  obtain r st' where s: "ws_server_send demo_env (Some [1, 2]) demo_srv = (r, st')" by fastforce
  have h: "srv_handle demo_srv" "[1, 2 :: u8] \<noteq> []" "gcm_correct (env_crypto demo_env)"
    "length (env_random_iv demo_env (srv_log demo_srv)) = 12"
    "env_alloc demo_env (srv_log demo_srv) ''frame'' (38 + length [1, 2 :: u8])"
    "0 < sec_tx_counter (srv_sec demo_srv) + 1"
    by (simp_all add: demo_srv_def demo_env_def gcm_correct_demo demo_ctx_eval)
  from ws_server_send_encrypted [OF demo_clients(1) demo_inv h(1,2) demo_clients(3) h(3-6) s]
  obtain frame where f: "length frame = 40" "\<forall>j < length (the (srv_clients demo_srv)). cl_fd (the (srv_clients demo_srv) ! j) \<ge> 0 \<longrightarrow>
      EvSend (cl_fd (the (srv_clients demo_srv) ! j)) WS_BINARY frame \<in> set (srv_log st')" by auto
  from f(2) [rule_format, of 1] f(1) s show ?thesis by (auto simp: demo_srv_def)
qed

theorem ws_server_send_plain_witness:
  "fst (ws_server_send demo_env (Some [1, 2]) (demo_srv\<lparr>srv_sec := ws_security_zero\<rparr>)) \<noteq> ESP_OK"
proof -
  let ?st = "demo_srv\<lparr>srv_sec := ws_security_zero\<rparr>"
  obtain r st' where s: "ws_server_send demo_env (Some [1, 2]) ?st = (r, st')" by fastforce
  have h: "srv_clients ?st = Some (the (srv_clients demo_srv))" "srv_handle ?st" "[1, 2 :: u8] \<noteq> []"
    "\<not> sec_encryption_enabled (srv_sec ?st)"
    by (simp_all add: demo_srv_def ws_security_zero_def)
  have "the (srv_clients st') \<noteq> the (srv_clients demo_srv)"
  proof -
    have "srv_clients (snd (ws_server_send demo_env (Some [1, 2]) ?st)) \<noteq> srv_clients demo_srv" by code_simp
    with s h(1) show ?thesis using ws_server_send_plain [OF h(1) demo_inv h(2-4) s] by auto
  qed
  with ws_server_send_plain [OF h(1) demo_inv h(2-4) s] s show ?thesis by auto
qed

definition demo_off :: ws_server where
  "demo_off = \<lparr>srv_handle = False, srv_cfg = demo_cfg, srv_clients = None, srv_rx_cb = False, srv_lock = False,
     srv_ping_timer = False, srv_rx_buffer = False, srv_sec = ws_security_zero, srv_time_fn = None, srv_nonces = None,
     srv_nonce_ttl = 0, srv_log = []\<rparr>"

lemma demo_off: "srv_stopped demo_off" "owned demo_off"
  by (simp_all add: demo_off_def srv_stopped_def owned_def balance_def)

theorem ws_server_start_all_or_nothing_witness:
  "srv_stopped (snd (ws_server_start (demo_env\<lparr>env_timer := (\<lambda>_. False)\<rparr>) (Some demo_cfg) True demo_off))"
proof -
  let ?r = "ws_server_start (demo_env\<lparr>env_timer := (\<lambda>_. False)\<rparr>) (Some demo_cfg) True demo_off"
  obtain err st' where r: "?r = (err, st')" by fastforce
  have "fst ?r = ESP_ERR_NO_MEM" by code_simp
  with ws_server_start_all_or_nothing [OF demo_off r] r show ?thesis by simp
qed

theorem ws_server_stop_releases_witness:
  "srv_stopped (ws_server_stop demo_off)"
  using ws_server_stop_releases [OF demo_off(2)] by blast

end
