(* ===== verification/WsClient.thy ===== *)
theory WsClient
  imports NonceCache Base32
begin

text \<open>
  The WebSocket client of the HMI node, \<^verbatim>\<open>common/net/ws_client.c\<close>: the upgrade headers, the
  event handler with its reconnect back-off, and start, stop and send. The file's static
  variables are the record \<open>ws_client\<close>; calls into the platform are logged as events, newest
  first, and answered by the functions of the record \<open>cli_env\<close>.
\<close>

section \<open>State and environment\<close>

datatype cli_event =
    CEvInit string "string option" "string option"
  | CEvRegister
  | CEvStart
  | CEvStop
  | CEvDestroy
  | CEvSend bytes
  | CEvRx bytes u32
  | CEvError
  | CEvTimerCreate tick
  | CEvTimerPeriod tick
  | CEvTimerStart
  | CEvTimerStop
  | CEvTimerDelete
  | CEvAlloc string nat
  | CEvFree string

record cli_env =
  cenv_crypto :: crypto
  cenv_base64 :: "bytes \<Rightarrow> nat \<Rightarrow> base64_rc \<times> string"
  cenv_time :: "cli_event list \<Rightarrow> int"
  cenv_random :: "cli_event list \<Rightarrow> nat \<Rightarrow> bytes"
  cenv_ms_to_ticks :: "u32 \<Rightarrow> tick"
  cenv_alloc :: "cli_event list \<Rightarrow> string \<Rightarrow> nat \<Rightarrow> bool"
  cenv_init :: "cli_event list \<Rightarrow> bool"
  cenv_start :: "cli_event list \<Rightarrow> esp_err"
  cenv_timer :: "cli_event list \<Rightarrow> bool"
  cenv_send :: "cli_event list \<Rightarrow> bytes \<Rightarrow> int"

record ws_client_config_t =
  wcc_uri :: "string option"
  wcc_auth_token :: "string option"
  wcc_tls_server_name :: "string option"
  wcc_reconnect_min_delay_ms :: u32
  wcc_reconnect_max_delay_ms :: u32
  wcc_error_cb :: bool
  wcc_crypto_secret :: "bytes option"
  wcc_enable_frame_encryption :: bool
  wcc_enable_handshake_token :: bool
  wcc_enable_totp :: bool
  wcc_totp_secret :: "bytes option"
  wcc_totp_period_s :: u32
  wcc_totp_digits :: u8
  wcc_totp_window :: u32
  wcc_get_time_unix :: "(cli_event list \<Rightarrow> u64) option"

record ws_client =
  wc_client :: bool
  wc_rx_cb :: bool
  wc_error_cb :: bool
  wc_connected :: bool
  wc_should_run :: bool
  wc_timer :: bool
  wc_delay_ms :: u32
  wc_min_ms :: u32
  wc_max_ms :: u32
  wc_header_block :: "string option"
  wc_sec :: ws_security_context_t
  wc_rx_counter :: u64
  wc_token :: "string option"
  wc_header_len :: nat
  wc_handshake :: bool
  wc_totp :: bool
  wc_totp_digits :: u8
  wc_time_fn :: "(cli_event list \<Rightarrow> u64) option"
  wc_log :: "cli_event list"

definition note_ev :: "cli_event \<Rightarrow> ws_client \<Rightarrow> ws_client" where
  "note_ev ev st = st\<lparr>wc_log := ev # wc_log st\<rparr>"

section \<open>The upgrade headers\<close>

definition get_current_unix_time :: "cli_env \<Rightarrow> ws_client \<Rightarrow> u64" where
  "get_current_unix_time env st =
     (case wc_time_fn st of
        Some f \<Rightarrow> f (wc_log st)
      | None \<Rightarrow> if cenv_time env (wc_log st) < 0 then 0 else word_of_int (cenv_time env (wc_log st)))"

definition hex_digit :: "u8 \<Rightarrow> char" where
  "hex_digit v = ''0123456789abcdef'' ! unat v"

fun bytes_to_hex :: "bytes \<Rightarrow> string" where
  "bytes_to_hex [] = []"
| "bytes_to_hex (b # bs) = hex_digit (drop_bit 4 b) # hex_digit (b AND 0x0F) # bytes_to_hex bs"

text \<open>
  \<^verbatim>\<open>snprintf(block + offset, header_len - offset + 1, ...)\<close> with the check of its result; the
  offset is the length of what is in the block.
\<close>

definition header_append :: "nat \<Rightarrow> string \<Rightarrow> string \<Rightarrow> esp_err \<times> string" where
  "header_append header_len block txt =
     (if length txt > header_len - length block then (ESP_ERR_INVALID_SIZE, take header_len (block @ txt))
      else (ESP_OK, block @ txt))"

definition crlf :: string where
  "crlf = [CHR 0x0D, CHR 0x0A]"

definition auth_line :: "string \<Rightarrow> string" where
  "auth_line token = ''Authorization: Bearer '' @ token @ crlf"

definition headers_bearer :: "ws_client \<Rightarrow> string \<Rightarrow> esp_err \<times> string" where
  "headers_bearer st block =
     (let token = (case wc_token st of None \<Rightarrow> [] | Some t \<Rightarrow> t) in
      if token \<noteq> [] then header_append (wc_header_len st) block (auth_line token) else (ESP_OK, block))"

definition headers_handshake :: "cli_env \<Rightarrow> ws_client \<Rightarrow> string \<Rightarrow> esp_err \<times> string" where
  "headers_handshake env st block =
     (if wc_handshake st then
        let nonce = cenv_random env (wc_log st) WS_SECURITY_NONCE_LEN;
            token = (case wc_token st of None \<Rightarrow> [] | Some t \<Rightarrow> t)
        in case ws_security_compute_handshake_signature (cenv_crypto env) (Some (wc_sec st)) (Some nonce) (Some token) 32 of
             (ESP_OK, signature) \<Rightarrow>
               (case base64_utils_encode (cenv_base64 env) (Some (take 32 signature)) (Some 96) of
                  (ESP_OK, signature_b64) \<Rightarrow>
                    (case header_append (wc_header_len st) block (''X-WS-Nonce: '' @ bytes_to_hex nonce @ crlf) of
                       (ESP_OK, block) \<Rightarrow>
                         header_append (wc_header_len st) block (''X-WS-Signature: '' @ signature_b64 @ crlf)
                     | (err, block) \<Rightarrow> (err, block))
                | (enc_err, _) \<Rightarrow> (enc_err, block))
           | (sig_err, _) \<Rightarrow> (sig_err, block)
      else (ESP_OK, block))"

definition headers_totp :: "cli_env \<Rightarrow> ws_client \<Rightarrow> string \<Rightarrow> esp_err \<times> string" where
  "headers_totp env st block =
     (if wc_totp st then
        (case ws_security_compute_totp (cenv_crypto env) (Some (wc_sec st)) (get_current_unix_time env st) of
           (ESP_OK, Some code) \<Rightarrow>
             let code_buf = dec_padded (unat (wc_totp_digits st)) (unat code) in
             if length code_buf \<ge> 12 then (ESP_ERR_INVALID_SIZE, block)
             else header_append (wc_header_len st) block (''X-WS-TOTP: '' @ code_buf @ crlf)
         | (totp_err, _) \<Rightarrow> (totp_err, block))
      else (ESP_OK, block))"

definition build_headers :: "cli_env \<Rightarrow> ws_client \<Rightarrow> esp_err \<times> string" where
  "build_headers env st =
     (case headers_bearer st [] of
        (ESP_OK, block) \<Rightarrow>
          (case headers_handshake env st block of
             (ESP_OK, block) \<Rightarrow> headers_totp env st block
           | (err, block) \<Rightarrow> (err, block))
      | (err, block) \<Rightarrow> (err, block))"

definition regenerate_headers :: "cli_env \<Rightarrow> ws_client \<Rightarrow> esp_err \<times> ws_client" where
  "regenerate_headers env st =
     (if wc_header_len st = 0 then (ESP_OK, st)
      else if wc_header_block st = None \<and> \<not> cenv_alloc env (wc_log st) ''headers'' (wc_header_len st + 1)
      then (ESP_ERR_NO_MEM, st)
      else
        let st = (if wc_header_block st = None then note_ev (CEvAlloc ''headers'' (wc_header_len st + 1)) st else st);
            (err, block) = build_headers env st;
            old = (case wc_header_block st of None \<Rightarrow> [] | Some b \<Rightarrow> b)
        in (err, st\<lparr>wc_header_block := Some (if err \<noteq> ESP_OK \<and> block = [] then old else block)\<rparr>))"

section \<open>Events\<close>

datatype ws_event =
    WsConnected
  | WsDisconnected
  | WsData bool bytes
  | WsError bool
  | WsOther

definition on_connected :: "ws_client \<Rightarrow> ws_client" where
  "on_connected st =
     st\<lparr>wc_connected := True, wc_delay_ms := wc_min_ms st,
       wc_sec := the (ws_security_reset_counters (Some (wc_sec st))), wc_rx_counter := 0\<rparr>"

definition on_disconnected :: "cli_env \<Rightarrow> ws_client \<Rightarrow> ws_client" where
  "on_disconnected env st =
     (let st = st\<lparr>wc_connected := False\<rparr> in
      if wc_should_run st \<and> wc_timer st then
        let delay = (if wc_delay_ms st > wc_max_ms st then wc_max_ms st else wc_delay_ms st);
            st = note_ev CEvTimerStart (note_ev (CEvTimerPeriod (cenv_ms_to_ticks env delay)) st)
        in if wc_delay_ms st < wc_max_ms st then
             let nxt = (ucast (wc_delay_ms st) :: u64) * 2
             in st\<lparr>wc_delay_ms := ucast (if nxt > ucast (wc_max_ms st) then ucast (wc_max_ms st) else nxt)\<rparr>
           else st
      else st)"

text \<open>A data event; the flag says whether the opcode is BINARY.\<close>

definition client_deliver :: "bool \<Rightarrow> bytes \<Rightarrow> ws_client \<Rightarrow> ws_client" where
  "client_deliver binary payload st =
     (if binary \<and> length payload \<ge> 4
      then note_ev (CEvRx (drop 4 payload) (le_word (take 4 payload))) st
      else note_ev (CEvRx payload 0) st)"

definition on_data :: "cli_env \<Rightarrow> bool \<Rightarrow> bytes \<Rightarrow> ws_client \<Rightarrow> ws_client" where
  "on_data env binary payload st =
     (if wc_rx_cb st \<and> length payload > 0 then
        (if ws_security_is_encryption_enabled (Some (wc_sec st)) \<and> binary then
           (case ws_security_decrypt (cenv_crypto env) (Some (wc_sec st)) (Some payload) (Some (wc_rx_counter st)) of
              (ESP_OK, plaintext, counter) \<Rightarrow>
                client_deliver binary plaintext (st\<lparr>wc_rx_counter := the counter\<rparr>)
            | _ \<Rightarrow> st)
         else client_deliver binary payload st)
      else st)"

definition websocket_event_handler :: "cli_env \<Rightarrow> ws_event \<Rightarrow> ws_client \<Rightarrow> ws_client" where
  "websocket_event_handler env ev st =
     (case ev of
        WsConnected \<Rightarrow> on_connected st
      | WsDisconnected \<Rightarrow> on_disconnected env st
      | WsData binary payload \<Rightarrow> on_data env binary payload st
      | WsError has_data \<Rightarrow> if wc_error_cb st \<and> has_data then note_ev CEvError st else st
      | WsOther \<Rightarrow> st)"

definition reconnect_timer_cb :: "cli_env \<Rightarrow> ws_client \<Rightarrow> ws_client" where
  "reconnect_timer_cb env st =
     (if wc_client st \<and> wc_should_run st then
        (if wc_header_len st > 0 then
           (case regenerate_headers env st of
              (ESP_OK, st) \<Rightarrow> note_ev CEvStart st
            | (_, st) \<Rightarrow> st)
         else note_ev CEvStart st)
      else st)"

section \<open>Start, stop, send\<close>

definition free_headers :: "ws_client \<Rightarrow> ws_client" where
  "free_headers st =
     (if wc_header_block st = None then st else note_ev (CEvFree ''headers'') st)\<lparr>wc_header_block := None\<rparr>"

definition cleanup_client :: "ws_client \<Rightarrow> ws_client" where
  "cleanup_client st =
     (let st = (if wc_timer st then (note_ev CEvTimerDelete (note_ev CEvTimerStop st))\<lparr>wc_timer := False\<rparr> else st);
          st = (if wc_client st then (note_ev CEvDestroy (note_ev CEvStop st))\<lparr>wc_client := False\<rparr> else st);
          st = free_headers st
      in st\<lparr>wc_rx_cb := False, wc_error_cb := False, wc_connected := False, wc_rx_counter := 0,
           wc_sec := ws_security_zero, wc_token := None, wc_header_len := 0, wc_handshake := False,
           wc_totp := False, wc_totp_digits := 0, wc_time_fn := None\<rparr>)"

definition client_sec_config :: "ws_client_config_t \<Rightarrow> ws_security_config_t" where
  "client_sec_config config =
     \<lparr>wsc_secret = wcc_crypto_secret config, wsc_enable_encryption = wcc_enable_frame_encryption config,
      wsc_enable_handshake = wcc_enable_handshake_token config, wsc_enable_totp = wcc_enable_totp config,
      wsc_totp_secret = wcc_totp_secret config, wsc_totp_period_s = wcc_totp_period_s config,
      wsc_totp_digits = wcc_totp_digits config, wsc_totp_window = wcc_totp_window config\<rparr>"

definition header_length :: "string \<Rightarrow> bool \<Rightarrow> bool \<Rightarrow> u8 \<Rightarrow> nat" where
  "header_length token handshake totp digits =
     (if token \<noteq> [] then length ''Authorization: Bearer '' + length token + 2 else 0) +
     (if handshake then (length ''X-WS-Nonce: '' + WS_SECURITY_NONCE_LEN * 2 + 2) + (length ''X-WS-Signature: '' + 44 + 2) else 0) +
     (if totp \<and> digits > 0 then length ''X-WS-TOTP: '' + unat digits + 2 else 0)"

definition client_reconnect_bounds :: "ws_client_config_t \<Rightarrow> ws_client \<Rightarrow> ws_client" where
  "client_reconnect_bounds config st =
     (let mn = (if wcc_reconnect_min_delay_ms config \<noteq> 0 then wcc_reconnect_min_delay_ms config else 2000);
          mx = (if wcc_reconnect_max_delay_ms config \<noteq> 0 then wcc_reconnect_max_delay_ms config else 60000);
          mx = (if mn > mx then mn else mx)
      in st\<lparr>wc_min_ms := mn, wc_max_ms := mx, wc_delay_ms := mn\<rparr>)"

text \<open>The part of the start from the creation of the platform client on.\<close>

definition client_launch :: "cli_env \<Rightarrow> ws_client_config_t \<Rightarrow> bool \<Rightarrow> ws_client \<Rightarrow> esp_err \<times> ws_client" where
  "client_launch env config cb st =
     (if \<not> cenv_init env (wc_log st) then (ESP_ERR_NO_MEM, free_headers st)
      else
        let st = note_ev (CEvInit (the (wcc_uri config)) (wcc_tls_server_name config) (wc_header_block st)) (st\<lparr>wc_client := True\<rparr>);
            st = client_reconnect_bounds config st
        in if \<not> cenv_timer env (wc_log st) then (ESP_ERR_NO_MEM, cleanup_client st)
           else
             let st = note_ev (CEvTimerCreate (cenv_ms_to_ticks env (wc_min_ms st))) (st\<lparr>wc_timer := True\<rparr>);
                 st = note_ev CEvRegister (st\<lparr>wc_rx_cb := cb, wc_error_cb := wcc_error_cb config,
                   wc_should_run := True, wc_connected := False\<rparr>);
                 err = cenv_start env (wc_log st);
                 st = note_ev CEvStart st
             in if err \<noteq> ESP_OK then (err, cleanup_client st) else (ESP_OK, st))"

definition ws_client_start :: "cli_env \<Rightarrow> ws_client_config_t option \<Rightarrow> bool \<Rightarrow> ws_client \<Rightarrow> esp_err \<times> ws_client" where
  "ws_client_start env configp cb st =
     (case configp of
        None \<Rightarrow> (ESP_ERR_INVALID_ARG, st)
      | Some config \<Rightarrow>
          if wcc_uri config = None then (ESP_ERR_INVALID_ARG, st)
          else if wc_client st then (ESP_ERR_INVALID_STATE, st)
          else
            (case ws_security_context_init (cenv_crypto env) (Some (client_sec_config config)) of
               (ESP_OK, sec) \<Rightarrow>
                 let sec = the (ws_security_reset_counters (Some sec));
                     token = (case wcc_auth_token config of None \<Rightarrow> [] | Some t \<Rightarrow> t);
                     handshake = ws_security_is_handshake_enabled (Some sec);
                     totp = ws_security_is_totp_enabled (Some sec);
                     digits = ws_security_totp_digits (Some sec);
                     header_len = header_length token handshake totp digits;
                     st = st\<lparr>wc_sec := sec, wc_rx_counter := 0, wc_handshake := handshake, wc_totp := totp,
                       wc_totp_digits := digits, wc_time_fn := wcc_get_time_unix config, wc_token := Some token,
                       wc_header_len := header_len\<rparr>
                 in if header_len > 0 then
                      (case regenerate_headers env st of
                         (ESP_OK, st) \<Rightarrow> client_launch env config cb st
                       | (hdr_err, st) \<Rightarrow> (hdr_err, (free_headers st)\<lparr>wc_header_len := 0\<rparr>))
                    else client_launch env config cb st
             | (sec_err, sec) \<Rightarrow> (sec_err, st\<lparr>wc_sec := sec\<rparr>)))"

definition ws_client_stop :: "ws_client \<Rightarrow> ws_client" where
  "ws_client_stop st = cleanup_client (st\<lparr>wc_should_run := False\<rparr>)"

definition client_transmit :: "cli_env \<Rightarrow> bytes \<Rightarrow> ws_client \<Rightarrow> esp_err \<times> ws_client" where
  "client_transmit env frame st =
     (let sent = cenv_send env (wc_log st) frame
      in (if sent \<ge> 0 then ESP_OK else ESP_FAIL, note_ev (CEvSend frame) st))"

definition ws_client_send :: "cli_env \<Rightarrow> bytes \<Rightarrow> ws_client \<Rightarrow> esp_err \<times> ws_client" where
  "ws_client_send env data st =
     (if \<not> wc_client st \<or> \<not> wc_connected st then (ESP_ERR_INVALID_STATE, st)
      else if ws_security_is_encryption_enabled (Some (wc_sec st)) then
        let required = ws_security_encrypted_size (Some (wc_sec st)) (length data) in
        if \<not> cenv_alloc env (wc_log st) ''frame'' required then (ESP_ERR_NO_MEM, st)
        else
          let iv = cenv_random env (wc_log st) WS_SECURITY_IV_LEN; st = note_ev (CEvAlloc ''frame'' required) st in
          (case ws_security_encrypt (cenv_crypto env) iv (wc_sec st) data required of
             (ESP_OK, Some frame, sec) \<Rightarrow>
               (let (err, st) = client_transmit env frame (st\<lparr>wc_sec := sec\<rparr>) in (err, note_ev (CEvFree ''frame'') st))
           | (enc_err, _, sec) \<Rightarrow> (enc_err, note_ev (CEvFree ''frame'') (st\<lparr>wc_sec := sec\<rparr>)))
      else client_transmit env data st)"

definition ws_client_is_connected :: "ws_client \<Rightarrow> bool" where
  "ws_client_is_connected st = wc_connected st"

section \<open>Numbers and nonces in headers\<close>

lemma hex_value_digits: "list_all (\<lambda>k. hex_value (hex_digit (of_nat k)) = of_nat k) [0..<16]"
  by code_simp

lemma hex_value_digit:
  assumes "v < 16"
  shows "hex_value (hex_digit v) = v"
proof -
  have "unat v \<in> set [0..<16]" using assms by (simp add: word_less_nat_alt)
  with hex_value_digits have "hex_value (hex_digit (of_nat (unat v))) = of_nat (unat v)" unfolding list_all_iff by blast
  then show ?thesis by simp
qed

lemma nibbles: "drop_bit 4 (b :: u8) < 16" "(b AND 0x0F) < 16" "push_bit 4 (drop_bit 4 b) OR (b AND 0x0F) = b"
proof -
  show "b AND 0x0F < 16" using word_and_le1 [of b "0x0F"] by (simp add: word_le_nat_alt word_less_nat_alt)
  have "unat b < 256" using unsigned_less [of b, where 'a = nat] by simp
  moreover have "unat (drop_bit 4 b) = unat b div 2 ^ 4" by (simp add: unat_drop_bit_eq drop_bit_eq_div unat_div)
  ultimately show "drop_bit 4 b < 16" unfolding word_less_nat_alt by simp
  have "(0x0F :: u8) = mask 4" by (simp add: mask_eq_exp_minus_1)
  then have m: "bit (0x0F :: u8) n \<longleftrightarrow> n < 4" for n by (simp only: bit_mask_iff) auto
  show "push_bit 4 (drop_bit 4 b) OR (b AND 0x0F) = b"
  proof (rule bit_word_eqI)
    fix n assume "n < LENGTH(8)"
    then show "bit (push_bit 4 (drop_bit 4 b) OR (b AND 0x0F)) n = bit b n"
      by (cases "n < 4") (simp_all only: bit_or_iff bit_and_iff bit_push_bit_iff bit_drop_bit_eq m comp_apply, simp_all)
  qed
qed

lemma parse_nonce_loop_hex: "parse_nonce_loop (length bs) (bytes_to_hex bs) = Some bs"
proof (induction bs)
  case Nil
  then show ?case by simp
next
  case (Cons b bs)
  have "\<not> drop_bit 4 b > 0x0F" "\<not> (b AND 0x0F) > 0x0F" using nibbles [of b]
    by (auto simp: word_less_nat_alt)
  with Cons show ?case by (simp add: hex_value_digit nibbles Let_def)
qed

text \<open>The server reads back the nonce the client writes.\<close>

lemma parse_nonce_hex_roundtrip: "length nonce = 16 \<Longrightarrow> parse_nonce_hex (bytes_to_hex nonce) = Some nonce"
  using parse_nonce_loop_hex [of nonce] by (simp add: parse_nonce_hex_def WS_SECURITY_NONCE_LEN_def)

lemma length_bytes_to_hex [simp]: "length (bytes_to_hex bs) = 2 * length bs"
  by (induction bs) auto

lemma parse_decimal_loop_append:
  "parse_decimal_loop (xs @ ys) acc =
    (case parse_decimal_loop xs acc of None \<Rightarrow> None | Some a \<Rightarrow> parse_decimal_loop ys a)"
  by (induction xs arbitrary: acc) auto

lemma code_dec_digit: "d < 10 \<Longrightarrow> code_of (dec_digit d) = 48 + d"
  by (simp add: code_of_def dec_digit_def)

lemma parse_dec_string: "parse_decimal_loop (dec_string n) 0 = Some (of_nat n)"
proof (induction n rule: dec_string.induct)
  case (1 n)
  show ?case
  proof (cases "n < 10")
    case True
    then show ?thesis by (simp add: dec_string.simps [of n] code_dec_digit)
  next
    case False
    have "(of_nat (n div 10) :: u32) * 10 + of_nat (n mod 10) = of_nat (n div 10 * 10 + n mod 10)"
      by (simp only: of_nat_add of_nat_mult of_nat_numeral)
    then have "(of_nat (n div 10) :: u32) * 10 + of_nat (n mod 10) = of_nat n" by (simp only: div_mult_mod_eq)
    with False 1 show ?thesis
      by (simp add: dec_string.simps [of n] parse_decimal_loop_append code_dec_digit del: of_nat_add of_nat_mult)
  qed
qed

lemma parse_zeros: "parse_decimal_loop (replicate k CHR ''0'' @ cs) 0 = parse_decimal_loop cs 0"
  by (induction k) (simp_all add: code_of_def)

text \<open>The server reads back the one-time code the client writes.\<close>

lemma parse_decimal_roundtrip:
  assumes "1 \<le> d" and "d \<le> 8" and "unat code < 10 ^ unat d"
  shows "parse_decimal_header (dec_padded (unat d) (unat code)) d = Some (code :: u32)"
proof -
  have "0 < unat d" using assms(1) by (simp add: word_le_nat_alt)
  then have "length (dec_padded (unat d) (unat code)) = unat d" using assms(3) by (rule length_dec_padded)
  with assms show ?thesis
    by (auto simp: parse_decimal_header_def dec_padded_def parse_zeros parse_dec_string not_less)
qed

section \<open>The header block\<close>

definition nonce_lines :: "bytes \<Rightarrow> string \<Rightarrow> string" where
  "nonce_lines nonce signature_b64 =
     (''X-WS-Nonce: '' @ bytes_to_hex nonce @ crlf) @ (''X-WS-Signature: '' @ signature_b64 @ crlf)"

text \<open>
  The documented behaviour the headers rely on: a nonce of 16 random bytes, HMACs of 32 and
  20 bytes, and 44 Base64 characters for 32 bytes when the buffer has room for them and a NUL.
\<close>

definition header_env_ok :: "cli_env \<Rightarrow> bool" where
  "header_env_ok env \<longleftrightarrow>
     (\<forall>log n. length (cenv_random env log n) = n) \<and>
     (\<forall>k m. \<exists>d. hmac_sha256 (cenv_crypto env) k m = Some d \<and> length d = 32) \<and>
     (\<forall>k m. \<exists>d. hmac_sha1 (cenv_crypto env) k m = Some d \<and> length d = 20) \<and>
     (\<forall>bs n. length bs = 32 \<and> 45 \<le> n \<longrightarrow> (\<exists>s. cenv_base64 env bs n = (B64_OK, s) \<and> length s = 44))"

text \<open>What the fields of the client agree on once it is set up.\<close>

definition header_state_ok :: "ws_client \<Rightarrow> bool" where
  "header_state_ok st \<longleftrightarrow>
     wc_handshake st = sec_handshake_enabled (wc_sec st) \<and> wc_totp st = sec_totp_enabled (wc_sec st) \<and>
     wc_totp_digits st = ws_security_totp_digits (Some (wc_sec st)) \<and> ws_security_inv (wc_sec st) \<and>
     wc_header_len st = header_length (case wc_token st of None \<Rightarrow> [] | Some t \<Rightarrow> t) (wc_handshake st) (wc_totp st) (wc_totp_digits st)"

lemma header_append_fits: "length block + length txt \<le> n \<Longrightarrow> header_append n block txt = (ESP_OK, block @ txt)"
  by (simp add: header_append_def)

lemma length_crlf [simp]: "length crlf = 2"
  by (simp add: crlf_def)

lemma totp_pieces:
  assumes "header_env_ok env" and "ws_security_inv (wc_sec st)" and "sec_totp_enabled (wc_sec st)"
  obtains code where "ws_security_compute_totp (cenv_crypto env) (Some (wc_sec st)) t = (ESP_OK, Some code)"
    "unat code < 10 ^ unat (sec_totp_digits (wc_sec st))" "6 \<le> sec_totp_digits (wc_sec st)" "sec_totp_digits (wc_sec st) \<le> 8"
proof -
  let ?cfg = "ws_security_totp_cfg (wc_sec st)"
  have v: "totp_valid_cfg ?cfg" using assms(2,3) by (simp add: ws_security_inv_def)
  obtain d where "hmac_sha1 (cenv_crypto env) (the (totp_secret ?cfg)) (counter_bytes_loop 8 (t div ucast (totp_period_s ?cfg)) []) = Some d"
    using assms(1) unfolding header_env_ok_def by blast
  then have "totp_compute (hmac_sha1 (cenv_crypto env)) (Some ?cfg) t =
      (ESP_OK, Some (totp_truncate d mod pow10_u32 (totp_digits ?cfg)))"
    using v by (simp add: totp_compute_def)
  moreover have dg: "6 \<le> totp_digits ?cfg" "totp_digits ?cfg \<le> 8" using v by (auto simp: totp_valid_cfg_def not_less)
  moreover have "unat (totp_truncate d mod pow10_u32 (totp_digits ?cfg)) < 10 ^ unat (totp_digits ?cfg)"
    using pow10_cases [OF dg] by (simp add: unat_mod)
  ultimately show thesis
    using assms(3) by (intro that) (auto simp: ws_security_compute_totp_def ws_security_totp_cfg_def)
qed

lemma build_headers_result:
  assumes env: "header_env_ok env" and ok: "header_state_ok st"
  obtains nonce sig b64 code where
    "build_headers env st = (ESP_OK,
       (if (case wc_token st of None \<Rightarrow> [] | Some t \<Rightarrow> t) \<noteq> [] then auth_line (case wc_token st of None \<Rightarrow> [] | Some t \<Rightarrow> t) else []) @
       (if wc_handshake st then nonce_lines nonce b64 else []) @
       (if wc_totp st then ''X-WS-TOTP: '' @ dec_padded (unat (wc_totp_digits st)) (unat code) @ crlf else []))"
    "length (snd (build_headers env st)) = wc_header_len st"
    "length nonce = 16" "nonce = cenv_random env (wc_log st) 16"
    "wc_handshake st \<Longrightarrow> hmac_sha256 (cenv_crypto env) (sec_handshake_key (wc_sec st))
       (nonce @ bytes_of (case wc_token st of None \<Rightarrow> [] | Some t \<Rightarrow> t)) = Some sig"
    "length sig = 32" "cenv_base64 env sig 96 = (B64_OK, b64)" "length b64 = 44"
    "wc_totp st \<Longrightarrow> ws_security_compute_totp (cenv_crypto env) (Some (wc_sec st)) (get_current_unix_time env st) = (ESP_OK, Some code)"
    "wc_totp st \<Longrightarrow> unat code < 10 ^ unat (wc_totp_digits st)" "wc_totp st \<Longrightarrow> 6 \<le> wc_totp_digits st \<and> wc_totp_digits st \<le> 8"
proof -
  let ?tok = "case wc_token st of None \<Rightarrow> [] | Some t \<Rightarrow> t"
  let ?n = "cenv_random env (wc_log st) 16"
  have n: "length ?n = 16" using env by (simp add: header_env_ok_def)
  obtain sig where sig: "hmac_sha256 (cenv_crypto env) (sec_handshake_key (wc_sec st)) (?n @ bytes_of ?tok) = Some sig" "length sig = 32"
    using env unfolding header_env_ok_def by blast
  have room: "length sig = 32 \<and> 45 \<le> (96 :: nat)" using sig(2) by simp
  then obtain b64 where b64: "cenv_base64 env sig 96 = (B64_OK, b64)" "length b64 = 44"
    using env unfolding header_env_ok_def by blast
  obtain code where code: "wc_totp st \<Longrightarrow> ws_security_compute_totp (cenv_crypto env) (Some (wc_sec st)) (get_current_unix_time env st) = (ESP_OK, Some code)"
    "wc_totp st \<Longrightarrow> unat code < 10 ^ unat (wc_totp_digits st)" "wc_totp st \<Longrightarrow> 6 \<le> wc_totp_digits st \<and> wc_totp_digits st \<le> 8"
  proof (cases "wc_totp st")
    case True
    with ok have t: "sec_totp_enabled (wc_sec st)" "ws_security_inv (wc_sec st)" "wc_totp_digits st = sec_totp_digits (wc_sec st)"
      by (auto simp: header_state_ok_def ws_security_totp_digits_def)
    from totp_pieces [OF env t(2,1)] t(3) that show thesis by metis
  qed (auto intro: that)
  let ?a = "if ?tok \<noteq> [] then auth_line ?tok else []" and ?h = "if wc_handshake st then nonce_lines ?n b64 else []"
    and ?t = "if wc_totp st then ''X-WS-TOTP: '' @ dec_padded (unat (wc_totp_digits st)) (unat code) @ crlf else []"
  have lt: "length (dec_padded (unat (wc_totp_digits st)) (unat code)) = unat (wc_totp_digits st)" "unat (wc_totp_digits st) \<le> 8"
    "wc_totp_digits st > 0" if "wc_totp st"
    using code(2,3) [OF that] by (auto intro!: length_dec_padded simp: word_le_nat_alt word_less_nat_alt)
  have len: "length ?a + length ?h + length ?t = wc_header_len st"
    using ok n b64(2) lt
    by (simp add: header_state_ok_def header_length_def auth_line_def nonce_lines_def WS_SECURITY_NONCE_LEN_def)
  have A: "headers_bearer st [] = (ESP_OK, ?a)"
    using len by (auto simp: headers_bearer_def Let_def header_append_fits)
  have H: "headers_handshake env st ?a = (ESP_OK, ?a @ ?h)"
  proof (cases "wc_handshake st")
    case True
    then have s: "ws_security_compute_handshake_signature (cenv_crypto env) (Some (wc_sec st)) (Some ?n) (Some ?tok) 32 = (ESP_OK, sig)"
      using ok sig n by (auto simp: ws_security_compute_handshake_signature_def handshake_hmac_def header_state_ok_def)
    have e: "base64_utils_encode (cenv_base64 env) (Some (take 32 sig)) (Some 96) = (ESP_OK, b64)"
      using b64 sig(2) by (simp add: base64_utils_encode_def)
    have "length ?a + length (nonce_lines ?n b64) \<le> wc_header_len st" using len True by simp
    then show ?thesis
      using True s e by (simp add: headers_handshake_def WS_SECURITY_NONCE_LEN_def Let_def header_append_fits nonce_lines_def)
  next
    case False
    then show ?thesis by (simp add: headers_handshake_def)
  qed
  have T: "headers_totp env st (?a @ ?h) = (ESP_OK, ?a @ ?h @ ?t)"
    using len lt code(1) by (cases "wc_totp st") (simp_all add: headers_totp_def Let_def header_append_fits)
  have B: "build_headers env st = (ESP_OK, ?a @ ?h @ ?t)"
    by (simp only: build_headers_def A H T prod.case esp_err.case)
  show thesis
    by (rule that [OF B _ n refl _ sig(2) b64 code]) (use B len sig in simp_all)
qed

text \<open>
  The header block always fits. For a client whose fields agree with its security context,
  the length computed at the start is exactly the length of the block that is generated, so
  regenerating the headers never truncates them and never reports an error of size.
\<close>

theorem regenerate_headers_exact:
  assumes "header_env_ok env" and "header_state_ok st" and "0 < wc_header_len st" and "wc_header_block st \<noteq> None"
    and "regenerate_headers env st = (err, st')"
  shows "err = ESP_OK \<and> (\<exists>block. wc_header_block st' = Some block \<and> length block = wc_header_len st)"
proof -
  obtain block where "build_headers env st = (ESP_OK, block)" "length block = wc_header_len st"
    using build_headers_result [OF assms(1,2)] by (metis snd_conv)
  with assms(3-5) show ?thesis by (auto simp: regenerate_headers_def Let_def)
qed

definition demo_cli_env :: cli_env where
  "demo_cli_env = \<lparr>cenv_crypto = demo_crypto, cenv_base64 = (\<lambda>bs n. if n < 45 then (B64_BUFFER_TOO_SMALL, []) else (B64_OK, replicate 44 CHR ''A'')),
     cenv_time = (\<lambda>_. 0), cenv_random = (\<lambda>_ n. replicate n 0xAB), cenv_ms_to_ticks = (\<lambda>ms. ms div 10),
     cenv_alloc = (\<lambda>_ _ _. True), cenv_init = (\<lambda>_. True), cenv_start = (\<lambda>_. ESP_OK), cenv_timer = (\<lambda>_. True),
     cenv_send = (\<lambda>_ bs. int (length bs))\<rparr>"

lemma demo_header_env: "header_env_ok demo_cli_env"
  by (simp add: header_env_ok_def demo_cli_env_def demo_crypto_def)

definition demo_client :: ws_client where
  "demo_client = \<lparr>wc_client = True, wc_rx_cb = True, wc_error_cb = False, wc_connected = True, wc_should_run = True,
     wc_timer = True, wc_delay_ms = 2000, wc_min_ms = 2000, wc_max_ms = 60000, wc_header_block = Some [],
     wc_sec = demo_ctx, wc_rx_counter = 0, wc_token = Some ''tok'',
     wc_header_len = header_length ''tok'' True True 6, wc_handshake = True, wc_totp = True, wc_totp_digits = 6,
     wc_time_fn = None, wc_log = []\<rparr>"

lemma demo_client_ok: "header_state_ok demo_client"
  using ws_security_context_init_ok [OF demo_init]
  by (simp add: header_state_ok_def demo_client_def ws_security_totp_digits_def demo_ctx_def ws_security_context_init_def demo_config_def
      init_handshake_def init_encryption_def init_totp_def derive_key_def demo_crypto_def)

theorem regenerate_headers_exact_witness:
  "\<exists>block. wc_header_block (snd (regenerate_headers demo_cli_env demo_client)) = Some block \<and>
     length block = header_length ''tok'' True True 6"
proof -
  obtain err st' where r: "regenerate_headers demo_cli_env demo_client = (err, st')" by fastforce
  have "0 < wc_header_len demo_client" "wc_header_block demo_client \<noteq> None" "wc_header_len demo_client = header_length ''tok'' True True 6"
    by (simp_all add: demo_client_def header_length_def)
  with regenerate_headers_exact [OF demo_header_env demo_client_ok _ _ r] r show ?thesis by simp
qed

section \<open>Reconnecting\<close>

definition backoff_ok :: "ws_client \<Rightarrow> bool" where
  "backoff_ok st \<longleftrightarrow> wc_should_run st \<and> wc_timer st \<and> wc_min_ms st \<le> wc_max_ms st \<and> wc_delay_ms st \<le> wc_max_ms st"

lemma on_disconnected_step:
  assumes "backoff_ok st"
  shows "backoff_ok (on_disconnected env st)"
    and "unat (wc_delay_ms (on_disconnected env st)) = min (unat (wc_max_ms st)) (2 * unat (wc_delay_ms st))"
    and "wc_max_ms (on_disconnected env st) = wc_max_ms st" "wc_min_ms (on_disconnected env st) = wc_min_ms st"
    and "wc_log (on_disconnected env st) = CEvTimerStart # CEvTimerPeriod (cenv_ms_to_ticks env (wc_delay_ms st)) # wc_log st"
proof -
  let ?d = "wc_delay_ms st" and ?m = "wc_max_ms st"
  have le: "?d \<le> ?m" and run: "wc_should_run st" "wc_timer st" using assms by (simp_all add: backoff_ok_def)
  then have step: "on_disconnected env st = (note_ev CEvTimerStart (note_ev (CEvTimerPeriod (cenv_ms_to_ticks env ?d)) (st\<lparr>wc_connected := False\<rparr>)))
      \<lparr>wc_delay_ms := (if ?d < ?m then ucast (if (ucast ?d :: u64) * 2 > ucast ?m then ucast ?m else (ucast ?d :: u64) * 2) else ?d)\<rparr>"
    by (simp add: on_disconnected_def Let_def note_ev_def)
  have n: "unat ((ucast ?d :: u64) * 2) = 2 * unat ?d"
  proof -
    have "unat ?d < 2 ^ 32" using unsigned_less [of ?d, where 'a = nat] by simp
    then show ?thesis by (simp add: unat_word_ariths)
  qed
  have new: "unat (wc_delay_ms (on_disconnected env st)) = min (unat ?m) (2 * unat ?d)"
  proof (cases "?d < ?m")
    case True
    have gt: "(ucast ?d :: u64) * 2 > ucast ?m \<longleftrightarrow> 2 * unat ?d > unat ?m"
      by (simp only: word_less_nat_alt n unat_ucast_u32_u64)
    show ?thesis
    proof (cases "2 * unat ?d > unat ?m")
      case big: True
      have "unat (ucast (ucast ?m :: u64) :: u32) = unat ?m"
        using unsigned_less [of ?m, where 'a = nat] by (subst unat_ucast_u64_u32) simp_all
      with big True gt show ?thesis unfolding step by simp
    next
      case False
      then have "unat (ucast ((ucast ?d :: u64) * 2) :: u32) = 2 * unat ?d"
        using unsigned_less [of ?m, where 'a = nat] n by (subst unat_ucast_u64_u32) simp_all
      with True False gt show ?thesis unfolding step by simp
    qed
  next
    case False
    then have "?d = ?m" using le by simp
    then show ?thesis unfolding step by simp
  qed
  then show "unat (wc_delay_ms (on_disconnected env st)) = min (unat ?m) (2 * unat ?d)" .
  show fields: "wc_max_ms (on_disconnected env st) = ?m" "wc_min_ms (on_disconnected env st) = wc_min_ms st"
    "wc_log (on_disconnected env st) = CEvTimerStart # CEvTimerPeriod (cenv_ms_to_ticks env ?d) # wc_log st"
    unfolding step by (simp_all add: note_ev_def)
  have "wc_delay_ms (on_disconnected env st) \<le> ?m" using new by (simp add: word_le_nat_alt)
  moreover have "wc_should_run (on_disconnected env st)" "wc_timer (on_disconnected env st)"
    using run unfolding step by (simp_all add: note_ev_def)
  ultimately show "backoff_ok (on_disconnected env st)" using assms fields by (simp add: backoff_ok_def)
qed

text \<open>
  Exponential back-off. After \<open>k\<close> consecutive disconnections since the last connection the
  next retry is scheduled after the minimum delay times 2^k, capped at the maximum; the delay
  never leaves the configured range however long the server stays away.
\<close>

theorem reconnect_backoff:
  assumes "backoff_ok st" and "wc_delay_ms st = wc_min_ms st"
  shows "\<exists>delay. unat delay = min (unat (wc_max_ms st)) (unat (wc_min_ms st) * 2 ^ k) \<and>
    wc_min_ms st \<le> delay \<and> delay \<le> wc_max_ms st \<and>
    wc_log (on_disconnected env ((on_disconnected env ^^ k) st)) =
      CEvTimerStart # CEvTimerPeriod (cenv_ms_to_ticks env delay) # wc_log ((on_disconnected env ^^ k) st)"
proof -
  have I: "backoff_ok ((on_disconnected env ^^ k) st) \<and> wc_max_ms ((on_disconnected env ^^ k) st) = wc_max_ms st \<and>
      unat (wc_delay_ms ((on_disconnected env ^^ k) st)) = min (unat (wc_max_ms st)) (unat (wc_min_ms st) * 2 ^ k)"
  proof (induction k)
    case 0
    then show ?case using assms by (simp add: backoff_ok_def word_le_nat_alt)
  next
    case (Suc k)
    then show ?case
      using on_disconnected_step [of "(on_disconnected env ^^ k) st" env] by (auto simp: min_def)
  qed
  have "wc_min_ms st \<le> wc_max_ms st" using assms(1) by (simp add: backoff_ok_def)
  moreover have "unat (wc_min_ms st) * 1 \<le> unat (wc_min_ms st) * 2 ^ k" by (rule mult_le_mono2) simp
  ultimately have "wc_min_ms st \<le> wc_delay_ms ((on_disconnected env ^^ k) st)" using I by (simp add: word_le_nat_alt)
  moreover have "wc_delay_ms ((on_disconnected env ^^ k) st) \<le> wc_max_ms st" using I by (simp add: word_le_nat_alt)
  ultimately show ?thesis
    using I on_disconnected_step(5) [of "(on_disconnected env ^^ k) st" env] by blast
qed

theorem reconnect_backoff_witness:
  "\<exists>delay. unat delay = 16000 \<and> wc_log (on_disconnected demo_cli_env ((on_disconnected demo_cli_env ^^ 3) demo_client)) =
     CEvTimerStart # CEvTimerPeriod (cenv_ms_to_ticks demo_cli_env delay) # wc_log ((on_disconnected demo_cli_env ^^ 3) demo_client)"
  using reconnect_backoff [of demo_client 3 demo_cli_env]
  by (auto simp: backoff_ok_def demo_client_def)

section \<open>Reception\<close>

lemma on_data_binary:
  assumes "wc_rx_cb st" and "sec_encryption_enabled (wc_sec st)" and "frame \<noteq> []"
    and "ws_security_decrypt (cenv_crypto env) (Some (wc_sec st)) (Some frame) (Some (wc_rx_counter st)) = (ESP_OK, p, Some c)"
    and "4 \<le> length p"
  shows "on_data env True frame st =
    (st\<lparr>wc_rx_counter := c\<rparr>)\<lparr>wc_log := CEvRx (drop 4 p) (le_word (take 4 p)) # wc_log st\<rparr>"
  using assms by (simp add: on_data_def ws_security_is_encryption_enabled_def client_deliver_def note_ev_def)

end
