(* ===== verification/Crc.thy ===== *)
theory Crc
  imports Prelude
begin

text \<open>
  The two bitwise checksums of the firmware: the CRC-32 that guards every frame between
  the nodes (\<^verbatim>\<open>common/proto/proto_crc32.c\<close>) and the CRC-8 that guards an SHT20
  measurement (\<^verbatim>\<open>sensor_node/main/drivers/sht20.c\<close>). Both fold a register over the
  bytes; what makes them detect a corrupted byte is that one bit step of the register is
  injective. The locale \<open>byte_crc\<close> states that interface and derives the detection
  facts once; both routines interpret it.
\<close>

section \<open>The shared argument\<close>

text \<open>
  A byte-wise checksum: \<open>mix\<close> adds a byte to the register, \<open>shift\<close> is one round of
  the inner bit loop, \<open>rounds\<close> their number.
\<close>

locale byte_crc =
  fixes mix :: "'r \<Rightarrow> u8 \<Rightarrow> 'r"
    and shift :: "'r \<Rightarrow> 'r"
    and rounds :: nat
  assumes mix_inj_byte: "mix r a = mix r b \<Longrightarrow> a = b"
    and mix_inj_reg: "mix r a = mix s a \<Longrightarrow> r = s"
    and shift_inj: "shift r = shift s \<Longrightarrow> r = s"
begin

lemma funpow_shift_inj: "(shift ^^ n) r = (shift ^^ n) s \<Longrightarrow> r = s"
  by (induction n arbitrary: r s) (auto dest: shift_inj)

lemma fold_inj_reg:
  "fold (\<lambda>b r. (shift ^^ rounds) (mix r b)) bs r = fold (\<lambda>b r. (shift ^^ rounds) (mix r b)) bs s \<Longrightarrow> r = s"
proof (induction bs arbitrary: r s)
  case Nil
  then show ?case by simp
next
  case (Cons b bs)
  then have "(shift ^^ rounds) (mix r b) = (shift ^^ rounds) (mix s b)"
    by simp
  then show ?case by (blast dest: funpow_shift_inj mix_inj_reg)
qed

text \<open>Two messages that differ in one byte never leave the same register.\<close>

lemma single_byte_detected:
  assumes "fold (\<lambda>b r. (shift ^^ rounds) (mix r b)) (xs @ a # ys) r =
    fold (\<lambda>b r. (shift ^^ rounds) (mix r b)) (xs @ b # ys) r"
  shows "a = b"
proof -
  from assms have "(shift ^^ rounds) (mix (fold (\<lambda>b r. (shift ^^ rounds) (mix r b)) xs r) a) =
      (shift ^^ rounds) (mix (fold (\<lambda>b r. (shift ^^ rounds) (mix r b)) xs r) b)"
    by (auto dest: fold_inj_reg)
  then show ?thesis by (blast dest: funpow_shift_inj mix_inj_byte)
qed

end

section \<open>CRC-32 of a frame\<close>

text \<open>The inner loop of \<^verbatim>\<open>proto_crc32\<close>: one bit, then eight of them.\<close>

definition crc32_shift :: "u32 \<Rightarrow> u32" where
  "crc32_shift crc = (let mask = - (crc AND 1) in drop_bit 1 crc XOR (0xEDB88320 AND mask))"

fun crc32_rounds :: "nat \<Rightarrow> u32 \<Rightarrow> u32" where
  "crc32_rounds 0 crc = crc"
| "crc32_rounds (Suc j) crc = crc32_rounds j (crc32_shift crc)"

definition crc32_mix :: "u32 \<Rightarrow> u8 \<Rightarrow> u32" where
  "crc32_mix crc b = crc XOR ucast b"

fun crc32_loop :: "bytes \<Rightarrow> u32 \<Rightarrow> u32" where
  "crc32_loop [] crc = crc"
| "crc32_loop (b # bs) crc = crc32_loop bs (crc32_rounds 8 (crc32_mix crc b))"

definition proto_crc32 :: "bytes \<Rightarrow> u32" where
  "proto_crc32 data = NOT (crc32_loop data 0xFFFFFFFF)"

lemma crc32_rounds_funpow: "crc32_rounds n r = (crc32_shift ^^ n) r"
  by (induction n arbitrary: r) (simp_all add: funpow_swap1)

lemma crc32_loop_fold:
  "crc32_loop bs r = fold (\<lambda>b r. (crc32_shift ^^ 8) (crc32_mix r b)) bs r"
  by (induction bs arbitrary: r) (simp_all add: crc32_rounds_funpow del: funpow.simps crc32_rounds.simps)

lemma crc32_shift_alt:
  "crc32_shift r = (if bit r 0 then drop_bit 1 r XOR 0xEDB88320 else drop_bit 1 r)"
  by (simp add: crc32_shift_def Let_def and_one_eq odd_iff_mod_2_eq_one bit_0)

lemma crc32_shift_inj:
  assumes "crc32_shift r = crc32_shift s"
  shows "r = s"
proof -
  have poly: "bit (0xEDB88320 :: u32) 31" by simp
  have top: "bit (crc32_shift x) 31 = bit x 0" for x
    by (simp add: crc32_shift_alt bit_xor_iff bit_drop_bit_eq poly) (simp add: bit_word_def)
  with assms have low: "bit r 0 = bit s 0" by metis
  have "drop_bit 1 r = drop_bit 1 s"
  proof (cases "bit r 0")
    case True
    with low assms have "drop_bit 1 r XOR 0xEDB88320 = drop_bit 1 s XOR 0xEDB88320"
      by (simp add: crc32_shift_alt)
    then show ?thesis by (rule xor_right_cancel)
  next
    case False
    with low assms show ?thesis by (simp add: crc32_shift_alt)
  qed
  then have "bit r (Suc n) = bit s (Suc n)" for n
    by (metis bit_drop_bit_eq plus_1_eq_Suc comp_apply)
  with low have "bit r n = bit s n" for n by (cases n) auto
  then show ?thesis by (simp add: bit_eq_iff)
qed

interpretation frame_crc: byte_crc crc32_mix crc32_shift 8
proof
  show "crc32_mix r a = crc32_mix r b \<Longrightarrow> a = b" for r a b
    unfolding crc32_mix_def by (drule xor_left_cancel) (simp add: ucast_u8_inj)
  show "crc32_mix r a = crc32_mix s a \<Longrightarrow> r = s" for r s a
    unfolding crc32_mix_def by (rule xor_right_cancel)
  show "crc32_shift r = crc32_shift s \<Longrightarrow> r = s" for r s
    by (rule crc32_shift_inj)
qed

lemma proto_crc32_empty: "proto_crc32 [] = 0"
  by (simp add: proto_crc32_def)

subsection \<open>The byte loop and the bit-serial register\<close>

text \<open>
  The textbook definition of the checksum shifts the message in one bit at a time, the
  least significant bit of each byte first. The code instead adds a whole byte to the
  register and then runs eight rounds.
\<close>

definition crc32_bit_serial :: "bool \<Rightarrow> u32 \<Rightarrow> u32" where
  "crc32_bit_serial m r =
     (if bit r 0 \<noteq> m then drop_bit 1 r XOR 0xEDB88320 else drop_bit 1 r)"

definition byte_bits :: "u8 \<Rightarrow> bool list" where
  "byte_bits b = map (bit b) [0..<8]"

lemma crc32_shift_xor:
  "crc32_shift (r XOR w) = crc32_shift (r XOR take_bit 1 w) XOR drop_bit 1 w"
  for r w :: u32
proof -
  have d: "drop_bit 1 (r XOR take_bit 1 w) = drop_bit 1 r" "drop_bit 1 (r XOR w) = drop_bit 1 r XOR drop_bit 1 w"
    by (rule bit_word_eqI; simp add: bit_simps)+
  have b: "bit (r XOR take_bit 1 w) 0 = bit (r XOR w) 0" by (simp only: bit_xor_iff bit_take_bit_iff) simp
  show ?thesis unfolding crc32_shift_alt b d by (auto simp: xor.assoc xor.commute xor.left_commute)
qed

lemma crc32_funpow_xor:
  "(crc32_shift ^^ n) (r XOR w) = (crc32_shift ^^ n) (r XOR take_bit n w) XOR drop_bit n w"
  for r w :: u32
proof (induction n arbitrary: r w)
  case 0
  then show ?case by simp
next
  case (Suc n)
  let ?r = "crc32_shift (r XOR take_bit 1 w)"
  have d: "drop_bit 1 (take_bit (Suc n) w) = take_bit n (drop_bit 1 w)"
    "take_bit 1 (take_bit (Suc n) w) = take_bit 1 w" "drop_bit n (drop_bit 1 w) = drop_bit (Suc n) w"
    by (rule bit_word_eqI; auto simp: bit_simps)+
  have "(crc32_shift ^^ Suc n) (r XOR w) = (crc32_shift ^^ n) (?r XOR drop_bit 1 w)"
    by (simp only: funpow_Suc_right comp_apply crc32_shift_xor [of r w])
  also have "\<dots> = (crc32_shift ^^ n) (?r XOR take_bit n (drop_bit 1 w)) XOR drop_bit (Suc n) w"
    by (simp only: Suc.IH [of ?r "drop_bit 1 w"] d)
  also have "(crc32_shift ^^ n) (?r XOR take_bit n (drop_bit 1 w)) =
      (crc32_shift ^^ Suc n) (r XOR take_bit (Suc n) w)"
    by (simp only: funpow_Suc_right comp_apply crc32_shift_xor [of r "take_bit (Suc n) w"] d)
  finally show ?case .
qed

lemma crc32_bit_serial_shift: "crc32_bit_serial m r = crc32_shift (r XOR of_bool m)"
proof -
  have "drop_bit 1 (r XOR of_bool m) = drop_bit 1 r"
    by (rule bit_word_eqI) (auto simp: bit_simps)
  moreover have "bit (r XOR of_bool m) 0 = (bit r 0 \<noteq> m)"
    by (cases m) (auto simp: bit_simps)
  ultimately show ?thesis by (simp only: crc32_bit_serial_def crc32_shift_alt)
qed

lemma fold_bit_serial:
  "fold crc32_bit_serial (map (bit w) [0..<n]) r = (crc32_shift ^^ n) (r XOR take_bit n w)"
  for r w :: u32
proof (induction n)
  case 0
  then show ?case by simp
next
  case (Suc n)
  have s: "take_bit n (take_bit (Suc n) w) = take_bit n w"
    "drop_bit n (take_bit (Suc n) w) = of_bool (bit w n)"
    by (rule bit_word_eqI; auto simp: bit_simps)+
  have "(crc32_shift ^^ Suc n) (r XOR take_bit (Suc n) w) =
      crc32_shift ((crc32_shift ^^ n) (r XOR take_bit n w) XOR of_bool (bit w n))"
    using crc32_funpow_xor [of n r "take_bit (Suc n) w"] by (simp add: s)
  with Suc show ?case by (simp add: crc32_bit_serial_shift)
qed

lemma crc32_loop_bit_serial:
  "crc32_loop bs r = fold crc32_bit_serial (concat (map byte_bits bs)) r"
proof (induction bs arbitrary: r)
  case Nil
  then show ?case by simp
next
  case (Cons b bs)
  have bits: "byte_bits b = map (bit (ucast b :: u32)) [0..<8]"
    by (auto simp: byte_bits_def bit_ucast_iff)
  have "take_bit 8 (ucast b :: u32) = ucast b"
    by (rule bit_word_eqI) (auto simp: bit_simps dest: bit_imp_le_length)
  then have "fold crc32_bit_serial (byte_bits b) r = crc32_rounds 8 (crc32_mix r b)"
    unfolding bits fold_bit_serial by (simp only: crc32_rounds_funpow crc32_mix_def)
  with Cons.IH show ?case by simp
qed

text \<open>
  The checksum is the textbook CRC-32: the bit-serial register with the reflected
  polynomial 0xEDB88320, started at all ones and complemented at the end.
\<close>

theorem proto_crc32_is_bit_serial:
  "proto_crc32 data = NOT (fold crc32_bit_serial (concat (map byte_bits data)) 0xFFFFFFFF)"
  by (simp add: proto_crc32_def crc32_loop_bit_serial)

subsection \<open>Bursts\<close>

lemma not_bit_le_word: "8 * length bs \<le> n \<Longrightarrow> \<not> bit (le_word bs :: 'a::len word) n"
proof (induction bs arbitrary: n)
  case Nil
  then show ?case by simp
next
  case (Cons b bs)
  have "\<not> bit b n" using Cons.prems bit_imp_le_length by fastforce
  with Cons.IH [of "n - 8"] Cons.prems show ?case by (auto simp: bit_simps)
qed

lemma le_word_Cons_split:
  assumes "length bs \<le> 3"
  shows "take_bit 8 (le_word (b # bs) :: u32) = ucast b"
    and "drop_bit 8 (le_word (b # bs) :: u32) = le_word bs"
proof -
  have b: "\<not> bit b n" if "8 \<le> n" for n using that bit_imp_le_length [of b n] by auto
  show "take_bit 8 (le_word (b # bs) :: u32) = ucast b"
    by (rule bit_word_eqI) (use b in \<open>auto simp: bit_simps not_le\<close>)
  have "\<not> bit (le_word bs :: u32) n" if "24 \<le> n" for n
    using that assms by (intro not_bit_le_word) simp
  then have "n < 24" if "bit (le_word bs :: u32) n" for n using that not_less by blast
  then show "drop_bit 8 (le_word (b # bs) :: u32) = le_word bs"
    by (intro bit_word_eqI) (use b in \<open>auto simp: bit_simps not_le\<close>)
qed

lemma crc32_loop_word:
  "length bs \<le> 4 \<Longrightarrow> crc32_loop bs r = (crc32_shift ^^ (8 * length bs)) (r XOR le_word bs)"
proof (induction bs arbitrary: r)
  case Nil
  then show ?case by simp
next
  case (Cons b bs)
  let ?w = "le_word (b # bs) :: u32"
  have split: "take_bit 8 ?w = ucast b" "drop_bit 8 ?w = le_word bs"
    using Cons.prems by (simp_all only: le_word_Cons_split list.size)
  have len8: "8 * length (b # bs) = 8 * length bs + 8" by simp
  have "(crc32_shift ^^ 8) (r XOR ?w) = crc32_rounds 8 (crc32_mix r b) XOR le_word bs"
    using crc32_funpow_xor [of 8 r ?w] by (simp only: split crc32_rounds_funpow crc32_mix_def)
  then have "(crc32_shift ^^ (8 * length (b # bs))) (r XOR ?w) =
      (crc32_shift ^^ (8 * length bs)) (crc32_rounds 8 (crc32_mix r b) XOR le_word bs)"
    by (simp only: len8 funpow_add comp_apply)
  with Cons show ?case by (simp del: crc32_rounds.simps le_word.simps)
qed

lemma le_word_inj_u32:
  "length as = length bs \<Longrightarrow> length bs \<le> 4 \<Longrightarrow> (le_word as :: u32) = le_word bs \<Longrightarrow> as = bs"
proof (induction as bs rule: list_induct2)
  case Nil
  then show ?case by simp
next
  case (Cons a as b bs)
  then have "length as \<le> 3" "length bs \<le> 3" by auto
  with Cons.prems(2) have "(ucast a :: u32) = ucast b" "(le_word as :: u32) = le_word bs"
    by (metis le_word_Cons_split(1)) (metis Cons.prems(2) \<open>length as \<le> 3\<close> \<open>length bs \<le> 3\<close> le_word_Cons_split(2))
  with Cons show ?case by (simp add: ucast_u8_inj)
qed

lemma proto_crc32_burst:
  assumes "length as = length bs" and "length bs \<le> 4"
    and "proto_crc32 (xs @ as @ ys) = proto_crc32 (xs @ bs @ ys)"
  shows "as = bs"
proof -
  let ?r = "crc32_loop xs 0xFFFFFFFF"
  have app: "crc32_loop (us @ vs) r = crc32_loop vs (crc32_loop us r)" for us vs r
    by (simp add: crc32_loop_fold)
  have "crc32_loop ys (crc32_loop as ?r) = crc32_loop ys (crc32_loop bs ?r)"
    using assms(3) by (simp add: proto_crc32_def app)
  then have "crc32_loop as ?r = crc32_loop bs ?r"
    unfolding crc32_loop_fold by (rule frame_crc.fold_inj_reg)
  then have "?r XOR le_word as = ?r XOR le_word bs"
    using assms by (simp add: crc32_loop_word frame_crc.funpow_shift_inj)
  then have "(le_word as :: u32) = le_word bs" by (rule xor_left_cancel)
  with assms show ?thesis by (blast intro: le_word_inj_u32)
qed

text \<open>
  C28. Error detection. Two payloads that differ only inside a window of at most four
  bytes (a burst of up to 32 bits, in particular any corruption of a single byte) have
  different checksums.
\<close>

theorem proto_crc32_detects_burst:
  assumes "length as = length bs" and "length bs \<le> 4"
    and "proto_crc32 (xs @ as @ ys) = proto_crc32 (xs @ bs @ ys)"
  shows "as = bs"
  using assms by (rule proto_crc32_burst)

theorem proto_crc32_detects_burst_witness:
  "proto_crc32 ([1, 2] @ [3, 4] @ [5]) \<noteq> proto_crc32 ([1, 2] @ [3, 7] @ [5])"
  using proto_crc32_detects_burst [of "[3, 4]" "[3, 7]" "[1, 2]" "[5]"] by auto

section \<open>CRC-8 of a measurement\<close>

definition crc8_shift :: "u8 \<Rightarrow> u8" where
  "crc8_shift crc =
     (if crc AND 0x80 \<noteq> 0 then ucast (push_bit 1 (ucast crc :: u32) XOR 0x131) else push_bit 1 crc)"

fun crc8_rounds :: "nat \<Rightarrow> u8 \<Rightarrow> u8" where
  "crc8_rounds 0 crc = crc"
| "crc8_rounds (Suc j) crc = crc8_rounds j (crc8_shift crc)"

fun crc8_loop :: "bytes \<Rightarrow> u8 \<Rightarrow> u8" where
  "crc8_loop [] crc = crc"
| "crc8_loop (b # bs) crc = crc8_loop bs (crc8_rounds 8 (crc XOR b))"

definition sht20_crc8 :: "bytes \<Rightarrow> u8" where
  "sht20_crc8 data = crc8_loop data 0"

lemma bit_push_1: "bit (push_bit 1 (w :: 'a::len word)) n \<longleftrightarrow> 0 < n \<and> n < LENGTH('a) \<and> bit w (n - 1)"
  unfolding bit_push_bit_iff by auto

lemma crc8_shift_alt:
  "crc8_shift r = (if bit r 7 then push_bit 1 r XOR 0x31 else push_bit 1 r)"
proof -
  have "r AND 0x80 \<noteq> 0 \<longleftrightarrow> bit r 7"
    using and_exp_eq_0_iff_not_bit [of r 7] by simp
  moreover have "ucast (push_bit 1 (ucast r :: u32) XOR 0x131) = push_bit 1 r XOR (0x31 :: u8)"
  proof (rule bit_word_eqI)
    fix n assume "n < LENGTH(8)"
    moreover have "bit (0x131 :: u32) n = bit (0x31 :: u8) n"
    proof -
      have "n \<in> {0,1,2,3,4,5,6,7}" using \<open>n < LENGTH(8)\<close> by auto
      then show ?thesis by (auto simp: bit_numeral_rec)
    qed
    ultimately show "bit (ucast (push_bit 1 (ucast r :: u32) XOR 0x131) :: u8) n =
        bit (push_bit 1 r XOR (0x31 :: u8)) n"
      by (simp only: bit_xor_iff bit_unsigned_iff bit_push_1) (auto simp: bit_unsigned_iff)
  qed
  ultimately show ?thesis by (simp add: crc8_shift_def)
qed

lemma crc8_shift_inj:
  assumes "crc8_shift r = crc8_shift s"
  shows "r = s"
proof -
  have poly: "bit (0x31 :: u8) 0" by simp
  have low: "bit (crc8_shift x) 0 = bit x 7" for x
  proof -
    have "\<not> bit (push_bit 1 x) 0" by (simp only: bit_push_1 less_irrefl simp_thms)
    then show ?thesis using poly by (cases "bit x 7") (simp_all only: crc8_shift_alt bit_xor_iff if_True if_False simp_thms)
  qed
  then have top: "bit r 7 = bit s 7" using assms by metis
  then have "push_bit 1 r = push_bit 1 s"
    using assms by (auto simp: crc8_shift_alt dest: xor_right_cancel split: if_splits)
  then have shifted: "bit (push_bit 1 r) (Suc n) = bit (push_bit 1 s) (Suc n)" for n by (simp only:)
  have low: "bit r n = bit s n" if "n < 7" for n
    using that shifted [of n, unfolded bit_push_1] by simp
  show ?thesis
  proof (rule bit_word_eqI)
    fix n assume "n < LENGTH(8)"
    then show "bit r n = bit s n" using low [of n] top by (cases "n = 7") auto
  qed
qed

lemma crc8_rounds_funpow: "crc8_rounds n r = (crc8_shift ^^ n) r"
  by (induction n arbitrary: r) (simp_all add: funpow_swap1)

lemma crc8_loop_fold: "crc8_loop bs r = fold (\<lambda>b r. (crc8_shift ^^ 8) (r XOR b)) bs r"
  by (induction bs arbitrary: r) (simp_all add: crc8_rounds_funpow del: funpow.simps crc8_rounds.simps)

interpretation sample_crc: byte_crc "(XOR)" crc8_shift 8
  by unfold_locales (blast dest: xor_left_cancel xor_right_cancel crc8_shift_inj)+

end
