(* ===== verification/Link.thy ===== *)
theory Link
  imports WsServerProps WsClient Crc
begin

text \<open>
  The two ends of the link together: the server of the sensor node
  (\<^verbatim>\<open>common/net/ws_server.c\<close>) and the client of the HMI node (\<^verbatim>\<open>common/net/ws_client.c\<close>).
\<close>

section \<open>Upgrade\<close>

text \<open>A header block as the lines \<open>name: value\<close> it consists of.\<close>

definition block_of :: "(string \<times> string) list \<Rightarrow> string" where
  "block_of hs = concat (map (\<lambda>(n, v). n @ '': '' @ v @ crlf) hs)"

text \<open>A request that carries the lines: a lookup with a large enough buffer finds the value.\<close>

definition carries :: "httpd_req \<Rightarrow> (string \<times> string) list \<Rightarrow> bool" where
  "carries req hs \<longleftrightarrow> (\<forall>(n, v) \<in> set hs. \<forall>sz > length v. req_header req n sz = (ESP_OK, v))"

lemma carriesD: "carries req hs \<Longrightarrow> (n, v) \<in> set hs \<Longrightarrow> length v < sz \<Longrightarrow> req_header req n sz = (ESP_OK, v)"
  unfolding carries_def by blast

text \<open>The two contexts were initialised from the same secrets and the same features.\<close>

definition sec_agree :: "ws_security_context_t \<Rightarrow> ws_security_context_t \<Rightarrow> bool" where
  "sec_agree a b \<longleftrightarrow> a\<lparr>sec_tx_counter := 0\<rparr> = b\<lparr>sec_tx_counter := 0\<rparr>"

lemma sec_agreeD:
  assumes "sec_agree a b"
  shows "sec_handshake_enabled a = sec_handshake_enabled b" "sec_handshake_key a = sec_handshake_key b"
    "sec_encryption_enabled a = sec_encryption_enabled b" "sec_frame_key a = sec_frame_key b"
    "sec_totp_enabled a = sec_totp_enabled b" "sec_totp_digits a = sec_totp_digits b"
    "sec_totp_window a = sec_totp_window b" "ws_security_totp_cfg a = ws_security_totp_cfg b"
proof -
  let ?z = "\<lambda>c. c\<lparr>sec_tx_counter := 0\<rparr>"
  have eq: "?z a = ?z b" using assms by (simp add: sec_agree_def)
  show "sec_handshake_enabled a = sec_handshake_enabled b" using arg_cong [OF eq, of sec_handshake_enabled] by simp
  show "sec_handshake_key a = sec_handshake_key b" using arg_cong [OF eq, of sec_handshake_key] by simp
  show "sec_encryption_enabled a = sec_encryption_enabled b" using arg_cong [OF eq, of sec_encryption_enabled] by simp
  show "sec_frame_key a = sec_frame_key b" using arg_cong [OF eq, of sec_frame_key] by simp
  show "sec_totp_enabled a = sec_totp_enabled b" using arg_cong [OF eq, of sec_totp_enabled] by simp
  show "sec_totp_digits a = sec_totp_digits b" using arg_cong [OF eq, of sec_totp_digits] by simp
  show "sec_totp_window a = sec_totp_window b" using arg_cong [OF eq, of sec_totp_window] by simp
  show "ws_security_totp_cfg a = ws_security_totp_cfg b"
    using arg_cong [OF eq, of ws_security_totp_cfg] by (simp add: ws_security_totp_cfg_def)
qed

lemma authorize_bearer_ok:
  assumes "configured_token st \<noteq> [] \<Longrightarrow> req_header req ''Authorization'' 192 = (ESP_OK, ''Bearer '' @ configured_token st)"
  shows "authorize_bearer st req"
  using assms by (simp add: authorize_bearer_def Let_def)

lemma ws_security_verify_own_signature:
  assumes "sec_handshake_enabled ctx" and "nonce \<noteq> []" and "length sig = 32"
    and "hmac_sha256 cr (sec_handshake_key ctx) (nonce @ bytes_of token) = Some sig"
  shows "ws_security_verify_handshake cr (Some ctx) (Some nonce) (Some token) (Some sig) = ESP_OK"
  using assms by (simp add: ws_security_verify_handshake_def handshake_hmac_def)

lemma ws_security_verify_current_code:
  assumes "sec_totp_enabled ctx" and "\<And>t. \<exists>code. totp_compute (hmac_sha1 cr) (Some (ws_security_totp_cfg ctx)) t = (ESP_OK, Some code)"
    and "unat (sec_totp_window ctx) < 2 ^ 31" and "ws_security_compute_totp cr (Some ctx) t = (ESP_OK, Some code)"
  shows "ws_security_verify_totp cr (Some ctx) t code = (ESP_OK, True)"
proof -
  have "totp_code_at (hmac_sha1 cr) (ws_security_totp_cfg ctx) t = code"
    using assms(1,4) by (simp add: ws_security_compute_totp_def totp_code_at_def)
  then have "\<exists>k \<le> unat (sec_totp_window ctx). totp_code_at (hmac_sha1 cr) (ws_security_totp_cfg ctx)
      (t + of_nat (k * unat (totp_period_s (ws_security_totp_cfg ctx)))) = code" by (intro exI [of _ 0]) simp
  with assms(1) totp_verify_iff [OF assms(2,3), of t code] show ?thesis
    by (auto simp: ws_security_verify_totp_def)
qed

text \<open>The header lines of an upgrade: token, nonce and signature, one-time password.\<close>

definition upgrade_lines :: "string \<Rightarrow> (bytes \<times> string) option \<Rightarrow> (nat \<times> u32) option \<Rightarrow> (string \<times> string) list" where
  "upgrade_lines tok shake totp =
     (if tok \<noteq> [] then [(''Authorization'', ''Bearer '' @ tok)] else []) @
     (case shake of None \<Rightarrow> [] | Some (nonce, b64) \<Rightarrow> [(''X-WS-Nonce'', bytes_to_hex nonce), (''X-WS-Signature'', b64)]) @
     (case totp of None \<Rightarrow> [] | Some (digits, code) \<Rightarrow> [(''X-WS-TOTP'', dec_padded digits (unat code))])"

lemma upgrade_bearer_ok:
  assumes "carries req (upgrade_lines (configured_token st) shake totp)" "length (configured_token st) < 185"
  shows "authorize_bearer st req"
  by (rule authorize_bearer_ok) (use assms(2) in \<open>auto intro!: carriesD [OF assms(1)] simp: upgrade_lines_def\<close>)

lemma upgrade_handshake_ok:
  assumes "carries req (upgrade_lines tok (Some (nonce, b64)) totp)" "sec_handshake_enabled (srv_sec st)"
    and "length nonce = 16" "length b64 = 44" "length sig = 32" "env_base64 env (bytes_of b64) 64 = (B64_OK, sig)"
    and "hmac_sha256 (env_crypto env) (sec_handshake_key (srv_sec st)) (nonce @ bytes_of (configured_token st)) = Some sig"
    and "\<not> fst (nonce_is_duplicate (srv_nonces st) (srv_nonce_ttl st) nonce (env_ticks env (srv_log st)))"
  shows "fst (authorize_handshake env st req)"
proof -
  have n: "req_header req ''X-WS-Nonce'' 33 = (ESP_OK, bytes_to_hex nonce)"
    by (rule carriesD [OF assms(1)]) (use assms(3) in \<open>simp_all add: upgrade_lines_def\<close>)
  have s: "req_header req ''X-WS-Signature'' 160 = (ESP_OK, b64)"
    by (rule carriesD [OF assms(1)]) (use assms(4) in \<open>simp_all add: upgrade_lines_def\<close>)
  have d: "base64_utils_decode (env_base64 env) (Some b64) (Some 64) = (ESP_OK, sig)"
    using assms(4,6) by (simp add: base64_utils_decode_def)
  have "handshake_headers env req = Some (nonce, sig)"
    using n s d assms(3) by (simp add: handshake_headers_def WS_SECURITY_NONCE_LEN_def parse_nonce_hex_roundtrip)
  moreover have "ws_security_verify_handshake (env_crypto env) (Some (srv_sec st)) (Some nonce) (Some (configured_token st)) (Some sig) = ESP_OK"
    using assms by (intro ws_security_verify_own_signature) auto
  ultimately show ?thesis using assms(8) by (simp add: authorize_handshake_def Let_def case_prod_unfold)
qed

lemma upgrade_totp_ok:
  assumes "carries req (upgrade_lines tok shake (Some (unat digits, code)))" "digits = sec_totp_digits (srv_sec st)"
    and "6 \<le> digits" "digits \<le> 8" "unat code < 10 ^ unat digits"
    and "ws_security_verify_totp (env_crypto env) (Some (srv_sec st)) (get_authorize_time env st) code = (ESP_OK, True)"
  shows "authorize_totp env st req"
proof -
  have "length (dec_padded (unat digits) (unat code)) = unat digits" "unat digits \<le> 8"
    using assms(3-5) by (auto intro!: length_dec_padded simp: word_le_nat_alt)
  then have "req_header req ''X-WS-TOTP'' 16 = (ESP_OK, dec_padded (unat digits) (unat code))"
    by (intro carriesD [OF assms(1)]) (simp_all add: upgrade_lines_def)
  moreover have "parse_decimal_header (dec_padded (unat digits) (unat code)) digits = Some code"
    using assms(3-5) by (intro parse_decimal_roundtrip) (auto simp: word_le_nat_alt)
  ultimately show ?thesis
    using assms(2,6) by (simp add: authorize_totp_def ws_security_is_totp_enabled_def ws_security_totp_digits_def)
qed

lemma authorize_handshake_frame:
  "authorize_handshake env st req = (ok, st') \<Longrightarrow>
   srv_sec st' = srv_sec st \<and> get_authorize_time env st' = get_authorize_time env st"
  by (auto simp: authorize_handshake_def get_authorize_time_def Let_def split: prod.splits option.splits if_splits)

lemma totp_always_computes:
  assumes "header_env_ok cenv" "ws_security_inv (wc_sec c)" "sec_totp_enabled (wc_sec c)"
  shows "\<exists>code. totp_compute (hmac_sha1 (cenv_crypto cenv)) (Some (ws_security_totp_cfg (wc_sec c))) t = (ESP_OK, Some code)"
proof -
  obtain code where "ws_security_compute_totp (cenv_crypto cenv) (Some (wc_sec c)) t = (ESP_OK, Some code)"
    using totp_pieces [OF assms] by blast
  then show ?thesis using assms(3) by (simp add: ws_security_compute_totp_def)
qed

text \<open>
  C8. The nodes agree on the upgrade. The header block that the client generates is a list of
  header lines, and the server, set up with the same token and secrets, admits every request
  that carries these lines under a fresh nonce while the two clocks agree.
\<close>

theorem client_upgrade_accepted:
  assumes "header_env_ok cenv" and "header_state_ok c" and "sec_agree (srv_sec st) (wc_sec c)"
    and "env_crypto env = cenv_crypto cenv" and "configured_token st = (case wc_token c of None \<Rightarrow> [] | Some t \<Rightarrow> t)"
    and "length (configured_token st) < 185"
    and "\<And>bs b64. length bs = 32 \<Longrightarrow> cenv_base64 cenv bs 96 = (B64_OK, b64) \<Longrightarrow> env_base64 env (bytes_of b64) 64 = (B64_OK, bs)"
    and "get_authorize_time env st = get_current_unix_time cenv c" and "unat (sec_totp_window (srv_sec st)) < 2 ^ 31"
    and "\<not> fst (nonce_is_duplicate (srv_nonces st) (srv_nonce_ttl st) (cenv_random cenv (wc_log c) 16) (env_ticks env (srv_log st)))"
  shows "\<exists>hs. build_headers cenv c = (ESP_OK, block_of hs) \<and>
    (\<forall>req. carries req hs \<longrightarrow> fst (authorize_request env st req))"
proof -
  let ?tok = "configured_token st" and ?digits = "wc_totp_digits c"
  obtain nonce sig b64 code where r:
    "build_headers cenv c = (ESP_OK, (if ?tok \<noteq> [] then auth_line ?tok else []) @
       (if wc_handshake c then nonce_lines nonce b64 else []) @
       (if wc_totp c then ''X-WS-TOTP: '' @ dec_padded (unat ?digits) (unat code) @ crlf else []))"
    "length nonce = 16" "nonce = cenv_random cenv (wc_log c) 16"
    "wc_handshake c \<Longrightarrow> hmac_sha256 (cenv_crypto cenv) (sec_handshake_key (wc_sec c)) (nonce @ bytes_of ?tok) = Some sig"
    "length sig = 32" "cenv_base64 cenv sig 96 = (B64_OK, b64)" "length b64 = 44"
    "wc_totp c \<Longrightarrow> ws_security_compute_totp (cenv_crypto cenv) (Some (wc_sec c)) (get_current_unix_time cenv c) = (ESP_OK, Some code)"
    "wc_totp c \<Longrightarrow> unat code < 10 ^ unat ?digits" "wc_totp c \<Longrightarrow> 6 \<le> ?digits \<and> ?digits \<le> 8"
    using build_headers_result [OF assms(1,2)] unfolding assms(5) [symmetric] by metis
  note agree = sec_agreeD [OF assms(3)] and ok = assms(2) [unfolded header_state_ok_def]
  define shake where "shake = (if wc_handshake c then Some (nonce, b64) else None)"
  define totp where "totp = (if wc_totp c then Some (unat ?digits, code) else None)"
  let ?hs = "upgrade_lines ?tok shake totp"
  have block: "build_headers cenv c = (ESP_OK, block_of ?hs)"
    unfolding r(1) by (simp add: upgrade_lines_def shake_def totp_def block_of_def auth_line_def nonce_lines_def)
  have admitted: "fst (authorize_request env st req)" if req: "carries req ?hs" for req
  proof -
    have "fst (authorize_handshake env st req)"
    proof (cases "handshake_on st")
      case True
      then have on: "sec_handshake_enabled (srv_sec st)" by (simp add: handshake_on_def ws_security_is_handshake_enabled_def)
      then have wh: "wc_handshake c" using agree ok by simp
      then have "carries req (upgrade_lines ?tok (Some (nonce, b64)) totp)" using req by (simp add: shake_def)
      from upgrade_handshake_ok [OF this on r(2,7,5) assms(7) [OF r(5,6)]] show ?thesis
        using r(3) r(4) [OF wh] agree assms(4,10) by simp
    qed (simp add: authorize_handshake_def)
    then obtain st' where st': "authorize_handshake env st req = (True, st')" by (metis prod.collapse)
    note keep = authorize_handshake_frame [OF st']
    have "authorize_totp env st' req"
    proof (cases "sec_totp_enabled (srv_sec st)")
      case True
      then have on: "wc_totp c" "sec_totp_enabled (wc_sec c)" using agree ok by simp_all
      have total: "\<exists>code. totp_compute (hmac_sha1 (env_crypto env)) (Some (ws_security_totp_cfg (srv_sec st))) t = (ESP_OK, Some code)" for t
        using totp_always_computes [OF assms(1) _ on(2)] ok agree(8) assms(4) by simp
      have "ws_security_compute_totp (env_crypto env) (Some (srv_sec st)) (get_authorize_time env st) = (ESP_OK, Some code)"
        using r(8) [OF on(1)] agree True assms(4,8) by (simp add: ws_security_compute_totp_def)
      then have "ws_security_verify_totp (env_crypto env) (Some (srv_sec st)) (get_authorize_time env st) code = (ESP_OK, True)"
        by (rule ws_security_verify_current_code [OF True total assms(9)])
      then show ?thesis
        using upgrade_totp_ok [of req ?tok shake "wc_totp_digits c" code st' env] req on r(9,10) keep ok agree
        by (simp add: ws_security_totp_digits_def totp_def)
    qed (use keep in \<open>simp add: authorize_totp_def ws_security_is_totp_enabled_def\<close>)
    with upgrade_bearer_ok [OF req assms(6)] st' show ?thesis by (simp add: authorize_request_def)
  qed
  with block show ?thesis by blast
qed

definition link_cli_env :: cli_env where
  "link_cli_env = demo_cli_env\<lparr>cenv_base64 := (\<lambda>bs n. if n < 45 then (B64_BUFFER_TOO_SMALL, [])
     else (B64_OK, map (\<lambda>b. char_of (unat b)) bs @ replicate 12 CHR ''=''))\<rparr>"

definition link_srv_env :: srv_env where
  "link_srv_env = demo_env\<lparr>env_base64 := (\<lambda>bs n. if n < 32 then (B64_BUFFER_TOO_SMALL, []) else (B64_OK, take 32 bs))\<rparr>"

lemma of_char_char_of_u8 [simp]: "of_char (char_of (unat b)) = (b :: u8)"
proof -
  have "unat b < 256" using unsigned_less [of b, where 'a = nat] by simp
  then have "(of_char (char_of (unat b)) :: nat) = unat b" by simp
  then have "of_nat (of_char (char_of (unat b)) :: nat) = b" by simp
  then show ?thesis by (simp only: of_nat_of_char)
qed

theorem client_upgrade_accepted_witness:
  "\<exists>hs. build_headers link_cli_env demo_client = (ESP_OK, block_of hs) \<and>
    (\<forall>req. carries req hs \<longrightarrow> fst (authorize_request link_srv_env demo_srv req))"
proof (rule client_upgrade_accepted)
  show "header_env_ok link_cli_env"
    by (simp add: header_env_ok_def link_cli_env_def demo_cli_env_def demo_crypto_def)
  show "header_state_ok demo_client" by (rule demo_client_ok)
  show "sec_agree (srv_sec demo_srv) (wc_sec demo_client)" by (simp add: sec_agree_def demo_srv_def demo_client_def)
  show "env_crypto link_srv_env = cenv_crypto link_cli_env" by (simp add: link_srv_env_def link_cli_env_def demo_env_def demo_cli_env_def)
  show "configured_token demo_srv = (case wc_token demo_client of None \<Rightarrow> [] | Some t \<Rightarrow> t)" "length (configured_token demo_srv) < 185"
    by (simp_all add: configured_token_def demo_srv_def demo_cfg_def demo_client_def)
  show "length bs = 32 \<Longrightarrow> cenv_base64 link_cli_env bs 96 = (B64_OK, b64) \<Longrightarrow>
      env_base64 link_srv_env (bytes_of b64) 64 = (B64_OK, bs)" for bs b64
    by (auto simp: link_cli_env_def link_srv_env_def bytes_of_def comp_def)
  show "get_authorize_time link_srv_env demo_srv = get_current_unix_time link_cli_env demo_client"
    by (simp add: get_authorize_time_def get_current_unix_time_def link_srv_env_def link_cli_env_def demo_env_def demo_cli_env_def
        demo_srv_def demo_client_def)
  show "unat (sec_totp_window (srv_sec demo_srv)) < 2 ^ 31" by (simp add: demo_srv_def demo_ctx_eval)
  show "\<not> fst (nonce_is_duplicate (srv_nonces demo_srv) (srv_nonce_ttl demo_srv) (cenv_random link_cli_env (wc_log demo_client) 16)
      (env_ticks link_srv_env (srv_log demo_srv)))"
    by (simp add: demo_srv_def nonce_is_duplicate_def numeral_2_eq_2 Let_def)
qed

section \<open>Data\<close>

lemma broadcast_arrives:
  assumes "srv_clients st = Some cs" and "clients_inv cs" and "srv_handle st" and "sec_encryption_enabled (srv_sec st)"
    and "gcm_correct (env_crypto env)" and "length (env_random_iv env (srv_log st)) = 12"
    and "env_alloc env (srv_log st) ''frame'' (42 + length body)"
    and "ws_server_send env (Some (le_bytes 4 (proto_crc32 body) @ body)) st = (r, st')"
    and "sec_agree (srv_sec st) (wc_sec c)" and "cenv_crypto cenv = env_crypto env" and "wc_rx_cb c"
    and "wc_rx_counter c < sec_tx_counter (srv_sec st) + 1"
  shows "\<exists>frame. (\<forall>j < length cs. cl_fd (cs ! j) \<ge> 0 \<longrightarrow> EvSend (cl_fd (cs ! j)) WS_BINARY frame \<in> set (srv_log st')) \<and>
    wc_log (websocket_event_handler cenv (WsData True frame) c) = CEvRx body (proto_crc32 body) # wc_log c"
proof -
  let ?data = "le_bytes 4 (proto_crc32 body) @ body" and ?n = "sec_tx_counter (srv_sec st) + 1"
  have "?data \<noteq> []" by (metis append_is_Nil_conv length_0_conv length_le_bytes zero_neq_numeral)
  then obtain frame where f: "length frame = 38 + length ?data"
    "ws_security_decrypt (env_crypto env) (Some (srv_sec st)) (Some frame) (Some (wc_rx_counter c)) = (ESP_OK, ?data, Some ?n)"
    "\<forall>j < length cs. cl_fd (cs ! j) \<ge> 0 \<longrightarrow> EvSend (cl_fd (cs ! j)) WS_BINARY frame \<in> set (srv_log st')"
    using ws_server_send_frame [OF assms(1-3) _ assms(4-6) _ assms(12,8)] assms(7) by auto
  note agree = sec_agreeD [OF assms(9)]
  have "ws_security_decrypt (cenv_crypto cenv) (Some (wc_sec c)) (Some frame) (Some (wc_rx_counter c)) = (ESP_OK, ?data, Some ?n)"
    using f(2) ws_security_decrypt_key [of "srv_sec st" "wc_sec c"] agree assms(10) by metis
  then have "on_data cenv True frame c = (c\<lparr>wc_rx_counter := ?n\<rparr>)\<lparr>wc_log := CEvRx (drop 4 ?data) (le_word (take 4 ?data)) # wc_log c\<rparr>"
    using assms(4,11) agree f(1) by (intro on_data_binary) auto
  moreover have "take 4 ?data = le_bytes 4 (proto_crc32 body)" "drop 4 ?data = body" by simp_all
  ultimately have "wc_log (on_data cenv True frame c) = CEvRx body (proto_crc32 body) # wc_log c"
    by (simp only: le_word_le_bytes_u32) simp
  with f(3) show ?thesis by (auto simp: websocket_event_handler_def)
qed

text \<open>
  A broadcast arrives. A message that the server broadcasts with its checksum in front is
  offered to every connected client in one encrypted frame, and a client that shares the
  secrets and has seen no later counter hands its application exactly the message and its
  checksum, which is the CRC-32 of the message.
\<close>

theorem broadcast_reaches_client:
  assumes "srv_clients st = Some cs" and "clients_inv cs" and "srv_handle st" and "sec_encryption_enabled (srv_sec st)"
    and "gcm_correct (env_crypto env)" and "length (env_random_iv env (srv_log st)) = 12"
    and "env_alloc env (srv_log st) ''frame'' (42 + length body)"
    and "ws_server_send env (Some (le_bytes 4 (proto_crc32 body) @ body)) st = (r, st')"
    and "sec_agree (srv_sec st) (wc_sec c)" and "cenv_crypto cenv = env_crypto env" and "wc_rx_cb c"
    and "wc_rx_counter c < sec_tx_counter (srv_sec st) + 1"
  shows "\<exists>frame. (\<forall>j < length cs. cl_fd (cs ! j) \<ge> 0 \<longrightarrow> EvSend (cl_fd (cs ! j)) WS_BINARY frame \<in> set (srv_log st')) \<and>
    wc_log (websocket_event_handler cenv (WsData True frame) c) = CEvRx body (proto_crc32 body) # wc_log c"
  using assms by (rule broadcast_arrives)

theorem broadcast_reaches_client_witness:
  "\<exists>frame. EvSend 5 WS_BINARY frame \<in> set (srv_log (snd (ws_server_send demo_env (Some (le_bytes 4 (proto_crc32 [65]) @ [65])) demo_srv))) \<and>
    wc_log (websocket_event_handler demo_cli_env (WsData True frame) demo_client) = [CEvRx [65] (proto_crc32 [65])]"
proof -
  obtain r st' where s: "ws_server_send demo_env (Some (le_bytes 4 (proto_crc32 [65]) @ [65])) demo_srv = (r, st')" by fastforce
  have h: "srv_handle demo_srv" "gcm_correct (env_crypto demo_env)" "length (env_random_iv demo_env (srv_log demo_srv)) = 12"
    "env_alloc demo_env (srv_log demo_srv) ''frame'' (42 + length [65 :: u8])"
    "sec_agree (srv_sec demo_srv) (wc_sec demo_client)" "cenv_crypto demo_cli_env = env_crypto demo_env" "wc_rx_cb demo_client"
    "wc_rx_counter demo_client < sec_tx_counter (srv_sec demo_srv) + 1"
    by (simp_all add: demo_srv_def demo_env_def gcm_correct_demo demo_ctx_eval sec_agree_def demo_client_def demo_cli_env_def)
  from broadcast_reaches_client [OF demo_clients(1) demo_inv h(1) demo_clients(3) h(2-4) s h(5-8)]
  obtain frame where f: "\<forall>j < length (the (srv_clients demo_srv)). cl_fd (the (srv_clients demo_srv) ! j) \<ge> 0 \<longrightarrow>
      EvSend (cl_fd (the (srv_clients demo_srv) ! j)) WS_BINARY frame \<in> set (srv_log st')"
    "wc_log (websocket_event_handler demo_cli_env (WsData True frame) demo_client) = CEvRx [65] (proto_crc32 [65]) # wc_log demo_client"
    by blast
  have "EvSend 5 WS_BINARY frame \<in> set (srv_log st')" using f(1) [rule_format, of 1] by (simp add: demo_srv_def)
  with f(2) s show ?thesis by (auto simp: demo_client_def)
qed

end
