(* ===== verification/Messages.thy ===== *)
theory Messages
  imports Complex_Main Crc "HOL-Library.Monad_Syntax"
begin

text \<open>
  The messages between the nodes in their JSON form, \<^verbatim>\<open>common/proto/messages.c\<close> and
  \<^verbatim>\<open>messages.h\<close>. The encoders print into a caller's buffer with \<^verbatim>\<open>vsnprintf\<close>; the decoders
  read the tree that cJSON returns. cJSON is a record of functions over a type of nodes, an
  argument of the decoders. A C \<^verbatim>\<open>float\<close> is a rational number or NaN, which the sensor task
  stores for a sensor that it has never read; \<open>fl\<close> is the rounding of a \<^verbatim>\<open>double\<close> to a \<^verbatim>\<open>float\<close>.
  Infinities do not occur. A missing number decodes as NaN; what a conversion to an integer of
  NaN or of a value out of range gives is undefined in C and is the argument \<open>cj_undef\<close>.
\<close>

section \<open>Floats\<close>

datatype c_float = Num rat | NaN

text \<open>An operation with NaN gives NaN, and a comparison with it is false.\<close>

definition float_apply :: "(rat \<Rightarrow> rat) \<Rightarrow> c_float \<Rightarrow> c_float" where
  "float_apply f a = (case a of Num x \<Rightarrow> Num (f x) | NaN \<Rightarrow> NaN)"

definition float_sub :: "(rat \<Rightarrow> rat) \<Rightarrow> c_float \<Rightarrow> c_float \<Rightarrow> c_float" where
  "float_sub fl a b = (case a of NaN \<Rightarrow> NaN | Num x \<Rightarrow> float_apply (\<lambda>y. fl (x - y)) b)"

definition float_above :: "c_float \<Rightarrow> rat \<Rightarrow> bool" where
  "float_above a b \<longleftrightarrow> (case a of Num x \<Rightarrow> x > b | NaN \<Rightarrow> False)"

text \<open>There is no infinity, so the finite values are the numbers.\<close>

definition float_isfinite :: "c_float \<Rightarrow> bool" where
  "float_isfinite a \<longleftrightarrow> (case a of Num x \<Rightarrow> True | NaN \<Rightarrow> False)"

definition float_isnan :: "c_float \<Rightarrow> bool" where
  "float_isnan a \<longleftrightarrow> (case a of Num x \<Rightarrow> False | NaN \<Rightarrow> True)"

lemma float_simps [simp]:
  "float_apply f (Num x) = Num (f x)" "float_apply f NaN = NaN"
  "float_sub fl (Num x) (Num y) = Num (fl (x - y))" "float_sub fl NaN b = NaN" "float_sub fl a NaN = NaN"
  "float_above (Num x) t \<longleftrightarrow> x > t" "\<not> float_above NaN t" "\<not> float_isnan (Num x)" "float_isnan NaN"
  "float_isfinite (Num x)" "\<not> float_isfinite NaN"
  by (simp_all add: float_apply_def float_sub_def float_above_def float_isnan_def float_isfinite_def split: c_float.split)

section \<open>Types\<close>

record proto_sht20_reading_t =
  sht_id :: string
  sht_temperature_c :: c_float
  sht_humidity_percent :: c_float
  sht_valid :: bool

record proto_ds18b20_reading_t =
  ds_rom_code :: bytes
  ds_temperature_c :: c_float

record proto_mcp23017_state_t =
  mcp_port_a :: u16
  mcp_port_b :: u16

record proto_pca9685_state_t =
  pca_frequency_hz :: u16
  pca_duty_cycle :: "u16 list"

record proto_sensor_update_t =
  su_timestamp_ms :: u32
  su_sequence_id :: u32
  su_sht20_count :: nat
  su_sht20 :: "proto_sht20_reading_t list"
  su_ds18b20_count :: nat
  su_ds18b20 :: "proto_ds18b20_reading_t list"
  su_mcp :: "proto_mcp23017_state_t list"
  su_pwm :: proto_pca9685_state_t

record proto_command_t =
  cmd_timestamp_ms :: u32
  cmd_sequence_id :: u32
  cmd_has_pwm_update :: bool
  cmd_pwm_channel :: u8
  cmd_pwm_duty_cycle :: u16
  cmd_has_pwm_frequency :: bool
  cmd_pwm_frequency :: u16
  cmd_has_gpio_write :: bool
  cmd_gpio_device_index :: u8
  cmd_gpio_port :: u8
  cmd_gpio_mask :: u16
  cmd_gpio_value :: u16

text \<open>The arrays of an update have 2, 4, 2 and 16 entries; an id fits its 16 bytes.\<close>

definition sensor_update_wf :: "proto_sensor_update_t \<Rightarrow> bool" where
  "sensor_update_wf m \<longleftrightarrow>
     length (su_sht20 m) = 2 \<and> su_sht20_count m \<le> 2 \<and> length (su_ds18b20 m) = 4 \<and> su_ds18b20_count m \<le> 4 \<and>
     length (su_mcp m) = 2 \<and> length (pca_duty_cycle (su_pwm m)) = 16 \<and>
     (\<forall>e \<in> set (su_sht20 m). length (sht_id e) < 16) \<and> (\<forall>e \<in> set (su_ds18b20 m). length (ds_rom_code e) = 8)"

definition zero_sht20 :: proto_sht20_reading_t where
  "zero_sht20 = \<lparr>sht_id = [], sht_temperature_c = Num 0, sht_humidity_percent = Num 0, sht_valid = False\<rparr>"

definition zero_ds18b20 :: proto_ds18b20_reading_t where
  "zero_ds18b20 = \<lparr>ds_rom_code = replicate 8 0, ds_temperature_c = Num 0\<rparr>"

definition zero_mcp :: proto_mcp23017_state_t where
  "zero_mcp = \<lparr>mcp_port_a = 0, mcp_port_b = 0\<rparr>"

definition zero_sensor_update :: proto_sensor_update_t where
  "zero_sensor_update =
     \<lparr>su_timestamp_ms = 0, su_sequence_id = 0, su_sht20_count = 0, su_sht20 = replicate 2 zero_sht20,
      su_ds18b20_count = 0, su_ds18b20 = replicate 4 zero_ds18b20, su_mcp = replicate 2 zero_mcp,
      su_pwm = \<lparr>pca_frequency_hz = 0, pca_duty_cycle = replicate 16 0\<rparr>\<rparr>"

definition zero_command :: proto_command_t where
  "zero_command =
     \<lparr>cmd_timestamp_ms = 0, cmd_sequence_id = 0, cmd_has_pwm_update = False, cmd_pwm_channel = 0,
      cmd_pwm_duty_cycle = 0, cmd_has_pwm_frequency = False, cmd_pwm_frequency = 0, cmd_has_gpio_write = False,
      cmd_gpio_device_index = 0, cmd_gpio_port = 0, cmd_gpio_mask = 0, cmd_gpio_value = 0\<rparr>"

section \<open>Printing\<close>

definition fmt_u :: "'a::len word \<Rightarrow> string" where
  "fmt_u w = dec_string (unat w)"

definition hex_upper :: "nat \<Rightarrow> char" where
  "hex_upper v = ''0123456789ABCDEF'' ! v"

definition fmt_02X :: "u8 \<Rightarrow> string" where
  "fmt_02X b = [hex_upper (unat b div 16), hex_upper (unat b mod 16)]"

text \<open>\<^verbatim>\<open>%.2f\<close>: the exact value in hundredths, rounded to nearest, ties to even; NaN is \<^verbatim>\<open>nan\<close>.\<close>

definition round_half_even :: "rat \<Rightarrow> int" where
  "round_half_even r =
     (let f = \<lfloor>r\<rfloor>; d = r - of_int f in
      if d < 1 / 2 then f else if d > 1 / 2 then f + 1 else if even f then f else f + 1)"

definition hundredths :: "rat \<Rightarrow> int" where
  "hundredths r = (if r < 0 then - round_half_even (- r * 100) else round_half_even (r * 100))"

definition fmt_hundredths :: "rat \<Rightarrow> string" where
  "fmt_hundredths r =
     (let h = nat \<bar>hundredths r\<bar>
      in (if r < 0 then ''-'' else []) @ dec_string (h div 100) @ ''.'' @ dec_padded 2 (h mod 100))"

definition fmt_2f :: "c_float \<Rightarrow> string" where
  "fmt_2f v = (case v of Num r \<Rightarrow> fmt_hundredths r | NaN \<Rightarrow> ''nan'')"

text \<open>
  \<^verbatim>\<open>json_append\<close>: the text is appended when it leaves room for the terminating NUL in a
  buffer of \<open>sz\<close> bytes; otherwise the encoder gives up.
\<close>

definition json_append :: "nat \<Rightarrow> string \<Rightarrow> string \<Rightarrow> string option" where
  "json_append sz acc txt = (if length acc + length txt < sz then Some (acc @ txt) else None)"

fun json_append_list :: "nat \<Rightarrow> ('a \<Rightarrow> string) \<Rightarrow> bool \<Rightarrow> 'a list \<Rightarrow> string \<Rightarrow> string option" where
  "json_append_list sz fmt first [] acc = Some acc"
| "json_append_list sz fmt first (x # xs) acc =
     do { acc \<leftarrow> json_append sz acc ((if first then [] else '','') @ fmt x); json_append_list sz fmt False xs acc }"

definition fmt_sht20 :: "proto_sht20_reading_t \<Rightarrow> string" where
  "fmt_sht20 e =
     ''{\"id\":\"'' @ sht_id e @ ''\",\"t\":'' @ fmt_2f (sht_temperature_c e) @ '',\"rh\":'' @
     fmt_2f (sht_humidity_percent e) @ '',\"ok\":'' @ (if sht_valid e then ''true'' else ''false'') @ ''}''"

definition fmt_rom :: "bytes \<Rightarrow> string" where
  "fmt_rom rom = concat (map fmt_02X rom)"

definition fmt_ds18b20 :: "proto_ds18b20_reading_t \<Rightarrow> string" where
  "fmt_ds18b20 e = ''{\"rom\":\"'' @ fmt_rom (ds_rom_code e) @ ''\",\"t\":'' @ fmt_2f (ds_temperature_c e) @ ''}''"

definition encode_sensor_update_json_into :: "proto_sensor_update_t \<Rightarrow> nat \<Rightarrow> (bytes \<times> u32) option" where
  "encode_sensor_update_json_into m sz =
     (if sz = 0 then None
      else do {
        acc \<leftarrow> json_append sz [] (''{\"v\":1,\"type\":\"sensor_update\",\"ts\":'' @ fmt_u (su_timestamp_ms m) @
          '',\"seq\":'' @ fmt_u (su_sequence_id m) @ '',\"sht20\":['');
        acc \<leftarrow> json_append_list sz fmt_sht20 True (take (su_sht20_count m) (su_sht20 m)) acc;
        acc \<leftarrow> json_append sz acc ''],\"ds18b20\":['';
        acc \<leftarrow> json_append_list sz fmt_ds18b20 True (take (su_ds18b20_count m) (su_ds18b20 m)) acc;
        acc \<leftarrow> json_append sz acc (''],\"gpio\":{\"mcp0\":{\"A\":'' @ fmt_u (mcp_port_a (su_mcp m ! 0)) @
          '',\"B\":'' @ fmt_u (mcp_port_b (su_mcp m ! 0)) @ ''},\"mcp1\":{\"A\":'' @ fmt_u (mcp_port_a (su_mcp m ! 1)) @
          '',\"B\":'' @ fmt_u (mcp_port_b (su_mcp m ! 1)) @ ''}},\"pwm\":{\"pca9685\":{\"freq\":'' @
          fmt_u (pca_frequency_hz (su_pwm m)) @ '',\"duty\":['');
        acc \<leftarrow> json_append_list sz fmt_u True (pca_duty_cycle (su_pwm m)) acc;
        acc \<leftarrow> json_append sz acc '']}}}'';
        Some (bytes_of acc, proto_crc32 (bytes_of acc)) })"

definition encode_command_json_into :: "proto_command_t \<Rightarrow> nat \<Rightarrow> (bytes \<times> u32) option" where
  "encode_command_json_into m sz =
     (if sz = 0 then None
      else do {
        acc \<leftarrow> json_append sz [] (''{\"v\":1,\"type\":\"cmd\",\"ts\":'' @ fmt_u (cmd_timestamp_ms m) @
          '',\"seq\":'' @ fmt_u (cmd_sequence_id m));
        acc \<leftarrow> (if cmd_has_pwm_update m
          then json_append sz acc ('',\"set_pwm\":{\"ch\":'' @ fmt_u (cmd_pwm_channel m) @ '',\"duty\":'' @
            fmt_u (cmd_pwm_duty_cycle m) @ ''}'')
          else Some acc);
        acc \<leftarrow> (if cmd_has_pwm_frequency m
          then json_append sz acc ('',\"pwm_freq\":{\"freq\":'' @ fmt_u (cmd_pwm_frequency m) @ ''}'')
          else Some acc);
        acc \<leftarrow> (if cmd_has_gpio_write m
          then json_append sz acc ('',\"write_gpio\":{\"dev\":\"'' @ (if cmd_gpio_device_index m = 0 then ''mcp0'' else ''mcp1'') @
            ''\",\"port\":\"'' @ (if cmd_gpio_port m = 0 then ''A'' else ''B'') @ ''\",\"mask\":'' @ fmt_u (cmd_gpio_mask m) @
            '',\"value\":'' @ fmt_u (cmd_gpio_value m) @ ''}'')
          else Some acc);
        acc \<leftarrow> json_append sz acc ''}'';
        Some (bytes_of acc, proto_crc32 (bytes_of acc)) })"

section \<open>Decoding\<close>

record 'j cjson =
  cj_parse :: "bytes \<Rightarrow> 'j option"
  cj_item :: "'j \<Rightarrow> string \<Rightarrow> 'j option"
  cj_number :: "'j \<Rightarrow> rat option"
  cj_string :: "'j \<Rightarrow> string option"
  cj_is_object :: "'j \<Rightarrow> bool"
  cj_is_array :: "'j \<Rightarrow> bool"
  cj_is_true :: "'j \<Rightarrow> bool"
  cj_children :: "'j \<Rightarrow> 'j list"
  cj_undef :: "rat option \<Rightarrow> int"
  cj_fl :: "rat \<Rightarrow> rat"

text \<open>
  \<^verbatim>\<open>cJSON_GetObjectItem\<close> on a node that may be NULL, \<^verbatim>\<open>cJSON_GetNumberValue\<close> (NaN is
  \<open>None\<close>), and the conversions of a \<^verbatim>\<open>double\<close> to an unsigned integer, which truncate.
\<close>

definition js_get :: "'j cjson \<Rightarrow> 'j option \<Rightarrow> string \<Rightarrow> 'j option" where
  "js_get cj j key = (case j of None \<Rightarrow> None | Some n \<Rightarrow> cj_item cj n key)"

definition js_num :: "'j cjson \<Rightarrow> 'j option \<Rightarrow> rat option" where
  "js_num cj j = (case j of None \<Rightarrow> None | Some n \<Rightarrow> cj_number cj n)"

definition rat_trunc :: "rat \<Rightarrow> int" where
  "rat_trunc r = (if r < 0 then - \<lfloor>- r\<rfloor> else \<lfloor>r\<rfloor>)"

definition double_to_uint :: "'j cjson \<Rightarrow> rat option \<Rightarrow> 'a::len word" where
  "double_to_uint cj d =
     (case d of
        None \<Rightarrow> word_of_int (cj_undef cj None)
      | Some r \<Rightarrow> if 0 \<le> rat_trunc r \<and> rat_trunc r < 2 ^ LENGTH('a) then word_of_int (rat_trunc r)
          else word_of_int (cj_undef cj (Some r)))"

definition double_to_float :: "'j cjson \<Rightarrow> rat option \<Rightarrow> c_float" where
  "double_to_float cj d = (case d of None \<Rightarrow> NaN | Some r \<Rightarrow> Num (cj_fl cj r))"

definition js_object :: "'j cjson \<Rightarrow> 'j option \<Rightarrow> bool" where
  "js_object cj j = (case j of None \<Rightarrow> False | Some n \<Rightarrow> cj_is_object cj n)"

definition js_array :: "'j cjson \<Rightarrow> 'j option \<Rightarrow> bool" where
  "js_array cj j = (case j of None \<Rightarrow> False | Some n \<Rightarrow> cj_is_array cj n)"

definition js_string :: "'j cjson \<Rightarrow> 'j option \<Rightarrow> string option" where
  "js_string cj j = (case j of None \<Rightarrow> None | Some n \<Rightarrow> cj_string cj n)"

definition crc_ok :: "bytes \<Rightarrow> u32 \<Rightarrow> bool" where
  "crc_ok payload expected \<longleftrightarrow> expected = 0 \<or> proto_crc32 payload = expected"

definition decode_set_pwm :: "'j cjson \<Rightarrow> 'j option \<Rightarrow> proto_command_t \<Rightarrow> proto_command_t" where
  "decode_set_pwm cj j m =
     (if js_object cj j then
        m\<lparr>cmd_pwm_channel := double_to_uint cj (js_num cj (js_get cj j ''ch'')),
          cmd_pwm_duty_cycle := double_to_uint cj (js_num cj (js_get cj j ''duty'')), cmd_has_pwm_update := True\<rparr>
      else m)"

definition decode_pwm_freq :: "'j cjson \<Rightarrow> 'j option \<Rightarrow> proto_command_t \<Rightarrow> proto_command_t" where
  "decode_pwm_freq cj j m =
     (if js_object cj j then
        m\<lparr>cmd_pwm_frequency := double_to_uint cj (js_num cj (js_get cj j ''freq'')), cmd_has_pwm_frequency := True\<rparr>
      else m)"

definition decode_write_gpio :: "'j cjson \<Rightarrow> 'j option \<Rightarrow> proto_command_t \<Rightarrow> proto_command_t" where
  "decode_write_gpio cj j m =
     (if js_object cj j then
        m\<lparr>cmd_gpio_device_index := (if js_string cj (js_get cj j ''dev'') = Some ''mcp1'' then 1 else 0),
          cmd_gpio_port := (case js_string cj (js_get cj j ''port'') of
             Some (CHR ''B'' # _) \<Rightarrow> 1 | _ \<Rightarrow> 0),
          cmd_gpio_mask := double_to_uint cj (js_num cj (js_get cj j ''mask'')),
          cmd_gpio_value := double_to_uint cj (js_num cj (js_get cj j ''value'')), cmd_has_gpio_write := True\<rparr>
      else m)"

definition decode_command_json :: "'j cjson \<Rightarrow> 'j \<Rightarrow> proto_command_t" where
  "decode_command_json cj tree =
     (let m = zero_command\<lparr>cmd_timestamp_ms := double_to_uint cj (js_num cj (js_get cj (Some tree) ''ts'')),
            cmd_sequence_id := double_to_uint cj (js_num cj (js_get cj (Some tree) ''seq''))\<rparr>;
          m = decode_set_pwm cj (js_get cj (Some tree) ''set_pwm'') m;
          m = decode_pwm_freq cj (js_get cj (Some tree) ''pwm_freq'') m
      in decode_write_gpio cj (js_get cj (Some tree) ''write_gpio'') m)"

definition proto_decode_command_json :: "'j cjson \<Rightarrow> bytes \<Rightarrow> u32 \<Rightarrow> proto_command_t option" where
  "proto_decode_command_json cj payload expected_crc32 =
     (if \<not> crc_ok payload expected_crc32 then None
      else map_option (decode_command_json cj) (cj_parse cj payload))"

text \<open>
  \<^verbatim>\<open>sscanf("%02X")\<close>: white space is skipped, at most two characters are read, a sign is
  allowed, and a bare \<^verbatim>\<open>0x\<close> is no number. \<^verbatim>\<open>parse_rom\<close> stores byte after byte and stops at
  the first pair that is no number, leaving the earlier bytes in place.
\<close>

definition hex_char_value :: "char \<Rightarrow> nat option" where
  "hex_char_value c =
     (if c \<in> set ''0123456789'' then Some (of_char c - 48)
      else if c \<in> set ''ABCDEF'' then Some (of_char c - 55)
      else if c \<in> set ''abcdef'' then Some (of_char c - 87) else None)"

fun scan_hex_digits :: "nat \<Rightarrow> string \<Rightarrow> nat option \<Rightarrow> nat option" where
  "scan_hex_digits 0 s v = v"
| "scan_hex_digits (Suc w) [] v = v"
| "scan_hex_digits (Suc w) (c # s) v =
     (case hex_char_value c of None \<Rightarrow> v
      | Some d \<Rightarrow> scan_hex_digits w s (Some ((case v of None \<Rightarrow> 0 | Some n \<Rightarrow> n) * 16 + d)))"

definition sscanf_02X :: "string \<Rightarrow> u32 option" where
  "sscanf_02X s =
     (let t = dropWhile (\<lambda>c. of_char c \<in> {32, 9, 10, 11, 12, 13 :: nat}) s in
      if take 1 t = ''+'' then map_option of_nat (scan_hex_digits 1 (drop 1 t) None)
      else if take 1 t = ''-'' then map_option (\<lambda>n. - of_nat n) (scan_hex_digits 1 (drop 1 t) None)
      else if take 2 t = ''0x'' \<or> take 2 t = ''0X'' then None
      else map_option of_nat (scan_hex_digits 2 t None))"

fun parse_rom_loop :: "nat \<Rightarrow> nat \<Rightarrow> string \<Rightarrow> bytes \<Rightarrow> bool \<times> bytes" where
  "parse_rom_loop 0 i rom_str out = (True, out)"
| "parse_rom_loop (Suc n) i rom_str out =
     (case sscanf_02X (drop (i * 2) rom_str) of
        None \<Rightarrow> (False, out)
      | Some v \<Rightarrow> parse_rom_loop n (Suc i) rom_str (out[i := ucast v]))"

definition parse_rom :: "string \<Rightarrow> bytes \<Rightarrow> bool \<times> bytes" where
  "parse_rom rom_str out = (if length rom_str < 16 then (False, out) else parse_rom_loop 8 0 rom_str out)"

definition decode_sht20_item :: "'j cjson \<Rightarrow> 'j \<Rightarrow> proto_sht20_reading_t \<Rightarrow> proto_sht20_reading_t" where
  "decode_sht20_item cj item e =
     (let e = (case js_string cj (js_get cj (Some item) ''id'') of None \<Rightarrow> e | Some s \<Rightarrow> e\<lparr>sht_id := take 15 s\<rparr>)
      in e\<lparr>sht_temperature_c := double_to_float cj (js_num cj (js_get cj (Some item) ''t'')),
           sht_humidity_percent := double_to_float cj (js_num cj (js_get cj (Some item) ''rh'')),
           sht_valid := (case js_get cj (Some item) ''ok'' of None \<Rightarrow> False | Some n \<Rightarrow> cj_is_true cj n)\<rparr>)"

definition decode_ds18b20_item :: "'j cjson \<Rightarrow> 'j \<Rightarrow> proto_ds18b20_reading_t \<Rightarrow> proto_ds18b20_reading_t" where
  "decode_ds18b20_item cj item e =
     (let e = (case js_string cj (js_get cj (Some item) ''rom'') of None \<Rightarrow> e
               | Some s \<Rightarrow> e\<lparr>ds_rom_code := snd (parse_rom s (ds_rom_code e))\<rparr>)
      in e\<lparr>ds_temperature_c := double_to_float cj (js_num cj (js_get cj (Some item) ''t''))\<rparr>)"

text \<open>\<^verbatim>\<open>cJSON_ArrayForEach\<close> with the break at the capacity of the target: \<open>f\<close> updates entry \<open>idx\<close>.\<close>

fun decode_items :: "('j \<Rightarrow> 'e \<Rightarrow> 'e) \<Rightarrow> nat \<Rightarrow> nat \<Rightarrow> 'j list \<Rightarrow> 'e list \<Rightarrow> nat \<times> 'e list" where
  "decode_items f cap idx [] es = (idx, es)"
| "decode_items f cap idx (j # js) es =
     (if cap \<le> idx then (idx, es) else decode_items f cap (Suc idx) js (es[idx := f j (es ! idx)]))"

definition js_children :: "'j cjson \<Rightarrow> 'j option \<Rightarrow> 'j list" where
  "js_children cj j = (case j of Some n \<Rightarrow> if cj_is_array cj n then cj_children cj n else [] | None \<Rightarrow> [])"

definition decode_mcp :: "'j cjson \<Rightarrow> 'j option \<Rightarrow> proto_mcp23017_state_t \<Rightarrow> proto_mcp23017_state_t" where
  "decode_mcp cj obj e =
     (if js_object cj obj then
        \<lparr>mcp_port_a = double_to_uint cj (js_num cj (js_get cj obj ''A'')),
         mcp_port_b = double_to_uint cj (js_num cj (js_get cj obj ''B''))\<rparr>
      else e)"

definition decode_gpio :: "'j cjson \<Rightarrow> 'j option \<Rightarrow> proto_mcp23017_state_t list \<Rightarrow> proto_mcp23017_state_t list" where
  "decode_gpio cj gpio es =
     (if js_object cj gpio then
        es[0 := decode_mcp cj (js_get cj gpio ''mcp0'') (es ! 0), 1 := decode_mcp cj (js_get cj gpio ''mcp1'') (es ! 1)]
      else es)"

definition decode_pwm :: "'j cjson \<Rightarrow> 'j option \<Rightarrow> proto_pca9685_state_t \<Rightarrow> proto_pca9685_state_t" where
  "decode_pwm cj pwm e =
     (let pca = js_get cj pwm ''pca9685'' in
      if js_object cj pwm \<and> js_object cj pca then
        \<lparr>pca_frequency_hz = double_to_uint cj (js_num cj (js_get cj pca ''freq'')),
         pca_duty_cycle = snd (decode_items (\<lambda>n _. double_to_uint cj (js_num cj (Some n))) 16 0
           (js_children cj (js_get cj pca ''duty'')) (pca_duty_cycle e))\<rparr>
      else e)"

definition decode_sensor_update_json :: "'j cjson \<Rightarrow> 'j \<Rightarrow> proto_sensor_update_t" where
  "decode_sensor_update_json cj tree =
     (let m = zero_sensor_update;
          (sn, sht) = decode_items (decode_sht20_item cj) 2 0 (js_children cj (js_get cj (Some tree) ''sht20'')) (su_sht20 m);
          (dn, ds) = decode_items (decode_ds18b20_item cj) 4 0 (js_children cj (js_get cj (Some tree) ''ds18b20'')) (su_ds18b20 m)
      in \<lparr>su_timestamp_ms = double_to_uint cj (js_num cj (js_get cj (Some tree) ''ts'')),
          su_sequence_id = double_to_uint cj (js_num cj (js_get cj (Some tree) ''seq'')),
          su_sht20_count = sn, su_sht20 = sht, su_ds18b20_count = dn, su_ds18b20 = ds,
          su_mcp = decode_gpio cj (js_get cj (Some tree) ''gpio'') (su_mcp m),
          su_pwm = decode_pwm cj (js_get cj (Some tree) ''pwm'') (su_pwm m)\<rparr>)"

definition proto_decode_sensor_update_json :: "'j cjson \<Rightarrow> bytes \<Rightarrow> u32 \<Rightarrow> proto_sensor_update_t option" where
  "proto_decode_sensor_update_json cj payload expected_crc32 =
     (if \<not> crc_ok payload expected_crc32 then None
      else map_option (decode_sensor_update_json cj) (cj_parse cj payload))"

section \<open>The documents\<close>

text \<open>
  The JSON documents the encoders mean, their text, and what it says of cJSON that it has read
  one: lookup in objects ignores case, as \<^verbatim>\<open>cJSON_GetObjectItem\<close> does, an integer is read
  exactly and a fraction to the double nearest to it, \<open>dbl\<close>. With a NaN among its values the text
  is not JSON.
\<close>

datatype jdoc = JInt nat | JFix c_float | JStr string | JBool bool | JArr "jdoc list" | JObj "(string \<times> jdoc) list"

fun join_texts :: "string list \<Rightarrow> string" where
  "join_texts [] = []"
| "join_texts [t] = t"
| "join_texts (t # ts) = t @ '','' @ join_texts ts"

fun jdoc_text :: "jdoc \<Rightarrow> string" where
  "jdoc_text (JInt n) = dec_string n"
| "jdoc_text (JFix r) = fmt_2f r"
| "jdoc_text (JStr s) = ''\"'' @ s @ ''\"''"
| "jdoc_text (JBool b) = (if b then ''true'' else ''false'')"
| "jdoc_text (JArr ds) = ''['' @ join_texts (map jdoc_text ds) @ '']''"
| "jdoc_text (JObj kvs) =
     ''{'' @ join_texts (map (\<lambda>(k, d). ''\"'' @ k @ ''\":'' @ jdoc_text d) kvs) @ ''}''"

definition lower_char :: "char \<Rightarrow> char" where
  "lower_char c = (if 65 \<le> (of_char c :: nat) \<and> of_char c \<le> (90 :: nat) then char_of (of_char c + 32 :: nat) else c)"

definition jdoc_item :: "(string \<times> jdoc) list \<Rightarrow> string \<Rightarrow> jdoc option" where
  "jdoc_item kvs k = map_option snd (find (\<lambda>(k', d). map lower_char k' = map lower_char k) kvs)"

definition plain_char :: "char \<Rightarrow> bool" where
  "plain_char c \<longleftrightarrow> 32 \<le> (of_char c :: nat) \<and> of_char c < (127 :: nat) \<and> c \<noteq> CHR ''\"'' \<and> of_char c \<noteq> (92 :: nat)"

fun jdoc_plain :: "jdoc \<Rightarrow> bool" where
  "jdoc_plain (JStr s) = list_all plain_char s"
| "jdoc_plain (JArr ds) = list_all jdoc_plain ds"
| "jdoc_plain (JObj kvs) = list_all (\<lambda>(k, d). list_all plain_char k \<and> jdoc_plain d) kvs"
| "jdoc_plain _ = True"

fun jdoc_numbers :: "jdoc \<Rightarrow> bool" where
  "jdoc_numbers (JFix v) = (v \<noteq> NaN)"
| "jdoc_numbers (JArr ds) = list_all jdoc_numbers ds"
| "jdoc_numbers (JObj kvs) = list_all (\<lambda>(k, d). jdoc_numbers d) kvs"
| "jdoc_numbers _ = True"

lemma jdoc_item_size: "jdoc_item kvs k = Some d \<Longrightarrow> size d \<le> size_list (size_prod (\<lambda>x. 0) size) kvs"
  unfolding jdoc_item_def by (induction kvs) (auto split: if_splits)

function denotes :: "'j cjson \<Rightarrow> (rat \<Rightarrow> rat) \<Rightarrow> jdoc \<Rightarrow> 'j \<Rightarrow> bool" where
  "denotes cj dbl (JInt n) j = (cj_number cj j = Some (of_nat n))"
| "denotes cj dbl (JFix v) j = (\<exists>r. v = Num r \<and> cj_number cj j = Some (dbl (of_int (hundredths r) / 100)))"
| "denotes cj dbl (JStr s) j = (cj_string cj j = Some s)"
| "denotes cj dbl (JBool b) j = (cj_is_true cj j = b)"
| "denotes cj dbl (JArr ds) j = (cj_is_array cj j \<and> list_all2 (\<lambda>d n. denotes cj dbl d n) ds (cj_children cj j))"
| "denotes cj dbl (JObj kvs) j =
     (cj_is_object cj j \<and>
      (\<forall>k. rel_option (\<lambda>d n. denotes cj dbl d n) (jdoc_item kvs k) (cj_item cj j k)))"
  by pat_completeness auto
termination
  by (relation "measure (\<lambda>(cj, dbl, d, j). size d)") (auto simp: less_Suc_eq_le size_list_estimation' dest: jdoc_item_size)

text \<open>
  cJSON reads a document: its text parses to a node that denotes it when it is JSON, and is
  refused when a value in it is \<^verbatim>\<open>nan\<close>, for which JSON has no notation. This is asked of
  documents whose strings need no escape.
\<close>

definition cjson_reads :: "'j cjson \<Rightarrow> (rat \<Rightarrow> rat) \<Rightarrow> jdoc \<Rightarrow> bool" where
  "cjson_reads cj dbl d \<longleftrightarrow>
     (jdoc_plain d \<longrightarrow>
        (if jdoc_numbers d then \<exists>j. cj_parse cj (bytes_of (jdoc_text d)) = Some j \<and> denotes cj dbl d j
         else cj_parse cj (bytes_of (jdoc_text d)) = None))"

definition jport :: "u16 \<Rightarrow> u16 \<Rightarrow> jdoc" where
  "jport a b = JObj [(''A'', JInt (unat a)), (''B'', JInt (unat b))]"

definition sht20_doc :: "proto_sht20_reading_t \<Rightarrow> jdoc" where
  "sht20_doc e = JObj [(''id'', JStr (sht_id e)), (''t'', JFix (sht_temperature_c e)),
     (''rh'', JFix (sht_humidity_percent e)), (''ok'', JBool (sht_valid e))]"

definition ds18b20_doc :: "proto_ds18b20_reading_t \<Rightarrow> jdoc" where
  "ds18b20_doc e = JObj [(''rom'', JStr (fmt_rom (ds_rom_code e))), (''t'', JFix (ds_temperature_c e))]"

definition sensor_update_doc :: "proto_sensor_update_t \<Rightarrow> jdoc" where
  "sensor_update_doc m =
     JObj [(''v'', JInt 1), (''type'', JStr ''sensor_update''), (''ts'', JInt (unat (su_timestamp_ms m))),
       (''seq'', JInt (unat (su_sequence_id m))),
       (''sht20'', JArr (map sht20_doc (take (su_sht20_count m) (su_sht20 m)))),
       (''ds18b20'', JArr (map ds18b20_doc (take (su_ds18b20_count m) (su_ds18b20 m)))),
       (''gpio'', JObj [(''mcp0'', jport (mcp_port_a (su_mcp m ! 0)) (mcp_port_b (su_mcp m ! 0))),
                        (''mcp1'', jport (mcp_port_a (su_mcp m ! 1)) (mcp_port_b (su_mcp m ! 1)))]),
       (''pwm'', JObj [(''pca9685'', JObj [(''freq'', JInt (unat (pca_frequency_hz (su_pwm m)))),
                        (''duty'', JArr (map (\<lambda>d. JInt (unat d)) (pca_duty_cycle (su_pwm m))))])])]"

definition command_doc :: "proto_command_t \<Rightarrow> jdoc" where
  "command_doc m =
     JObj ([(''v'', JInt 1), (''type'', JStr ''cmd''), (''ts'', JInt (unat (cmd_timestamp_ms m))),
            (''seq'', JInt (unat (cmd_sequence_id m)))]
       @ (if cmd_has_pwm_update m then [(''set_pwm'', JObj [(''ch'', JInt (unat (cmd_pwm_channel m))),
            (''duty'', JInt (unat (cmd_pwm_duty_cycle m)))])] else [])
       @ (if cmd_has_pwm_frequency m then [(''pwm_freq'', JObj [(''freq'', JInt (unat (cmd_pwm_frequency m)))])] else [])
       @ (if cmd_has_gpio_write m then [(''write_gpio'', JObj
            [(''dev'', JStr (if cmd_gpio_device_index m = 0 then ''mcp0'' else ''mcp1'')),
             (''port'', JStr (if cmd_gpio_port m = 0 then ''A'' else ''B'')),
             (''mask'', JInt (unat (cmd_gpio_mask m))), (''value'', JInt (unat (cmd_gpio_value m)))])] else []))"

text \<open>
  What a receiver sees of a command: the parts it does not carry are zero, and every device
  other than 0 is device 1, every port other than A is B.
\<close>

definition command_norm :: "proto_command_t \<Rightarrow> proto_command_t" where
  "command_norm m = m\<lparr>
     cmd_pwm_channel := if cmd_has_pwm_update m then cmd_pwm_channel m else 0,
     cmd_pwm_duty_cycle := if cmd_has_pwm_update m then cmd_pwm_duty_cycle m else 0,
     cmd_pwm_frequency := if cmd_has_pwm_frequency m then cmd_pwm_frequency m else 0,
     cmd_gpio_device_index := if cmd_has_gpio_write m \<and> cmd_gpio_device_index m \<noteq> 0 then 1 else 0,
     cmd_gpio_port := if cmd_has_gpio_write m \<and> cmd_gpio_port m \<noteq> 0 then 1 else 0,
     cmd_gpio_mask := if cmd_has_gpio_write m then cmd_gpio_mask m else 0,
     cmd_gpio_value := if cmd_has_gpio_write m then cmd_gpio_value m else 0\<rparr>"

text \<open>
  What a receiver sees of an update: entries past the counts are zero, and a measured value is
  the \<^verbatim>\<open>float\<close> nearest to the \<^verbatim>\<open>double\<close> nearest to its two decimals. With a NaN among the
  entries that are sent there is nothing to see.
\<close>

definition readings_are_numbers :: "proto_sensor_update_t \<Rightarrow> bool" where
  "readings_are_numbers m \<longleftrightarrow>
     (\<forall>e \<in> set (take (su_sht20_count m) (su_sht20 m)). sht_temperature_c e \<noteq> NaN \<and> sht_humidity_percent e \<noteq> NaN) \<and>
     (\<forall>e \<in> set (take (su_ds18b20_count m) (su_ds18b20 m)). ds_temperature_c e \<noteq> NaN)"

definition wire_value :: "'j cjson \<Rightarrow> (rat \<Rightarrow> rat) \<Rightarrow> c_float \<Rightarrow> c_float" where
  "wire_value cj dbl = float_apply (\<lambda>r. cj_fl cj (dbl (of_int (hundredths r) / 100)))"

definition sensor_update_norm :: "'j cjson \<Rightarrow> (rat \<Rightarrow> rat) \<Rightarrow> proto_sensor_update_t \<Rightarrow> proto_sensor_update_t" where
  "sensor_update_norm cj dbl m = m\<lparr>
     su_sht20 := map (\<lambda>e. e\<lparr>sht_temperature_c := wire_value cj dbl (sht_temperature_c e),
         sht_humidity_percent := wire_value cj dbl (sht_humidity_percent e)\<rparr>) (take (su_sht20_count m) (su_sht20 m))
       @ replicate (2 - su_sht20_count m) zero_sht20,
     su_ds18b20 := map (\<lambda>e. e\<lparr>ds_temperature_c := wire_value cj dbl (ds_temperature_c e)\<rparr>)
         (take (su_ds18b20_count m) (su_ds18b20 m))
       @ replicate (4 - su_ds18b20_count m) zero_ds18b20\<rparr>"

end
