(* ===== verification/MessageProps.thy ===== *)
theory MessageProps
  imports Messages
begin

text \<open>
  What the JSON codec of \<^theory_text>\<open>Messages\<close> achieves: the encoders print the documents of the messages
  or nothing, the decoders invert them up to the resolution of the text, and a damaged payload
  is refused by its checksum.
\<close>

section \<open>Printing into a buffer\<close>

lemma json_append_bind:
  "json_append sz acc t \<bind> f = (if length (acc @ t) < sz then f (acc @ t) else None)"
  by (simp add: json_append_def)

lemma json_append_if_bind:
  "(if c then json_append sz acc t else Some acc) \<bind> f =
     (if c \<longrightarrow> length (acc @ t) < sz then f (acc @ (if c then t else [])) else None)"
  by (simp add: json_append_def)

fun joined :: "('a \<Rightarrow> string) \<Rightarrow> bool \<Rightarrow> 'a list \<Rightarrow> string" where
  "joined fmt first [] = []"
| "joined fmt first (x # xs) = ((if first then [] else '','') @ fmt x) @ joined fmt False xs"

lemma join_texts_Cons: "join_texts (t # ts) = t @ joined id False ts"
  by (induction ts arbitrary: t) auto

lemma joined_map: "joined fmt first xs = joined id first (map fmt xs)"
  by (induction xs arbitrary: first) auto

lemma joined_join_texts: "joined fmt True xs = join_texts (map fmt xs)"
  by (cases xs) (auto simp: join_texts_Cons joined_map[of fmt])

lemma json_append_list_bind:
  assumes "length acc < sz"
  shows "json_append_list sz fmt first xs acc \<bind> f =
     (if length (acc @ joined fmt first xs) < sz then f (acc @ joined fmt first xs) else None)"
  using assms
proof (induction xs arbitrary: acc first)
  case (Cons x xs)
  then show ?case
    by (cases "length (acc @ (if first then [] else '','') @ fmt x) < sz")
      (auto simp: json_append_bind simp del: append_assoc simp flip: append_assoc)
qed simp

text \<open>The sequence of appends of the two encoders: it fits when the whole text fits.\<close>

lemma command_appends:
  "do { acc \<leftarrow> json_append sz [] t1;
        acc \<leftarrow> (if c2 then json_append sz acc t2 else Some acc);
        acc \<leftarrow> (if c3 then json_append sz acc t3 else Some acc);
        acc \<leftarrow> (if c4 then json_append sz acc t4 else Some acc);
        acc \<leftarrow> json_append sz acc t5; Some (g acc) } =
   (let t = t1 @ (if c2 then t2 else []) @ (if c3 then t3 else []) @ (if c4 then t4 else []) @ t5
    in if length t < sz then Some (g t) else None)"
  by (simp add: json_append_bind json_append_if_bind Let_def del: bind_eq_None_conv)

lemma update_appends:
  "do { acc \<leftarrow> json_append sz [] t1;
        acc \<leftarrow> json_append_list sz f1 True l1 acc;
        acc \<leftarrow> json_append sz acc t2;
        acc \<leftarrow> json_append_list sz f2 True l2 acc;
        acc \<leftarrow> json_append sz acc t3;
        acc \<leftarrow> json_append_list sz f3 True l3 acc;
        acc \<leftarrow> json_append sz acc t4; Some (g acc) } =
   (let t = t1 @ joined f1 True l1 @ t2 @ joined f2 True l2 @ t3 @ joined f3 True l3 @ t4
    in if length t < sz then Some (g t) else None)"
  by (simp add: json_append_bind json_append_list_bind Let_def cong: if_cong)

section \<open>The text of a document\<close>

lemma dec_string_1: "dec_string (Suc 0) = ''1''"
  by code_simp

lemma encode_command_json:
  "encode_command_json_into m sz =
     (let t = jdoc_text (command_doc m)
      in if length t < sz then Some (bytes_of t, proto_crc32 (bytes_of t)) else None)"
proof -
  have "jdoc_text (command_doc m) =
     (''{\"v\":1,\"type\":\"cmd\",\"ts\":'' @ fmt_u (cmd_timestamp_ms m) @ '',\"seq\":'' @ fmt_u (cmd_sequence_id m)) @
     (if cmd_has_pwm_update m then '',\"set_pwm\":{\"ch\":'' @ fmt_u (cmd_pwm_channel m) @ '',\"duty\":'' @
        fmt_u (cmd_pwm_duty_cycle m) @ ''}'' else []) @
     (if cmd_has_pwm_frequency m then '',\"pwm_freq\":{\"freq\":'' @ fmt_u (cmd_pwm_frequency m) @ ''}'' else []) @
     (if cmd_has_gpio_write m then '',\"write_gpio\":{\"dev\":\"'' @
        (if cmd_gpio_device_index m = 0 then ''mcp0'' else ''mcp1'') @
        ''\",\"port\":\"'' @ (if cmd_gpio_port m = 0 then ''A'' else ''B'') @ ''\",\"mask\":'' @ fmt_u (cmd_gpio_mask m) @
        '',\"value\":'' @ fmt_u (cmd_gpio_value m) @ ''}'' else []) @ ''}''"
    by (simp add: command_doc_def fmt_u_def join_texts_Cons dec_string_1)
  then show ?thesis
    by (cases "sz = 0") (simp_all only: encode_command_json_into_def command_appends if_True if_False, simp add: Let_def)
qed

lemma sht20_doc_text: "jdoc_text (sht20_doc e) = fmt_sht20 e"
  by (simp add: sht20_doc_def fmt_sht20_def join_texts_Cons)

lemma ds18b20_doc_text: "jdoc_text (ds18b20_doc e) = fmt_ds18b20 e"
  by (simp add: ds18b20_doc_def fmt_ds18b20_def join_texts_Cons)

lemma encode_sensor_update_json:
  "encode_sensor_update_json_into m sz =
     (let t = jdoc_text (sensor_update_doc m)
      in if length t < sz then Some (bytes_of t, proto_crc32 (bytes_of t)) else None)"
proof -
  have lists: "join_texts (map jdoc_text (map sht20_doc xs)) = joined fmt_sht20 True xs"
    "join_texts (map jdoc_text (map ds18b20_doc ys)) = joined fmt_ds18b20 True ys"
    "join_texts (map jdoc_text (map (\<lambda>d. JInt (unat d)) zs)) = joined fmt_u True zs" for xs ys and zs :: "u16 list"
    by (simp_all add: joined_join_texts sht20_doc_text ds18b20_doc_text fmt_u_def comp_def cong: map_cong)
  have "jdoc_text (sensor_update_doc m) =
     (''{\"v\":1,\"type\":\"sensor_update\",\"ts\":'' @ fmt_u (su_timestamp_ms m) @
          '',\"seq\":'' @ fmt_u (su_sequence_id m) @ '',\"sht20\":['') @
     joined fmt_sht20 True (take (su_sht20_count m) (su_sht20 m)) @ ''],\"ds18b20\":['' @
     joined fmt_ds18b20 True (take (su_ds18b20_count m) (su_ds18b20 m)) @
     (''],\"gpio\":{\"mcp0\":{\"A\":'' @ fmt_u (mcp_port_a (su_mcp m ! 0)) @
          '',\"B\":'' @ fmt_u (mcp_port_b (su_mcp m ! 0)) @ ''},\"mcp1\":{\"A\":'' @ fmt_u (mcp_port_a (su_mcp m ! 1)) @
          '',\"B\":'' @ fmt_u (mcp_port_b (su_mcp m ! 1)) @ ''}},\"pwm\":{\"pca9685\":{\"freq\":'' @
          fmt_u (pca_frequency_hz (su_pwm m)) @ '',\"duty\":['') @
     joined fmt_u True (pca_duty_cycle (su_pwm m)) @ '']}}}''"
    by (simp only: sensor_update_doc_def jdoc_text.simps list.map prod.case join_texts_Cons joined.simps lists jport_def id_apply if_False)
      (simp add: fmt_u_def dec_string_1)
  then show ?thesis
    by (cases "sz = 0") (simp_all only: encode_sensor_update_json_into_def update_appends if_True if_False, simp add: Let_def)
qed

section \<open>Reading a document\<close>

lemma jdoc_item_simps [simp]:
  "jdoc_item [] k = None"
  "jdoc_item ((k', d) # kvs) k = (if map lower_char k' = map lower_char k then Some d else jdoc_item kvs k)"
  by (simp_all add: jdoc_item_def)

lemma jdoc_item_append: "jdoc_item (kvs @ kvs') k = (case jdoc_item kvs k of None \<Rightarrow> jdoc_item kvs' k | Some d \<Rightarrow> Some d)"
  by (induction kvs) auto

abbreviation sees :: "'j cjson \<Rightarrow> (rat \<Rightarrow> rat) \<Rightarrow> jdoc option \<Rightarrow> 'j option \<Rightarrow> bool" where
  "sees cj dbl \<equiv> rel_option (denotes cj dbl)"

lemma sees_get: "sees cj dbl (Some (JObj kvs)) j \<Longrightarrow> sees cj dbl (jdoc_item kvs k) (js_get cj j k)"
  by (auto simp: js_get_def option_rel_Some1)

lemma sees_object: "sees cj dbl (Some (JObj kvs)) j \<Longrightarrow> js_object cj j" "sees cj dbl None j \<Longrightarrow> \<not> js_object cj j"
  by (auto simp: js_object_def option_rel_Some1)

lemma sees_num:
  "sees cj dbl (Some (JInt n)) j \<Longrightarrow> js_num cj j = Some (of_nat n)"
  "sees cj dbl (Some (JFix v)) j \<Longrightarrow> \<exists>r. v = Num r \<and> js_num cj j = Some (dbl (of_int (hundredths r) / 100))"
  by (auto simp: js_num_def option_rel_Some1)

lemma sees_string: "sees cj dbl (Some (JStr s)) j \<Longrightarrow> js_string cj j = Some s"
  by (auto simp: js_string_def option_rel_Some1)

lemma sees_children:
  "sees cj dbl (Some (JArr ds)) j \<Longrightarrow> list_all2 (denotes cj dbl) ds (js_children cj j)"
  by (auto simp: js_children_def option_rel_Some1)

lemma double_to_uint_unat [simp]: "double_to_uint cj (Some (unsigned w)) = (w :: 'a::len word)"
proof -
  have "\<lfloor>unsigned w :: rat\<rfloor> = uint w" by (metis floor_of_int of_int_uint)
  moreover have "\<not> (unsigned w :: rat) < 0" by (metis of_nat_0_le_iff of_nat_unat not_less)
  ultimately show ?thesis by (simp add: double_to_uint_def rat_trunc_def)
qed

lemma sees_uint:
  "sees cj dbl (Some (JObj kvs)) j \<Longrightarrow> jdoc_item kvs k = Some (JInt (unat w)) \<Longrightarrow>
   double_to_uint cj (js_num cj (js_get cj j k)) = (w :: 'a::len word)"
  using sees_get [of cj dbl kvs j k] sees_num(1) [of cj dbl "unat w" "js_get cj j k"] by (simp add: double_to_uint_unat)

lemma sees_float:
  "sees cj dbl (Some (JObj kvs)) j \<Longrightarrow> jdoc_item kvs k = Some (JFix v) \<Longrightarrow>
   double_to_float cj (js_num cj (js_get cj j k)) = wire_value cj dbl v"
  using sees_get [of cj dbl kvs j k] sees_num(2) [of cj dbl v "js_get cj j k"]
  by (auto simp: double_to_float_def wire_value_def)

lemma sees_str:
  "sees cj dbl (Some (JObj kvs)) j \<Longrightarrow> jdoc_item kvs k = Some (JStr s) \<Longrightarrow> js_string cj (js_get cj j k) = Some s"
  using sees_get [of cj dbl kvs j k] sees_string by simp

lemma js_object_None [simp]: "\<not> js_object cj None"
  by (simp add: js_object_def)

lemma decode_set_pwm_sees:
  assumes "sees cj dbl (Some (JObj [(''ch'', JInt (unat ch)), (''duty'', JInt (unat duty))])) x"
  shows "decode_set_pwm cj x c = c\<lparr>cmd_pwm_channel := ch, cmd_pwm_duty_cycle := duty, cmd_has_pwm_update := True\<rparr>"
proof -
  have "double_to_uint cj (js_num cj (js_get cj x ''ch'')) = ch"
    "double_to_uint cj (js_num cj (js_get cj x ''duty'')) = duty"
    by (rule sees_uint [OF assms], simp add: lower_char_def)+
  then show ?thesis by (simp add: decode_set_pwm_def sees_object(1) [OF assms])
qed

lemma decode_pwm_freq_sees:
  assumes "sees cj dbl (Some (JObj [(''freq'', JInt (unat f))])) x"
  shows "decode_pwm_freq cj x c = c\<lparr>cmd_pwm_frequency := f, cmd_has_pwm_frequency := True\<rparr>"
proof -
  have "double_to_uint cj (js_num cj (js_get cj x ''freq'')) = f"
    by (rule sees_uint [OF assms]) simp
  then show ?thesis by (simp add: decode_pwm_freq_def sees_object(1) [OF assms])
qed

lemma decode_write_gpio_sees:
  assumes "sees cj dbl (Some (JObj [(''dev'', JStr (if d then ''mcp0'' else ''mcp1'')),
    (''port'', JStr (if p then ''A'' else ''B'')), (''mask'', JInt (unat k)), (''value'', JInt (unat v))])) x"
  shows "decode_write_gpio cj x c = c\<lparr>cmd_gpio_device_index := if d then 0 else 1,
    cmd_gpio_port := if p then 0 else 1, cmd_gpio_mask := k, cmd_gpio_value := v, cmd_has_gpio_write := True\<rparr>"
proof -
  have "double_to_uint cj (js_num cj (js_get cj x ''mask'')) = k"
    "double_to_uint cj (js_num cj (js_get cj x ''value'')) = v"
    by (rule sees_uint [OF assms], simp add: lower_char_def)+
  moreover have "js_string cj (js_get cj x ''dev'') = Some (if d then ''mcp0'' else ''mcp1'')"
    "js_string cj (js_get cj x ''port'') = Some (if p then ''A'' else ''B'')"
    by (rule sees_str [OF assms], simp add: lower_char_def)+
  ultimately show ?thesis by (cases d; cases p; simp add: decode_write_gpio_def sees_object(1) [OF assms])
qed

text \<open>The same for a part that may be missing, as the lookup in the command's document gives it.\<close>

lemma sees_if:
  assumes "sees cj dbl (if b then Some d else None) x" "b \<Longrightarrow> sees cj dbl (Some d) x \<Longrightarrow> f x = u" "f None = v"
  shows "f x = (if b then u else v)"
  using assms by (cases b) auto

lemma command_decodes:
  assumes "denotes cj dbl (command_doc m) j"
  shows "decode_command_json cj j = command_norm m"
proof -
  obtain kvs where kvs: "command_doc m = JObj kvs" and lookup:
    "jdoc_item kvs ''ts'' = Some (JInt (unat (cmd_timestamp_ms m)))"
    "jdoc_item kvs ''seq'' = Some (JInt (unat (cmd_sequence_id m)))"
    "jdoc_item kvs ''set_pwm'' = (if cmd_has_pwm_update m then Some (JObj [(''ch'', JInt (unat (cmd_pwm_channel m))),
       (''duty'', JInt (unat (cmd_pwm_duty_cycle m)))]) else None)"
    "jdoc_item kvs ''pwm_freq'' = (if cmd_has_pwm_frequency m then Some (JObj [(''freq'', JInt (unat (cmd_pwm_frequency m)))]) else None)"
    "jdoc_item kvs ''write_gpio'' = (if cmd_has_gpio_write m then Some (JObj
            [(''dev'', JStr (if cmd_gpio_device_index m = 0 then ''mcp0'' else ''mcp1'')),
             (''port'', JStr (if cmd_gpio_port m = 0 then ''A'' else ''B'')),
             (''mask'', JInt (unat (cmd_gpio_mask m))), (''value'', JInt (unat (cmd_gpio_value m)))]) else None)"
    unfolding command_doc_def by (simp add: jdoc_item_append lower_char_def)
  have tree: "sees cj dbl (Some (JObj kvs)) (Some j)" using assms kvs by simp
  note got = sees_get [OF tree]
  have pwm: "decode_set_pwm cj (js_get cj (Some j) ''set_pwm'') c =
      (if cmd_has_pwm_update m then c\<lparr>cmd_pwm_channel := cmd_pwm_channel m, cmd_pwm_duty_cycle := cmd_pwm_duty_cycle m,
         cmd_has_pwm_update := True\<rparr> else c)" for c
    by (rule sees_if [OF got [of "''set_pwm''", unfolded lookup], of "\<lambda>x. decode_set_pwm cj x c"])
      (erule decode_set_pwm_sees, simp add: decode_set_pwm_def)
  have freq: "decode_pwm_freq cj (js_get cj (Some j) ''pwm_freq'') c =
      (if cmd_has_pwm_frequency m then c\<lparr>cmd_pwm_frequency := cmd_pwm_frequency m, cmd_has_pwm_frequency := True\<rparr> else c)" for c
    by (rule sees_if [OF got [of "''pwm_freq''", unfolded lookup], of "\<lambda>x. decode_pwm_freq cj x c"])
      (erule decode_pwm_freq_sees, simp add: decode_pwm_freq_def)
  have gpio: "decode_write_gpio cj (js_get cj (Some j) ''write_gpio'') c =
      (if cmd_has_gpio_write m then c\<lparr>cmd_gpio_device_index := if cmd_gpio_device_index m = 0 then 0 else 1,
         cmd_gpio_port := if cmd_gpio_port m = 0 then 0 else 1, cmd_gpio_mask := cmd_gpio_mask m,
         cmd_gpio_value := cmd_gpio_value m, cmd_has_gpio_write := True\<rparr> else c)" for c
    by (rule sees_if [OF got [of "''write_gpio''", unfolded lookup], of "\<lambda>x. decode_write_gpio cj x c"])
      (erule decode_write_gpio_sees, simp add: decode_write_gpio_def)
  show ?thesis
    using lookup(1,2) [THEN sees_uint [OF tree]]
    by (simp add: decode_command_json_def pwm freq gpio command_norm_def zero_command_def)
qed

text \<open>The ROM code of a DS18B20 sensor survives its hexadecimal form.\<close>

lemma hex_upper_facts:
  assumes "n < 16"
  shows "hex_char_value (hex_upper n) = Some n" "hex_upper n \<notin> set ''+-xX''" "plain_char (hex_upper n)"
    "of_char (hex_upper n) \<notin> {32, 9, 10, 11, 12, 13 :: nat}"
proof -
  have "\<forall>n \<in> set [0..<16]. hex_char_value (hex_upper n) = Some n \<and> hex_upper n \<notin> set ''+-xX'' \<and>
     plain_char (hex_upper n) \<and> of_char (hex_upper n) \<notin> {32, 9, 10, 11, 12, 13 :: nat}"
    by code_simp
  with assms show "hex_char_value (hex_upper n) = Some n" "hex_upper n \<notin> set ''+-xX''" "plain_char (hex_upper n)"
    "of_char (hex_upper n) \<notin> {32, 9, 10, 11, 12, 13 :: nat}"
    using atLeastLessThan_iff [of n 0 16] set_upt [of 0 16] by blast+
qed

lemma unat_u8_less: "unat (b :: u8) < 256"
  using unsigned_less [of b] by simp

lemma ucast_u32_u8 [simp]: "ucast (ucast (b :: u8) :: u32) = b"
  by (rule bit_word_eqI) (simp add: bit_unsigned_iff)

lemma sscanf_hex_pair:
  assumes "a < 16" "b < 16"
  shows "sscanf_02X (hex_upper a # hex_upper b # t) = Some (of_nat (a * 16 + b))"
  using hex_upper_facts(1,2,4) [OF assms(1)] hex_upper_facts(1,2) [OF assms(2)]
  by (simp add: sscanf_02X_def Let_def numeral_2_eq_2)

lemma unat_byte_nibbles: "of_nat (unat b div 16 * 16 + unat b mod 16) = (ucast (b :: u8) :: u32)"
  by (metis div_mult_mod_eq of_nat_unat)

lemma fmt_rom_Cons [simp]: "fmt_rom [] = []" "fmt_rom (b # bs) = fmt_02X b @ fmt_rom bs"
  by (simp_all add: fmt_rom_def)

lemma length_fmt_rom [simp]: "length (fmt_rom bs) = 2 * length bs"
  by (induction bs) (auto simp: fmt_02X_def)

lemma sscanf_fmt_rom: "sscanf_02X (fmt_rom (b # bs)) = Some (ucast b)"
  using sscanf_hex_pair [of "unat b div 16" "unat b mod 16" "fmt_rom bs"] unat_byte_nibbles [of b] unat_u8_less [of b]
  by (simp add: fmt_02X_def)

lemma drop_fmt_rom: "drop (i * 2) (fmt_rom bs) = fmt_rom (drop i bs)"
proof (induction i arbitrary: bs)
  case (Suc i)
  then show ?case by (cases bs) (auto simp: fmt_02X_def)
qed simp

lemma parse_rom_loop_fmt:
  "i + n = length bs \<Longrightarrow> length out = length bs \<Longrightarrow> take i out = take i bs \<Longrightarrow>
   parse_rom_loop n i (fmt_rom bs) out = (True, bs)"
proof (induction n arbitrary: i out)
  case (Suc n)
  then have i: "i < length bs" by simp
  have "sscanf_02X (drop (i * 2) (fmt_rom bs)) = Some (ucast (bs ! i))"
    using sscanf_fmt_rom [of "bs ! i" "drop (Suc i) bs"] Cons_nth_drop_Suc [OF i] by (simp add: drop_fmt_rom)
  moreover have "take (Suc i) (out[i := bs ! i]) = take (Suc i) bs"
    using Suc.prems i by (simp add: take_Suc_conv_app_nth)
  ultimately show ?case using Suc.IH [of "Suc i" "out[i := bs ! i]"] Suc.prems i by simp
qed simp

lemma parse_rom_fmt: "length rom = 8 \<Longrightarrow> length out = 8 \<Longrightarrow> parse_rom (fmt_rom rom) out = (True, rom)"
  by (simp add: parse_rom_def parse_rom_loop_fmt)

lemma plain_fmt_rom: "list_all plain_char (fmt_rom rom)"
proof (induction rom)
  case (Cons b bs)
  have "unat b div 16 < 16" "unat b mod 16 < 16" using unat_u8_less [of b] by auto
  then show ?case using Cons by (simp add: fmt_02X_def hex_upper_facts(3))
qed simp

section \<open>The decoded update\<close>

lemma decode_items_eq:
  "idx + length js \<le> cap \<Longrightarrow> length es = cap \<Longrightarrow>
   decode_items f cap idx js es =
     (idx + length js, take idx es @ map2 f js (take (length js) (drop idx es)) @ drop (idx + length js) es)"
proof (induction js arbitrary: idx es)
  case (Cons j js)
  then have "idx < length es" by simp
  then have "drop idx es = es ! idx # drop (Suc idx) es" by (simp add: Cons_nth_drop_Suc)
  moreover have "take (Suc idx) (es[idx := f j (es ! idx)]) = take idx es @ [f j (es ! idx)]"
    using \<open>idx < length es\<close> by (simp add: take_Suc_conv_app_nth)
  ultimately show ?case using Cons by simp
qed simp

lemma decode_items_replicate:
  assumes "length js \<le> cap"
  shows "decode_items f cap 0 js (replicate cap z) =
    (length js, map (\<lambda>j. f j z) js @ replicate (cap - length js) z)"
proof -
  have "map2 f js (replicate (length js) z) = map (\<lambda>j. f j z) js" by (induction js) auto
  then show ?thesis using assms by (simp add: decode_items_eq min_absorb1)
qed

lemma list_all2_map_eq:
  assumes "list_all2 P (map g xs) ys" "\<And>x y. x \<in> set xs \<Longrightarrow> P (g x) y \<Longrightarrow> h y = k x"
  shows "map h ys = map k xs"
  using assms by (induction xs arbitrary: ys) (auto simp: list_all2_Cons1)

lemma decode_sht20_doc:
  assumes "denotes cj dbl (sht20_doc e) j" "length (sht_id e) < 16"
  shows "decode_sht20_item cj j zero_sht20 =
    e\<lparr>sht_temperature_c := wire_value cj dbl (sht_temperature_c e),
      sht_humidity_percent := wire_value cj dbl (sht_humidity_percent e)\<rparr>"
proof -
  have item: "sees cj dbl (Some (JObj [(''id'', JStr (sht_id e)), (''t'', JFix (sht_temperature_c e)),
     (''rh'', JFix (sht_humidity_percent e)), (''ok'', JBool (sht_valid e))])) (Some j)"
    using assms(1) by (simp add: sht20_doc_def)
  have "js_string cj (js_get cj (Some j) ''id'') = Some (sht_id e)"
    by (rule sees_str [OF item]) simp
  moreover have "double_to_float cj (js_num cj (js_get cj (Some j) ''t'')) = wire_value cj dbl (sht_temperature_c e)"
    "double_to_float cj (js_num cj (js_get cj (Some j) ''rh'')) = wire_value cj dbl (sht_humidity_percent e)"
    by (rule sees_float [OF item], simp add: lower_char_def)+
  moreover have "sees cj dbl (Some (JBool (sht_valid e))) (js_get cj (Some j) ''ok'')"
    using sees_get [OF item, of "''ok''"] by (simp add: lower_char_def)
  ultimately show ?thesis using assms(2)
    by (auto simp: decode_sht20_item_def zero_sht20_def option_rel_Some1)
qed

lemma decode_ds18b20_doc:
  assumes "denotes cj dbl (ds18b20_doc e) j" "length (ds_rom_code e) = 8"
  shows "decode_ds18b20_item cj j zero_ds18b20 = e\<lparr>ds_temperature_c := wire_value cj dbl (ds_temperature_c e)\<rparr>"
proof -
  have item: "sees cj dbl (Some (JObj [(''rom'', JStr (fmt_rom (ds_rom_code e))), (''t'', JFix (ds_temperature_c e))])) (Some j)"
    using assms(1) by (simp add: ds18b20_doc_def)
  have "js_string cj (js_get cj (Some j) ''rom'') = Some (fmt_rom (ds_rom_code e))"
    by (rule sees_str [OF item]) simp
  moreover have "double_to_float cj (js_num cj (js_get cj (Some j) ''t'')) = wire_value cj dbl (ds_temperature_c e)"
    by (rule sees_float [OF item], simp add: lower_char_def)
  ultimately show ?thesis using assms(2) by (simp add: decode_ds18b20_item_def zero_ds18b20_def parse_rom_fmt)
qed

lemma decode_mcp_sees:
  assumes "sees cj dbl (Some (jport a b)) x"
  shows "decode_mcp cj x e = \<lparr>mcp_port_a = a, mcp_port_b = b\<rparr>"
proof -
  note item = assms [unfolded jport_def]
  have "double_to_uint cj (js_num cj (js_get cj x ''A'')) = a" "double_to_uint cj (js_num cj (js_get cj x ''B'')) = b"
    by (rule sees_uint [OF item], simp add: lower_char_def)+
  then show ?thesis by (simp add: decode_mcp_def sees_object(1) [OF item])
qed

lemma decode_gpio_sees:
  assumes "sees cj dbl (Some (JObj [(''mcp0'', jport a0 b0), (''mcp1'', jport a1 b1)])) x"
  shows "decode_gpio cj x [e0, e1] = [\<lparr>mcp_port_a = a0, mcp_port_b = b0\<rparr>, \<lparr>mcp_port_a = a1, mcp_port_b = b1\<rparr>]"
proof -
  have "sees cj dbl (Some (jport a0 b0)) (js_get cj x ''mcp0'')" "sees cj dbl (Some (jport a1 b1)) (js_get cj x ''mcp1'')"
    using sees_get [OF assms, of "''mcp0''"] sees_get [OF assms, of "''mcp1''"] by (simp_all add: lower_char_def)
  then show ?thesis by (simp add: decode_gpio_def sees_object(1) [OF assms] decode_mcp_sees)
qed

lemma decode_pwm_sees:
  assumes "sees cj dbl (Some (JObj [(''pca9685'', JObj [(''freq'', JInt (unat f)),
       (''duty'', JArr (map (\<lambda>d. JInt (unat d)) ds))])])) x" "length ds = 16" "pca_duty_cycle e = replicate 16 0"
  shows "decode_pwm cj x e = \<lparr>pca_frequency_hz = f, pca_duty_cycle = ds\<rparr>"
proof -
  have pca: "sees cj dbl (Some (JObj [(''freq'', JInt (unat f)), (''duty'', JArr (map (\<lambda>d. JInt (unat d)) ds))]))
      (js_get cj x ''pca9685'')"
    using sees_get [OF assms(1), of "''pca9685''"] by simp
  have "double_to_uint cj (js_num cj (js_get cj (js_get cj x ''pca9685'') ''freq'')) = f"
    by (rule sees_uint [OF pca]) simp
  moreover have items: "list_all2 (denotes cj dbl) (map (\<lambda>d. JInt (unat d)) ds)
      (js_children cj (js_get cj (js_get cj x ''pca9685'') ''duty''))" (is "list_all2 _ _ ?js")
    using sees_get [OF pca, of "''duty''"] by (intro sees_children) (simp add: lower_char_def)
  moreover have "map (\<lambda>n. double_to_uint cj (js_num cj (Some n))) ?js = map id ds"
    by (rule list_all2_map_eq [OF items]) (simp add: js_num_def)
  moreover have "length ?js = 16" using list_all2_lengthD [OF items] assms(2) by simp
  ultimately show ?thesis
    using assms(3) by (simp add: decode_pwm_def Let_def sees_object(1) [OF assms(1)] sees_object(1) [OF pca] decode_items_replicate)
qed

lemma sensor_update_decodes:
  assumes "denotes cj dbl (sensor_update_doc m) j" "sensor_update_wf m"
  shows "decode_sensor_update_json cj j = sensor_update_norm cj dbl m"
proof -
  obtain kvs where kvs: "sensor_update_doc m = JObj kvs" and lookup:
    "jdoc_item kvs ''ts'' = Some (JInt (unat (su_timestamp_ms m)))"
    "jdoc_item kvs ''seq'' = Some (JInt (unat (su_sequence_id m)))"
    "jdoc_item kvs ''sht20'' = Some (JArr (map sht20_doc (take (su_sht20_count m) (su_sht20 m))))"
    "jdoc_item kvs ''ds18b20'' = Some (JArr (map ds18b20_doc (take (su_ds18b20_count m) (su_ds18b20 m))))"
    "jdoc_item kvs ''gpio'' = Some (JObj [(''mcp0'', jport (mcp_port_a (su_mcp m ! 0)) (mcp_port_b (su_mcp m ! 0))),
       (''mcp1'', jport (mcp_port_a (su_mcp m ! 1)) (mcp_port_b (su_mcp m ! 1)))])"
    "jdoc_item kvs ''pwm'' = Some (JObj [(''pca9685'', JObj [(''freq'', JInt (unat (pca_frequency_hz (su_pwm m)))),
       (''duty'', JArr (map (\<lambda>d. JInt (unat d)) (pca_duty_cycle (su_pwm m))))])])"
    unfolding sensor_update_doc_def by (simp add: lower_char_def)
  have tree: "sees cj dbl (Some (JObj kvs)) (Some j)" using assms(1) kvs by simp
  note got = sees_get [OF tree]
  note wf = assms(2) [unfolded sensor_update_wf_def]
  let ?sht = "take (su_sht20_count m) (su_sht20 m)" and ?ds = "take (su_ds18b20_count m) (su_ds18b20 m)"
  have sht: "list_all2 (denotes cj dbl) (map sht20_doc ?sht) (js_children cj (js_get cj (Some j) ''sht20''))" (is "list_all2 _ _ ?s")
    using got [of "''sht20''"] by (intro sees_children) (simp add: lookup)
  have ds: "list_all2 (denotes cj dbl) (map ds18b20_doc ?ds) (js_children cj (js_get cj (Some j) ''ds18b20''))" (is "list_all2 _ _ ?d")
    using got [of "''ds18b20''"] by (intro sees_children) (simp add: lookup)
  have sht_map: "map (\<lambda>n. decode_sht20_item cj n zero_sht20) ?s = map (\<lambda>e. e\<lparr>sht_temperature_c := wire_value cj dbl (sht_temperature_c e),
      sht_humidity_percent := wire_value cj dbl (sht_humidity_percent e)\<rparr>) ?sht"
    using wf by (intro list_all2_map_eq [OF sht] decode_sht20_doc) (auto dest: in_set_takeD)
  have ds_map: "map (\<lambda>n. decode_ds18b20_item cj n zero_ds18b20) ?d =
      map (\<lambda>e. e\<lparr>ds_temperature_c := wire_value cj dbl (ds_temperature_c e)\<rparr>) ?ds"
    using wf by (intro list_all2_map_eq [OF ds] decode_ds18b20_doc) (auto dest: in_set_takeD)
  have len: "length ?s = su_sht20_count m" "length ?d = su_ds18b20_count m"
    using list_all2_lengthD [OF sht] list_all2_lengthD [OF ds] wf by auto
  have gpio: "decode_gpio cj (js_get cj (Some j) ''gpio'') (replicate 2 zero_mcp) = su_mcp m"
    using decode_gpio_sees [OF got [of "''gpio''", unfolded lookup]] wf
    by (auto simp: numeral_2_eq_2 length_Suc_conv)
  have pwm: "decode_pwm cj (js_get cj (Some j) ''pwm'') (su_pwm zero_sensor_update) = su_pwm m"
    using decode_pwm_sees [OF got [of "''pwm''", unfolded lookup]] wf by (simp add: zero_sensor_update_def)
  show ?thesis
    using wf lookup(1,2) [THEN sees_uint [OF tree]] gpio pwm
    by (simp add: decode_sensor_update_json_def zero_sensor_update_def decode_items_replicate len sht_map ds_map
        sensor_update_norm_def)
qed

lemma floor_half_even: "\<bar>of_int (round_half_even r) - r\<bar> \<le> 1 / 2"
proof -
  define f where "f = \<lfloor>r\<rfloor>"
  have "of_int f \<le> r" "r < of_int f + 1" unfolding f_def by linarith+
  then show ?thesis unfolding round_half_even_def Let_def f_def [symmetric] abs_le_iff
    by (auto simp: field_simps)
qed

lemma hundredths_close: "\<bar>of_int (hundredths r) / 100 - r\<bar> \<le> 1 / 200"
proof -
  have "\<bar>of_int (hundredths r) - r * 100\<bar> \<le> 1 / 2"
    using floor_half_even [of "r * 100"] floor_half_even [of "- r * 100"]
    unfolding hundredths_def abs_le_iff by (auto simp: field_simps)
  then show ?thesis unfolding abs_le_iff by (simp add: field_simps)
qed

section \<open>Sizes\<close>

lemma fmt_u_lengths:
  "length (fmt_u (a :: u8)) \<le> 3" "length (fmt_u (b :: u16)) \<le> 5" "length (fmt_u (c :: u32)) \<le> 10"
proof -
  have "unat a < 10 ^ 3" "unat b < 10 ^ 5" "unat c < 10 ^ 10"
    using unsigned_less [of a, where 'a = nat] unsigned_less [of b, where 'a = nat] unsigned_less [of c, where 'a = nat]
    by simp_all
  then show "length (fmt_u a) \<le> 3" "length (fmt_u b) \<le> 5" "length (fmt_u c) \<le> 10"
    unfolding fmt_u_def by (auto intro: length_dec_string)
qed

lemma command_text_length: "length (jdoc_text (command_doc m)) < 512"
  using fmt_u_lengths(3) [of "cmd_timestamp_ms m"] fmt_u_lengths(3) [of "cmd_sequence_id m"]
    fmt_u_lengths(1) [of "cmd_pwm_channel m"] fmt_u_lengths(2) [of "cmd_pwm_duty_cycle m"]
    fmt_u_lengths(2) [of "cmd_pwm_frequency m"] fmt_u_lengths(2) [of "cmd_gpio_mask m"] fmt_u_lengths(2) [of "cmd_gpio_value m"]
  by (simp add: command_doc_def join_texts_Cons fmt_u_def dec_string_1)

text \<open>An update whose readings are NaN or stay below a million fits 1024 bytes.\<close>

definition float_below :: "rat \<Rightarrow> c_float \<Rightarrow> bool" where
  "float_below b v \<longleftrightarrow> (case v of Num r \<Rightarrow> \<bar>r\<bar> < b | NaN \<Rightarrow> True)"

definition readings_below :: "rat \<Rightarrow> proto_sensor_update_t \<Rightarrow> bool" where
  "readings_below b m \<longleftrightarrow>
     (\<forall>e \<in> set (su_sht20 m). float_below b (sht_temperature_c e) \<and> float_below b (sht_humidity_percent e)) \<and>
     (\<forall>e \<in> set (su_ds18b20 m). float_below b (ds_temperature_c e))"

lemma fmt_hundredths_length:
  assumes "\<bar>r\<bar> < 10 ^ 6"
  shows "length (fmt_hundredths r) \<le> 11"
proof -
  let ?h = "nat \<bar>hundredths r\<bar>"
  have "\<bar>of_int (hundredths r) :: rat\<bar> < of_int (10 ^ 9)"
    using hundredths_close [of r] assms unfolding abs_le_iff abs_less_iff by (simp add: field_simps)
  then have "\<bar>hundredths r\<bar> < 10 ^ 9" by (metis of_int_abs of_int_less_iff)
  then have "?h div 100 < 10 ^ 7" by (simp add: nat_less_iff div_less_iff_less_mult)
  then have "length (dec_string (?h div 100)) \<le> 7" by (intro length_dec_string) auto
  moreover have "length (dec_padded 2 (?h mod 100)) = 2" by (rule length_dec_padded) auto
  ultimately show ?thesis by (simp add: fmt_hundredths_def Let_def)
qed

lemma fmt_2f_length: "float_below (10 ^ 6) v \<Longrightarrow> length (fmt_2f v) \<le> 11"
  using fmt_hundredths_length by (simp add: float_below_def fmt_2f_def split: c_float.splits)

lemma length_joined: "\<forall>x \<in> set xs. length (fmt x) \<le> b \<Longrightarrow> length (joined fmt first xs) \<le> length xs * (b + 1)"
proof (induction xs arbitrary: first)
  case (Cons x xs)
  then have "length (joined fmt False xs) \<le> length xs * (b + 1)" "length (fmt x) \<le> b" by auto
  then show ?case by (simp split: if_split)
qed simp

lemma update_text_length:
  assumes "sensor_update_wf m" "readings_below (10 ^ 6) m"
  shows "length (jdoc_text (sensor_update_doc m)) < 1024"
proof -
  let ?sht = "take (su_sht20_count m) (su_sht20 m)" and ?ds = "take (su_ds18b20_count m) (su_ds18b20 m)"
  note wf = assms(1) [unfolded sensor_update_wf_def] and below = assms(2) [unfolded readings_below_def]
  have "length (jdoc_text (sht20_doc e)) \<le> 70" if "e \<in> set ?sht" for e
  proof -
    have e: "e \<in> set (su_sht20 m)" using that by (rule in_set_takeD)
    then have "length (fmt_2f (sht_temperature_c e)) \<le> 11" "length (fmt_2f (sht_humidity_percent e)) \<le> 11" "length (sht_id e) < 16"
      using below wf by (auto intro!: fmt_2f_length)
    then show ?thesis by (simp add: sht20_doc_text fmt_sht20_def)
  qed
  then have "length (joined jdoc_text True (map sht20_doc ?sht)) \<le> length ?sht * 71"
    (is "?a \<le> _") using length_joined [of "map sht20_doc ?sht" jdoc_text 70 True] by simp
  moreover have "length (jdoc_text (ds18b20_doc e)) \<le> 45" if "e \<in> set ?ds" for e
  proof -
    have e: "e \<in> set (su_ds18b20 m)" using that by (rule in_set_takeD)
    then have "length (fmt_2f (ds_temperature_c e)) \<le> 11" "length (ds_rom_code e) = 8"
      using below wf by (auto intro!: fmt_2f_length)
    then show ?thesis by (simp add: ds18b20_doc_text fmt_ds18b20_def)
  qed
  then have "length (joined jdoc_text True (map ds18b20_doc ?ds)) \<le> length ?ds * 46"
    (is "?b \<le> _") using length_joined [of "map ds18b20_doc ?ds" jdoc_text 45 True] by simp
  moreover have "length (joined jdoc_text True (map (\<lambda>d. JInt (unat d)) (pca_duty_cycle (su_pwm m)))) \<le> 16 * 6"
    (is "?c \<le> _") using length_joined [of "map (\<lambda>d. JInt (unat d)) (pca_duty_cycle (su_pwm m))" jdoc_text 5 True] wf fmt_u_lengths(2)
    by (auto simp: fmt_u_def)
  moreover have "length ?sht * 71 \<le> 142" "length ?ds * 46 \<le> 184" using wf by auto
  ultimately have "?a \<le> 142" "?b \<le> 184" "?c \<le> 96" by linarith+
  then show ?thesis
    using fmt_u_lengths(3) [of "su_timestamp_ms m"] fmt_u_lengths(3) [of "su_sequence_id m"]
      fmt_u_lengths(2) [of "mcp_port_a (su_mcp m ! 0)"] fmt_u_lengths(2) [of "mcp_port_b (su_mcp m ! 0)"]
      fmt_u_lengths(2) [of "mcp_port_a (su_mcp m ! 1)"] fmt_u_lengths(2) [of "mcp_port_b (su_mcp m ! 1)"]
      fmt_u_lengths(2) [of "pca_frequency_hz (su_pwm m)"]
    by (simp add: sensor_update_doc_def jport_def join_texts_Cons fmt_u_def dec_string_1 joined_join_texts [symmetric] del: map_map)
qed

section \<open>A cJSON over documents\<close>

text \<open>
  An instance of the cJSON record whose nodes are documents and whose parser knows the texts of
  a list of documents. It reads every document of the list, and refuses those with a NaN.
\<close>

definition doc_cjson :: "jdoc list \<Rightarrow> jdoc cjson" where
  "doc_cjson docs =
     \<lparr>cj_parse = (\<lambda>p. find (\<lambda>d. jdoc_numbers d \<and> bytes_of (jdoc_text d) = p) docs),
      cj_item = (\<lambda>d k. case d of JObj kvs \<Rightarrow> jdoc_item kvs k | _ \<Rightarrow> None),
      cj_number = (\<lambda>d. case d of JInt n \<Rightarrow> Some (of_nat n) | JFix (Num r) \<Rightarrow> Some (of_int (hundredths r) / 100) | _ \<Rightarrow> None),
      cj_string = (\<lambda>d. case d of JStr s \<Rightarrow> Some s | _ \<Rightarrow> None),
      cj_is_object = (\<lambda>d. case d of JObj _ \<Rightarrow> True | _ \<Rightarrow> False),
      cj_is_array = (\<lambda>d. case d of JArr _ \<Rightarrow> True | _ \<Rightarrow> False),
      cj_is_true = (\<lambda>d. case d of JBool b \<Rightarrow> b | _ \<Rightarrow> False),
      cj_children = (\<lambda>d. case d of JArr ds \<Rightarrow> ds | _ \<Rightarrow> []),
      cj_undef = (\<lambda>_. 0), cj_fl = (\<lambda>r. r)\<rparr>"

lemma jdoc_item_mem: "jdoc_item kvs k = Some d \<Longrightarrow> \<exists>k'. (k', d) \<in> set kvs"
  by (induction kvs) (auto split: if_splits)

lemma denotes_doc: "jdoc_numbers d \<Longrightarrow> denotes (doc_cjson docs) (\<lambda>r. r) d d"
proof (induction d)
  case (JFix v)
  then show ?case by (cases v) (auto simp: doc_cjson_def)
next
  case (JObj kvs)
  then show ?case
    by (fastforce simp: doc_cjson_def rel_option_iff list_all_iff split: option.splits dest!: jdoc_item_mem)
qed (auto simp: doc_cjson_def list_all2_same list_all_iff)

lemma doc_cjson_reads: "cjson_reads (doc_cjson [d]) (\<lambda>r. r) d"
  using denotes_doc [of d "[d]"] by (simp add: cjson_reads_def doc_cjson_def)

definition demo_command :: proto_command_t where
  "demo_command = zero_command\<lparr>cmd_timestamp_ms := 1500, cmd_sequence_id := 7, cmd_has_pwm_update := True,
     cmd_pwm_channel := 3, cmd_pwm_duty_cycle := 4095, cmd_has_gpio_write := True, cmd_gpio_device_index := 2,
     cmd_gpio_mask := 0x00FF, cmd_gpio_value := 0x0001\<rparr>"

definition demo_update :: proto_sensor_update_t where
  "demo_update = zero_sensor_update\<lparr>su_timestamp_ms := 20000, su_sequence_id := 2, su_sht20_count := 1,
     su_sht20 := [\<lparr>sht_id = ''SHT20_1'', sht_temperature_c = Num 21.5, sht_humidity_percent = Num 40.125, sht_valid = True\<rparr>, zero_sht20],
     su_ds18b20_count := 1,
     su_ds18b20 := \<lparr>ds_rom_code = [0x28, 0xFF, 0, 1, 2, 3, 4, 0x9A], ds_temperature_c = Num (- 0.0625)\<rparr> # replicate 3 zero_ds18b20\<rparr>"

section \<open>The codec\<close>

definition PROTO_MAX_COMMAND_SIZE :: nat where
  "PROTO_MAX_COMMAND_SIZE = 512"

lemma command_decode_encoded:
  assumes "cjson_reads cj dbl (command_doc m)"
  shows "\<exists>p crc. encode_command_json_into m PROTO_MAX_COMMAND_SIZE = Some (p, crc) \<and> length p < PROTO_MAX_COMMAND_SIZE \<and>
    proto_decode_command_json cj p crc = Some (command_norm m)"
proof -
  have "jdoc_plain (command_doc m)" "jdoc_numbers (command_doc m)" by (simp_all add: command_doc_def plain_char_def)
  then obtain j where "cj_parse cj (bytes_of (jdoc_text (command_doc m))) = Some j" "denotes cj dbl (command_doc m) j"
    using assms by (auto simp: cjson_reads_def)
  then show ?thesis using command_text_length [of m]
    by (simp add: encode_command_json PROTO_MAX_COMMAND_SIZE_def Let_def proto_decode_command_json_def crc_ok_def command_decodes)
qed

text \<open>
  C19. Commands survive the link. Every command is encoded within the \<^verbatim>\<open>PROTO_MAX_COMMAND_SIZE\<close>
  buffer of its sender, and decoding the payload with its checksum gives the command back, with
  the parts it does not carry zero. Of the device index and of the port only whether they are 0
  is sent: every other value, 2 or more included, comes back as 1.
\<close>

theorem command_json_roundtrip:
  assumes "cjson_reads cj dbl (command_doc m)"
  shows "\<exists>p crc. encode_command_json_into m PROTO_MAX_COMMAND_SIZE = Some (p, crc) \<and> length p < PROTO_MAX_COMMAND_SIZE \<and>
    proto_decode_command_json cj p crc = Some (command_norm m)"
  using assms by (rule command_decode_encoded)

theorem command_json_roundtrip_witness:
  "\<exists>p crc. encode_command_json_into demo_command PROTO_MAX_COMMAND_SIZE = Some (p, crc) \<and> length p < PROTO_MAX_COMMAND_SIZE \<and>
    proto_decode_command_json (doc_cjson [command_doc demo_command]) p crc = Some (demo_command\<lparr>cmd_gpio_device_index := 1\<rparr>)"
  using command_json_roundtrip [OF doc_cjson_reads, of demo_command]
  by (simp add: command_norm_def demo_command_def zero_command_def)

text \<open>
  The command of \<^verbatim>\<open>common/proto/tests/test_messages.c\<close>, whose initialiser sets \<^verbatim>\<open>port\<close> to 1 and
  then to 0. C keeps the last value, so the command is decoded with port 0, where the test
  expects 1.
\<close>

definition test_command :: proto_command_t where
  "test_command = \<lparr>cmd_timestamp_ms = 4321, cmd_sequence_id = 7, cmd_has_pwm_update = True, cmd_pwm_channel = 2,
     cmd_pwm_duty_cycle = 2048, cmd_has_pwm_frequency = True, cmd_pwm_frequency = 800, cmd_has_gpio_write = True,
     cmd_gpio_device_index = 1, cmd_gpio_port = 0, cmd_gpio_mask = 0x03, cmd_gpio_value = 0x02\<rparr>"

lemma test_command_has_port_0:
  assumes "cjson_reads cj dbl (command_doc test_command)"
  shows "\<exists>p crc m. encode_command_json_into test_command PROTO_MAX_COMMAND_SIZE = Some (p, crc) \<and>
    proto_decode_command_json cj p crc = Some m \<and> cmd_gpio_port m = 0"
  using command_decode_encoded [OF assms] by (auto simp: command_norm_def test_command_def)

lemma update_numbers: "jdoc_numbers (sensor_update_doc m) \<longleftrightarrow> readings_are_numbers m"
  by (auto simp: sensor_update_doc_def sht20_doc_def ds18b20_doc_def jport_def readings_are_numbers_def list_all_iff)

lemma sensor_update_decode_encoded:
  assumes "cjson_reads cj dbl (sensor_update_doc m)" "sensor_update_wf m" "\<forall>e \<in> set (su_sht20 m). list_all plain_char (sht_id e)"
    and "encode_sensor_update_json_into m sz = Some (p, crc)"
  shows "proto_decode_sensor_update_json cj p crc =
    (if readings_are_numbers m then Some (sensor_update_norm cj dbl m) else None)"
proof -
  have p: "p = bytes_of (jdoc_text (sensor_update_doc m))" "crc = proto_crc32 p"
    using assms(4) by (auto simp: encode_sensor_update_json Let_def split: if_splits)
  have "list_all plain_char ''vtypesecudhBA1rmon_lgi02fq985wakb6''" by (simp add: plain_char_def)
  then have plain: "jdoc_plain (sensor_update_doc m)"
    using assms(3) plain_fmt_rom
    by (auto simp: sensor_update_doc_def sht20_doc_def ds18b20_doc_def jport_def comp_def list_all_iff dest!: in_set_takeD)
  show ?thesis
  proof (cases "readings_are_numbers m")
    case True
    then obtain j where "cj_parse cj p = Some j" "denotes cj dbl (sensor_update_doc m) j"
      using assms(1) p plain by (auto simp: cjson_reads_def update_numbers)
    then show ?thesis
      using assms(2) p True by (simp add: proto_decode_sensor_update_json_def crc_ok_def sensor_update_decodes)
  next
    case False
    then have "cj_parse cj p = None" using assms(1) p plain by (auto simp: cjson_reads_def update_numbers)
    then show ?thesis using p False by (simp add: proto_decode_sensor_update_json_def crc_ok_def)
  qed
qed

text \<open>
  C20. Sensor updates survive the link, unless a reading is NaN. When an update with plain
  identifiers is encoded into a buffer and all readings are numbers, decoding the payload gives
  back every field; a measured value comes back as the \<^verbatim>\<open>float\<close> nearest to a decimal at most
  0.005 away from it. When a reading that is sent is NaN, nothing is decoded.
\<close>

theorem sensor_update_json_roundtrip:
  assumes "cjson_reads cj dbl (sensor_update_doc m)" "sensor_update_wf m" "\<forall>e \<in> set (su_sht20 m). list_all plain_char (sht_id e)"
    and "encode_sensor_update_json_into m sz = Some (p, crc)"
  shows "length p < sz \<and> proto_decode_sensor_update_json cj p crc =
      (if readings_are_numbers m then Some (sensor_update_norm cj dbl m) else None) \<and>
    (\<forall>t. \<exists>d. wire_value cj dbl (Num t) = Num (cj_fl cj (dbl d)) \<and> \<bar>d - t\<bar> \<le> 1 / 200)"
proof -
  have "length p < sz" using assms(4) by (auto simp: encode_sensor_update_json Let_def split: if_splits)
  moreover have "\<exists>d. wire_value cj dbl (Num t) = Num (cj_fl cj (dbl d)) \<and> \<bar>d - t\<bar> \<le> 1 / 200" for t
    using hundredths_close [of t] by (auto simp: wire_value_def)
  ultimately show ?thesis using sensor_update_decode_encoded [OF assms] by blast
qed

theorem sensor_update_json_roundtrip_witness:
  "\<exists>sz p crc. encode_sensor_update_json_into demo_update sz = Some (p, crc) \<and>
    proto_decode_sensor_update_json (doc_cjson [sensor_update_doc demo_update]) p crc =
      Some (demo_update\<lparr>su_sht20 := [\<lparr>sht_id = ''SHT20_1'', sht_temperature_c = Num 21.5, sht_humidity_percent = Num 40.12,
        sht_valid = True\<rparr>, zero_sht20],
        su_ds18b20 := \<lparr>ds_rom_code = [0x28, 0xFF, 0, 1, 2, 3, 4, 0x9A], ds_temperature_c = Num (- 0.06)\<rparr> # replicate 3 zero_ds18b20\<rparr>)"
proof -
  let ?d = "sensor_update_doc demo_update" and ?cj = "doc_cjson [sensor_update_doc demo_update]"
  have floors: "\<lfloor>8025 / 2 :: rat\<rfloor> = 4012" "\<lfloor>25 / 4 :: rat\<rfloor> = 6" by (simp_all add: floor_eq_iff)
  have cents: "hundredths (43 / 2) = 2150" "hundredths (321 / 8) = 4012" "hundredths (- (1 / 16)) = - 6"
    by (simp_all add: hundredths_def round_half_even_def Let_def floors)
  obtain sz p crc where enc: "encode_sensor_update_json_into demo_update sz = Some (p, crc)"
    by (force simp: encode_sensor_update_json Let_def)
  have "sensor_update_wf demo_update" "\<forall>e \<in> set (su_sht20 demo_update). list_all plain_char (sht_id e)" by code_simp+
  moreover have "readings_are_numbers demo_update"
    by (simp add: readings_are_numbers_def demo_update_def zero_sensor_update_def)
  ultimately have "proto_decode_sensor_update_json ?cj p crc = Some (sensor_update_norm ?cj (\<lambda>r. r) demo_update)"
    using sensor_update_json_roundtrip [OF doc_cjson_reads _ _ enc] by simp
  moreover have wires: "wire_value (doc_cjson ds) (\<lambda>r. r) (Num (43 / 2)) = Num (43 / 2)" "wire_value (doc_cjson ds) (\<lambda>r. r) (Num (321 / 8)) = Num (1003 / 25)"
    "wire_value (doc_cjson ds) (\<lambda>r. r) (Num (- (1 / 16))) = Num (- (3 / 50))" for ds
    by (simp_all add: wire_value_def doc_cjson_def cents)
  moreover have "sensor_update_norm (doc_cjson ds) (\<lambda>r. r) demo_update =
      demo_update\<lparr>su_sht20 := [\<lparr>sht_id = ''SHT20_1'', sht_temperature_c = Num 21.5, sht_humidity_percent = Num 40.12,
        sht_valid = True\<rparr>, zero_sht20],
        su_ds18b20 := \<lparr>ds_rom_code = [0x28, 0xFF, 0, 1, 2, 3, 4, 0x9A], ds_temperature_c = Num (- 0.06)\<rparr> # replicate 3 zero_ds18b20\<rparr>" for ds
    by (simp add: sensor_update_norm_def demo_update_def zero_sensor_update_def wires)
  ultimately show ?thesis using enc by metis
qed

text \<open>
  Damage is refused. A payload whose checksum is not the reserved value 0 and that differs
  from what was encoded inside a window of at most four bytes is decoded neither as a command
  nor as an update.
\<close>

theorem damaged_payload_refused:
  assumes "crc = proto_crc32 (xs @ as @ ys)" "crc \<noteq> 0" "length as = length bs" "length bs \<le> 4" "as \<noteq> bs"
  shows "proto_decode_command_json cj (xs @ bs @ ys) crc = None \<and>
    proto_decode_sensor_update_json cj (xs @ bs @ ys) crc = None"
  using assms proto_crc32_burst [of as bs xs ys]
  by (auto simp: proto_decode_command_json_def proto_decode_sensor_update_json_def crc_ok_def)

theorem damaged_payload_refused_witness:
  "proto_decode_command_json (doc_cjson []) (bytes_of ''{'' @ [66] @ bytes_of ''}'') (proto_crc32 (bytes_of ''{'' @ [65] @ bytes_of ''}'')) = None"
proof -
  have "proto_crc32 (bytes_of ''{'' @ [65] @ bytes_of ''}'') \<noteq> 0" by code_simp
  then show ?thesis using damaged_payload_refused [OF refl, of "bytes_of ''{''" "[65]" "bytes_of ''}''" "[66]", where cj = "doc_cjson []"] by simp
qed

end
