(* ===== verification/SensorModel.thy ===== *)
theory SensorModel
  imports MessageProps
begin

text \<open>
  The data model of the sensor node, \<^verbatim>\<open>sensor_node/main/data_model.c\<close>: the snapshot the tasks
  fill in, the snapshot last published, and the two staging buffers of encoded payloads.

  \<open>took\<close> is what \<^verbatim>\<open>xSemaphoreTake\<close> with its timeout returns to the operation. A staging
  buffer is the payload it holds, or \<open>None\<close> when the last encoding into it was given up.
  \<open>fl\<close> rounds the result of a \<^verbatim>\<open>float\<close> subtraction. The firmware is built without
  \<^verbatim>\<open>CONFIG_USE_CBOR\<close>, its default, so that payloads are JSON.
\<close>

section \<open>State and operations\<close>

definition SENSOR_DATA_MODEL_MAX_MESSAGE_SIZE :: nat where
  "SENSOR_DATA_MODEL_MAX_MESSAGE_SIZE = 2048"

definition SENSOR_DATA_MODEL_BUFFER_COUNT :: nat where
  "SENSOR_DATA_MODEL_BUFFER_COUNT = 2"

record sensor_data_model_t =
  sdm_current :: proto_sensor_update_t
  sdm_last_published :: proto_sensor_update_t
  sdm_initialized :: bool
  sdm_mutex :: bool
  sdm_encode_buffers :: "bytes option list"
  sdm_encode_lengths :: "nat list"
  sdm_next_encode_index :: nat

definition data_model_lock :: "bool \<Rightarrow> sensor_data_model_t \<Rightarrow> bool" where
  "data_model_lock took model = (sdm_mutex model \<and> took)"

text \<open>\<^verbatim>\<open>data_model_init\<close>; a failed creation of the mutex stops in \<^verbatim>\<open>configASSERT\<close>.\<close>

definition data_model_init :: sensor_data_model_t where
  "data_model_init =
     \<lparr>sdm_current = zero_sensor_update\<lparr>su_pwm := \<lparr>pca_frequency_hz = 500, pca_duty_cycle = replicate 16 0\<rparr>\<rparr>,
      sdm_last_published = zero_sensor_update, sdm_initialized = True, sdm_mutex = True,
      sdm_encode_buffers = replicate SENSOR_DATA_MODEL_BUFFER_COUNT None,
      sdm_encode_lengths = replicate SENSOR_DATA_MODEL_BUFFER_COUNT 0, sdm_next_encode_index = 0\<rparr>"

definition data_model_set_sht20 ::
  "bool \<Rightarrow> nat \<Rightarrow> string \<Rightarrow> c_float \<Rightarrow> c_float \<Rightarrow> bool \<Rightarrow> sensor_data_model_t \<Rightarrow> sensor_data_model_t" where
  "data_model_set_sht20 took index name temp humidity valid model =
     (if \<not> sdm_initialized model \<or> index \<ge> 2 then model
      else if \<not> data_model_lock took model then model
      else let cur = sdm_current model;
               entry = \<lparr>sht_id = cstr_copy 16 name, sht_temperature_c = temp, sht_humidity_percent = humidity, sht_valid = valid\<rparr>
           in model\<lparr>sdm_current := cur\<lparr>su_sht20 := (su_sht20 cur)[index := entry],
                 su_sht20_count := if index + 1 > su_sht20_count cur then index + 1 else su_sht20_count cur\<rparr>\<rparr>)"

definition data_model_set_ds18b20 ::
  "bool \<Rightarrow> nat \<Rightarrow> bytes option \<Rightarrow> c_float \<Rightarrow> sensor_data_model_t \<Rightarrow> sensor_data_model_t" where
  "data_model_set_ds18b20 took index device temp model =
     (case device of None \<Rightarrow> model | Some rom \<Rightarrow>
      if \<not> sdm_initialized model \<or> index \<ge> 4 then model
      else if \<not> data_model_lock took model then model
      else let cur = sdm_current model;
               entry = \<lparr>ds_rom_code = rom, ds_temperature_c = temp\<rparr>
           in model\<lparr>sdm_current := cur\<lparr>su_ds18b20 := (su_ds18b20 cur)[index := entry],
                 su_ds18b20_count := if index + 1 > su_ds18b20_count cur then index + 1 else su_ds18b20_count cur\<rparr>\<rparr>)"

definition data_model_set_gpio :: "bool \<Rightarrow> nat \<Rightarrow> u16 \<Rightarrow> u16 \<Rightarrow> sensor_data_model_t \<Rightarrow> sensor_data_model_t" where
  "data_model_set_gpio took dev_index porta portb model =
     (if \<not> sdm_initialized model \<or> dev_index \<ge> 2 then model
      else if \<not> data_model_lock took model then model
      else let cur = sdm_current model
           in model\<lparr>sdm_current := cur\<lparr>su_mcp := (su_mcp cur)[dev_index := \<lparr>mcp_port_a = porta, mcp_port_b = portb\<rparr>]\<rparr>\<rparr>)"

definition data_model_set_pwm :: "bool \<Rightarrow> u16 list \<Rightarrow> nat \<Rightarrow> u16 \<Rightarrow> sensor_data_model_t \<Rightarrow> sensor_data_model_t" where
  "data_model_set_pwm took duty cnt frequency_hz model =
     (if \<not> sdm_initialized model then model
      else if \<not> data_model_lock took model then model
      else let cur = sdm_current model; mx = (if cnt < 16 then cnt else 16);
               duties = for_loop (\<lambda>i ds. ds[i := duty ! i]) mx 0 (pca_duty_cycle (su_pwm cur))
           in model\<lparr>sdm_current := cur\<lparr>su_pwm := \<lparr>pca_frequency_hz = frequency_hz, pca_duty_cycle = duties\<rparr>\<rparr>\<rparr>)"

definition data_model_set_timestamp :: "bool \<Rightarrow> u32 \<Rightarrow> sensor_data_model_t \<Rightarrow> sensor_data_model_t" where
  "data_model_set_timestamp took timestamp_ms model =
     (if \<not> sdm_initialized model then model
      else if \<not> data_model_lock took model then model
      else model\<lparr>sdm_current := (sdm_current model)\<lparr>su_timestamp_ms := timestamp_ms\<rparr>\<rparr>)"

definition data_model_increment_seq :: "bool \<Rightarrow> sensor_data_model_t \<Rightarrow> sensor_data_model_t" where
  "data_model_increment_seq took model =
     (if \<not> sdm_initialized model then model
      else if \<not> data_model_lock took model then model
      else model\<lparr>sdm_current := (sdm_current model)\<lparr>su_sequence_id := su_sequence_id (sdm_current model) + 1\<rparr>\<rparr>)"

definition value_changed :: "(rat \<Rightarrow> rat) \<Rightarrow> c_float \<Rightarrow> c_float \<Rightarrow> rat \<Rightarrow> bool" where
  "value_changed fl a b threshold \<longleftrightarrow> float_above (float_apply abs (float_sub fl a b)) threshold"

fun sht20_changed :: "(rat \<Rightarrow> rat) \<Rightarrow> rat \<Rightarrow> rat \<Rightarrow> nat \<Rightarrow> nat \<Rightarrow> proto_sensor_update_t \<Rightarrow> proto_sensor_update_t \<Rightarrow> bool" where
  "sht20_changed fl tt ht 0 i cur prev = False"
| "sht20_changed fl tt ht (Suc n) i cur prev =
     (if value_changed fl (sht_temperature_c (su_sht20 cur ! i)) (sht_temperature_c (su_sht20 prev ! i)) tt \<or>
         value_changed fl (sht_humidity_percent (su_sht20 cur ! i)) (sht_humidity_percent (su_sht20 prev ! i)) ht
      then True else sht20_changed fl tt ht n (Suc i) cur prev)"

fun ds18b20_changed :: "(rat \<Rightarrow> rat) \<Rightarrow> rat \<Rightarrow> nat \<Rightarrow> nat \<Rightarrow> proto_sensor_update_t \<Rightarrow> proto_sensor_update_t \<Rightarrow> bool" where
  "ds18b20_changed fl tt 0 i cur prev = False"
| "ds18b20_changed fl tt (Suc n) i cur prev =
     (if value_changed fl (ds_temperature_c (su_ds18b20 cur ! i)) (ds_temperature_c (su_ds18b20 prev ! i)) tt
      then True else ds18b20_changed fl tt n (Suc i) cur prev)"

definition data_model_should_publish ::
  "(rat \<Rightarrow> rat) \<Rightarrow> bool \<Rightarrow> sensor_data_model_t \<Rightarrow> rat \<Rightarrow> rat \<Rightarrow> bool" where
  "data_model_should_publish fl took model temp_threshold humidity_threshold =
     (let cur = sdm_current model; prev = sdm_last_published model in
      if \<not> sdm_initialized model then False
      else if \<not> data_model_lock took model then False
      else if su_sequence_id prev = 0 then True
      else if sht20_changed fl temp_threshold humidity_threshold (su_sht20_count cur) 0 cur prev then True
      else if ds18b20_changed fl temp_threshold (su_ds18b20_count cur) 0 cur prev then True
      else if su_mcp cur \<noteq> su_mcp prev then True
      else if pca_duty_cycle (su_pwm cur) \<noteq> pca_duty_cycle (su_pwm prev) \<or>
              pca_frequency_hz (su_pwm cur) \<noteq> pca_frequency_hz (su_pwm prev) then True
      else False)"

text \<open>The result is the index of the staging buffer that \<^verbatim>\<open>out_buf\<close> points to, its length and the CRC.\<close>

definition data_model_build :: "bool \<Rightarrow> sensor_data_model_t \<Rightarrow> (nat \<times> nat \<times> u32) option \<times> sensor_data_model_t" where
  "data_model_build took model =
     (if \<not> sdm_initialized model then (None, model)
      else if \<not> data_model_lock took model then (None, model)
      else let index = sdm_next_encode_index model mod SENSOR_DATA_MODEL_BUFFER_COUNT in
        case encode_sensor_update_json_into (sdm_current model) SENSOR_DATA_MODEL_MAX_MESSAGE_SIZE of
          None \<Rightarrow> (None, model\<lparr>sdm_encode_buffers := (sdm_encode_buffers model)[index := None]\<rparr>)
        | Some (payload, crc) \<Rightarrow>
            (Some (index, length payload, crc),
             model\<lparr>sdm_last_published := sdm_current model,
               sdm_encode_buffers := (sdm_encode_buffers model)[index := Some payload],
               sdm_encode_lengths := (sdm_encode_lengths model)[index := length payload],
               sdm_next_encode_index := (index + 1) mod SENSOR_DATA_MODEL_BUFFER_COUNT\<rparr>))"

section \<open>Invariant\<close>

text \<open>The snapshots are well formed, the tables have their sizes and the index selects a buffer.\<close>

definition sensor_model_inv :: "sensor_data_model_t \<Rightarrow> bool" where
  "sensor_model_inv m \<longleftrightarrow> sensor_update_wf (sdm_current m) \<and> sensor_update_wf (sdm_last_published m) \<and>
     length (sdm_encode_buffers m) = SENSOR_DATA_MODEL_BUFFER_COUNT \<and>
     length (sdm_encode_lengths m) = SENSOR_DATA_MODEL_BUFFER_COUNT \<and>
     sdm_next_encode_index m < SENSOR_DATA_MODEL_BUFFER_COUNT"


lemma sensor_model_invI:
  "sensor_update_wf (sdm_current m) \<Longrightarrow> sensor_update_wf (sdm_last_published m) \<Longrightarrow>
   length (sdm_encode_buffers m) = SENSOR_DATA_MODEL_BUFFER_COUNT \<Longrightarrow>
   length (sdm_encode_lengths m) = SENSOR_DATA_MODEL_BUFFER_COUNT \<Longrightarrow>
   sdm_next_encode_index m < SENSOR_DATA_MODEL_BUFFER_COUNT \<Longrightarrow> sensor_model_inv m"
  by (simp add: sensor_model_inv_def)

lemma sensor_update_wf_zero: "sensor_update_wf zero_sensor_update"
  by (simp add: sensor_update_wf_def zero_sensor_update_def zero_sht20_def zero_ds18b20_def)

lemma init_inv [inv_intros]: "sensor_model_inv data_model_init"
  using sensor_update_wf_zero
  by (simp add: sensor_model_inv_def data_model_init_def sensor_update_wf_def SENSOR_DATA_MODEL_BUFFER_COUNT_def)

lemma set_sht20_inv [inv_intros]:
  "sensor_model_inv m \<Longrightarrow> sensor_model_inv (data_model_set_sht20 took i name t h v m)"
  by (auto simp: sensor_model_inv_def data_model_set_sht20_def Let_def sensor_update_wf_def length_cstr_copy_less
      dest!: in_set_takeD elim!: set_list_updateE)

lemma set_ds18b20_inv [inv_intros]:
  "sensor_model_inv m \<Longrightarrow> (\<And>rom. device = Some rom \<Longrightarrow> length rom = 8) \<Longrightarrow>
   sensor_model_inv (data_model_set_ds18b20 took i device t m)"
  by (auto simp: sensor_model_inv_def data_model_set_ds18b20_def Let_def sensor_update_wf_def
      split: option.split elim!: set_list_updateE)

lemma set_gpio_inv [inv_intros]: "sensor_model_inv m \<Longrightarrow> sensor_model_inv (data_model_set_gpio took i a b m)"
  by (simp add: sensor_model_inv_def data_model_set_gpio_def Let_def sensor_update_wf_def)

lemma length_duty_loop [simp]: "length (for_loop (\<lambda>i ds. ds[i := duty ! i]) n i ds) = length ds"
  by (induction n arbitrary: i ds) auto

lemma duty_loop_nth:
  "i + n \<le> length ds \<Longrightarrow> j < length ds \<Longrightarrow>
   for_loop (\<lambda>i ds. ds[i := duty ! i]) n i ds ! j = (if i \<le> j \<and> j < i + n then duty ! j else ds ! j)"
  by (induction n arbitrary: i ds) (auto simp: nth_list_update)

lemma duty_loop_all:
  assumes "length duty = 16" "length ds = 16"
  shows "for_loop (\<lambda>i ds. ds[i := duty ! i]) 16 0 ds = duty"
  using assms duty_loop_nth [of 0 16 ds _ duty] by (intro nth_equalityI) auto

lemma set_pwm_inv [inv_intros]: "sensor_model_inv m \<Longrightarrow> sensor_model_inv (data_model_set_pwm took duty n f m)"
  by (simp add: sensor_model_inv_def data_model_set_pwm_def Let_def sensor_update_wf_def)

lemma set_timestamp_inv [inv_intros]: "sensor_model_inv m \<Longrightarrow> sensor_model_inv (data_model_set_timestamp took t m)"
  by (simp add: sensor_model_inv_def data_model_set_timestamp_def sensor_update_wf_def)

lemma increment_seq_inv [inv_intros]: "sensor_model_inv m \<Longrightarrow> sensor_model_inv (data_model_increment_seq took m)"
  by (simp add: sensor_model_inv_def data_model_increment_seq_def sensor_update_wf_def)

lemma build_inv [inv_intros]: "sensor_model_inv m \<Longrightarrow> sensor_model_inv (snd (data_model_build took m))"
  by (auto simp: sensor_model_inv_def data_model_build_def Let_def SENSOR_DATA_MODEL_BUFFER_COUNT_def split: option.split)

text \<open>The calls of the tasks on the model, in any order.\<close>

datatype sensor_call =
    SetSht20 nat string c_float c_float bool
  | SetDs18b20 nat "bytes option" c_float
  | SetGpio nat u16 u16
  | SetPwm "u16 list" nat u16
  | SetTimestamp u32
  | IncrementSeq
  | Build

fun sensor_call_step :: "bool \<times> sensor_call \<Rightarrow> sensor_data_model_t \<Rightarrow> sensor_data_model_t" where
  "sensor_call_step (took, SetSht20 i name t h v) m = data_model_set_sht20 took i name t h v m"
| "sensor_call_step (took, SetDs18b20 i dev t) m = data_model_set_ds18b20 took i dev t m"
| "sensor_call_step (took, SetGpio i a b) m = data_model_set_gpio took i a b m"
| "sensor_call_step (took, SetPwm duty n f) m = data_model_set_pwm took duty n f m"
| "sensor_call_step (took, SetTimestamp t) m = data_model_set_timestamp took t m"
| "sensor_call_step (took, IncrementSeq) m = data_model_increment_seq took m"
| "sensor_call_step (took, Build) m = snd (data_model_build took m)"

definition sensor_call_ok :: "bool \<times> sensor_call \<Rightarrow> bool" where
  "sensor_call_ok c = (case snd c of SetDs18b20 _ (Some rom) _ \<Rightarrow> length rom = 8 | _ \<Rightarrow> True)"

lemma sensor_call_step_inv: "sensor_model_inv m \<Longrightarrow> sensor_call_ok c \<Longrightarrow> sensor_model_inv (sensor_call_step c m)"
  by (cases "(c, m)" rule: sensor_call_step.cases) (auto simp: sensor_call_ok_def split: option.splits intro!: inv_intros)

text \<open>
  C33. Whatever the tasks do, in whatever order and whichever locks time out, the model that
  \<^verbatim>\<open>data_model_init\<close> set up keeps its snapshots within the arrays of the message format and its
  staging index within the buffers.
\<close>

theorem sensor_model_reachable_inv:
  assumes "\<forall>c \<in> set calls. sensor_call_ok c"
  shows "sensor_model_inv (fold sensor_call_step calls data_model_init)"
proof -
  have "sensor_model_inv m \<Longrightarrow> sensor_model_inv (fold sensor_call_step calls m)" for m
    using assms by (induction calls arbitrary: m) (auto intro: sensor_call_step_inv)
  then show ?thesis by (simp add: init_inv)
qed

definition demo_calls :: "(bool \<times> sensor_call) list" where
  "demo_calls = [(True, SetSht20 1 ''SHT20_21_with_a_long_name'' (Num 21.5) (Num 40) True), (False, SetGpio 0 1 2),
     (True, SetDs18b20 3 (Some [40, 1, 2, 3, 4, 5, 6, 7]) (Num 19.25)), (True, SetGpio 1 0xF0 0x0F), (True, IncrementSeq), (True, Build)]"

theorem sensor_model_reachable_inv_witness:
  "sensor_model_inv (fold sensor_call_step demo_calls data_model_init)"
  by (rule sensor_model_reachable_inv) (simp add: demo_calls_def sensor_call_ok_def)

section \<open>Publication\<close>

lemma ex_range_Suc: "(\<exists>j \<ge> i. j < Suc (i + n) \<and> P j) \<longleftrightarrow> P i \<or> (\<exists>j \<ge> Suc i. j < Suc (i + n) \<and> P j)"
  by (metis Suc_leD Suc_leI le_add1 le_imp_less_Suc le_neq_implies_less order_refl)

lemma sht20_changed_iff:
  "sht20_changed fl tt ht n i cur prev \<longleftrightarrow> (\<exists>j \<ge> i. j < i + n \<and>
     (value_changed fl (sht_temperature_c (su_sht20 cur ! j)) (sht_temperature_c (su_sht20 prev ! j)) tt \<or>
      value_changed fl (sht_humidity_percent (su_sht20 cur ! j)) (sht_humidity_percent (su_sht20 prev ! j)) ht))"
  by (induction fl tt ht n i cur prev rule: sht20_changed.induct) (simp_all add: ex_range_Suc)

lemma ds18b20_changed_iff:
  "ds18b20_changed fl tt n i cur prev \<longleftrightarrow> (\<exists>j \<ge> i. j < i + n \<and>
     value_changed fl (ds_temperature_c (su_ds18b20 cur ! j)) (ds_temperature_c (su_ds18b20 prev ! j)) tt)"
  by (induction fl tt n i cur prev rule: ds18b20_changed.induct) (simp_all add: ex_range_Suc)

text \<open>
  The readings the receiver has are those of the node up to the thresholds, the rest is the same.
  A reading that is or was NaN counts as near, because every comparison with NaN is false.
\<close>

definition float_near :: "(rat \<Rightarrow> rat) \<Rightarrow> rat \<Rightarrow> c_float \<Rightarrow> c_float \<Rightarrow> bool" where
  "float_near fl t a b \<longleftrightarrow> (case (a, b) of (Num x, Num y) \<Rightarrow> \<bar>fl (x - y)\<bar> \<le> t | _ \<Rightarrow> True)"

lemma not_value_changed: "\<not> value_changed fl a b t \<longleftrightarrow> float_near fl t a b"
  by (cases a; cases b) (auto simp: value_changed_def float_near_def)

lemma float_near_refl: "0 \<le> t \<Longrightarrow> fl 0 = 0 \<Longrightarrow> float_near fl t a a"
  by (simp add: float_near_def split: c_float.split)

definition within_deadband ::
  "(rat \<Rightarrow> rat) \<Rightarrow> rat \<Rightarrow> rat \<Rightarrow> proto_sensor_update_t \<Rightarrow> proto_sensor_update_t \<Rightarrow> bool" where
  "within_deadband fl tt ht cur prev \<longleftrightarrow>
     (\<forall>i < su_sht20_count cur.
        float_near fl tt (sht_temperature_c (su_sht20 cur ! i)) (sht_temperature_c (su_sht20 prev ! i)) \<and>
        float_near fl ht (sht_humidity_percent (su_sht20 cur ! i)) (sht_humidity_percent (su_sht20 prev ! i))) \<and>
     (\<forall>i < su_ds18b20_count cur.
        float_near fl tt (ds_temperature_c (su_ds18b20 cur ! i)) (ds_temperature_c (su_ds18b20 prev ! i))) \<and>
     su_mcp cur = su_mcp prev \<and> su_pwm cur = su_pwm prev"

lemma should_publish_cases:
  "data_model_should_publish fl took m tt ht \<longleftrightarrow>
     sdm_initialized m \<and> sdm_mutex m \<and> took \<and>
     (su_sequence_id (sdm_last_published m) = 0 \<or>
      \<not> within_deadband fl tt ht (sdm_current m) (sdm_last_published m))"
proof -
  have "su_pwm a = su_pwm b \<longleftrightarrow> pca_duty_cycle (su_pwm a) = pca_duty_cycle (su_pwm b) \<and>
      pca_frequency_hz (su_pwm a) = pca_frequency_hz (su_pwm b)" for a b by auto
  then show ?thesis
    by (auto simp: data_model_should_publish_def Let_def data_model_lock_def within_deadband_def sht20_changed_iff
        ds18b20_changed_iff not_value_changed [symmetric])
qed

text \<open>
  Publication policy. With the lock, nothing needs publishing exactly when a frame has
  been published before and the current readings are within the thresholds of it, with ports and
  PWM settings unchanged. Without the lock, or before initialisation, nothing is published.
\<close>

theorem data_model_should_publish_iff:
  "data_model_should_publish fl took m tt ht \<longleftrightarrow>
     sdm_initialized m \<and> sdm_mutex m \<and> took \<and>
     (su_sequence_id (sdm_last_published m) = 0 \<or>
      \<not> within_deadband fl tt ht (sdm_current m) (sdm_last_published m))"
  by (rule should_publish_cases)

lemma data_model_build_SomeD:
  assumes "data_model_build took m = (Some (index, len, crc), m')" "sensor_model_inv m"
  shows "index < 2" "sdm_encode_lengths m' ! index = len" "len < SENSOR_DATA_MODEL_MAX_MESSAGE_SIZE"
    "\<exists>payload. sdm_encode_buffers m' ! index = Some payload \<and> length payload = len \<and> crc = proto_crc32 payload \<and>
       encode_sensor_update_json_into (sdm_current m) SENSOR_DATA_MODEL_MAX_MESSAGE_SIZE = Some (payload, crc)"
    "sdm_last_published m' = sdm_current m" "sdm_current m' = sdm_current m"
    "\<forall>j. j \<noteq> index \<longrightarrow> sdm_encode_buffers m' ! j = sdm_encode_buffers m ! j"
    "sdm_next_encode_index m' = (index + 1) mod 2" "sdm_next_encode_index m = index"
  using assms
  by (auto simp: data_model_build_def Let_def SENSOR_DATA_MODEL_BUFFER_COUNT_def sensor_model_inv_def
      encode_sensor_update_json split: if_splits option.splits)

lemma data_model_build_succeeds:
  assumes "sensor_model_inv m" "sdm_initialized m" "sdm_mutex m" "readings_below (10 ^ 6) (sdm_current m)"
  shows "\<exists>index len crc m'. data_model_build True m = (Some (index, len, crc), m')"
  using assms update_text_length [of "sdm_current m"]
  by (auto simp: data_model_build_def data_model_lock_def Let_def SENSOR_DATA_MODEL_BUFFER_COUNT_def sensor_model_inv_def
      SENSOR_DATA_MODEL_MAX_MESSAGE_SIZE_def encode_sensor_update_json)

text \<open>
  Publishing settles. With the lock, a build of a snapshot with readings below a million
  succeeds. It stages the snapshot: the staged payload decodes to it at the receiver, provided
  that no reading in it is NaN, and with non-negative thresholds nothing needs publishing any more until a task changes the
  snapshot.
\<close>

theorem data_model_build_settles:
  assumes "sensor_model_inv m" "sdm_initialized m" "sdm_mutex m" "readings_below (10 ^ 6) (sdm_current m)"
    and "su_sequence_id (sdm_current m) \<noteq> 0" "0 \<le> tt" "0 \<le> ht" "fl 0 = 0"
    and "cjson_reads cj dbl (sensor_update_doc (sdm_current m))"
    and "\<forall>e \<in> set (su_sht20 (sdm_current m)). list_all plain_char (sht_id e)"
  shows "\<exists>index len crc m' payload. data_model_build True m = (Some (index, len, crc), m') \<and>
    sdm_encode_buffers m' ! index = Some payload \<and> length payload = len \<and>
    proto_decode_sensor_update_json cj payload crc =
      (if readings_are_numbers (sdm_current m) then Some (sensor_update_norm cj dbl (sdm_current m)) else None) \<and>
    \<not> data_model_should_publish fl took m' tt ht"
proof -
  obtain index len crc m' where build: "data_model_build True m = (Some (index, len, crc), m')"
    using data_model_build_succeeds [OF assms(1-4)] by blast
  note b = data_model_build_SomeD [OF build assms(1)]
  have "within_deadband fl tt ht (sdm_current m') (sdm_last_published m')"
    using b(5,6) assms(6-8) by (simp add: within_deadband_def float_near_refl)
  then have "\<not> data_model_should_publish fl took m' tt ht"
    using b(5) assms(5) by (simp add: should_publish_cases)
  moreover obtain payload where p: "sdm_encode_buffers m' ! index = Some payload" "length payload = len"
    "encode_sensor_update_json_into (sdm_current m) SENSOR_DATA_MODEL_MAX_MESSAGE_SIZE = Some (payload, crc)"
    using b(4) by blast
  moreover have "proto_decode_sensor_update_json cj payload crc =
      (if readings_are_numbers (sdm_current m) then Some (sensor_update_norm cj dbl (sdm_current m)) else None)"
    using assms(1) by (intro sensor_update_decode_encoded [OF assms(9) _ assms(10) p(3)]) (simp add: sensor_model_inv_def)
  ultimately show ?thesis using build by blast
qed

definition demo_model :: sensor_data_model_t where
  "demo_model = fold sensor_call_step (butlast demo_calls) data_model_init"

lemma demo_current: "sdm_current demo_model = zero_sensor_update
   \<lparr>su_sequence_id := 1, su_sht20_count := 2,
    su_sht20 := [zero_sht20, \<lparr>sht_id = ''SHT20_21_with_a'', sht_temperature_c = Num 21.5, sht_humidity_percent = Num 40, sht_valid = True\<rparr>],
    su_ds18b20_count := 4,
    su_ds18b20 := [zero_ds18b20, zero_ds18b20, zero_ds18b20, \<lparr>ds_rom_code = [40, 1, 2, 3, 4, 5, 6, 7], ds_temperature_c = Num 19.25\<rparr>],
    su_mcp := [zero_mcp, \<lparr>mcp_port_a = 0xF0, mcp_port_b = 0x0F\<rparr>],
    su_pwm := \<lparr>pca_frequency_hz = 500, pca_duty_cycle = replicate 16 0\<rparr>\<rparr>"
  by (simp add: demo_model_def demo_calls_def data_model_init_def zero_sensor_update_def data_model_set_sht20_def
      data_model_set_ds18b20_def data_model_set_gpio_def data_model_increment_seq_def data_model_lock_def Let_def cstr_copy_def
      numeral_2_eq_2 numeral_eq_Suc)

lemma demo_model_ok:
  "sensor_model_inv demo_model" "sdm_initialized demo_model" "sdm_mutex demo_model"
  "readings_below (10 ^ 6) (sdm_current demo_model)" "su_sequence_id (sdm_current demo_model) \<noteq> 0"
  "\<forall>e \<in> set (su_sht20 (sdm_current demo_model)). list_all plain_char (sht_id e)"
proof -
  show "sensor_model_inv demo_model"
    by (auto simp: demo_model_def demo_calls_def intro!: inv_intros)
  show "sdm_initialized demo_model" "sdm_mutex demo_model"
    by (simp_all add: demo_model_def demo_calls_def data_model_init_def data_model_set_sht20_def
      data_model_set_ds18b20_def data_model_set_gpio_def data_model_increment_seq_def data_model_lock_def Let_def)
  show "readings_below (10 ^ 6) (sdm_current demo_model)" "su_sequence_id (sdm_current demo_model) \<noteq> 0"
    "\<forall>e \<in> set (su_sht20 (sdm_current demo_model)). list_all plain_char (sht_id e)"
    unfolding demo_current by (simp_all add: readings_below_def float_below_def zero_sensor_update_def zero_sht20_def zero_ds18b20_def plain_char_def)
qed

theorem data_model_build_settles_witness:
  "\<exists>index len crc m' payload. data_model_build True demo_model = (Some (index, len, crc), m') \<and>
    sdm_encode_buffers m' ! index = Some payload \<and> length payload = len \<and>
    proto_decode_sensor_update_json (doc_cjson [sensor_update_doc (sdm_current demo_model)]) payload crc =
      Some (sensor_update_norm (doc_cjson [sensor_update_doc (sdm_current demo_model)]) (\<lambda>r. r) (sdm_current demo_model)) \<and>
    \<not> data_model_should_publish (\<lambda>r. r) True m' (2 / 10) 1"
proof -
  have "readings_are_numbers (sdm_current demo_model)"
    unfolding demo_current by (simp add: readings_are_numbers_def zero_sensor_update_def zero_sht20_def zero_ds18b20_def)
  then show ?thesis
    using data_model_build_settles [OF demo_model_ok(1-5) _ _ _ doc_cjson_reads demo_model_ok(6), of "2 / 10" 1 "\<lambda>r. r" True] by simp
qed

lemma call_keeps_staging:
  "snd c \<noteq> Build \<Longrightarrow> sdm_encode_buffers (sensor_call_step c m) = sdm_encode_buffers m \<and>
     sdm_next_encode_index (sensor_call_step c m) = sdm_next_encode_index m"
  by (cases "(c, m)" rule: sensor_call_step.cases)
    (auto simp: data_model_set_sht20_def data_model_set_ds18b20_def data_model_set_gpio_def data_model_set_pwm_def
      data_model_set_timestamp_def data_model_increment_seq_def Let_def split: option.splits)

lemma calls_keep_staging:
  assumes "sensor_model_inv m" "\<forall>c \<in> set calls. sensor_call_ok c \<and> snd c \<noteq> Build"
  shows "sdm_encode_buffers (fold sensor_call_step calls m) = sdm_encode_buffers m \<and>
    sdm_next_encode_index (fold sensor_call_step calls m) = sdm_next_encode_index m \<and>
    sensor_model_inv (fold sensor_call_step calls m)"
  using assms
proof (induction calls arbitrary: m)
  case (Cons c calls)
  then have "sensor_model_inv (sensor_call_step c m)" by (simp add: sensor_call_step_inv)
  then show ?case using Cons call_keeps_staging [of c m] by simp
qed simp

text \<open>
  Double buffering. While one payload is being sent, the next build does not touch it, and
  the build after that may.
\<close>

theorem data_model_build_double_buffer:
  assumes "sensor_model_inv m" "data_model_build t1 m = (Some (i, len, crc), m1)"
    and "\<forall>c \<in> set calls. sensor_call_ok c \<and> snd c \<noteq> Build"
    and "data_model_build t2 (fold sensor_call_step calls m1) = (Some (j, len', crc'), m2)"
  shows "i \<noteq> j \<and> sdm_encode_buffers m2 ! i = sdm_encode_buffers m1 ! i"
proof -
  note first = data_model_build_SomeD [OF assms(2,1)]
  have "sensor_model_inv m1" using build_inv [OF assms(1), of t1] assms(2) by simp
  note kept = calls_keep_staging [OF this assms(3)]
  note second = data_model_build_SomeD [OF assms(4)]
  have "j = (i + 1) mod 2" using second(9) first(8) kept by metis
  then have "i \<noteq> j" by presburger
  then show ?thesis using second(7) kept by metis
qed

theorem data_model_build_double_buffer_witness:
  "\<exists>i j r1 r2 m1 m2. data_model_build True demo_model = (Some (i, r1), m1) \<and>
     data_model_build True (data_model_increment_seq True m1) = (Some (j, r2), m2) \<and>
     i \<noteq> j \<and> sdm_encode_buffers m2 ! i = sdm_encode_buffers m1 ! i"
proof -
  obtain i len crc m1 where b1: "data_model_build True demo_model = (Some (i, len, crc), m1)"
    using data_model_build_succeeds [OF demo_model_ok(1-4)] by blast
  let ?m = "fold sensor_call_step [(True, IncrementSeq)] m1"
  have m1: "sensor_model_inv m1" using build_inv [OF demo_model_ok(1), of True] b1 by simp
  have keep: "sdm_current m1 = sdm_current demo_model" "sdm_initialized m1" "sdm_mutex m1"
    using b1 demo_model_ok(2,3) by (auto simp: data_model_build_def Let_def split: if_splits option.splits)
  have "readings_below (10 ^ 6) (sdm_current ?m)" "sdm_initialized ?m" "sdm_mutex ?m"
    using demo_model_ok(4) keep by (simp_all add: data_model_increment_seq_def readings_below_def)
  moreover have "sensor_model_inv ?m" using increment_seq_inv [OF m1, of True] by simp
  ultimately obtain j len' crc' m2 where b2: "data_model_build True ?m = (Some (j, len', crc'), m2)"
    using data_model_build_succeeds by blast
  have "i \<noteq> j \<and> sdm_encode_buffers m2 ! i = sdm_encode_buffers m1 ! i"
    by (rule data_model_build_double_buffer [OF demo_model_ok(1) b1 _ b2]) (simp add: sensor_call_ok_def)
  moreover have "data_model_build True (data_model_increment_seq True m1) = (Some (j, len', crc'), m2)" using b2 by simp
  ultimately show ?thesis using b1 by blast
qed

end
