(* ===== verification/HmiModel.thy ===== *)
theory HmiModel
  imports MessageProps
begin

text \<open>
  The data model of the HMI node, \<^verbatim>\<open>hmi_node/main/data_model.c\<close>, and the preferences it keeps
  in flash, \<^verbatim>\<open>hmi_node/main/prefs_store.c\<close>.

  Flash (NVS) is the environment: every call of it is an event of a log, newest first, and its
  result is a function of the log. The blob of preferences is read and written as the
  structure it is an image of; a string of it that lost its terminator has the length of its
  array. \<open>took\<close> is what \<^verbatim>\<open>xSemaphoreTake\<close> returns.
\<close>

section \<open>Preferences\<close>

definition HMI_LANGUAGE_EN :: u32 where "HMI_LANGUAGE_EN = 0"
definition HMI_LANGUAGE_MAX :: u32 where "HMI_LANGUAGE_MAX = 2"

record hmi_user_preferences_t =
  prf_ssid :: string
  prf_password :: string
  prf_mdns_target :: string
  prf_dark_theme :: bool
  prf_use_fahrenheit :: bool
  prf_high_contrast :: bool
  prf_large_touch_targets :: bool
  prf_text_scale_percent :: u8
  prf_language :: u32

definition sanitize_preferences :: "hmi_user_preferences_t \<Rightarrow> hmi_user_preferences_t" where
  "sanitize_preferences prefs = prefs\<lparr>
     prf_ssid := take 32 (prf_ssid prefs), prf_password := take 64 (prf_password prefs),
     prf_mdns_target := take 63 (prf_mdns_target prefs),
     prf_text_scale_percent := if prf_text_scale_percent prefs < 80 \<or> prf_text_scale_percent prefs > 140
       then 100 else prf_text_scale_percent prefs,
     prf_language := if prf_language prefs \<ge> HMI_LANGUAGE_MAX then HMI_LANGUAGE_EN else prf_language prefs\<rparr>"

definition zero_preferences :: hmi_user_preferences_t where
  "zero_preferences = \<lparr>prf_ssid = [], prf_password = [], prf_mdns_target = [], prf_dark_theme = False,
     prf_use_fahrenheit = False, prf_high_contrast = False, prf_large_touch_targets = False,
     prf_text_scale_percent = 0, prf_language = 0\<rparr>"

definition hmi_data_model_set_default_preferences :: "hmi_user_preferences_t \<Rightarrow> hmi_user_preferences_t" where
  "hmi_data_model_set_default_preferences prefs = sanitize_preferences (prefs\<lparr>
     prf_dark_theme := True, prf_use_fahrenheit := False, prf_high_contrast := False, prf_large_touch_targets := False,
     prf_text_scale_percent := 100, prf_language := HMI_LANGUAGE_EN, prf_ssid := [], prf_password := [],
     prf_mdns_target := cstr_copy 64 ''sensor-node.local''\<rparr>)"

section \<open>The store\<close>

datatype nvs_call =
    SecureInit | GenerateKeys | FlashDeinit | FlashErase | SecureSetFlash
  | NvsOpen bool
  | NvsGetBlob
  | NvsSetBlob hmi_user_preferences_t
  | NvsEraseKey
  | NvsCommit
  | NvsClose

record nvs_env =
  nvs_result :: "nvs_call list \<Rightarrow> nvs_call \<Rightarrow> esp_err"
  nvs_blob :: "nvs_call list \<Rightarrow> hmi_user_preferences_t \<times> nat"

text \<open>The flag \<^verbatim>\<open>s_secure_nvs_ready\<close> and the log. \<open>PREFS_SIZE\<close> is the size of the structure.\<close>

record prefs_store =
  ps_ready :: bool
  ps_log :: "nvs_call list"

definition PREFS_SIZE :: nat where "PREFS_SIZE = 172"

definition nvs_do :: "nvs_env \<Rightarrow> nvs_call \<Rightarrow> prefs_store \<Rightarrow> esp_err \<times> prefs_store" where
  "nvs_do env c s = (nvs_result env (ps_log s) c, s\<lparr>ps_log := c # ps_log s\<rparr>)"

definition secure_init_keys :: "nvs_env \<Rightarrow> prefs_store \<Rightarrow> (esp_err + esp_err) \<times> prefs_store" where
  "secure_init_keys env s =
     (case nvs_do env SecureInit s of (err, s) \<Rightarrow>
        if err = ESP_ERR_NVS_SEC_KEY_PART_NOT_FOUND then
          (case nvs_do env GenerateKeys s of (gerr, s) \<Rightarrow>
             if gerr \<noteq> ESP_OK then (Inl gerr, s)
             else (case nvs_do env SecureInit s of (err, s) \<Rightarrow> (Inr err, s)))
        else (Inr err, s))"

definition secure_init_erase :: "nvs_env \<Rightarrow> esp_err \<Rightarrow> prefs_store \<Rightarrow> (esp_err + esp_err) \<times> prefs_store" where
  "secure_init_erase env err s =
     (if err = ESP_ERR_NVS_NO_FREE_PAGES \<or> err = ESP_ERR_NVS_NEW_VERSION_FOUND then
        (case nvs_do env FlashDeinit s of (_, s) \<Rightarrow>
         case nvs_do env FlashErase s of (eerr, s) \<Rightarrow>
           if eerr \<noteq> ESP_OK then (Inl eerr, s)
           else (case nvs_do env SecureInit s of (err, s) \<Rightarrow> (Inr err, s)))
      else (Inr err, s))"

definition ensure_secure_nvs :: "nvs_env \<Rightarrow> prefs_store \<Rightarrow> esp_err \<times> prefs_store" where
  "ensure_secure_nvs env s =
     (if ps_ready s then (ESP_OK, s)
      else case secure_init_keys env s of
        (Inl e, s) \<Rightarrow> (e, s)
      | (Inr err, s) \<Rightarrow>
          (case secure_init_erase env err s of
             (Inl e, s) \<Rightarrow> (e, s)
           | (Inr err, s) \<Rightarrow>
               if err \<noteq> ESP_OK then (err, s)
               else (case nvs_do env SecureSetFlash s of (ferr, s) \<Rightarrow>
                  if ferr \<noteq> ESP_OK then (ferr, s) else (ESP_OK, s\<lparr>ps_ready := True\<rparr>))))"

definition hmi_prefs_store_init :: "nvs_env \<Rightarrow> prefs_store \<Rightarrow> esp_err \<times> prefs_store" where
  "hmi_prefs_store_init env s = ensure_secure_nvs env s"

definition hmi_prefs_store_load :: "nvs_env \<Rightarrow> prefs_store \<Rightarrow> esp_err \<times> hmi_user_preferences_t \<times> prefs_store" where
  "hmi_prefs_store_load env s =
     (case ensure_secure_nvs env s of (err, s) \<Rightarrow>
        if err \<noteq> ESP_OK then (err, zero_preferences, s)
        else case nvs_do env (NvsOpen False) s of (err, s) \<Rightarrow>
          if err \<noteq> ESP_OK then (err, zero_preferences, s)
          else let (blob, required) = nvs_blob env (ps_log s) in
            case nvs_do env NvsGetBlob s of (err, s) \<Rightarrow>
            case nvs_do env NvsClose s of (_, s) \<Rightarrow>
              if err = ESP_OK then
                (if required \<noteq> PREFS_SIZE then (ESP_ERR_INVALID_SIZE, blob, s)
                 else (ESP_OK, sanitize_preferences blob, s))
              else (err, zero_preferences, s))"

definition hmi_prefs_store_save :: "nvs_env \<Rightarrow> hmi_user_preferences_t \<Rightarrow> prefs_store \<Rightarrow> esp_err \<times> prefs_store" where
  "hmi_prefs_store_save env prefs s =
     (case ensure_secure_nvs env s of (err, s) \<Rightarrow>
        if err \<noteq> ESP_OK then (err, s)
        else case nvs_do env (NvsOpen True) s of (err, s) \<Rightarrow>
          if err \<noteq> ESP_OK then (err, s)
          else case nvs_do env (NvsSetBlob (sanitize_preferences prefs)) s of (err, s) \<Rightarrow>
            case (if err = ESP_OK then nvs_do env NvsCommit s else (err, s)) of (err, s) \<Rightarrow>
            case nvs_do env NvsClose s of (_, s) \<Rightarrow> (err, s))"

definition hmi_prefs_store_erase :: "nvs_env \<Rightarrow> prefs_store \<Rightarrow> esp_err \<times> prefs_store" where
  "hmi_prefs_store_erase env s =
     (case ensure_secure_nvs env s of (err, s) \<Rightarrow>
        if err \<noteq> ESP_OK then (err, s)
        else case nvs_do env (NvsOpen True) s of (err, s) \<Rightarrow>
          if err \<noteq> ESP_OK then (err, s)
          else case nvs_do env NvsEraseKey s of (err, s) \<Rightarrow>
            let err = (if err = ESP_ERR_NVS_NOT_FOUND then ESP_OK else err) in
            case (if err = ESP_OK then nvs_do env NvsCommit s else (err, s)) of (err, s) \<Rightarrow>
            case nvs_do env NvsClose s of (_, s) \<Rightarrow> (err, s))"

section \<open>The model\<close>

record hmi_data_model_t =
  hdm_last_update :: proto_sensor_update_t
  hdm_has_update :: bool
  hdm_connected :: bool
  hdm_last_crc_ok :: bool
  hdm_preferences :: hmi_user_preferences_t
  hdm_mutex :: bool

definition hmi_model_lock :: "bool \<Rightarrow> hmi_data_model_t \<Rightarrow> bool" where
  "hmi_model_lock took model = (hdm_mutex model \<and> took)"

definition hmi_data_model_init :: "nvs_env \<Rightarrow> prefs_store \<Rightarrow> hmi_data_model_t \<times> prefs_store" where
  "hmi_data_model_init env s =
     (let model = \<lparr>hdm_last_update = zero_sensor_update, hdm_has_update = False, hdm_connected = False,
            hdm_last_crc_ok = True, hdm_preferences = hmi_data_model_set_default_preferences zero_preferences,
            hdm_mutex = True\<rparr> in
      case hmi_prefs_store_init env s of (err, s) \<Rightarrow>
        if err \<noteq> ESP_OK then (model, s)
        else case hmi_prefs_store_load env s of (err, stored, s) \<Rightarrow>
          if err = ESP_OK then (model\<lparr>hdm_preferences := sanitize_preferences stored\<rparr>, s) else (model, s))"

definition hmi_data_model_set_update :: "bool \<Rightarrow> proto_sensor_update_t \<Rightarrow> hmi_data_model_t \<Rightarrow> hmi_data_model_t" where
  "hmi_data_model_set_update took update model =
     (if \<not> hmi_model_lock took model then model
      else model\<lparr>hdm_last_update := update, hdm_has_update := True\<rparr>)"

definition hmi_data_model_get_update :: "bool \<Rightarrow> hmi_data_model_t \<Rightarrow> proto_sensor_update_t option \<times> hmi_data_model_t" where
  "hmi_data_model_get_update took model =
     (if \<not> hmi_model_lock took model then (None, model)
      else if \<not> hdm_has_update model then (None, model)
      else (Some (hdm_last_update model), model\<lparr>hdm_has_update := False\<rparr>))"

definition hmi_data_model_peek_update :: "bool \<Rightarrow> hmi_data_model_t \<Rightarrow> bool \<times> proto_sensor_update_t option" where
  "hmi_data_model_peek_update took model =
     (if \<not> hmi_model_lock took model then (False, None)
      else (su_sequence_id (hdm_last_update model) \<noteq> 0, Some (hdm_last_update model)))"

definition hmi_data_model_set_connected :: "bool \<Rightarrow> bool \<Rightarrow> hmi_data_model_t \<Rightarrow> hmi_data_model_t" where
  "hmi_data_model_set_connected took conn model =
     (if \<not> hmi_model_lock took model then model else model\<lparr>hdm_connected := conn\<rparr>)"

definition hmi_data_model_is_connected :: "bool \<Rightarrow> hmi_data_model_t \<Rightarrow> bool" where
  "hmi_data_model_is_connected took model = (if \<not> hmi_model_lock took model then False else hdm_connected model)"

definition hmi_data_model_set_crc_status :: "bool \<Rightarrow> bool \<Rightarrow> hmi_data_model_t \<Rightarrow> hmi_data_model_t" where
  "hmi_data_model_set_crc_status took ok model =
     (if \<not> hmi_model_lock took model then model else model\<lparr>hdm_last_crc_ok := ok\<rparr>)"

definition hmi_data_model_get_crc_status :: "bool \<Rightarrow> hmi_data_model_t \<Rightarrow> bool" where
  "hmi_data_model_get_crc_status took model = (if \<not> hmi_model_lock took model then False else hdm_last_crc_ok model)"

definition hmi_data_model_get_preferences :: "bool \<Rightarrow> hmi_data_model_t \<Rightarrow> hmi_user_preferences_t option" where
  "hmi_data_model_get_preferences took model =
     (if \<not> hmi_model_lock took model then None else Some (hdm_preferences model))"

definition hmi_data_model_set_preferences :: "bool \<Rightarrow> hmi_user_preferences_t \<Rightarrow> hmi_data_model_t \<Rightarrow> hmi_data_model_t" where
  "hmi_data_model_set_preferences took prefs model =
     (if \<not> hmi_model_lock took model then model
      else model\<lparr>hdm_preferences := \<lparr>prf_ssid = cstr_copy 33 (prf_ssid prefs), prf_password = cstr_copy 65 (prf_password prefs),
        prf_mdns_target = cstr_copy 64 (prf_mdns_target prefs), prf_dark_theme = prf_dark_theme prefs,
        prf_use_fahrenheit = prf_use_fahrenheit prefs, prf_high_contrast = prf_high_contrast prefs,
        prf_large_touch_targets = prf_large_touch_targets prefs, prf_text_scale_percent = prf_text_scale_percent prefs,
        prf_language = if prf_language prefs < HMI_LANGUAGE_MAX then prf_language prefs else HMI_LANGUAGE_EN\<rparr>\<rparr>)"

definition hmi_data_model_reset_preferences :: "bool \<Rightarrow> hmi_data_model_t \<Rightarrow> hmi_data_model_t" where
  "hmi_data_model_reset_preferences took model =
     (if \<not> hmi_model_lock took model then model
      else model\<lparr>hdm_preferences := hmi_data_model_set_default_preferences (hdm_preferences model)\<rparr>)"

section \<open>Preferences stay sane\<close>

definition prefs_fit :: "hmi_user_preferences_t \<Rightarrow> bool" where
  "prefs_fit p \<longleftrightarrow> length (prf_ssid p) \<le> 32 \<and> length (prf_password p) \<le> 64 \<and> length (prf_mdns_target p) \<le> 63 \<and>
     prf_language p < HMI_LANGUAGE_MAX"

definition scale_ok :: "hmi_user_preferences_t \<Rightarrow> bool" where
  "scale_ok p \<longleftrightarrow> 80 \<le> prf_text_scale_percent p \<and> prf_text_scale_percent p \<le> 140"

lemma sanitize_fit: "prefs_fit (sanitize_preferences p)" "scale_ok (sanitize_preferences p)"
  by (auto simp: prefs_fit_def scale_ok_def sanitize_preferences_def HMI_LANGUAGE_MAX_def HMI_LANGUAGE_EN_def not_less not_le)

lemma sanitize_fixed: "prefs_fit p \<Longrightarrow> scale_ok p \<Longrightarrow> sanitize_preferences p = p"
  by (auto simp: sanitize_preferences_def prefs_fit_def scale_ok_def dest: leD)

lemma sanitize_idem [simp]: "sanitize_preferences (sanitize_preferences p) = sanitize_preferences p"
  by (intro sanitize_fixed sanitize_fit)

lemma set_default_fit: "prefs_fit (hmi_data_model_set_default_preferences p)" "scale_ok (hmi_data_model_set_default_preferences p)"
  by (simp_all add: hmi_data_model_set_default_preferences_def sanitize_fit)

lemma init_fit:
  "prefs_fit (hdm_preferences (fst (hmi_data_model_init env s)))" "scale_ok (hdm_preferences (fst (hmi_data_model_init env s)))"
  by (auto simp: hmi_data_model_init_def Let_def sanitize_fit set_default_fit split: prod.split)

lemma set_preferences_fit:
  "prefs_fit (hdm_preferences m) \<Longrightarrow> prefs_fit (hdm_preferences (hmi_data_model_set_preferences took p m))"
  using length_cstr_copy [of 33 "prf_ssid p"] length_cstr_copy [of 65 "prf_password p"] length_cstr_copy [of 64 "prf_mdns_target p"]
  by (auto simp: hmi_data_model_set_preferences_def prefs_fit_def HMI_LANGUAGE_MAX_def HMI_LANGUAGE_EN_def)

text \<open>The calls of the user interface and of the network client on the model.\<close>

datatype hmi_call =
    SetUpdate proto_sensor_update_t
  | GetUpdate
  | SetConnected bool
  | SetCrcStatus bool
  | SetPreferences hmi_user_preferences_t
  | ResetPreferences

fun hmi_call_step :: "bool \<times> hmi_call \<Rightarrow> hmi_data_model_t \<Rightarrow> hmi_data_model_t" where
  "hmi_call_step (took, SetUpdate u) m = hmi_data_model_set_update took u m"
| "hmi_call_step (took, GetUpdate) m = snd (hmi_data_model_get_update took m)"
| "hmi_call_step (took, SetConnected b) m = hmi_data_model_set_connected took b m"
| "hmi_call_step (took, SetCrcStatus b) m = hmi_data_model_set_crc_status took b m"
| "hmi_call_step (took, SetPreferences p) m = hmi_data_model_set_preferences took p m"
| "hmi_call_step (took, ResetPreferences) m = hmi_data_model_reset_preferences took m"

definition hmi_call_ok :: "bool \<times> hmi_call \<Rightarrow> bool" where
  "hmi_call_ok c = (case snd c of SetPreferences p \<Rightarrow> scale_ok p | _ \<Rightarrow> True)"

lemma hmi_call_step_fit:
  "prefs_fit (hdm_preferences m) \<Longrightarrow> prefs_fit (hdm_preferences (hmi_call_step c m))"
  by (cases "(c, m)" rule: hmi_call_step.cases)
    (auto simp: set_preferences_fit set_default_fit hmi_data_model_set_update_def hmi_data_model_get_update_def
      hmi_data_model_set_connected_def hmi_data_model_set_crc_status_def hmi_data_model_reset_preferences_def)

lemma hmi_call_step_scale:
  "scale_ok (hdm_preferences m) \<Longrightarrow> hmi_call_ok c \<Longrightarrow> scale_ok (hdm_preferences (hmi_call_step c m))"
  by (cases "(c, m)" rule: hmi_call_step.cases)
    (auto simp: set_default_fit(2) [unfolded scale_ok_def] hmi_data_model_set_update_def hmi_data_model_get_update_def
      hmi_call_ok_def scale_ok_def hmi_data_model_set_preferences_def hmi_data_model_set_connected_def hmi_data_model_set_crc_status_def
      hmi_data_model_reset_preferences_def)

text \<open>
  From start-up on, whatever the flash holds and whatever calls follow, the preferences fit
  their arrays and name an existing language. The text scale stays within 80 and 140 per cent
  as long as no caller of \<^verbatim>\<open>hmi_data_model_set_preferences\<close>, which does not check it, supplies
  another one.
\<close>

theorem hmi_preferences_sane:
  assumes "m = fold hmi_call_step calls (fst (hmi_data_model_init env s))"
  shows "prefs_fit (hdm_preferences m) \<and> ((\<forall>c \<in> set calls. hmi_call_ok c) \<longrightarrow> scale_ok (hdm_preferences m))"
proof -
  have fit: "prefs_fit (hdm_preferences m) \<Longrightarrow> prefs_fit (hdm_preferences (fold hmi_call_step calls m))" for m
    by (induction calls arbitrary: m) (auto intro: hmi_call_step_fit)
  have scale: "scale_ok (hdm_preferences m) \<Longrightarrow> \<forall>c \<in> set calls. hmi_call_ok c \<Longrightarrow> scale_ok (hdm_preferences (fold hmi_call_step calls m))" for m
    by (induction calls arbitrary: m) (auto intro: hmi_call_step_scale)
  show ?thesis unfolding assms using fit [OF init_fit(1)] scale [OF init_fit(2)] by blast
qed

definition demo_nvs :: nvs_env where
  "demo_nvs = \<lparr>nvs_result = (\<lambda>log c. ESP_OK),
     nvs_blob = (\<lambda>log. case find (\<lambda>c. case c of NvsSetBlob _ \<Rightarrow> True | _ \<Rightarrow> False) log of
        Some (NvsSetBlob p) \<Rightarrow> (p, PREFS_SIZE) | _ \<Rightarrow> (zero_preferences, 0))\<rparr>"

definition demo_store :: prefs_store where
  "demo_store = \<lparr>ps_ready = False, ps_log = []\<rparr>"

definition demo_prefs :: hmi_user_preferences_t where
  "demo_prefs = zero_preferences\<lparr>prf_ssid := ''home'', prf_text_scale_percent := 120, prf_language := 7\<rparr>"

theorem hmi_preferences_sane_witness:
  "prefs_fit (hdm_preferences (fold hmi_call_step [(True, SetPreferences demo_prefs)] (fst (hmi_data_model_init demo_nvs demo_store)))) \<and>
   scale_ok (hdm_preferences (fold hmi_call_step [(True, SetPreferences demo_prefs)] (fst (hmi_data_model_init demo_nvs demo_store))))"
  using hmi_preferences_sane [OF refl, of "[(True, SetPreferences demo_prefs)]" demo_nvs demo_store]
  by (simp add: hmi_call_ok_def scale_ok_def demo_prefs_def)

text \<open>What the missing check lets through: the text scale of the caller is kept as it is.\<close>

lemma set_preferences_keeps_scale:
  "hdm_mutex m \<Longrightarrow>
   prf_text_scale_percent (hdm_preferences (hmi_data_model_set_preferences True p m)) = prf_text_scale_percent p"
  by (simp add: hmi_data_model_set_preferences_def hmi_model_lock_def)

section \<open>The latest update\<close>

text \<open>
  A mailbox of one place: \<open>put\<close> replaces what is there, \<open>take_out\<close> empties it. A reader that
  looks after some puts gets the last of them, once.
\<close>

locale mailbox =
  fixes put :: "'a \<Rightarrow> 's \<Rightarrow> 's" and take_out :: "'s \<Rightarrow> 'a option \<times> 's" and usable :: "'s \<Rightarrow> bool"
  assumes usable_put: "usable s \<Longrightarrow> usable (put a s)" and usable_take: "usable s \<Longrightarrow> usable (snd (take_out s))"
    and take_put: "usable s \<Longrightarrow> fst (take_out (put a s)) = Some a"
    and take_take: "usable s \<Longrightarrow> fst (take_out (snd (take_out s))) = None"
begin

lemma usable_puts: "usable s \<Longrightarrow> usable (fold put xs s)"
  by (induction xs arbitrary: s) (auto simp: usable_put)

lemma take_last: "usable s \<Longrightarrow> xs \<noteq> [] \<Longrightarrow> fst (take_out (fold put xs s)) = Some (last xs)"
  by (induction xs rule: rev_induct) (auto simp: take_put usable_puts)

lemma taken_once: "usable s \<Longrightarrow> fst (take_out (snd (take_out (fold put xs s)))) = None"
  by (simp add: take_take usable_puts)

end

interpretation hmi_mailbox: mailbox "hmi_data_model_set_update True" "hmi_data_model_get_update True" hdm_mutex
  by unfold_locales (auto simp: hmi_data_model_set_update_def hmi_data_model_get_update_def hmi_model_lock_def)

text \<open>
  Of the updates that arrived since it last looked, the user interface gets the latest one,
  exactly once, while the mutex is free.
\<close>

theorem hmi_latest_update_once:
  assumes "hdm_mutex m" "us \<noteq> []" "m' = fold (hmi_data_model_set_update True) us m"
  shows "fst (hmi_data_model_get_update True m') = Some (last us) \<and>
    fst (hmi_data_model_get_update True (snd (hmi_data_model_get_update True m'))) = None"
  unfolding assms(3) using hmi_mailbox.take_last [OF assms(1,2)] hmi_mailbox.taken_once [OF assms(1)] by blast

theorem hmi_latest_update_once_witness:
  "fst (hmi_data_model_get_update True (fold (hmi_data_model_set_update True) [demo_update, zero_sensor_update]
     (fst (hmi_data_model_init demo_nvs demo_store)))) = Some zero_sensor_update"
proof -
  have "hdm_mutex (fst (hmi_data_model_init demo_nvs demo_store))"
    by (auto simp: hmi_data_model_init_def Let_def split: prod.split)
  from hmi_latest_update_once [OF this _ refl, of "[demo_update, zero_sensor_update]"] show ?thesis by simp
qed

section \<open>Preferences survive a restart\<close>

text \<open>The preferences that flash holds after a log of calls, and a flash that keeps them.\<close>

fun stored_blob :: "nvs_call list \<Rightarrow> hmi_user_preferences_t option" where
  "stored_blob [] = None"
| "stored_blob (NvsSetBlob p # evs) = Some p"
| "stored_blob (NvsEraseKey # evs) = None"
| "stored_blob (FlashErase # evs) = None"
| "stored_blob (c # evs) = stored_blob evs"

definition nvs_keeps :: "nvs_env \<Rightarrow> bool" where
  "nvs_keeps env \<longleftrightarrow> (\<forall>evs p. stored_blob evs = Some p \<longrightarrow> nvs_blob env evs = (p, PREFS_SIZE))"

lemma ensure_secure_nvs_ok: "ensure_secure_nvs env s = (ESP_OK, s') \<Longrightarrow> ps_ready s'"
  by (auto simp: ensure_secure_nvs_def secure_init_keys_def secure_init_erase_def nvs_do_def split: if_splits prod.splits sum.splits)

text \<open>
  Preferences that were saved are loaded again. When a save succeeds and nothing else
  is written, a later load either reports an error of the flash or returns the saved
  preferences, made sane.
\<close>

theorem hmi_prefs_store_roundtrip:
  assumes "hmi_prefs_store_save env p s = (ESP_OK, s1)" "nvs_keeps env"
    and "hmi_prefs_store_load env s1 = (err, q, s2)"
  shows "ps_ready s1 \<and> (err = ESP_OK \<longrightarrow> q = sanitize_preferences p) \<and>
    ((\<forall>evs c. nvs_result env evs c = ESP_OK) \<longrightarrow> err = ESP_OK)"
proof -
  obtain s0 where "ensure_secure_nvs env s = (ESP_OK, s0)"
    and s1: "ps_log s1 = NvsClose # NvsCommit # NvsSetBlob (sanitize_preferences p) # NvsOpen True # ps_log s0" "ps_ready s1 = ps_ready s0"
    using assms(1) by (auto simp: hmi_prefs_store_save_def nvs_do_def split: prod.splits if_splits)
  then have ready: "ps_ready s1" using ensure_secure_nvs_ok by metis
  have "stored_blob (NvsOpen False # ps_log s1) = Some (sanitize_preferences p)" by (simp add: s1)
  then have "nvs_blob env (NvsOpen False # ps_log s1) = (sanitize_preferences p, PREFS_SIZE)"
    using assms(2) by (simp add: nvs_keeps_def)
  with assms(3) ready show ?thesis
    by (auto simp: hmi_prefs_store_load_def ensure_secure_nvs_def nvs_do_def split: prod.splits if_splits)
qed

theorem hmi_prefs_store_roundtrip_witness:
  "fst (snd (hmi_prefs_store_load demo_nvs (snd (hmi_prefs_store_save demo_nvs demo_prefs demo_store)))) =
     demo_prefs\<lparr>prf_language := HMI_LANGUAGE_EN\<rparr>"
proof -
  let ?s1 = "snd (hmi_prefs_store_save demo_nvs demo_prefs demo_store)"
  have keeps: "nvs_keeps demo_nvs"
    unfolding nvs_keeps_def
  proof (intro allI impI)
    show "stored_blob evs = Some p \<Longrightarrow> nvs_blob demo_nvs evs = (p, PREFS_SIZE)" for evs p
      by (induction evs rule: stored_blob.induct) (auto simp: demo_nvs_def)
  qed
  have ok: "nvs_result demo_nvs evs c = ESP_OK" for evs c by (simp add: demo_nvs_def)
  have save: "hmi_prefs_store_save demo_nvs demo_prefs demo_store = (ESP_OK, ?s1)"
    by (simp add: hmi_prefs_store_save_def ensure_secure_nvs_def secure_init_keys_def secure_init_erase_def nvs_do_def ok
        demo_store_def)
  obtain err q s2 where load: "hmi_prefs_store_load demo_nvs ?s1 = (err, q, s2)" by (metis prod_cases3)
  have "q = sanitize_preferences demo_prefs" using hmi_prefs_store_roundtrip [OF save keeps load] ok by blast
  then show ?thesis using load
    by (simp add: sanitize_preferences_def demo_prefs_def zero_preferences_def HMI_LANGUAGE_MAX_def HMI_LANGUAGE_EN_def)
qed

end
