(* ===== verification/I2cBus.thy ===== *)
theory I2cBus
  imports Prelude
begin

text \<open>
  The I2C bus of the sensor node, \<^verbatim>\<open>sensor_node/main/i2c_bus.c\<close>, with the list of devices
  of \<^verbatim>\<open>sensor_node/main/io/io_map.h\<close>. The ESP-IDF driver is the environment: every call of it
  is an event of the log, newest first, and its result is a function of the log before it. A
  transaction is the list of operations queued in its command link.
\<close>

section \<open>The devices expected\<close>

definition IO_MAX_AMBIENT_SENSORS :: nat where "IO_MAX_AMBIENT_SENSORS = 2"
definition IO_MUX_CHANNEL_NONE :: int where "IO_MUX_CHANNEL_NONE = - 1"

datatype io_ambient_sensor_type_t = IO_AMBIENT_SENSOR_NONE | IO_AMBIENT_SENSOR_SHT20 | IO_AMBIENT_SENSOR_BME280
datatype io_pwm_backend_t = IO_PWM_BACKEND_NONE | IO_PWM_BACKEND_PCA9685 | IO_PWM_BACKEND_TLC5947

record io_ambient_sensor_t =
  amb_type :: io_ambient_sensor_type_t
  amb_address :: u8
  amb_mux_address :: u8
  amb_mux_channel :: int

record io_map_t =
  map_ambient :: "io_ambient_sensor_t list"
  map_ambient_count :: nat
  map_pwm_backend :: io_pwm_backend_t
  map_pca9685_address :: u8
  map_mcp23017_addresses :: "u8 list"

section \<open>The driver\<close>

datatype i2c_op = OpStart | OpByte u8 | OpWrite bytes | OpRead nat | OpReadByte | OpStop

datatype i2c_event =
    BusLock | BusUnlock
  | LinkCreate | LinkDelete
  | QueueOp i2c_op
  | CmdBegin "i2c_op list"
  | ParamConfig | DriverInstall | DriverDelete
  | GpioConfigOpenDrain | SclLevel bool | SdaLevel bool | ResetPins
  | DelayMs nat

record i2c_env =
  i2c_link :: "i2c_event list \<Rightarrow> bool"
  i2c_queue :: "i2c_event list \<Rightarrow> i2c_op \<Rightarrow> esp_err"
  i2c_begin :: "i2c_event list \<Rightarrow> i2c_op list \<Rightarrow> esp_err \<times> bytes"
  i2c_param_config :: "i2c_event list \<Rightarrow> esp_err"
  i2c_driver_install :: "i2c_event list \<Rightarrow> esp_err"

record i2c_bus =
  bus_initialized :: bool
  bus_mutex :: bool
  bus_consecutive_failures :: u8
  bus_log :: "i2c_event list"

definition bus_emit :: "i2c_event \<Rightarrow> i2c_bus \<Rightarrow> i2c_bus" where
  "bus_emit ev s = s\<lparr>bus_log := ev # bus_log s\<rparr>"

definition i2c_bus_lock :: "i2c_bus \<Rightarrow> i2c_bus" where
  "i2c_bus_lock s = (if bus_mutex s then bus_emit BusLock s else s)"

definition i2c_bus_unlock :: "i2c_bus \<Rightarrow> i2c_bus" where
  "i2c_bus_unlock s = (if bus_mutex s then bus_emit BusUnlock s else s)"

definition i2c_bus_apply_config :: "i2c_env \<Rightarrow> i2c_bus \<Rightarrow> esp_err \<times> i2c_bus" where
  "i2c_bus_apply_config env s =
     (let err = i2c_param_config env (bus_log s); s = bus_emit ParamConfig s in
      if err \<noteq> ESP_OK then (err, s)
      else (i2c_driver_install env (bus_log s), bus_emit DriverInstall s))"

definition i2c_bus_force_idle :: "i2c_bus \<Rightarrow> i2c_bus" where
  "i2c_bus_force_idle s =
     (let s = bus_emit (SdaLevel True) (bus_emit GpioConfigOpenDrain s);
          s = for_loop (\<lambda>i s. bus_emit (SclLevel True) (bus_emit (SclLevel False) s)) 16 0 s
      in bus_emit ResetPins s)"

definition i2c_bus_recover_locked :: "i2c_env \<Rightarrow> i2c_bus \<Rightarrow> esp_err \<times> i2c_bus" where
  "i2c_bus_recover_locked env s = i2c_bus_apply_config env (i2c_bus_force_idle (bus_emit DriverDelete s))"

definition I2C_RECOVER_THRESHOLD :: u8 where "I2C_RECOVER_THRESHOLD = 3"
definition I2C_BACKOFF_BASE_MS :: nat where "I2C_BACKOFF_BASE_MS = 5"
definition I2C_SCAN_ADDR_MIN :: nat where "I2C_SCAN_ADDR_MIN = 0x08"
definition I2C_SCAN_ADDR_MAX :: nat where "I2C_SCAN_ADDR_MAX = 0x77"

definition i2c_bus_cmd_begin :: "i2c_env \<Rightarrow> i2c_op list \<Rightarrow> i2c_bus \<Rightarrow> (esp_err \<times> bytes) \<times> i2c_bus" where
  "i2c_bus_cmd_begin env ops s =
     (let (err, rd) = i2c_begin env (bus_log s) ops; s = bus_emit (CmdBegin ops) s in
      if err = ESP_OK then ((ESP_OK, rd), s\<lparr>bus_consecutive_failures := 0\<rparr>)
      else
        let s = s\<lparr>bus_consecutive_failures := bus_consecutive_failures s + 1\<rparr> in
        if bus_consecutive_failures s \<ge> I2C_RECOVER_THRESHOLD then
          (case i2c_bus_recover_locked env s of (rerr, s) \<Rightarrow>
             ((err, rd), if rerr = ESP_OK then s\<lparr>bus_consecutive_failures := 0\<rparr> else s))
        else ((err, rd), s))"

text \<open>The operations of a transaction, and queueing them until one is refused.\<close>

definition i2c_ops :: "u8 \<Rightarrow> bytes \<Rightarrow> nat \<Rightarrow> i2c_op list" where
  "i2c_ops addr wr rd_len =
     [OpStart] @ (if wr \<noteq> [] then [OpByte (push_bit 1 addr), OpWrite wr] else []) @
     (if rd_len > 0 then
        (if wr \<noteq> [] then [OpStart] else []) @ [OpByte (push_bit 1 addr OR 1)] @
        (if rd_len > 1 then [OpRead (rd_len - 1)] else []) @ [OpReadByte]
      else []) @ [OpStop]"

fun queue_ops :: "i2c_env \<Rightarrow> i2c_op list \<Rightarrow> i2c_bus \<Rightarrow> esp_err \<times> i2c_bus" where
  "queue_ops env [] s = (ESP_OK, s)"
| "queue_ops env (op # ops) s =
     (let err = i2c_queue env (bus_log s) op; s = bus_emit (QueueOp op) s in
      if err = ESP_OK then queue_ops env ops s else (err, s))"

definition i2c_transaction :: "i2c_env \<Rightarrow> i2c_op list \<Rightarrow> i2c_bus \<Rightarrow> (esp_err \<times> bytes) \<times> i2c_bus" where
  "i2c_transaction env ops s =
     (case queue_ops env ops s of (cmd_err, s) \<Rightarrow>
      case (if cmd_err = ESP_OK then i2c_bus_cmd_begin env ops s else ((cmd_err, []), s)) of (r, s) \<Rightarrow>
        (r, bus_emit LinkDelete s))"

fun i2c_attempts :: "i2c_env \<Rightarrow> i2c_op list \<Rightarrow> nat \<Rightarrow> nat \<Rightarrow> esp_err \<times> bytes \<Rightarrow> i2c_bus \<Rightarrow> (esp_err \<times> bytes) \<times> i2c_bus" where
  "i2c_attempts env ops 0 attempt r s = (r, i2c_bus_unlock s)"
| "i2c_attempts env ops (Suc n) attempt r s =
     (let made = i2c_link env (bus_log s); s = bus_emit LinkCreate s in
      if \<not> made then ((ESP_ERR_NO_MEM, []), i2c_bus_unlock s)
      else case i2c_transaction env ops s of (r, s) \<Rightarrow>
        if fst r = ESP_OK then (r, i2c_bus_unlock s)
        else i2c_attempts env ops n (Suc attempt) r (bus_emit (DelayMs (I2C_BACKOFF_BASE_MS * 2 ^ attempt)) s))"

definition i2c_master_cmd :: "i2c_env \<Rightarrow> u8 \<Rightarrow> bytes \<Rightarrow> nat \<Rightarrow> i2c_bus \<Rightarrow> (esp_err \<times> bytes) \<times> i2c_bus" where
  "i2c_master_cmd env addr wr rd_len s =
     (if \<not> bus_initialized s then ((ESP_ERR_INVALID_STATE, []), s)
      else i2c_attempts env (i2c_ops addr wr rd_len) 3 0 (ESP_FAIL, []) (i2c_bus_lock s))"

definition i2c_bus_read :: "i2c_env \<Rightarrow> u8 \<Rightarrow> nat \<Rightarrow> i2c_bus \<Rightarrow> (esp_err \<times> bytes) \<times> i2c_bus" where
  "i2c_bus_read env addr len s = i2c_master_cmd env addr [] len s"

definition i2c_bus_write :: "i2c_env \<Rightarrow> u8 \<Rightarrow> bytes \<Rightarrow> i2c_bus \<Rightarrow> esp_err \<times> i2c_bus" where
  "i2c_bus_write env addr wr s = (case i2c_master_cmd env addr wr 0 s of ((err, _), s) \<Rightarrow> (err, s))"

definition i2c_bus_write_read :: "i2c_env \<Rightarrow> u8 \<Rightarrow> bytes \<Rightarrow> nat \<Rightarrow> i2c_bus \<Rightarrow> (esp_err \<times> bytes) \<times> i2c_bus" where
  "i2c_bus_write_read env addr wr rd_len s = i2c_master_cmd env addr wr rd_len s"

section \<open>Probing and starting\<close>

definition i2c_bus_probe :: "i2c_env \<Rightarrow> nat \<Rightarrow> i2c_bus \<Rightarrow> (esp_err \<times> bool) \<times> i2c_bus" where
  "i2c_bus_probe env addr s =
     (if addr < I2C_SCAN_ADDR_MIN \<or> addr > I2C_SCAN_ADDR_MAX then ((ESP_ERR_INVALID_ARG, False), s)
      else
        let s = i2c_bus_lock s; made = i2c_link env (bus_log s); s = bus_emit LinkCreate s in
        if \<not> made then ((ESP_ERR_NO_MEM, False), i2c_bus_unlock s)
        else case i2c_transaction env [OpStart, OpByte (push_bit 1 (of_nat addr)), OpStop] s of ((err, _), s) \<Rightarrow>
          ((err, err = ESP_OK), i2c_bus_unlock s))"

text \<open>What the scan reports: the addresses seen, those expected but absent, those present but not expected.\<close>

definition expected_addresses :: "io_map_t \<Rightarrow> nat list" where
  "expected_addresses mp =
     (let amb = take (min (map_ambient_count mp) IO_MAX_AMBIENT_SENSORS) (map_ambient mp); low = (\<lambda>a :: u8. unat (a AND 0x7F))
      in map (\<lambda>a. low (amb_address a)) (filter (\<lambda>a. amb_address a AND 0x7F \<noteq> 0) amb) @
         map (\<lambda>a. low (amb_mux_address a)) (filter (\<lambda>a. amb_mux_channel a \<noteq> IO_MUX_CHANNEL_NONE \<and> amb_mux_address a \<noteq> 0) amb) @
         map low (take 2 (map_mcp23017_addresses mp)) @
         (if map_pwm_backend mp = IO_PWM_BACKEND_PCA9685 \<and> map_pca9685_address mp \<noteq> 0 then [low (map_pca9685_address mp)] else []))"

fun scan_addresses :: "i2c_env \<Rightarrow> nat list \<Rightarrow> i2c_bus \<Rightarrow> nat list \<times> i2c_bus" where
  "scan_addresses env [] s = ([], s)"
| "scan_addresses env (addr # addrs) s =
     (case i2c_bus_probe env addr s of ((err, present), s) \<Rightarrow>
      case scan_addresses env addrs s of (seen, s) \<Rightarrow>
        (if err = ESP_OK \<and> present then addr # seen else seen, s))"

definition i2c_bus_scan :: "i2c_env \<Rightarrow> io_map_t \<Rightarrow> i2c_bus \<Rightarrow> (nat list \<times> nat list) \<times> i2c_bus" where
  "i2c_bus_scan env mp s =
     (case scan_addresses env [I2C_SCAN_ADDR_MIN..<I2C_SCAN_ADDR_MAX + 1] s of (seen, s) \<Rightarrow>
        ((filter (\<lambda>a. a \<in> set (expected_addresses mp) \<and> a \<notin> set seen) [0..<128],
          filter (\<lambda>a. a \<notin> set (expected_addresses mp) \<and> a \<in> set seen) [0..<128]), s))"

definition i2c_bus_init :: "i2c_env \<Rightarrow> io_map_t \<Rightarrow> bool \<Rightarrow> i2c_bus \<Rightarrow> esp_err \<times> i2c_bus" where
  "i2c_bus_init env mp mutex_made s =
     (if bus_initialized s then (ESP_OK, s)
      else case i2c_bus_apply_config env s of (err, s) \<Rightarrow>
        if err \<noteq> ESP_OK then (err, s)
        else if \<not> bus_mutex s \<and> \<not> mutex_made then (ESP_ERR_NO_MEM, s)
        else (ESP_OK, snd (i2c_bus_scan env mp
               (s\<lparr>bus_mutex := True, bus_consecutive_failures := 0, bus_initialized := True\<rparr>))))"

section \<open>Counting events\<close>

definition events :: "(i2c_event \<Rightarrow> bool) \<Rightarrow> i2c_bus \<Rightarrow> nat" where
  "events P s = length (filter P (bus_log s))"

lemma events_emit [simp]: "events P (bus_emit ev s) = (if P ev then Suc (events P s) else events P s)"
  by (simp add: events_def bus_emit_def)

lemma events_update [simp]: "events P (s\<lparr>bus_consecutive_failures := n\<rparr>) = events P s"
  by (simp add: events_def)

lemma bus_emit_simps [simp]:
  "bus_consecutive_failures (bus_emit ev s) = bus_consecutive_failures s" "bus_mutex (bus_emit ev s) = bus_mutex s"
  "bus_initialized (bus_emit ev s) = bus_initialized s"
  by (simp_all add: bus_emit_def)

definition is_begin :: "i2c_event \<Rightarrow> bool" where "is_begin ev = (case ev of CmdBegin _ \<Rightarrow> True | _ \<Rightarrow> False)"

definition bus_plumbing :: "(i2c_event \<Rightarrow> bool) \<Rightarrow> bool" where
  "bus_plumbing P \<longleftrightarrow> \<not> P ParamConfig \<and> \<not> P DriverInstall \<and> \<not> P GpioConfigOpenDrain \<and> \<not> P ResetPins \<and>
     (\<forall>b. \<not> P (SclLevel b) \<and> \<not> P (SdaLevel b)) \<and> (\<forall>op. \<not> P (QueueOp op)) \<and> (\<forall>n. \<not> P (DelayMs n))"

lemma idle_loop_events: "bus_plumbing P \<Longrightarrow>
   events P (for_loop (\<lambda>i s. bus_emit (SclLevel True) (bus_emit (SclLevel False) s)) n i s) = events P s"
  by (induction n arbitrary: i s) (simp_all add: bus_plumbing_def)

lemma recover_events:
  assumes "bus_plumbing P"
  shows "events P (snd (i2c_bus_recover_locked env s)) = events P s + (if P DriverDelete then 1 else 0)"
  using idle_loop_events [OF assms] assms
  by (simp add: i2c_bus_recover_locked_def i2c_bus_apply_config_def i2c_bus_force_idle_def bus_plumbing_def Let_def)

lemma idle_loop_fields:
  "bus_mutex (for_loop (\<lambda>i s. bus_emit (SclLevel True) (bus_emit (SclLevel False) s)) n i s) = bus_mutex s"
  "bus_initialized (for_loop (\<lambda>i s. bus_emit (SclLevel True) (bus_emit (SclLevel False) s)) n i s) = bus_initialized s"
  "bus_consecutive_failures (for_loop (\<lambda>i s. bus_emit (SclLevel True) (bus_emit (SclLevel False) s)) n i s) = bus_consecutive_failures s"
  by (induction n arbitrary: i s) simp_all

lemma recover_fields [simp]:
  "bus_mutex (snd (i2c_bus_recover_locked env s)) = bus_mutex s"
  "bus_initialized (snd (i2c_bus_recover_locked env s)) = bus_initialized s"
  "bus_consecutive_failures (snd (i2c_bus_recover_locked env s)) = bus_consecutive_failures s"
  by (simp_all add: i2c_bus_recover_locked_def i2c_bus_apply_config_def i2c_bus_force_idle_def idle_loop_fields Let_def)

lemma queue_ops_keeps:
  "queue_ops env ops s = (err, s') \<Longrightarrow> bus_plumbing P \<Longrightarrow> events P s' = events P s \<and> bus_mutex s' = bus_mutex s \<and>
     bus_initialized s' = bus_initialized s \<and> bus_consecutive_failures s' = bus_consecutive_failures s"
  by (induction ops arbitrary: s) (auto simp: bus_plumbing_def Let_def split: if_splits)

text \<open>A driver that can always be installed again.\<close>

definition reinstallable :: "i2c_env \<Rightarrow> bool" where
  "reinstallable env \<longleftrightarrow> (\<forall>evs. i2c_param_config env evs = ESP_OK \<and> i2c_driver_install env evs = ESP_OK)"

lemma recover_ok: "reinstallable env \<Longrightarrow> fst (i2c_bus_recover_locked env s) = ESP_OK"
  by (simp add: reinstallable_def i2c_bus_recover_locked_def i2c_bus_apply_config_def Let_def)

lemma cmd_begin_spec:
  assumes "i2c_bus_cmd_begin env ops s = (r, s')" "bus_plumbing P"
  shows "r = i2c_begin env (bus_log s) ops" "bus_mutex s' = bus_mutex s" "bus_initialized s' = bus_initialized s"
    "events P s' = events P s + (if P (CmdBegin ops) then 1 else 0) +
       (if P DriverDelete \<and> fst r \<noteq> ESP_OK \<and> bus_consecutive_failures s + 1 \<ge> I2C_RECOVER_THRESHOLD then 1 else 0)"
    "reinstallable env \<Longrightarrow> bus_consecutive_failures s' =
       (if fst r = ESP_OK \<or> bus_consecutive_failures s + 1 \<ge> I2C_RECOVER_THRESHOLD then 0 else bus_consecutive_failures s + 1)"
  using assms recover_ok [of env] recover_fields [of env] recover_events [OF assms(2), of env]
  by (auto simp: i2c_bus_cmd_begin_def Let_def case_prod_unfold prod_eq_iff split: if_splits)

section \<open>Transactions\<close>

lemma plumbing_simps [simp]:
  "bus_plumbing is_begin" "bus_plumbing ((=) BusLock)" "bus_plumbing ((=) BusUnlock)" "bus_plumbing ((=) DriverDelete)"
  "is_begin (CmdBegin ops)" "\<not> is_begin BusLock" "\<not> is_begin BusUnlock" "\<not> is_begin LinkCreate" "\<not> is_begin LinkDelete"
  "\<not> is_begin (DelayMs n)" "\<not> is_begin DriverDelete"
  by (auto simp: bus_plumbing_def is_begin_def)

lemma transaction_spec:
  assumes "i2c_transaction env ops s = (r, s')"
  shows "bus_mutex s' = bus_mutex s" "bus_initialized s' = bus_initialized s"
    "events is_begin s' \<le> events is_begin s + 1"
    "events ((=) BusLock) s' = events ((=) BusLock) s" "events ((=) BusUnlock) s' = events ((=) BusUnlock) s"
    "fst r = ESP_OK \<Longrightarrow> \<exists>evs. i2c_begin env evs ops = r"
    "reinstallable env \<Longrightarrow> bus_consecutive_failures s < 3 \<Longrightarrow> bus_consecutive_failures s' < 3"
proof -
  obtain cmd_err s1 where q: "queue_ops env ops s = (cmd_err, s1)" by fastforce
  note keep = queue_ops_keeps [OF q]
  consider "cmd_err \<noteq> ESP_OK" "r = (cmd_err, [])" "s' = bus_emit LinkDelete s1"
    | s2 where "cmd_err = ESP_OK" "i2c_bus_cmd_begin env ops s1 = (r, s2)" "s' = bus_emit LinkDelete s2"
    using assms q by (auto simp: i2c_transaction_def split: prod.splits if_splits)
  then have "bus_mutex s' = bus_mutex s \<and> bus_initialized s' = bus_initialized s \<and>
    events is_begin s' \<le> events is_begin s + 1 \<and>
    events ((=) BusLock) s' = events ((=) BusLock) s \<and> events ((=) BusUnlock) s' = events ((=) BusUnlock) s \<and>
    (fst r = ESP_OK \<longrightarrow> (\<exists>evs. i2c_begin env evs ops = r)) \<and>
    (reinstallable env \<longrightarrow> bus_consecutive_failures s < 3 \<longrightarrow> bus_consecutive_failures s' < 3)"
  proof cases
    case 1
    then show ?thesis
      using keep [OF plumbing_simps(1)] keep [OF plumbing_simps(2)] keep [OF plumbing_simps(3)] by auto
  next
    case (2 s2)
    note b = cmd_begin_spec [OF 2(2)]
    have "bus_consecutive_failures s2 < 3" if "reinstallable env" "bus_consecutive_failures s1 < 3"
      using b(5) [OF plumbing_simps(1) that(1)] by (simp add: I2C_RECOVER_THRESHOLD_def not_le)
    then show ?thesis
      using 2(3) keep [OF plumbing_simps(1)] keep [OF plumbing_simps(2)] keep [OF plumbing_simps(3)] b(1,2,3) [OF plumbing_simps(1)] b(4) [OF plumbing_simps(1)] b(4) [OF plumbing_simps(2)]
        b(4) [OF plumbing_simps(3)] by auto
  qed
  then show "bus_mutex s' = bus_mutex s" "bus_initialized s' = bus_initialized s"
    "events is_begin s' \<le> events is_begin s + 1"
    "events ((=) BusLock) s' = events ((=) BusLock) s" "events ((=) BusUnlock) s' = events ((=) BusUnlock) s"
    "fst r = ESP_OK \<Longrightarrow> \<exists>evs. i2c_begin env evs ops = r"
    "reinstallable env \<Longrightarrow> bus_consecutive_failures s < 3 \<Longrightarrow> bus_consecutive_failures s' < 3" by blast+
qed

lemma lock_simps [simp]:
  "bus_mutex (i2c_bus_lock s) = bus_mutex s" "bus_mutex (i2c_bus_unlock s) = bus_mutex s"
  "bus_initialized (i2c_bus_lock s) = bus_initialized s" "bus_initialized (i2c_bus_unlock s) = bus_initialized s"
  "bus_consecutive_failures (i2c_bus_lock s) = bus_consecutive_failures s"
  "bus_consecutive_failures (i2c_bus_unlock s) = bus_consecutive_failures s"
  "events is_begin (i2c_bus_lock s) = events is_begin s" "events is_begin (i2c_bus_unlock s) = events is_begin s"
  "bus_mutex s \<Longrightarrow> events ((=) BusLock) (i2c_bus_lock s) = Suc (events ((=) BusLock) s)"
  "bus_mutex s \<Longrightarrow> events ((=) BusUnlock) (i2c_bus_unlock s) = Suc (events ((=) BusUnlock) s)"
  "events ((=) BusUnlock) (i2c_bus_lock s) = events ((=) BusUnlock) s"
  "events ((=) BusLock) (i2c_bus_unlock s) = events ((=) BusLock) s"
  by (simp_all add: i2c_bus_lock_def i2c_bus_unlock_def)

text \<open>What a run of attempts may do to the state; attempts compose.\<close>

definition attempts_ok :: "i2c_env \<Rightarrow> i2c_op list \<Rightarrow> nat \<Rightarrow> i2c_bus \<Rightarrow> esp_err \<times> bytes \<Rightarrow> i2c_bus \<Rightarrow> bool" where
  "attempts_ok env ops n s r s' \<longleftrightarrow>
     bus_mutex s' = bus_mutex s \<and> bus_initialized s' = bus_initialized s \<and>
     events is_begin s' \<le> events is_begin s + n \<and>
     events ((=) BusLock) s' = events ((=) BusLock) s \<and>
     (bus_mutex s \<longrightarrow> events ((=) BusUnlock) s' = Suc (events ((=) BusUnlock) s)) \<and>
     (fst r = ESP_OK \<longrightarrow> (\<exists>evs. i2c_begin env evs ops = r)) \<and>
     (reinstallable env \<and> bus_consecutive_failures s < 3 \<longrightarrow> bus_consecutive_failures s' < 3)"

lemma i2c_attempts_ok:
  "i2c_attempts env ops n attempt r0 s = (r, s') \<Longrightarrow> fst r0 \<noteq> ESP_OK \<Longrightarrow> attempts_ok env ops n s r s'"
proof (induction n arbitrary: attempt r0 s)
  case 0
  then show ?case by (auto simp: attempts_ok_def)
next
  case (Suc n)
  let ?s = "bus_emit LinkCreate s"
  obtain r1 s1 where t: "i2c_transaction env ops ?s = (r1, s1)" by fastforce
  note spec = transaction_spec [OF t]
  show ?case
  proof (cases "i2c_link env (bus_log s) \<and> fst r1 \<noteq> ESP_OK")
    case True
    then have "i2c_attempts env ops n (Suc attempt) r1 (bus_emit (DelayMs (I2C_BACKOFF_BASE_MS * 2 ^ attempt)) s1) = (r, s')"
      using Suc.prems t by (simp add: Let_def)
    from Suc.IH [OF this] True show ?thesis using spec by (auto simp: attempts_ok_def)
  next
    case False
    with Suc.prems t have "\<not> i2c_link env (bus_log s) \<and> r = (ESP_ERR_NO_MEM, []) \<and> s' = i2c_bus_unlock ?s \<or>
        i2c_link env (bus_log s) \<and> r = r1 \<and> s' = i2c_bus_unlock s1" by (auto simp: Let_def split: if_splits)
    then show ?thesis using spec by (auto simp: attempts_ok_def)
  qed
qed

text \<open>
  C35. A call on the bus makes at most three transactions, takes and releases the bus mutex once,
  and reports success only with the bytes of a transaction that the driver completed. As long
  as the driver can be re-installed, the failure counter stays below the threshold of three.
\<close>

theorem i2c_master_cmd_bounded:
  assumes "bus_initialized s" "bus_mutex s" "i2c_master_cmd env addr wr rd_len s = ((err, rd), s')"
  shows "events is_begin s' \<le> events is_begin s + 3 \<and>
    events ((=) BusLock) s' = Suc (events ((=) BusLock) s) \<and> events ((=) BusUnlock) s' = Suc (events ((=) BusUnlock) s) \<and>
    (err = ESP_OK \<longrightarrow> (\<exists>evs. i2c_begin env evs (i2c_ops addr wr rd_len) = (ESP_OK, rd))) \<and>
    (reinstallable env \<and> bus_consecutive_failures s < 3 \<longrightarrow> bus_consecutive_failures s' < 3)"
proof -
  have "i2c_attempts env (i2c_ops addr wr rd_len) 3 0 (ESP_FAIL, []) (i2c_bus_lock s) = ((err, rd), s')"
    using assms(1,3) by (simp add: i2c_master_cmd_def)
  from i2c_attempts_ok [OF this] assms(2) show ?thesis by (auto simp: attempts_ok_def)
qed

text \<open>A driver over which nothing answers, and one over which everything does.\<close>

definition empty_bus :: i2c_env where
  "empty_bus = \<lparr>i2c_link = (\<lambda>_. True), i2c_queue = (\<lambda>_ _. ESP_OK), i2c_begin = (\<lambda>_ _. (ESP_FAIL, [])),
     i2c_param_config = (\<lambda>_. ESP_OK), i2c_driver_install = (\<lambda>_. ESP_OK)\<rparr>"

definition ready_bus :: i2c_bus where
  "ready_bus = \<lparr>bus_initialized = True, bus_mutex = True, bus_consecutive_failures = 0, bus_log = []\<rparr>"

theorem i2c_master_cmd_bounded_witness:
  "events is_begin (snd (i2c_master_cmd empty_bus 0x40 [0xFE] 0 ready_bus)) \<le> 3"
proof -
  obtain err rd s' where c: "i2c_master_cmd empty_bus 0x40 [0xFE] 0 ready_bus = ((err, rd), s')" by (metis prod.exhaust)
  have "bus_initialized ready_bus" "bus_mutex ready_bus" "events is_begin ready_bus = 0"
    by (simp_all add: ready_bus_def events_def)
  then show ?thesis using i2c_master_cmd_bounded [OF _ _ c] c by simp
qed

section \<open>Probing an address where nothing is\<close>

definition nothing_answers :: "i2c_env \<Rightarrow> bool" where
  "nothing_answers env \<longleftrightarrow> (\<forall>evs. i2c_link env evs) \<and> (\<forall>evs op. i2c_queue env evs op = ESP_OK) \<and>
     (\<forall>evs ops. fst (i2c_begin env evs ops) \<noteq> ESP_OK)"

lemma queue_ops_accepts: "nothing_answers env \<Longrightarrow> fst (queue_ops env ops s) = ESP_OK"
  by (induction ops arbitrary: s) (simp_all add: nothing_answers_def Let_def)

lemma probe_nothing:
  assumes "nothing_answers env" "reinstallable env" "8 \<le> addr" "addr \<le> 119" "bus_consecutive_failures s = of_nat k" "k < 3"
    and "i2c_bus_probe env addr s = ((err, present), s')"
  shows "err \<noteq> ESP_OK" "bus_consecutive_failures s' = of_nat (Suc k mod 3)"
    "events ((=) DriverDelete) s' = events ((=) DriverDelete) s + Suc k div 3"
proof -
  let ?ops = "[OpStart, OpByte (push_bit 1 (of_nat addr)), OpStop]" and ?s = "bus_emit LinkCreate (i2c_bus_lock s)"
  obtain s1 where q: "queue_ops env ?ops ?s = (ESP_OK, s1)" using queue_ops_accepts [OF assms(1)] by (metis prod.collapse)
  obtain r s2 where c: "i2c_bus_cmd_begin env ?ops s1 = (r, s2)" by fastforce
  have d: "bus_plumbing ((=) DriverDelete)" by simp
  note b = cmd_begin_spec [OF c d] and keep = queue_ops_keeps [OF q d]
  have "i2c_transaction env ?ops ?s = (r, bus_emit LinkDelete s2)" using q c by (simp add: i2c_transaction_def)
  then have s': "s' = i2c_bus_unlock (bus_emit LinkDelete s2)" "err = fst r"
    using assms(1,3,4,7)
    by (auto simp: i2c_bus_probe_def I2C_SCAN_ADDR_MIN_def I2C_SCAN_ADDR_MAX_def Let_def nothing_answers_def case_prod_unfold)
  have bad: "fst r \<noteq> ESP_OK" using b(1) assms(1) by (simp add: nothing_answers_def)
  then show "err \<noteq> ESP_OK" using s'(2) by simp
  have f1: "bus_consecutive_failures s1 = of_nat k" using keep assms(5) by simp
  have del: "events ((=) DriverDelete) (i2c_bus_lock s) = events ((=) DriverDelete) s"
    "events ((=) DriverDelete) (i2c_bus_unlock (bus_emit LinkDelete s2)) = events ((=) DriverDelete) s2"
    by (simp_all add: i2c_bus_lock_def i2c_bus_unlock_def)
  have f': "bus_consecutive_failures s' = (if 3 \<le> (of_nat k :: u8) + 1 then 0 else of_nat k + 1)"
    using b(5) [OF assms(2)] bad f1 s'(1) by (simp add: I2C_RECOVER_THRESHOLD_def)
  have d': "events ((=) DriverDelete) s' = events ((=) DriverDelete) s + (if 3 \<le> (of_nat k :: u8) + 1 then 1 else 0)"
    using b(4) bad f1 keep del s'(1) by (simp add: I2C_RECOVER_THRESHOLD_def)
  have "k = 0 \<or> k = 1 \<or> k = 2" using assms(6) by linarith
  then show "bus_consecutive_failures s' = of_nat (Suc k mod 3)"
    "events ((=) DriverDelete) s' = events ((=) DriverDelete) s + Suc k div 3"
    unfolding f' d' by (auto simp: word_le_nat_alt)
qed

lemma scan_nothing:
  assumes "nothing_answers env" "reinstallable env"
  shows "\<forall>a \<in> set addrs. 8 \<le> a \<and> a \<le> 119 \<Longrightarrow> bus_consecutive_failures s = of_nat (k mod 3) \<Longrightarrow>
    scan_addresses env addrs s = (seen, s') \<Longrightarrow> seen = [] \<and>
    events ((=) DriverDelete) s' + k div 3 = events ((=) DriverDelete) s + (k + length addrs) div 3"
proof (induction addrs arbitrary: s k seen)
  case (Cons a addrs)
  obtain err present s1 where p: "i2c_bus_probe env a s = ((err, present), s1)" by (metis prod.exhaust)
  have k: "k mod 3 < 3" "8 \<le> a" "a \<le> 119" using Cons.prems(1) by auto
  note pr = probe_nothing [OF assms k(2,3) Cons.prems(2) k(1) p]
  have mods: "Suc (k mod 3) mod 3 = Suc k mod 3" "Suc (k mod 3) div 3 + k div 3 = Suc k div 3" by presburger+
  obtain seen1 where t: "scan_addresses env addrs s1 = (seen1, s')" "seen = seen1"
    using Cons.prems(3) p pr(1) by (auto split: prod.splits)
  have "bus_consecutive_failures s1 = of_nat (Suc k mod 3)" using pr(2) mods by simp
  with Cons.IH [of s1 "Suc k" seen1] Cons.prems(1) t pr(3) mods(2) show ?case by auto
qed simp

text \<open>
  The scan at start-up takes absent devices for bus failures. When nothing answers on a bus
  that works, initialising it deletes the driver, clocks the bus idle and installs the driver
  again 37 times, once for every three of the 112 addresses probed.
\<close>

theorem i2c_scan_reinstalls_driver:
  assumes "nothing_answers env" "reinstallable env" "\<not> bus_initialized s"
    and "i2c_bus_init env mp True s = (err, s')"
  shows "err = ESP_OK \<and> events ((=) DriverDelete) s' = events ((=) DriverDelete) s + 37"
proof -
  let ?s1 = "bus_emit DriverInstall (bus_emit ParamConfig s)"
  let ?s2 = "?s1\<lparr>bus_mutex := True, bus_consecutive_failures := 0, bus_initialized := True\<rparr>"
  obtain seen s3 where scan: "scan_addresses env [8..<120] ?s2 = (seen, s3)" by fastforce
  have init: "err = ESP_OK \<and> s' = s3"
    using assms(2-4) scan
    by (auto simp: i2c_bus_init_def i2c_bus_apply_config_def reinstallable_def i2c_bus_scan_def Let_def
        I2C_SCAN_ADDR_MIN_def I2C_SCAN_ADDR_MAX_def)
  have "events ((=) DriverDelete) s3 = events ((=) DriverDelete) ?s2 + (0 + length [8..<120]) div 3"
    using scan_nothing [OF assms(1,2) _ _ scan, of 0] by simp
  with init show ?thesis by (simp add: events_def bus_emit_def)
qed

definition demo_map :: io_map_t where
  "demo_map = \<lparr>map_ambient = [\<lparr>amb_type = IO_AMBIENT_SENSOR_SHT20, amb_address = 0x40, amb_mux_address = 0, amb_mux_channel = - 1\<rparr>],
     map_ambient_count = 1, map_pwm_backend = IO_PWM_BACKEND_PCA9685, map_pca9685_address = 0x41,
     map_mcp23017_addresses = [0x20, 0x21]\<rparr>"

theorem i2c_scan_reinstalls_driver_witness:
  "events ((=) DriverDelete) (snd (i2c_bus_init empty_bus demo_map True (ready_bus\<lparr>bus_initialized := False\<rparr>))) = 37"
proof -
  let ?s = "ready_bus\<lparr>bus_initialized := False\<rparr>"
  obtain err s' where i: "i2c_bus_init empty_bus demo_map True ?s = (err, s')" by fastforce
  have "nothing_answers empty_bus" "reinstallable empty_bus"
    by (simp_all add: nothing_answers_def reinstallable_def empty_bus_def)
  then have "events ((=) DriverDelete) s' = events ((=) DriverDelete) ?s + 37"
    by (rule i2c_scan_reinstalls_driver [OF _ _ _ i, THEN conjunct2]) simp
  then show ?thesis using i by (simp add: events_def ready_bus_def)
qed

end
