(* ===== verification/Devices.thy ===== *)
theory Devices
  imports Complex_Main I2cBus
begin

text \<open>
  The drivers of the I/O chips of the sensor node over the bus: the port expander
  \<^verbatim>\<open>drivers/mcp23017.c\<close>, the PWM controller \<^verbatim>\<open>drivers/pca9685.c\<close> and the multiplexer
  \<^verbatim>\<open>drivers/tca9548a.c\<close> of \<^verbatim>\<open>sensor_node/main\<close>. \<open>fl\<close> rounds the result of a \<^verbatim>\<open>float\<close>
  operation; \<open>undef\<close> is what the conversion of a value out of range (\<open>None\<close> for an infinity)
  to an integer gives, which C leaves undefined.
\<close>

section \<open>Port expander\<close>

definition MCP23017_IODIRA :: u8 where "MCP23017_IODIRA = 0x00"
definition MCP23017_GPPUA :: u8 where "MCP23017_GPPUA = 0x0C"
definition MCP23017_GPIOA :: u8 where "MCP23017_GPIOA = 0x12"
definition MCP23017_OLATA :: u8 where "MCP23017_OLATA = 0x14"

definition mcp23017_write16 :: "i2c_env \<Rightarrow> u8 \<Rightarrow> u8 \<Rightarrow> u16 \<Rightarrow> i2c_bus \<Rightarrow> esp_err \<times> i2c_bus" where
  "mcp23017_write16 env addr reg value s =
     i2c_bus_write env addr [reg, ucast (value AND 0xFF), ucast (drop_bit 8 value)] s"

definition mcp23017_read16 :: "i2c_env \<Rightarrow> u8 \<Rightarrow> u8 \<Rightarrow> i2c_bus \<Rightarrow> (esp_err \<times> u16) \<times> i2c_bus" where
  "mcp23017_read16 env addr reg s =
     (case i2c_bus_write_read env addr [reg] 2 s of ((err, buf), s) \<Rightarrow>
        if err \<noteq> ESP_OK then ((err, 0), s)
        else ((ESP_OK, push_bit 8 (ucast (buf ! 1)) OR ucast (buf ! 0)), s))"

definition mcp23017_init :: "i2c_env \<Rightarrow> u8 \<Rightarrow> u16 \<Rightarrow> u16 \<Rightarrow> i2c_bus \<Rightarrow> esp_err \<times> i2c_bus" where
  "mcp23017_init env addr direction_mask pullup_mask s =
     (case mcp23017_write16 env addr MCP23017_IODIRA direction_mask s of (err, s) \<Rightarrow>
        if err \<noteq> ESP_OK then (err, s)
        else case mcp23017_write16 env addr MCP23017_GPPUA pullup_mask s of (err, s) \<Rightarrow>
          if err \<noteq> ESP_OK then (err, s) else (ESP_OK, bus_emit (DelayMs 10) s))"

definition mcp23017_read_gpio :: "i2c_env \<Rightarrow> u8 \<Rightarrow> i2c_bus \<Rightarrow> (esp_err \<times> u16) \<times> i2c_bus" where
  "mcp23017_read_gpio env addr s = mcp23017_read16 env addr MCP23017_GPIOA s"

definition mcp23017_write_gpio :: "i2c_env \<Rightarrow> u8 \<Rightarrow> u16 \<Rightarrow> u16 \<Rightarrow> i2c_bus \<Rightarrow> esp_err \<times> i2c_bus" where
  "mcp23017_write_gpio env addr msk value s =
     (case mcp23017_read16 env addr MCP23017_OLATA s of ((err, current), s) \<Rightarrow>
        if err \<noteq> ESP_OK then (err, s)
        else mcp23017_write16 env addr MCP23017_OLATA ((current AND NOT msk) OR (value AND msk)) s)"

section \<open>PWM controller\<close>

definition PCA9685_MODE1 :: u8 where "PCA9685_MODE1 = 0x00"
definition PCA9685_MODE2 :: u8 where "PCA9685_MODE2 = 0x01"
definition PCA9685_LED0_ON_L :: u8 where "PCA9685_LED0_ON_L = 0x06"
definition PCA9685_PRESCALE :: u8 where "PCA9685_PRESCALE = 0xFE"

definition pca9685_write8 :: "i2c_env \<Rightarrow> u8 \<Rightarrow> u8 \<Rightarrow> u8 \<Rightarrow> i2c_bus \<Rightarrow> esp_err \<times> i2c_bus" where
  "pca9685_write8 env addr reg value s = i2c_bus_write env addr [reg, value] s"

definition pca9685_write16 :: "i2c_env \<Rightarrow> u8 \<Rightarrow> u8 \<Rightarrow> u16 \<Rightarrow> u16 \<Rightarrow> i2c_bus \<Rightarrow> esp_err \<times> i2c_bus" where
  "pca9685_write16 env addr reg on off s =
     i2c_bus_write env addr [reg, ucast (on AND 0xFF), ucast (drop_bit 8 on AND 0x0F),
       ucast (off AND 0xFF), ucast (drop_bit 8 off AND 0x0F)] s"

definition prescale_value :: "(rat \<Rightarrow> rat) \<Rightarrow> (rat option \<Rightarrow> u8) \<Rightarrow> u16 \<Rightarrow> u8" where
  "prescale_value fl undef frequency_hz =
     (if frequency_hz = 0 then undef None
      else let prescale = fl (fl (25000000 / fl (4096 * of_nat (unat frequency_hz))) - 1); v = fl (prescale + 1 / 2)
           in if - 1 < v \<and> v < 256 then of_int (if v < 0 then 0 else \<lfloor>v\<rfloor>) else undef (Some v))"

definition pca9685_init :: "(rat \<Rightarrow> rat) \<Rightarrow> (rat option \<Rightarrow> u8) \<Rightarrow> i2c_env \<Rightarrow> u8 \<Rightarrow> u16 \<Rightarrow> i2c_bus \<Rightarrow> esp_err \<times> i2c_bus" where
  "pca9685_init fl undef env addr frequency_hz s =
     (case pca9685_write8 env addr PCA9685_MODE1 0x10 s of (err, s) \<Rightarrow>
        if err \<noteq> ESP_OK then (err, s)
        else case pca9685_write8 env addr PCA9685_PRESCALE (prescale_value fl undef frequency_hz) s of (err, s) \<Rightarrow>
        if err \<noteq> ESP_OK then (err, s)
        else case pca9685_write8 env addr PCA9685_MODE1 0xA1 s of (err, s) \<Rightarrow>
        if err \<noteq> ESP_OK then (err, s)
        else case pca9685_write8 env addr PCA9685_MODE2 0x04 s of (err, s) \<Rightarrow>
        if err \<noteq> ESP_OK then (err, s) else (ESP_OK, bus_emit (DelayMs 5) s))"

definition pwm_on_off :: "u16 \<Rightarrow> u16 \<times> u16" where
  "pwm_on_off duty = (if duty \<ge> 4096 then (0, 0x1000) else (0, duty))"

definition pca9685_set_pwm :: "i2c_env \<Rightarrow> u8 \<Rightarrow> u8 \<Rightarrow> u16 \<Rightarrow> i2c_bus \<Rightarrow> esp_err \<times> i2c_bus" where
  "pca9685_set_pwm env addr channel duty s =
     (if channel \<ge> 16 then (ESP_ERR_INVALID_ARG, s)
      else case pwm_on_off duty of (on, off) \<Rightarrow> pca9685_write16 env addr (PCA9685_LED0_ON_L + 4 * channel) on off s)"

fun pca9685_set_all_loop :: "i2c_env \<Rightarrow> u8 \<Rightarrow> nat \<Rightarrow> u16 list \<Rightarrow> i2c_bus \<Rightarrow> esp_err \<times> i2c_bus" where
  "pca9685_set_all_loop env addr i [] s = (ESP_OK, s)"
| "pca9685_set_all_loop env addr i (d # ds) s =
     (case pca9685_set_pwm env addr (of_nat i) d s of (err, s) \<Rightarrow>
        if err \<noteq> ESP_OK then (err, s) else pca9685_set_all_loop env addr (Suc i) ds s)"

definition pca9685_set_all :: "i2c_env \<Rightarrow> u8 \<Rightarrow> u16 list \<Rightarrow> i2c_bus \<Rightarrow> esp_err \<times> i2c_bus" where
  "pca9685_set_all env addr duty s =
     (if duty = [] then (ESP_ERR_INVALID_ARG, s) else pca9685_set_all_loop env addr 0 duty s)"

section \<open>Multiplexer\<close>

record tca9548a =
  tca_last_addr :: u8
  tca_last_channel :: int
  tca_has_state :: bool

definition tca9548a_select :: "i2c_env \<Rightarrow> u8 \<Rightarrow> int \<Rightarrow> tca9548a \<times> i2c_bus \<Rightarrow> esp_err \<times> tca9548a \<times> i2c_bus" where
  "tca9548a_select env addr channel ts =
     (case ts of (t, s) \<Rightarrow>
      if channel < IO_MUX_CHANNEL_NONE \<or> channel > 7 then (ESP_ERR_INVALID_ARG, t, s)
      else if addr < 0x08 \<or> addr > 0x77 then (ESP_ERR_INVALID_ARG, t, s)
      else if channel = tca_last_channel t \<and> addr = tca_last_addr t \<and> tca_has_state t then (ESP_OK, t, s)
      else
        let payload = (if channel \<noteq> IO_MUX_CHANNEL_NONE then push_bit (nat channel) 1 else 0) in
        case i2c_bus_write env addr [payload] s of (err, s) \<Rightarrow>
          if err = ESP_OK then (ESP_OK, \<lparr>tca_last_addr = addr, tca_last_channel = channel, tca_has_state = True\<rparr>, s)
          else (err, t, s))"

section \<open>What reaches the chips\<close>

text \<open>A transaction that the driver completed: \<open>wr\<close> was written to \<open>addr\<close> and \<open>rd\<close> was read back.\<close>

definition transferred :: "i2c_env \<Rightarrow> u8 \<Rightarrow> bytes \<Rightarrow> bytes \<Rightarrow> nat \<Rightarrow> bool" where
  "transferred env addr wr rd n \<longleftrightarrow> (\<exists>evs. i2c_begin env evs (i2c_ops addr wr n) = (ESP_OK, rd))"

lemma i2c_master_cmd_okD:
  assumes "i2c_master_cmd env addr wr n s = ((ESP_OK, rd), s')"
  shows "transferred env addr wr rd n"
proof -
  have "i2c_attempts env (i2c_ops addr wr n) 3 0 (ESP_FAIL, []) (i2c_bus_lock s) = ((ESP_OK, rd), s')"
    using assms by (simp add: i2c_master_cmd_def split: if_splits)
  from i2c_attempts_ok [OF this] show ?thesis by (auto simp: attempts_ok_def transferred_def)
qed

lemma i2c_bus_write_okD: "i2c_bus_write env addr wr s = (ESP_OK, s') \<Longrightarrow> \<exists>rd. transferred env addr wr rd 0"
  by (auto simp: i2c_bus_write_def dest: i2c_master_cmd_okD split: prod.splits)

text \<open>The two bytes of a register pair are the little-endian bytes of its value.\<close>

lemma and_ff: "(w :: u16) AND 0xFF = take_bit 8 w"
  by (simp add: take_bit_eq_mask mask_eq_exp_minus_1)

lemma split16_le_bytes: "[ucast ((w :: u16) AND 0xFF), ucast (drop_bit 8 w)] = le_bytes 2 w"
proof -
  have "(ucast (take_bit 8 w) :: u8) = ucast w" by (rule bit_word_eqI) (simp add: bit_unsigned_iff bit_take_bit_iff)
  then show ?thesis by (simp add: numeral_2_eq_2 and_ff)
qed

lemma le_word_le_bytes_u16 [simp]: "le_word (le_bytes 2 (w :: u16)) = w"
  by (simp add: le_word_le_bytes take_bit_word_eq_self)

lemma join16_le_word: "push_bit 8 (ucast (b1 :: u8)) OR ucast b0 = (le_word [b0, b1] :: u16)"
  by (simp add: or.commute)

lemma mcp23017_write16_le: "mcp23017_write16 env addr reg w s = i2c_bus_write env addr (reg # le_bytes 2 w) s"
  unfolding mcp23017_write16_def split16_le_bytes ..

lemma mcp23017_read16_le:
  "mcp23017_read16 env addr reg s = (case i2c_bus_write_read env addr [reg] 2 s of ((err, buf), s) \<Rightarrow>
     if err \<noteq> ESP_OK then ((err, 0), s) else ((ESP_OK, le_word [buf ! 0, buf ! 1]), s))"
  unfolding mcp23017_read16_def join16_le_word ..

lemma mcp23017_write_gpio_okD:
  assumes "mcp23017_write_gpio env addr msk value s = (ESP_OK, s')"
  shows "\<exists>buf rd cur. transferred env addr [MCP23017_OLATA] buf 2 \<and> cur = le_word [buf ! 0, buf ! 1] \<and>
    transferred env addr (MCP23017_OLATA # le_bytes 2 ((cur AND NOT msk) OR (value AND msk))) rd 0"
proof -
  obtain buf s1 where r: "i2c_master_cmd env addr [MCP23017_OLATA] 2 s = ((ESP_OK, buf), s1)"
    and w: "mcp23017_write16 env addr MCP23017_OLATA (((le_word [buf ! 0, buf ! 1]) AND NOT msk) OR (value AND msk)) s1 = (ESP_OK, s')"
    using assms by (auto simp: mcp23017_write_gpio_def mcp23017_read16_def i2c_bus_write_read_def join16_le_word
        split: prod.splits if_splits)
  from i2c_bus_write_okD [OF w [unfolded mcp23017_write16_def split16_le_bytes]] i2c_master_cmd_okD [OF r] show ?thesis by blast
qed

text \<open>
  A full duty cycle. For a duty of 4096 or more the driver asks for the value \<^verbatim>\<open>0x1000\<close>,
  whose only bit \<^verbatim>\<open>pca9685_write16\<close> masks away: the channel gets the registers of duty 0. For a
  smaller duty the registers hold the duty.
\<close>

theorem pca9685_full_duty_is_zero:
  assumes "channel < 16"
  shows "(4096 \<le> duty \<longrightarrow> pca9685_set_pwm env addr channel duty s = pca9685_set_pwm env addr channel 0 s) \<and>
    (duty < 4096 \<longrightarrow> pca9685_set_pwm env addr channel duty s =
       i2c_bus_write env addr ([6 + 4 * channel, 0, 0] @ le_bytes 2 duty) s)"
proof -
  have "drop_bit 8 duty AND 0x0F = drop_bit 8 duty" if "duty < 4096"
  proof -
    have "unat (drop_bit 8 duty) = unat duty div 256" by (simp add: drop_bit_eq_div unat_div)
    moreover have "unat duty < 4096" using that by (simp add: word_less_nat_alt)
    ultimately have "unat (drop_bit 8 duty) < 16" by simp
    then have "unat (take_bit 4 (drop_bit 8 duty)) = unat (drop_bit 8 duty)"
      by (simp add: unsigned_take_bit_eq take_bit_nat_eq_self)
    moreover have "drop_bit 8 duty AND 0x0F = take_bit 4 (drop_bit 8 duty)"
      by (simp add: take_bit_eq_mask mask_eq_exp_minus_1)
    ultimately show ?thesis by (simp add: word_unat_eq_iff)
  qed
  then show ?thesis
    using assms split16_le_bytes [of duty]
    by (auto simp: pca9685_set_pwm_def pwm_on_off_def pca9685_write16_def PCA9685_LED0_ON_L_def not_le)
qed

theorem pca9685_full_duty_is_zero_witness:
  "pca9685_set_pwm empty_bus 0x41 3 4096 ready_bus = pca9685_set_pwm empty_bus 0x41 3 0 ready_bus"
  using pca9685_full_duty_is_zero [of 3 4096, where env = empty_bus and addr = "0x41" and s = ready_bus] by simp

end
