(* ===== verification/IoTask.thy ===== *)
theory IoTask
  imports Devices SensorModel
begin

text \<open>
  The task that owns the I/O chips, \<^verbatim>\<open>sensor_node/main/tasks/t_io.c\<close>: a queue of 16
  commands, the PWM state, and a loop that applies the commands and copies the ports and the
  PWM state into the data model. One turn of the loop is \<open>io_task_turn\<close>; commands that arrive
  while the queue is drained count as queued at its start. \<open>locks\<close> gives the outcome of the
  four times a turn takes the mutex of the data model.
\<close>

section \<open>Commands\<close>

datatype io_command_t =
    IO_CMD_SET_PWM u8 u16
  | IO_CMD_SET_PWM_FREQ u16
  | IO_CMD_WRITE_GPIO u8 u8 u16 u16

record io_task =
  io_queue :: "io_command_t list"
  io_model :: sensor_data_model_t
  io_pwm :: "u16 list"
  io_pwm_freq :: u16
  io_bus :: i2c_bus

record io_env =
  ioe_i2c :: i2c_env
  ioe_map :: io_map_t
  ioe_fl :: "rat \<Rightarrow> rat"
  ioe_undef :: "rat option \<Rightarrow> u8"

definition IO_QUEUE_LENGTH :: nat where "IO_QUEUE_LENGTH = 16"

text \<open>\<^verbatim>\<open>xQueueSend\<close> with its 20 ms timeout: \<open>drained\<close> is how many commands the task took meanwhile.\<close>

definition io_send :: "nat \<Rightarrow> io_command_t \<Rightarrow> io_command_t list \<Rightarrow> bool \<times> io_command_t list" where
  "io_send drained cmd q =
     (let q = (if length q < IO_QUEUE_LENGTH then q else drop drained q) in
      if length q < IO_QUEUE_LENGTH then (True, q @ [cmd]) else (False, q))"

definition io_task_set_pwm :: "nat \<Rightarrow> u8 \<Rightarrow> u16 \<Rightarrow> io_command_t list \<Rightarrow> bool \<times> io_command_t list" where
  "io_task_set_pwm drained channel duty q = io_send drained (IO_CMD_SET_PWM channel duty) q"

definition io_task_set_pwm_frequency :: "nat \<Rightarrow> u16 \<Rightarrow> io_command_t list \<Rightarrow> bool \<times> io_command_t list" where
  "io_task_set_pwm_frequency drained frequency_hz q = io_send drained (IO_CMD_SET_PWM_FREQ frequency_hz) q"

definition io_task_write_gpio :: "nat \<Rightarrow> u8 \<Rightarrow> u8 \<Rightarrow> u16 \<Rightarrow> u16 \<Rightarrow> io_command_t list \<Rightarrow> bool \<times> io_command_t list" where
  "io_task_write_gpio drained device_index port msk value q =
     io_send drained (IO_CMD_WRITE_GPIO device_index port msk value) q"

section \<open>The task\<close>

definition pwm_hw_available :: "io_map_t \<Rightarrow> bool" where
  "pwm_hw_available mp \<longleftrightarrow> map_pwm_backend mp = IO_PWM_BACKEND_PCA9685 \<and> map_pca9685_address mp \<noteq> 0"

text \<open>The device, the mask and the value that a GPIO command writes.\<close>

definition gpio_write_args :: "u8 \<Rightarrow> u8 \<Rightarrow> u16 \<Rightarrow> u16 \<Rightarrow> nat \<times> u16 \<times> u16" where
  "gpio_write_args device_index port msk value =
     (let idx = unat (device_index mod 2); msk = msk AND 0x00FF; value = value AND 0x00FF in
      if port \<noteq> 0 then (idx, push_bit 8 msk, push_bit 8 value) else (idx, msk, value))"

fun io_apply :: "io_env \<Rightarrow> io_command_t \<Rightarrow> io_task \<Rightarrow> io_task" where
  "io_apply env (IO_CMD_SET_PWM channel duty) s =
     (let s = s\<lparr>io_pwm := (io_pwm s)[unat (channel mod 16) := duty]\<rparr> in
      if pwm_hw_available (ioe_map env)
      then s\<lparr>io_bus := snd (pca9685_set_pwm (ioe_i2c env) (map_pca9685_address (ioe_map env)) (channel mod 16) duty (io_bus s))\<rparr>
      else s)"
| "io_apply env (IO_CMD_SET_PWM_FREQ freq) s =
     (let s = s\<lparr>io_pwm_freq := freq\<rparr>; addr = map_pca9685_address (ioe_map env) in
      if pwm_hw_available (ioe_map env)
      then let bus = snd (pca9685_init (ioe_fl env) (ioe_undef env) (ioe_i2c env) addr (io_pwm_freq s) (io_bus s))
           in s\<lparr>io_bus := for_loop (\<lambda>i bus. snd (pca9685_set_pwm (ioe_i2c env) addr (of_nat i) (io_pwm s ! i) bus)) 16 0 bus\<rparr>
      else s)"
| "io_apply env (IO_CMD_WRITE_GPIO device_index port msk value) s =
     (case gpio_write_args device_index port msk value of (idx, m, v) \<Rightarrow>
        s\<lparr>io_bus := snd (mcp23017_write_gpio (ioe_i2c env) (map_mcp23017_addresses (ioe_map env) ! idx) m v (io_bus s))\<rparr>)"

definition io_drain :: "io_env \<Rightarrow> io_task \<Rightarrow> io_task" where
  "io_drain env s = (fold (io_apply env) (io_queue s) s)\<lparr>io_queue := []\<rparr>"

definition io_poll_port :: "io_env \<Rightarrow> (nat \<Rightarrow> bool) \<Rightarrow> nat \<Rightarrow> io_task \<Rightarrow> io_task" where
  "io_poll_port env locks i s =
     (case mcp23017_read_gpio (ioe_i2c env) (map_mcp23017_addresses (ioe_map env) ! i) (io_bus s) of ((err, value), bus) \<Rightarrow>
        if err = ESP_OK
        then s\<lparr>io_bus := bus, io_model := data_model_set_gpio (locks i) i (value AND 0xFF) (drop_bit 8 value AND 0xFF) (io_model s)\<rparr>
        else s\<lparr>io_bus := bus\<rparr>)"

definition io_task_turn :: "io_env \<Rightarrow> (nat \<Rightarrow> bool) \<Rightarrow> io_task \<Rightarrow> io_task" where
  "io_task_turn env locks s =
     (let s = io_drain env s;
          s = for_loop (io_poll_port env locks) 2 0 s;
          s = s\<lparr>io_model := data_model_set_pwm (locks 2) (io_pwm s) 16 (io_pwm_freq s) (io_model s)\<rparr>
      in s\<lparr>io_bus := bus_emit (DelayMs 50) (io_bus s)\<rparr>)"

text \<open>The part of \<^verbatim>\<open>io_task\<close> before its loop, and \<^verbatim>\<open>io_task_start\<close>.\<close>

definition io_task_prologue :: "io_env \<Rightarrow> io_task \<Rightarrow> io_task" where
  "io_task_prologue env s =
     (let mp = ioe_map env; i2c = ioe_i2c env; bus = io_bus s;
          bus = (if pwm_hw_available mp
                 then snd (pca9685_init (ioe_fl env) (ioe_undef env) i2c (map_pca9685_address mp) (io_pwm_freq s) bus) else bus);
          bus = snd (mcp23017_init i2c (map_mcp23017_addresses mp ! 0) 0xFFFF 0xFFFF bus);
          bus = snd (mcp23017_init i2c (map_mcp23017_addresses mp ! 1) 0xFFFF 0xFFFF bus)
      in s\<lparr>io_bus := bus\<rparr>)"

definition io_task_start :: "sensor_data_model_t \<Rightarrow> i2c_bus \<Rightarrow> io_task" where
  "io_task_start model bus = \<lparr>io_queue = [], io_model = model, io_pwm = replicate 16 0, io_pwm_freq = 500, io_bus = bus\<rparr>"

section \<open>Ports\<close>

lemma gpio_write_args_take:
  "gpio_write_args dev port msk value = (unat (dev mod 2),
     if port \<noteq> 0 then (push_bit 8 (take_bit 8 msk), push_bit 8 (take_bit 8 value)) else (take_bit 8 msk, take_bit 8 value))"
  unfolding gpio_write_args_def Let_def and_ff by simp

lemma gpio_write_args_bits:
  assumes "gpio_write_args dev port msk value = (idx, m, v)" "n < 16"
  shows "bit m n \<longleftrightarrow> n div 8 = (if port \<noteq> 0 then 1 else 0) \<and> bit msk (n mod 8)"
    "bit m n \<Longrightarrow> bit v n \<longleftrightarrow> bit value (n mod 8)"
proof -
  have n: "n div 8 = (if n < 8 then 0 else 1)" "n mod 8 = (if n < 8 then n else n - 8)"
    using assms(2) le_mod_geq [of 8 n] by auto
  show "bit m n \<longleftrightarrow> n div 8 = (if port \<noteq> 0 then 1 else 0) \<and> bit msk (n mod 8)"
    "bit m n \<Longrightarrow> bit v n \<longleftrightarrow> bit value (n mod 8)"
    using assms unfolding gpio_write_args_take by (auto simp: bit_push_bit_iff bit_take_bit_iff n split: if_splits)
qed

text \<open>
  A GPIO command changes the pins it names and no other. When the write succeeds, the chip
  was sent its own output latches with exactly those bits replaced that belong to the
  commanded port and are set in the mask.
\<close>

theorem io_gpio_write_exact:
  assumes "gpio_write_args dev port msk value = (idx, m, v)"
    and "mcp23017_write_gpio env addr m v s = (ESP_OK, s')"
  shows "idx < 2 \<and> (\<exists>buf cur new rd. transferred env addr [MCP23017_OLATA] buf 2 \<and> cur = (le_word [buf ! 0, buf ! 1] :: u16) \<and>
    transferred env addr (MCP23017_OLATA # le_bytes 2 (new :: u16)) rd 0 \<and>
    (\<forall>n < 16. bit new n = (if n div 8 = (if port \<noteq> 0 then 1 else 0) \<and> bit msk (n mod 8)
       then bit value (n mod 8) else bit cur n)))"
proof -
  obtain buf rd and cur :: u16 where t: "transferred env addr [MCP23017_OLATA] buf 2" "cur = le_word [buf ! 0, buf ! 1]"
    "transferred env addr (MCP23017_OLATA # le_bytes 2 ((cur AND NOT m) OR (v AND m))) rd 0"
    using mcp23017_write_gpio_okD [OF assms(2)] by blast
  have "bit ((cur AND NOT m) OR (v AND m)) n = (if n div 8 = (if port \<noteq> 0 then 1 else 0) \<and> bit msk (n mod 8)
       then bit value (n mod 8) else bit cur n)" if "n < 16" for n
    using gpio_write_args_bits [OF assms(1) that] that by (auto simp: bit_or_iff bit_and_iff bit_not_iff)
  moreover have "unat (dev mod 2) < 2" using word_mod_less_divisor [of 2 dev] by (simp add: word_less_nat_alt)
  then have "idx < 2" using assms(1) by (auto simp: gpio_write_args_def Let_def split: if_splits)
  ultimately show ?thesis using t by blast
qed

text \<open>An expander whose latches read \<^verbatim>\<open>0xA50F\<close> and that acknowledges everything.\<close>

definition latch_bus :: i2c_env where
  "latch_bus = empty_bus\<lparr>i2c_begin := (\<lambda>_ _. (ESP_OK, [0x0F, 0xA5]))\<rparr>"

lemma latch_bus_cmd:
  "bus_initialized s \<Longrightarrow> \<exists>s'. i2c_master_cmd latch_bus addr wr n s = ((ESP_OK, [0x0F, 0xA5]), s') \<and> bus_initialized s'"
proof -
  have "fst (queue_ops latch_bus ops s) = ESP_OK \<and> bus_initialized (snd (queue_ops latch_bus ops s)) = bus_initialized s" for ops s
    by (induction ops arbitrary: s) (simp_all add: latch_bus_def empty_bus_def Let_def)
  then have t: "\<exists>s'. i2c_transaction latch_bus ops s = ((ESP_OK, [0x0F, 0xA5]), s') \<and> bus_initialized s' = bus_initialized s" for ops s
    by (auto simp: i2c_transaction_def i2c_bus_cmd_begin_def latch_bus_def case_prod_unfold Let_def)
  assume "bus_initialized s"
  moreover obtain s' where "i2c_transaction latch_bus (i2c_ops addr wr n) (bus_emit LinkCreate (i2c_bus_lock s)) =
      ((ESP_OK, [0x0F, 0xA5]), s')" "bus_initialized s' = bus_initialized s" using t by fastforce
  moreover have "i2c_link latch_bus evs" for evs by (simp add: latch_bus_def empty_bus_def)
  ultimately show ?thesis by (simp add: i2c_master_cmd_def numeral_3_eq_3 Let_def)
qed

theorem io_gpio_write_exact_witness:
  "\<exists>new rd. transferred latch_bus 0x21 (MCP23017_OLATA # le_bytes 2 (new :: u16)) rd 0 \<and> bit new 8 \<and> \<not> bit new 4"
proof -
  obtain s1 where s1: "i2c_master_cmd latch_bus 0x21 [MCP23017_OLATA] 2 ready_bus = ((ESP_OK, [0x0F, 0xA5]), s1)" "bus_initialized s1"
    using latch_bus_cmd [of ready_bus "0x21" "[MCP23017_OLATA]" 2] by (auto simp: ready_bus_def)
  obtain m v where a: "gpio_write_args 5 1 0x0F 0x01 = (1, m, v)" by (simp add: gpio_write_args_def Let_def)
  obtain s2 where "mcp23017_write_gpio latch_bus 0x21 m v ready_bus = (ESP_OK, s2)"
  proof -
    let ?w = "(le_word [0x0F, 0xA5] AND NOT m) OR (v AND m) :: u16"
    obtain s2 where "i2c_master_cmd latch_bus 0x21 (MCP23017_OLATA # le_bytes 2 ?w) 0 s1 = ((ESP_OK, [0x0F, 0xA5]), s2)"
      using latch_bus_cmd [OF s1(2)] by blast
    then have "mcp23017_write_gpio latch_bus 0x21 m v ready_bus = (ESP_OK, s2)"
      using s1(1) unfolding mcp23017_write_gpio_def mcp23017_read16_le mcp23017_write16_le
      by (simp add: i2c_bus_write_read_def i2c_bus_write_def del: le_word.simps le_bytes.simps)
    then show ?thesis by (rule that)
  qed
  from io_gpio_write_exact [OF a this] obtain buf new rd where w:
    "transferred latch_bus 0x21 [MCP23017_OLATA] buf 2" "transferred latch_bus 0x21 (MCP23017_OLATA # le_bytes 2 (new :: u16)) rd 0"
    "\<forall>n < 16. bit new n = (if n div 8 = (if (1 :: u8) \<noteq> 0 then 1 else 0) \<and> bit (0x0F :: u16) (n mod 8)
       then bit (1 :: u16) (n mod 8) else bit (le_word [buf ! 0, buf ! 1] :: u16) n)" by auto
  have "buf = [0x0F, 0xA5]" using w(1) by (simp add: transferred_def latch_bus_def)
  then have "bit new 8" "\<not> bit new 4" using w(3) by (simp_all add: bit_simps)
  with w(2) show ?thesis by blast
qed

section \<open>One turn of the task\<close>

text \<open>The duties queued for a channel and the frequencies queued, in order.\<close>

definition duties_for :: "nat \<Rightarrow> io_command_t list \<Rightarrow> u16 list" where
  "duties_for c cmds = List.map_filter (\<lambda>cmd. case cmd of
     IO_CMD_SET_PWM ch duty \<Rightarrow> if unat (ch mod 16) = c then Some duty else None | _ \<Rightarrow> None) cmds"

definition frequencies :: "io_command_t list \<Rightarrow> u16 list" where
  "frequencies cmds = List.map_filter (\<lambda>cmd. case cmd of IO_CMD_SET_PWM_FREQ f \<Rightarrow> Some f | _ \<Rightarrow> None) cmds"

lemma io_apply_frame [simp]:
  "io_model (io_apply env cmd s) = io_model s" "io_queue (io_apply env cmd s) = io_queue s"
  "length (io_pwm (io_apply env cmd s)) = length (io_pwm s)"
  by (cases cmd; simp add: Let_def split: prod.split)+

lemma io_apply_pwm:
  "length (io_pwm s) = 16 \<Longrightarrow> c < 16 \<Longrightarrow> io_pwm (io_apply env cmd s) ! c = last (io_pwm s ! c # duties_for c [cmd])"
  by (cases cmd) (simp_all add: duties_for_def map_filter_simps Let_def nth_list_update split: prod.split)

lemma io_apply_freq: "io_pwm_freq (io_apply env cmd s) = last (io_pwm_freq s # frequencies [cmd])"
  by (cases cmd) (simp_all add: frequencies_def map_filter_simps Let_def split: prod.split)

lemma duties_Cons: "duties_for c (cmd # cmds) = duties_for c [cmd] @ duties_for c cmds"
  by (simp add: duties_for_def map_filter_simps split: option.split)

lemma frequencies_Cons: "frequencies (cmd # cmds) = frequencies [cmd] @ frequencies cmds"
  by (simp add: frequencies_def map_filter_simps split: option.split)

lemma last_Cons_append: "last (last (x # xs) # ys) = last (x # xs @ ys)"
  by (cases ys rule: rev_cases) auto

lemma io_fold_spec:
  assumes "length (io_pwm s) = 16"
  shows "io_model (fold (io_apply env) cmds s) = io_model s" "length (io_pwm (fold (io_apply env) cmds s)) = 16"
    "\<forall>c < 16. io_pwm (fold (io_apply env) cmds s) ! c = last (io_pwm s ! c # duties_for c cmds)"
    "io_pwm_freq (fold (io_apply env) cmds s) = last (io_pwm_freq s # frequencies cmds)"
  using assms
proof (induction cmds arbitrary: s)
  case (Cons cmd cmds)
  { case 1 then show ?case using Cons.IH(1) by simp next
    case 2 then show ?case using Cons.IH(2) by simp next
    case 3 then show ?case
      using Cons.IH(3) [of "io_apply env cmd s"] io_apply_pwm [OF 3]
      by (simp add: duties_Cons [of _ cmd cmds] last_Cons_append del: last.simps) next
    case 4 then show ?case
      using Cons.IH(4) [of "io_apply env cmd s"] io_apply_freq [of env cmd s]
      by (simp add: frequencies_Cons [of cmd cmds] last_Cons_append del: last.simps) }
qed (simp_all add: duties_for_def frequencies_def map_filter_simps)

lemma io_poll_port_frame [simp]:
  "io_pwm (io_poll_port env locks i s) = io_pwm s" "io_pwm_freq (io_poll_port env locks i s) = io_pwm_freq s"
  "io_queue (io_poll_port env locks i s) = io_queue s"
  "sdm_initialized (io_model (io_poll_port env locks i s)) = sdm_initialized (io_model s)"
  "sdm_mutex (io_model (io_poll_port env locks i s)) = sdm_mutex (io_model s)"
  "length (pca_duty_cycle (su_pwm (sdm_current (io_model (io_poll_port env locks i s))))) =
     length (pca_duty_cycle (su_pwm (sdm_current (io_model s))))"
  by (simp_all add: io_poll_port_def data_model_set_gpio_def Let_def split: prod.split)

text \<open>
  A turn of the I/O task takes every queued command, in order. Afterwards each channel
  has the duty of the last command for it, the frequency is the last one commanded, and, when
  the data model can be locked, the telemetry of the PWM state is that state.
\<close>

theorem io_task_turn_pwm:
  assumes "length (io_pwm s) = 16" "s' = io_task_turn env locks s"
    and "sdm_initialized (io_model s)" "sdm_mutex (io_model s)" "locks 2" "sensor_model_inv (io_model s)"
  shows "io_queue s' = [] \<and> (\<forall>c < 16. io_pwm s' ! c = last (io_pwm s ! c # duties_for c (io_queue s))) \<and>
    io_pwm_freq s' = last (io_pwm_freq s # frequencies (io_queue s)) \<and>
    su_pwm (sdm_current (io_model s')) = \<lparr>pca_frequency_hz = io_pwm_freq s', pca_duty_cycle = io_pwm s'\<rparr>"
proof -
  let ?d = "io_drain env s" and ?p = "io_poll_port env locks"
  let ?s = "?p 1 (?p 0 ?d)"
  note f = io_fold_spec [OF assms(1), of env "io_queue s"]
  have len: "length (pca_duty_cycle (su_pwm (sdm_current (io_model ?s)))) = 16"
    using assms(6) by (simp add: io_drain_def f(1) sensor_model_inv_def sensor_update_wf_def)
  have s': "io_queue s' = []" "io_pwm s' = io_pwm ?d" "io_pwm_freq s' = io_pwm_freq ?d"
    "io_model s' = data_model_set_pwm (locks 2) (io_pwm ?d) 16 (io_pwm_freq ?d) (io_model ?s)"
    by (simp_all add: assms(2) io_task_turn_def Let_def numeral_2_eq_2 io_drain_def)
  have "for_loop (\<lambda>i ds. ds[i := io_pwm ?d ! i]) 16 0 (pca_duty_cycle (su_pwm (sdm_current (io_model ?s)))) = io_pwm ?d"
    by (rule duty_loop_all) (use len f(2) in \<open>simp_all add: io_drain_def\<close>)
  moreover have "sdm_initialized (io_model ?s)" "data_model_lock (locks 2) (io_model ?s)"
    using assms(3-5) by (simp_all add: io_drain_def f(1) data_model_lock_def)
  ultimately have "su_pwm (sdm_current (io_model s')) = \<lparr>pca_frequency_hz = io_pwm_freq ?d, pca_duty_cycle = io_pwm ?d\<rparr>"
    unfolding s'(4) data_model_set_pwm_def Let_def by simp
  then show ?thesis unfolding s' using f(3,4) by (simp add: io_drain_def del: last.simps)
qed

definition demo_io :: io_task where
  "demo_io = (io_task_start data_model_init ready_bus)
     \<lparr>io_queue := [IO_CMD_SET_PWM 3 100, IO_CMD_SET_PWM_FREQ 1000, IO_CMD_WRITE_GPIO 0 0 1 1, IO_CMD_SET_PWM 19 200]\<rparr>"

definition demo_io_env :: io_env where
  "demo_io_env = \<lparr>ioe_i2c = empty_bus, ioe_map = demo_map, ioe_fl = (\<lambda>r. r), ioe_undef = (\<lambda>_. 0)\<rparr>"

theorem io_task_turn_pwm_witness:
  "su_pwm (sdm_current (io_model (io_task_turn demo_io_env (\<lambda>_. True) demo_io))) =
     \<lparr>pca_frequency_hz = 1000, pca_duty_cycle = (replicate 16 0)[3 := 200]\<rparr>"
proof -
  let ?s' = "io_task_turn demo_io_env (\<lambda>_. True) demo_io"
  have h: "length (io_pwm demo_io) = 16" "sdm_initialized (io_model demo_io)" "sdm_mutex (io_model demo_io)"
    "sensor_model_inv (io_model demo_io)" using init_inv
    by (simp_all add: demo_io_def io_task_start_def data_model_init_def)
  have q: "duties_for c (io_queue demo_io) = (if c = 3 then [100, 200] else [])" "frequencies (io_queue demo_io) = [1000]" for c
    by (auto simp: demo_io_def duties_for_def frequencies_def map_filter_simps)
  note t = io_task_turn_pwm [OF h(1) refl h(2,3) _ h(4), of "\<lambda>_. True" demo_io_env, unfolded q]
  have "length (io_pwm ?s') = 16" using io_fold_spec(2) [OF h(1)] by (simp add: io_task_turn_def Let_def numeral_2_eq_2 io_drain_def)
  then have "io_pwm ?s' = (replicate 16 0)[3 := 200]"
    using t by (intro nth_equalityI) (auto simp: nth_list_update demo_io_def io_task_start_def)
  then show ?thesis using t by simp
qed

section \<open>The direction of the pins\<close>

text \<open>
  A transaction that makes a pin of an expander an output: it writes something else than ones
  to the register pair \<^verbatim>\<open>IODIRA\<close>, \<^verbatim>\<open>IODIRB\<close>, the registers 0 and 1; bytes after the first go to the
  registers that follow.
\<close>

fun direction_write :: "u8 list \<Rightarrow> i2c_op list \<Rightarrow> bool" where
  "direction_write addrs (OpStart # OpByte a # OpWrite (reg # data) # rest) =
     (a \<in> push_bit 1 ` set addrs \<and> (\<exists>k < length data. unat reg + k < 2 \<and> data ! k \<noteq> 0xFF))"
| "direction_write addrs ops = False"

definition makes_output :: "u8 list \<Rightarrow> i2c_event \<Rightarrow> bool" where
  "makes_output addrs ev = (case ev of CmdBegin ops \<Rightarrow> direction_write addrs ops | _ \<Rightarrow> False)"

lemma makes_output_plumbing [simp]:
  "bus_plumbing (makes_output addrs)" "\<not> makes_output addrs BusLock" "\<not> makes_output addrs BusUnlock"
  "\<not> makes_output addrs LinkCreate" "\<not> makes_output addrs LinkDelete" "\<not> makes_output addrs DriverDelete"
  "\<not> makes_output addrs (DelayMs n)" "makes_output addrs (CmdBegin ops) = direction_write addrs ops"
  by (auto simp: makes_output_def bus_plumbing_def)

text \<open>No call of a driver adds such a transaction when what it writes is not one.\<close>

definition quiet :: "u8 list \<Rightarrow> i2c_bus \<Rightarrow> i2c_bus \<Rightarrow> bool" where
  "quiet addrs s s' \<longleftrightarrow> events (makes_output addrs) s' = events (makes_output addrs) s"

lemma quiet_refl [simp]: "quiet addrs s s" by (simp add: quiet_def)

lemma quiet_trans: "quiet addrs s s1 \<Longrightarrow> quiet addrs s1 s2 \<Longrightarrow> quiet addrs s s2" by (simp add: quiet_def)

lemma quiet_emit [simp]: "quiet addrs s (bus_emit (DelayMs n) s)" by (simp add: quiet_def)

lemma quiet_transaction:
  assumes "\<not> direction_write addrs ops"
  shows "quiet addrs s (snd (i2c_transaction env ops s))"
proof -
  obtain err s1 where q: "queue_ops env ops s = (err, s1)" by fastforce
  obtain r s2 where c: "i2c_bus_cmd_begin env ops s1 = (r, s2)" by fastforce
  show ?thesis
    using queue_ops_keeps [OF q makes_output_plumbing(1)] cmd_begin_spec(4) [OF c makes_output_plumbing(1)] assms
    by (simp add: quiet_def i2c_transaction_def q c)
qed

lemma quiet_cmd:
  assumes "\<not> direction_write addrs (i2c_ops addr wr n)" "i2c_master_cmd env addr wr n s = (r, s')"
  shows "quiet addrs s s'"
proof -
  have a: "i2c_attempts env (i2c_ops addr wr n) k attempt r0 s0 = (r, s') \<Longrightarrow> quiet addrs s0 s'" for k attempt r0 s0
  proof (induction k arbitrary: attempt r0 s0)
    case (Suc k)
    obtain r1 s1 where t: "i2c_transaction env (i2c_ops addr wr n) (bus_emit LinkCreate s0) = (r1, s1)" by fastforce
    have "quiet addrs s0 s1" using quiet_transaction [OF assms(1), of "bus_emit LinkCreate s0" env] t by (simp add: quiet_def)
    with Suc.prems t show ?case by (auto simp: quiet_def i2c_bus_unlock_def Let_def split: if_splits dest!: Suc.IH)
  qed (auto simp: quiet_def i2c_bus_unlock_def)
  show ?thesis
    using assms(2) a by (fastforce simp: i2c_master_cmd_def quiet_def i2c_bus_lock_def split: if_splits)
qed

lemma quiet_write:
  assumes "i2c_bus_write env addr wr s = (err, s')" "\<not> direction_write addrs (i2c_ops addr wr 0)"
  shows "quiet addrs s s'"
proof -
  obtain r where "i2c_master_cmd env addr wr 0 s = (r, s')" using assms(1) by (auto simp: i2c_bus_write_def split: prod.splits)
  then show ?thesis by (rule quiet_cmd [OF assms(2)])
qed

lemma direction_ops:
  "direction_write addrs (i2c_ops addr (reg # data) n) =
     (push_bit 1 addr \<in> push_bit 1 ` set addrs \<and> (\<exists>k < length data. unat reg + k < 2 \<and> data ! k \<noteq> 0xFF))"
  by (simp add: i2c_ops_def)

lemma quiet_write16:
  assumes "mcp23017_write16 env addr reg w s = (err, s')" "2 \<le> unat reg \<or> w = 0xFFFF"
  shows "quiet addrs s s'"
proof (rule quiet_write [OF assms(1) [unfolded mcp23017_write16_def]])
  show "\<not> direction_write addrs (i2c_ops addr [reg, ucast (w AND 0xFF), ucast (drop_bit 8 w)] 0)"
  proof (cases "2 \<le> unat reg")
    case True
    then show ?thesis by (simp add: direction_ops)
  next
    case False
    then have "set [ucast (w AND 0xFF), ucast (drop_bit 8 w)] \<subseteq> {0xFF :: u8}" using assms(2) by simp
    then have "k < 2 \<Longrightarrow> [ucast (w AND 0xFF), ucast (drop_bit 8 w)] ! k = (0xFF :: u8)" for k
      by (metis (no_types) length_Cons list.size(3) nth_mem numeral_2_eq_2 singletonD subsetD)
    then show ?thesis by (auto simp: direction_ops)
  qed
qed

lemma quiet_read16:
  assumes "mcp23017_read16 env addr reg s = ((err, v), s')"
  shows "quiet addrs s s'"
proof -
  obtain r where "i2c_master_cmd env addr [reg] 2 s = (r, s')"
    using assms by (auto simp: mcp23017_read16_def i2c_bus_write_read_def split: prod.splits if_splits)
  then show ?thesis by (rule quiet_cmd [rotated]) (simp add: direction_ops)
qed

lemma quiet_expander:
  "mcp23017_init env addr 0xFFFF m s = (err, s') \<Longrightarrow> quiet addrs s s'"
  "mcp23017_read_gpio env addr s = ((err, v), s') \<Longrightarrow> quiet addrs s s'"
  "mcp23017_write_gpio env addr m v s = (err, s') \<Longrightarrow> quiet addrs s s'"
  by (auto simp: mcp23017_init_def mcp23017_read_gpio_def mcp23017_write_gpio_def MCP23017_GPPUA_def MCP23017_OLATA_def
      split: prod.splits if_splits dest!: quiet_write16 [where addrs = addrs] quiet_read16 [where addrs = addrs]
      simp: quiet_def)

lemma quiet_pwm:
  assumes "push_bit 1 addr \<notin> push_bit 1 ` set addrs"
  shows "pca9685_init fl undef env addr f s = (err, s') \<Longrightarrow> quiet addrs s s'"
    "pca9685_set_pwm env addr c d s = (err, s') \<Longrightarrow> quiet addrs s s'"
proof -
  have w: "i2c_bus_write env addr (reg # data) s = (err, s') \<Longrightarrow> quiet addrs s s'" for reg data s err s'
    by (erule quiet_write) (use assms in \<open>simp add: direction_ops\<close>)
  show "pca9685_init fl undef env addr f s = (err, s') \<Longrightarrow> quiet addrs s s'"
    by (auto simp: pca9685_init_def pca9685_write8_def split: prod.splits if_splits dest!: w simp: quiet_def)
  show "pca9685_set_pwm env addr c d s = (err, s') \<Longrightarrow> quiet addrs s s'"
    by (auto simp: pca9685_set_pwm_def pca9685_write16_def split: prod.splits if_splits dest!: w)
qed

abbreviation expanders :: "io_env \<Rightarrow> u8 list" where
  "expanders env \<equiv> map_mcp23017_addresses (ioe_map env)"

text \<open>The PWM controller has an address of its own, in the seven bits that go over the bus.\<close>

definition pwm_apart :: "io_env \<Rightarrow> bool" where
  "pwm_apart env \<longleftrightarrow> push_bit 1 (map_pca9685_address (ioe_map env)) \<notin> push_bit 1 ` set (expanders env)"

lemma quiet_apply:
  assumes "pwm_apart env"
  shows "quiet (expanders env) (io_bus s) (io_bus (io_apply env cmd s))"
proof -
  let ?pca = "map_pca9685_address (ioe_map env)"
  have p: "quiet (expanders env) b (snd (pca9685_init fl undef i2c ?pca f b))" "quiet (expanders env) b (snd (pca9685_set_pwm i2c ?pca c d b))"
    for fl undef i2c f b c d
    using quiet_pwm [OF assms [unfolded pwm_apart_def]] by (metis prod.collapse)+
  have "quiet (expanders env) b0 (for_loop (\<lambda>i b. snd (pca9685_set_pwm i2c ?pca (of_nat i) (d ! i) b)) 16 0 b)" if "quiet (expanders env) b0 b"
    for b0 b i2c d
    by (rule for_loop_invariant) (use p(2) that in \<open>auto intro: quiet_trans\<close>)
  with p show ?thesis
    using quiet_expander(3) [OF prod.collapse [symmetric]] by (cases cmd) (simp_all add: Let_def split: prod.split)
qed

lemma quiet_turn:
  assumes "pwm_apart env"
  shows "quiet (expanders env) (io_bus s) (io_bus (io_task_turn env locks s))"
proof -
  have "quiet (expanders env) (io_bus s0) (io_bus (fold (io_apply env) cmds s0))" for cmds s0
    using quiet_apply [OF assms] by (induction cmds arbitrary: s0) (auto intro: quiet_trans)
  moreover have "quiet (expanders env) (io_bus s0) (io_bus (io_poll_port env locks i s0))" for i s0
    using quiet_expander(2) by (auto simp: io_poll_port_def split: prod.split)
  ultimately have "quiet (expanders env) (io_bus s) (io_bus (io_poll_port env locks 1 (io_poll_port env locks 0 (io_drain env s))))"
    by (metis (no_types, lifting) io_drain_def io_task.select_convs(5) io_task.surjective io_task.update_convs(1) quiet_trans)
  then show ?thesis by (simp add: io_task_turn_def Let_def numeral_2_eq_2 quiet_def)
qed

lemma quiet_prologue:
  assumes "pwm_apart env"
  shows "quiet (expanders env) (io_bus s) (io_bus (io_task_prologue env s))"
proof -
  have "quiet (expanders env) b (snd (pca9685_init (ioe_fl env) (ioe_undef env) (ioe_i2c env) (map_pca9685_address (ioe_map env)) f b))" for f b
    using quiet_pwm(1) [OF assms [unfolded pwm_apart_def]] by (metis prod.collapse)
  moreover have "quiet (expanders env) b (snd (mcp23017_init (ioe_i2c env) addr 0xFFFF 0xFFFF b))" for addr b
    using quiet_expander(1) by (metis prod.collapse)
  ultimately show ?thesis by (simp add: io_task_prologue_def Let_def quiet_def)
qed

text \<open>
  A life of the I/O task: it starts on a bus, and before each turn some commands are queued.
\<close>

definition io_life :: "io_env \<Rightarrow> ((nat \<Rightarrow> bool) \<times> io_command_t list) list \<Rightarrow> sensor_data_model_t \<Rightarrow> i2c_bus \<Rightarrow> io_task" where
  "io_life env turns model bus =
     fold (\<lambda>(locks, cmds) s. io_task_turn env locks (s\<lparr>io_queue := io_queue s @ cmds\<rparr>)) turns
       (io_task_prologue env (io_task_start model bus))"

text \<open>
  C3. No pin of an expander is ever an output. Whatever commands arrive, in any number of turns
  and whatever the bus does, the I/O task begins no transaction that would write a zero bit to a
  direction register of an expander. All pins stay the inputs that the chip starts with, and a
  GPIO command changes latches that drive nothing.
\<close>

theorem no_pin_is_an_output:
  assumes "pwm_apart env" "bus_log bus = []"
  shows "\<forall>ops. CmdBegin ops \<in> set (bus_log (io_bus (io_life env turns model bus))) \<longrightarrow> \<not> direction_write (expanders env) ops"
proof -
  have "quiet (expanders env) (io_bus s) (io_bus (fold (\<lambda>(locks, cmds) s. io_task_turn env locks (s\<lparr>io_queue := io_queue s @ cmds\<rparr>)) turns s))" for s
  proof (induction turns arbitrary: s)
    case (Cons a turns)
    obtain locks cmds where a: "a = (locks, cmds)" by fastforce
    show ?case using quiet_trans [OF quiet_turn [OF assms(1), of "s\<lparr>io_queue := io_queue s @ cmds\<rparr>" locks] Cons.IH] by (simp add: a)
  qed simp
  with quiet_prologue [OF assms(1), of "io_task_start model bus"]
  have "quiet (expanders env) bus (io_bus (io_life env turns model bus))"
    by (simp add: io_life_def io_task_start_def quiet_def)
  then have "events (makes_output (expanders env)) (io_bus (io_life env turns model bus)) = 0"
    using assms(2) by (simp add: quiet_def events_def)
  then show ?thesis by (auto simp: events_def filter_empty_conv)
qed

theorem no_pin_is_an_output_witness:
  "list_all (\<lambda>e. case e of CmdBegin ops \<Rightarrow> \<not> direction_write (expanders demo_io_env) ops | _ \<Rightarrow> True)
     (bus_log (io_bus (io_life demo_io_env [(\<lambda>_. True, [IO_CMD_WRITE_GPIO 0 0 1 1])] data_model_init ready_bus)))"
  using no_pin_is_an_output [of demo_io_env ready_bus "[(\<lambda>_. True, [IO_CMD_WRITE_GPIO 0 0 1 1])]" data_model_init]
  by (auto simp: list_all_iff pwm_apart_def demo_io_env_def demo_map_def ready_bus_def split: i2c_event.splits)

lemma direction_write_example: "direction_write [0x20] (i2c_ops 0x20 [MCP23017_IODIRA, 0x00, 0xFF] 0)"
  by (simp add: direction_ops MCP23017_IODIRA_def) (rule exI [of _ 0], simp)

end
