(* ===== verification/Nodes.thy ===== *)
theory Nodes
  imports Link SensorModel HmiModel IoTask
begin

text \<open>
  The two applications on the link: the sensor node's \<^verbatim>\<open>sensor_node/main/net/ws_server.c\<close> and
  the HMI node's \<^verbatim>\<open>hmi_node/main/net/ws_client.c\<close>, as far as they exchange messages, and
  what the nodes achieve together: telemetry that reaches the user interface and commands that
  reach the I/O task.
\<close>

section \<open>The sensor node\<close>

text \<open>
  The receive callback \<^verbatim>\<open>ws_rx\<close>: a decoded command becomes up to three commands of the I/O
  task; \<open>drained i\<close> is how many commands the task takes off a full queue during send number \<open>i\<close>.
\<close>

definition queue_command :: "(nat \<Rightarrow> nat) \<Rightarrow> proto_command_t \<Rightarrow> io_command_t list \<Rightarrow> io_command_t list" where
  "queue_command drained cmd q =
     (let q = (if cmd_has_pwm_update cmd
               then snd (io_task_set_pwm (drained 0) (cmd_pwm_channel cmd) (cmd_pwm_duty_cycle cmd) q) else q);
          q = (if cmd_has_pwm_frequency cmd then snd (io_task_set_pwm_frequency (drained 1) (cmd_pwm_frequency cmd) q) else q)
      in if cmd_has_gpio_write cmd
         then snd (io_task_write_gpio (drained 2) (cmd_gpio_device_index cmd) (cmd_gpio_port cmd) (cmd_gpio_mask cmd)
                     (cmd_gpio_value cmd) q)
         else q)"

definition sensor_ws_rx :: "'j cjson \<Rightarrow> (nat \<Rightarrow> nat) \<Rightarrow> bytes \<Rightarrow> u32 \<Rightarrow> io_command_t list \<Rightarrow> io_command_t list" where
  "sensor_ws_rx cj drained data crc q =
     (case proto_decode_command_json cj data crc of
        None \<Rightarrow> q
      | Some cmd \<Rightarrow> queue_command drained cmd q)"

definition SENSOR_TX_FRAME_SIZE :: nat where
  "SENSOR_TX_FRAME_SIZE = SENSOR_DATA_MODEL_MAX_MESSAGE_SIZE + 4"

definition sensor_ws_server_send_update ::
  "srv_env \<Rightarrow> bool \<Rightarrow> sensor_data_model_t \<Rightarrow> ws_server \<Rightarrow> sensor_data_model_t \<times> ws_server" where
  "sensor_ws_server_send_update env took model srv =
     (case data_model_build took model of
        (None, model) \<Rightarrow> (model, srv)
      | (Some (index, payload_len, crc), model) \<Rightarrow>
          if payload_len + 4 > SENSOR_TX_FRAME_SIZE then (model, srv)
          else let payload = take payload_len (the (sdm_encode_buffers model ! index))
               in (model, snd (ws_server_send env (Some (le_bytes 4 crc @ payload)) srv)))"

section \<open>The HMI node\<close>

definition handle_sensor_update :: "'j cjson \<Rightarrow> (nat \<Rightarrow> bool) \<Rightarrow> bytes \<Rightarrow> u32 \<Rightarrow> hmi_data_model_t \<Rightarrow> hmi_data_model_t" where
  "handle_sensor_update cj locks data crc model =
     (case proto_decode_sensor_update_json cj data crc of
        None \<Rightarrow> hmi_data_model_set_crc_status (locks 0) False model
      | Some update \<Rightarrow> hmi_data_model_set_crc_status (locks 1) True (hmi_data_model_set_update (locks 0) update model))"

definition hmi_ws_rx :: "'j cjson \<Rightarrow> (nat \<Rightarrow> bool) \<Rightarrow> bytes \<Rightarrow> u32 \<Rightarrow> hmi_data_model_t \<Rightarrow> hmi_data_model_t" where
  "hmi_ws_rx cj locks data crc model = handle_sensor_update cj locks data crc model"

text \<open>The command counter \<^verbatim>\<open>s_next_command_seq\<close> and the client; \<open>now\<close> is \<^verbatim>\<open>monotonic_time_ms\<close>.\<close>

record hmi_link =
  hl_next_command_seq :: u32
  hl_client :: ws_client

definition hmi_ws_client_send_command :: "cli_env \<Rightarrow> u32 \<Rightarrow> proto_command_t option \<Rightarrow> hmi_link \<Rightarrow> esp_err \<times> hmi_link" where
  "hmi_ws_client_send_command env now cmdp s =
     (case cmdp of
        None \<Rightarrow> (ESP_ERR_INVALID_ARG, s)
      | Some cmd \<Rightarrow>
          if \<not> ws_client_is_connected (hl_client s) then (ESP_ERR_INVALID_STATE, s)
          else
            let seq = hl_next_command_seq s + 1; s = s\<lparr>hl_next_command_seq := seq\<rparr>;
                loc = cmd\<lparr>cmd_timestamp_ms := now, cmd_sequence_id := seq\<rparr>
            in case encode_command_json_into loc PROTO_MAX_COMMAND_SIZE of
                 None \<Rightarrow> (ESP_ERR_INVALID_RESPONSE, s)
               | Some (payload, crc) \<Rightarrow>
                   if length payload + 4 > PROTO_MAX_COMMAND_SIZE + 4 then (ESP_ERR_INVALID_SIZE, s)
                   else case ws_client_send env (le_bytes 4 crc @ payload) (hl_client s) of
                     (err, c) \<Rightarrow> (err, s\<lparr>hl_client := c\<rparr>))"

section \<open>Telemetry\<close>

lemma update_delivered:
  assumes "srv_clients srv = Some cs" "clients_inv cs" "srv_handle srv" "sec_encryption_enabled (srv_sec srv)"
    and "gcm_correct (env_crypto env)" "length (env_random_iv env (srv_log srv)) = 12" "\<forall>n. env_alloc env (srv_log srv) ''frame'' n"
    and "sensor_model_inv model" "sdm_initialized model" "sdm_mutex model" "readings_below (10 ^ 6) (sdm_current model)"
    and "\<forall>e \<in> set (su_sht20 (sdm_current model)). list_all plain_char (sht_id e)"
    and "cjson_reads cj dbl (sensor_update_doc (sdm_current model))"
    and "sec_agree (srv_sec srv) (wc_sec c)" "cenv_crypto cenv = env_crypto env" "wc_rx_cb c"
    and "wc_rx_counter c < sec_tx_counter (srv_sec srv) + 1" "hdm_mutex hmi" "locks 0" "locks 1"
    and "sensor_ws_server_send_update env True model srv = (model', srv')"
  shows "\<exists>frame payload crc.
    (\<forall>j < length cs. cl_fd (cs ! j) \<ge> 0 \<longrightarrow> EvSend (cl_fd (cs ! j)) WS_BINARY frame \<in> set (srv_log srv')) \<and>
    wc_log (websocket_event_handler cenv (WsData True frame) c) = CEvRx payload crc # wc_log c \<and>
    hmi_ws_rx cj locks payload crc hmi =
      (if readings_are_numbers (sdm_current model)
       then hmi\<lparr>hdm_last_update := sensor_update_norm cj dbl (sdm_current model), hdm_has_update := True, hdm_last_crc_ok := True\<rparr>
       else hmi\<lparr>hdm_last_crc_ok := False\<rparr>)"
proof -
  obtain index len crc m' where b: "data_model_build True model = (Some (index, len, crc), m')"
    using data_model_build_succeeds [OF assms(8-11)] by blast
  note bd = data_model_build_SomeD [OF b assms(8)]
  obtain payload where p: "sdm_encode_buffers m' ! index = Some payload" "length payload = len" "crc = proto_crc32 payload"
    "encode_sensor_update_json_into (sdm_current model) SENSOR_DATA_MODEL_MAX_MESSAGE_SIZE = Some (payload, crc)"
    using bd(4) by blast
  let ?data = "le_bytes 4 (proto_crc32 payload) @ payload"
  have "srv' = snd (ws_server_send env (Some ?data) srv)"
    using assms(21) b bd(3) p(1-3)
    by (auto simp: sensor_ws_server_send_update_def SENSOR_TX_FRAME_SIZE_def split: prod.splits)
  then obtain r where send: "ws_server_send env (Some ?data) srv = (r, srv')" by (metis prod.collapse)
  obtain frame where f: "\<forall>j < length cs. cl_fd (cs ! j) \<ge> 0 \<longrightarrow> EvSend (cl_fd (cs ! j)) WS_BINARY frame \<in> set (srv_log srv')"
    "wc_log (websocket_event_handler cenv (WsData True frame) c) = CEvRx payload (proto_crc32 payload) # wc_log c"
    using broadcast_arrives [OF assms(1-6) _ send assms(14-17)] assms(7) by blast
  have "proto_decode_sensor_update_json cj payload crc =
      (if readings_are_numbers (sdm_current model) then Some (sensor_update_norm cj dbl (sdm_current model)) else None)"
    using assms(8) by (intro sensor_update_decode_encoded [OF assms(13) _ assms(12) p(4)]) (simp add: sensor_model_inv_def)
  then have "hmi_ws_rx cj locks payload crc hmi =
      (if readings_are_numbers (sdm_current model)
       then hmi\<lparr>hdm_last_update := sensor_update_norm cj dbl (sdm_current model), hdm_has_update := True, hdm_last_crc_ok := True\<rparr>
       else hmi\<lparr>hdm_last_crc_ok := False\<rparr>)"
    using assms(18-20) by (simp add: hmi_ws_rx_def handle_sensor_update_def hmi_data_model_set_crc_status_def
        hmi_data_model_set_update_def hmi_model_lock_def)
  with f p(3) show ?thesis by blast
qed

text \<open>
  Telemetry reaches the user interface. When the sensor node publishes a snapshot with the
  link encrypted, every connected client is sent one frame; a client that shares the
  secrets and has seen no later counter passes its payload and checksum to the HMI, whose
  data model then holds the snapshot, to the resolution of the text, as a new update with the
  checksum in order, when every measured value is a number. Otherwise the text is not JSON, and
  the HMI keeps what it had and only notes a bad message.
\<close>

theorem sensor_update_reaches_ui:
  assumes "srv_clients srv = Some cs" "clients_inv cs" "srv_handle srv" "sec_encryption_enabled (srv_sec srv)"
    and "gcm_correct (env_crypto env)" "length (env_random_iv env (srv_log srv)) = 12" "\<forall>n. env_alloc env (srv_log srv) ''frame'' n"
    and "sensor_model_inv model" "sdm_initialized model" "sdm_mutex model" "readings_below (10 ^ 6) (sdm_current model)"
    and "\<forall>e \<in> set (su_sht20 (sdm_current model)). list_all plain_char (sht_id e)"
    and "cjson_reads cj dbl (sensor_update_doc (sdm_current model))"
    and "sec_agree (srv_sec srv) (wc_sec c)" "cenv_crypto cenv = env_crypto env" "wc_rx_cb c"
    and "wc_rx_counter c < sec_tx_counter (srv_sec srv) + 1" "hdm_mutex hmi" "locks 0" "locks 1"
    and "sensor_ws_server_send_update env True model srv = (model', srv')"
  shows "\<exists>frame payload crc.
    (\<forall>j < length cs. cl_fd (cs ! j) \<ge> 0 \<longrightarrow> EvSend (cl_fd (cs ! j)) WS_BINARY frame \<in> set (srv_log srv')) \<and>
    wc_log (websocket_event_handler cenv (WsData True frame) c) = CEvRx payload crc # wc_log c \<and>
    hmi_ws_rx cj locks payload crc hmi =
      (if readings_are_numbers (sdm_current model)
       then hmi\<lparr>hdm_last_update := sensor_update_norm cj dbl (sdm_current model), hdm_has_update := True, hdm_last_crc_ok := True\<rparr>
       else hmi\<lparr>hdm_last_crc_ok := False\<rparr>)"
  using assms by (rule update_delivered)

lemma demo_current_numbers: "readings_are_numbers (sdm_current demo_model)"
  unfolding demo_current by (simp add: readings_are_numbers_def zero_sensor_update_def zero_sht20_def zero_ds18b20_def)

definition demo_hmi :: hmi_data_model_t where
  "demo_hmi = fst (hmi_data_model_init demo_nvs demo_store)"

lemma demo_sender:
  "srv_handle demo_srv" "gcm_correct (env_crypto demo_env)" "length (env_random_iv demo_env (srv_log demo_srv)) = 12"
  "\<forall>n. env_alloc demo_env (srv_log demo_srv) ''frame'' n"
  "sec_agree (srv_sec demo_srv) (wc_sec demo_client)" "cenv_crypto demo_cli_env = env_crypto demo_env" "wc_rx_cb demo_client"
  "wc_rx_counter demo_client < sec_tx_counter (srv_sec demo_srv) + 1"
  by (simp_all add: demo_srv_def demo_env_def gcm_correct_demo demo_ctx_eval sec_agree_def demo_client_def demo_cli_env_def)

theorem sensor_update_reaches_ui_witness:
  "\<exists>frame payload crc.
    EvSend 5 WS_BINARY frame \<in> set (srv_log (snd (sensor_ws_server_send_update demo_env True demo_model demo_srv))) \<and>
    wc_log (websocket_event_handler demo_cli_env (WsData True frame) demo_client) = [CEvRx payload crc] \<and>
    hdm_has_update (hmi_ws_rx (doc_cjson [sensor_update_doc (sdm_current demo_model)]) (\<lambda>_. True) payload crc demo_hmi)"
proof -
  obtain model' srv' where s: "sensor_ws_server_send_update demo_env True demo_model demo_srv = (model', srv')" by fastforce
  have m: "hdm_mutex demo_hmi" by (auto simp: demo_hmi_def hmi_data_model_init_def Let_def split: prod.split)
  obtain frame payload crc where f: "\<forall>j < length (the (srv_clients demo_srv)). cl_fd (the (srv_clients demo_srv) ! j) \<ge> 0 \<longrightarrow>
      EvSend (cl_fd (the (srv_clients demo_srv) ! j)) WS_BINARY frame \<in> set (srv_log srv')"
    "wc_log (websocket_event_handler demo_cli_env (WsData True frame) demo_client) = CEvRx payload crc # wc_log demo_client"
    "hmi_ws_rx (doc_cjson [sensor_update_doc (sdm_current demo_model)]) (\<lambda>_. True) payload crc demo_hmi =
      demo_hmi\<lparr>hdm_last_update := sensor_update_norm (doc_cjson [sensor_update_doc (sdm_current demo_model)]) (\<lambda>r. r)
         (sdm_current demo_model), hdm_has_update := True, hdm_last_crc_ok := True\<rparr>"
    using sensor_update_reaches_ui [OF demo_clients(1) demo_inv demo_sender(1) demo_clients(3) demo_sender(2-4) demo_model_ok(1-4,6) doc_cjson_reads
      demo_sender(5-8) m TrueI TrueI s] demo_current_numbers by auto
  have "EvSend 5 WS_BINARY frame \<in> set (srv_log srv')" using f(1) [rule_format, of 1] by (simp add: demo_srv_def)
  with f(2,3) s show ?thesis by (auto simp: demo_client_def)
qed

section \<open>Commands\<close>

text \<open>The I/O commands that a command stands for, and the command as it is sent.\<close>

definition io_commands_of :: "proto_command_t \<Rightarrow> io_command_t list" where
  "io_commands_of cmd =
     (if cmd_has_pwm_update cmd then [IO_CMD_SET_PWM (cmd_pwm_channel cmd) (cmd_pwm_duty_cycle cmd)] else []) @
     (if cmd_has_pwm_frequency cmd then [IO_CMD_SET_PWM_FREQ (cmd_pwm_frequency cmd)] else []) @
     (if cmd_has_gpio_write cmd
      then [IO_CMD_WRITE_GPIO (if cmd_gpio_device_index cmd = 0 then 0 else 1) (if cmd_gpio_port cmd = 0 then 0 else 1)
              (cmd_gpio_mask cmd) (cmd_gpio_value cmd)] else [])"

definition stamped :: "u32 \<Rightarrow> u32 \<Rightarrow> proto_command_t \<Rightarrow> proto_command_t" where
  "stamped now seq cmd = cmd\<lparr>cmd_timestamp_ms := now, cmd_sequence_id := seq\<rparr>"

lemma queue_command_norm:
  assumes "length q + 3 \<le> IO_QUEUE_LENGTH"
  shows "queue_command drained (command_norm (stamped now seq cmd)) q = q @ io_commands_of cmd"
proof -
  have s: "io_send d x q' = (True, q' @ [x])" if "length q' < IO_QUEUE_LENGTH" for d x q'
    using that by (simp add: io_send_def)
  show ?thesis using assms
    by (auto simp: queue_command_def io_task_set_pwm_def io_task_set_pwm_frequency_def io_task_write_gpio_def s Let_def
        command_norm_def stamped_def io_commands_of_def)
qed

lemma client_send_frame:
  assumes "wc_client c" "wc_connected c" "sec_encryption_enabled (wc_sec c)" "gcm_correct (cenv_crypto env)"
    and "length (cenv_random env (wc_log c) 12) = 12" "\<forall>n. cenv_alloc env (wc_log c) ''frame'' n"
    and "seen < sec_tx_counter (wc_sec c) + 1" "ws_client_send env data c = (err, c')"
  shows "\<exists>frame. length frame = 38 + length data \<and> CEvSend frame \<in> set (wc_log c') \<and>
    ws_security_decrypt (cenv_crypto env) (Some (wc_sec c)) (Some frame) (Some seen) =
      (ESP_OK, data, Some (sec_tx_counter (wc_sec c) + 1))"
proof -
  obtain frame where f: "ws_security_encrypt (cenv_crypto env) (cenv_random env (wc_log c) 12) (wc_sec c) data (38 + length data) =
      (ESP_OK, Some frame, (wc_sec c)\<lparr>sec_tx_counter := sec_tx_counter (wc_sec c) + 1\<rparr>)" "length frame = 38 + length data"
    "ws_security_decrypt (cenv_crypto env) (Some (wc_sec c)) (Some frame) (Some seen) =
      (ESP_OK, data, Some (sec_tx_counter (wc_sec c) + 1))"
    using ws_security_encrypt_open [OF assms(4,3,5), of data "38 + length data" "Some seen"] assms(7) by auto
  have "ws_security_encrypted_size (Some (wc_sec c)) (length data) = 38 + length data"
    using assms(3) by (simp add: ws_security_encrypted_size_def ws_security_lens)
  then have "CEvSend frame \<in> set (wc_log c')"
    using assms(1-3,6,8) f(1)
    by (auto simp: ws_client_send_def ws_security_is_encryption_enabled_def Let_def WS_SECURITY_IV_LEN_def
        client_transmit_def note_ev_def)
  with f(2,3) show ?thesis by blast
qed

lemma command_delivered:
  assumes "wc_client (hl_client s)" "wc_connected (hl_client s)" "sec_encryption_enabled (wc_sec (hl_client s))"
    and "gcm_correct (cenv_crypto cenv)" "length (cenv_random cenv (wc_log (hl_client s)) 12) = 12"
    and "\<forall>n. cenv_alloc cenv (wc_log (hl_client s)) ''frame'' n"
    and "hmi_ws_client_send_command cenv now (Some cmd) s = (err, s')"
    and "srv_clients srv = Some cs" "find_client cs fd = Some i" "cl_handshake_verified (cs ! i)"
    and "cl_last_counter (cs ! i) < sec_tx_counter (wc_sec (hl_client s)) + 1"
    and "554 \<le> wss_rx_buffer_size (srv_cfg srv)" "srv_rx_cb srv" "sec_agree (wc_sec (hl_client s)) (srv_sec srv)"
    and "env_crypto env = cenv_crypto cenv"
    and "cjson_reads cj dbl (command_doc (stamped now (hl_next_command_seq s + 1) cmd))" "length q + 3 \<le> IO_QUEUE_LENGTH"
  shows "\<exists>frame payload crc srv'. CEvSend frame \<in> set (wc_log (hl_client s')) \<and>
    ws_handler env (frame_req fd WS_BINARY frame) srv = (ESP_OK, srv') \<and> srv_log srv' = EvRx payload crc # srv_log srv \<and>
    sensor_ws_rx cj drained payload crc q = q @ io_commands_of cmd"
proof -
  let ?c = "hl_client s" and ?cmd = "stamped now (hl_next_command_seq s + 1) cmd"
  obtain payload crc where p: "encode_command_json_into ?cmd PROTO_MAX_COMMAND_SIZE = Some (payload, crc)"
    "length payload < PROTO_MAX_COMMAND_SIZE" "proto_decode_command_json cj payload crc = Some (command_norm ?cmd)"
    using command_decode_encoded [OF assms(16)] by blast
  let ?data = "le_bytes 4 crc @ payload"
  obtain c' where send: "ws_client_send cenv ?data ?c = (err, c')" "hl_client s' = c'"
    using assms(2,7) p(1,2)
    by (auto simp: hmi_ws_client_send_command_def ws_client_is_connected_def stamped_def Let_def split: prod.splits)
  obtain frame where f: "length frame = 38 + length ?data" "CEvSend frame \<in> set (wc_log c')"
    "ws_security_decrypt (cenv_crypto cenv) (Some (wc_sec ?c)) (Some frame) (Some (cl_last_counter (cs ! i))) =
      (ESP_OK, ?data, Some (sec_tx_counter (wc_sec ?c) + 1))"
    using client_send_frame [OF assms(1-6,11) send(1)] by blast
  note agree = sec_agreeD [OF assms(14)]
  have dec: "ws_security_decrypt (env_crypto env) (Some (srv_sec srv)) (Some frame) (Some (cl_last_counter (cs ! i))) =
      (ESP_OK, ?data, Some (sec_tx_counter (wc_sec ?c) + 1))"
    using f(3) ws_security_decrypt_key [of "wc_sec ?c" "srv_sec srv"] agree assms(15) by metis
  obtain ret srv' where h: "ws_handler env (frame_req fd WS_BINARY frame) srv = (ret, srv')" by fastforce
  have "length frame \<le> wss_rx_buffer_size (srv_cfg srv)"
    using f(1) p(2) assms(12) by (simp add: PROTO_MAX_COMMAND_SIZE_def)
  from ws_handler_binary_cases [OF assms(8,9) this assms(13) _ h] assms(3,10) agree dec
  have "ret = ESP_OK" "srv_log srv' = EvRx (drop 4 ?data) (le_word (take 4 ?data)) # srv_log srv"
    by (simp_all del: le_word.simps le_bytes.simps)
  moreover have "take 4 ?data = le_bytes 4 crc" "drop 4 ?data = payload" by (simp_all del: le_bytes.simps)
  moreover have "sensor_ws_rx cj drained payload crc q = q @ io_commands_of cmd"
    using p(3) queue_command_norm [OF assms(17)] by (simp add: sensor_ws_rx_def)
  ultimately show ?thesis using f(2) send(2) h by (metis le_word_le_bytes_u32)
qed

text \<open>
  C4. Commands reach the I/O task. When the HMI node sends a command over an encrypted
  connection, the frame it transmits makes the server of the sensor node deliver the command,
  and the node queues exactly the I/O operations the command stands for, in the order PWM
  duty, PWM frequency, GPIO, as long as three places of the queue are free.
\<close>

theorem command_reaches_io_task:
  assumes "wc_client (hl_client s)" "wc_connected (hl_client s)" "sec_encryption_enabled (wc_sec (hl_client s))"
    and "gcm_correct (cenv_crypto cenv)" "length (cenv_random cenv (wc_log (hl_client s)) 12) = 12"
    and "\<forall>n. cenv_alloc cenv (wc_log (hl_client s)) ''frame'' n"
    and "hmi_ws_client_send_command cenv now (Some cmd) s = (err, s')"
    and "srv_clients srv = Some cs" "find_client cs fd = Some i" "cl_handshake_verified (cs ! i)"
    and "cl_last_counter (cs ! i) < sec_tx_counter (wc_sec (hl_client s)) + 1"
    and "554 \<le> wss_rx_buffer_size (srv_cfg srv)" "srv_rx_cb srv" "sec_agree (wc_sec (hl_client s)) (srv_sec srv)"
    and "env_crypto env = cenv_crypto cenv"
    and "cjson_reads cj dbl (command_doc (stamped now (hl_next_command_seq s + 1) cmd))" "length q + 3 \<le> IO_QUEUE_LENGTH"
  shows "\<exists>frame payload crc srv'. CEvSend frame \<in> set (wc_log (hl_client s')) \<and>
    ws_handler env (frame_req fd WS_BINARY frame) srv = (ESP_OK, srv') \<and> srv_log srv' = EvRx payload crc # srv_log srv \<and>
    sensor_ws_rx cj drained payload crc q = q @ io_commands_of cmd"
  using assms by (rule command_delivered)

definition demo_link :: hmi_link where
  "demo_link = \<lparr>hl_next_command_seq = 0, hl_client = demo_client\<rparr>"

definition demo_peer :: ws_server where
  "demo_peer = demo_srv\<lparr>srv_cfg := demo_cfg\<lparr>wss_rx_buffer_size := 1024\<rparr>\<rparr>"

lemma demo_link_up:
  "wc_client (hl_client demo_link)" "wc_connected (hl_client demo_link)" "sec_encryption_enabled (wc_sec (hl_client demo_link))"
  "gcm_correct (cenv_crypto demo_cli_env)" "length (cenv_random demo_cli_env (wc_log (hl_client demo_link)) 12) = 12"
  "\<forall>n. cenv_alloc demo_cli_env (wc_log (hl_client demo_link)) ''frame'' n"
  by (simp_all add: demo_link_def demo_client_def demo_ctx_eval demo_cli_env_def gcm_correct_demo)

lemma demo_peer_up:
  "srv_clients demo_peer = Some (the (srv_clients demo_srv))" "find_client (the (srv_clients demo_srv)) 5 = Some 1"
  "cl_handshake_verified (the (srv_clients demo_srv) ! 1)"
  "cl_last_counter (the (srv_clients demo_srv) ! 1) < sec_tx_counter (wc_sec (hl_client demo_link)) + 1"
  "554 \<le> wss_rx_buffer_size (srv_cfg demo_peer)" "srv_rx_cb demo_peer" "sec_agree (wc_sec (hl_client demo_link)) (srv_sec demo_peer)"
  "env_crypto demo_env = cenv_crypto demo_cli_env"
  using demo_find(1)
  by (simp_all add: demo_peer_def demo_srv_def demo_link_def demo_client_def demo_ctx_eval sec_agree_def demo_env_def demo_cli_env_def)

lemma demo_reads: "cjson_reads (doc_cjson [command_doc (stamped now 1 cmd)]) (\<lambda>r. r)
    (command_doc (stamped now (hl_next_command_seq demo_link + 1) cmd))"
  using doc_cjson_reads by (simp add: demo_link_def)

lemma empty_queue: "length ([] :: io_command_t list) + 3 \<le> IO_QUEUE_LENGTH"
  by (simp add: IO_QUEUE_LENGTH_def)

theorem command_reaches_io_task_witness:
  "\<exists>frame payload crc srv'. CEvSend frame \<in> set (wc_log (hl_client (snd (hmi_ws_client_send_command demo_cli_env 900 (Some demo_command) demo_link)))) \<and>
    ws_handler demo_env (frame_req 5 WS_BINARY frame) demo_peer = (ESP_OK, srv') \<and>
    sensor_ws_rx (doc_cjson [command_doc (stamped 900 1 demo_command)]) (\<lambda>_. 0) payload crc [] =
      [IO_CMD_SET_PWM 3 4095, IO_CMD_WRITE_GPIO 1 0 0xFF 1]"
proof -
  obtain err s' where s: "hmi_ws_client_send_command demo_cli_env 900 (Some demo_command) demo_link = (err, s')" by fastforce
  have "io_commands_of demo_command = [IO_CMD_SET_PWM 3 4095, IO_CMD_WRITE_GPIO 1 0 0xFF 1]"
    by (simp add: io_commands_of_def demo_command_def zero_command_def)
  with command_reaches_io_task [OF demo_link_up s demo_peer_up demo_reads empty_queue, of "\<lambda>_. 0"] s show ?thesis by fastforce
qed

end
