(* ===== verification/Ambient.thy ===== *)
theory Ambient
  imports Crc Devices "HOL-Library.Signed_Division"
begin

text \<open>
  The drivers of the ambient sensors over the I2C bus, \<^verbatim>\<open>drivers/sht20.c\<close> and
  \<^verbatim>\<open>drivers/bme280.c\<close> of \<^verbatim>\<open>sensor_node/main\<close>.

  A \<^verbatim>\<open>float\<close> is a rational number and \<open>fl\<close> rounds the result of an operation. The integers
  of the compensation formulas of the BME280 are mathematical integers: C leaves their overflow
  undefined, and a theorem gives the calibrations for which the temperature formula has none.
  The shift to the right of a negative integer is the arithmetic one of the compiler.
\<close>

section \<open>SHT20\<close>

definition SHT20_CMD_TRIGGER_TEMP :: u8 where "SHT20_CMD_TRIGGER_TEMP = 0xF3"
definition SHT20_CMD_TRIGGER_HUM :: u8 where "SHT20_CMD_TRIGGER_HUM = 0xF5"
definition SHT20_CMD_SOFT_RESET :: u8 where "SHT20_CMD_SOFT_RESET = 0xFE"
definition SHT20_MAX_RETRIES :: nat where "SHT20_MAX_RETRIES = 5"
definition SHT20_BASE_BACKOFF_MS :: nat where "SHT20_BASE_BACKOFF_MS = 10"

definition sht20_measure_once :: "i2c_env \<Rightarrow> u8 \<Rightarrow> u8 \<Rightarrow> i2c_bus \<Rightarrow> (esp_err \<times> bytes) \<times> i2c_bus" where
  "sht20_measure_once env addr command s =
     (case i2c_bus_write env addr [command] s of (err, s) \<Rightarrow>
        if err \<noteq> ESP_OK then ((err, []), s)
        else i2c_bus_read env addr 3 (bus_emit (DelayMs (if command = SHT20_CMD_TRIGGER_TEMP then 85 else 29)) s))"

definition sht20_raw :: "bytes \<Rightarrow> u16" where
  "sht20_raw buffer = (push_bit 8 (ucast (buffer ! 0)) OR ucast (buffer ! 1)) AND NOT 3"

definition sht20_convert :: "(rat \<Rightarrow> rat) \<Rightarrow> bool \<Rightarrow> u16 \<Rightarrow> rat" where
  "sht20_convert fl is_temp raw =
     (let r = fl (of_nat (unat raw)) in
      if is_temp then fl (- fl (4685 / 100) + fl (fl (fl (17572 / 100) * r) / 65536))
      else let humidity = fl (- 6 + fl (fl (125 * r) / 65536)) in min (max humidity 0) 100)"

definition sht20_after_failure :: "i2c_env \<Rightarrow> u8 \<Rightarrow> nat \<Rightarrow> i2c_bus \<Rightarrow> i2c_bus" where
  "sht20_after_failure env addr attempt s =
     (let s = (if attempt \<ge> 2 then
                 (case i2c_bus_write env addr [SHT20_CMD_SOFT_RESET] s of (err, s) \<Rightarrow>
                    if err = ESP_OK then bus_emit (DelayMs 20) s else s)
               else s)
      in bus_emit (DelayMs (SHT20_BASE_BACKOFF_MS * 2 ^ attempt)) s)"

text \<open>The value written to \<^verbatim>\<open>*out_value\<close> is the second component; it is \<open>None\<close> on an error.\<close>

fun sht20_attempts ::
  "(rat \<Rightarrow> rat) \<Rightarrow> i2c_env \<Rightarrow> u8 \<Rightarrow> u8 \<Rightarrow> bool \<Rightarrow> nat \<Rightarrow> nat \<Rightarrow> esp_err \<Rightarrow> i2c_bus \<Rightarrow> (esp_err \<times> rat option) \<times> i2c_bus" where
  "sht20_attempts fl env addr command is_temp 0 attempt last_err s = ((last_err, None), s)"
| "sht20_attempts fl env addr command is_temp (Suc n) attempt last_err s =
     (case sht20_measure_once env addr command s of ((err, buffer), s) \<Rightarrow>
        if err = ESP_OK \<and> sht20_crc8 (take 2 buffer) = buffer ! 2
        then ((ESP_OK, Some (sht20_convert fl is_temp (sht20_raw buffer))), s)
        else sht20_attempts fl env addr command is_temp n (Suc attempt)
               (if err \<noteq> ESP_OK then err else ESP_ERR_INVALID_CRC) (sht20_after_failure env addr attempt s))"

definition sht20_read_measurement ::
  "(rat \<Rightarrow> rat) \<Rightarrow> i2c_env \<Rightarrow> u8 \<Rightarrow> u8 \<Rightarrow> bool \<Rightarrow> i2c_bus \<Rightarrow> (esp_err \<times> rat option) \<times> i2c_bus" where
  "sht20_read_measurement fl env addr command is_temp s =
     sht20_attempts fl env addr command is_temp SHT20_MAX_RETRIES 0 ESP_FAIL s"

definition sht20_soft_reset :: "i2c_env \<Rightarrow> u8 \<Rightarrow> i2c_bus \<Rightarrow> esp_err \<times> i2c_bus" where
  "sht20_soft_reset env addr s =
     (case i2c_bus_write env addr [SHT20_CMD_SOFT_RESET] s of (err, s) \<Rightarrow>
        if err \<noteq> ESP_OK then (err, s) else (ESP_OK, bus_emit (DelayMs 15) s))"

text \<open>The error and the values written to \<^verbatim>\<open>*temperature_c\<close> and \<^verbatim>\<open>*humidity\<close>.\<close>

definition sht20_read_temperature_humidity ::
  "(rat \<Rightarrow> rat) \<Rightarrow> i2c_env \<Rightarrow> u8 \<Rightarrow> i2c_bus \<Rightarrow> (esp_err \<times> rat option \<times> rat option) \<times> i2c_bus" where
  "sht20_read_temperature_humidity fl env addr s =
     (case sht20_read_measurement fl env addr SHT20_CMD_TRIGGER_TEMP True s of ((err, temp), s) \<Rightarrow>
        if err \<noteq> ESP_OK then ((err, temp, None), s)
        else case sht20_read_measurement fl env addr SHT20_CMD_TRIGGER_HUM False s of ((err, hum), s) \<Rightarrow>
          ((err, temp, hum), s))"

section \<open>BME280\<close>

definition BME280_MAX_DEVICES :: nat where "BME280_MAX_DEVICES = 4"
definition BME280_REG_CALIB_TPH :: u8 where "BME280_REG_CALIB_TPH = 0x88"
definition BME280_REG_CALIB_H1 :: u8 where "BME280_REG_CALIB_H1 = 0xA1"
definition BME280_REG_CALIB_H2 :: u8 where "BME280_REG_CALIB_H2 = 0xE1"
definition BME280_REG_CTRL_HUM :: u8 where "BME280_REG_CTRL_HUM = 0xF2"
definition BME280_REG_STATUS :: u8 where "BME280_REG_STATUS = 0xF3"
definition BME280_REG_CTRL_MEAS :: u8 where "BME280_REG_CTRL_MEAS = 0xF4"
definition BME280_REG_CONFIG :: u8 where "BME280_REG_CONFIG = 0xF5"
definition BME280_REG_DATA :: u8 where "BME280_REG_DATA = 0xF7"
definition BME280_REG_RESET :: u8 where "BME280_REG_RESET = 0xE0"

record bme280_calib =
  dig_T1 :: u16
  dig_T2 :: "16 word"
  dig_T3 :: "16 word"
  dig_P1 :: u16
  dig_P2 :: "16 word"
  dig_P3 :: "16 word"
  dig_P4 :: "16 word"
  dig_P5 :: "16 word"
  dig_P6 :: "16 word"
  dig_P7 :: "16 word"
  dig_P8 :: "16 word"
  dig_P9 :: "16 word"
  dig_H1 :: u8
  dig_H2 :: "16 word"
  dig_H3 :: u8
  dig_H4 :: "16 word"
  dig_H5 :: "16 word"
  dig_H6 :: "8 word"

definition zero_calib :: bme280_calib where
  "zero_calib = \<lparr>dig_T1 = 0, dig_T2 = 0, dig_T3 = 0, dig_P1 = 0, dig_P2 = 0, dig_P3 = 0, dig_P4 = 0, dig_P5 = 0, dig_P6 = 0,
     dig_P7 = 0, dig_P8 = 0, dig_P9 = 0, dig_H1 = 0, dig_H2 = 0, dig_H3 = 0, dig_H4 = 0, dig_H5 = 0, dig_H6 = 0\<rparr>"

record bme280_device_t =
  bme_in_use :: bool
  bme_calibrated :: bool
  bme_address :: u8
  bme_calib :: bme280_calib

definition bme280_unused :: bme280_device_t where
  "bme280_unused = \<lparr>bme_in_use = False, bme_calibrated = False, bme_address = 0, bme_calib = zero_calib\<rparr>"

definition bme280_write_reg :: "i2c_env \<Rightarrow> u8 \<Rightarrow> u8 \<Rightarrow> u8 \<Rightarrow> i2c_bus \<Rightarrow> esp_err \<times> i2c_bus" where
  "bme280_write_reg env address reg value s = i2c_bus_write env address [reg, value] s"

definition bme280_read_reg :: "i2c_env \<Rightarrow> u8 \<Rightarrow> u8 \<Rightarrow> nat \<Rightarrow> i2c_bus \<Rightarrow> (esp_err \<times> bytes) \<times> i2c_bus" where
  "bme280_read_reg env address reg len s = i2c_bus_write_read env address [reg] len s"

text \<open>The table of devices; the result is the index of the device, \<open>None\<close> for \<^verbatim>\<open>NULL\<close>.\<close>

definition bme280_get_device :: "u8 \<Rightarrow> bme280_device_t list \<Rightarrow> nat option \<times> bme280_device_t list" where
  "bme280_get_device address devs =
     (case find_index (\<lambda>d. bme_in_use d \<and> bme_address d = address) devs of
        Some i \<Rightarrow> (Some i, devs)
      | None \<Rightarrow>
          (case find_index (\<lambda>d. \<not> bme_in_use d) devs of
             Some i \<Rightarrow> (Some i, devs[i := \<lparr>bme_in_use = True, bme_calibrated = False, bme_address = address, bme_calib = zero_calib\<rparr>])
           | None \<Rightarrow> (None, devs)))"

definition bme280_reset :: "i2c_env \<Rightarrow> u8 \<Rightarrow> i2c_bus \<Rightarrow> esp_err \<times> i2c_bus" where
  "bme280_reset env address s = bme280_write_reg env address BME280_REG_RESET 0xB6 s"

text \<open>The polling loop, with the milliseconds that have passed.\<close>

function bme280_wait_loop :: "i2c_env \<Rightarrow> u8 \<Rightarrow> nat \<Rightarrow> i2c_bus \<Rightarrow> esp_err \<times> i2c_bus" where
  "bme280_wait_loop env address elapsed s =
     (case bme280_read_reg env address BME280_REG_STATUS 1 s of ((err, status), s) \<Rightarrow>
        if err \<noteq> ESP_OK then (err, s)
        else if (status ! 0) AND 0x08 = 0 then (ESP_OK, s)
        else if elapsed + 4 < 40 then bme280_wait_loop env address (elapsed + 4) (bus_emit (DelayMs 4) s)
        else (ESP_ERR_TIMEOUT, bus_emit (DelayMs 4) s))"
  by pat_completeness auto
termination by (relation "measure (\<lambda>(env, address, elapsed, s). 40 - elapsed)") auto

declare bme280_wait_loop.simps [simp del]

definition bme280_wait_measuring :: "i2c_env \<Rightarrow> u8 \<Rightarrow> i2c_bus \<Rightarrow> esp_err \<times> i2c_bus" where
  "bme280_wait_measuring env address s = bme280_wait_loop env address 0 s"

text \<open>The 16-bit value at two bytes, low byte first, and the two 12-bit values that share a byte.\<close>

definition calib16 :: "bytes \<Rightarrow> nat \<Rightarrow> u16" where
  "calib16 b i = ucast (b ! i) OR push_bit 8 (ucast (b ! Suc i))"

definition bme280_calib_tph :: "bytes \<Rightarrow> bme280_calib \<Rightarrow> bme280_calib" where
  "bme280_calib_tph b c = c\<lparr>dig_T1 := calib16 b 0, dig_T2 := calib16 b 2, dig_T3 := calib16 b 4,
     dig_P1 := calib16 b 6, dig_P2 := calib16 b 8, dig_P3 := calib16 b 10, dig_P4 := calib16 b 12, dig_P5 := calib16 b 14,
     dig_P6 := calib16 b 16, dig_P7 := calib16 b 18, dig_P8 := calib16 b 20, dig_P9 := calib16 b 22, dig_H1 := b ! 25\<rparr>"

definition bme280_calib_h :: "bytes \<Rightarrow> bme280_calib \<Rightarrow> bme280_calib" where
  "bme280_calib_h b c = c\<lparr>dig_H2 := calib16 b 0, dig_H3 := b ! 2,
     dig_H4 := push_bit 4 (ucast (b ! 3)) OR ucast ((b ! 4) AND 0x0F),
     dig_H5 := push_bit 4 (ucast (b ! 5)) OR ucast (drop_bit 4 (b ! 4)), dig_H6 := b ! 6\<rparr>"

definition bme280_load_calibration ::
  "i2c_env \<Rightarrow> bme280_device_t \<Rightarrow> i2c_bus \<Rightarrow> (esp_err \<times> bme280_device_t) \<times> i2c_bus" where
  "bme280_load_calibration env dev s =
     (if bme_calibrated dev then ((ESP_OK, dev), s)
      else case bme280_read_reg env (bme_address dev) BME280_REG_CALIB_TPH 26 s of ((err, tph), s) \<Rightarrow>
        if err \<noteq> ESP_OK then ((err, dev), s)
        else
          let dev = dev\<lparr>bme_calib := bme280_calib_tph tph (bme_calib dev)\<rparr> in
          case bme280_read_reg env (bme_address dev) BME280_REG_CALIB_H1 1 s of ((err, h1), s) \<Rightarrow>
            if err \<noteq> ESP_OK then ((err, dev), s)
            else
              let dev = dev\<lparr>bme_calib := (bme_calib dev)\<lparr>dig_H1 := h1 ! 0\<rparr>\<rparr> in
              case bme280_read_reg env (bme_address dev) BME280_REG_CALIB_H2 7 s of ((err, h), s) \<Rightarrow>
                if err \<noteq> ESP_OK then ((err, dev), s)
                else ((ESP_OK, dev\<lparr>bme_calib := bme280_calib_h h (bme_calib dev), bme_calibrated := True\<rparr>), s))"

definition bme280_configure :: "i2c_env \<Rightarrow> bme280_device_t \<Rightarrow> i2c_bus \<Rightarrow> esp_err \<times> i2c_bus" where
  "bme280_configure env dev s =
     (case bme280_write_reg env (bme_address dev) BME280_REG_CTRL_HUM 0x01 s of (err, s) \<Rightarrow>
        if err \<noteq> ESP_OK then (err, s)
        else bme280_write_reg env (bme_address dev) BME280_REG_CONFIG (push_bit 5 0x03 OR push_bit 2 0x02) s)"

text \<open>
  \<^verbatim>\<open>bme280_compensate_temperature\<close>: the fine temperature, and the temperature in hundredths of a
  degree before its conversion.
\<close>

definition bme280_var1 :: "bme280_calib \<Rightarrow> int \<Rightarrow> int" where
  "bme280_var1 c adc_T = ((adc_T div 2 ^ 3 - uint (dig_T1 c) * 2) * sint (dig_T2 c)) div 2 ^ 11"

definition bme280_var2 :: "bme280_calib \<Rightarrow> int \<Rightarrow> int" where
  "bme280_var2 c adc_T =
     ((adc_T div 2 ^ 4 - uint (dig_T1 c)) * (adc_T div 2 ^ 4 - uint (dig_T1 c)) div 2 ^ 12 * sint (dig_T3 c)) div 2 ^ 14"

definition bme280_t_fine :: "bme280_calib \<Rightarrow> int \<Rightarrow> int" where
  "bme280_t_fine c adc_T = bme280_var1 c adc_T + bme280_var2 c adc_T"

definition bme280_centidegrees :: "int \<Rightarrow> int" where
  "bme280_centidegrees t_fine = (t_fine * 5 + 128) div 2 ^ 8"

definition bme280_compensate_temperature :: "(rat \<Rightarrow> rat) \<Rightarrow> bme280_calib \<Rightarrow> int \<Rightarrow> rat \<times> int" where
  "bme280_compensate_temperature fl c adc_T =
     (let t_fine = bme280_t_fine c adc_T in (fl (fl (of_int (bme280_centidegrees t_fine)) / 100), t_fine))"

definition bme280_compensate_pressure :: "(rat \<Rightarrow> rat) \<Rightarrow> bme280_calib \<Rightarrow> int \<Rightarrow> int \<Rightarrow> rat" where
  "bme280_compensate_pressure fl c adc_P t_fine =
     (let var1 = t_fine - 128000;
          var2 = var1 * var1 * sint (dig_P6 c);
          var2 = var2 + (var1 * sint (dig_P5 c)) * 2 ^ 17;
          var2 = var2 + sint (dig_P4 c) * 2 ^ 35;
          var1 = (var1 * var1 * sint (dig_P3 c)) div 2 ^ 8 + (var1 * sint (dig_P2 c)) * 2 ^ 12;
          var1 = ((2 ^ 47 + var1) * uint (dig_P1 c)) div 2 ^ 33
      in if var1 = 0 then 0
      else
        let p = 1048576 - adc_P;
            p = ((p * 2 ^ 31 - var2) * 3125) sdiv var1;
            var1 = (sint (dig_P9 c) * (p div 2 ^ 13) * (p div 2 ^ 13)) div 2 ^ 25;
            var2 = (sint (dig_P8 c) * p) div 2 ^ 19;
            p = (p + var1 + var2) div 2 ^ 8 + sint (dig_P7 c) * 2 ^ 4
        in fl (fl (of_int p) / 256))"

definition bme280_clamp_humidity :: "int \<Rightarrow> int" where
  "bme280_clamp_humidity v = (let v = (if v < 0 then 0 else v) in if v > 419430400 then 419430400 else v)"

definition bme280_humidity_fixed :: "bme280_calib \<Rightarrow> int \<Rightarrow> int \<Rightarrow> int" where
  "bme280_humidity_fixed c adc_H t_fine =
     (let v = t_fine - 76800;
          v = ((adc_H * 2 ^ 14 - sint (dig_H4 c) * 2 ^ 20 - sint (dig_H5 c) * v + 16384) div 2 ^ 15) *
              (((((v * sint (dig_H6 c)) div 2 ^ 10 * ((v * uint (dig_H3 c)) div 2 ^ 11 + 32768)) div 2 ^ 10 + 2097152)
                 * sint (dig_H2 c) + 8192) div 2 ^ 14);
          v = v - (((v div 2 ^ 15) * (v div 2 ^ 15)) div 2 ^ 7 * uint (dig_H1 c)) div 2 ^ 4
      in bme280_clamp_humidity v)"

definition bme280_compensate_humidity :: "(rat \<Rightarrow> rat) \<Rightarrow> bme280_calib \<Rightarrow> int \<Rightarrow> int \<Rightarrow> rat" where
  "bme280_compensate_humidity fl c adc_H t_fine = fl (fl (of_int (bme280_humidity_fixed c adc_H t_fine div 2 ^ 12)) / 1024)"

text \<open>The three raw values in the eight data registers: pressure, temperature, humidity.\<close>

definition bme280_adc20 :: "bytes \<Rightarrow> nat \<Rightarrow> int" where
  "bme280_adc20 raw i = uint ((push_bit 12 (ucast (raw ! i)) OR push_bit 4 (ucast (raw ! Suc i))) OR drop_bit 4 (ucast (raw ! Suc (Suc i))) :: u32)"

definition bme280_adc16 :: "bytes \<Rightarrow> nat \<Rightarrow> int" where
  "bme280_adc16 raw i = uint (push_bit 8 (ucast (raw ! i)) OR ucast (raw ! Suc i) :: u32)"

record bme280_sample =
  bs_temperature :: rat
  bs_humidity :: rat
  bs_pressure :: rat

definition bme280_compensate :: "(rat \<Rightarrow> rat) \<Rightarrow> bme280_calib \<Rightarrow> bytes \<Rightarrow> bme280_sample" where
  "bme280_compensate fl c raw =
     (case bme280_compensate_temperature fl c (bme280_adc20 raw 3) of (temperature, t_fine) \<Rightarrow>
        \<lparr>bs_temperature = temperature, bs_humidity = bme280_compensate_humidity fl c (bme280_adc16 raw 6) t_fine,
         bs_pressure = bme280_compensate_pressure fl c (bme280_adc20 raw 0) t_fine\<rparr>)"

definition bme280_perform_measurement ::
  "(rat \<Rightarrow> rat) \<Rightarrow> i2c_env \<Rightarrow> bme280_device_t \<Rightarrow> i2c_bus \<Rightarrow> (esp_err \<times> bme280_sample option) \<times> i2c_bus" where
  "bme280_perform_measurement fl env dev s =
     (case bme280_write_reg env (bme_address dev) BME280_REG_CTRL_HUM 0x01 s of (err, s) \<Rightarrow>
        if err \<noteq> ESP_OK then ((err, None), s)
        else case bme280_write_reg env (bme_address dev) BME280_REG_CTRL_MEAS (push_bit 5 0x01 OR push_bit 2 0x01 OR 0x01) s of (err, s) \<Rightarrow>
        if err \<noteq> ESP_OK then ((err, None), s)
        else case bme280_wait_measuring env (bme_address dev) s of (err, s) \<Rightarrow>
        if err \<noteq> ESP_OK then ((err, None), s)
        else case bme280_read_reg env (bme_address dev) BME280_REG_DATA 8 s of ((err, raw), s) \<Rightarrow>
        if err \<noteq> ESP_OK then ((err, None), s)
        else ((ESP_OK, Some (bme280_compensate fl (bme_calib dev) raw)), s))"

type_synonym bme280_state = "bme280_device_t list \<times> i2c_bus"

definition bme280_init :: "i2c_env \<Rightarrow> u8 \<Rightarrow> bme280_state \<Rightarrow> esp_err \<times> bme280_state" where
  "bme280_init env address st =
     (case bme280_get_device address (fst st) of
        (None, devs) \<Rightarrow> (ESP_ERR_NO_MEM, devs, snd st)
      | (Some i, devs) \<Rightarrow>
          (case bme280_reset env address (snd st) of (err, s) \<Rightarrow>
             if err \<noteq> ESP_OK then (err, devs, s)
             else case bme280_load_calibration env (devs ! i) (bus_emit (DelayMs 2) s) of ((err, dev), s) \<Rightarrow>
               if err \<noteq> ESP_OK then (err, devs[i := dev], s)
               else case bme280_configure env dev s of (err, s) \<Rightarrow> (err, devs[i := dev], s)))"

definition bme280_read :: "(rat \<Rightarrow> rat) \<Rightarrow> i2c_env \<Rightarrow> u8 \<Rightarrow> bme280_state \<Rightarrow> (esp_err \<times> bme280_sample option) \<times> bme280_state" where
  "bme280_read fl env address st =
     (case bme280_get_device address (fst st) of
        (None, devs) \<Rightarrow> ((ESP_ERR_NO_MEM, None), devs, snd st)
      | (Some i, devs) \<Rightarrow>
          (case bme280_load_calibration env (devs ! i) (snd st) of ((err, dev), s) \<Rightarrow>
             if err \<noteq> ESP_OK then ((err, None), devs[i := dev], s)
             else case bme280_configure env dev s of (err, s) \<Rightarrow>
               if err \<noteq> ESP_OK then ((err, None), devs[i := dev], s)
               else case bme280_perform_measurement fl env dev s of (r, s) \<Rightarrow> (r, devs[i := dev], s)))"

section \<open>An SHT20 reading is checked\<close>

text \<open>Rounding to \<^verbatim>\<open>float\<close>: monotone, and exact for the small integers the drivers compare with.\<close>

definition float_rounding :: "(rat \<Rightarrow> rat) \<Rightarrow> bool" where
  "float_rounding fl \<longleftrightarrow> mono fl \<and> (\<forall>n :: int. \<bar>n\<bar> \<le> 2 ^ 24 \<longrightarrow> fl (of_int n) = of_int n)"

lemma float_rounding_bounds:
  assumes "float_rounding fl" "of_int a \<le> x" "x \<le> of_int b" "\<bar>a\<bar> \<le> 2 ^ 24" "\<bar>b\<bar> \<le> 2 ^ 24"
  shows "of_int a \<le> fl x \<and> fl x \<le> of_int b"
  using assms by (metis float_rounding_def monoD)

lemma sht20_attempts_okD:
  "sht20_attempts fl env addr command is_temp n attempt last_err s = ((ESP_OK, v), s') \<Longrightarrow> last_err \<noteq> ESP_OK \<Longrightarrow>
    \<exists>buffer. transferred env addr [] buffer 3 \<and> sht20_crc8 (take 2 buffer) = buffer ! 2 \<and> v = Some (sht20_convert fl is_temp (sht20_raw buffer))"
proof (induction n arbitrary: attempt last_err s)
  case 0
  then show ?case by simp
next
  case (Suc n)
  obtain err buffer s1 where m: "sht20_measure_once env addr command s = ((err, buffer), s1)" by (metis prod.exhaust)
  show ?case
  proof (cases "err = ESP_OK \<and> sht20_crc8 (take 2 buffer) = buffer ! 2")
    case True
    then have "transferred env addr [] buffer 3"
      using m by (auto simp: sht20_measure_once_def i2c_bus_read_def split: prod.splits if_splits dest!: i2c_master_cmd_okD)
    with True Suc.prems show ?thesis by (auto simp: m)
  next
    case False
    with Suc.prems(1) show ?thesis by (auto simp: m split: if_splits intro: Suc.IH)
  qed
qed

lemma sht20_raw_bound: "unat (sht20_raw b) < 65536"
  using unsigned_less [of "sht20_raw b", where 'a = nat] by simp

lemma sht20_convert_range:
  assumes "float_rounding fl"
  shows "0 \<le> sht20_convert fl False raw \<and> sht20_convert fl False raw \<le> 100"
  by (auto simp: sht20_convert_def Let_def)

lemma sht20_temperature_range:
  assumes "float_rounding fl"
  shows "- 47 \<le> sht20_convert fl True raw \<and> sht20_convert fl True raw \<le> 130"
proof -
  note b = float_rounding_bounds [OF assms]
  define n where "n = int (unat raw)"
  have n: "0 \<le> n" "n \<le> 65535" using unsigned_less [of raw, where 'a = int] by (auto simp: n_def)
  have r: "fl (of_nat (unat raw)) = of_int n"
  proof -
    have "fl (of_int n) = of_int n" using assms n by (simp add: float_rounding_def)
    moreover have "(of_nat (unat raw) :: rat) = of_int n" by (simp add: n_def)
    ultimately show ?thesis by simp
  qed
  have c: "175 \<le> fl (17572 / 100)" "fl (17572 / 100) \<le> 176" using b [of 175 "17572 / 100" 176] by auto
  have "of_int (175 * n) \<le> fl (17572 / 100) * of_int n" "fl (17572 / 100) * of_int n \<le> of_int (176 * n)"
    using c n by (auto intro: mult_right_mono)
  then have p: "of_int 0 \<le> fl (fl (17572 / 100) * of_int n) \<and> fl (fl (17572 / 100) * of_int n) \<le> of_int 11534160"
    using n by (intro b) (auto intro: order.trans)
  then have "of_int 0 \<le> fl (fl (fl (17572 / 100) * of_int n) / 65536) \<and> fl (fl (fl (17572 / 100) * of_int n) / 65536) \<le> of_int 176"
    by (intro b) auto
  moreover have "of_int 46 \<le> fl (4685 / 100) \<and> fl (4685 / 100) \<le> of_int 47" by (intro b) auto
  ultimately have "of_int (- 47) \<le> fl (- fl (4685 / 100) + fl (fl (fl (17572 / 100) * of_int n) / 65536)) \<and>
      fl (- fl (4685 / 100) + fl (fl (fl (17572 / 100) * of_int n) / 65536)) \<le> of_int 130"
    by (intro b) auto
  then show ?thesis using r by (simp add: sht20_convert_def Let_def)
qed

text \<open>
  C30.An SHT20 reading is checked. When a reading succeeds, each of its two values is the
  conversion of a frame that the sensor sent and whose CRC-8 matches, the humidity is between 0
  and 100 percent and the temperature between -47 and 130 degrees; and a frame with one data
  byte damaged does not match.
\<close>

theorem sht20_reading_checked:
  assumes "sht20_read_temperature_humidity fl env addr s = ((ESP_OK, temp, hum), s')" "float_rounding fl"
  shows "(\<exists>bt bh t h. transferred env addr [] bt 3 \<and> transferred env addr [] bh 3 \<and>
      sht20_crc8 (take 2 bt) = bt ! 2 \<and> sht20_crc8 (take 2 bh) = bh ! 2 \<and>
      temp = Some t \<and> t = sht20_convert fl True (sht20_raw bt) \<and> - 47 \<le> t \<and> t \<le> 130 \<and>
      hum = Some h \<and> h = sht20_convert fl False (sht20_raw bh) \<and> 0 \<le> h \<and> h \<le> 100) \<and>
    (\<forall>b0 b1 c d. c \<noteq> d \<longrightarrow> sht20_crc8 [c, b1] \<noteq> sht20_crc8 [d, b1] \<and> sht20_crc8 [b0, c] \<noteq> sht20_crc8 [b0, d])"
proof (intro conjI allI impI)
  have "\<exists>s1. sht20_attempts fl env addr SHT20_CMD_TRIGGER_TEMP True SHT20_MAX_RETRIES 0 ESP_FAIL s = ((ESP_OK, temp), s1) \<and>
      sht20_attempts fl env addr SHT20_CMD_TRIGGER_HUM False SHT20_MAX_RETRIES 0 ESP_FAIL s1 = ((ESP_OK, hum), s')"
    using assms(1) by (auto simp: sht20_read_temperature_humidity_def sht20_read_measurement_def split: prod.splits if_splits)
  then show "\<exists>bt bh t h. transferred env addr [] bt 3 \<and> transferred env addr [] bh 3 \<and>
      sht20_crc8 (take 2 bt) = bt ! 2 \<and> sht20_crc8 (take 2 bh) = bh ! 2 \<and>
      temp = Some t \<and> t = sht20_convert fl True (sht20_raw bt) \<and> - 47 \<le> t \<and> t \<le> 130 \<and>
      hum = Some h \<and> h = sht20_convert fl False (sht20_raw bh) \<and> 0 \<le> h \<and> h \<le> 100"
    by (auto dest!: sht20_attempts_okD simp: sht20_temperature_range [OF assms(2)] sht20_convert_range [OF assms(2)])
next
  fix b0 b1 c d :: u8 assume "c \<noteq> d"
  then show "sht20_crc8 [c, b1] \<noteq> sht20_crc8 [d, b1]" "sht20_crc8 [b0, c] \<noteq> sht20_crc8 [b0, d]"
    using sample_crc.single_byte_detected [of "[]" c "[b1]" 0 d] sample_crc.single_byte_detected [of "[b0]" c "[]" 0 d]
    unfolding sht20_crc8_def crc8_loop_fold by (auto simp only: append.simps)
qed

text \<open>A bus on which every transaction succeeds, with the bytes that the device answers.\<close>

definition answering_bus :: "(i2c_op list \<Rightarrow> bytes) \<Rightarrow> i2c_env" where
  "answering_bus f = empty_bus\<lparr>i2c_begin := \<lambda>evs ops. (ESP_OK, f ops)\<rparr>"

lemma answering_bus_fields:
  "i2c_link (answering_bus f) evs" "i2c_begin (answering_bus f) evs ops = (ESP_OK, f ops)"
  by (simp_all add: answering_bus_def empty_bus_def)

lemma answering_queue: "queue_ops (answering_bus f) ops s = (err, s') \<Longrightarrow> err = ESP_OK \<and> bus_initialized s' = bus_initialized s"
  by (induction ops arbitrary: s) (auto simp: answering_bus_def empty_bus_def Let_def)

lemma answering_attempts:
  "\<exists>s'. i2c_attempts (answering_bus f) ops (Suc n) attempt r s = ((ESP_OK, f ops), s') \<and> bus_initialized s' = bus_initialized s"
proof -
  obtain err s1 where q: "queue_ops (answering_bus f) ops (bus_emit LinkCreate s) = (err, s1)" by fastforce
  from answering_queue [OF q] have s1: "err = ESP_OK" "bus_initialized s1 = bus_initialized s" by auto
  show ?thesis
    using s1 by (auto simp: i2c_transaction_def q i2c_bus_cmd_begin_def Let_def answering_bus_fields)
qed

lemma answering_cmd:
  "bus_initialized s \<Longrightarrow> \<exists>s'. i2c_master_cmd (answering_bus f) addr wr n s = ((ESP_OK, f (i2c_ops addr wr n)), s') \<and> bus_initialized s'"
  using answering_attempts [of f "i2c_ops addr wr n" 2 0 "(ESP_FAIL, [])" "i2c_bus_lock s"]
  by (simp add: i2c_master_cmd_def numeral_3_eq_3 numeral_2_eq_2 del: i2c_attempts.simps)

lemma answering_write: "bus_initialized s \<Longrightarrow> \<exists>s'. i2c_bus_write (answering_bus f) addr wr s = (ESP_OK, s') \<and> bus_initialized s'"
  using answering_cmd [of s f addr wr 0] by (auto simp: i2c_bus_write_def)

text \<open>A sensor that always answers 0x6352 with its checksum.\<close>

definition sht20_demo :: i2c_env where
  "sht20_demo = answering_bus (\<lambda>ops. [0x63, 0x52, sht20_crc8 [0x63, 0x52]])"

lemma sht20_demo_measure:
  assumes "bus_initialized s"
  shows "\<exists>v s'. sht20_read_measurement fl sht20_demo addr command is_temp s = ((ESP_OK, Some v), s') \<and> bus_initialized s'"
proof -
  obtain s1 where w: "i2c_bus_write sht20_demo addr [command] s = (ESP_OK, s1)" "bus_initialized s1"
    using answering_write [OF assms] unfolding sht20_demo_def by blast
  then obtain s2 where r: "i2c_master_cmd sht20_demo addr [] 3 (bus_emit (DelayMs (if command = SHT20_CMD_TRIGGER_TEMP then 85 else 29)) s1)
      = ((ESP_OK, [0x63, 0x52, sht20_crc8 [0x63, 0x52]]), s2)" "bus_initialized s2"
    using answering_cmd unfolding sht20_demo_def by (metis (no_types, lifting) bus_emit_simps(3))
  show ?thesis
    using w r by (auto simp: sht20_read_measurement_def SHT20_MAX_RETRIES_def numeral_eq_Suc sht20_measure_once_def i2c_bus_read_def)
qed

theorem sht20_reading_checked_witness:
  "\<exists>t h s'. sht20_read_temperature_humidity (\<lambda>x. x) sht20_demo 0x40 ready_bus = ((ESP_OK, Some t, Some h), s') \<and> 0 \<le> h \<and> h \<le> 100"
proof -
  have "bus_initialized ready_bus" by (simp add: ready_bus_def)
  from sht20_demo_measure [OF this] obtain t s1 where
    t: "sht20_read_measurement (\<lambda>x. x) sht20_demo 0x40 SHT20_CMD_TRIGGER_TEMP True ready_bus = ((ESP_OK, Some t), s1)" "bus_initialized s1"
    by blast
  from sht20_demo_measure [OF t(2)] obtain h s2 where
    h: "sht20_read_measurement (\<lambda>x. x) sht20_demo 0x40 SHT20_CMD_TRIGGER_HUM False s1 = ((ESP_OK, Some h), s2)" by blast
  have r: "sht20_read_temperature_humidity (\<lambda>x. x) sht20_demo 0x40 ready_bus = ((ESP_OK, Some t, Some h), s2)"
    by (simp add: sht20_read_temperature_humidity_def t h)
  have "float_rounding (\<lambda>x. x)" by (simp add: float_rounding_def mono_def)
  from sht20_reading_checked [OF r this] r show ?thesis by auto
qed

section \<open>The temperature formula of the BME280\<close>

text \<open>
  The formula of the data sheet over rational numbers, and every \<^verbatim>\<open>int32_t\<close> value that the
  integer formula of the driver computes, in its order.
\<close>

definition bme280_exact_temperature :: "bme280_calib \<Rightarrow> int \<Rightarrow> rat" where
  "bme280_exact_temperature c adc_T =
     ((of_int adc_T / 16384 - of_int (uint (dig_T1 c)) / 1024) * of_int (sint (dig_T2 c)) +
      (of_int adc_T / 131072 - of_int (uint (dig_T1 c)) / 8192) ^ 2 * of_int (sint (dig_T3 c))) / 5120"

definition bme280_temperature_steps :: "bme280_calib \<Rightarrow> int \<Rightarrow> int list" where
  "bme280_temperature_steps c adc_T =
     (let a = adc_T div 2 ^ 3 - uint (dig_T1 c) * 2; d = adc_T div 2 ^ 4 - uint (dig_T1 c); q = d * d div 2 ^ 12 in
      [a, a * sint (dig_T2 c), bme280_var1 c adc_T, d, d * d, q, q * sint (dig_T3 c), bme280_var2 c adc_T,
       bme280_t_fine c adc_T, bme280_t_fine c adc_T * 5, bme280_t_fine c adc_T * 5 + 128, bme280_centidegrees (bme280_t_fine c adc_T)])"

lemma div_rat_bounds:
  fixes a k :: int
  shows "(of_int (a div k) :: rat) \<le> of_int a / of_int k" "(of_int a :: rat) / of_int k < of_int (a div k) + 1"
proof -
  have f: "\<lfloor>(of_int a :: rat) / of_int k\<rfloor> = a div k" by (rule floor_divide_of_int_eq)
  show "(of_int (a div k) :: rat) \<le> of_int a / of_int k" "(of_int a :: rat) / of_int k < of_int (a div k) + 1"
    using floor_correct [of "(of_int a :: rat) / of_int k"] unfolding f by auto
qed

lemma abs_mult_le:
  fixes a b :: rat
  assumes "\<bar>a\<bar> \<le> m" "\<bar>b\<bar> \<le> n"
  shows "\<bar>a * b\<bar> \<le> m * n"
  using assms by (simp add: abs_mult mult_mono)

lemma sint16_bound: "\<bar>sint (w :: 16 word)\<bar> \<le> 32768"
  using sint_range_size [of w] by (auto simp: word_size abs_le_iff)

lemma bme280_var1_error:
  fixes c :: bme280_calib and adc_T :: int
  defines "T1 \<equiv> (of_int (uint (dig_T1 c)) :: rat)" and "T2 \<equiv> (of_int (sint (dig_T2 c)) :: rat)"
  shows "\<bar>of_int (bme280_var1 c adc_T) - (of_int adc_T / 8 - 2 * T1) * T2 / 2048\<bar> \<le> 17"
proof -
  let ?x = "adc_T div 8" and ?P = "(adc_T div 8 - uint (dig_T1 c) * 2) * sint (dig_T2 c)"
  have x: "(of_int ?x :: rat) \<le> of_int adc_T / 8" "(of_int adc_T :: rat) / 8 < of_int ?x + 1"
    using div_rat_bounds [of adc_T 8] by auto
  have v: "of_int (bme280_var1 c adc_T) \<le> of_int ?P / (2048 :: rat)" "of_int ?P / (2048 :: rat) < of_int (bme280_var1 c adc_T) + 1"
    using div_rat_bounds [of ?P 2048] by (auto simp: bme280_var1_def)
  have P: "(of_int ?P :: rat) = (of_int ?x - 2 * T1) * T2" by (simp add: T1_def T2_def algebra_simps)
  have e: "(of_int adc_T / 8 - 2 * T1) * T2 / 2048 = of_int ?P / 2048 + (of_int adc_T / 8 - of_int ?x) * T2 / 2048"
    unfolding P by (simp add: field_simps)
  have "\<bar>T2\<bar> \<le> 32768" using sint16_bound [of "dig_T2 c"] unfolding T2_def by linarith
  then have "\<bar>(of_int adc_T / 8 - of_int ?x) * T2\<bar> \<le> 1 * 32768" using x by (intro abs_mult_le) auto
  then show ?thesis using v unfolding e by (simp add: abs_le_iff field_simps)
qed

lemma bme280_var2_error:
  fixes c :: bme280_calib and adc_T :: int
  assumes "0 \<le> adc_T" "adc_T < 2 ^ 20"
  defines "T1 \<equiv> (of_int (uint (dig_T1 c)) :: rat)" and "T3 \<equiv> (of_int (sint (dig_T3 c)) :: rat)"
  shows "\<bar>of_int (bme280_var2 c adc_T) - (of_int adc_T / 16 - T1) ^ 2 * T3 / 2 ^ 26\<bar> \<le> 67"
proof -
  let ?y = "adc_T div 16"
  define d where "d = ?y - uint (dig_T1 c)"
  define q where "q = d * d div 4096"
  define e where "e = of_int adc_T / 16 - (of_int ?y :: rat)"
  have e: "0 \<le> e" "e \<le> 1" using div_rat_bounds [of adc_T 16] by (auto simp: e_def)
  have u: "0 \<le> uint (dig_T1 c)" "uint (dig_T1 c) < 65536" using unsigned_less [of "dig_T1 c", where 'a = int] by auto
  have y: "0 \<le> ?y" "?y \<le> 65535" using assms(1,2) by auto
  have d: "\<bar>d\<bar> \<le> 65535" using u y unfolding d_def by linarith
  have dr: "\<bar>of_int d :: rat\<bar> \<le> 65535" using d by linarith
  have q: "of_int q \<le> (of_int d * of_int d / 4096 :: rat)" "(of_int d * of_int d / 4096 :: rat) < of_int q + 1"
    using div_rat_bounds [of "d * d" 4096] by (auto simp: q_def pos_imp_zdiv_nonneg_iff)
  have v: "of_int (bme280_var2 c adc_T) \<le> (of_int q * T3 / 16384 :: rat)" "(of_int q * T3 / 16384 :: rat) < of_int (bme280_var2 c adc_T) + 1"
    using div_rat_bounds [of "q * sint (dig_T3 c)" 16384] by (auto simp: bme280_var2_def q_def d_def T3_def)
  have T3: "\<bar>T3\<bar> \<le> 32768" using sint16_bound [of "dig_T3 c"] unfolding T3_def by linarith
  have "\<bar>(of_int d * of_int d / 4096 - of_int q) * T3\<bar> \<le> 1 * 32768" using q T3 by (intro abs_mult_le) auto
  moreover have "\<bar>(e * (2 * of_int d + e)) * T3\<bar> \<le> (1 * 131071) * 32768"
    using e dr T3 by (intro abs_mult_le) auto
  moreover have "(of_int adc_T / 16 - T1) ^ 2 = (of_int d + e) ^ 2" by (simp add: d_def e_def T1_def)
  moreover have "(of_int d + e) ^ 2 * T3 / 2 ^ 26 =
      of_int q * T3 / 16384 + (of_int d * of_int d / 4096 - of_int q) * T3 / 16384 + (e * (2 * of_int d + e)) * T3 / 2 ^ 26"
    by (simp add: power2_eq_square field_simps)
  ultimately show ?thesis using v by (simp add: abs_le_iff field_simps)
qed

text \<open>A calibration for which the integer formula stays within 32 bits.\<close>

definition bme280_calib_sane :: "bme280_calib \<Rightarrow> bool" where
  "bme280_calib_sane c \<longleftrightarrow> 19195 \<le> uint (dig_T1 c) \<and> uint (dig_T1 c) \<le> 46340 \<and> \<bar>sint (dig_T3 c)\<bar> \<le> 4095 \<and>
     \<bar>sint (dig_T2 c)\<bar> * max (uint (dig_T1 c) * 2) (131071 - uint (dig_T1 c) * 2) < 2 ^ 31"

lemma abs_div_le:
  fixes a k m :: int
  assumes "\<bar>a\<bar> \<le> m * k" "0 < k"
  shows "\<bar>a div k\<bar> \<le> m"
proof -
  have "a div k \<le> m * k div k" "(- m) * k div k \<le> a div k" using assms by (intro zdiv_mono1; simp add: abs_le_iff)+
  moreover have "m * k div k = m" "(- m) * k div k = - m" using assms(2) by (simp_all only: nonzero_mult_div_cancel_right less_irrefl not_False_eq_True)
  ultimately show ?thesis by (simp add: abs_le_iff)
qed

lemma bme280_no_overflow:
  assumes "bme280_calib_sane c" "0 \<le> adc_T" "adc_T < 2 ^ 20" "x \<in> set (bme280_temperature_steps c adc_T)"
  shows "- (2 ^ 31) \<le> x \<and> x < 2 ^ 31"
proof -
  define a where "a = adc_T div 2 ^ 3 - uint (dig_T1 c) * 2"
  define d where "d = adc_T div 2 ^ 4 - uint (dig_T1 c)"
  define q where "q = d * d div 2 ^ 12"
  have x8: "0 \<le> adc_T div 2 ^ 3" "adc_T div 2 ^ 3 \<le> 131071" and x16: "0 \<le> adc_T div 2 ^ 4" "adc_T div 2 ^ 4 \<le> 65535"
    using assms(2,3) by auto
  have a: "\<bar>a\<bar> \<le> max (uint (dig_T1 c) * 2) (131071 - uint (dig_T1 c) * 2)" using x8 unfolding a_def by linarith
  have d: "\<bar>d\<bar> \<le> 46340" using x16 assms(1) unfolding d_def bme280_calib_sane_def by linarith
  have "\<bar>a * sint (dig_T2 c)\<bar> \<le> max (uint (dig_T1 c) * 2) (131071 - uint (dig_T1 c) * 2) * \<bar>sint (dig_T2 c)\<bar>"
    using a by (simp add: abs_mult mult_right_mono)
  then have aT: "\<bar>a * sint (dig_T2 c)\<bar> < 2 ^ 31" using assms(1) by (simp add: bme280_calib_sane_def mult.commute)
  have dd: "0 \<le> d * d" "d * d \<le> 2147395600"
    using mult_mono [OF d d] by (auto simp: abs_mult [symmetric] simp del: abs_mult_self_eq)
  have q: "0 \<le> q" "q \<le> 524266" using dd zdiv_mono1 [of "d * d" 2147395600 4096] by (auto simp: q_def pos_imp_zdiv_nonneg_iff)
  have qT: "\<bar>q * sint (dig_T3 c)\<bar> \<le> 2146869270"
  proof -
    have "\<bar>q\<bar> * \<bar>sint (dig_T3 c)\<bar> \<le> 524266 * 4095" using q assms(1) by (intro mult_mono) (auto simp: bme280_calib_sane_def)
    then show ?thesis by (simp add: abs_mult)
  qed
  have v1: "\<bar>bme280_var1 c adc_T\<bar> \<le> 1048576" unfolding bme280_var1_def a_def [symmetric] using aT by (intro abs_div_le) auto
  have v2: "\<bar>bme280_var2 c adc_T\<bar> \<le> 131036" unfolding bme280_var2_def d_def [symmetric] q_def [symmetric]
    using qT by (intro abs_div_le) auto
  have t: "\<bar>bme280_t_fine c adc_T\<bar> \<le> 1179612" using v1 v2 unfolding bme280_t_fine_def by linarith
  have cd: "\<bar>bme280_centidegrees (bme280_t_fine c adc_T)\<bar> \<le> 23041"
    unfolding bme280_centidegrees_def using t by (intro abs_div_le) (auto simp: abs_le_iff)
  have al: "\<bar>a\<bar> \<le> 131071" using a assms(1) unfolding bme280_calib_sane_def by linarith
  let ?M = "2147483647 :: int"
  have t5: "\<bar>bme280_t_fine c adc_T * 5\<bar> \<le> ?M" "\<bar>bme280_t_fine c adc_T * 5 + 128\<bar> \<le> ?M" using t by linarith+
  have q': "\<bar>q\<bar> \<le> ?M" and dd': "\<bar>d * d\<bar> \<le> ?M" and aT': "\<bar>a * sint (dig_T2 c)\<bar> \<le> ?M" using q dd aT by simp_all
  have le: "\<bar>y\<bar> \<le> m \<Longrightarrow> m \<le> ?M \<Longrightarrow> \<bar>y\<bar> \<le> ?M" for y m by (rule order.trans)
  have "list_all (\<lambda>x. \<bar>x\<bar> \<le> ?M) (bme280_temperature_steps c adc_T)"
    unfolding bme280_temperature_steps_def Let_def a_def [symmetric] d_def [symmetric] q_def [symmetric] list.pred_inject
    by (intro conjI TrueI le [OF al] aT' le [OF v1] le [OF d] dd' q' le [OF qT] le [OF v2] le [OF t] t5 le [OF cd]) simp_all
  then have "\<bar>x\<bar> \<le> ?M" using assms(4) by (simp add: list_all_iff)
  then show ?thesis by (auto simp: abs_le_iff)
qed

text \<open>
  C31.The integer temperature of the BME280 is accurate. For every 20-bit reading and every
  calibration the hundredths of a degree that the driver computes are within 0.03 degrees of the
  formula of the data sheet over rational numbers, and for a sane calibration no 32-bit value on
  the way overflows.
\<close>

theorem bme280_temperature_accurate:
  assumes "0 \<le> adc_T" "adc_T < 2 ^ 20"
  shows "\<bar>of_int (bme280_centidegrees (snd (bme280_compensate_temperature fl c adc_T))) / 100 - bme280_exact_temperature c adc_T\<bar> \<le> 3 / 100 \<and>
    (bme280_calib_sane c \<longrightarrow> (\<forall>x \<in> set (bme280_temperature_steps c adc_T). - (2 ^ 31) \<le> x \<and> x < 2 ^ 31))"
proof -
  let ?T1 = "of_int (uint (dig_T1 c)) :: rat" and ?T2 = "of_int (sint (dig_T2 c)) :: rat" and ?T3 = "of_int (sint (dig_T3 c)) :: rat"
  define v1 where "v1 = (of_int adc_T / 8 - 2 * ?T1) * ?T2 / 2048"
  define v2 where "v2 = (of_int adc_T / 16 - ?T1) ^ 2 * ?T3 / 2 ^ 26"
  have exact: "bme280_exact_temperature c adc_T = (v1 + v2) / 5120"
    by (simp add: bme280_exact_temperature_def v1_def v2_def power2_eq_square field_simps)
  have e1: "\<bar>of_int (bme280_var1 c adc_T) - v1\<bar> \<le> 17" unfolding v1_def by (rule bme280_var1_error)
  have e2: "\<bar>of_int (bme280_var2 c adc_T) - v2\<bar> \<le> 67" unfolding v2_def using assms by (rule bme280_var2_error)
  have t: "(of_int (bme280_t_fine c adc_T) :: rat) = of_int (bme280_var1 c adc_T) + of_int (bme280_var2 c adc_T)"
    by (simp add: bme280_t_fine_def)
  note r = div_rat_bounds [of "bme280_t_fine c adc_T * 5 + 128" 256]
  have "\<bar>of_int (bme280_centidegrees (bme280_t_fine c adc_T)) / 100 - (v1 + v2) / 5120\<bar> \<le> 3 / 100"
    using r e1 e2 t by (simp add: bme280_centidegrees_def abs_le_iff field_simps)
  then show ?thesis
    using bme280_no_overflow assms by (auto simp: exact bme280_compensate_temperature_def Let_def)
qed

definition demo_calib :: bme280_calib where
  "demo_calib = zero_calib\<lparr>dig_T1 := 27504, dig_T2 := 26435, dig_T3 := - 1000\<rparr>"

theorem bme280_temperature_accurate_witness:
  "bme280_centidegrees (snd (bme280_compensate_temperature (\<lambda>x. x) demo_calib 519888)) = 2508 \<and>
   \<bar>2508 / 100 - bme280_exact_temperature demo_calib 519888\<bar> \<le> 3 / 100"
proof -
  have t: "uint (dig_T1 demo_calib) = 27504" "sint (dig_T2 demo_calib) = 26435" "sint (dig_T3 demo_calib) = - 1000"
    by (simp_all add: demo_calib_def zero_calib_def)
  have c: "bme280_centidegrees (snd (bme280_compensate_temperature (\<lambda>x. x) demo_calib 519888)) = 2508"
    by (simp add: bme280_compensate_temperature_def Let_def bme280_t_fine_def bme280_var1_def bme280_var2_def t bme280_centidegrees_def)
  from bme280_temperature_accurate [of 519888 "\<lambda>x. x" demo_calib] c show ?thesis by simp
qed

section \<open>Humidity, polling, and the table of devices\<close>

lemma bme280_humidity_fixed_range: "0 \<le> bme280_humidity_fixed c adc_H t_fine \<and> bme280_humidity_fixed c adc_H t_fine \<le> 419430400"
proof -
  have "0 \<le> bme280_clamp_humidity v \<and> bme280_clamp_humidity v \<le> 419430400" for v by (simp add: bme280_clamp_humidity_def Let_def)
  then show ?thesis unfolding bme280_humidity_fixed_def Let_def by blast
qed

lemma bme280_humidity_range:
  assumes "float_rounding fl"
  shows "0 \<le> bme280_compensate_humidity fl c adc_H t_fine \<and> bme280_compensate_humidity fl c adc_H t_fine \<le> 100"
proof -
  define v where "v = bme280_humidity_fixed c adc_H t_fine div 2 ^ 12"
  have v: "0 \<le> v" "v \<le> 102400"
    using bme280_humidity_fixed_range [of c adc_H t_fine] zdiv_mono1 [of "bme280_humidity_fixed c adc_H t_fine" 419430400 4096]
    by (auto simp: v_def pos_imp_zdiv_nonneg_iff)
  then have "fl (of_int v) = of_int v" using assms by (simp add: float_rounding_def)
  moreover have "of_int 0 \<le> fl (of_int v / 1024) \<and> fl (of_int v / 1024) \<le> of_int 100"
    using v by (intro float_rounding_bounds [OF assms]) auto
  ultimately show ?thesis by (simp add: bme280_compensate_humidity_def v_def)
qed

text \<open>The status polls: the transactions of the register read, each with its three attempts.\<close>

definition is_poll_delay :: "i2c_event \<Rightarrow> bool" where "is_poll_delay ev = (ev = DelayMs 4)"

lemma bme280_wait_loop_result:
  assumes "bme280_wait_loop env address elapsed s = (ESP_OK, s')"
  shows "\<exists>status. transferred env address [BME280_REG_STATUS] status 1 \<and> (status ! 0) AND 0x08 = 0"
  using assms
proof (induction env address elapsed s rule: bme280_wait_loop.induct)
  case (1 env address elapsed s)
  obtain err status s1 where r: "bme280_read_reg env address BME280_REG_STATUS 1 s = ((err, status), s1)" by (metis prod.exhaust)
  show ?case
  proof (cases "err \<noteq> ESP_OK \<or> (status ! 0) AND 0x08 = 0")
    case True
    with "1.prems" r have "err = ESP_OK" "(status ! 0) AND 0x08 = 0" by (auto simp: bme280_wait_loop.simps [of env] split: if_splits)
    with r have "i2c_master_cmd env address [BME280_REG_STATUS] 1 s = ((ESP_OK, status), s1)"
      by (simp add: bme280_read_reg_def i2c_bus_write_read_def)
    from i2c_master_cmd_okD [OF this] \<open>(status ! 0) AND 0x08 = 0\<close> show ?thesis by blast
  next
    case False
    with "1.prems" r have "elapsed + 4 < 40" "bme280_wait_loop env address (elapsed + 4) (bus_emit (DelayMs 4) s1) = (ESP_OK, s')"
      by (auto simp: bme280_wait_loop.simps [of env address elapsed s] split: if_splits)
    with False r "1.IH" [OF r [symmetric] refl] show ?thesis by auto
  qed
qed

text \<open>
  A BME280 measurement that succeeds was taken when the sensor reported itself idle, comes
  from the data registers, and its humidity is between 0 and 100 percent for every calibration
  and every reading.
\<close>

theorem bme280_measurement_sound:
  assumes "bme280_perform_measurement fl env dev s = ((ESP_OK, sample), s')" "float_rounding fl"
  shows "\<exists>status raw m. transferred env (bme_address dev) [BME280_REG_STATUS] status 1 \<and> (status ! 0) AND 0x08 = 0 \<and>
    transferred env (bme_address dev) [BME280_REG_DATA] raw 8 \<and> sample = Some m \<and>
    m = bme280_compensate fl (bme_calib dev) raw \<and> 0 \<le> bs_humidity m \<and> bs_humidity m \<le> 100"
proof -
  have hum: "0 \<le> bs_humidity (bme280_compensate fl c raw) \<and> bs_humidity (bme280_compensate fl c raw) \<le> 100" for c raw
    using bme280_humidity_range [OF assms(2)] by (simp add: bme280_compensate_def split: prod.split)
  show ?thesis
    using assms(1) hum
    by (auto simp: bme280_perform_measurement_def bme280_wait_measuring_def bme280_read_reg_def i2c_bus_write_read_def
      split: prod.splits if_splits dest!: bme280_wait_loop_result i2c_master_cmd_okD)
qed

text \<open>A sensor that answers zeros and is idle.\<close>

definition bme280_demo :: i2c_env where
  "bme280_demo = answering_bus (\<lambda>ops. replicate 26 0)"

lemma answering_write_read:
  "bus_initialized s \<Longrightarrow> \<exists>s'. i2c_bus_write_read (answering_bus f) addr wr n s = ((ESP_OK, f (i2c_ops addr wr n)), s') \<and> bus_initialized s'"
  using answering_cmd by (simp add: i2c_bus_write_read_def)

lemma bme280_demo_measures:
  assumes "bus_initialized s"
  shows "\<exists>m s'. bme280_perform_measurement fl bme280_demo dev s = ((ESP_OK, Some m), s')"
proof -
  let ?a = "bme_address dev"
  obtain s1 where 1: "bme280_write_reg bme280_demo ?a BME280_REG_CTRL_HUM 0x01 s = (ESP_OK, s1)" "bus_initialized s1"
    using answering_write [OF assms] unfolding bme280_demo_def bme280_write_reg_def by blast
  obtain s2 where 2: "bme280_write_reg bme280_demo ?a BME280_REG_CTRL_MEAS (push_bit 5 0x01 OR push_bit 2 0x01 OR 0x01) s1 = (ESP_OK, s2)" "bus_initialized s2"
    using answering_write [OF 1(2)] unfolding bme280_demo_def bme280_write_reg_def by blast
  obtain s3 where 3: "bme280_read_reg bme280_demo ?a BME280_REG_STATUS 1 s2 = ((ESP_OK, replicate 26 0), s3)" "bus_initialized s3"
    using answering_write_read [OF 2(2)] unfolding bme280_demo_def bme280_read_reg_def by blast
  obtain s4 where 4: "bme280_read_reg bme280_demo ?a BME280_REG_DATA 8 s3 = ((ESP_OK, replicate 26 0), s4)"
    using answering_write_read [OF 3(2)] unfolding bme280_demo_def bme280_read_reg_def by blast
  have "bme280_wait_measuring bme280_demo ?a s2 = (ESP_OK, s3)"
    by (simp add: bme280_wait_measuring_def bme280_wait_loop.simps [of bme280_demo ?a 0 s2] 3(1) del: One_nat_def)
  then show ?thesis using 1(1) 2(1) 4 by (simp add: bme280_perform_measurement_def)
qed

theorem bme280_measurement_sound_witness:
  "\<exists>m s'. bme280_perform_measurement (\<lambda>x. x) bme280_demo bme280_unused ready_bus = ((ESP_OK, Some m), s') \<and>
     0 \<le> bs_humidity m \<and> bs_humidity m \<le> 100"
proof -
  have "bus_initialized ready_bus" by (simp add: ready_bus_def)
  from bme280_demo_measures [OF this] obtain m s' where
    m: "bme280_perform_measurement (\<lambda>x. x) bme280_demo bme280_unused ready_bus = ((ESP_OK, Some m), s')" by blast
  have "float_rounding (\<lambda>x. x)" by (simp add: float_rounding_def mono_def)
  from bme280_measurement_sound [OF m this] m show ?thesis by auto
qed

text \<open>
  The table gives an address the same slot again, with the calibration loaded there, and
  leaves the other slots alone.
\<close>

lemma bme280_get_device_stable:
  assumes "bme280_get_device address devs = (Some i, devs')"
  shows "i < length devs' \<and> bme_in_use (devs' ! i) \<and> bme_address (devs' ! i) = address \<and>
    (\<forall>j. j \<noteq> i \<longrightarrow> devs' ! j = devs ! j) \<and> bme280_get_device address devs' = (Some i, devs')"
proof (cases "find_index (\<lambda>d. bme_in_use d \<and> bme_address d = address) devs")
  case (Some k)
  with assms have "devs' = devs" "i = k" by (auto simp: bme280_get_device_def)
  moreover have "bme280_get_device address devs = (Some k, devs)" using Some by (simp add: bme280_get_device_def)
  moreover have "k < length devs" "bme_in_use (devs ! k)" "bme_address (devs ! k) = address" using Some by (auto simp: find_index_Some)
  ultimately show ?thesis by simp
next
  case None
  let ?new = "\<lparr>bme_in_use = True, bme_calibrated = False, bme_address = address, bme_calib = zero_calib\<rparr>"
  from None assms have free: "find_index (\<lambda>d. \<not> bme_in_use d) devs = Some i" and d': "devs' = devs[i := ?new]"
    by (auto simp: bme280_get_device_def split: option.splits)
  then have i: "i < length devs" by (auto simp: find_index_Some)
  have other: "\<not> (bme_in_use (devs ! j) \<and> bme_address (devs ! j) = address)" if "j < length devs" for j
    using None that by (auto simp: find_index_None)
  have "find_index (\<lambda>d. bme_in_use d \<and> bme_address d = address) devs' = Some i"
    unfolding d' find_index_Some using i other by (auto simp: nth_list_update)
  with d' i show ?thesis by (auto simp: bme280_get_device_def)
qed

text \<open>
  The 12-bit calibration values are read as unsigned numbers: a value whose highest bit is set,
  negative on the chip, is 4096 too large.
\<close>

lemma push_or_low_nibble:
  fixes h l :: u8
  shows "uint (push_bit 4 (ucast h) OR ucast (l AND 0x0F) :: u16) = 16 * uint h + uint l mod 16"
proof -
  have l: "l AND 0x0F = take_bit 4 l" by (simp add: take_bit_eq_mask mask_eq_exp_minus_1)
  have b: "uint h < 256" using unsigned_less [of h, where 'a = int] by simp
  have disj: "push_bit 4 (ucast h :: u16) AND ucast (take_bit 4 l) = 0"
    by (rule bit_word_eqI) (auto simp: bit_simps)
  have low: "uint (ucast (take_bit 4 l) :: u16) = uint l mod 16"
  proof -
    have t: "uint (take_bit 4 l) = uint l mod 16" by (simp only: unsigned_take_bit_eq) (simp add: take_bit_eq_mod)
    have "uint (ucast (take_bit 4 l) :: u16) = take_bit 16 (uint (take_bit 4 l))" by (simp only: unsigned_ucast_eq) simp
    also have "\<dots> = uint l mod 16" unfolding t by (intro take_bit_int_eq_self) (auto intro: less_le_trans [OF pos_mod_bound])
    finally show ?thesis .
  qed
  have high: "uint (push_bit 4 (ucast h) :: u16) = 16 * uint h"
    using b by (simp add: push_bit_eq_mult uint_word_ariths unsigned_ucast_eq take_bit_eq_mod)
  have "push_bit 4 (ucast h :: u16) OR ucast (take_bit 4 l) = push_bit 4 (ucast h) + ucast (take_bit 4 l)"
    by (rule disjunctive_add_eq_or [OF disj, symmetric])
  moreover have "uint (push_bit 4 (ucast h :: u16) + ucast (take_bit 4 l)) = 16 * uint h + uint l mod 16"
    unfolding uint_word_ariths low high using b by simp
  ultimately show ?thesis unfolding l by simp
qed

lemma bme280_h4_never_negative:
  assumes "0x80 \<le> b ! 3"
  shows "sint (dig_H4 (bme280_calib_h b c)) = signed_take_bit 11 (16 * uint (b ! 3) + uint (b ! 4) mod 16) + 4096"
proof -
  let ?v = "16 * uint (b ! 3) + uint (b ! 4) mod 16"
  have u: "uint (b ! 3) < 256" "128 \<le> uint (b ! 3)" using unsigned_less [of "b ! 3", where 'a = int] assms by (auto simp: word_le_def)
  have v: "2048 \<le> ?v" "?v < 4096" using u pos_mod_bound [of 16 "uint (b ! 4)"] pos_mod_sign [of 16 "uint (b ! 4)"] by linarith+
  have d: "uint (dig_H4 (bme280_calib_h b c)) = ?v" by (simp add: bme280_calib_h_def push_or_low_nibble)
  have "sint (dig_H4 (bme280_calib_h b c)) = signed_take_bit 15 ?v" by (simp only: sint_uint d) simp
  also have "\<dots> = ?v" using v by (intro signed_take_bit_int_eq_self) auto
  finally have s: "sint (dig_H4 (bme280_calib_h b c)) = ?v" .
  have "?v div 2048 = 1" using v by (intro div_pos_geq [THEN trans]) auto
  then have "bit ?v 11" by (simp add: bit_iff_odd)
  then have "signed_take_bit 11 ?v = ?v - 4096" using v by (simp add: signed_take_bit_eq_take_bit_minus take_bit_eq_mod)
  with s show ?thesis by simp
qed

end
