(* ===== verification/Ds18b20.thy ===== *)
theory Ds18b20
  imports Ambient
begin

text \<open>
  The thermometers on the 1-Wire bus: \<^verbatim>\<open>sensor_node/main/onewire_bus_manager.c\<close> and
  \<^verbatim>\<open>sensor_node/main/drivers/ds18b20.c\<close>. The 1-Wire library is the environment: every call of
  it is an event of the log, newest first, and its result is a function of the log before it.
  A bus handle is \<open>True\<close> when it is not \<^verbatim>\<open>NULL\<close>; a device is its ROM code.
\<close>

section \<open>The bus\<close>

datatype ow_event = OwNewBus nat | OwReset | OwWrite bytes | OwReadBit | OwRead nat | OwNewIter | OwNext | OwDelIter

type_synonym ow_log = "ow_event list"

record ow_env =
  ow_result :: "ow_log \<Rightarrow> ow_event \<Rightarrow> esp_err"
  ow_bit :: "ow_log \<Rightarrow> bool"
  ow_bytes :: "ow_log \<Rightarrow> nat \<Rightarrow> bytes"
  ow_rom :: "ow_log \<Rightarrow> bytes"

definition ow_do :: "ow_env \<Rightarrow> ow_event \<Rightarrow> ow_log \<Rightarrow> esp_err \<times> ow_log" where
  "ow_do env ev evs = (ow_result env evs ev, ev # evs)"

definition onewire_bus_manager_init :: "ow_env \<Rightarrow> nat \<Rightarrow> ow_log \<Rightarrow> esp_err \<times> ow_log" where
  "onewire_bus_manager_init env pin evs = ow_do env (OwNewBus pin) evs"

text \<open>The loop over the iterator, with the number of devices it may still find.\<close>

fun onewire_scan_loop :: "ow_env \<Rightarrow> nat \<Rightarrow> nat \<Rightarrow> bytes list \<Rightarrow> ow_log \<Rightarrow> (nat \<times> bytes list) \<times> ow_log" where
  "onewire_scan_loop env 0 cnt devices evs = ((cnt, devices), evs)"
| "onewire_scan_loop env (Suc n) cnt devices evs =
     (let rom = ow_rom env evs in
      case ow_do env OwNext evs of (err, evs) \<Rightarrow>
        if err = ESP_OK then onewire_scan_loop env n (Suc cnt) (devices[cnt := rom]) evs
        else ((cnt, devices), evs))"

text \<open>The error, the number found (\<open>None\<close> when \<^verbatim>\<open>*found\<close> is not written) and the array.\<close>

definition onewire_bus_scan ::
  "ow_env \<Rightarrow> bool \<Rightarrow> bytes list \<Rightarrow> nat \<Rightarrow> ow_log \<Rightarrow> (esp_err \<times> nat option \<times> bytes list) \<times> ow_log" where
  "onewire_bus_scan env bus devices max_devices evs =
     (if \<not> bus then ((ESP_ERR_INVALID_ARG, None, devices), evs)
      else case ow_do env OwNewIter evs of (err, evs) \<Rightarrow>
        if err \<noteq> ESP_OK then ((err, None, devices), evs)
        else case onewire_scan_loop env max_devices 0 devices evs of ((cnt, devices), evs) \<Rightarrow>
          ((ESP_OK, Some cnt, devices), OwDelIter # evs))"

section \<open>The thermometer\<close>

definition DS18B20_CMD_SKIP_ROM :: u8 where "DS18B20_CMD_SKIP_ROM = 0xCC"
definition DS18B20_CMD_MATCH_ROM :: u8 where "DS18B20_CMD_MATCH_ROM = 0x55"
definition DS18B20_CMD_CONVERT_T :: u8 where "DS18B20_CMD_CONVERT_T = 0x44"
definition DS18B20_CMD_WRITE_SCRATCH :: u8 where "DS18B20_CMD_WRITE_SCRATCH = 0x4E"
definition DS18B20_CMD_READ_SCRATCH :: u8 where "DS18B20_CMD_READ_SCRATCH = 0xBE"

definition ds18b20_select_device :: "ow_env \<Rightarrow> bytes option \<Rightarrow> ow_log \<Rightarrow> esp_err \<times> ow_log" where
  "ds18b20_select_device env device evs =
     (case ow_do env OwReset evs of (err, evs) \<Rightarrow>
        if err \<noteq> ESP_OK then (err, evs)
        else case device of
          None \<Rightarrow> ow_do env (OwWrite [DS18B20_CMD_SKIP_ROM]) evs
        | Some rom \<Rightarrow>
            (case ow_do env (OwWrite [DS18B20_CMD_MATCH_ROM]) evs of (err, evs) \<Rightarrow>
               if err \<noteq> ESP_OK then (err, evs) else ow_do env (OwWrite rom) evs))"

definition ds18b20_conversion_time_ms :: "u8 \<Rightarrow> nat" where
  "ds18b20_conversion_time_ms resolution_bits =
     (if resolution_bits = 9 then 94 else if resolution_bits = 10 then 188 else if resolution_bits = 11 then 375 else 750)"

definition ds18b20_config :: "u8 \<Rightarrow> u8" where
  "ds18b20_config resolution_bits =
     (if resolution_bits = 9 then 0x1F else if resolution_bits = 10 then 0x3F else if resolution_bits = 11 then 0x5F else 0x7F)"

fun ds18b20_configure_all :: "ow_env \<Rightarrow> u8 \<Rightarrow> bytes list \<Rightarrow> ow_log \<Rightarrow> esp_err \<times> ow_log" where
  "ds18b20_configure_all env config [] evs = (ESP_OK, evs)"
| "ds18b20_configure_all env config (rom # devices) evs =
     (case ds18b20_select_device env (Some rom) evs of (err, evs) \<Rightarrow>
        if err \<noteq> ESP_OK then (err, evs)
        else case ow_do env (OwWrite [DS18B20_CMD_WRITE_SCRATCH]) evs of (err, evs) \<Rightarrow>
          if err \<noteq> ESP_OK then (err, evs)
          else case ow_do env (OwWrite [0, 0, config]) evs of (err, evs) \<Rightarrow>
            if err \<noteq> ESP_OK then (err, evs) else ds18b20_configure_all env config devices evs)"

definition ds18b20_start_conversion :: "ow_env \<Rightarrow> bool \<Rightarrow> bytes list \<Rightarrow> u8 \<Rightarrow> ow_log \<Rightarrow> esp_err \<times> ow_log" where
  "ds18b20_start_conversion env bus devices resolution_bits evs =
     (if \<not> bus \<or> devices = [] then (ESP_ERR_INVALID_ARG, evs)
      else case ds18b20_configure_all env (ds18b20_config resolution_bits) devices evs of (err, evs) \<Rightarrow>
        if err \<noteq> ESP_OK then (err, evs)
        else case ds18b20_select_device env None evs of (err, evs) \<Rightarrow>
          if err \<noteq> ESP_OK then (err, evs) else ow_do env (OwWrite [DS18B20_CMD_CONVERT_T]) evs)"

definition ds18b20_check_conversion :: "ow_env \<Rightarrow> bool \<Rightarrow> ow_log \<Rightarrow> (esp_err \<times> bool option) \<times> ow_log" where
  "ds18b20_check_conversion env bus evs =
     (if \<not> bus then ((ESP_ERR_INVALID_ARG, None), evs)
      else let b = ow_bit env evs in
        case ow_do env OwReadBit evs of (err, evs) \<Rightarrow>
          if err = ESP_OK then ((ESP_OK, Some b), evs) else ((err, None), evs))"

definition ds18b20_temperature :: "(rat \<Rightarrow> rat) \<Rightarrow> bytes \<Rightarrow> rat" where
  "ds18b20_temperature fl scratch =
     (let raw = push_bit 8 (ucast (scratch ! 1)) OR ucast (scratch ! 0) :: u16 in fl (fl (of_nat (unat raw)) / 16))"

definition ds18b20_read_temperature ::
  "(rat \<Rightarrow> rat) \<Rightarrow> ow_env \<Rightarrow> bool \<Rightarrow> bytes option \<Rightarrow> ow_log \<Rightarrow> (esp_err \<times> rat option) \<times> ow_log" where
  "ds18b20_read_temperature fl env bus device evs =
     (if \<not> bus \<or> device = None then ((ESP_ERR_INVALID_ARG, None), evs)
      else case ds18b20_select_device env device evs of (err, evs) \<Rightarrow>
        if err \<noteq> ESP_OK then ((err, None), evs)
        else case ow_do env (OwWrite [DS18B20_CMD_READ_SCRATCH]) evs of (err, evs) \<Rightarrow>
          if err \<noteq> ESP_OK then ((err, None), evs)
          else let scratch = ow_bytes env evs 9 in
            case ow_do env (OwRead 9) evs of (err, evs) \<Rightarrow>
              if err \<noteq> ESP_OK then ((err, None), evs)
              else ((ESP_OK, Some (ds18b20_temperature fl scratch)), evs))"

section \<open>Scanning\<close>

lemma onewire_scan_loop_spec:
  "onewire_scan_loop env n cnt devices evs = ((cnt', devices'), evs') \<Longrightarrow>
    cnt \<le> cnt' \<and> cnt' \<le> cnt + n \<and> length devices' = length devices"
  by (induction n arbitrary: cnt devices evs) (fastforce simp: ow_do_def Let_def split: if_splits)+

lemma onewire_bus_scan_spec:
  assumes "onewire_bus_scan env bus devices mx evs = ((err, found, devices'), evs')"
  shows "length devices' = length devices" "found = Some n \<Longrightarrow> n \<le> mx" "(found = None) = (err \<noteq> ESP_OK)"
  using assms onewire_scan_loop_spec [of env mx 0 devices]
  by (fastforce simp: onewire_bus_scan_def ow_do_def split: if_splits prod.splits)+

section \<open>Temperatures below zero\<close>

text \<open>
  The scratchpad holds the temperature in sixteenths of a degree as a signed 16-bit number,
  low byte first.
\<close>

definition ds18b20_celsius :: "bytes \<Rightarrow> rat" where
  "ds18b20_celsius scratch = of_int (sint (le_word [scratch ! 0, scratch ! 1] :: u16)) / 16"

text \<open>Sixteenths of degrees up to 4096 are exact in a \<^verbatim>\<open>float\<close>.\<close>

definition float_sixteenths :: "(rat \<Rightarrow> rat) \<Rightarrow> bool" where
  "float_sixteenths fl \<longleftrightarrow> (\<forall>n :: int. 0 \<le> n \<longrightarrow> n < 65536 \<longrightarrow> fl (of_int n) = of_int n \<and> fl (of_int n / 16) = of_int n / 16)"

lemma ds18b20_temperature_raw:
  assumes "float_sixteenths fl"
  shows "ds18b20_temperature fl scratch = of_int (uint (le_word [scratch ! 0, scratch ! 1] :: u16)) / 16"
proof -
  have "fl (fl (of_nat (unat w)) / 16) = of_int (uint w) / 16" for w :: u16
  proof -
    have "0 \<le> uint w" "uint w < 65536" using unsigned_less [of w, where 'a = int] by simp_all
    with assms have f: "fl (of_int (uint w)) = of_int (uint w)" "fl (of_int (uint w) / 16) = of_int (uint w) / 16"
      unfolding float_sixteenths_def by blast+
    have "(of_nat (unat w) :: rat) = of_int (uint w)" by simp
    then show ?thesis unfolding f by (simp only: f)
  qed
  then show ?thesis unfolding ds18b20_temperature_def join16_le_word Let_def .
qed

lemma uint_sint16: "uint (w :: u16) = sint w + (if 0 \<le> sint w then 0 else 65536)"
proof -
  have u: "0 \<le> uint w" "uint w < 65536" using unsigned_less [of w, where 'a = int] by simp_all
  have "sint w = signed_take_bit 15 (uint w)" by (simp add: sint_uint)
  also have "\<dots> = take_bit 16 (uint w) - 2 ^ 16 * of_bool (bit (uint w) 15)"
    by (simp add: signed_take_bit_eq_take_bit_minus)
  also have "\<dots> = uint w - (if bit (uint w) 15 then 65536 else 0)" using u by (simp add: take_bit_int_eq_self)
  finally show ?thesis using u by (auto split: if_splits)
qed

text \<open>
  The thermometer is read as an unsigned number. A reading that succeeds reports the
  temperature in the scratchpad when it is not negative, and 4096 degrees too much when it is:
  one sixteenth of a degree below zero is reported as 4095.9375 degrees.
\<close>

theorem ds18b20_reading_unsigned:
  assumes "ds18b20_read_temperature fl env bus device evs = ((ESP_OK, temp), evs')" "float_sixteenths fl"
  shows "\<exists>pre scratch t. evs' = OwRead 9 # pre \<and> scratch = ow_bytes env pre 9 \<and> t = ds18b20_celsius scratch \<and>
    temp = Some (if 0 \<le> t then t else t + 4096)"
proof -
  obtain pre where pre: "evs' = OwRead 9 # pre" "temp = Some (ds18b20_temperature fl (ow_bytes env pre 9))"
    using assms(1) by (auto simp: ds18b20_read_temperature_def ow_do_def Let_def split: if_splits prod.splits)
  let ?w = "le_word [ow_bytes env pre 9 ! 0, ow_bytes env pre 9 ! 1] :: u16"
  have c: "ds18b20_temperature fl (ow_bytes env pre 9) =
      (if 0 \<le> ds18b20_celsius (ow_bytes env pre 9) then ds18b20_celsius (ow_bytes env pre 9)
       else ds18b20_celsius (ow_bytes env pre 9) + 4096)"
    unfolding ds18b20_temperature_raw [OF assms(2)] ds18b20_celsius_def
    by (subst uint_sint16) (simp add: zero_le_divide_iff del: le_word.simps of_int_sint)
  show ?thesis using pre by (intro exI [of _ pre] exI [of _ "ow_bytes env pre 9"]) (simp add: c)
qed

text \<open>A thermometer at one sixteenth of a degree below zero.\<close>

definition demo_ow :: ow_env where
  "demo_ow = \<lparr>ow_result = \<lambda>_ _. ESP_OK, ow_bit = \<lambda>_. True, ow_bytes = \<lambda>_ n. [0xFF, 0xFF, 0, 0, 0x7F, 0xFF, 0, 0x10, 0],
     ow_rom = \<lambda>_. [0x28, 1, 2, 3, 4, 5, 6, 7]\<rparr>"

theorem ds18b20_reading_unsigned_witness:
  "\<exists>evs t. ds18b20_read_temperature (\<lambda>x. x) demo_ow True (Some [0x28]) [] = ((ESP_OK, Some (t + 4096)), evs) \<and> t = - 1 / 16"
proof -
  obtain temp evs where r: "ds18b20_read_temperature (\<lambda>x. x) demo_ow True (Some [0x28]) [] = ((ESP_OK, temp), evs)"
    by (auto simp: ds18b20_read_temperature_def ds18b20_select_device_def ow_do_def demo_ow_def)
  have "float_sixteenths (\<lambda>x. x)" by (simp add: float_sixteenths_def)
  from ds18b20_reading_unsigned [OF r this] have "temp = Some (- 1 / 16 + 4096)"
    by (auto simp: demo_ow_def ds18b20_celsius_def)
  with r show ?thesis by blast
qed

end
