(* ===== verification/SensorTask.thy ===== *)
theory SensorTask
  imports Ds18b20 SensorModel
begin

text \<open>
  The sampling task of the sensor node, \<^verbatim>\<open>sensor_node/main/tasks/t_sensors.c\<close>, with the device
  table of \<^verbatim>\<open>sensor_node/main/io/io_map.c\<close>: it reads the ambient sensors over the I2C bus and
  the thermometers over the 1-Wire bus and fills in the data model.

  The environment answers the bus calls, the reads of the tick count, the mutex of the data
  model and the sine of the C library. The averages are numbers; a sensor that was never read
  is published as NaN. One turn of the endless loop is
  \<open>sensors_task_turn\<close>. Logging is left out.
\<close>

section \<open>The device table\<close>

record io_build =
  cfg_ambient :: io_ambient_sensor_type_t
  cfg_tca9548a_enable :: bool
  cfg_tca9548a_address :: u8
  cfg_tca9548a_ch0 :: int
  cfg_tca9548a_ch1 :: int
  cfg_pwm_backend :: io_pwm_backend_t

definition no_ambient :: io_ambient_sensor_t where
  "no_ambient = \<lparr>amb_type = IO_AMBIENT_SENSOR_NONE, amb_address = 0, amb_mux_address = 0, amb_mux_channel = IO_MUX_CHANNEL_NONE\<rparr>"

definition io_map_ambient :: "io_build \<Rightarrow> io_ambient_sensor_t list \<times> nat" where
  "io_map_ambient cfg = (case cfg_ambient cfg of
       IO_AMBIENT_SENSOR_SHT20 \<Rightarrow>
         if cfg_tca9548a_enable cfg then
           (map (\<lambda>ch. \<lparr>amb_type = IO_AMBIENT_SENSOR_SHT20, amb_address = 0x40, amb_mux_address = cfg_tca9548a_address cfg,
                  amb_mux_channel = ch\<rparr>) [cfg_tca9548a_ch0 cfg, cfg_tca9548a_ch1 cfg], 2)
         else ([no_ambient\<lparr>amb_type := IO_AMBIENT_SENSOR_SHT20, amb_address := 0x40\<rparr>, no_ambient], 1)
     | IO_AMBIENT_SENSOR_BME280 \<Rightarrow>
         (map (\<lambda>a. no_ambient\<lparr>amb_type := IO_AMBIENT_SENSOR_BME280, amb_address := a\<rparr>) [0x76, 0x77], 2)
     | IO_AMBIENT_SENSOR_NONE \<Rightarrow> ([no_ambient, no_ambient], 0))"

definition io_map_get :: "io_build \<Rightarrow> io_map_t" where
  "io_map_get cfg = \<lparr>map_ambient = fst (io_map_ambient cfg), map_ambient_count = snd (io_map_ambient cfg),
     map_pwm_backend = cfg_pwm_backend cfg,
     map_pca9685_address = (if cfg_pwm_backend cfg = IO_PWM_BACKEND_PCA9685 then 0x41 else 0),
     map_mcp23017_addresses = [0x20, 0x21]\<rparr>"

section \<open>State and environment\<close>

record sensors_world =
  sw_i2c :: i2c_bus
  sw_tca :: tca9548a
  sw_bme :: "bme280_device_t list"
  sw_ow :: ow_log
  sw_calls :: nat

record sensors_env =
  se_build :: io_build
  se_i2c :: i2c_env
  se_ow :: ow_env
  se_fl :: "rat \<Rightarrow> rat"
  se_sin :: "rat \<Rightarrow> rat"
  se_tick :: "sensors_world \<Rightarrow> tick"
  se_took :: "sensors_world \<Rightarrow> bool"
  se_ms_to_ticks :: "nat \<Rightarrow> tick"

record sensors_task_ctx_t =
  sc_model :: sensor_data_model_t
  sc_bus :: bool
  sc_ds_devices :: "bytes list"
  sc_ds_count :: nat
  sc_ds_conversion_pending :: bool
  sc_ds_ready_tick :: tick
  sc_next_ds_scan_tick :: tick
  sc_ambient_count :: nat
  sc_ambient_temp_ema :: "rat list"
  sc_ambient_hum_ema :: "rat list"
  sc_ambient_initialized :: "bool list"

type_synonym sensors_state = "sensors_task_ctx_t \<times> sensors_world"

text \<open>A read of the tick count, and a call that takes the mutex: the world moves on.\<close>

definition read_tick :: "sensors_env \<Rightarrow> sensors_world \<Rightarrow> tick \<times> sensors_world" where
  "read_tick env w = (se_tick env w, w\<lparr>sw_calls := Suc (sw_calls w)\<rparr>)"

definition with_model :: "sensors_env \<Rightarrow> (bool \<Rightarrow> sensor_data_model_t \<Rightarrow> sensor_data_model_t) \<Rightarrow> sensors_state \<Rightarrow> sensors_state" where
  "with_model env f st = (case st of (ctx, w) \<Rightarrow>
     (ctx\<lparr>sc_model := f (se_took env w) (sc_model ctx)\<rparr>, w\<lparr>sw_calls := Suc (sw_calls w)\<rparr>))"

section \<open>Ambient sensors\<close>

text \<open>The flag is \<open>None\<close> for a \<^verbatim>\<open>NULL\<close> pointer; the result is the average and the flag.\<close>

definition ema_update :: "(rat \<Rightarrow> rat) \<Rightarrow> rat \<Rightarrow> rat \<Rightarrow> bool option \<Rightarrow> rat \<times> bool option" where
  "ema_update fl prev sample initialized =
     (case initialized of
        None \<Rightarrow> (sample, None)
      | Some False \<Rightarrow> (sample, Some True)
      | Some True \<Rightarrow> (fl (prev + fl (1 / 4 * fl (sample - prev))), Some True))"

definition select_ambient_channel :: "sensors_env \<Rightarrow> io_ambient_sensor_t \<Rightarrow> sensors_world \<Rightarrow> esp_err \<times> sensors_world" where
  "select_ambient_channel env sensor w =
     (if amb_mux_channel sensor = IO_MUX_CHANNEL_NONE \<or> amb_mux_address sensor = 0 then (ESP_OK, w)
      else if cfg_ambient (se_build env) \<noteq> IO_AMBIENT_SENSOR_NONE then
        (case tca9548a_select (se_i2c env) (amb_mux_address sensor) (amb_mux_channel sensor) (sw_tca w, sw_i2c w) of (err, t, s) \<Rightarrow>
           (err, w\<lparr>sw_tca := t, sw_i2c := s\<rparr>))
      else (ESP_OK, w))"

fun ambient_sensor_name :: "io_ambient_sensor_type_t \<Rightarrow> string" where
  "ambient_sensor_name IO_AMBIENT_SENSOR_SHT20 = ''SHT20''"
| "ambient_sensor_name IO_AMBIENT_SENSOR_BME280 = ''BME280''"
| "ambient_sensor_name other = ''AMBIENT''"

definition ambient_sensor_init :: "sensors_env \<Rightarrow> io_ambient_sensor_t \<Rightarrow> sensors_world \<Rightarrow> esp_err \<times> sensors_world" where
  "ambient_sensor_init env sensor w =
     (case amb_type sensor of
        IO_AMBIENT_SENSOR_SHT20 \<Rightarrow>
          if cfg_ambient (se_build env) = IO_AMBIENT_SENSOR_SHT20 then select_ambient_channel env sensor w
          else (ESP_ERR_NOT_SUPPORTED, w)
      | IO_AMBIENT_SENSOR_BME280 \<Rightarrow>
          if cfg_ambient (se_build env) = IO_AMBIENT_SENSOR_BME280 then
            (case select_ambient_channel env sensor w of (err, w) \<Rightarrow>
               if err \<noteq> ESP_OK then (err, w)
               else case bme280_init (se_i2c env) (amb_address sensor) (sw_bme w, sw_i2c w) of (err, devs, s) \<Rightarrow>
                 (err, w\<lparr>sw_bme := devs, sw_i2c := s\<rparr>))
          else (ESP_ERR_NOT_SUPPORTED, w)
      | IO_AMBIENT_SENSOR_NONE \<Rightarrow> (ESP_ERR_NOT_SUPPORTED, w))"

text \<open>The error, and the values written; one that was not written keeps the 0 of its variable.\<close>

definition written :: "rat option \<Rightarrow> rat" where "written v = (case v of Some x \<Rightarrow> x | None \<Rightarrow> 0)"

definition ambient_sensor_read ::
  "sensors_env \<Rightarrow> io_ambient_sensor_t \<Rightarrow> sensors_world \<Rightarrow> (esp_err \<times> rat \<times> rat) \<times> sensors_world" where
  "ambient_sensor_read env sensor w =
     (case amb_type sensor of
        IO_AMBIENT_SENSOR_SHT20 \<Rightarrow>
          if cfg_ambient (se_build env) = IO_AMBIENT_SENSOR_SHT20 then
            (case select_ambient_channel env sensor w of (err, w) \<Rightarrow>
               if err \<noteq> ESP_OK then ((err, 0, 0), w)
               else case sht20_read_temperature_humidity (se_fl env) (se_i2c env) (amb_address sensor) (sw_i2c w) of ((err, t, h), s) \<Rightarrow>
                 ((err, written t, written h), w\<lparr>sw_i2c := s\<rparr>))
          else ((ESP_ERR_NOT_SUPPORTED, 0, 0), w)
      | IO_AMBIENT_SENSOR_BME280 \<Rightarrow>
          if cfg_ambient (se_build env) = IO_AMBIENT_SENSOR_BME280 then
            (case select_ambient_channel env sensor w of (err, w) \<Rightarrow>
               if err \<noteq> ESP_OK then ((err, 0, 0), w)
               else case bme280_read (se_fl env) (se_i2c env) (amb_address sensor) (sw_bme w, sw_i2c w) of ((err, m), devs, s) \<Rightarrow>
                 ((err, written (map_option bs_temperature m), written (map_option bs_humidity m)), w\<lparr>sw_bme := devs, sw_i2c := s\<rparr>))
          else ((ESP_ERR_NOT_SUPPORTED, 0, 0), w)
      | IO_AMBIENT_SENSOR_NONE \<Rightarrow> ((ESP_ERR_NOT_SUPPORTED, 0, 0), w))"

text \<open>The two averages of a sensor after a reading that succeeded: they share one flag.\<close>

definition ambient_filter :: "sensors_env \<Rightarrow> nat \<Rightarrow> rat \<Rightarrow> rat \<Rightarrow> sensors_task_ctx_t \<Rightarrow> sensors_task_ctx_t" where
  "ambient_filter env i temp hum ctx =
     (case ema_update (se_fl env) (sc_ambient_temp_ema ctx ! i) temp (Some (sc_ambient_initialized ctx ! i)) of (t, init) \<Rightarrow>
      case ema_update (se_fl env) (sc_ambient_hum_ema ctx ! i) hum init of (h, init) \<Rightarrow>
        ctx\<lparr>sc_ambient_temp_ema := (sc_ambient_temp_ema ctx)[i := t], sc_ambient_hum_ema := (sc_ambient_hum_ema ctx)[i := h],
          sc_ambient_initialized := (sc_ambient_initialized ctx)[i := the init]\<rparr>)"

definition ambient_id :: "io_ambient_sensor_t \<Rightarrow> nat \<Rightarrow> string" where
  "ambient_id sensor i = cstr_copy 16 (ambient_sensor_name (amb_type sensor) @ ''_'' @ dec_string (i + 1))"

definition update_ambient :: "sensors_env \<Rightarrow> nat \<Rightarrow> sensors_state \<Rightarrow> sensors_state" where
  "update_ambient env i st = (case st of (ctx, w) \<Rightarrow>
     let sensor = map_ambient (io_map_get (se_build env)) ! i in
     case ambient_sensor_read env sensor w of ((err, temp, hum), w) \<Rightarrow>
       let valid = (err = ESP_OK);
           ctx = (if valid then ambient_filter env i temp hum ctx else ctx);
           unread = (\<not> valid \<and> \<not> sc_ambient_initialized ctx ! i);
           filtered_temp = (if unread then NaN else Num (sc_ambient_temp_ema ctx ! i));
           filtered_hum = (if unread then NaN else Num (sc_ambient_hum_ema ctx ! i))
       in with_model env (\<lambda>took. data_model_set_sht20 took i (ambient_id sensor i) filtered_temp filtered_hum valid) (ctx, w))"

definition update_ambient_readings :: "sensors_env \<Rightarrow> sensors_state \<Rightarrow> sensors_state" where
  "update_ambient_readings env st = for_loop (update_ambient env) (min (sc_ambient_count (fst st)) IO_MAX_AMBIENT_SENSORS) 0 st"

section \<open>Thermometers\<close>

definition DS18B20_SCAN_INTERVAL_MS :: nat where "DS18B20_SCAN_INTERVAL_MS = 60000"
definition DS18B20_RESOLUTION_BITS :: u8 where "DS18B20_RESOLUTION_BITS = 12"
definition SENSOR_TASK_PERIOD_MS :: nat where "SENSOR_TASK_PERIOD_MS = 200"

definition ensure_ds18b20_devices :: "sensors_env \<Rightarrow> sensors_state \<Rightarrow> sensors_state" where
  "ensure_ds18b20_devices env st = (case st of (ctx, w) \<Rightarrow>
     case read_tick env w of (now, w) \<Rightarrow>
       if sc_ds_count ctx > 0 \<and> now < sc_next_ds_scan_tick ctx then (ctx, w)
       else case onewire_bus_scan (se_ow env) (sc_bus ctx) (sc_ds_devices ctx) 4 (sw_ow w) of ((err, found, devices), evs) \<Rightarrow>
         (ctx\<lparr>sc_ds_devices := devices,
            sc_ds_count := if err = ESP_OK then (case found of Some cnt \<Rightarrow> cnt | None \<Rightarrow> 0) else sc_ds_count ctx,
            sc_next_ds_scan_tick := now + se_ms_to_ticks env DS18B20_SCAN_INTERVAL_MS\<rparr>, w\<lparr>sw_ow := evs\<rparr>))"

definition kick_ds18b20_conversion :: "sensors_env \<Rightarrow> sensors_state \<Rightarrow> sensors_state" where
  "kick_ds18b20_conversion env st = (case st of (ctx, w) \<Rightarrow>
     if sc_ds_count ctx = 0 \<or> sc_ds_conversion_pending ctx then (ctx, w)
     else case ds18b20_start_conversion (se_ow env) (sc_bus ctx) (take (sc_ds_count ctx) (sc_ds_devices ctx)) DS18B20_RESOLUTION_BITS (sw_ow w) of
       (err, evs) \<Rightarrow>
         let w = w\<lparr>sw_ow := evs\<rparr> in
         if err = ESP_OK then
           (case read_tick env w of (now, w) \<Rightarrow>
              (ctx\<lparr>sc_ds_ready_tick := now + se_ms_to_ticks env (ds18b20_conversion_time_ms DS18B20_RESOLUTION_BITS),
                 sc_ds_conversion_pending := True\<rparr>, w))
         else (ctx, w))"

definition ds18b20_conversion_complete :: "sensors_env \<Rightarrow> sensors_state \<Rightarrow> bool \<times> sensors_world" where
  "ds18b20_conversion_complete env st = (case st of (ctx, w) \<Rightarrow>
     if \<not> sc_ds_conversion_pending ctx then (False, w)
     else case read_tick env w of (now, w) \<Rightarrow>
       if sint (now - sc_ds_ready_tick ctx) \<ge> 0 then (True, w)
       else case ds18b20_check_conversion (se_ow env) (sc_bus ctx) (sw_ow w) of ((err, ready), evs) \<Rightarrow>
         (err = ESP_OK \<and> ready = Some True, w\<lparr>sw_ow := evs\<rparr>))"

text \<open>What is published instead of a reading that failed.\<close>

definition synthetic_temperature :: "sensors_env \<Rightarrow> nat \<Rightarrow> tick \<Rightarrow> rat" where
  "synthetic_temperature env i ticks =
     (let fl = se_fl env in
      fl (21 + fl (1 / 2 * se_sin env (fl (fl (fl (of_nat (unat ticks)) / 1200) + fl (of_nat i))))))"

definition read_ds18b20 :: "sensors_env \<Rightarrow> nat \<Rightarrow> sensors_state \<Rightarrow> sensors_state" where
  "read_ds18b20 env i st = (case st of (ctx, w) \<Rightarrow>
     let rom = sc_ds_devices ctx ! i in
     case ds18b20_read_temperature (se_fl env) (se_ow env) (sc_bus ctx) (Some rom) (sw_ow w) of ((err, temp), evs) \<Rightarrow>
       let w = w\<lparr>sw_ow := evs\<rparr> in
       if err \<noteq> ESP_OK then
         (case read_tick env w of (ticks, w) \<Rightarrow>
            with_model env (\<lambda>took. data_model_set_ds18b20 took i (Some rom) (Num (synthetic_temperature env i ticks))) (ctx, w))
       else with_model env (\<lambda>took. data_model_set_ds18b20 took i (Some rom) (Num (written temp))) (ctx, w))"

definition read_ds18b20_temperatures :: "sensors_env \<Rightarrow> sensors_state \<Rightarrow> sensors_state" where
  "read_ds18b20_temperatures env st =
     (case ds18b20_conversion_complete env st of (finished, w) \<Rightarrow>
        if \<not> finished then (fst st, w)
        else case for_loop (read_ds18b20 env) (min (sc_ds_count (fst st)) 4) 0 (fst st, w) of (ctx, w) \<Rightarrow>
          (ctx\<lparr>sc_ds_conversion_pending := False\<rparr>, w))"

section \<open>The task\<close>

definition ambient_init_all :: "sensors_env \<Rightarrow> nat \<Rightarrow> sensors_world \<Rightarrow> sensors_world" where
  "ambient_init_all env n w = for_loop (\<lambda>i w. snd (ambient_sensor_init env (map_ambient (io_map_get (se_build env)) ! i) w)) n 0 w"

definition sensors_task_prologue :: "sensors_env \<Rightarrow> sensors_state \<Rightarrow> sensors_state" where
  "sensors_task_prologue env st = (case st of (ctx, w) \<Rightarrow>
     let mp = io_map_get (se_build env);
         cnt = (if map_ambient_count mp < IO_MAX_AMBIENT_SENSORS then map_ambient_count mp else IO_MAX_AMBIENT_SENSORS);
         w = ambient_init_all env cnt w in
     case read_tick env w of (now, w) \<Rightarrow>
       kick_ds18b20_conversion env (ensure_ds18b20_devices env
         (ctx\<lparr>sc_ambient_temp_ema := replicate 2 0, sc_ambient_hum_ema := replicate 2 0, sc_ambient_initialized := replicate 2 False,
            sc_ambient_count := cnt, sc_ds_count := 0, sc_ds_conversion_pending := False, sc_next_ds_scan_tick := now\<rparr>, w)))"

definition sensors_task_turn :: "sensors_env \<Rightarrow> sensors_state \<Rightarrow> sensors_state" where
  "sensors_task_turn env st =
     kick_ds18b20_conversion env (read_ds18b20_temperatures env (ensure_ds18b20_devices env (update_ambient_readings env st)))"

text \<open>\<open>n\<close> turns of the loop, each followed by the delay of the period.\<close>

definition sensors_task :: "sensors_env \<Rightarrow> nat \<Rightarrow> sensors_state \<Rightarrow> sensors_state" where
  "sensors_task env n st = (sensors_task_turn env ^^ n) (sensors_task_prologue env st)"

definition sensors_task_start :: "sensor_data_model_t \<Rightarrow> bool \<Rightarrow> sensors_task_ctx_t \<Rightarrow> sensors_task_ctx_t" where
  "sensors_task_start model bus ctx = ctx\<lparr>sc_model := model, sc_bus := bus\<rparr>"

section \<open>The state of the task\<close>

text \<open>
  The tables have their sizes, the counts stay within them, ROM codes are 8 bytes long and the
  data model keeps its invariant.
\<close>

definition sensors_ctx_ok :: "sensors_task_ctx_t \<Rightarrow> bool" where
  "sensors_ctx_ok ctx \<longleftrightarrow> sensor_model_inv (sc_model ctx) \<and> length (sc_ds_devices ctx) = 4 \<and>
     (\<forall>rom \<in> set (sc_ds_devices ctx). length rom = 8) \<and> sc_ds_count ctx \<le> 4 \<and> sc_ambient_count ctx \<le> 2 \<and>
     length (sc_ambient_temp_ema ctx) = 2 \<and> length (sc_ambient_hum_ema ctx) = 2 \<and> length (sc_ambient_initialized ctx) = 2"

definition roms_have_8_bytes :: "ow_env \<Rightarrow> bool" where
  "roms_have_8_bytes env \<longleftrightarrow> (\<forall>evs. length (ow_rom env evs) = 8)"

lemma onewire_scan_loop_roms:
  "onewire_scan_loop env n cnt devices evs = ((cnt', devices'), evs') \<Longrightarrow> roms_have_8_bytes env \<Longrightarrow>
    (\<forall>rom \<in> set devices. length rom = 8) \<Longrightarrow> (\<forall>rom \<in> set devices'. length rom = 8)"
proof (induction n arbitrary: cnt devices evs)
  case 0
  then show ?case by simp
next
  case (Suc n)
  have "\<forall>rom \<in> set (devices[cnt := ow_rom env evs]). length rom = 8"
    using Suc.prems(2,3) by (auto simp: roms_have_8_bytes_def elim!: set_list_updateE)
  with Suc show ?case by (auto simp: ow_do_def Let_def split: if_splits)
qed

lemma onewire_bus_scan_roms:
  assumes "onewire_bus_scan env bus devices mx evs = ((err, found, devices'), evs')" "roms_have_8_bytes env"
    "\<forall>rom \<in> set devices. length rom = 8"
  shows "\<forall>rom \<in> set devices'. length rom = 8"
  using assms onewire_scan_loop_roms [of env mx 0 devices]
  by (fastforce simp: onewire_bus_scan_def ow_do_def split: if_splits prod.splits)

lemma ambient_filter_ok: "sensors_ctx_ok ctx \<Longrightarrow> sensors_ctx_ok (ambient_filter env i t h ctx)"
  by (simp add: ambient_filter_def sensors_ctx_ok_def split: prod.splits)

lemma with_model_ok:
  assumes "sensors_ctx_ok (fst st)" "\<And>took m. sensor_model_inv m \<Longrightarrow> sensor_model_inv (f took m)"
  shows "sensors_ctx_ok (fst (with_model env f st))"
  using assms by (auto simp: with_model_def sensors_ctx_ok_def split: prod.splits)

lemma update_ambient_ok:
  assumes "sensors_ctx_ok (fst st)"
  shows "sensors_ctx_ok (fst (update_ambient env i st))"
proof -
  obtain ctx w where st: "st = (ctx, w)" by (cases st)
  obtain err t h w' where r: "ambient_sensor_read env (map_ambient (io_map_get (se_build env)) ! i) w = ((err, t, h), w')"
    by (metis prod.exhaust)
  have "sensors_ctx_ok (if err = ESP_OK then ambient_filter env i t h ctx else ctx)"
    using assms by (simp add: st ambient_filter_ok)
  then show ?thesis
    unfolding update_ambient_def st Let_def prod.case r by (intro with_model_ok set_sht20_inv) simp_all
qed

lemma ensure_ok:
  assumes "sensors_ctx_ok (fst st)" "roms_have_8_bytes (se_ow env)"
  shows "sensors_ctx_ok (fst (ensure_ds18b20_devices env st))"
proof -
  obtain ctx w where st: "st = (ctx, w)" by (cases st)
  obtain err found devices evs where r: "onewire_bus_scan (se_ow env) (sc_bus ctx) (sc_ds_devices ctx) 4 (sw_ow w) = ((err, found, devices), evs)"
    by (metis prod.exhaust)
  note s = onewire_bus_scan_spec [OF r] onewire_bus_scan_roms [OF r assms(2)]
  show ?thesis using assms(1) s
    by (auto simp: ensure_ds18b20_devices_def sensors_ctx_ok_def read_tick_def st r split: option.split)
qed

lemma kick_ok: "sensors_ctx_ok (fst st) \<Longrightarrow> sensors_ctx_ok (fst (kick_ds18b20_conversion env st))"
  by (auto simp: kick_ds18b20_conversion_def sensors_ctx_ok_def read_tick_def Let_def split: prod.splits)

lemma with_model_fields:
  "sc_ds_devices (fst (with_model env f st)) = sc_ds_devices (fst st)" "sc_ds_count (fst (with_model env f st)) = sc_ds_count (fst st)"
  by (simp_all add: with_model_def split: prod.split)

lemma read_ds18b20_fields [simp]:
  "sc_ds_devices (fst (read_ds18b20 env i st)) = sc_ds_devices (fst st)" "sc_ds_count (fst (read_ds18b20 env i st)) = sc_ds_count (fst st)"
  by (auto simp: read_ds18b20_def Let_def with_model_fields split: prod.split)

lemma read_ds18b20_ok: "sensors_ctx_ok (fst st) \<Longrightarrow> i < 4 \<Longrightarrow> sensors_ctx_ok (fst (read_ds18b20 env i st))"
  by (auto simp: read_ds18b20_def Let_def intro!: with_model_ok inv_intros split: prod.split)
    (auto simp: sensors_ctx_ok_def)

lemma read_temperatures_ok:
  assumes "sensors_ctx_ok (fst st)"
  shows "sensors_ctx_ok (fst (read_ds18b20_temperatures env st))"
proof -
  obtain finished w where c: "ds18b20_conversion_complete env st = (finished, w)" by (metis prod.exhaust)
  let ?r = "for_loop (read_ds18b20 env) (min (sc_ds_count (fst st)) 4) 0 (fst st, w)"
  have "sensors_ctx_ok (fst ?r)"
    by (rule for_loop_invariant [where I = "\<lambda>_ s. sensors_ctx_ok (fst s)"]) (use assms in \<open>auto intro: read_ds18b20_ok\<close>)
  then show ?thesis using assms
    by (cases ?r) (simp add: read_ds18b20_temperatures_def c sensors_ctx_ok_def)
qed

lemma sensors_turn_ok:
  assumes "sensors_ctx_ok (fst st)" "roms_have_8_bytes (se_ow env)"
  shows "sensors_ctx_ok (fst (sensors_task_turn env st))"
proof -
  have "sensors_ctx_ok (fst (update_ambient_readings env st))"
    unfolding update_ambient_readings_def
    by (rule for_loop_invariant [where I = "\<lambda>_ s. sensors_ctx_ok (fst s)"]) (use assms in \<open>auto intro: update_ambient_ok\<close>)
  then show ?thesis unfolding sensors_task_turn_def by (intro kick_ok read_temperatures_ok ensure_ok assms(2))
qed

text \<open>A node with one SHT20 and four thermometers that all answer.\<close>

definition demo_sensors :: "tick \<Rightarrow> sensors_env" where
  "demo_sensors now =
     \<lparr>se_build = \<lparr>cfg_ambient = IO_AMBIENT_SENSOR_SHT20, cfg_tca9548a_enable = False, cfg_tca9548a_address = 0x70,
        cfg_tca9548a_ch0 = 0, cfg_tca9548a_ch1 = 1, cfg_pwm_backend = IO_PWM_BACKEND_PCA9685\<rparr>,
      se_i2c = sht20_demo, se_ow = demo_ow, se_fl = (\<lambda>x. x), se_sin = (\<lambda>_. 0), se_tick = (\<lambda>_. now),
      se_took = (\<lambda>_. True), se_ms_to_ticks = of_nat\<rparr>"

definition demo_sensors_world :: sensors_world where
  "demo_sensors_world = \<lparr>sw_i2c = ready_bus, sw_tca = \<lparr>tca_last_addr = 0, tca_last_channel = IO_MUX_CHANNEL_NONE, tca_has_state = False\<rparr>, sw_bme = [], sw_ow = [], sw_calls = 0\<rparr>"

definition demo_sensors_ctx :: sensors_task_ctx_t where
  "demo_sensors_ctx = \<lparr>sc_model = data_model_init, sc_bus = True, sc_ds_devices = replicate 4 [0, 0, 0, 0, 0, 0, 0, 0], sc_ds_count = 0,
     sc_ds_conversion_pending = True, sc_ds_ready_tick = 0, sc_next_ds_scan_tick = 0, sc_ambient_count = 1,
     sc_ambient_temp_ema = replicate 2 0, sc_ambient_hum_ema = replicate 2 0, sc_ambient_initialized = replicate 2 False\<rparr>"

lemma demo_sensors_ctx_ok:
  "sensors_ctx_ok demo_sensors_ctx" "roms_have_8_bytes demo_ow" "sdm_initialized data_model_init" "sdm_mutex data_model_init"
  by (simp_all add: sensors_ctx_ok_def demo_sensors_ctx_def roms_have_8_bytes_def demo_ow_def init_inv)
    (simp_all add: data_model_init_def)

text \<open>
  C29.The task keeps its state well formed. Started with a data model that satisfies its
  invariant and a device table of four ROM codes, it stays so after any number of turns,
  whatever the sensors, the buses, the clock and the mutex answer: at most four thermometers and
  two ambient sensors are counted, the averages have one entry per sensor, and the data model
  can be published.
\<close>

theorem sensors_task_well_formed:
  assumes "sensor_model_inv (sc_model ctx)" "length (sc_ds_devices ctx) = 4" "\<forall>rom \<in> set (sc_ds_devices ctx). length rom = 8"
    "roms_have_8_bytes (se_ow env)"
  shows "sensors_ctx_ok (fst (sensors_task env n (ctx, w)))"
proof -
  have "sensors_ctx_ok (fst (sensors_task_prologue env (ctx, w)))"
    unfolding sensors_task_prologue_def read_tick_def Let_def prod.case
    by (intro kick_ok ensure_ok assms(4)) (use assms(1-3) in \<open>simp add: sensors_ctx_ok_def IO_MAX_AMBIENT_SENSORS_def\<close>)
  then show ?thesis unfolding sensors_task_def
    by (induction n) (simp_all add: sensors_turn_ok assms(4))
qed

theorem sensors_task_well_formed_witness:
  "sensors_ctx_ok (fst (sensors_task (demo_sensors 7) 3 (demo_sensors_ctx, demo_sensors_world)))"
  by (rule sensors_task_well_formed) (use demo_sensors_ctx_ok in \<open>auto simp: sensors_ctx_ok_def demo_sensors_def\<close>)

section \<open>Filtering\<close>

lemma ambient_filter_nth:
  assumes "sensors_ctx_ok ctx" "i < 2"
  shows "sc_ambient_temp_ema (ambient_filter env i t h ctx) ! i =
      fst (ema_update (se_fl env) (sc_ambient_temp_ema ctx ! i) t (Some (sc_ambient_initialized ctx ! i)))"
    "sc_ambient_hum_ema (ambient_filter env i t h ctx) ! i = fst (ema_update (se_fl env) (sc_ambient_hum_ema ctx ! i) h (Some True))"
    "sc_ambient_initialized (ambient_filter env i t h ctx) ! i"
  using assms by (auto simp: ambient_filter_def sensors_ctx_ok_def ema_update_def split: bool.split)

text \<open>In exact arithmetic, a constant humidity is approached from the average it starts with.\<close>

lemma humidity_ema_iterates:
  assumes "se_fl env = (\<lambda>x. x)" "sensors_ctx_ok ctx" "i < 2" "sc_ambient_initialized ctx ! i" "sc_ambient_temp_ema ctx ! i = t"
  shows "sc_ambient_temp_ema ((ambient_filter env i t h ^^ n) ctx) ! i = t \<and>
    sc_ambient_hum_ema ((ambient_filter env i t h ^^ n) ctx) ! i = h - (h - sc_ambient_hum_ema ctx ! i) * (3 / 4) ^ n"
proof (induction n)
  case 0
  then show ?case using assms(5) by simp
next
  case (Suc n)
  have ok: "sensors_ctx_ok ((ambient_filter env i t h ^^ n) ctx)" by (induction n) (simp_all add: assms(2) ambient_filter_ok)
  have init: "sc_ambient_initialized ((ambient_filter env i t h ^^ n) ctx) ! i"
  proof (cases n)
    case 0
    then show ?thesis using assms(4) by simp
  next
    case (Suc m)
    have "sensors_ctx_ok ((ambient_filter env i t h ^^ m) ctx)" by (induction m) (simp_all add: assms(2) ambient_filter_ok)
    then show ?thesis using Suc ambient_filter_nth(3) [OF _ assms(3)] by simp
  qed
  let ?c = "(ambient_filter env i t h ^^ n) ctx" and ?h = "sc_ambient_hum_ema ctx ! i"
  have "sc_ambient_temp_ema (ambient_filter env i t h ?c) ! i = t"
    "sc_ambient_hum_ema (ambient_filter env i t h ?c) ! i = h - (h - sc_ambient_hum_ema ?c ! i) * (3 / 4)"
    using Suc.IH ambient_filter_nth(1,2) [OF ok assms(3), of env t h] init
    by (simp_all add: ema_update_def assms(1) field_simps)
  then show ?case using Suc.IH by simp
qed

lemma with_model_locked:
  assumes "sdm_mutex (sc_model ctx)" "se_took env w"
  shows "sc_model (fst (with_model env f (ctx, w))) = f True (sc_model ctx)"
  using assms by (simp add: with_model_def)

lemma sht20_published:
  assumes "sensor_model_inv m" "sdm_initialized m" "sdm_mutex m" "i < 2"
  shows "su_sht20 (sdm_current (data_model_set_sht20 True i name t h v m)) ! i =
    \<lparr>sht_id = cstr_copy 16 name, sht_temperature_c = t, sht_humidity_percent = h, sht_valid = v\<rparr>"
  using assms by (simp add: data_model_set_sht20_def data_model_lock_def Let_def sensor_model_inv_def sensor_update_wf_def)

text \<open>
  The humidity of an ambient sensor is published far too low after a start. The two averages
  of a sensor share the flag that marks them as started, and the average of the temperature sets
  it first: the first reading is published with its temperature and a quarter of its humidity,
  marked valid, and after \<open>n\<close> more readings of the same humidity the average is still short of it by
  \<open>(3/4)\<close> to the power \<open>n + 1\<close> of its value.
\<close>

theorem ambient_humidity_warms_up:
  assumes "ambient_sensor_read env (map_ambient (io_map_get (se_build env)) ! i) w = ((ESP_OK, t, h), w')"
    "update_ambient env i (ctx, w) = (ctx', w'')"
    "sensors_ctx_ok ctx" "i < 2" "\<not> sc_ambient_initialized ctx ! i" "sc_ambient_hum_ema ctx ! i = 0"
    "sdm_initialized (sc_model ctx)" "sdm_mutex (sc_model ctx)" "se_took env w'" "se_fl env = (\<lambda>x. x)"
  shows "(let entry = su_sht20 (sdm_current (sc_model ctx')) ! i in
      sht_valid entry \<and> sht_temperature_c entry = Num t \<and> sht_humidity_percent entry = Num (h / 4)) \<and>
    sc_ambient_temp_ema ((ambient_filter env i t h ^^ n) ctx') ! i = t \<and>
    sc_ambient_hum_ema ((ambient_filter env i t h ^^ n) ctx') ! i = h * (1 - (3 / 4) ^ (n + 1))"
proof -
  let ?f = "ambient_filter env i t h ctx"
  have f: "sc_ambient_temp_ema ?f ! i = t" "sc_ambient_hum_ema ?f ! i = h / 4" "sc_ambient_initialized ?f ! i"
    using ambient_filter_nth [OF assms(3,4), of env t h] assms(5,6,10) by (simp_all add: ema_update_def)
  have "(ctx', w'') = with_model env (\<lambda>took. data_model_set_sht20 took i (ambient_id (map_ambient (io_map_get (se_build env)) ! i) i) (Num t) (Num (h / 4)) True) (?f, w')"
    using assms(2) unfolding update_ambient_def prod.case assms(1) Let_def by (simp add: f)
  then have ctx': "ctx' = ?f\<lparr>sc_model := data_model_set_sht20 True i (ambient_id (map_ambient (io_map_get (se_build env)) ! i) i) (Num t) (Num (h / 4)) True (sc_model ctx)\<rparr>"
    using assms(9) by (simp add: with_model_def ambient_filter_def split: prod.splits)
  have "sensors_ctx_ok ctx'"
    using ambient_filter_ok [OF assms(3), of env i t h] assms(3) unfolding ctx' sensors_ctx_ok_def by (auto intro: set_sht20_inv)
  moreover have "sensor_model_inv (sc_model ctx)" using assms(3) by (simp add: sensors_ctx_ok_def)
  ultimately show ?thesis
    using humidity_ema_iterates [OF assms(10), where ctx = ctx' and i = i and t = t and h = h and n = n] sht20_published [OF _ assms(7,8,4)] assms(4)
    by (simp add: ctx' f Let_def field_simps)
qed

lemma demo_ambient_read:
  "\<exists>t h w'. ambient_sensor_read (demo_sensors now) (map_ambient (io_map_get (se_build (demo_sensors now))) ! 0) demo_sensors_world = ((ESP_OK, t, h), w')"
proof -
  have "bus_initialized ready_bus" by (simp add: ready_bus_def)
  from sht20_demo_measure [OF this] obtain t s1 where
    t: "sht20_read_measurement (\<lambda>x. x) sht20_demo 0x40 SHT20_CMD_TRIGGER_TEMP True ready_bus = ((ESP_OK, Some t), s1)" "bus_initialized s1"
    by blast
  from sht20_demo_measure [OF t(2)] obtain h s2 where
    h: "sht20_read_measurement (\<lambda>x. x) sht20_demo 0x40 SHT20_CMD_TRIGGER_HUM False s1 = ((ESP_OK, Some h), s2)" by blast
  show ?thesis
    by (simp add: ambient_sensor_read_def select_ambient_channel_def demo_sensors_def demo_sensors_world_def io_map_get_def
        io_map_ambient_def no_ambient_def sht20_read_temperature_humidity_def t h)
qed

theorem ambient_humidity_warms_up_witness:
  "\<exists>t h ctx' w'. update_ambient (demo_sensors 7) 0 (demo_sensors_ctx, demo_sensors_world) = (ctx', w') \<and>
    sht_temperature_c (su_sht20 (sdm_current (sc_model ctx')) ! 0) = Num t \<and> sht_humidity_percent (su_sht20 (sdm_current (sc_model ctx')) ! 0) = Num (h / 4)"
proof -
  obtain t h w' where r: "ambient_sensor_read (demo_sensors 7) (map_ambient (io_map_get (se_build (demo_sensors 7))) ! 0) demo_sensors_world = ((ESP_OK, t, h), w')"
    using demo_ambient_read by blast
  obtain ctx' w'' where u: "update_ambient (demo_sensors 7) 0 (demo_sensors_ctx, demo_sensors_world) = (ctx', w'')" by fastforce
  from ambient_humidity_warms_up [OF r u demo_sensors_ctx_ok(1), of 1] u show ?thesis
    using demo_sensors_ctx_ok(3,4) by (auto simp: demo_sensors_ctx_def demo_sensors_def Let_def)
qed

section \<open>Scanning\<close>

lemma onewire_scan_loop_log: "\<exists>pre. snd (onewire_scan_loop env n cnt devices evs) = pre @ evs"
proof (induction n arbitrary: cnt devices evs)
  case 0
  then show ?case by simp
next
  case (Suc n)
  from Suc.IH [of "Suc cnt" "devices[cnt := ow_rom env evs]" "OwNext # evs"] show ?case
    by (auto simp: ow_do_def Let_def)
qed

lemma onewire_bus_scan_log: "\<exists>pre. snd (onewire_bus_scan env True devices mx evs) = pre @ OwNewIter # evs"
  using onewire_scan_loop_log [of env mx 0 devices "OwNewIter # evs"]
  by (fastforce simp: onewire_bus_scan_def ow_do_def split: prod.split)

lemma ensure_rescans:
  assumes "sc_bus ctx" "\<not> (sc_ds_count ctx > 0 \<and> se_tick env w < sc_next_ds_scan_tick ctx)"
  shows "\<exists>pre. sw_ow (snd (ensure_ds18b20_devices env (ctx, w))) = pre @ OwNewIter # sw_ow w"
  using onewire_bus_scan_log [of "se_ow env" "sc_ds_devices ctx" 4 "sw_ow w"] assms
  by (auto simp: ensure_ds18b20_devices_def read_tick_def split: prod.split)

lemma ensure_deadline:
  assumes "\<not> (sc_ds_count ctx > 0 \<and> se_tick env w < sc_next_ds_scan_tick ctx)"
  shows "sc_next_ds_scan_tick (fst (ensure_ds18b20_devices env (ctx, w))) = se_tick env w + se_ms_to_ticks env DS18B20_SCAN_INTERVAL_MS"
    "sc_bus (fst (ensure_ds18b20_devices env (ctx, w))) = sc_bus ctx"
  using assms by (auto simp: ensure_ds18b20_devices_def read_tick_def split: prod.split)

text \<open>
  When the 1-Wire bus is scanned again. After a scan that found thermometers, the next one
  waits for a minute on the tick count, unless the deadline passes the end of the 32-bit count:
  then it is compared as a small number, and every turn scans the whole bus again until the count
  itself wraps.
\<close>

theorem ds18b20_rescan_deadline:
  assumes "ensure_ds18b20_devices env (ctx, w) = (ctx', w')" "\<not> (sc_ds_count ctx > 0 \<and> se_tick env w < sc_next_ds_scan_tick ctx)"
    "sc_bus ctx" "sc_ds_count ctx' > 0" "se_tick env w \<le> se_tick env v"
  shows "(unat (se_tick env w) + unat (se_ms_to_ticks env DS18B20_SCAN_INTERVAL_MS) < 2 ^ 32 \<longrightarrow>
      unat (se_tick env v) < unat (se_tick env w) + unat (se_ms_to_ticks env DS18B20_SCAN_INTERVAL_MS) \<longrightarrow>
      ensure_ds18b20_devices env (ctx', v) = (ctx', v\<lparr>sw_calls := Suc (sw_calls v)\<rparr>)) \<and>
    (2 ^ 32 \<le> unat (se_tick env w) + unat (se_ms_to_ticks env DS18B20_SCAN_INTERVAL_MS) \<longrightarrow>
      (\<exists>pre. sw_ow (snd (ensure_ds18b20_devices env (ctx', v))) = pre @ OwNewIter # sw_ow v))"
proof (intro conjI impI)
  let ?now = "se_tick env w" and ?d = "se_ms_to_ticks env DS18B20_SCAN_INTERVAL_MS"
  have deadline: "sc_next_ds_scan_tick ctx' = ?now + ?d" and bus: "sc_bus ctx'"
    using ensure_deadline [OF assms(2)] assms(1,3) by simp_all
  {
    assume "unat ?now + unat ?d < 2 ^ 32" "unat (se_tick env v) < unat ?now + unat ?d"
    then have "se_tick env v < ?now + ?d" by (simp add: word_less_nat_alt unat_word_ariths)
    then show "ensure_ds18b20_devices env (ctx', v) = (ctx', v\<lparr>sw_calls := Suc (sw_calls v)\<rparr>)"
      using assms(4) by (simp add: ensure_ds18b20_devices_def read_tick_def deadline)
  }
  assume o: "2 ^ 32 \<le> unat ?now + unat ?d"
  have "unat (?now + ?d) = unat ?now + unat ?d - 2 ^ 32"
    using o unsigned_less [of ?now, where 'a = nat] unsigned_less [of ?d, where 'a = nat]
    by (simp add: unat_word_ariths mod_if)
  then have "unat (?now + ?d) \<le> unat (se_tick env v)"
    using assms(5) unsigned_less [of ?d, where 'a = nat] by (simp add: word_le_nat_alt)
  then have "\<not> se_tick env v < ?now + ?d" by (simp add: word_less_nat_alt)
  then show "\<exists>pre. sw_ow (snd (ensure_ds18b20_devices env (ctx', v))) = pre @ OwNewIter # sw_ow v"
    by (intro ensure_rescans bus) (simp add: deadline)
qed

theorem ds18b20_rescan_deadline_witness:
  "\<exists>ctx' w' pre. ensure_ds18b20_devices (demo_sensors 4294967000) (demo_sensors_ctx, demo_sensors_world) = (ctx', w') \<and> sc_ds_count ctx' = 4 \<and>
    sw_ow (snd (ensure_ds18b20_devices (demo_sensors 4294967000) (ctx', w'))) = pre @ OwNewIter # sw_ow w'"
proof -
  obtain ctx' w' where r: "ensure_ds18b20_devices (demo_sensors 4294967000) (demo_sensors_ctx, demo_sensors_world) = (ctx', w')" by fastforce
  then have c: "sc_ds_count ctx' = 4"
    by (auto simp: ensure_ds18b20_devices_def demo_sensors_ctx_def demo_sensors_def read_tick_def onewire_bus_scan_def ow_do_def demo_ow_def
        numeral_eq_Suc Let_def)
  have "2 ^ 32 \<le> unat (4294967000 :: tick) + unat (of_nat DS18B20_SCAN_INTERVAL_MS :: tick)"
    by (simp add: DS18B20_SCAN_INTERVAL_MS_def)
  with ds18b20_rescan_deadline [OF r, of w'] r c show ?thesis
    by (fastforce simp: demo_sensors_def demo_sensors_ctx_def)
qed

section \<open>Published temperatures\<close>

lemma ds18b20_published:
  assumes "sensor_model_inv m" "sdm_initialized m" "sdm_mutex m" "i < 4"
  shows "su_ds18b20 (sdm_current (data_model_set_ds18b20 True i (Some rom) t m)) =
      (su_ds18b20 (sdm_current m))[i := \<lparr>ds_rom_code = rom, ds_temperature_c = t\<rparr>]"
    "length (su_ds18b20 (sdm_current m)) = 4"
    "sdm_initialized (data_model_set_ds18b20 True i (Some rom) t m)" "sdm_mutex (data_model_set_ds18b20 True i (Some rom) t m)"
  using assms by (simp_all add: data_model_set_ds18b20_def data_model_lock_def Let_def sensor_model_inv_def sensor_update_wf_def)

lemma synthetic_temperature_range:
  assumes "float_rounding (se_fl env)" "\<forall>x. \<bar>se_sin env x\<bar> \<le> 1"
  shows "20 \<le> synthetic_temperature env i ticks \<and> synthetic_temperature env i ticks \<le> 22"
proof -
  let ?s = "se_sin env (se_fl env (se_fl env (se_fl env (of_nat (unat ticks)) / 1200) + se_fl env (of_nat i)))"
  have "- 1 \<le> ?s" "?s \<le> 1" using assms(2) abs_le_iff by (metis minus_le_iff, metis)
  then have "of_int (- 1) \<le> 1 / 2 * ?s" "1 / 2 * ?s \<le> of_int 1" by simp_all
  from float_rounding_bounds [OF assms(1) this] have "- 1 \<le> se_fl env (1 / 2 * ?s)" "se_fl env (1 / 2 * ?s) \<le> 1" by simp_all
  then have "of_int 20 \<le> 21 + se_fl env (1 / 2 * ?s)" "21 + se_fl env (1 / 2 * ?s) \<le> of_int 22" by simp_all
  from float_rounding_bounds [OF assms(1) this] show ?thesis by (simp add: synthetic_temperature_def Let_def)
qed

text \<open>What a turn publishes for a thermometer: its reading, or the made-up temperature.\<close>

definition published_for :: "sensors_env \<Rightarrow> bool \<Rightarrow> bytes \<Rightarrow> nat \<Rightarrow> proto_ds18b20_reading_t \<Rightarrow> bool" where
  "published_for env bus rom i e \<longleftrightarrow> ds_rom_code e = rom \<and>
     (\<exists>evs err temp evs'. ds18b20_read_temperature (se_fl env) (se_ow env) bus (Some rom) evs = ((err, temp), evs') \<and>
        (if err = ESP_OK then \<exists>t. temp = Some t \<and> ds_temperature_c e = Num t
         else \<exists>ticks. ds_temperature_c e = Num (synthetic_temperature env i ticks)))"

lemma ds18b20_read_SomeD:
  "ds18b20_read_temperature fl env bus device evs = ((ESP_OK, temp), evs') \<Longrightarrow> temp \<noteq> None"
  by (auto simp: ds18b20_read_temperature_def Let_def split: if_splits prod.splits)

lemma read_ds18b20_publishes:
  assumes "sensors_ctx_ok ctx" "sdm_initialized (sc_model ctx)" "sdm_mutex (sc_model ctx)" "\<forall>w. se_took env w" "i < 4"
    "read_ds18b20 env i (ctx, w) = (ctx', w')"
  shows "\<exists>t. ctx' = ctx\<lparr>sc_model := data_model_set_ds18b20 True i (Some (sc_ds_devices ctx ! i)) t (sc_model ctx)\<rparr> \<and>
    published_for env (sc_bus ctx) (sc_ds_devices ctx ! i) i \<lparr>ds_rom_code = sc_ds_devices ctx ! i, ds_temperature_c = t\<rparr>"
proof -
  let ?rom = "sc_ds_devices ctx ! i"
  obtain err temp evs where r: "ds18b20_read_temperature (se_fl env) (se_ow env) (sc_bus ctx) (Some ?rom) (sw_ow w) = ((err, temp), evs)"
    by (metis prod.exhaust)
  show ?thesis
  proof (cases "err = ESP_OK")
    case True
    with r obtain t where "temp = Some t" using ds18b20_read_SomeD by fastforce
    with True r assms(4,6) show ?thesis
      by (auto simp: read_ds18b20_def Let_def with_model_def written_def published_for_def intro!: exI [of _ "Num t"])
  next
    case False
    let ?t = "Num (synthetic_temperature env i (se_tick env (w\<lparr>sw_ow := evs\<rparr>)))"
    have "ctx' = ctx\<lparr>sc_model := data_model_set_ds18b20 True i (Some ?rom) ?t (sc_model ctx)\<rparr>"
      using False r assms(4,6) by (auto simp: read_ds18b20_def Let_def with_model_def read_tick_def)
    moreover have "published_for env (sc_bus ctx) ?rom i \<lparr>ds_rom_code = ?rom, ds_temperature_c = ?t\<rparr>"
      unfolding published_for_def using False r by auto
    ultimately show ?thesis by blast
  qed
qed


lemma read_all_publishes:
  fixes env and ctx :: sensors_task_ctx_t
  defines "roms \<equiv> sc_ds_devices ctx"
  assumes "sensors_ctx_ok ctx" "sdm_initialized (sc_model ctx)" "sdm_mutex (sc_model ctx)" "\<forall>w. se_took env w" "n \<le> 4"
  shows "\<forall>j < n. published_for env (sc_bus ctx) (roms ! j) j
    (su_ds18b20 (sdm_current (sc_model (fst (for_loop (read_ds18b20 env) n 0 (ctx, w))))) ! j)"
proof -
  let ?I = "\<lambda>i (s :: sensors_state). sensors_ctx_ok (fst s) \<and> sdm_initialized (sc_model (fst s)) \<and> sdm_mutex (sc_model (fst s)) \<and>
      sc_ds_devices (fst s) = roms \<and> sc_bus (fst s) = sc_bus ctx \<and>
      (\<forall>j < i. published_for env (sc_bus ctx) (roms ! j) j (su_ds18b20 (sdm_current (sc_model (fst s))) ! j))"
  have "?I (0 + n) (for_loop (read_ds18b20 env) n 0 (ctx, w))"
  proof (rule for_loop_invariant [where I = ?I])
    show "?I 0 (ctx, w)" using assms by simp
  next
    fix i s assume i: "0 \<le> i" "i < 0 + n" and I: "?I i s"
    obtain c v where s: "s = (c, v)" by (cases s)
    obtain c' v' where r: "read_ds18b20 env i (c, v) = (c', v')" by fastforce
    have i4: "i < 4" using i assms(6) by simp
    have c: "sensors_ctx_ok c" "sdm_initialized (sc_model c)" "sdm_mutex (sc_model c)" "sc_ds_devices c = roms" "sc_bus c = sc_bus ctx"
      and old: "\<forall>j < i. published_for env (sc_bus ctx) (roms ! j) j (su_ds18b20 (sdm_current (sc_model c)) ! j)"
      using I by (simp_all add: s)
    obtain t where c': "c' = c\<lparr>sc_model := data_model_set_ds18b20 True i (Some (roms ! i)) t (sc_model c)\<rparr>"
      and p: "published_for env (sc_bus ctx) (roms ! i) i \<lparr>ds_rom_code = roms ! i, ds_temperature_c = t\<rparr>"
      using read_ds18b20_publishes [OF c(1-3) assms(5) i4 r] c(4,5) by auto
    have inv: "sensor_model_inv (sc_model c)" using c(1) by (simp add: sensors_ctx_ok_def)
    note pub = ds18b20_published(1,3,4) [OF inv c(2,3) i4, of "roms ! i" t] ds18b20_published(2) [OF inv c(2,3) i4]
    have "sensors_ctx_ok c'" using read_ds18b20_ok [of "(c, v)" i env] c(1) i4 by (simp add: r)
    then show "?I (Suc i) (read_ds18b20 env i s)"
      unfolding s r using c(4,5) old p pub i4 by (auto simp: c' less_Suc_eq)
  qed
  then show ?thesis by simp
qed

text \<open>
  Thermometers are published when their conversion is over, and only then. While it runs,
  nothing changes; when it is over, every thermometer counted is published under its own ROM
  code, with the reading of its scratchpad when the read succeeds. When the read fails, a made-up
  temperature between 20 and 22 degrees is published in its place, and nothing in the entry tells
  the two apart.
\<close>

theorem ds18b20_published_when_complete:
  assumes "ds18b20_conversion_complete env (ctx, w) = (finished, v)" "read_ds18b20_temperatures env (ctx, w) = (ctx', w')"
    "sensors_ctx_ok ctx" "sdm_initialized (sc_model ctx)" "sdm_mutex (sc_model ctx)" "\<forall>w. se_took env w"
    "float_rounding (se_fl env)" "\<forall>x. \<bar>se_sin env x\<bar> \<le> 1"
  shows "(\<not> finished \<longrightarrow> ctx' = ctx) \<and>
    (finished \<longrightarrow> \<not> sc_ds_conversion_pending ctx' \<and>
      (\<forall>i < sc_ds_count ctx. published_for env (sc_bus ctx) (sc_ds_devices ctx ! i) i (su_ds18b20 (sdm_current (sc_model ctx')) ! i))) \<and>
    (\<forall>i ticks. 20 \<le> synthetic_temperature env i ticks \<and> synthetic_temperature env i ticks \<le> 22)"
proof (intro conjI impI)
  show "\<forall>i ticks. 20 \<le> synthetic_temperature env i ticks \<and> synthetic_temperature env i ticks \<le> 22"
    using synthetic_temperature_range [OF assms(7,8)] by blast
next
  assume "\<not> finished"
  then show "ctx' = ctx" using assms(1,2) by (simp add: read_ds18b20_temperatures_def)
next
  assume f: finished
  have cnt: "min (sc_ds_count ctx) 4 = sc_ds_count ctx" "sc_ds_count ctx \<le> 4" using assms(3) by (simp_all add: sensors_ctx_ok_def)
  from read_all_publishes [OF assms(3-6) cnt(2), of v]
  have "\<forall>i < sc_ds_count ctx. published_for env (sc_bus ctx) (sc_ds_devices ctx ! i) i
      (su_ds18b20 (sdm_current (sc_model (fst (for_loop (read_ds18b20 env) (sc_ds_count ctx) 0 (ctx, v))))) ! i)" by blast
  then show "\<forall>i < sc_ds_count ctx. published_for env (sc_bus ctx) (sc_ds_devices ctx ! i) i (su_ds18b20 (sdm_current (sc_model ctx')) ! i)"
    using assms(1,2) f by (auto simp: read_ds18b20_temperatures_def cnt(1) split: prod.splits)
next
  assume finished
  then show "\<not> sc_ds_conversion_pending ctx'"
    using assms(1,2) by (auto simp: read_ds18b20_temperatures_def split: prod.splits)
qed

theorem ds18b20_published_when_complete_witness:
  "\<exists>ctx' w'. read_ds18b20_temperatures (demo_sensors 7) (demo_sensors_ctx\<lparr>sc_ds_count := 4\<rparr>, demo_sensors_world) = (ctx', w') \<and>
    ds_rom_code (su_ds18b20 (sdm_current (sc_model ctx')) ! 3) = [0, 0, 0, 0, 0, 0, 0, 0]"
proof -
  let ?ctx = "demo_sensors_ctx\<lparr>sc_ds_count := 4\<rparr>"
  obtain ctx' w' where r: "read_ds18b20_temperatures (demo_sensors 7) (?ctx, demo_sensors_world) = (ctx', w')" by fastforce
  have "ds18b20_conversion_complete (demo_sensors 7) (?ctx, demo_sensors_world) = (True, demo_sensors_world\<lparr>sw_calls := 1\<rparr>)"
    by (simp add: ds18b20_conversion_complete_def demo_sensors_ctx_def read_tick_def demo_sensors_def demo_sensors_world_def)
  note p = ds18b20_published_when_complete [OF this r]
  have "sensors_ctx_ok ?ctx" "sdm_initialized (sc_model ?ctx)" "sdm_mutex (sc_model ?ctx)" "\<forall>w. se_took (demo_sensors 7) w"
    "float_rounding (se_fl (demo_sensors 7))" "\<forall>x. \<bar>se_sin (demo_sensors 7) x\<bar> \<le> 1"
    using demo_sensors_ctx_ok by (simp_all add: sensors_ctx_ok_def demo_sensors_def float_rounding_def mono_def)
      (simp_all add: demo_sensors_ctx_def)
  from p [OF this] have "published_for (demo_sensors 7) (sc_bus ?ctx) (sc_ds_devices ?ctx ! 3) 3 (su_ds18b20 (sdm_current (sc_model ctx')) ! 3)"
    by simp
  then show ?thesis using r by (simp add: published_for_def demo_sensors_ctx_def)
qed

end
