(* ===== verification/Wifi.thy ===== *)
theory Wifi
  imports Prelude
begin

text \<open>
  The Wi-Fi manager of both nodes, \<^verbatim>\<open>common/net/wifi_manager.c\<close>, and the wait for it in
  \<^verbatim>\<open>app_main.c\<close>.

  The Wi-Fi driver, the provisioning manager, flash and the timer service are the environment:
  a call of them is an event of the log, newest first, and its result is a function of the log
  before it. The bits of the event group are part of the state. While the task is blocked on
  them the environment delivers inputs, one after the other, to the handlers of this file;
  \<open>we_next\<close> is the next of them, \<open>None\<close> when the block time expires first. A wait without a
  block time then never returns, which is the value \<open>None\<close> of the function that waits.
  \<^verbatim>\<open>ESP_ERROR_CHECK\<close> and a failed assertion stop the node: the outcome \<open>Aborted\<close>.
\<close>

section \<open>State and environment\<close>

definition WIFI_CONNECTED_BIT :: u32 where "WIFI_CONNECTED_BIT = 1"
definition WIFI_FAIL_BIT :: u32 where "WIFI_FAIL_BIT = 2"
definition WIFI_PROV_DONE_BIT :: u32 where "WIFI_PROV_DONE_BIT = 4"

record wifi_manager_sec2_params_t =
  sec2_salt :: "bytes option"
  sec2_salt_len :: nat
  sec2_verifier :: "bytes option"
  sec2_verifier_len :: nat

record wifi_manager_config_t =
  wcf_power_save :: bool
  wcf_service_name_suffix :: "string option"
  wcf_pop :: "string option"
  wcf_service_key :: "string option"
  wcf_prefer_ble :: bool
  wcf_force_provisioning :: bool
  wcf_provisioning_timeout_ms :: u32
  wcf_connect_timeout_ms :: u32
  wcf_max_connect_attempts :: u8
  wcf_sec2_params :: "wifi_manager_sec2_params_t option"
  wcf_sec2_username :: "string option"

datatype wifi_scheme = SchemeBle | SchemeSoftap

datatype wifi_input =
    StaStart | StaDisconnected | StaGotIp | OtherWifiEvent
  | ReconnectTimer
  | ProvCredRecv | ProvCredFail | ProvCredSuccess | ProvEnd | ProvOther

datatype wifi_call =
    WifiConnect | WifiDisconnect
  | TimerStop | TimerChangePeriod nat | TimerStart
  | NvsSecureInit | NvsGenerateKeys | NvsDeinit | NvsErase | NvsSetFlash
  | NetifInit | EventLoopCreate | CreateSta
  | WifiInit | EventGroupCreate | TimerCreate | RegisterWifiHandler | RegisterIpHandler
  | ProvMgrInit wifi_scheme | ProvIsProvisioned | ProvSetUsername string
  | ProvStart string string wifi_manager_sec2_params_t | ProvStop | ProvDeinit | ProvReset
  | WifiSetMode | WifiSetPs bool | WifiStart
  | Delivered wifi_input | BlockTimeExpired
  | PollDelay nat

type_synonym wifi_log = "wifi_call list"

record wifi_env =
  we_result :: "wifi_log \<Rightarrow> wifi_call \<Rightarrow> esp_err"
  we_made :: "wifi_log \<Rightarrow> wifi_call \<Rightarrow> bool"
  we_timer_active :: "wifi_log \<Rightarrow> bool"
  we_provisioned :: "wifi_log \<Rightarrow> bool"
  we_mac :: "u8 list"
  we_early :: "wifi_log \<Rightarrow> wifi_input list"
  we_next :: "wifi_log \<Rightarrow> wifi_input option"

record wifi_manager =
  wm_event_group :: "u32 option"
  wm_connected :: bool
  wm_reconnect_timer :: bool
  wm_backoff_ms :: u32
  wm_force_reprovision :: bool
  wm_netif_initialized :: bool
  wm_log :: wifi_log

definition wifi_manager_reset_state :: wifi_manager where
  "wifi_manager_reset_state = \<lparr>wm_event_group = None, wm_connected = False, wm_reconnect_timer = False, wm_backoff_ms = 1000,
     wm_force_reprovision = False, wm_netif_initialized = False, wm_log = []\<rparr>"

datatype wifi_outcome = Returned esp_err | Aborted esp_err

definition wifi_call :: "wifi_call \<Rightarrow> wifi_manager \<Rightarrow> wifi_manager" where
  "wifi_call c s = s\<lparr>wm_log := c # wm_log s\<rparr>"

definition wifi_do :: "wifi_env \<Rightarrow> wifi_call \<Rightarrow> wifi_manager \<Rightarrow> esp_err \<times> wifi_manager" where
  "wifi_do env c s = (we_result env (wm_log s) c, wifi_call c s)"

definition wifi_set_bits :: "u32 \<Rightarrow> wifi_manager \<Rightarrow> wifi_manager" where
  "wifi_set_bits msk s = s\<lparr>wm_event_group := map_option (\<lambda>bits. bits OR msk) (wm_event_group s)\<rparr>"

definition wifi_clear_bits :: "u32 \<Rightarrow> wifi_manager \<Rightarrow> wifi_manager" where
  "wifi_clear_bits msk s = s\<lparr>wm_event_group := map_option (\<lambda>bits. bits AND NOT msk) (wm_event_group s)\<rparr>"

section \<open>Handlers\<close>

definition wifi_reconnect_timer_cb :: "wifi_manager \<Rightarrow> wifi_manager" where
  "wifi_reconnect_timer_cb s = wifi_call WifiConnect s"

definition wifi_disconnected :: "wifi_env \<Rightarrow> wifi_manager \<Rightarrow> wifi_manager" where
  "wifi_disconnected env s =
     (let s = wifi_set_bits WIFI_FAIL_BIT (wifi_clear_bits WIFI_CONNECTED_BIT (s\<lparr>wm_connected := False\<rparr>)) in
      if wm_reconnect_timer s then
        let s = (if we_timer_active env (wm_log s) then wifi_call TimerStop s else s);
            s = wifi_call TimerStart (wifi_call (TimerChangePeriod (unat (wm_backoff_ms s))) s)
        in if wm_backoff_ms s < 32000 then s\<lparr>wm_backoff_ms := wm_backoff_ms s * 2\<rparr> else s
      else s)"

fun wifi_event_handler :: "wifi_env \<Rightarrow> wifi_input \<Rightarrow> wifi_manager \<Rightarrow> wifi_manager" where
  "wifi_event_handler env StaStart s = wifi_call WifiConnect s"
| "wifi_event_handler env StaDisconnected s = wifi_disconnected env s"
| "wifi_event_handler env StaGotIp s = wifi_set_bits WIFI_CONNECTED_BIT (s\<lparr>wm_connected := True, wm_backoff_ms := 1000\<rparr>)"
| "wifi_event_handler env other s = s"

fun provisioning_event_handler :: "wifi_input \<Rightarrow> wifi_manager \<Rightarrow> wifi_manager" where
  "provisioning_event_handler ProvCredSuccess s = wifi_set_bits WIFI_PROV_DONE_BIT s"
| "provisioning_event_handler ProvEnd s = wifi_call ProvStop s"
| "provisioning_event_handler other s = s"

text \<open>The input goes to the handler registered for it.\<close>

definition wifi_deliver :: "wifi_env \<Rightarrow> wifi_input \<Rightarrow> wifi_manager \<Rightarrow> wifi_manager" where
  "wifi_deliver env input s =
     (let s = wifi_call (Delivered input) s in
      if input = ReconnectTimer then wifi_reconnect_timer_cb s
      else if input \<in> {StaStart, StaDisconnected, StaGotIp, OtherWifiEvent} then wifi_event_handler env input s
      else provisioning_event_handler input s)"

text \<open>
  \<^verbatim>\<open>xEventGroupWaitBits\<close> for any of the bits, clearing them on exit; \<open>limited\<close> when there is a
  block time. It returns all bits of the group.
\<close>

partial_function (option) wifi_wait_bits :: "wifi_env \<Rightarrow> u32 \<Rightarrow> bool \<Rightarrow> wifi_manager \<Rightarrow> (u32 \<times> wifi_manager) option" where
  "wifi_wait_bits env msk limited s =
     (let bits = the (wm_event_group s) in
      if bits AND msk \<noteq> 0 then Some (bits, wifi_clear_bits msk s)
      else case we_next env (wm_log s) of
        Some input \<Rightarrow> wifi_wait_bits env msk limited (wifi_deliver env input s)
      | None \<Rightarrow> if limited then Some (bits, wifi_call BlockTimeExpired s) else None)"

section \<open>Start-up\<close>

definition init_nvs_keys :: "wifi_env \<Rightarrow> wifi_manager \<Rightarrow> (wifi_outcome + esp_err) \<times> wifi_manager" where
  "init_nvs_keys env s =
     (case wifi_do env NvsSecureInit s of (err, s) \<Rightarrow>
        if err = ESP_ERR_NVS_SEC_KEY_PART_NOT_FOUND then
          (case wifi_do env NvsGenerateKeys s of (gerr, s) \<Rightarrow>
             if gerr \<noteq> ESP_OK then (Inl (Aborted gerr), s)
             else (case wifi_do env NvsSecureInit s of (err, s) \<Rightarrow> (Inr err, s)))
        else (Inr err, s))"

definition init_nvs_erase :: "wifi_env \<Rightarrow> esp_err \<Rightarrow> wifi_manager \<Rightarrow> (wifi_outcome + esp_err) \<times> wifi_manager" where
  "init_nvs_erase env err s =
     (if err = ESP_ERR_NVS_NO_FREE_PAGES \<or> err = ESP_ERR_NVS_NEW_VERSION_FOUND then
        (case wifi_do env NvsDeinit s of (derr, s) \<Rightarrow>
           if derr \<noteq> ESP_OK then (Inl (Aborted derr), s)
           else case wifi_do env NvsErase s of (eerr, s) \<Rightarrow>
             if eerr \<noteq> ESP_OK then (Inl (Aborted eerr), s)
             else (case wifi_do env NvsSecureInit s of (err, s) \<Rightarrow> (Inr err, s)))
      else (Inr err, s))"

definition init_nvs_secure :: "wifi_env \<Rightarrow> wifi_manager \<Rightarrow> wifi_outcome \<times> wifi_manager" where
  "init_nvs_secure env s =
     (case init_nvs_keys env s of
        (Inl stop, s) \<Rightarrow> (stop, s)
      | (Inr err, s) \<Rightarrow>
          (case init_nvs_erase env err s of
             (Inl stop, s) \<Rightarrow> (stop, s)
           | (Inr err, s) \<Rightarrow>
               if err \<noteq> ESP_OK then (Aborted err, s)
               else (case wifi_do env NvsSetFlash s of (err, s) \<Rightarrow> (Returned err, s))))"

definition ensure_netif :: "wifi_env \<Rightarrow> wifi_manager \<Rightarrow> wifi_outcome \<times> wifi_manager" where
  "ensure_netif env s =
     (if wm_netif_initialized s then (Returned ESP_OK, s)
      else case wifi_do env NetifInit s of (err, s) \<Rightarrow>
        if err \<noteq> ESP_OK then (Aborted err, s)
        else case wifi_do env EventLoopCreate s of (err, s) \<Rightarrow>
          if err \<noteq> ESP_OK then (Aborted err, s)
          else (Returned ESP_OK, (wifi_call CreateSta s)\<lparr>wm_netif_initialized := True\<rparr>))"

text \<open>\<^verbatim>\<open>%02X\<close>, and \<^verbatim>\<open>snprintf\<close> into the 20 bytes of the name.\<close>

definition hex_digit :: "nat \<Rightarrow> char" where
  "hex_digit d = (if d < 10 then char_of (48 + d) else char_of (55 + d))"

definition hex_byte :: "u8 \<Rightarrow> string" where
  "hex_byte b = [hex_digit (unat b div 16), hex_digit (unat b mod 16)]"

definition format_service_name :: "wifi_env \<Rightarrow> wifi_manager_config_t \<Rightarrow> nat \<Rightarrow> string" where
  "format_service_name env config len =
     cstr_copy len ((case wcf_service_name_suffix config of Some p \<Rightarrow> p | None \<Rightarrow> ''PROV'') @ ''-'' @
       hex_byte (we_mac env ! 3) @ hex_byte (we_mac env ! 4) @ hex_byte (we_mac env ! 5))"

definition wifi_manager_prov_mgr_init :: "wifi_env \<Rightarrow> wifi_scheme \<Rightarrow> wifi_manager \<Rightarrow> esp_err \<times> wifi_manager" where
  "wifi_manager_prov_mgr_init env scheme s = wifi_do env (ProvMgrInit scheme) s"

definition sec2_usable :: "wifi_manager_sec2_params_t option \<Rightarrow> bool" where
  "sec2_usable arg = (case arg of None \<Rightarrow> False | Some p \<Rightarrow>
     sec2_salt p \<noteq> None \<and> sec2_verifier p \<noteq> None \<and> sec2_salt_len p \<noteq> 0 \<and> sec2_verifier_len p \<noteq> 0)"

text \<open>The error, and what \<^verbatim>\<open>*using_ble\<close> is set to on success.\<close>

definition wifi_manager_prepare_provisioning ::
  "wifi_env \<Rightarrow> wifi_manager_config_t option \<Rightarrow> wifi_manager \<Rightarrow> (esp_err \<times> bool) \<times> wifi_manager" where
  "wifi_manager_prepare_provisioning env arg s =
     (case arg of None \<Rightarrow> ((ESP_ERR_INVALID_ARG, False), s)
      | Some config \<Rightarrow>
          if \<not> sec2_usable (wcf_sec2_params config) then ((ESP_ERR_INVALID_ARG, False), s)
          else case wifi_manager_prov_mgr_init env (if wcf_prefer_ble config then SchemeBle else SchemeSoftap) s of (prov_err, s) \<Rightarrow>
            if prov_err \<noteq> ESP_OK then
              (if wcf_prefer_ble config then
                 (case wifi_manager_prov_mgr_init env SchemeSoftap s of (softap_err, s) \<Rightarrow>
                    if softap_err \<noteq> ESP_OK then ((softap_err, False), s) else ((ESP_OK, False), s))
               else ((prov_err, False), s))
            else ((ESP_OK, wcf_prefer_ble config), s))"

text \<open>The part before provisioning; \<open>Some\<close> outcome when it ends the start.\<close>

definition stopped_by :: "wifi_outcome \<Rightarrow> wifi_outcome option" where
  "stopped_by r = (case r of Returned err \<Rightarrow> if err = ESP_OK then None else Some (Aborted err) | Aborted err \<Rightarrow> Some (Aborted err))"

definition wifi_register_handlers :: "wifi_env \<Rightarrow> wifi_manager \<Rightarrow> wifi_outcome option \<times> wifi_manager" where
  "wifi_register_handlers env s =
     (case wifi_do env RegisterWifiHandler s of (err, s) \<Rightarrow>
        if err \<noteq> ESP_OK \<and> err \<noteq> ESP_ERR_INVALID_STATE then (Some (Returned err), s)
        else case wifi_do env RegisterIpHandler s of (err, s) \<Rightarrow>
          if err \<noteq> ESP_OK \<and> err \<noteq> ESP_ERR_INVALID_STATE then (Some (Returned err), s) else (None, s))"

definition wifi_create_group :: "wifi_env \<Rightarrow> wifi_manager \<Rightarrow> wifi_manager" where
  "wifi_create_group env s =
     (if wm_event_group s = None then
        (wifi_call EventGroupCreate s)\<lparr>wm_event_group := if we_made env (wm_log s) EventGroupCreate then Some 0 else None\<rparr>
      else s)"

definition wifi_create_timer :: "wifi_env \<Rightarrow> wifi_manager \<Rightarrow> wifi_manager" where
  "wifi_create_timer env s =
     (if \<not> wm_reconnect_timer s then (wifi_call TimerCreate s)\<lparr>wm_reconnect_timer := we_made env (wm_log s) TimerCreate\<rparr> else s)"

definition wifi_start_driver :: "wifi_env \<Rightarrow> wifi_manager \<Rightarrow> wifi_outcome option \<times> wifi_manager" where
  "wifi_start_driver env s =
     (case init_nvs_secure env s of (r, s) \<Rightarrow>
      case stopped_by r of Some stop \<Rightarrow> (Some stop, s) | None \<Rightarrow>
      case ensure_netif env s of (r, s) \<Rightarrow>
      case stopped_by r of Some stop \<Rightarrow> (Some stop, s) | None \<Rightarrow>
      case wifi_do env WifiInit s of (err, s) \<Rightarrow>
        if err = ESP_ERR_WIFI_INIT_STATE then (Some (Returned ESP_ERR_INVALID_STATE), s)
        else if err \<noteq> ESP_OK then (Some (Returned err), s)
        else wifi_register_handlers env (wifi_create_timer env (wifi_create_group env s)))"

text \<open>
  Provisioning, for a start that has no stored credentials. The outcome is \<open>None\<close> when the
  start goes on.
\<close>

definition wifi_username :: "wifi_manager_config_t \<Rightarrow> string option" where
  "wifi_username config = (case wcf_sec2_username config of Some u \<Rightarrow> if u = [] then None else Some u | None \<Rightarrow> None)"

definition wifi_set_username :: "wifi_env \<Rightarrow> wifi_manager_config_t \<Rightarrow> wifi_manager \<Rightarrow> esp_err \<times> wifi_manager" where
  "wifi_set_username env config s =
     (case wifi_username config of None \<Rightarrow> (ESP_OK, s) | Some u \<Rightarrow> wifi_do env (ProvSetUsername u) s)"

definition wifi_provision ::
  "wifi_env \<Rightarrow> wifi_manager_config_t \<Rightarrow> wifi_manager \<Rightarrow> (wifi_outcome option \<times> wifi_manager) option" where
  "wifi_provision env config s =
     (let s = wifi_clear_bits (WIFI_PROV_DONE_BIT OR WIFI_CONNECTED_BIT OR WIFI_FAIL_BIT) s;
          service_name = format_service_name env config 20;
          service_key = (case wcf_service_key config of Some k \<Rightarrow> k | None \<Rightarrow> ''provision'');
          params = the (wcf_sec2_params config) in
      if sec2_salt_len params > 65535 \<or> sec2_verifier_len params > 65535
      then Some (Some (Returned ESP_ERR_INVALID_SIZE), wifi_call ProvDeinit s)
      else case wifi_set_username env config s of (err, s) \<Rightarrow>
        if err \<noteq> ESP_OK then Some (Some (Aborted err), s)
        else case wifi_do env (ProvStart service_name service_key params) s of (err, s) \<Rightarrow>
          if err \<noteq> ESP_OK then Some (Some (Aborted err), s)
          else case wifi_wait_bits env WIFI_PROV_DONE_BIT (wcf_provisioning_timeout_ms config \<noteq> 0) s of
            None \<Rightarrow> None
          | Some (bits, s) \<Rightarrow>
              if bits AND WIFI_PROV_DONE_BIT = 0
              then Some (Some (Returned ESP_ERR_TIMEOUT), wifi_call ProvDeinit (wifi_call ProvStop s))
              else Some (None, s\<lparr>wm_force_reprovision := False\<rparr>))"

section \<open>Connecting\<close>

partial_function (option) wifi_connect_loop ::
  "wifi_env \<Rightarrow> wifi_manager_config_t \<Rightarrow> u32 \<Rightarrow> wifi_manager \<Rightarrow> (wifi_outcome \<times> wifi_manager) option" where
  "wifi_connect_loop env config attempts s =
     (case wifi_wait_bits env (WIFI_CONNECTED_BIT OR WIFI_FAIL_BIT) (wcf_connect_timeout_ms config \<noteq> 0) s of
        None \<Rightarrow> None
      | Some (bits, s) \<Rightarrow>
          if bits AND WIFI_CONNECTED_BIT \<noteq> 0 then Some (Returned ESP_OK, s)
          else
            let counted = (bits = 0 \<or> bits AND WIFI_FAIL_BIT \<noteq> 0);
                s = (if bits = 0 then wifi_call WifiConnect (wifi_call WifiDisconnect s) else s);
                attempts = (if counted then attempts + 1 else attempts)
            in if counted \<and> wcf_max_connect_attempts config \<noteq> 0 \<and> attempts \<ge> ucast (wcf_max_connect_attempts config)
               then Some (Returned ESP_ERR_TIMEOUT, s)
               else wifi_connect_loop env config attempts s)"

definition wifi_connect :: "wifi_env \<Rightarrow> wifi_manager_config_t \<Rightarrow> wifi_manager \<Rightarrow> (wifi_outcome \<times> wifi_manager) option" where
  "wifi_connect env config s =
     (case wifi_do env WifiSetMode (wifi_call ProvDeinit s) of (err, s) \<Rightarrow>
        if err \<noteq> ESP_OK then Some (Aborted err, s)
        else case wifi_do env (WifiSetPs (wcf_power_save config)) s of (err, s) \<Rightarrow>
          if err \<noteq> ESP_OK then Some (Aborted err, s)
          else case wifi_do env WifiStart s of (err, s) \<Rightarrow>
            if err \<noteq> ESP_OK then Some (Aborted err, s)
            else
              let s = fold (wifi_deliver env) (we_early env (wm_log s)) s;
                  s = wifi_clear_bits (WIFI_CONNECTED_BIT OR WIFI_FAIL_BIT) s
              in wifi_connect_loop env config 0 s)"

text \<open>The bits are first used after provisioning was prepared; a missing group fails an assertion there.\<close>

definition wifi_start_station :: "wifi_env \<Rightarrow> wifi_manager_config_t \<Rightarrow> wifi_manager \<Rightarrow> (wifi_outcome \<times> wifi_manager) option" where
  "wifi_start_station env config s =
     (case wifi_manager_prepare_provisioning env (Some config) s of ((err, _), s) \<Rightarrow>
        if err \<noteq> ESP_OK then Some (Aborted err, s)
        else
          let stored = we_provisioned env (wm_log s) in
          case wifi_do env ProvIsProvisioned s of (err, s) \<Rightarrow>
            if err \<noteq> ESP_OK then Some (Aborted err, s)
            else
              let provisioned = (if wm_force_reprovision s \<or> wcf_force_provisioning config then False else stored) in
              if wm_event_group s = None then Some (Aborted ESP_FAIL, s)
              else if \<not> provisioned then
                (case wifi_provision env config s of
                   None \<Rightarrow> None
                 | Some (Some stop, s) \<Rightarrow> Some (stop, s)
                 | Some (None, s) \<Rightarrow> wifi_connect env config s)
              else wifi_connect env config (wifi_set_bits WIFI_PROV_DONE_BIT s))"

definition wifi_manager_start ::
  "wifi_env \<Rightarrow> wifi_manager_config_t option \<Rightarrow> wifi_manager \<Rightarrow> (wifi_outcome \<times> wifi_manager) option" where
  "wifi_manager_start env arg s =
     (case arg of None \<Rightarrow> Some (Returned ESP_ERR_INVALID_ARG, s)
      | Some config \<Rightarrow>
          (case wifi_start_driver env s of
             (Some stop, s) \<Rightarrow> Some (stop, s)
           | (None, s) \<Rightarrow> wifi_start_station env config s))"

definition wifi_manager_is_connected :: "wifi_manager \<Rightarrow> bool" where
  "wifi_manager_is_connected s = wm_connected s"

definition wifi_manager_request_reprovision :: "wifi_manager \<Rightarrow> wifi_manager" where
  "wifi_manager_request_reprovision s = wifi_call ProvReset (s\<lparr>wm_force_reprovision := True\<rparr>)"

text \<open>
  \<^verbatim>\<open>wait_for_wifi\<close> of both nodes: poll every 200 ms. What happens during a delay is a function
  of the log, as the inputs delivered.
\<close>

definition wifi_poll_delay :: "wifi_env \<Rightarrow> nat \<Rightarrow> wifi_manager \<Rightarrow> wifi_manager" where
  "wifi_poll_delay env ms s = fold (wifi_deliver env) (we_early env (wm_log s)) (wifi_call (PollDelay ms) s)"

partial_function (option) wait_for_wifi_loop :: "wifi_env \<Rightarrow> u32 \<Rightarrow> u32 \<Rightarrow> wifi_manager \<Rightarrow> (bool \<times> wifi_manager) option" where
  "wait_for_wifi_loop env timeout_ms elapsed s =
     (if elapsed < timeout_ms then
        (if wifi_manager_is_connected s then Some (True, s)
         else wait_for_wifi_loop env timeout_ms (elapsed + 200) (wifi_poll_delay env 200 s))
      else Some (wifi_manager_is_connected s, s))"

definition wait_for_wifi :: "wifi_env \<Rightarrow> u32 \<Rightarrow> wifi_manager \<Rightarrow> (bool \<times> wifi_manager) option" where
  "wait_for_wifi env timeout_ms s = wait_for_wifi_loop env timeout_ms 0 s"

section \<open>Reachable states\<close>

inductive wifi_reachable :: "wifi_env \<Rightarrow> wifi_manager \<Rightarrow> bool" for env :: wifi_env where
  reset: "wifi_reachable env wifi_manager_reset_state"
| input: "wifi_reachable env s \<Longrightarrow> wifi_reachable env (wifi_deliver env i s)"
| started: "wifi_reachable env s \<Longrightarrow> wifi_manager_start env arg s = Some (r, s') \<Longrightarrow> wifi_reachable env s'"
| reprovision: "wifi_reachable env s \<Longrightarrow> wifi_reachable env (wifi_manager_request_reprovision s)"

text \<open>
  The delay before the next reconnection is one of the six powers, the station that is
  connected starts over at the first, and the bit of the group agrees with the flag.
\<close>

definition wifi_backoffs :: "u32 set" where "wifi_backoffs = {1000, 2000, 4000, 8000, 16000, 32000}"

definition wifi_inv :: "wifi_manager \<Rightarrow> bool" where
  "wifi_inv s \<longleftrightarrow> wm_backoff_ms s \<in> wifi_backoffs \<and> (wm_connected s \<longrightarrow> wm_backoff_ms s = 1000) \<and>
     (\<forall>bits. wm_event_group s = Some bits \<longrightarrow> bits AND WIFI_CONNECTED_BIT \<noteq> 0 \<longrightarrow> wm_connected s)"

lemma wifi_bit_facts:
  fixes b :: u32
  shows "(b AND - 2) AND 1 = 0" "(b OR 2) AND 1 = b AND 1" "(b OR 4) AND 1 = b AND 1" "(b OR 1) AND 1 = 1" "((b AND - 2) OR 2) AND 1 = 0"
proof -
  have n: "- 2 = NOT (1 :: u32)" by simp
  show "(b AND - 2) AND 1 = 0" "((b AND - 2) OR 2) AND 1 = 0"
    unfolding n by (rule bit_word_eqI; auto simp: bit_simps)+
qed (rule bit_word_eqI; auto simp: bit_simps)+

lemma wifi_and_clear: "(b AND NOT msk) AND w \<noteq> 0 \<Longrightarrow> b AND w \<noteq> (0 :: u32)"
  by (metis and.commute and.left_commute word_bw_same(1) and_zero_eq)

lemma wifi_inv_call [simp, inv_intros]: "wifi_inv (wifi_call c s) = wifi_inv s"
  by (simp add: wifi_inv_def wifi_call_def)

lemma wifi_inv_clear [inv_intros]: "wifi_inv s \<Longrightarrow> wifi_inv (wifi_clear_bits msk s)"
  by (auto simp: wifi_inv_def wifi_clear_bits_def dest!: wifi_and_clear)

lemma wifi_inv_prov [inv_intros]: "wifi_inv s \<Longrightarrow> wifi_inv (wifi_set_bits WIFI_PROV_DONE_BIT s)"
  by (auto simp: wifi_inv_def wifi_set_bits_def WIFI_PROV_DONE_BIT_def WIFI_CONNECTED_BIT_def wifi_bit_facts)

lemma wifi_backoffs_double: "b \<in> wifi_backoffs \<Longrightarrow> b < 32000 \<Longrightarrow> b * 2 \<in> wifi_backoffs"
  by (auto simp: wifi_backoffs_def)

lemma wifi_inv_disconnected: "wifi_inv s \<Longrightarrow> wifi_inv (wifi_disconnected env s)"
  by (auto simp: wifi_inv_def wifi_disconnected_def wifi_set_bits_def wifi_clear_bits_def wifi_call_def Let_def
    WIFI_FAIL_BIT_def WIFI_CONNECTED_BIT_def wifi_bit_facts wifi_backoffs_double)

lemma wifi_inv_got_ip: "wifi_inv (wifi_set_bits WIFI_CONNECTED_BIT (s\<lparr>wm_connected := True, wm_backoff_ms := 1000\<rparr>))"
  by (auto simp: wifi_inv_def wifi_set_bits_def wifi_backoffs_def)

lemma wifi_inv_deliver [inv_intros]: "wifi_inv s \<Longrightarrow> wifi_inv (wifi_deliver env i s)"
  by (cases i) (auto simp: wifi_deliver_def Let_def wifi_reconnect_timer_cb_def wifi_inv_disconnected wifi_inv_got_ip wifi_inv_prov)

lemma wifi_inv_delivers [inv_intros]: "wifi_inv s \<Longrightarrow> wifi_inv (fold (wifi_deliver env) is s)"
  by (induction "is" arbitrary: s) (auto intro: wifi_inv_deliver)

lemma wifi_inv_flags [simp]:
  "wifi_inv (s\<lparr>wm_force_reprovision := f\<rparr>) = wifi_inv s" "wifi_inv (s\<lparr>wm_netif_initialized := f\<rparr>) = wifi_inv s"
  "wifi_inv (s\<lparr>wm_reconnect_timer := f\<rparr>) = wifi_inv s"
  by (simp_all add: wifi_inv_def)

text \<open>The rule for a wait: what the environment's inputs and the exit of the wait keep.\<close>

lemma wifi_wait_rule:
  assumes "wifi_wait_bits env msk limited s = Some r" "I s"
    and "\<And>s input. I s \<Longrightarrow> we_next env (wm_log s) = Some input \<Longrightarrow> I (wifi_deliver env input s)"
  shows "\<exists>s'. I s' \<and> fst r = the (wm_event_group s') \<and>
    (if fst r AND msk \<noteq> 0 then snd r = wifi_clear_bits msk s'
     else limited \<and> we_next env (wm_log s') = None \<and> snd r = wifi_call BlockTimeExpired s')"
proof -
  let ?P = "\<lambda>env' msk' limited' s r. env' = env \<longrightarrow> I s \<longrightarrow> (\<exists>s'. I s' \<and> fst r = the (wm_event_group s') \<and>
    (if fst r AND msk' \<noteq> 0 then snd r = wifi_clear_bits msk' s'
     else limited' \<and> we_next env (wm_log s') = None \<and> snd r = wifi_call BlockTimeExpired s'))"
  have "?P env msk limited s r"
  proof (rule wifi_wait_bits.raw_induct [where P = ?P, OF _ assms(1)])
    fix f :: "wifi_env \<Rightarrow> u32 \<Rightarrow> bool \<Rightarrow> wifi_manager \<Rightarrow> (u32 \<times> wifi_manager) option" and env' msk limited s r
    assume IH: "\<And>env' msk limited s r. f env' msk limited s = Some r \<Longrightarrow> ?P env' msk limited s r"
      and eq: "(let bits = the (wm_event_group s) in
         if bits AND msk \<noteq> 0 then Some (bits, wifi_clear_bits msk s)
         else case we_next env' (wm_log s) of
           None \<Rightarrow> if limited then Some (bits, wifi_call BlockTimeExpired s) else None
         | Some input \<Rightarrow> f env' msk limited (wifi_deliver env' input s)) = Some r"
    show "?P env' msk limited s r"
    proof (intro impI)
      assume e: "env' = env" and I: "I s"
      let ?b = "the (wm_event_group s)"
      show "\<exists>s'. I s' \<and> fst r = the (wm_event_group s') \<and>
        (if fst r AND msk \<noteq> 0 then snd r = wifi_clear_bits msk s'
         else limited \<and> we_next env (wm_log s') = None \<and> snd r = wifi_call BlockTimeExpired s')"
      proof (cases "?b AND msk \<noteq> 0 \<or> we_next env (wm_log s) = None")
        case True
        with eq I e show ?thesis by (intro exI [of _ s]) (auto simp: Let_def split: if_splits)
      next
        case False
        then obtain i where i: "we_next env (wm_log s) = Some i" by auto
        with False eq e have "f env msk limited (wifi_deliver env i s) = Some r" by (auto simp: Let_def)
        from IH [OF this] assms(3) [OF I i] show ?thesis by blast
      qed
    qed
  qed
  with assms(2) show ?thesis by blast
qed

lemma wifi_inv_wait:
  assumes "wifi_wait_bits env msk limited s = Some (bits, s')" "wifi_inv s"
  shows "wifi_inv s'"
  using wifi_wait_rule [OF assms(1), of wifi_inv, OF assms(2) wifi_inv_deliver] by (auto intro: inv_intros split: if_splits)

text \<open>Start-up keeps the invariant, and returns success only in a state that is connected.\<close>

lemma wifi_inv_do: "wifi_do env c s = (err, s') \<Longrightarrow> wifi_inv s' = wifi_inv s"
  by (auto simp: wifi_do_def)

definition wifi_good :: "wifi_outcome \<times> wifi_manager \<Rightarrow> bool" where
  "wifi_good r \<longleftrightarrow> wifi_inv (snd r) \<and> (fst r = Returned ESP_OK \<longrightarrow> wm_connected (snd r))"

text \<open>The invariant of a state whose event group exists.\<close>

definition wifi_ok :: "wifi_manager \<Rightarrow> bool" where
  "wifi_ok s \<longleftrightarrow> wifi_inv s \<and> wm_event_group s \<noteq> None"

lemma wifi_group_deliver: "(wm_event_group (wifi_deliver env i s) = None) = (wm_event_group s = None)"
  by (cases i) (auto simp: wifi_deliver_def Let_def wifi_call_def wifi_set_bits_def wifi_clear_bits_def
    wifi_disconnected_def wifi_reconnect_timer_cb_def)

lemma wifi_ok_steps [inv_intros]:
  "wifi_ok s \<Longrightarrow> wifi_ok (wifi_deliver env i s)" "wifi_ok s \<Longrightarrow> wifi_ok (wifi_clear_bits msk s)"
  "wifi_ok s \<Longrightarrow> wifi_ok (wifi_set_bits WIFI_PROV_DONE_BIT s)" "wifi_ok s \<Longrightarrow> wifi_ok (s\<lparr>wm_force_reprovision := f\<rparr>)"
  by (auto simp: wifi_ok_def wifi_inv_deliver wifi_inv_clear wifi_inv_prov wifi_group_deliver)
    (auto simp: wifi_clear_bits_def wifi_set_bits_def)

lemma wifi_ok_call [simp]: "wifi_ok (wifi_call c s) = wifi_ok s"
  by (simp add: wifi_ok_def) (simp add: wifi_call_def)

lemma wifi_ok_delivers [inv_intros]: "wifi_ok s \<Longrightarrow> wifi_ok (fold (wifi_deliver env) is s)"
  by (induction "is" arbitrary: s) (auto intro: wifi_ok_steps)

lemma wifi_ok_do: "wifi_do env c s = (err, s') \<Longrightarrow> wifi_ok s' = wifi_ok s"
  by (auto simp: wifi_do_def)

lemma wifi_ok_wait:
  assumes "wifi_wait_bits env msk limited s = Some (bits, s')" "wifi_ok s"
  shows "wifi_ok s'" "bits AND WIFI_CONNECTED_BIT \<noteq> 0 \<Longrightarrow> wm_connected s'"
proof -
  obtain s1 where s1: "wifi_ok s1" "the (wm_event_group s1) = bits"
    and s': "s' = wifi_clear_bits msk s1 \<or> s' = wifi_call BlockTimeExpired s1"
    using wifi_wait_rule [OF assms(1), of wifi_ok, OF assms(2) wifi_ok_steps(1)] by (auto split: if_splits)
  from s1 s' show "wifi_ok s'" by (auto intro: inv_intros)
  show "wm_connected s'" if "bits AND WIFI_CONNECTED_BIT \<noteq> 0"
    using s1 s' that by (auto simp: wifi_ok_def wifi_inv_def wifi_clear_bits_def wifi_call_def)
qed

lemma wifi_connect_loop_good:
  assumes "wifi_connect_loop env config attempts s = Some r" "wifi_ok s"
  shows "wifi_good r"
proof -
  let ?P = "\<lambda>env config attempts s r. wifi_ok s \<longrightarrow> wifi_good r"
  have "?P env config attempts s r"
  proof (rule wifi_connect_loop.raw_induct [where P = ?P, OF _ assms(1)])
    fix f :: "wifi_env \<Rightarrow> wifi_manager_config_t \<Rightarrow> u32 \<Rightarrow> wifi_manager \<Rightarrow> (wifi_outcome \<times> wifi_manager) option"
      and env config attempts s r
    assume IH: "\<And>env config attempts s r. f env config attempts s = Some r \<Longrightarrow> ?P env config attempts s r"
      and eq: "(case wifi_wait_bits env (WIFI_CONNECTED_BIT OR WIFI_FAIL_BIT) (wcf_connect_timeout_ms config \<noteq> 0) s of
        None \<Rightarrow> None
      | Some (bits, s) \<Rightarrow>
          if bits AND WIFI_CONNECTED_BIT \<noteq> 0 then Some (Returned ESP_OK, s)
          else
            let counted = (bits = 0 \<or> bits AND WIFI_FAIL_BIT \<noteq> 0);
                s = (if bits = 0 then wifi_call WifiConnect (wifi_call WifiDisconnect s) else s);
                attempts = (if counted then attempts + 1 else attempts)
            in if counted \<and> wcf_max_connect_attempts config \<noteq> 0 \<and> attempts \<ge> ucast (wcf_max_connect_attempts config)
               then Some (Returned ESP_ERR_TIMEOUT, s)
               else f env config attempts s) = Some r"
    show "?P env config attempts s r"
    proof (intro impI)
      assume inv: "wifi_ok s"
      obtain bits s1 where w: "wifi_wait_bits env (WIFI_CONNECTED_BIT OR WIFI_FAIL_BIT) (wcf_connect_timeout_ms config \<noteq> 0) s = Some (bits, s1)"
        using eq by (auto split: option.splits)
      note s1 = wifi_ok_wait [OF w inv]
      from s1(1) have "wifi_inv s1" by (simp add: wifi_ok_def)
      with s1 show "wifi_good r" using eq
        by (auto simp: w Let_def wifi_good_def split: if_splits dest!: IH)
    qed
  qed
  with assms(2) show ?thesis by blast
qed

lemma wifi_connect_good:
  assumes "wifi_connect env config s = Some r" "wifi_ok s"
  shows "wifi_good r"
proof -
  have stop: "wifi_good (Aborted err, s')" if "wifi_ok s'" for err s' using that by (simp add: wifi_good_def wifi_ok_def)
  show ?thesis
    using assms
    by (auto simp: wifi_connect_def wifi_do_def Let_def stop intro!: wifi_ok_steps wifi_ok_delivers split: if_splits prod.splits
      dest!: wifi_connect_loop_good)
qed

lemma wifi_provision_ok:
  assumes "wifi_provision env config s = Some (stop, s')" "wifi_ok s"
  shows "wifi_ok s' \<and> stop \<noteq> Some (Returned ESP_OK)"
proof -
  have "wifi_ok (wifi_clear_bits (WIFI_PROV_DONE_BIT OR WIFI_CONNECTED_BIT OR WIFI_FAIL_BIT) s)"
    using assms(2) by (rule wifi_ok_steps)
  then show ?thesis
    using assms(1)
    by (auto simp: wifi_provision_def wifi_set_username_def Let_def wifi_ok_do split: if_splits option.splits prod.splits
      dest!: wifi_ok_wait(1) intro: wifi_ok_steps)
qed

lemma wifi_prepare_inv: "wifi_manager_prepare_provisioning env arg s = (r, s') \<Longrightarrow> wifi_inv s' = wifi_inv s"
  by (auto simp: wifi_manager_prepare_provisioning_def wifi_manager_prov_mgr_init_def wifi_do_def split: option.splits if_splits)

lemma wifi_start_station_good:
  assumes "wifi_start_station env config s = Some r" "wifi_inv s"
  shows "wifi_good r"
proof -
  have stop: "wifi_good (Aborted err, s')" if "wifi_inv s'" for err s' using that by (simp add: wifi_good_def)
  obtain e ble s1 where p: "wifi_manager_prepare_provisioning env (Some config) s = ((e, ble), s1)" by (metis prod.exhaust)
  have s1: "wifi_inv s1" using wifi_prepare_inv [OF p] assms(2) by simp
  obtain e2 s2 where q: "wifi_do env ProvIsProvisioned s1 = (e2, s2)" by fastforce
  have s2: "wifi_inv s2" using wifi_inv_do [OF q] s1 by simp
  have conn: "wifi_good r" if "wifi_connect env config s3 = Some r" "wifi_ok s3" for s3 using that by (rule wifi_connect_good)
  have prov: "wifi_good r"
    if "(case wifi_provision env config s2 of None \<Rightarrow> None | Some (Some stop, s) \<Rightarrow> Some (stop, s)
      | Some (None, s) \<Rightarrow> wifi_connect env config s) = Some r" "wifi_ok s2"
  proof -
    have "wifi_provision env config s2 \<noteq> None" using that(1) by (cases "wifi_provision env config s2") auto
    then obtain stop s3 where pr: "wifi_provision env config s2 = Some (stop, s3)" by force
    from wifi_provision_ok [OF pr that(2)] that(1) conn show ?thesis
      by (auto simp: pr wifi_good_def wifi_ok_def split: option.splits)
  qed
  have "wifi_ok s2 = (wm_event_group s2 \<noteq> None)" using s2 by (simp add: wifi_ok_def)
  with assms(1) s1 s2 conn prov show ?thesis
    by (auto simp: wifi_start_station_def p q Let_def stop intro: wifi_ok_steps split: if_splits)
qed

lemma wifi_start_driver_inv:
  assumes "wifi_start_driver env s = (stop, s')" "wifi_inv s"
  shows "wifi_inv s' \<and> stop \<noteq> Some (Returned ESP_OK)"
proof -
  have group: "wifi_inv (wifi_create_timer env (wifi_create_group env s))" if "wifi_inv s" for s
    using that by (simp add: wifi_create_timer_def wifi_create_group_def wifi_inv_def wifi_call_def)
  have nvs: "wifi_inv s'" if "init_nvs_secure env s = (r, s')" for r s'
    using that assms(2)
    by (auto simp: init_nvs_secure_def init_nvs_keys_def init_nvs_erase_def wifi_do_def split: if_splits sum.splits prod.splits)
  have netif: "wifi_inv s'" if "ensure_netif env s = (r, s')" "wifi_inv s" for r s s'
    using that by (auto simp: ensure_netif_def wifi_do_def split: if_splits)
  have reg: "wifi_inv s' \<and> stop \<noteq> Some (Returned ESP_OK)" if "wifi_register_handlers env s = (stop, s')" "wifi_inv s" for stop s s'
    using that by (auto simp: wifi_register_handlers_def wifi_do_def split: if_splits)
  have stopped: "stopped_by r \<noteq> Some (Returned ESP_OK)" for r by (auto simp: stopped_by_def split: wifi_outcome.splits)
  show ?thesis
    using assms(1) stopped
    by (auto simp: wifi_start_driver_def wifi_do_def split: prod.splits option.splits if_splits
      dest!: nvs netif reg intro: group)
qed

lemma wifi_start_good: "wifi_manager_start env arg s = Some r \<Longrightarrow> wifi_inv s \<Longrightarrow> wifi_good r"
  by (auto simp: wifi_manager_start_def split: option.splits prod.splits dest!: wifi_start_driver_inv wifi_start_station_good)
    (auto simp: wifi_good_def)

lemma wifi_reachable_inv: "wifi_reachable env s \<Longrightarrow> wifi_inv s"
proof (induction rule: wifi_reachable.induct)
  case reset
  show ?case by (simp add: wifi_inv_def wifi_manager_reset_state_def wifi_backoffs_def)
next
  case (input s i)
  show ?case by (rule wifi_inv_deliver [OF input.IH])
next
  case (started s arg r s')
  from wifi_start_good [OF started.hyps(2) started.IH] show ?case by (simp add: wifi_good_def)
next
  case (reprovision s)
  then show ?case by (simp add: wifi_manager_request_reprovision_def)
qed

text \<open>
  C22.Every state of the Wi-Fi manager, after any order of starts, inputs and requests, has one
  of the six reconnection delays from 1 s to 32 s, and the first of them while it is connected;
  a start that returns success does so in a connected state.
\<close>

theorem wifi_reachable_sound:
  assumes "wifi_reachable env s"
  shows "wm_backoff_ms s \<in> {1000, 2000, 4000, 8000, 16000, 32000} \<and> (wm_connected s \<longrightarrow> wm_backoff_ms s = 1000) \<and>
    (\<forall>arg s'. wifi_manager_start env arg s = Some (Returned ESP_OK, s') \<longrightarrow> wifi_manager_is_connected s')"
  using wifi_reachable_inv [OF assms] wifi_start_good [OF _ wifi_reachable_inv [OF assms]]
  by (fastforce simp: wifi_inv_def wifi_backoffs_def wifi_good_def wifi_manager_is_connected_def)

text \<open>A silent environment in which every call succeeds, with credentials stored or not.\<close>

definition demo_wifi_env :: "bool \<Rightarrow> wifi_env" where
  "demo_wifi_env stored = \<lparr>we_result = \<lambda>_ _. ESP_OK, we_made = \<lambda>_ _. True, we_timer_active = \<lambda>_. False,
     we_provisioned = \<lambda>_. stored, we_mac = [0, 0, 0, 0xAB, 0xCD, 0xEF], we_early = \<lambda>_. [],
     we_next = \<lambda>evs. if Delivered ProvCredSuccess \<in> set evs then None else Some ProvCredSuccess\<rparr>"

definition demo_wifi_cfg :: wifi_manager_config_t where
  "demo_wifi_cfg = \<lparr>wcf_power_save = False, wcf_service_name_suffix = None, wcf_pop = None, wcf_service_key = None,
     wcf_prefer_ble = True, wcf_force_provisioning = False, wcf_provisioning_timeout_ms = 0, wcf_connect_timeout_ms = 15000,
     wcf_max_connect_attempts = 1,
     wcf_sec2_params = Some \<lparr>sec2_salt = Some [1], sec2_salt_len = 1, sec2_verifier = Some [2], sec2_verifier_len = 1\<rparr>,
     wcf_sec2_username = None\<rparr>"

theorem wifi_reachable_sound_witness:
  "wm_backoff_ms (wifi_deliver (demo_wifi_env True) StaDisconnected wifi_manager_reset_state) \<in> {1000, 2000, 4000, 8000, 16000, 32000}"
  using wifi_reachable_sound [OF wifi_reachable.input [OF wifi_reachable.reset], of "demo_wifi_env True" StaDisconnected] by blast

section \<open>The number of attempts\<close>

text \<open>
  Without an input, a wait whose bits are clear ends when its block time expires, or never.
\<close>

lemma wifi_wait_silent:
  assumes "we_next env (wm_log s) = None" "the (wm_event_group s) AND msk = 0"
  shows "wifi_wait_bits env msk limited s = (if limited then Some (the (wm_event_group s), wifi_call BlockTimeExpired s) else None)"
  using assms by (simp add: wifi_wait_bits.simps)

lemma wifi_connect_loop_stuck:
  assumes "\<And>evs. we_next env evs = None" "wm_event_group s = Some WIFI_PROV_DONE_BIT"
  shows "wifi_connect_loop env config attempts s = None"
proof (rule ccontr)
  assume "wifi_connect_loop env config attempts s \<noteq> None"
  then obtain r where ret: "wifi_connect_loop env config attempts s = Some r" by auto
  let ?P = "\<lambda>env' config attempts s r. env' = env \<longrightarrow> wm_event_group s \<noteq> Some WIFI_PROV_DONE_BIT"
  have "?P env config attempts s r"
  proof (rule wifi_connect_loop.raw_induct [where P = ?P, OF _ ret])
    fix f :: "wifi_env \<Rightarrow> wifi_manager_config_t \<Rightarrow> u32 \<Rightarrow> wifi_manager \<Rightarrow> (wifi_outcome \<times> wifi_manager) option"
      and env' config attempts s r
    assume IH: "\<And>env' config attempts s r. f env' config attempts s = Some r \<Longrightarrow> ?P env' config attempts s r"
      and eq: "(case wifi_wait_bits env' (WIFI_CONNECTED_BIT OR WIFI_FAIL_BIT) (wcf_connect_timeout_ms config \<noteq> 0) s of
        None \<Rightarrow> None
      | Some (bits, s) \<Rightarrow>
          if bits AND WIFI_CONNECTED_BIT \<noteq> 0 then Some (Returned ESP_OK, s)
          else
            let counted = (bits = 0 \<or> bits AND WIFI_FAIL_BIT \<noteq> 0);
                s = (if bits = 0 then wifi_call WifiConnect (wifi_call WifiDisconnect s) else s);
                attempts = (if counted then attempts + 1 else attempts)
            in if counted \<and> wcf_max_connect_attempts config \<noteq> 0 \<and> attempts \<ge> ucast (wcf_max_connect_attempts config)
               then Some (Returned ESP_ERR_TIMEOUT, s)
               else f env' config attempts s) = Some r"
    show "?P env' config attempts s r"
    proof (intro impI notI)
      assume e: "env' = env" and g: "wm_event_group s = Some WIFI_PROV_DONE_BIT"
      have b: "WIFI_PROV_DONE_BIT AND (WIFI_CONNECTED_BIT OR WIFI_FAIL_BIT) = 0" "WIFI_PROV_DONE_BIT AND WIFI_CONNECTED_BIT = 0"
        "WIFI_PROV_DONE_BIT AND WIFI_FAIL_BIT = 0" "WIFI_PROV_DONE_BIT \<noteq> 0"
        by (simp_all add: WIFI_PROV_DONE_BIT_def WIFI_CONNECTED_BIT_def WIFI_FAIL_BIT_def)
      have "f env config attempts (wifi_call BlockTimeExpired s) = Some r"
        using eq by (simp add: e wifi_wait_silent assms(1) g b split: if_splits)
      from IH [OF this] show False by (simp add: g wifi_call_def)
    qed
  qed
  with assms(2) show False by simp
qed

text \<open>A start in which every call of the platform succeeds, up to the choice of provisioning.\<close>

definition wifi_platform_ok :: "wifi_env \<Rightarrow> bool" where
  "wifi_platform_ok env \<longleftrightarrow> (\<forall>evs c. we_result env evs c = ESP_OK \<and> we_made env evs c) \<and> (\<forall>evs. we_early env evs = [])"

lemma wifi_start_to_station:
  assumes "wifi_platform_ok env" "wm_event_group s = None \<or> wm_event_group s = Some 0"
  obtains s1 where "wifi_manager_start env (Some config) s = wifi_start_station env config s1"
    "wm_event_group s1 = Some 0" "wm_force_reprovision s1 = wm_force_reprovision s"
proof -
  have r: "we_result env evs c = ESP_OK" "we_made env evs c" for evs c using assms(1) by (auto simp: wifi_platform_ok_def)
  show thesis
    using assms(2)
    by (intro that [of "snd (wifi_start_driver env s)"])
      (auto simp: wifi_manager_start_def wifi_start_driver_def init_nvs_secure_def init_nvs_keys_def init_nvs_erase_def
        wifi_do_def stopped_by_def ensure_netif_def wifi_register_handlers_def wifi_create_timer_def wifi_create_group_def
        r wifi_call_def split: prod.split)
qed

lemma wifi_prepare_platform_ok:
  "wifi_platform_ok env \<Longrightarrow> sec2_usable (wcf_sec2_params config) \<Longrightarrow>
    wifi_manager_prepare_provisioning env (Some config) s =
      ((ESP_OK, wcf_prefer_ble config), wifi_call (ProvMgrInit (if wcf_prefer_ble config then SchemeBle else SchemeSoftap)) s)"
  by (auto simp: wifi_manager_prepare_provisioning_def wifi_manager_prov_mgr_init_def wifi_do_def wifi_platform_ok_def)

text \<open>
  C23.With stored credentials the bound on connection attempts is not effective. When the
  platform works and no input arrives, as with an access point out of reach that reports
  nothing, \<^verbatim>\<open>wifi_manager_start\<close> never returns, whatever the connection timeout and the maximal
  number of attempts are: the stored-credentials path leaves \<^verbatim>\<open>WIFI_PROV_DONE_BIT\<close> set, so that
  the bits of an expired wait are not 0 and the attempt is neither counted nor repeated.
\<close>

theorem wifi_start_stored_never_gives_up:
  assumes "wifi_platform_ok env" "\<And>evs. we_next env evs = None" "\<And>evs. we_provisioned env evs"
    and "sec2_usable (wcf_sec2_params config)" "\<not> wcf_force_provisioning config"
  shows "wifi_manager_start env (Some config) wifi_manager_reset_state = None"
proof -
  obtain s1 where start: "wifi_manager_start env (Some config) wifi_manager_reset_state = wifi_start_station env config s1"
    and s1: "wm_event_group s1 = Some 0" "\<not> wm_force_reprovision s1"
    using wifi_start_to_station [OF assms(1), of wifi_manager_reset_state config] by (auto simp: wifi_manager_reset_state_def)
  have r: "we_result env evs c = ESP_OK" "we_early env evs = []" for evs c using assms(1) by (auto simp: wifi_platform_ok_def)
  have stuck: "wifi_connect env config (wifi_set_bits WIFI_PROV_DONE_BIT s2) = None" if "wm_event_group s2 = Some 0" for s2
    unfolding wifi_connect_def wifi_do_def r
    by (simp add: r that wifi_call_def wifi_set_bits_def wifi_clear_bits_def WIFI_PROV_DONE_BIT_def WIFI_CONNECTED_BIT_def WIFI_FAIL_BIT_def
      wifi_connect_loop_stuck [OF assms(2), unfolded WIFI_PROV_DONE_BIT_def])
  show ?thesis
    unfolding start wifi_start_station_def wifi_prepare_platform_ok [OF assms(1,4)] wifi_do_def r
    using s1 assms(3,5) stuck by (simp add: wifi_call_def)
qed

definition silent_wifi_env :: wifi_env where
  "silent_wifi_env = (demo_wifi_env True)\<lparr>we_next := \<lambda>_. None\<rparr>"

theorem wifi_start_stored_never_gives_up_witness:
  "wifi_manager_start silent_wifi_env (Some demo_wifi_cfg) wifi_manager_reset_state = None"
  by (rule wifi_start_stored_never_gives_up)
    (simp_all add: silent_wifi_env_def demo_wifi_env_def demo_wifi_cfg_def wifi_platform_ok_def sec2_usable_def)

text \<open>
  An environment whose inputs pause: some block time expires. After the provisioning manager
  is released it reports nothing more.
\<close>

fun wifi_silent_after :: "wifi_env \<Rightarrow> nat \<Rightarrow> wifi_manager \<Rightarrow> bool" where
  "wifi_silent_after env 0 s = (we_next env (wm_log s) = None)"
| "wifi_silent_after env (Suc n) s =
     (case we_next env (wm_log s) of None \<Rightarrow> True | Some i \<Rightarrow> wifi_silent_after env n (wifi_deliver env i s))"

definition wifi_settles :: "wifi_env \<Rightarrow> bool" where
  "wifi_settles env \<longleftrightarrow> (\<forall>s. \<exists>n. wifi_silent_after env n s) \<and>
     (\<forall>evs. ProvDeinit \<in> set evs \<longrightarrow> we_next env evs \<noteq> Some ProvCredSuccess \<and> ProvCredSuccess \<notin> set (we_early env evs))"

lemma wifi_wait_returns: "wifi_silent_after env n s \<Longrightarrow> \<exists>r. wifi_wait_bits env msk True s = Some r"
proof (induction n arbitrary: s)
  case 0
  then show ?case by (simp add: wifi_wait_bits.simps [of env msk True s] Let_def)
next
  case (Suc n)
  then show ?case by (auto simp: wifi_wait_bits.simps [of env msk True s] Let_def split: option.splits)
qed

text \<open>Only the bits of \<open>msk\<close> are set.\<close>

definition wifi_bits_in :: "u32 \<Rightarrow> wifi_manager \<Rightarrow> bool" where
  "wifi_bits_in msk s \<longleftrightarrow> (\<forall>bits. wm_event_group s = Some bits \<longrightarrow> bits AND NOT msk = 0)"

lemma wifi_bits_in_call [simp]: "wifi_bits_in msk (wifi_call c s) = wifi_bits_in msk s"
  by (simp add: wifi_bits_in_def wifi_call_def)

lemma wifi_bits_in_clear: "wifi_bits_in msk s \<Longrightarrow> wifi_bits_in msk (wifi_clear_bits m s)"
proof -
  have "(b AND NOT m) AND NOT msk = 0" if "b AND NOT msk = 0" for b :: u32
    using that by (metis and.commute and.left_commute and_zero_eq)
  then show "wifi_bits_in msk s \<Longrightarrow> ?thesis" by (auto simp: wifi_bits_in_def wifi_clear_bits_def)
qed

lemma wifi_bits_in_cleared: "wifi_bits_in msk s \<Longrightarrow> wifi_bits_in (msk AND NOT m) (wifi_clear_bits m s)"
proof -
  have "(b AND NOT m) AND NOT (msk AND NOT m) = 0" if "b AND NOT msk = 0" for b :: u32
  proof (rule bit_word_eqI)
    fix n assume "n < LENGTH(32)"
    have "bit (b AND NOT msk) n = bit (0 :: u32) n" using that by simp
    then show "bit ((b AND NOT m) AND NOT (msk AND NOT m)) n = bit (0 :: u32) n" by (auto simp: bit_simps)
  qed
  then show "wifi_bits_in msk s \<Longrightarrow> ?thesis" by (auto simp: wifi_bits_in_def wifi_clear_bits_def)
qed

lemma wifi_bits_in_set: "wifi_bits_in msk s \<Longrightarrow> m AND NOT msk = 0 \<Longrightarrow> wifi_bits_in msk (wifi_set_bits m s)"
proof -
  have "(b OR m) AND NOT msk = 0" if "b AND NOT msk = 0" "m AND NOT msk = 0" for b :: u32
    using that by (simp add: bit.conj_disj_distrib2)
  then show "wifi_bits_in msk s \<Longrightarrow> m AND NOT msk = 0 \<Longrightarrow> ?thesis" by (auto simp: wifi_bits_in_def wifi_set_bits_def)
qed

lemma wifi_bits_in_cong: "wm_event_group s = wm_event_group s' \<Longrightarrow> wifi_bits_in msk s = wifi_bits_in msk s'"
  by (simp add: wifi_bits_in_def)

lemma wifi_bits_in_deliver:
  assumes "wifi_bits_in msk s" "WIFI_FAIL_BIT AND NOT msk = 0" "WIFI_CONNECTED_BIT AND NOT msk = 0"
    and "i = ProvCredSuccess \<Longrightarrow> WIFI_PROV_DONE_BIT AND NOT msk = 0"
  shows "wifi_bits_in msk (wifi_deliver env i s)"
proof -
  let ?s = "wifi_call (Delivered i) s"
  have s: "wifi_bits_in msk ?s" using assms(1) by simp
  have "wifi_bits_in msk (wifi_disconnected env ?s)"
  proof -
    have "wifi_bits_in msk (wifi_set_bits WIFI_FAIL_BIT (wifi_clear_bits WIFI_CONNECTED_BIT (?s\<lparr>wm_connected := False\<rparr>)))"
      by (intro wifi_bits_in_set wifi_bits_in_clear assms(2)) (use s in \<open>simp add: wifi_bits_in_def\<close>)
    then show ?thesis
      by (rule iffD1 [OF wifi_bits_in_cong, rotated]) (simp add: wifi_disconnected_def Let_def wifi_call_def)
  qed
  moreover have "wifi_bits_in msk (wifi_set_bits WIFI_CONNECTED_BIT (?s\<lparr>wm_connected := True, wm_backoff_ms := 1000\<rparr>))"
    by (intro wifi_bits_in_set assms(3)) (use s in \<open>simp add: wifi_bits_in_def\<close>)
  ultimately show ?thesis
    using s assms(4) wifi_bits_in_set [OF s, of WIFI_PROV_DONE_BIT]
    by (cases i) (auto simp: wifi_deliver_def wifi_reconnect_timer_cb_def)
qed

lemma wifi_deliver_log: "\<exists>new. wm_log (wifi_deliver env i s) = new @ wm_log s \<and> BlockTimeExpired \<notin> set new"
  by (cases i) (auto simp: wifi_deliver_def wifi_call_def wifi_reconnect_timer_cb_def wifi_disconnected_def wifi_set_bits_def
    wifi_clear_bits_def Let_def)

definition wifi_expired :: "wifi_manager \<Rightarrow> nat" where
  "wifi_expired s = length (filter (\<lambda>c. c = BlockTimeExpired) (wm_log s))"

lemma wifi_expired_deliver [simp]: "wifi_expired (wifi_deliver env i s) = wifi_expired s"
  using wifi_deliver_log [of env i s] by (auto simp: wifi_expired_def filter_empty_conv)

lemma wifi_expired_call: "wifi_expired (wifi_call c s) = (if c = BlockTimeExpired then Suc (wifi_expired s) else wifi_expired s)"
  by (simp add: wifi_expired_def wifi_call_def)

lemma wifi_deinit_deliver: "ProvDeinit \<in> set (wm_log s) \<Longrightarrow> ProvDeinit \<in> set (wm_log (wifi_deliver env i s))"
  using wifi_deliver_log [of env i s] by auto

text \<open>The state while the station connects after provisioning.\<close>

definition wifi_station :: "nat \<Rightarrow> wifi_manager \<Rightarrow> bool" where
  "wifi_station e s \<longleftrightarrow> wifi_bits_in (WIFI_CONNECTED_BIT OR WIFI_FAIL_BIT) s \<and> wm_event_group s \<noteq> None \<and>
     ProvDeinit \<in> set (wm_log s) \<and> wifi_expired s = e"

lemma wifi_station_deliver:
  "wifi_settles env \<Longrightarrow> wifi_station e s \<Longrightarrow> we_next env (wm_log s) = Some i \<or> i \<in> set (we_early env evs) \<and> ProvDeinit \<in> set evs \<Longrightarrow>
    wifi_station e (wifi_deliver env i s)"
  unfolding wifi_station_def wifi_settles_def
  by (auto simp: wifi_deinit_deliver wifi_group_deliver simp del: not_None_eq intro!: wifi_bits_in_deliver)
    (auto simp: WIFI_CONNECTED_BIT_def WIFI_FAIL_BIT_def)

lemma wifi_station_clear: "wifi_station e s \<Longrightarrow> wifi_station e (wifi_clear_bits msk s)"
  by (auto simp: wifi_station_def wifi_bits_in_clear) (auto simp: wifi_clear_bits_def wifi_expired_def)

lemma wifi_station_call: "wifi_station e s \<Longrightarrow> wifi_station (if c = BlockTimeExpired then Suc e else e) (wifi_call c s)"
  by (auto simp: wifi_station_def wifi_expired_call) (auto simp: wifi_call_def)

lemma wifi_and_split: "b AND m = 0 \<Longrightarrow> b AND NOT m = 0 \<Longrightarrow> b = (0 :: u32)"
proof -
  have "b = b AND (m OR NOT m)" by simp
  then show "b AND m = 0 \<Longrightarrow> b AND NOT m = 0 \<Longrightarrow> ?thesis" by (simp only: bit.conj_disj_distrib) simp
qed

lemma wifi_station_wait:
  assumes "wifi_settles env" "wifi_station e s"
  obtains bits s' where "wifi_wait_bits env (WIFI_CONNECTED_BIT OR WIFI_FAIL_BIT) True s = Some (bits, s')"
    "bits = 0 \<and> wifi_station (Suc e) s' \<or> bits AND (WIFI_CONNECTED_BIT OR WIFI_FAIL_BIT) \<noteq> 0 \<and> wifi_station e s'"
proof -
  let ?m = "WIFI_CONNECTED_BIT OR WIFI_FAIL_BIT"
  obtain n where "wifi_silent_after env n s" using assms(1) by (auto simp: wifi_settles_def)
  then obtain bits s' where w: "wifi_wait_bits env ?m True s = Some (bits, s')" using wifi_wait_returns by fastforce
  from wifi_wait_rule [OF w, of "wifi_station e", OF assms(2)] wifi_station_deliver [OF assms(1)]
  obtain s1 where s1: "wifi_station e s1" "bits = the (wm_event_group s1)"
    and s': "if bits AND ?m \<noteq> 0 then s' = wifi_clear_bits ?m s1 else s' = wifi_call BlockTimeExpired s1"
    by (auto split: if_splits)
  have low: "bits AND NOT ?m = 0" using s1 by (auto simp: wifi_station_def wifi_bits_in_def)
  have "bits = 0" if "bits AND ?m = 0" using that low by (rule wifi_and_split)
  with s' wifi_station_clear [OF s1(1)] wifi_station_call [OF s1(1), of BlockTimeExpired]
  show ?thesis by (intro that [OF w]) (auto split: if_splits)
qed

lemma wifi_connect_loop_returns:
  assumes "wifi_settles env" "wcf_connect_timeout_ms config \<noteq> 0"
    and "wifi_station e s" "unat attempts < unat (wcf_max_connect_attempts config)"
  shows "\<exists>r. wifi_connect_loop env config attempts s = Some r \<and>
    wifi_expired (snd r) + unat attempts \<le> e + unat (wcf_max_connect_attempts config)"
  using assms(3,4)
proof (induction "unat (wcf_max_connect_attempts config) - unat attempts" arbitrary: e s attempts rule: less_induct)
  case less
  let ?m = "WIFI_CONNECTED_BIT OR WIFI_FAIL_BIT" and ?mx = "wcf_max_connect_attempts config"
  obtain bits s1 where w: "wifi_wait_bits env ?m True s = Some (bits, s1)"
    and s1: "bits = 0 \<and> wifi_station (Suc e) s1 \<or> bits AND ?m \<noteq> 0 \<and> wifi_station e s1"
    using wifi_station_wait [OF assms(1) less.prems(1)] .
  have mx: "unat ?mx < 256" using unsigned_less [of ?mx, where 'a = nat] by simp
  have inc: "unat (attempts + 1) = Suc (unat attempts)"
    using less.prems(2) mx by (subst unat_plus_simple [THEN iffD1]) (auto simp: word_le_nat_alt unat_word_ariths)
  have le: "ucast ?mx \<le> attempts + 1 \<longleftrightarrow> unat ?mx \<le> Suc (unat attempts)"
    using mx by (simp add: word_le_nat_alt inc unsigned_ucast_eq take_bit_nat_eq_self)
  have expired: "wifi_expired s1 \<le> Suc e" using s1 by (auto simp: wifi_station_def)
  show ?case
  proof (cases "bits AND WIFI_CONNECTED_BIT \<noteq> 0")
    case True
    then show ?thesis using expired less.prems(2) assms(2) by (subst wifi_connect_loop.simps) (simp add: w)
  next
    case False
    define s2 where "s2 = (if bits = 0 then wifi_call WifiConnect (wifi_call WifiDisconnect s1) else s1)"
    have s2: "wifi_station (wifi_expired s1) s2"
      using s1 wifi_station_call [of "Suc e" s1 WifiDisconnect] wifi_station_call [of "Suc e" "wifi_call WifiDisconnect s1" WifiConnect]
      by (auto simp: s2_def wifi_station_def)
    have counted: "bits = 0 \<or> bits AND WIFI_FAIL_BIT \<noteq> 0" using s1 False by (auto simp: bit.conj_disj_distrib)
    have loop: "wifi_connect_loop env config attempts s =
      (if unat ?mx \<le> Suc (unat attempts) then Some (Returned ESP_ERR_TIMEOUT, s2) else wifi_connect_loop env config (attempts + 1) s2)"
      using False counted less.prems(2) assms(2)
      by (subst wifi_connect_loop.simps) (auto simp: w Let_def le s2_def)
    show ?thesis
    proof (cases "unat ?mx \<le> Suc (unat attempts)")
      case True
      have "wifi_expired s2 = wifi_expired s1" using s2 by (simp add: wifi_station_def)
      with loop True expired less.prems(2) show ?thesis by auto
    next
      case False
      then have "\<exists>r. wifi_connect_loop env config (attempts + 1) s2 = Some r \<and>
        wifi_expired (snd r) + unat (attempts + 1) \<le> wifi_expired s1 + unat ?mx"
        using less.hyps [OF _ s2, of "attempts + 1"] inc by auto
      with loop False inc expired show ?thesis by auto
    qed
  qed
qed

text \<open>The wait for the end of provisioning leaves only the bits of the station.\<close>

definition wifi_all_bits :: "wifi_manager \<Rightarrow> bool" where
  "wifi_all_bits s \<longleftrightarrow> wifi_bits_in 7 s \<and> wm_event_group s \<noteq> None"

lemma wifi_all_bits_deliver: "wifi_all_bits s \<Longrightarrow> wifi_all_bits (wifi_deliver env i s)"
  by (auto simp: wifi_all_bits_def wifi_group_deliver simp del: not_None_eq intro!: wifi_bits_in_deliver)
    (auto simp: WIFI_CONNECTED_BIT_def WIFI_FAIL_BIT_def WIFI_PROV_DONE_BIT_def)

lemma wifi_all_bits_do: "wifi_do env c s = (err, s') \<Longrightarrow> wifi_all_bits s' = wifi_all_bits s"
  by (auto simp: wifi_do_def wifi_all_bits_def wifi_bits_in_def wifi_call_def)

lemma wifi_provisioned_wait:
  assumes "wifi_settles env" "wifi_all_bits s"
  obtains bits s' where "wifi_wait_bits env WIFI_PROV_DONE_BIT True s = Some (bits, s')"
    "bits AND WIFI_PROV_DONE_BIT \<noteq> 0 \<Longrightarrow> wifi_bits_in (WIFI_CONNECTED_BIT OR WIFI_FAIL_BIT) s' \<and> wm_event_group s' \<noteq> None"
proof -
  obtain n where "wifi_silent_after env n s" using assms(1) by (auto simp: wifi_settles_def)
  then obtain bits s' where w: "wifi_wait_bits env WIFI_PROV_DONE_BIT True s = Some (bits, s')" using wifi_wait_returns by fastforce
  from wifi_wait_rule [OF w, of wifi_all_bits, OF assms(2) wifi_all_bits_deliver]
  obtain s1 where s1: "wifi_bits_in 7 s1" "wm_event_group s1 \<noteq> None"
    and s': "bits AND WIFI_PROV_DONE_BIT \<noteq> 0 \<longrightarrow> s' = wifi_clear_bits WIFI_PROV_DONE_BIT s1"
    by (auto simp: wifi_all_bits_def split: if_splits)
  have "wifi_bits_in (7 AND NOT WIFI_PROV_DONE_BIT) (wifi_clear_bits WIFI_PROV_DONE_BIT s1)"
    using s1(1) by (rule wifi_bits_in_cleared)
  moreover have "7 AND NOT WIFI_PROV_DONE_BIT = WIFI_CONNECTED_BIT OR WIFI_FAIL_BIT"
    by (simp add: WIFI_CONNECTED_BIT_def WIFI_FAIL_BIT_def WIFI_PROV_DONE_BIT_def)
  moreover have "wm_event_group (wifi_clear_bits WIFI_PROV_DONE_BIT s1) \<noteq> None"
    using s1(2) by (simp add: wifi_clear_bits_def)
  ultimately show ?thesis using s' by (intro that [OF w]) auto
qed

lemma wifi_provision_returns:
  assumes "wifi_settles env" "wcf_provisioning_timeout_ms config \<noteq> 0" "wifi_all_bits s"
  obtains stop s' where "wifi_provision env config s = Some (stop, s')"
    "stop = None \<Longrightarrow> wifi_bits_in (WIFI_CONNECTED_BIT OR WIFI_FAIL_BIT) s' \<and> wm_event_group s' \<noteq> None"
proof -
  let ?key = "case wcf_service_key config of Some k \<Rightarrow> k | None \<Rightarrow> ''provision''"
  define s0 where "s0 = wifi_clear_bits (WIFI_PROV_DONE_BIT OR WIFI_CONNECTED_BIT OR WIFI_FAIL_BIT) s"
  obtain err s1 where u: "wifi_set_username env config s0 = (err, s1)" by fastforce
  obtain err2 s2 where p: "wifi_do env (ProvStart (format_service_name env config 20) ?key (the (wcf_sec2_params config))) s1 = (err2, s2)"
    by fastforce
  have "wifi_all_bits s0" using assms(3) wifi_bits_in_clear by (auto simp: s0_def wifi_all_bits_def) (auto simp: wifi_clear_bits_def)
  then have "wifi_all_bits s1" using u by (auto simp: wifi_set_username_def wifi_all_bits_do split: option.splits)
  then have "wifi_all_bits s2" using wifi_all_bits_do [OF p] by simp
  from wifi_provisioned_wait [OF assms(1) this] obtain bits s3 where
    w: "wifi_wait_bits env WIFI_PROV_DONE_BIT True s2 = Some (bits, s3)"
    and s3: "bits AND WIFI_PROV_DONE_BIT \<noteq> 0 \<Longrightarrow> wifi_bits_in (WIFI_CONNECTED_BIT OR WIFI_FAIL_BIT) s3 \<and> wm_event_group s3 \<noteq> None"
    by blast
  have s3': "wifi_bits_in m (s3\<lparr>wm_force_reprovision := f\<rparr>) = wifi_bits_in m s3" for m f by (simp add: wifi_bits_in_def)
  show thesis
    using assms(2) s3
    by (cases "wifi_provision env config s") (auto simp: wifi_provision_def Let_def s0_def [symmetric] u p w s3' split: if_splits intro: that)
qed

lemma wifi_station_early:
  assumes "wifi_settles env" "ProvDeinit \<in> set evs"
  shows "set is \<subseteq> set (we_early env evs) \<Longrightarrow> wifi_station e s \<Longrightarrow> wifi_station e (fold (wifi_deliver env) is s)"
proof (induction "is" arbitrary: s)
  case (Cons i "is")
  then show ?case using wifi_station_deliver [OF assms(1) Cons.prems(2), of i evs] assms(2) by auto
qed simp

text \<open>At most the configured number of block times expires while the station connects.\<close>

lemma wifi_connect_returns:
  assumes "wifi_settles env" "wifi_bits_in (WIFI_CONNECTED_BIT OR WIFI_FAIL_BIT) s" "wm_event_group s \<noteq> None"
    and "wcf_connect_timeout_ms config \<noteq> 0" "wcf_max_connect_attempts config \<noteq> 0"
  shows "\<exists>r. wifi_connect env config s = Some r \<and> wifi_expired (snd r) \<le> wifi_expired s + unat (wcf_max_connect_attempts config)"
proof -
  let ?s1 = "wifi_call WifiStart (wifi_call (WifiSetPs (wcf_power_save config)) (wifi_call WifiSetMode (wifi_call ProvDeinit s)))"
  have "wifi_station (wifi_expired s) ?s1"
    using assms(2,3) by (auto simp: wifi_station_def wifi_expired_call) (auto simp: wifi_call_def)
  then have "wifi_station (wifi_expired s) (fold (wifi_deliver env) (we_early env (wm_log ?s1)) ?s1)"
    by (intro wifi_station_early [OF assms(1), of "wm_log ?s1"]) (auto simp: wifi_call_def)
  then have st: "wifi_station (wifi_expired s) (wifi_clear_bits (WIFI_CONNECTED_BIT OR WIFI_FAIL_BIT)
      (fold (wifi_deliver env) (we_early env (wm_log ?s1)) ?s1))" by (rule wifi_station_clear)
  have "unat (0 :: u32) < unat (wcf_max_connect_attempts config)" using assms(5) by (simp add: unat_gt_0)
  from wifi_connect_loop_returns [OF assms(1,4) st this]
  show ?thesis by (auto simp: wifi_connect_def wifi_do_def Let_def wifi_expired_call)
qed

lemma wifi_driver_bits: "wifi_start_driver env s = (stop, s') \<Longrightarrow> wifi_bits_in 7 s \<Longrightarrow> wifi_bits_in 7 s'"
proof -
  have nvs: "wifi_bits_in 7 s'" if "init_nvs_secure env s = (r, s')" "wifi_bits_in 7 s" for r s s'
    using that by (auto simp: init_nvs_secure_def init_nvs_keys_def init_nvs_erase_def wifi_do_def split: if_splits sum.splits prod.splits)
  have netif: "wifi_bits_in 7 s'" if "ensure_netif env s = (r, s')" "wifi_bits_in 7 s" for r s s'
    using that by (auto simp: ensure_netif_def wifi_do_def wifi_bits_in_def wifi_call_def split: if_splits)
  have made: "wifi_bits_in 7 (wifi_create_timer env (wifi_create_group env s))" if "wifi_bits_in 7 s" for s
    using that by (auto simp: wifi_create_timer_def wifi_create_group_def wifi_bits_in_def wifi_call_def)
  have reg: "wifi_bits_in 7 s'" if "wifi_register_handlers env s = (r, s')" "wifi_bits_in 7 s" for r s s'
    using that by (auto simp: wifi_register_handlers_def wifi_do_def split: if_splits)
  show "wifi_start_driver env s = (stop, s') \<Longrightarrow> wifi_bits_in 7 s \<Longrightarrow> ?thesis"
    by (auto simp: wifi_start_driver_def wifi_do_def split: prod.splits option.splits if_splits dest!: nvs netif reg intro: made)
qed

lemma wifi_start_station_returns:
  assumes "wifi_settles env" "\<And>evs. \<not> we_provisioned env evs" "wifi_bits_in 7 s"
    and "wcf_provisioning_timeout_ms config \<noteq> 0" "wcf_connect_timeout_ms config \<noteq> 0" "wcf_max_connect_attempts config \<noteq> 0"
  shows "\<exists>r. wifi_start_station env config s = Some r"
proof -
  obtain e ble s1 where p: "wifi_manager_prepare_provisioning env (Some config) s = ((e, ble), s1)" by (metis prod.exhaust)
  obtain e2 s2 where q: "wifi_do env ProvIsProvisioned s1 = (e2, s2)" by fastforce
  have "wifi_bits_in 7 s1"
    using p assms(3) by (auto simp: wifi_manager_prepare_provisioning_def wifi_manager_prov_mgr_init_def wifi_do_def split: if_splits)
  then have s2: "wifi_bits_in 7 s2" using q by (auto simp: wifi_do_def)
  show ?thesis
  proof (cases "wm_event_group s2 = None")
    case True
    then show ?thesis by (simp add: wifi_start_station_def p q Let_def)
  next
    case False
    with s2 have "wifi_all_bits s2" by (simp add: wifi_all_bits_def)
    from wifi_provision_returns [OF assms(1,4) this] obtain stop s3 where
      pr: "wifi_provision env config s2 = Some (stop, s3)"
      and s3: "stop = None \<Longrightarrow> wifi_bits_in (WIFI_CONNECTED_BIT OR WIFI_FAIL_BIT) s3 \<and> wm_event_group s3 \<noteq> None" by blast
    have "stop = None \<Longrightarrow> \<exists>r. wifi_connect env config s3 = Some r"
      using wifi_connect_returns [OF assms(1) _ _ assms(5,6), of s3] s3 by blast
    with False show ?thesis by (cases stop) (auto simp: wifi_start_station_def p q Let_def assms(2) pr)
  qed
qed

text \<open>
  When no credentials are stored the start ends. With a provisioning timeout, a connection
  timeout and a maximal number of attempts, and an environment whose inputs pause,
  \<^verbatim>\<open>wifi_manager_start\<close> returns or aborts, from every state whose event group holds only the
  bits of the manager.
\<close>

theorem wifi_start_fresh_ends:
  assumes "wifi_settles env" "\<And>evs. \<not> we_provisioned env evs" "wifi_bits_in 7 s"
    and "wcf_provisioning_timeout_ms config \<noteq> 0" "wcf_connect_timeout_ms config \<noteq> 0" "wcf_max_connect_attempts config \<noteq> 0"
  shows "\<exists>r. wifi_manager_start env (Some config) s = Some r"
proof (cases "wifi_start_driver env s")
  case (Pair stop s1)
  then have "wifi_bits_in 7 s1" using wifi_driver_bits assms(3) by blast
  then show ?thesis
    using Pair wifi_start_station_returns [OF assms(1,2) _ assms(4-6)]
    by (auto simp: wifi_manager_start_def split: option.split)
qed

lemma demo_wifi_settles: "wifi_settles ((demo_wifi_env False)\<lparr>we_next := \<lambda>evs. if ProvDeinit \<in> set evs \<or> Delivered ProvCredSuccess \<in> set evs
    then None else Some ProvCredSuccess\<rparr>)"
  unfolding wifi_settles_def
proof (intro conjI allI impI)
  fix s
  show "\<exists>n. wifi_silent_after ((demo_wifi_env False)\<lparr>we_next := \<lambda>evs. if ProvDeinit \<in> set evs \<or> Delivered ProvCredSuccess \<in> set evs
    then None else Some ProvCredSuccess\<rparr>) n s"
    by (rule exI [of _ 1]) (auto simp: wifi_deliver_def wifi_set_bits_def wifi_call_def)
qed (auto simp: demo_wifi_env_def)

theorem wifi_start_fresh_ends_witness:
  "\<exists>r. wifi_manager_start ((demo_wifi_env False)\<lparr>we_next := \<lambda>evs. if ProvDeinit \<in> set evs \<or> Delivered ProvCredSuccess \<in> set evs
    then None else Some ProvCredSuccess\<rparr>) (Some (demo_wifi_cfg\<lparr>wcf_provisioning_timeout_ms := 60000\<rparr>)) wifi_manager_reset_state = Some r"
  by (rule wifi_start_fresh_ends [OF demo_wifi_settles])
    (simp_all add: demo_wifi_env_def demo_wifi_cfg_def wifi_manager_reset_state_def wifi_bits_in_def)

section \<open>Waiting for the station\<close>

definition wifi_poll_count :: "wifi_manager \<Rightarrow> nat" where
  "wifi_poll_count s = length (filter (\<lambda>c. \<exists>ms. c = PollDelay ms) (wm_log s))"

lemma wifi_poll_count_deliver: "wifi_poll_count (wifi_deliver env i s) = wifi_poll_count s"
  by (cases i) (auto simp: wifi_poll_count_def wifi_deliver_def wifi_call_def wifi_reconnect_timer_cb_def wifi_disconnected_def
    wifi_set_bits_def wifi_clear_bits_def Let_def)

lemma wifi_poll_count_delay: "wifi_poll_count (wifi_poll_delay env ms s) = Suc (wifi_poll_count s)"
proof -
  have "wifi_poll_count (fold (wifi_deliver env) is s) = wifi_poll_count s" for "is" s
    by (induction "is" arbitrary: s) (auto simp: wifi_poll_count_deliver)
  then show ?thesis by (simp add: wifi_poll_delay_def) (simp add: wifi_poll_count_def wifi_call_def)
qed

lemma wait_for_wifi_loop_returns:
  assumes "unat timeout_ms + 200 \<le> 2 ^ 32"
  shows "unat elapsed \<le> unat timeout_ms + 199 \<Longrightarrow> \<exists>s'. wait_for_wifi_loop env timeout_ms elapsed s = Some (wm_connected s', s') \<and>
    200 * wifi_poll_count s' + unat elapsed \<le> 200 * wifi_poll_count s + max (unat elapsed) (unat timeout_ms + 199)"
proof (induction "unat timeout_ms + 200 - unat elapsed" arbitrary: elapsed s rule: less_induct)
  case less
  show ?case
  proof (cases "elapsed < timeout_ms \<and> \<not> wm_connected s")
    case False
    then show ?thesis by (subst wait_for_wifi_loop.simps) (auto simp: wifi_manager_is_connected_def)
  next
    case True
    then have lt: "unat elapsed < unat timeout_ms" by (simp add: word_less_nat_alt)
    have e: "unat (elapsed + 200) = unat elapsed + 200"
      using lt assms by (subst unat_plus_simple [THEN iffD1]) (auto simp: word_le_nat_alt unat_word_ariths)
    have dec: "unat timeout_ms + 200 - unat (elapsed + 200) < unat timeout_ms + 200 - unat elapsed" using lt e by linarith
    obtain s' where "wait_for_wifi_loop env timeout_ms (elapsed + 200) (wifi_poll_delay env 200 s) = Some (wm_connected s', s')"
      "200 * wifi_poll_count s' + unat (elapsed + 200) \<le> 200 * Suc (wifi_poll_count s) + max (unat (elapsed + 200)) (unat timeout_ms + 199)"
      using less.hyps [OF dec, of "wifi_poll_delay env 200 s"] lt e by (auto simp: wifi_poll_count_delay)
    with True lt e show ?thesis by (subst wait_for_wifi_loop.simps) (auto simp: wifi_manager_is_connected_def)
  qed
qed

text \<open>
  Waiting for the station ends. For every timeout but the last 200 ms of the range of the
  counter, \<^verbatim>\<open>wait_for_wifi\<close> returns whether the station is connected at that time, after no more
  delays of 200 ms than the timeout needs, whatever happens meanwhile.
\<close>

theorem wait_for_wifi_returns:
  assumes "unat timeout_ms + 200 \<le> 2 ^ 32"
  shows "\<exists>s'. wait_for_wifi env timeout_ms s = Some (wm_connected s', s') \<and>
    wifi_poll_count s' \<le> wifi_poll_count s + (unat timeout_ms + 199) div 200"
proof -
  from wait_for_wifi_loop_returns [OF assms, of 0 env s]
  obtain s' where "wait_for_wifi_loop env timeout_ms 0 s = Some (wm_connected s', s')"
    "200 * wifi_poll_count s' \<le> 200 * wifi_poll_count s + (unat timeout_ms + 199)" by auto
  then show ?thesis unfolding wait_for_wifi_def by (intro exI [of _ s']) linarith
qed

theorem wait_for_wifi_returns_witness:
  "\<exists>s'. wait_for_wifi silent_wifi_env 5000 wifi_manager_reset_state = Some (wm_connected s', s') \<and> wifi_poll_count s' \<le> 25"
  using wait_for_wifi_returns [of 5000 silent_wifi_env wifi_manager_reset_state]
  by (simp add: wifi_poll_count_def wifi_manager_reset_state_def)

section \<open>Reconnecting\<close>

text \<open>The periods the timer was set to, the last one first.\<close>

definition wifi_periods :: "wifi_manager \<Rightarrow> nat list" where
  "wifi_periods s = [ms. TimerChangePeriod ms \<leftarrow> wm_log s]"

lemma wifi_periods_disconnected:
  "wm_reconnect_timer s \<Longrightarrow> wifi_periods (wifi_deliver env StaDisconnected s) = unat (wm_backoff_ms s) # wifi_periods s"
  by (auto simp: wifi_periods_def wifi_deliver_def wifi_disconnected_def wifi_call_def wifi_set_bits_def wifi_clear_bits_def Let_def)

lemma wifi_backoff_disconnected:
  "wm_reconnect_timer s \<Longrightarrow> wm_backoff_ms (wifi_deliver env StaDisconnected s) = (if wm_backoff_ms s < 32000 then wm_backoff_ms s * 2 else wm_backoff_ms s)"
  "wm_reconnect_timer (wifi_deliver env StaDisconnected s) = wm_reconnect_timer s"
  by (auto simp: wifi_deliver_def wifi_disconnected_def wifi_call_def wifi_set_bits_def wifi_clear_bits_def Let_def)

lemma wifi_disconnects:
  assumes "wm_reconnect_timer s" "wm_backoff_ms s = 1000"
  shows "wm_reconnect_timer ((wifi_deliver env StaDisconnected ^^ k) s) \<and>
    unat (wm_backoff_ms ((wifi_deliver env StaDisconnected ^^ k) s)) = min 32000 (1000 * 2 ^ k) \<and>
    wifi_periods ((wifi_deliver env StaDisconnected ^^ k) s) = rev (map (\<lambda>i. min 32000 (1000 * 2 ^ i)) [0..<k]) @ wifi_periods s"
proof (induction k)
  case 0
  then show ?case using assms by simp
next
  case (Suc k)
  let ?s = "(wifi_deliver env StaDisconnected ^^ k) s"
  have b: "unat (wm_backoff_ms ?s) = min 32000 (1000 * 2 ^ k)" using Suc by blast
  have d: "unat (wm_backoff_ms ?s * 2) = 2 * unat (wm_backoff_ms ?s)" using b by (simp add: unat_word_ariths)
  have "unat (if wm_backoff_ms ?s < 32000 then wm_backoff_ms ?s * 2 else wm_backoff_ms ?s) = min 32000 (1000 * 2 ^ Suc k)"
  proof (cases "k < 5")
    case True
    then have "k \<in> {0, 1, 2, 3, 4}" by auto
    with b d show ?thesis by (auto simp: word_less_nat_alt)
  next
    case False
    then have "(2 :: nat) ^ 5 \<le> 2 ^ k" by (intro power_increasing) auto
    then have "32000 \<le> 1000 * (2 :: nat) ^ k" by simp
    with b show ?thesis by (simp add: word_less_nat_alt)
  qed
  with Suc b show ?case by (simp add: wifi_periods_disconnected wifi_backoff_disconnected)
qed

text \<open>
  The reconnection delays double. A station that just had an address and then loses the
  access point \<open>k\<close> times in a row sets the reconnection timer to 1 s, 2 s, 4 s and so on, and to
  32 s from the sixth time on.
\<close>

theorem wifi_reconnect_periods:
  assumes "wm_reconnect_timer s"
  shows "wifi_periods ((wifi_deliver env StaDisconnected ^^ k) (wifi_deliver env StaGotIp s)) =
    rev (map (\<lambda>i. min 32000 (1000 * 2 ^ i)) [0..<k]) @ wifi_periods s"
proof -
  have "wm_reconnect_timer (wifi_deliver env StaGotIp s)" "wm_backoff_ms (wifi_deliver env StaGotIp s) = 1000"
    "wifi_periods (wifi_deliver env StaGotIp s) = wifi_periods s"
    using assms by (simp_all add: wifi_deliver_def wifi_call_def wifi_set_bits_def wifi_periods_def)
  with wifi_disconnects show ?thesis by metis
qed

theorem wifi_reconnect_periods_witness:
  "wifi_periods ((wifi_deliver silent_wifi_env StaDisconnected ^^ 7) (wifi_deliver silent_wifi_env StaGotIp
     (wifi_manager_reset_state\<lparr>wm_reconnect_timer := True\<rparr>))) = [32000, 32000, 16000, 8000, 4000, 2000, 1000]"
proof -
  have t: "wm_reconnect_timer (wifi_manager_reset_state\<lparr>wm_reconnect_timer := True\<rparr>)" by simp
  have p: "wifi_periods (wifi_manager_reset_state\<lparr>wm_reconnect_timer := True\<rparr>) = []"
    by (simp add: wifi_periods_def wifi_manager_reset_state_def)
  show ?thesis by (simp only: wifi_reconnect_periods [OF t] p) (simp add: upt_rec)
qed

section \<open>Choosing the provisioning scheme\<close>

text \<open>
  Provisioning is prepared over Bluetooth when it is preferred and works, over the soft access
  point otherwise; the error is that of the last scheme tried.
\<close>

lemma wifi_prepare_spec:
  assumes "sec2_usable (wcf_sec2_params config)"
    and "ble = we_result env (wm_log s) (ProvMgrInit SchemeBle)"
    and "softap = we_result env (if wcf_prefer_ble config then ProvMgrInit SchemeBle # wm_log s else wm_log s) (ProvMgrInit SchemeSoftap)"
  shows "fst (wifi_manager_prepare_provisioning env (Some config) s) =
    (if wcf_prefer_ble config \<and> ble = ESP_OK then (ESP_OK, True) else if softap = ESP_OK then (ESP_OK, False) else (softap, False))"
  using assms by (auto simp: wifi_manager_prepare_provisioning_def wifi_manager_prov_mgr_init_def wifi_do_def wifi_call_def)

text \<open>A node that comes online: credentials are stored, and the address arrives in the first wait.\<close>

definition demo_online_wifi :: wifi_env where
  "demo_online_wifi = (demo_wifi_env True)\<lparr>we_next := \<lambda>evs. if Delivered StaGotIp \<in> set evs then None else Some StaGotIp\<rparr>"

lemma online_wait:
  assumes "wm_event_group s = Some 4" "Delivered StaGotIp \<notin> set (wm_log s)"
  shows "\<exists>s'. wifi_connect_loop demo_online_wifi cfg 0 s = Some (Returned ESP_OK, s') \<and> wm_connected s'"
proof -
  let ?s1 = "wifi_deliver demo_online_wifi StaGotIp s"
  have s1: "wm_event_group ?s1 = Some 5" "wm_connected ?s1"
    using assms by (simp_all add: wifi_deliver_def wifi_call_def wifi_set_bits_def WIFI_CONNECTED_BIT_def)
  then have "\<exists>s'. wifi_wait_bits demo_online_wifi (WIFI_CONNECTED_BIT OR WIFI_FAIL_BIT) limited ?s1 = Some (5, s') \<and> wm_connected s'" for limited
    by (subst wifi_wait_bits.simps) (simp add: wifi_clear_bits_def WIFI_CONNECTED_BIT_def WIFI_FAIL_BIT_def)
  then have "\<exists>s'. wifi_wait_bits demo_online_wifi (WIFI_CONNECTED_BIT OR WIFI_FAIL_BIT) limited s = Some (5, s') \<and> wm_connected s'" for limited
    using assms by (subst wifi_wait_bits.simps) (simp add: demo_online_wifi_def WIFI_CONNECTED_BIT_def WIFI_FAIL_BIT_def)
  then obtain s' where "wifi_wait_bits demo_online_wifi (WIFI_CONNECTED_BIT OR WIFI_FAIL_BIT) (wcf_connect_timeout_ms cfg \<noteq> 0) s = Some (5, s')"
    "wm_connected s'" by blast
  then show ?thesis by (subst wifi_connect_loop.simps) (simp add: WIFI_CONNECTED_BIT_def)
qed

lemma online_start:
  assumes "sec2_usable (wcf_sec2_params cfg)" "wcf_prefer_ble cfg" "\<not> wcf_force_provisioning cfg"
  shows "\<exists>w. wifi_manager_start demo_online_wifi (Some cfg) wifi_manager_reset_state = Some (Returned ESP_OK, w) \<and> wm_connected w"
proof -
  have env: "we_result demo_online_wifi l c = ESP_OK" "we_made demo_online_wifi l c" "we_early demo_online_wifi l = []"
      "we_provisioned demo_online_wifi l" for l c
    by (simp_all add: demo_online_wifi_def demo_wifi_env_def)
  obtain s1 where d: "wifi_start_driver demo_online_wifi wifi_manager_reset_state = (None, s1)" "wm_event_group s1 = Some 0"
      "Delivered StaGotIp \<notin> set (wm_log s1)" "\<not> wm_force_reprovision s1"
    by (simp add: wifi_start_driver_def init_nvs_secure_def init_nvs_keys_def init_nvs_erase_def wifi_do_def env stopped_by_def
        ensure_netif_def wifi_register_handlers_def wifi_create_group_def wifi_create_timer_def wifi_manager_reset_state_def wifi_call_def)
  then show ?thesis
    using online_wait assms by (simp add: wifi_manager_start_def wifi_start_station_def wifi_manager_prepare_provisioning_def
        wifi_manager_prov_mgr_init_def wifi_do_def env wifi_call_def wifi_connect_def
        wifi_set_bits_def wifi_clear_bits_def Let_def
        WIFI_CONNECTED_BIT_def WIFI_FAIL_BIT_def WIFI_PROV_DONE_BIT_def)
qed

end
