(* ===== verification/Discovery.thy ===== *)
theory Discovery
  imports Nodes Wifi
begin

text \<open>
  How the HMI node finds the sensor node and connects to it: service discovery, the cached
  endpoint in flash and the start of the client in \<^verbatim>\<open>hmi_node/main/net/ws_client.c\<close>, the
  announcement of the sensor node in \<^verbatim>\<open>common/net/mdns_helper.c\<close>, and \<^verbatim>\<open>common/util/monotonic.c\<close>.

  The mDNS library, flash and the clock are the environment: a call is an event of the log,
  newest first, and its result is a function of the log before it. A service that mDNS
  found carries its addresses as the text that lwIP prints for them. The configuration of the
  build (\<^verbatim>\<open>CONFIG_...\<close>) is the record \<open>hmi_build\<close>.
\<close>

section \<open>Services\<close>

datatype mdns_addr = AddrV4 string | AddrV6 string | AddrOther

record mdns_result =
  mr_hostname :: "string option"
  mr_port :: u16
  mr_txt :: "(string option \<times> string option) list"
  mr_addrs :: "mdns_addr list"

record service_metadata_t =
  meta_proto :: string
  meta_path :: string
  meta_host :: string

definition service_metadata_init :: service_metadata_t where
  "service_metadata_init = \<lparr>meta_proto = cstr_copy 8 ''wss'', meta_path = cstr_copy 64 ''/ws'', meta_host = []\<rparr>"

definition token_char :: "char \<Rightarrow> bool" where
  "token_char c \<longleftrightarrow> c = CHR ''-'' \<or> c = CHR ''+'' \<or> c = CHR ''.'' \<or>
     (97 \<le> (of_char c :: nat) \<and> (of_char c :: nat) \<le> 122) \<or> (48 \<le> (of_char c :: nat) \<and> (of_char c :: nat) \<le> 57)"

definition is_token_valid :: "string \<Rightarrow> bool" where
  "is_token_valid value \<longleftrightarrow> \<not> (length value = 0 \<or> length value \<ge> 32) \<and> list_all token_char value"

definition sanitize_path :: "nat \<Rightarrow> string \<Rightarrow> string" where
  "sanitize_path dest_len value =
     (if value = [] then cstr_copy dest_len ''/ws''
      else if hd value \<noteq> CHR ''/'' then cstr_copy dest_len (take 63 (CHR ''/'' # value))
      else cstr_copy dest_len value)"

text \<open>\<^verbatim>\<open>strstr\<close>: the index of the first occurrence.\<close>

fun strstr :: "string \<Rightarrow> string \<Rightarrow> nat option" where
  "strstr needle [] = (if needle = [] then Some 0 else None)"
| "strstr needle (c # cs) =
     (if take (length needle) (c # cs) = needle then Some 0 else map_option Suc (strstr needle cs))"

definition apply_txt_uri :: "string \<Rightarrow> service_metadata_t \<Rightarrow> service_metadata_t" where
  "apply_txt_uri value meta =
     (case strstr ''://'' value of
        None \<Rightarrow> meta
      | Some sep \<Rightarrow>
          if sep < 8 then
            let proto = take sep value;
                meta = (if is_token_valid proto then meta\<lparr>meta_proto := cstr_copy 8 proto\<rparr> else meta);
                path = dropWhile (\<lambda>c. c \<noteq> CHR ''/'') (drop (sep + 3) value)
            in if path \<noteq> [] then meta\<lparr>meta_path := sanitize_path 64 path\<rparr> else meta
          else meta)"

fun apply_txt_item :: "string option \<times> string option \<Rightarrow> service_metadata_t \<Rightarrow> service_metadata_t" where
  "apply_txt_item (Some key, Some value) meta =
     (if key = ''proto'' then
        if is_token_valid value then meta\<lparr>meta_proto := cstr_copy 8 value\<rparr> else meta
      else if key = ''path'' then meta\<lparr>meta_path := sanitize_path 64 value\<rparr>
      else if key = ''uri'' then apply_txt_uri value meta
      else if key = ''host'' \<or> key = ''sni'' then
        if length value < 64 then meta\<lparr>meta_host := cstr_copy 64 value\<rparr> else meta
      else meta)"
| "apply_txt_item _ meta = meta"

definition apply_txt_metadata :: "service_metadata_t \<Rightarrow> mdns_result \<Rightarrow> service_metadata_t" where
  "apply_txt_metadata meta r = fold apply_txt_item (mr_txt r) meta"

definition INET6_ADDRSTRLEN :: nat where "INET6_ADDRSTRLEN = 46"

text \<open>The host of a URI for an address, \<open>None\<close> when the loop goes on to the next.\<close>

fun uri_host :: "mdns_addr \<Rightarrow> string option" where
  "uri_host (AddrV6 ip) =
     (let host = ''['' @ ip @ '']'' in if length host \<ge> INET6_ADDRSTRLEN + 3 then None else Some host)"
| "uri_host (AddrV4 ip) = Some (cstr_copy (INET6_ADDRSTRLEN + 3) ip)"
| "uri_host AddrOther = None"

text \<open>\<^verbatim>\<open>set_discovered_server_name\<close>, as the value of the static buffer.\<close>

definition discovered_server_name :: "string option \<Rightarrow> string" where
  "discovered_server_name name = (case name of None \<Rightarrow> [] | Some n \<Rightarrow> if n = [] then [] else cstr_copy 64 n)"

fun build_uri_loop :: "service_metadata_t \<Rightarrow> mdns_result \<Rightarrow> nat \<Rightarrow> mdns_addr list \<Rightarrow> (string \<times> string) option" where
  "build_uri_loop meta r uri_len [] = None"
| "build_uri_loop meta r uri_len (a # addrs) =
     (case uri_host a of
        None \<Rightarrow> build_uri_loop meta r uri_len addrs
      | Some host \<Rightarrow>
          let uri = meta_proto meta @ ''://'' @ host @ '':'' @ dec_string (unat (mr_port r)) @ meta_path meta in
          if length uri < uri_len then
            Some (uri,
              if meta_host meta \<noteq> [] then discovered_server_name (Some (meta_host meta))
              else case mr_hostname r of
                Some h \<Rightarrow> if h \<noteq> [] then discovered_server_name (Some h) else discovered_server_name None
              | None \<Rightarrow> discovered_server_name None)
          else build_uri_loop meta r uri_len addrs)"

text \<open>The URI and the name for TLS that the service gives, \<open>None\<close> when it is skipped.\<close>

definition build_uri_from_result :: "mdns_result \<Rightarrow> nat \<Rightarrow> (string \<times> string) option" where
  "build_uri_from_result r uri_len =
     (if uri_len = 0 then None
      else let meta = apply_txt_metadata service_metadata_init r in
        if meta_proto meta \<noteq> ''wss'' \<and> meta_proto meta \<noteq> ''ws'' then None
        else build_uri_loop meta r uri_len (mr_addrs r))"

section \<open>State and environment\<close>

definition monotonic_time_us :: "int \<Rightarrow> u64" where
  "monotonic_time_us timer_us = word_of_int timer_us"

definition monotonic_time_ms :: "int \<Rightarrow> u32" where
  "monotonic_time_ms timer_us = ucast ((word_of_int timer_us :: u64) div 1000)"

datatype net_event =
    CacheOpen bool | CacheClose | CacheCommit
  | CacheGetUri | CacheGetSni | CacheGetTs
  | CacheSetUri string | CacheSetSni string | CacheSetTs u32
  | CacheEraseUri | CacheEraseSni | CacheEraseTs
  | MdnsInit | MdnsQuery | MdnsFree
  | NetDelayMs nat | NetReadTime

type_synonym net_log = "net_event list"

record hmi_build =
  hb_discovery_timeout_ms :: u32
  hb_cache_ttl_minutes :: u64
  hb_tls_sni_override :: string
  hb_sensor_hostname :: string
  hb_sensor_port :: u16
  hb_sec2_salt_base64 :: string
  hb_sec2_verifier_base64 :: string
  hb_wifi :: wifi_manager_config_t
  hb_crypto_secret_base64 :: string
  hb_totp_secret_base32 :: string
  hb_enable_encryption :: bool
  hb_enable_handshake :: bool
  hb_enable_totp :: bool
  hb_auth_token :: string
  hb_totp_period_s :: u32
  hb_totp_digits :: u8
  hb_totp_window :: u32

record net_env =
  ne_build :: hmi_build
  ne_nvs :: nvs_env
  ne_result :: "net_log \<Rightarrow> net_event \<Rightarrow> esp_err"
  ne_str :: "net_log \<Rightarrow> net_event \<Rightarrow> string"
  ne_u32 :: "net_log \<Rightarrow> u32"
  ne_time_us :: "net_log \<Rightarrow> nat"
  ne_services :: "net_log \<Rightarrow> mdns_result list"

text \<open>\<^verbatim>\<open>s_discovered_server_name\<close>, the state of the secure flash, and the log.\<close>

record hmi_net =
  hn_server_name :: string
  hn_prefs :: prefs_store
  hn_log :: net_log

definition net_emit :: "net_event \<Rightarrow> hmi_net \<Rightarrow> hmi_net" where
  "net_emit ev s = s\<lparr>hn_log := ev # hn_log s\<rparr>"

definition net_do :: "net_env \<Rightarrow> net_event \<Rightarrow> hmi_net \<Rightarrow> esp_err \<times> hmi_net" where
  "net_do env ev s = (ne_result env (hn_log s) ev, net_emit ev s)"

definition net_time :: "net_env \<Rightarrow> hmi_net \<Rightarrow> nat \<times> hmi_net" where
  "net_time env s = (ne_time_us env (hn_log s), net_emit NetReadTime s)"

definition net_store_init :: "net_env \<Rightarrow> hmi_net \<Rightarrow> esp_err \<times> hmi_net" where
  "net_store_init env s = (case hmi_prefs_store_init (ne_nvs env) (hn_prefs s) of (err, p) \<Rightarrow> (err, s\<lparr>hn_prefs := p\<rparr>))"

section \<open>The cached endpoint\<close>

definition invalidate_cached_service :: "net_env \<Rightarrow> hmi_net \<Rightarrow> hmi_net" where
  "invalidate_cached_service env s =
     (case net_store_init env s of (err, s) \<Rightarrow>
        if err \<noteq> ESP_OK then s
        else case net_do env (CacheOpen True) s of (err, s) \<Rightarrow>
          if err \<noteq> ESP_OK then s
          else fold net_emit [CacheEraseUri, CacheEraseSni, CacheEraseTs, CacheCommit, CacheClose] s)"

definition cache_read_sni :: "net_env \<Rightarrow> hmi_net \<Rightarrow> esp_err \<times> hmi_net" where
  "cache_read_sni env s =
     (let name = ne_str env (hn_log s) CacheGetSni in
      case net_do env CacheGetSni s of (err, s) \<Rightarrow>
        if err = ESP_OK then (ESP_OK, s\<lparr>hn_server_name := name\<rparr>)
        else if err = ESP_ERR_NVS_NOT_FOUND then (ESP_OK, s\<lparr>hn_server_name := []\<rparr>)
        else (err, s))"

definition cache_ttl_ms :: "hmi_build \<Rightarrow> u64" where
  "cache_ttl_ms cfg = hb_cache_ttl_minutes cfg * 60000"

definition cache_check_age :: "net_env \<Rightarrow> hmi_net \<Rightarrow> esp_err \<times> hmi_net" where
  "cache_check_age env s =
     (let last_seen = ne_u32 env (hn_log s) in
      case net_do env CacheGetTs s of (err, s) \<Rightarrow>
        if err \<noteq> ESP_OK then (err, s)
        else case net_time env s of (us, s) \<Rightarrow>
          let now = monotonic_time_ms (int us); age = now - last_seen; ttl_ms = cache_ttl_ms (ne_build env)
          in if ttl_ms > 0 \<and> ucast age > ttl_ms then (ESP_ERR_INVALID_STATE, s) else (ESP_OK, s))"

text \<open>The URI that is returned in the buffer, \<open>None\<close> for the result false.\<close>

definition load_cached_service :: "net_env \<Rightarrow> hmi_net \<Rightarrow> string option \<times> hmi_net" where
  "load_cached_service env s =
     (case net_store_init env s of (err, s) \<Rightarrow>
        if err \<noteq> ESP_OK then (None, s)
        else case net_do env (CacheOpen False) s of (err, s) \<Rightarrow>
          if err \<noteq> ESP_OK then (None, s)
          else
            let uri = ne_str env (hn_log s) CacheGetUri in
            case net_do env CacheGetUri s of (err, s) \<Rightarrow>
            case (if err = ESP_OK then cache_read_sni env s else (err, s)) of (err, s) \<Rightarrow>
            case (if err = ESP_OK then cache_check_age env s else (err, s)) of (err, s) \<Rightarrow>
              let s = net_emit CacheClose s in
              if err \<noteq> ESP_OK then
                (None, if err = ESP_ERR_INVALID_STATE then invalidate_cached_service env s else s)
              else (Some uri, s))"

definition cache_write :: "net_env \<Rightarrow> string \<Rightarrow> hmi_net \<Rightarrow> esp_err \<times> hmi_net" where
  "cache_write env uri s =
     (case net_do env (CacheSetUri uri) s of (err, s) \<Rightarrow>
        if err \<noteq> ESP_OK then (err, s)
        else case net_do env (CacheSetSni (hn_server_name s)) s of (err, s) \<Rightarrow>
          if err \<noteq> ESP_OK then (err, s)
          else case net_time env s of (us, s) \<Rightarrow>
            case net_do env (CacheSetTs (monotonic_time_ms (int us))) s of (err, s) \<Rightarrow>
              if err \<noteq> ESP_OK then (err, s) else net_do env CacheCommit s)"

definition store_cached_service :: "net_env \<Rightarrow> string \<Rightarrow> hmi_net \<Rightarrow> hmi_net" where
  "store_cached_service env uri s =
     (if uri = [] then s
      else case net_store_init env s of (err, s) \<Rightarrow>
        if err \<noteq> ESP_OK then s
        else case net_do env (CacheOpen True) s of (err, s) \<Rightarrow>
          if err \<noteq> ESP_OK then s
          else net_emit CacheClose (snd (cache_write env uri s)))"

section \<open>Discovery\<close>

text \<open>The first service of an answer that gives a URI.\<close>

fun first_endpoint :: "mdns_result list \<Rightarrow> nat \<Rightarrow> (string \<times> string) option" where
  "first_endpoint [] uri_len = None"
| "first_endpoint (r # rs) uri_len =
     (case build_uri_from_result r uri_len of Some e \<Rightarrow> Some e | None \<Rightarrow> first_endpoint rs uri_len)"

text \<open>One query: the URI when a service was found and stored.\<close>

definition discover_query :: "net_env \<Rightarrow> nat \<Rightarrow> hmi_net \<Rightarrow> string option \<times> hmi_net" where
  "discover_query env uri_len s =
     (let services = ne_services env (hn_log s) in
      case net_do env MdnsQuery s of (err, s) \<Rightarrow>
        if err = ESP_OK \<and> services \<noteq> [] then
          (case first_endpoint services uri_len of
             Some (uri, name) \<Rightarrow> (Some uri, net_emit MdnsFree (store_cached_service env uri (s\<lparr>hn_server_name := name\<rparr>)))
           | None \<Rightarrow> (None, net_emit MdnsFree s))
        else (None, s))"

text \<open>The condition of the loop: it reads the clock unless the timeout is zero.\<close>

definition discover_more :: "net_env \<Rightarrow> int \<Rightarrow> hmi_net \<Rightarrow> bool \<times> hmi_net" where
  "discover_more env start s =
     (let timeout_ms = hb_discovery_timeout_ms (ne_build env) in
      if timeout_ms = 0 then (True, s)
      else case net_time env s of (us, s) \<Rightarrow> ((word_of_int (int (us div 1000) - start) :: u32) < timeout_ms, s))"

definition discover_expired :: "net_env \<Rightarrow> int \<Rightarrow> hmi_net \<Rightarrow> bool \<times> hmi_net" where
  "discover_expired env start s =
     (let timeout_ms = hb_discovery_timeout_ms (ne_build env) in
      if timeout_ms = 0 then (False, s)
      else case net_time env s of (us, s) \<Rightarrow> (int (us div 1000) - start \<ge> int (unat timeout_ms), s))"

partial_function (option) discover_loop :: "net_env \<Rightarrow> nat \<Rightarrow> int \<Rightarrow> hmi_net \<Rightarrow> (string option \<times> hmi_net) option" where
  "discover_loop env uri_len start s =
     (case discover_more env start s of (go_on, s) \<Rightarrow>
        if \<not> go_on then Some (None, s)
        else case discover_query env uri_len s of
          (Some uri, s) \<Rightarrow> Some (Some uri, s)
        | (None, s) \<Rightarrow>
            (case discover_expired env start (net_emit (NetDelayMs 2000) s) of (expired, s) \<Rightarrow>
               if expired then Some (None, s) else discover_loop env uri_len start s))"

definition discover_service :: "net_env \<Rightarrow> nat \<Rightarrow> hmi_net \<Rightarrow> (string option \<times> hmi_net) option" where
  "discover_service env uri_len s =
     (let s = net_emit MdnsInit (s\<lparr>hn_server_name := discovered_server_name None\<rparr>) in
      case net_time env s of (us, s) \<Rightarrow>
        case discover_loop env uri_len (int (us div 1000)) s of
          None \<Rightarrow> None
        | Some (Some uri, s) \<Rightarrow> Some (Some uri, s)
        | Some (None, s) \<Rightarrow> Some (load_cached_service env s))"

section \<open>Starting the client\<close>

definition select_tls_server_name :: "hmi_build \<Rightarrow> string \<Rightarrow> string option \<Rightarrow> string option" where
  "select_tls_server_name cfg name fallback_host =
     (if hb_tls_sni_override cfg \<noteq> [] then Some (hb_tls_sni_override cfg)
      else if name \<noteq> [] then Some name
      else case fallback_host of Some h \<Rightarrow> if h \<noteq> [] then Some h else None | None \<Rightarrow> None)"

record hmi_env =
  he_net :: net_env
  he_wifi :: wifi_env
  he_cli :: cli_env
  he_base64 :: "bytes \<Rightarrow> nat \<Rightarrow> base64_rc \<times> bytes"

record hmi_app =
  ha_net :: hmi_net
  ha_wifi :: wifi_manager
  ha_link :: hmi_link
  ha_sec2 :: wifi_manager_sec2_params_t
  ha_sec2_loaded :: bool
  ha_wifi_ready :: bool
  ha_ws_secret :: bytes
  ha_totp_secret :: bytes

definition ensure_sec2_params :: "hmi_env \<Rightarrow> hmi_app \<Rightarrow> esp_err \<times> hmi_app" where
  "ensure_sec2_params env app =
     (let cfg = ne_build (he_net env) in
      if ha_sec2_loaded app then (ESP_OK, app)
      else case base64_utils_decode (he_base64 env) (Some (hb_sec2_salt_base64 cfg)) (Some 32) of (err, salt) \<Rightarrow>
        if err \<noteq> ESP_OK then (err, app)
        else case base64_utils_decode (he_base64 env) (Some (hb_sec2_verifier_base64 cfg)) (Some 384) of (err, verifier) \<Rightarrow>
          if err \<noteq> ESP_OK then (err, app)
          else (ESP_OK, app\<lparr>ha_sec2 := \<lparr>sec2_salt = Some salt, sec2_salt_len = length salt,
                  sec2_verifier = Some verifier, sec2_verifier_len = length verifier\<rparr>, ha_sec2_loaded := True\<rparr>))"

definition ensure_wifi_ready :: "hmi_env \<Rightarrow> hmi_app \<Rightarrow> (wifi_outcome \<times> hmi_app) option" where
  "ensure_wifi_ready env app =
     (if ha_wifi_ready app then Some (Returned ESP_OK, app)
      else case ensure_sec2_params env app of (err, app) \<Rightarrow>
        if err \<noteq> ESP_OK then Some (Returned err, app)
        else
          let wifi_cfg = (hb_wifi (ne_build (he_net env)))\<lparr>wcf_power_save := False, wcf_service_key := None,
                wcf_force_provisioning := False, wcf_sec2_params := Some (ha_sec2 app)\<rparr>
          in case wifi_manager_start (he_wifi env) (Some wifi_cfg) (ha_wifi app) of
               None \<Rightarrow> None
             | Some (Aborted e, w) \<Rightarrow> Some (Aborted e, app\<lparr>ha_wifi := w\<rparr>)
             | Some (Returned err, w) \<Rightarrow>
                 if err = ESP_OK \<or> err = ESP_ERR_INVALID_STATE
                 then Some (Returned ESP_OK, app\<lparr>ha_wifi := w, ha_wifi_ready := True\<rparr>)
                 else Some (Returned err, app\<lparr>ha_wifi := w\<rparr>))"

definition HMI_URI_SIZE :: nat where "HMI_URI_SIZE = 128"

text \<open>The endpoint to connect to, and the host to fall back on for the TLS name.\<close>

definition choose_endpoint :: "net_env \<Rightarrow> hmi_net \<Rightarrow> ((string \<times> string option) \<times> hmi_net) option" where
  "choose_endpoint env s =
     (case discover_service env HMI_URI_SIZE s of
        None \<Rightarrow> None
      | Some (Some uri, s) \<Rightarrow> Some ((uri, None), s)
      | Some (None, s) \<Rightarrow>
          let cfg = ne_build env; host = hb_sensor_hostname cfg in
          Some ((cstr_copy HMI_URI_SIZE (''wss://'' @ host @ '':'' @ dec_string (unat (hb_sensor_port cfg)) @ ''/ws''), Some host),
            s\<lparr>hn_server_name := discovered_server_name (Some host)\<rparr>))"

text \<open>The secrets, or how the start ends without them.\<close>

definition load_secrets :: "hmi_env \<Rightarrow> hmi_app \<Rightarrow> wifi_outcome option \<times> hmi_app" where
  "load_secrets env app =
     (let cfg = ne_build (he_net env);
          (err, secret) = (if hb_crypto_secret_base64 cfg \<noteq> []
             then base64_utils_decode (he_base64 env) (Some (hb_crypto_secret_base64 cfg)) (Some 64) else (ESP_OK, []));
          app = app\<lparr>ha_ws_secret := secret\<rparr>
      in if err \<noteq> ESP_OK then (Some (Aborted err), app)
         else if (hb_enable_encryption cfg \<or> hb_enable_handshake cfg) \<and> secret = [] then (Some (Returned ESP_ERR_INVALID_STATE), app)
         else
           let (err, totp) = (if hb_totp_secret_base32 cfg \<noteq> []
                 then base32_utils_decode (Some (hb_totp_secret_base32 cfg)) (Some 64) else (ESP_OK, []));
               app = app\<lparr>ha_totp_secret := totp\<rparr>
           in if err \<noteq> ESP_OK then (Some (Aborted err), app)
              else if hb_enable_totp cfg \<and> totp = [] then (Some (Returned ESP_ERR_INVALID_STATE), app)
              else (None, app))"

definition hmi_client_config :: "hmi_build \<Rightarrow> string \<Rightarrow> string option \<Rightarrow> hmi_app \<Rightarrow> ws_client_config_t" where
  "hmi_client_config cfg uri tls_name app =
     \<lparr>wcc_uri = Some uri, wcc_auth_token = Some (hb_auth_token cfg), wcc_tls_server_name = tls_name,
      wcc_reconnect_min_delay_ms = 2000, wcc_reconnect_max_delay_ms = 60000, wcc_error_cb = True,
      wcc_crypto_secret = (if length (ha_ws_secret app) > 0 then Some (ha_ws_secret app) else None),
      wcc_enable_frame_encryption = hb_enable_encryption cfg, wcc_enable_handshake_token = hb_enable_handshake cfg,
      wcc_enable_totp = hb_enable_totp cfg,
      wcc_totp_secret = (if length (ha_totp_secret app) > 0 then Some (ha_totp_secret app) else None),
      wcc_totp_period_s = hb_totp_period_s cfg, wcc_totp_digits = hb_totp_digits cfg, wcc_totp_window = hb_totp_window cfg,
      wcc_get_time_unix = None\<rparr>"

definition hmi_connect :: "hmi_env \<Rightarrow> string \<Rightarrow> string option \<Rightarrow> hmi_app \<Rightarrow> wifi_outcome \<times> hmi_app" where
  "hmi_connect env uri tls_name app =
     (case load_secrets env app of
        (Some stop, app) \<Rightarrow> (stop, app)
      | (None, app) \<Rightarrow>
          (case ws_client_start (he_cli env) (Some (hmi_client_config (ne_build (he_net env)) uri tls_name app)) True (hl_client (ha_link app)) of
             (err, c) \<Rightarrow>
               let app = app\<lparr>ha_link := (ha_link app)\<lparr>hl_client := c\<rparr>\<rparr> in
               if err = ESP_ERR_INVALID_STATE then (Returned ESP_OK, app)
               else if err \<noteq> ESP_OK then (Returned err, app\<lparr>ha_net := invalidate_cached_service (he_net env) (ha_net app)\<rparr>)
               else (Returned ESP_OK, app)))"

definition hmi_ws_client_start :: "hmi_env \<Rightarrow> bool \<Rightarrow> hmi_app \<Rightarrow> (wifi_outcome \<times> hmi_app) option" where
  "hmi_ws_client_start env model app =
     (if \<not> model then Some (Returned ESP_ERR_INVALID_ARG, app)
      else
        let app = app\<lparr>ha_link := (ha_link app)\<lparr>hl_next_command_seq := 0\<rparr>\<rparr> in
        case ensure_wifi_ready env app of
          None \<Rightarrow> None
        | Some (out, app) \<Rightarrow>
            if out \<noteq> Returned ESP_OK then Some (out, app)
            else case choose_endpoint (he_net env) (ha_net app) of
              None \<Rightarrow> None
            | Some ((uri, fallback), n) \<Rightarrow>
                Some (hmi_connect env uri (select_tls_server_name (ne_build (he_net env)) (hn_server_name n) fallback) (app\<lparr>ha_net := n\<rparr>)))"

definition hmi_ws_client_stop :: "hmi_app \<Rightarrow> hmi_app" where
  "hmi_ws_client_stop app = app\<lparr>ha_link := (ha_link app)\<lparr>hl_client := ws_client_stop (hl_client (ha_link app))\<rparr>\<rparr>"

definition hmi_ws_client_is_connected :: "hmi_app \<Rightarrow> bool" where
  "hmi_ws_client_is_connected app = ws_client_is_connected (hl_client (ha_link app))"

definition ws_error_cb :: "hmi_env \<Rightarrow> bool \<Rightarrow> hmi_app \<Rightarrow> hmi_app" where
  "ws_error_cb env event app =
     (if \<not> event then app else app\<lparr>ha_net := invalidate_cached_service (he_net env) (ha_net app)\<rparr>)"

section \<open>The announcement\<close>

datatype mdns_call =
    MdnsStart | MdnsHostname string | MdnsInstance string | MdnsService "string option" string string u16
  | MdnsTxt string string string string | MdnsStop

definition mdns_helper_start ::
  "(mdns_call list \<Rightarrow> esp_err) \<Rightarrow> string option \<Rightarrow> string option \<Rightarrow> u16 \<Rightarrow> mdns_call list \<Rightarrow> esp_err \<times> mdns_call list" where
  "mdns_helper_start init hostname inst port evs =
     (let err = init evs; evs = MdnsStart # evs in
      if err \<noteq> ESP_OK then (err, evs)
      else
        let evs = (case hostname of Some h \<Rightarrow> MdnsHostname h # evs | None \<Rightarrow> evs);
            evs = (case inst of Some n \<Rightarrow> MdnsInstance n # evs | None \<Rightarrow> evs);
            evs = MdnsService None ''_hmi-sensor'' ''_tcp'' port # evs;
            evs = MdnsTxt ''_hmi-sensor'' ''_tcp'' ''proto'' ''wss'' # evs;
            evs = MdnsTxt ''_hmi-sensor'' ''_tcp'' ''auth'' ''bearer'' # evs
        in (ESP_OK, evs))"

definition mdns_helper_stop :: "mdns_call list \<Rightarrow> mdns_call list" where
  "mdns_helper_stop evs = MdnsStop # evs"

section \<open>Endpoints\<close>

definition meta_ok :: "service_metadata_t \<Rightarrow> bool" where
  "meta_ok m \<longleftrightarrow> length (meta_proto m) \<le> 7 \<and> length (meta_path m) \<le> 63 \<and> length (meta_host m) \<le> 63 \<and>
     (\<exists>rest. meta_path m = CHR ''/'' # rest)"

lemma sanitize_path_slash: "length (sanitize_path 64 v) \<le> 63 \<and> (\<exists>rest. sanitize_path 64 v = CHR ''/'' # rest)"
  by (cases v) (auto simp: sanitize_path_def cstr_copy_def numeral_eq_Suc)

lemma meta_init_ok: "meta_ok service_metadata_init"
  by (simp add: meta_ok_def service_metadata_init_def cstr_copy_def)

lemma cstr_copy_bounds: "length (cstr_copy 8 v) \<le> 7" "length (cstr_copy 64 v) \<le> 63"
  using length_cstr_copy [of 8 v] length_cstr_copy [of 64 v] by simp_all

lemma apply_txt_item_ok: "meta_ok m \<Longrightarrow> meta_ok (apply_txt_item item m)"
  by (cases "(item, m)" rule: apply_txt_item.cases)
    (auto simp: meta_ok_def apply_txt_uri_def Let_def sanitize_path_slash cstr_copy_bounds split: option.split)

lemma apply_txt_metadata_ok: "meta_ok m \<Longrightarrow> meta_ok (apply_txt_metadata m r)"
  unfolding apply_txt_metadata_def by (induction "mr_txt r" arbitrary: m r) (auto simp: apply_txt_item_ok fold_invariant [where Q = "\<lambda>_. True" and P = meta_ok])

text \<open>lwIP prints an address in at most 46 characters.\<close>

fun addr_text_fits :: "mdns_addr \<Rightarrow> bool" where
  "addr_text_fits (AddrV4 ip) = (length ip \<le> INET6_ADDRSTRLEN)"
| "addr_text_fits (AddrV6 ip) = (length ip \<le> INET6_ADDRSTRLEN)"
| "addr_text_fits AddrOther = True"

definition endpoint_uri :: "service_metadata_t \<Rightarrow> u16 \<Rightarrow> string \<Rightarrow> string" where
  "endpoint_uri m port host = meta_proto m @ ''://'' @ host @ '':'' @ dec_string (unat port) @ meta_path m"

definition endpoint_name :: "service_metadata_t \<Rightarrow> string option \<Rightarrow> string" where
  "endpoint_name m hostname =
     (if meta_host m \<noteq> [] then meta_host m else case hostname of Some h \<Rightarrow> cstr_copy 64 h | None \<Rightarrow> [])"

lemma uri_host_length: "addr_text_fits a \<Longrightarrow> uri_host a = Some host \<Longrightarrow> length host \<le> 48"
  using length_cstr_copy [of 49] by (cases a) (auto simp: INET6_ADDRSTRLEN_def Let_def split: if_splits)

lemma endpoint_uri_fits:
  assumes "meta_ok m" "length host \<le> 48"
  shows "length (endpoint_uri m port host) < 128"
proof -
  have "unat port < 10 ^ 5" using unsigned_less [of port, where 'a = nat] by simp
  then have "length (dec_string (unat port)) \<le> 5" by (intro length_dec_string) simp_all
  then show ?thesis using assms by (simp add: endpoint_uri_def meta_ok_def)
qed

lemma endpoint_name_eq:
  assumes "meta_ok m"
  shows "(if meta_host m \<noteq> [] then discovered_server_name (Some (meta_host m))
     else case mr_hostname r of Some h \<Rightarrow> if h \<noteq> [] then discovered_server_name (Some h) else discovered_server_name None
        | None \<Rightarrow> discovered_server_name None) = endpoint_name m (mr_hostname r)"
  using assms by (auto simp: endpoint_name_def discovered_server_name_def meta_ok_def cstr_copy_def split: option.split)

lemma build_uri_loop_spec:
  assumes "meta_ok m" "\<forall>a \<in> set addrs. addr_text_fits a"
  shows "build_uri_loop m r 128 addrs =
    (case List.map_filter uri_host addrs of [] \<Rightarrow> None
     | host # _ \<Rightarrow> Some (endpoint_uri m (mr_port r) host, endpoint_name m (mr_hostname r)))"
  using assms(2)
proof (induction addrs)
  case Nil
  then show ?case by (simp add: List.map_filter_def)
next
  case (Cons a addrs)
  have "length (endpoint_uri m (mr_port r) host) < 128" if "uri_host a = Some host" for host
    using Cons.prems uri_host_length [of a host] that by (intro endpoint_uri_fits assms(1)) auto
  with Cons show ?case
    unfolding build_uri_loop.simps Let_def endpoint_name_eq [OF assms(1)]
    by (cases "uri_host a") (simp_all add: List.map_filter_def endpoint_uri_def)
qed

lemma build_uri_spec:
  assumes "\<forall>a \<in> set (mr_addrs r). addr_text_fits a"
  shows "build_uri_from_result r 128 =
    (let m = apply_txt_metadata service_metadata_init r in
     if meta_proto m = ''wss'' \<or> meta_proto m = ''ws'' then
       case List.map_filter uri_host (mr_addrs r) of [] \<Rightarrow> None
       | host # _ \<Rightarrow> Some (endpoint_uri m (mr_port r) host, endpoint_name m (mr_hostname r))
     else None)"
  using build_uri_loop_spec [OF apply_txt_metadata_ok [OF meta_init_ok] assms]
  by (simp add: build_uri_from_result_def Let_def)

text \<open>
  Every service that speaks a known protocol is used, and its URI is never cut short. The
  protocol and the path come from the TXT records, whatever these contain: a path that starts
  with a slash. The service is skipped only when its protocol is neither \<^verbatim>\<open>wss\<close> nor \<^verbatim>\<open>ws\<close> or it has
  no address; otherwise the URI of its first address fits into the buffer of 128 bytes, and the
  name for TLS is the host of the TXT records or else the host name of the service.
\<close>

theorem build_uri_from_result_complete:
  assumes "\<forall>a \<in> set (mr_addrs r). addr_text_fits a"
  shows "(let m = apply_txt_metadata service_metadata_init r in
      build_uri_from_result r HMI_URI_SIZE =
        (if meta_proto m \<in> {''wss'', ''ws''} then
           case List.map_filter uri_host (mr_addrs r) of [] \<Rightarrow> None
           | host # _ \<Rightarrow> Some (endpoint_uri m (mr_port r) host, endpoint_name m (mr_hostname r))
         else None) \<and>
      (\<exists>rest. meta_path m = CHR ''/'' # rest) \<and>
      (\<forall>uri name. build_uri_from_result r HMI_URI_SIZE = Some (uri, name) \<longrightarrow> length uri < HMI_URI_SIZE \<and> length name < 64))"
proof -
  let ?m = "apply_txt_metadata service_metadata_init r"
  have m: "meta_ok ?m" by (rule apply_txt_metadata_ok [OF meta_init_ok])
  have "length uri < 128 \<and> length name < 64" if b: "build_uri_from_result r 128 = Some (uri, name)" for uri name
  proof -
    from b obtain host hosts where h: "List.map_filter uri_host (mr_addrs r) = host # hosts"
      "uri = endpoint_uri ?m (mr_port r) host" "name = endpoint_name ?m (mr_hostname r)"
      unfolding build_uri_spec [OF assms] Let_def by (auto split: if_splits list.splits)
    then have "host \<in> set (List.map_filter uri_host (mr_addrs r))" by simp
    then obtain a where "a \<in> set (mr_addrs r)" "uri_host a = Some host" by (auto simp: List.map_filter_def)
    with assms have "length host \<le> 48" by (blast intro: uri_host_length)
    moreover have "length name \<le> 63"
      using m cstr_copy_bounds(2) by (auto simp: h(3) endpoint_name_def meta_ok_def split: option.split)
    ultimately show ?thesis using endpoint_uri_fits [OF m] by (simp add: h(2))
  qed
  then show ?thesis using m build_uri_spec [OF assms] by (simp add: HMI_URI_SIZE_def meta_ok_def Let_def)
qed

text \<open>A sensor node at an IPv6 and an IPv4 address, with a longer path than fits.\<close>

definition demo_service :: mdns_result where
  "demo_service = \<lparr>mr_hostname = Some ''sensor-node.local'', mr_port = 8443,
     mr_txt = [(Some ''proto'', Some ''wss''), (None, Some ''x''), (Some ''path'', Some ''telemetry'')],
     mr_addrs = [AddrOther, AddrV6 ''FE80::1'', AddrV4 ''192.168.1.20'']\<rparr>"

lemma dec_string_8443: "dec_string 8443 = ''8443''"
  by (simp add: dec_string.simps [of 8443] dec_string.simps [of 844] dec_string.simps [of 84] dec_string.simps [of 8] dec_digit_def char_of_def bit_0)

theorem build_uri_from_result_complete_witness:
  "build_uri_from_result demo_service HMI_URI_SIZE = Some (''wss://[FE80::1]:8443/telemetry'', ''sensor-node.local'')"
proof -
  have "\<forall>a \<in> set (mr_addrs demo_service). addr_text_fits a" by (simp add: demo_service_def INET6_ADDRSTRLEN_def)
  note s = build_uri_from_result_complete [OF this]
  have m: "apply_txt_metadata service_metadata_init demo_service = \<lparr>meta_proto = ''wss'', meta_path = ''/telemetry'', meta_host = []\<rparr>"
    by (simp add: apply_txt_metadata_def demo_service_def service_metadata_init_def cstr_copy_def is_token_valid_def token_char_def
        sanitize_path_def)
  have "List.map_filter uri_host (mr_addrs demo_service) = [''[FE80::1]'', ''192.168.1.20'']"
    by (simp add: List.map_filter_def demo_service_def INET6_ADDRSTRLEN_def cstr_copy_def Let_def)
  then have "build_uri_from_result demo_service HMI_URI_SIZE =
      Some (endpoint_uri \<lparr>meta_proto = ''wss'', meta_path = ''/telemetry'', meta_host = []\<rparr> (mr_port demo_service) ''[FE80::1]'',
        endpoint_name \<lparr>meta_proto = ''wss'', meta_path = ''/telemetry'', meta_host = []\<rparr> (mr_hostname demo_service))"
    using s unfolding Let_def m by simp
  moreover note dec_string_8443
  ultimately show ?thesis
    by (simp add: endpoint_uri_def endpoint_name_def demo_service_def cstr_copy_def)
qed

section \<open>The announcement is understood\<close>

text \<open>The TXT records that the sensor node has set.\<close>

definition announced_txt :: "mdns_call list \<Rightarrow> (string option \<times> string option) set" where
  "announced_txt evs = {(Some key, Some value) | type proto key value. MdnsTxt type proto key value \<in> set evs}"

lemma announced_metadata:
  assumes "mdns_helper_start init hostname inst port [] = (ESP_OK, evs)" "set (mr_txt r) \<subseteq> announced_txt evs"
  shows "apply_txt_metadata service_metadata_init r = service_metadata_init"
proof -
  have items: "announced_txt evs = {(Some ''proto'', Some ''wss''), (Some ''auth'', Some ''bearer'')}"
    using assms(1) by (auto simp: mdns_helper_start_def announced_txt_def Let_def split: if_splits option.splits)
  have "apply_txt_item item service_metadata_init = service_metadata_init" if "item \<in> announced_txt evs" for item
    using that unfolding items by (auto simp: service_metadata_init_def is_token_valid_def token_char_def cstr_copy_def)
  then show ?thesis unfolding apply_txt_metadata_def
    using assms(2) by (intro fold_invariant [where Q = "\<lambda>i. i \<in> announced_txt evs" and P = "\<lambda>m. m = service_metadata_init"]) auto
qed

text \<open>
  The HMI node understands the announcement of the sensor node, and believes what is added to
  it. From the TXT records that \<^verbatim>\<open>mdns_helper_start\<close> sets it connects to \<^verbatim>\<open>wss\<close> on the announced
  port and the path \<^verbatim>\<open>/ws\<close>; but an answer that carries one more record \<^verbatim>\<open>proto=ws\<close>, which any host
  on the network can send, makes it connect without TLS.
\<close>

theorem announced_service_found:
  assumes "mdns_helper_start init hostname inst port [] = (ESP_OK, evs)" "set (mr_txt r) \<subseteq> announced_txt evs"
    "MdnsService None ''_hmi-sensor'' ''_tcp'' (mr_port r) \<in> set evs" "mr_addrs r = AddrV4 ip # addrs" "length ip \<le> INET6_ADDRSTRLEN"
  shows "(\<exists>name. build_uri_from_result r HMI_URI_SIZE = Some (''wss://'' @ ip @ '':'' @ dec_string (unat port) @ ''/ws'', name)) \<and>
    (\<exists>name. build_uri_from_result (r\<lparr>mr_txt := mr_txt r @ [(Some ''proto'', Some ''ws'')]\<rparr>) HMI_URI_SIZE =
       Some (''ws://'' @ ip @ '':'' @ dec_string (unat port) @ ''/ws'', name))"
proof -
  have p: "mr_port r = port"
    using assms(1,3) by (auto simp: mdns_helper_start_def Let_def split: if_splits option.splits)
  note m = announced_metadata [OF assms(1,2)]
  have m2: "apply_txt_metadata service_metadata_init (r\<lparr>mr_txt := mr_txt r @ [(Some ''proto'', Some ''ws'')]\<rparr>) =
      service_metadata_init\<lparr>meta_proto := ''ws''\<rparr>"
    using m by (simp add: apply_txt_metadata_def is_token_valid_def token_char_def cstr_copy_def)
  have "unat port < 10 ^ 5" using unsigned_less [of port, where 'a = nat] by simp
  then have "length (dec_string (unat port)) \<le> 5" by (intro length_dec_string) simp_all
  then have fits: "length ip + length (dec_string (unat port)) \<le> 51" using assms(5) by (simp add: INET6_ADDRSTRLEN_def)
  have init: "meta_proto service_metadata_init = ''wss''" "meta_path service_metadata_init = ''/ws''"
    by (simp_all add: service_metadata_init_def cstr_copy_def)
  have host: "uri_host (AddrV4 ip) = Some ip" using assms(5) by (simp add: INET6_ADDRSTRLEN_def cstr_copy_def)
  show ?thesis
    unfolding build_uri_from_result_def Let_def m m2 using fits
    by (simp add: assms(4) p init host HMI_URI_SIZE_def Let_def del: uri_host.simps)
qed

theorem announced_service_found_witness:
  "\<exists>evs. mdns_helper_start (\<lambda>_. ESP_OK) (Some ''sensor'') None 8443 [] = (ESP_OK, evs) \<and>
    fst (the (build_uri_from_result (demo_service\<lparr>mr_txt := [(Some ''proto'', Some ''wss'')], mr_addrs := [AddrV4 ''10.0.0.2'']\<rparr>) HMI_URI_SIZE))
      = ''wss://10.0.0.2:8443/ws''"
proof -
  obtain evs where e: "mdns_helper_start (\<lambda>_. ESP_OK) (Some ''sensor'') None 8443 [] = (ESP_OK, evs)"
    by (auto simp: mdns_helper_start_def Let_def)
  let ?r = "demo_service\<lparr>mr_txt := [(Some ''proto'', Some ''wss'')], mr_addrs := [AddrV4 ''10.0.0.2'']\<rparr>"
  have "set (mr_txt ?r) \<subseteq> announced_txt evs" "MdnsService None ''_hmi-sensor'' ''_tcp'' (mr_port ?r) \<in> set evs"
    using e by (auto simp: mdns_helper_start_def Let_def announced_txt_def demo_service_def)
  moreover have "mr_addrs ?r = AddrV4 ''10.0.0.2'' # []" "length ''10.0.0.2'' \<le> INET6_ADDRSTRLEN" by (simp_all add: INET6_ADDRSTRLEN_def)
  ultimately obtain name where "build_uri_from_result ?r HMI_URI_SIZE = Some (''wss://'' @ ''10.0.0.2'' @ '':'' @ dec_string (unat (8443 :: u16)) @ ''/ws'', name)"
    using announced_service_found [OF e] by blast
  moreover have "dec_string (unat (8443 :: u16)) = ''8443''" by (simp add: dec_string_8443)
  ultimately show ?thesis using e by simp
qed

section \<open>The cache keeps an endpoint\<close>

text \<open>What the last successful writes left in the flash, and a flash that keeps it.\<close>

fun cached_uri :: "net_log \<Rightarrow> string option" where
  "cached_uri [] = None"
| "cached_uri (CacheSetUri u # evs) = Some u"
| "cached_uri (CacheEraseUri # evs) = None"
| "cached_uri (_ # evs) = cached_uri evs"

fun cached_sni :: "net_log \<Rightarrow> string option" where
  "cached_sni [] = None"
| "cached_sni (CacheSetSni n # evs) = Some n"
| "cached_sni (CacheEraseSni # evs) = None"
| "cached_sni (_ # evs) = cached_sni evs"

fun cached_ts :: "net_log \<Rightarrow> u32 option" where
  "cached_ts [] = None"
| "cached_ts (CacheSetTs t # evs) = Some t"
| "cached_ts (CacheEraseTs # evs) = None"
| "cached_ts (_ # evs) = cached_ts evs"

definition cache_keeps :: "net_env \<Rightarrow> bool" where
  "cache_keeps env \<longleftrightarrow> (\<forall>evs ev. ne_result env evs ev = ESP_OK) \<and>
     (\<forall>evs u. cached_uri evs = Some u \<longrightarrow> ne_str env evs CacheGetUri = u) \<and>
     (\<forall>evs n. cached_sni evs = Some n \<longrightarrow> ne_str env evs CacheGetSni = n) \<and>
     (\<forall>evs t. cached_ts evs = Some t \<longrightarrow> ne_u32 env evs = t)"

definition store_ready :: "net_env \<Rightarrow> hmi_net \<Rightarrow> bool" where
  "store_ready env s \<longleftrightarrow> fst (hmi_prefs_store_init (ne_nvs env) (hn_prefs s)) = ESP_OK"

lemma net_store_init_ready:
  "store_ready env s \<Longrightarrow> \<exists>p. net_store_init env s = (ESP_OK, s\<lparr>hn_prefs := p\<rparr>)"
  by (auto simp: store_ready_def net_store_init_def split: prod.split)

lemma net_store_init_done:
  assumes "net_store_init env s = (ESP_OK, s\<lparr>hn_prefs := p\<rparr>)"
  shows "ps_ready p"
proof -
  obtain err q where e: "ensure_secure_nvs (ne_nvs env) (hn_prefs s) = (err, q)" by fastforce
  then have "err = ESP_OK" "s\<lparr>hn_prefs := q\<rparr> = s\<lparr>hn_prefs := p\<rparr>"
    using assms by (simp_all add: net_store_init_def hmi_prefs_store_init_def)
  then have "err = ESP_OK" "q = p" by (metis hmi_net.select_convs(2) hmi_net.update_convs(2) hmi_net.surjective)+
  then show ?thesis using e ensure_secure_nvs_ok by blast
qed

lemma store_cached_log:
  assumes "cache_keeps env" "store_ready env s" "uri \<noteq> []"
  shows "\<exists>t. hn_log (store_cached_service env uri s) =
    [CacheClose, CacheCommit, CacheSetTs t, NetReadTime, CacheSetSni (hn_server_name s), CacheSetUri uri, CacheOpen True] @ hn_log s"
  using assms net_store_init_ready [OF assms(2)]
  by (auto simp: store_cached_service_def cache_write_def net_do_def net_emit_def net_time_def cache_keeps_def)

lemma invalidate_log:
  "cached_uri (hn_log (invalidate_cached_service env s)) = None \<or> hn_log (invalidate_cached_service env s) = hn_log s \<or>
    hn_log (invalidate_cached_service env s) = CacheOpen True # hn_log s"
  by (auto simp: invalidate_cached_service_def net_store_init_def net_do_def net_emit_def split: prod.split)

lemma unat_diff_wrapped:
  fixes a b :: u32
  shows "a < b \<Longrightarrow> unat (a - b) = 2 ^ 32 + unat a - unat b"
  by (simp add: unat_sub_if' word_less_nat_alt)

text \<open>
  A stored endpoint is found again until it expires, and lost by a restart. A load that
  follows a store finds the URI and its TLS name when no more than the configured time has passed
  on the millisecond count; otherwise the cache is erased. As the count starts again from
  zero with the node, a load after a restart sees a time before the stored one, takes the
  difference for an age of weeks and erases an endpoint that was stored a minute ago.
\<close>

theorem cached_endpoint_roundtrip:
  assumes "cache_keeps env" "store_ready env s" "uri \<noteq> []" "s1 = store_cached_service env uri s" "hn_log s2 = hn_log s1"
    "store_ready env s2" "cached_ts (hn_log s1) = Some stored" "load_cached_service env s2 = (found, s3)"
    "now = monotonic_time_ms (int (ne_time_us env ([CacheGetTs, CacheGetSni, CacheGetUri, CacheOpen False] @ hn_log s1)))"
    "ttl = unat (cache_ttl_ms (ne_build env))"
  shows "(ttl = 0 \<or> unat (now - stored) \<le> ttl \<longrightarrow> found = Some uri \<and> hn_server_name s3 = hn_server_name s) \<and>
    (ttl \<noteq> 0 \<and> unat (now - stored) > ttl \<longrightarrow> found = None \<and> CacheEraseUri \<in> set (hn_log s3)) \<and>
    (ttl \<noteq> 0 \<and> now < stored \<and> ttl + unat stored < 2 ^ 32 + unat now \<longrightarrow> found = None \<and> CacheEraseUri \<in> set (hn_log s3))"
proof -
  obtain t where l1: "hn_log s1 =
      [CacheClose, CacheCommit, CacheSetTs t, NetReadTime, CacheSetSni (hn_server_name s), CacheSetUri uri, CacheOpen True] @ hn_log s"
    using store_cached_log [OF assms(1-3)] assms(4) by blast
  then have t: "t = stored" using assms(7) by simp
  obtain p where i: "net_store_init env s2 = (ESP_OK, s2\<lparr>hn_prefs := p\<rparr>)" using net_store_init_ready [OF assms(6)] by blast
  have r: "ne_result env evs ev = ESP_OK" for evs ev using assms(1) by (simp add: cache_keeps_def)
  let ?l = "[CacheOpen False] @ hn_log s1"
  have u: "ne_str env ?l CacheGetUri = uri" "ne_str env (CacheGetUri # ?l) CacheGetSni = hn_server_name s"
    "ne_u32 env (CacheGetSni # CacheGetUri # ?l) = stored"
    using assms(1) by (simp_all add: cache_keeps_def l1 t)
  let ?old = "cache_ttl_ms (ne_build env) > 0 \<and> ucast (now - stored) > cache_ttl_ms (ne_build env)"
  let ?s = "s2\<lparr>hn_prefs := p, hn_server_name := hn_server_name s,
      hn_log := [CacheClose, NetReadTime, CacheGetTs, CacheGetSni, CacheGetUri] @ ?l\<rparr>"
  have load: "(found, s3) = (if ?old then (None, invalidate_cached_service env ?s) else (Some uri, ?s))"
    using assms(8) i u assms(5) unfolding assms(9)
    by (cases s2) (auto simp: load_cached_service_def net_do_def net_emit_def net_time_def cache_read_sni_def cache_check_age_def r Let_def
        split: if_splits)
  have old: "?old \<longleftrightarrow> ttl \<noteq> 0 \<and> unat (now - stored) > ttl"
    using assms(10) by (auto simp: word_less_nat_alt unat_gt_0)
  have wrap: "ttl \<noteq> 0 \<and> now < stored \<and> ttl + unat stored < 2 ^ 32 + unat now \<longrightarrow> ttl \<noteq> 0 \<and> unat (now - stored) > ttl"
    using unat_diff_wrapped [of now stored] by auto
  have erased: "CacheEraseUri \<in> set (hn_log (invalidate_cached_service env ?s))"
    using net_store_init_done [OF i]
    by (simp add: invalidate_cached_service_def net_do_def r net_emit_def net_store_init_def hmi_prefs_store_init_def ensure_secure_nvs_def)
  show ?thesis using load old wrap erased by (auto split: if_splits)
qed

section \<open>Discovery ends\<close>

definition queries :: "net_log \<Rightarrow> nat" where "queries evs = length (filter (\<lambda>ev. ev = MdnsQuery) evs)"

text \<open>The clock never goes back, and a delay takes at least half of its time.\<close>

definition clock_advances :: "net_env \<Rightarrow> bool" where
  "clock_advances env \<longleftrightarrow> (\<forall>evs ev. ne_time_us env evs \<le> ne_time_us env (ev # evs)) \<and>
     (\<forall>evs ms. ne_time_us env evs + 500 * ms \<le> ne_time_us env (NetDelayMs ms # evs))"

definition extends_log :: "nat \<Rightarrow> hmi_net \<Rightarrow> hmi_net \<Rightarrow> bool" where
  "extends_log k s s' \<longleftrightarrow> (\<exists>pre. hn_log s' = pre @ hn_log s \<and> queries pre = k)"

lemma extends_refl: "hn_log s' = hn_log s \<Longrightarrow> extends_log 0 s s'"
  by (auto simp: extends_log_def queries_def)

lemma extends_self: "extends_log 0 s s"
  by (rule extends_refl) simp

lemma extends_trans: "extends_log k s s' \<Longrightarrow> extends_log l s' s'' \<Longrightarrow> extends_log (k + l) s s''"
proof -
  assume "extends_log k s s'" "extends_log l s' s''"
  then obtain p q where "hn_log s' = p @ hn_log s" "queries p = k" "hn_log s'' = q @ hn_log s'" "queries q = l"
    by (auto simp: extends_log_def)
  then have "hn_log s'' = (q @ p) @ hn_log s" "queries (q @ p) = k + l" by (simp_all add: queries_def)
  then show ?thesis unfolding extends_log_def by blast
qed

lemma extends_emit: "extends_log k s s' \<Longrightarrow> extends_log (k + (if ev = MdnsQuery then 1 else 0)) s (net_emit ev s')"
proof -
  assume "extends_log k s s'"
  then obtain pre where "hn_log s' = pre @ hn_log s" "queries pre = k" by (auto simp: extends_log_def)
  then have "hn_log (net_emit ev s') = (ev # pre) @ hn_log s" "queries (ev # pre) = k + (if ev = MdnsQuery then 1 else 0)"
    by (simp_all add: net_emit_def queries_def)
  then show ?thesis unfolding extends_log_def by blast
qed

lemma extends_emit0: "extends_log k s s' \<Longrightarrow> ev \<noteq> MdnsQuery \<Longrightarrow> extends_log k s (net_emit ev s')"
  using extends_emit [of k s s' ev] by simp

lemma extends_time: "clock_advances env \<Longrightarrow> extends_log k s s' \<Longrightarrow> ne_time_us env (hn_log s) \<le> ne_time_us env (hn_log s')"
proof -
  assume c: "clock_advances env" and "extends_log k s s'"
  then obtain pre where "hn_log s' = pre @ hn_log s" by (auto simp: extends_log_def)
  moreover have "ne_time_us env evs \<le> ne_time_us env (pre @ evs)" for evs
    by (induction pre) (use c in \<open>auto simp: clock_advances_def intro: order_trans\<close>)
  ultimately show ?thesis by simp
qed

lemma net_store_init_log: "net_store_init env s = (err, s') \<Longrightarrow> hn_log s' = hn_log s"
  by (auto simp: net_store_init_def split: prod.splits)

lemma cache_write_log: "extends_log 0 s (snd (cache_write env uri s))"
  by (auto simp: cache_write_def net_do_def net_time_def intro!: extends_emit0 extends_self split: prod.split)

lemma store_extends: "extends_log 0 s (store_cached_service env uri s)"
proof -
  obtain err s1 where i: "net_store_init env s = (err, s1)" by fastforce
  have s1: "extends_log 0 s s1" by (rule extends_refl) (rule net_store_init_log [OF i])
  have "extends_log 0 s (net_emit (CacheOpen True) s1)" by (rule extends_emit0 [OF s1]) simp
  from extends_trans [OF this cache_write_log] have "extends_log 0 s (snd (cache_write env uri (net_emit (CacheOpen True) s1)))" by simp
  then show ?thesis using s1
    by (auto simp: store_cached_service_def i net_do_def intro!: extends_emit0 extends_self)
qed

lemma discover_query_extends: "extends_log 1 s (snd (discover_query env n s))"
proof -
  have q: "extends_log 1 s (net_emit MdnsQuery s)" using extends_emit [OF extends_refl [of s s], of MdnsQuery] by simp
  have "extends_log 1 s (net_emit MdnsFree (store_cached_service env uri ((net_emit MdnsQuery s)\<lparr>hn_server_name := name\<rparr>)))" for uri name
  proof (rule extends_emit0)
    have "extends_log 1 s ((net_emit MdnsQuery s)\<lparr>hn_server_name := name\<rparr>)"
      using extends_trans [OF q extends_refl] by simp
    from extends_trans [OF this store_extends]
    show "extends_log 1 s (store_cached_service env uri ((net_emit MdnsQuery s)\<lparr>hn_server_name := name\<rparr>))" by simp
  qed simp
  with q show ?thesis
    by (auto simp: discover_query_def net_do_def Let_def intro!: extends_emit0 split: option.split prod.split)
qed

lemma discover_loop_ends:
  assumes "clock_advances env" "hb_discovery_timeout_ms (ne_build env) \<noteq> 0"
  shows "int (unat (hb_discovery_timeout_ms (ne_build env))) - (int (ne_time_us env (hn_log s) div 1000) - start) \<le> int k \<Longrightarrow>
    \<exists>found s' j. discover_loop env n start s = Some (found, s') \<and> extends_log j s s' \<and> j \<le> k div 1000 + 1"
proof (induction k arbitrary: s rule: less_induct)
  case (less k)
  let ?t = "hb_discovery_timeout_ms (ne_build env)"
  obtain go_on s1 where m: "discover_more env start s = (go_on, s1)" by fastforce
  have s1: "extends_log 0 s s1" using m assms(2)
    by (auto simp: discover_more_def net_time_def Let_def intro!: extends_emit0 extends_self split: if_splits)
  obtain r s2 where q: "discover_query env n s1 = (r, s2)" by fastforce
  have s2: "extends_log 1 s s2" using extends_trans [OF s1 discover_query_extends [of s1 env n]] by (simp add: q)
  let ?s3 = "net_emit (NetDelayMs 2000) s2"
  obtain expired s4 where e: "discover_expired env start ?s3 = (expired, s4)" by fastforce
  have s4: "extends_log 1 s s4" using e assms(2) s2
    by (auto simp: discover_expired_def net_time_def Let_def intro!: extends_emit0 split: if_splits)
  show ?case
  proof (cases "go_on \<and> r = None \<and> \<not> expired")
    case False
    have "\<exists>found s'. discover_loop env n start s = Some (found, s') \<and> (extends_log 0 s s' \<or> extends_log 1 s s')"
      by (subst discover_loop.simps) (use False s1 s2 s4 in \<open>auto simp: m q e split: option.split\<close>)
    then show ?thesis by (metis le_add2 le0)
  next
    case True
    have "ne_time_us env (hn_log s) + 1000000 \<le> ne_time_us env (hn_log ?s3)"
    proof -
      have "ne_time_us env (hn_log s2) + 500 * 2000 \<le> ne_time_us env (NetDelayMs 2000 # hn_log s2)"
        using assms(1) unfolding clock_advances_def by blast
      with extends_time [OF assms(1) s2] show ?thesis by (simp add: net_emit_def)
    qed
    then have later: "ne_time_us env (hn_log s) div 1000 + 1000 \<le> ne_time_us env (hn_log ?s3) div 1000" by simp
    have "ne_time_us env (hn_log ?s3) \<le> ne_time_us env (hn_log s4)"
      using e assms(1,2) by (auto simp: discover_expired_def net_time_def net_emit_def Let_def clock_advances_def)
    then have "ne_time_us env (hn_log ?s3) div 1000 \<le> ne_time_us env (hn_log s4) div 1000" by (rule div_le_mono)
    moreover have "int (ne_time_us env (hn_log ?s3) div 1000) - start < int (unat ?t)"
      using e True assms(2) by (auto simp: discover_expired_def net_time_def Let_def)
    ultimately have k: "1000 \<le> k" "int (unat ?t) - (int (ne_time_us env (hn_log s4) div 1000) - start) \<le> int (k - 1000)"
      using later less.prems by linarith+
    obtain found s' j where "discover_loop env n start s4 = Some (found, s')" "extends_log j s4 s'" "j \<le> (k - 1000) div 1000 + 1"
      using less.IH [OF _ k(2)] k(1) by auto
    moreover have "discover_loop env n start s = discover_loop env n start s4"
      by (subst discover_loop.simps) (use True in \<open>simp add: m q e\<close>)
    moreover have "1 + j \<le> k div 1000 + 1" using \<open>j \<le> (k - 1000) div 1000 + 1\<close> k(1) by (simp add: le_div_geq)
    ultimately show ?thesis using extends_trans [OF s4, of j s'] by auto
  qed
qed

lemma load_extends: "extends_log 0 s (snd (load_cached_service env s))"
proof -
  have inv: "extends_log 0 s (invalidate_cached_service env s')" if e: "extends_log 0 s s'" for s'
  proof -
    obtain err s1 where i: "net_store_init env s' = (err, s1)" by fastforce
    have s1: "extends_log 0 s s1" using extends_trans [OF e extends_refl [OF net_store_init_log [OF i]]] by simp
    then show ?thesis by (auto simp: invalidate_cached_service_def i net_do_def intro!: extends_emit0)
  qed
  obtain err s1 where i: "net_store_init env s = (err, s1)" by fastforce
  have s1: "extends_log 0 s s1" by (rule extends_refl [OF net_store_init_log [OF i]])
  have name: "extends_log 0 s (s'\<lparr>hn_server_name := name\<rparr>)" if "extends_log 0 s s'" for s' name
    using extends_trans [OF that extends_refl] by simp
  show ?thesis
    by (auto simp: load_cached_service_def i net_do_def cache_read_sni_def cache_check_age_def net_time_def Let_def
        intro!: extends_emit0 inv name s1 split: prod.splits if_splits)
qed

lemma discovery_loop_returns:
  assumes "clock_advances env" "hb_discovery_timeout_ms (ne_build env) \<noteq> 0"
  shows "\<exists>found s'. discover_service env n s = Some (found, s') \<and>
    queries (hn_log s') \<le> queries (hn_log s) + unat (hb_discovery_timeout_ms (ne_build env)) div 1000 + 1"
proof -
  let ?t = "hb_discovery_timeout_ms (ne_build env)"
  let ?s = "net_emit MdnsInit (s\<lparr>hn_server_name := discovered_server_name None\<rparr>)"
  obtain us s1 where t: "net_time env ?s = (us, s1)" by fastforce
  have time: "us div 1000 \<le> ne_time_us env (hn_log s1) div 1000"
    using t assms(1) by (intro div_le_mono) (auto simp: net_time_def net_emit_def clock_advances_def)
  have s1: "extends_log 0 s s1"
    using t extends_emit0 [OF extends_emit0 [OF extends_refl [of "s\<lparr>hn_server_name := discovered_server_name None\<rparr>" s]]]
    by (auto simp: net_time_def)
  obtain found s2 j where l: "discover_loop env n (int (us div 1000)) s1 = Some (found, s2)" "extends_log j s1 s2" "j \<le> unat ?t div 1000 + 1"
    using discover_loop_ends [OF assms, of s1 "int (us div 1000)" "unat ?t" n] time by auto
  have j: "extends_log j s s2" "extends_log j s (snd (load_cached_service env s2))"
    using extends_trans [OF s1 l(2)] extends_trans [OF extends_trans [OF s1 l(2)] load_extends] by simp_all
  have bound: "queries (hn_log s') \<le> queries (hn_log s) + unat ?t div 1000 + 1" if "extends_log j s s'" for s'
    using that l(3) by (auto simp: extends_log_def queries_def)
  show ?thesis
    by (cases found; cases "load_cached_service env s2") (use l(1) j bound in \<open>auto simp: discover_service_def t Let_def\<close>)
qed

text \<open>
  Discovery ends. With a timeout, on a clock that never goes back and on which a delay takes
  at least half of its time, the search for a service returns, whatever mDNS answers, after at
  most one query per second of the timeout and one more.
\<close>

theorem discovery_ends:
  assumes "clock_advances env" "hb_discovery_timeout_ms (ne_build env) \<noteq> 0"
  shows "\<exists>found s'. discover_service env n s = Some (found, s') \<and>
    queries (hn_log s') \<le> queries (hn_log s) + unat (hb_discovery_timeout_ms (ne_build env)) div 1000 + 1"
  using assms by (rule discovery_loop_returns)

text \<open>A network without any service, a clock on which only delays take time, and a flash that keeps what it is given.\<close>

definition demo_build :: hmi_build where
  "demo_build = \<lparr>hb_discovery_timeout_ms = 12000, hb_cache_ttl_minutes = 120, hb_tls_sni_override = [],
     hb_sensor_hostname = ''sensor-node.local'', hb_sensor_port = 8443, hb_sec2_salt_base64 = ''AQID'', hb_sec2_verifier_base64 = ''AQID'',
     hb_wifi = \<lparr>wcf_power_save = False, wcf_service_name_suffix = None, wcf_pop = None, wcf_service_key = None, wcf_prefer_ble = True,
       wcf_force_provisioning = False, wcf_provisioning_timeout_ms = 180000, wcf_connect_timeout_ms = 20000,
       wcf_max_connect_attempts = 5, wcf_sec2_params = None, wcf_sec2_username = None\<rparr>,
     hb_crypto_secret_base64 = ''AQID'', hb_totp_secret_base32 = [], hb_enable_encryption = True, hb_enable_handshake = False,
     hb_enable_totp = False, hb_auth_token = [], hb_totp_period_s = 30, hb_totp_digits = 6, hb_totp_window = 1\<rparr>"

definition demo_net_env :: "mdns_result list \<Rightarrow> net_env" where
  "demo_net_env services = \<lparr>ne_build = demo_build, ne_nvs = demo_nvs, ne_result = (\<lambda>_ _. ESP_OK),
     ne_str = (\<lambda>evs ev. if ev = CacheGetUri then (case cached_uri evs of Some u \<Rightarrow> u | None \<Rightarrow> [])
        else case cached_sni evs of Some n \<Rightarrow> n | None \<Rightarrow> []),
     ne_u32 = (\<lambda>evs. case cached_ts evs of Some t \<Rightarrow> t | None \<Rightarrow> 0),
     ne_time_us = (\<lambda>evs. sum_list (map (\<lambda>ev. case ev of NetDelayMs ms \<Rightarrow> 1000 * ms | _ \<Rightarrow> 0) evs)),
     ne_services = (\<lambda>_. services)\<rparr>"

definition demo_net :: hmi_net where
  "demo_net = \<lparr>hn_server_name = ''sensor'', hn_prefs = \<lparr>ps_ready = True, ps_log = []\<rparr>, hn_log = []\<rparr>"

lemma demo_net_env_ok: "clock_advances (demo_net_env services)" "cache_keeps (demo_net_env services)"
  by (auto simp: clock_advances_def cache_keeps_def demo_net_env_def)

theorem discovery_ends_witness:
  "\<exists>found s'. discover_service (demo_net_env []) HMI_URI_SIZE demo_net = Some (found, s') \<and> queries (hn_log s') \<le> 13"
  using discovery_ends [OF demo_net_env_ok(1), of "[]" HMI_URI_SIZE demo_net]
  by (simp add: demo_net_env_def demo_build_def demo_net_def queries_def)

theorem cached_endpoint_roundtrip_witness:
  "\<exists>found s'. load_cached_service (demo_net_env []) (store_cached_service (demo_net_env []) ''wss://10.0.0.2:8443/ws'' demo_net) = (found, s') \<and>
    found = Some ''wss://10.0.0.2:8443/ws'' \<and> hn_server_name s' = ''sensor''"
proof -
  let ?env = "demo_net_env []" and ?uri = "''wss://10.0.0.2:8443/ws''"
  obtain found s' where l: "load_cached_service ?env (store_cached_service ?env ?uri demo_net) = (found, s')" by fastforce
  have r: "store_ready ?env demo_net" by (simp add: store_ready_def hmi_prefs_store_init_def ensure_secure_nvs_def demo_net_def)
  have s: "store_cached_service ?env ?uri demo_net = demo_net\<lparr>hn_log := [CacheClose, CacheCommit, CacheSetTs 0, NetReadTime,
      CacheSetSni ''sensor'', CacheSetUri ?uri, CacheOpen True]\<rparr>"
    by (simp add: store_cached_service_def net_store_init_def hmi_prefs_store_init_def ensure_secure_nvs_def demo_net_def net_do_def
        net_emit_def cache_write_def net_time_def demo_net_env_def monotonic_time_ms_def)
  have "store_ready ?env (store_cached_service ?env ?uri demo_net)"
    unfolding s by (simp add: store_ready_def hmi_prefs_store_init_def ensure_secure_nvs_def demo_net_def)
  note ready = this
  let ?log = "hn_log (store_cached_service ?env ?uri demo_net)"
  have ts: "cached_ts ?log = Some 0" unfolding s by simp
  have "ne_time_us ?env ([CacheGetTs, CacheGetSni, CacheGetUri, CacheOpen False] @ ?log) = 0"
    unfolding s by (simp add: demo_net_env_def)
  then have now: "monotonic_time_ms (int (ne_time_us ?env ([CacheGetTs, CacheGetSni, CacheGetUri, CacheOpen False] @ ?log))) = 0"
    by (simp add: monotonic_time_ms_def)
  from cached_endpoint_roundtrip [OF demo_net_env_ok(2) r _ refl refl ready ts l now [symmetric] refl] l show ?thesis
    by (simp add: demo_net_def)
qed

section \<open>The start is guarded\<close>

lemma client_launch_client:
  assumes "client_launch env config cb st = (err, st')" "\<not> wc_client st" "wc_client st'"
  shows "err = ESP_OK \<and> CEvInit (the (wcc_uri config)) (wcc_tls_server_name config) (wc_header_block st) \<in> set (wc_log st') \<and> wc_sec st' = wc_sec st"
  using assms by (auto simp: client_launch_def Let_def note_ev_def client_reconnect_bounds_def cleanup_client_def free_headers_def split: if_splits)

lemma regenerate_headers_keeps:
  "regenerate_headers env st = (err, st') \<Longrightarrow> wc_client st' = wc_client st \<and> wc_sec st' = wc_sec st"
  by (auto simp: regenerate_headers_def Let_def note_ev_def split: if_splits prod.splits)

lemma ws_client_start_client:
  assumes "ws_client_start env (Some config) cb st = (err, st')" "\<not> wc_client st" "wc_client st'"
  shows "err = ESP_OK \<and> (\<exists>hdr. CEvInit (the (wcc_uri config)) (wcc_tls_server_name config) hdr \<in> set (wc_log st')) \<and>
    sec_encryption_enabled (wc_sec st') = wcc_enable_frame_encryption config"
proof -
  obtain e sec where i: "ws_security_context_init (cenv_crypto env) (Some (client_sec_config config)) = (e, sec)" by fastforce
  have e: "e = ESP_OK" using assms i by (cases e) (auto simp: ws_client_start_def split: if_splits)
  have enc: "sec_encryption_enabled (the (ws_security_reset_counters (Some sec))) = wcc_enable_frame_encryption config"
    using ws_security_context_init_ok [OF i [unfolded e]] by (simp add: client_sec_config_def ws_security_reset_counters_def)
  have launch: "\<exists>st0. client_launch env config cb st0 = (err, st') \<and> \<not> wc_client st0 \<and> wc_sec st0 = the (ws_security_reset_counters (Some sec))"
    using assms(1-3) unfolding ws_client_start_def option.case i e prod.case esp_err.case Let_def
    by (auto simp: free_headers_def note_ev_def dest!: regenerate_headers_keeps split: if_splits prod.splits esp_err.splits)
  then show ?thesis using client_launch_client [of env config cb] assms(3) enc by metis
qed

lemma ensure_wifi_fields:
  assumes "ensure_wifi_ready env app = Some (Returned ESP_OK, app')"
  shows "ha_wifi_ready app'" "ha_net app' = ha_net app" "ha_link app' = ha_link app"
  using assms by (auto simp: ensure_wifi_ready_def ensure_sec2_params_def Let_def split: if_splits prod.splits option.splits wifi_outcome.splits)

lemma load_secrets_fields:
  assumes "load_secrets env app = (stop, app')"
  shows "ha_net app' = ha_net app" "ha_link app' = ha_link app" "ha_wifi_ready app' = ha_wifi_ready app" "ha_wifi app' = ha_wifi app"
    "stop = None \<Longrightarrow> hb_enable_encryption (ne_build (he_net env)) \<or> hb_enable_handshake (ne_build (he_net env)) \<Longrightarrow> ha_ws_secret app' \<noteq> []"
    "stop = None \<Longrightarrow> hb_enable_totp (ne_build (he_net env)) \<Longrightarrow> ha_totp_secret app' \<noteq> []"
  using assms by (auto simp: load_secrets_def Let_def split: if_splits prod.splits)

text \<open>
  What stands behind the flag \<^verbatim>\<open>s_wifi_ready\<close>: it was set before, or this call started the Wi-Fi
  manager and got \<^verbatim>\<open>ESP_OK\<close>, with the station connected, or \<^verbatim>\<open>ESP_ERR_INVALID_STATE\<close>.
\<close>

definition wifi_was_started :: "hmi_env \<Rightarrow> hmi_app \<Rightarrow> hmi_app \<Rightarrow> bool" where
  "wifi_was_started env app app' \<longleftrightarrow>
     (if ha_wifi_ready app then ha_wifi app' = ha_wifi app
      else \<exists>cfg err. wifi_manager_start (he_wifi env) (Some cfg) (ha_wifi app) = Some (Returned err, ha_wifi app') \<and>
        (err = ESP_OK \<and> wifi_manager_is_connected (ha_wifi app') \<or> err = ESP_ERR_INVALID_STATE))"

lemma ensure_wifi_started:
  assumes "ensure_wifi_ready env app = Some (Returned ESP_OK, app')" "wifi_reachable (he_wifi env) (ha_wifi app)"
  shows "wifi_was_started env app app'"
proof (cases "ha_wifi_ready app")
  case True
  then show ?thesis using assms(1) by (simp add: ensure_wifi_ready_def wifi_was_started_def)
next
  case False
  obtain err app1 where s: "ensure_sec2_params env app = (err, app1)" by fastforce
  then have same: "ha_wifi app1 = ha_wifi app" by (auto simp: ensure_sec2_params_def Let_def split: if_splits prod.splits)
  obtain cfg err w where w: "wifi_manager_start (he_wifi env) (Some cfg) (ha_wifi app) = Some (Returned err, w)" "ha_wifi app' = w"
      "err = ESP_OK \<or> err = ESP_ERR_INVALID_STATE"
    using assms(1) False s same by (auto simp: ensure_wifi_ready_def Let_def split: if_splits option.splits prod.splits wifi_outcome.splits)
  have "err = ESP_OK \<Longrightarrow> wm_connected w" using wifi_start_good [OF w(1) wifi_reachable_inv [OF assms(2)]] by (simp add: wifi_good_def)
  then show ?thesis using False w by (auto simp: wifi_was_started_def wifi_manager_is_connected_def)
qed

text \<open>
  C24. The HMI node connects only when it may. A start that creates the WebSocket client, where
  there was none, succeeds. Before that the Wi-Fi was started: by an earlier call, which the flag
  \<^verbatim>\<open>s_wifi_ready\<close> remembers and nothing takes back, or by this one, which left the station
  connected or was answered with \<^verbatim>\<open>ESP_ERR_INVALID_STATE\<close>, and then nothing is known of the
  station. The client connects to the endpoint that discovery chose under the selected TLS name,
  has the secrets for every security feature that is enabled, and encrypts frames exactly when
  the build asks for it.
\<close>

theorem hmi_client_started_guarded:
  assumes "hmi_ws_client_start env model app = Some (out, app')" "wifi_reachable (he_wifi env) (ha_wifi app)"
    "\<not> wc_client (hl_client (ha_link app))" "wc_client (hl_client (ha_link app'))"
  shows "out = Returned ESP_OK \<and> model \<and> ha_wifi_ready app' \<and> wifi_was_started env app app' \<and>
    (\<exists>uri fallback n hdr. choose_endpoint (he_net env) (ha_net app) = Some ((uri, fallback), n) \<and>
      CEvInit uri (select_tls_server_name (ne_build (he_net env)) (hn_server_name n) fallback) hdr \<in> set (wc_log (hl_client (ha_link app')))) \<and>
    (hb_enable_encryption (ne_build (he_net env)) \<or> hb_enable_handshake (ne_build (he_net env)) \<longrightarrow> ha_ws_secret app' \<noteq> []) \<and>
    (hb_enable_totp (ne_build (he_net env)) \<longrightarrow> ha_totp_secret app' \<noteq> []) \<and>
    sec_encryption_enabled (wc_sec (hl_client (ha_link app'))) = hb_enable_encryption (ne_build (he_net env))"
proof -
  let ?cfg = "ne_build (he_net env)"
  have m: model using assms by (auto simp: hmi_ws_client_start_def split: if_splits)
  obtain out1 app1 where w: "ensure_wifi_ready env (app\<lparr>ha_link := (ha_link app)\<lparr>hl_next_command_seq := 0\<rparr>\<rparr>) = Some (out1, app1)"
    using assms(1) m by (auto simp: hmi_ws_client_start_def Let_def split: option.splits)
  have "out1 = Returned ESP_OK"
  proof (rule ccontr)
    assume "out1 \<noteq> Returned ESP_OK"
    then have "app' = app1" using assms(1) m w by (simp add: hmi_ws_client_start_def Let_def)
    moreover have "ha_link app1 = (ha_link app)\<lparr>hl_next_command_seq := 0\<rparr>"
      using w by (auto simp: ensure_wifi_ready_def ensure_sec2_params_def Let_def
          split: if_splits prod.splits option.splits wifi_outcome.splits)
    ultimately show False using assms(3,4) by simp
  qed
  note w = w [unfolded this] and f1 = ensure_wifi_fields [OF w [unfolded this]]
  have started1: "wifi_was_started env app app1"
    using ensure_wifi_started [OF w] assms(2) by (auto simp: wifi_was_started_def split: if_splits)
  obtain uri fallback n where c: "choose_endpoint (he_net env) (ha_net app1) = Some ((uri, fallback), n)"
    using assms(1) m w by (auto simp: hmi_ws_client_start_def Let_def split: option.splits)
  let ?tls = "select_tls_server_name ?cfg (hn_server_name n) fallback"
  have conn: "hmi_connect env uri ?tls (app1\<lparr>ha_net := n\<rparr>) = (out, app')"
    using assms(1) m w c by (simp add: hmi_ws_client_start_def Let_def)
  obtain stop app2 where l: "load_secrets env (app1\<lparr>ha_net := n\<rparr>) = (stop, app2)" by fastforce
  note f2 = load_secrets_fields [OF l]
  have stop: "stop = None"
  proof (rule ccontr)
    assume "stop \<noteq> None"
    then have "app' = app2" using conn l by (auto simp: hmi_connect_def)
    then show False using assms(3,4) f1 f2 by simp
  qed
  obtain err cl where s: "ws_client_start (he_cli env) (Some (hmi_client_config ?cfg uri ?tls app2)) True (hl_client (ha_link app2)) = (err, cl)"
    by fastforce
  have app': "ha_link app' = (ha_link app2)\<lparr>hl_client := cl\<rparr>" "ha_wifi_ready app' = ha_wifi_ready app2" "ha_wifi app' = ha_wifi app2"
    "ha_ws_secret app' = ha_ws_secret app2" "ha_totp_secret app' = ha_totp_secret app2"
    using conn by (auto simp: hmi_connect_def l stop s Let_def split: if_splits)
  have "\<not> wc_client (hl_client (ha_link app2))" "wc_client cl" using assms(3,4) f1 f2 app' by simp_all
  note started = ws_client_start_client [OF s this]
  have "out = Returned ESP_OK" using conn started by (auto simp: hmi_connect_def l stop s Let_def)
  moreover have "wifi_was_started env app app'" using started1 app'(3) f2(4) by (simp add: wifi_was_started_def)
  ultimately show ?thesis using started m f1 f2 c app' stop by (auto simp: hmi_client_config_def)
qed

text \<open>A node that comes online, in a network with the demonstration service.\<close>

definition demo_hmi_env :: hmi_env where
  "demo_hmi_env = \<lparr>he_net = demo_net_env [demo_service], he_wifi = demo_online_wifi, he_cli = demo_cli_env, he_base64 = (\<lambda>_ _. (B64_OK, [1, 2, 3]))\<rparr>"

definition demo_app :: hmi_app where
  "demo_app = \<lparr>ha_net = demo_net, ha_wifi = wifi_manager_reset_state, ha_link = demo_link\<lparr>hl_client := demo_client\<lparr>wc_client := False\<rparr>\<rparr>,
     ha_sec2 = \<lparr>sec2_salt = None, sec2_salt_len = 0, sec2_verifier = None, sec2_verifier_len = 0\<rparr>, ha_sec2_loaded = False, ha_wifi_ready = False,
     ha_ws_secret = [], ha_totp_secret = []\<rparr>"

lemma demo_start_connects:
  "\<exists>c. ws_client_start demo_cli_env (Some (hmi_client_config demo_build uri tls (app\<lparr>ha_ws_secret := [1, 2, 3], ha_totp_secret := []\<rparr>))) True
     (demo_client\<lparr>wc_client := False\<rparr>) = (ESP_OK, c) \<and> wc_client c"
  by (simp add: ws_client_start_def hmi_client_config_def demo_build_def client_sec_config_def demo_client_def demo_cli_env_def
      ws_security_context_init_def init_handshake_def init_encryption_def init_totp_def derive_key_def demo_crypto_def
      ws_security_reset_counters_def ws_security_is_handshake_enabled_def ws_security_is_totp_enabled_def ws_security_totp_digits_def
      header_length_def client_launch_def client_reconnect_bounds_def note_ev_def Let_def ws_security_zero_def)

theorem hmi_client_started_guarded_witness:
  "\<exists>app'. hmi_ws_client_start demo_hmi_env True demo_app = Some (Returned ESP_OK, app') \<and> ha_ws_secret app' \<noteq> [] \<and>
    sec_encryption_enabled (wc_sec (hl_client (ha_link app'))) \<and> wifi_manager_is_connected (ha_wifi app')"
proof -
  obtain uri fallback n where c: "choose_endpoint (demo_net_env [demo_service]) demo_net = Some ((uri, fallback), n)"
  proof -
    have "hb_discovery_timeout_ms (ne_build (demo_net_env [demo_service])) \<noteq> 0" by (simp add: demo_net_env_def demo_build_def)
    from discovery_loop_returns [OF demo_net_env_ok(1) this] obtain found s where
      "discover_service (demo_net_env [demo_service]) HMI_URI_SIZE demo_net = Some (found, s)" by blast
    then show ?thesis using that by (cases found) (simp_all add: choose_endpoint_def Let_def)
  qed
  let ?tls = "select_tls_server_name demo_build (hn_server_name n) fallback"
  let ?sec2 = "\<lparr>sec2_salt = Some [1, 2, 3], sec2_salt_len = 3, sec2_verifier = Some [1, 2, 3], sec2_verifier_len = 3\<rparr>"
  let ?cfg = "(hb_wifi demo_build)\<lparr>wcf_power_save := False, wcf_service_key := None, wcf_force_provisioning := False, wcf_sec2_params := Some ?sec2\<rparr>"
  obtain w where w: "wifi_manager_start demo_online_wifi (Some ?cfg) wifi_manager_reset_state = Some (Returned ESP_OK, w)" "wm_connected w"
    using online_start [of ?cfg] by (auto simp: sec2_usable_def demo_build_def)
  let ?up = "demo_app\<lparr>ha_link := (ha_link demo_app)\<lparr>hl_next_command_seq := 0\<rparr>, ha_sec2 := ?sec2, ha_sec2_loaded := True, ha_wifi := w, ha_wifi_ready := True\<rparr>"
  let ?app = "?up\<lparr>ha_net := n\<rparr>"
  obtain c where s: "ws_client_start demo_cli_env (Some (hmi_client_config demo_build uri ?tls (?app\<lparr>ha_ws_secret := [1, 2, 3], ha_totp_secret := []\<rparr>)))
      True (demo_client\<lparr>wc_client := False\<rparr>) = (ESP_OK, c)" "wc_client c" using demo_start_connects by blast
  have b: "ne_build (demo_net_env [demo_service]) = demo_build" "he_cli demo_hmi_env = demo_cli_env" "he_net demo_hmi_env = demo_net_env [demo_service]"
      "he_wifi demo_hmi_env = demo_online_wifi" "ha_wifi demo_app = wifi_manager_reset_state"
    by (simp_all add: demo_hmi_env_def demo_net_env_def demo_app_def)
  let ?start = "demo_app\<lparr>ha_link := (ha_link demo_app)\<lparr>hl_next_command_seq := 0\<rparr>\<rparr>"
  have "ensure_sec2_params demo_hmi_env ?start = (ESP_OK, ?start\<lparr>ha_sec2 := ?sec2, ha_sec2_loaded := True\<rparr>)"
    unfolding ensure_sec2_params_def b
    by (simp add: demo_build_def demo_hmi_env_def demo_app_def base64_utils_decode_def Let_def numeral_3_eq_3)
  then have online: "ensure_wifi_ready demo_hmi_env ?start = Some (Returned ESP_OK, ?up)"
    using w(1) b by (simp add: ensure_wifi_ready_def demo_app_def Let_def)
  have "load_secrets demo_hmi_env ?app = (None, ?app\<lparr>ha_ws_secret := [1, 2, 3], ha_totp_secret := []\<rparr>)"
    unfolding load_secrets_def b by (simp add: demo_build_def demo_hmi_env_def base64_utils_decode_def Let_def)
  then obtain app' where r: "hmi_ws_client_start demo_hmi_env True demo_app = Some (Returned ESP_OK, app')" "hl_client (ha_link app') = c" "ha_wifi app' = w"
    using s c b online by (simp add: hmi_ws_client_start_def hmi_connect_def demo_app_def Let_def)
  have "\<not> wc_client (hl_client (ha_link demo_app))" "\<not> ha_wifi_ready demo_app" by (simp_all add: demo_app_def)
  moreover have "wifi_reachable (he_wifi demo_hmi_env) (ha_wifi demo_app)" using wifi_reachable.reset b by simp
  ultimately have "ha_ws_secret app' \<noteq> [] \<and> sec_encryption_enabled (wc_sec (hl_client (ha_link app'))) \<and> wifi_was_started demo_hmi_env demo_app app'"
    using hmi_client_started_guarded [OF r(1)] r(2) s(2) b by (auto simp: demo_build_def)
  then show ?thesis using r w(2) by (auto simp: wifi_manager_is_connected_def)
qed

section \<open>The network task\<close>

text \<open>
  One turn of the endless loop of \<^verbatim>\<open>tasks/t_net_rx.c\<close>, with the flag \<^verbatim>\<open>ws_started\<close>; \<open>None\<close> when the
  start does not return or stops the node.
\<close>

definition net_task_turn ::
  "hmi_env \<Rightarrow> bool \<Rightarrow> bool \<times> hmi_app \<times> hmi_data_model_t \<Rightarrow> (bool \<times> hmi_app \<times> hmi_data_model_t) option" where
  "net_task_turn env took st =
     (case st of (ws_started, app, model) \<Rightarrow>
        let publish = (\<lambda>app. (True, app, hmi_data_model_set_connected took (hmi_ws_client_is_connected app) model)) in
        if ws_started then Some (publish app)
        else case hmi_ws_client_start env True app of
          None \<Rightarrow> None
        | Some (Aborted _, _) \<Rightarrow> None
        | Some (Returned err, app) \<Rightarrow> if err = ESP_OK then Some (publish app) else Some (False, app, model))"

text \<open>After a start that succeeded, the task never searches for the sensor node again.\<close>

lemma net_task_never_rediscovers:
  "net_task_turn env took (True, app, model) = Some (started, app', model') \<Longrightarrow> started \<and> app' = app"
  by (simp add: net_task_turn_def Let_def)

end
