(* ===== verification/Ota.thy ===== *)
theory Ota
  imports Prelude
begin

text \<open>
  The firmware update of both nodes, \<^verbatim>\<open>common/ota/ota_update.c\<close>: a task that downloads an
  image over HTTPS, lets a callback of the node accept or reject it, writes it to flash, and
  retries with a growing delay.

  The OTA library, flash (NVS) and the scheduler are the environment. Every call of them is
  an event of the log, newest first, that carries its result; the result is a function of the
  log before the call. A callback is a function of the log and its arguments. The task has no
  other state. A loop that ends only when the environment lets it is a partial function, so
  that a run which never ends is the value \<open>None\<close>. Logging calls are left out.
\<close>

section \<open>Calls and configuration\<close>

text \<open>What the sources use of \<^verbatim>\<open>esp_app_desc_t\<close>.\<close>

record esp_app_desc_t =
  app_version :: string
  app_elf_sha256 :: bytes

definition zero_app_desc :: esp_app_desc_t where
  "zero_app_desc = \<lparr>app_version = [], app_elf_sha256 = replicate 32 0\<rparr>"

datatype ota_event =
    OtaDelay nat
  | OtaMarkValid esp_err
  | OtaConnectivity bool
  | OtaRunningPartition bool | OtaPartitionDesc esp_err
  | OtaNvsOpen string bool esp_err | OtaNvsGetStr string esp_err | OtaNvsSetStr string string esp_err
  | OtaNvsCommit esp_err | OtaNvsClose
  | OtaBegin "string option" esp_err | OtaImgDesc esp_err | OtaValidate esp_app_desc_t esp_err
  | OtaPerform esp_err | OtaComplete bool | OtaFinish esp_err | OtaAbort
  | OtaRestart | OtaFreeConfig | OtaDeleteTask

type_synonym ota_log = "ota_event list"

record ota_env =
  oe_mark_valid :: "ota_log \<Rightarrow> esp_err"
  oe_running_partition :: "ota_log \<Rightarrow> bool"
  oe_partition_desc :: "ota_log \<Rightarrow> esp_err \<times> esp_app_desc_t"
  oe_nvs_open :: "ota_log \<Rightarrow> esp_err"
  oe_nvs_get_str :: "ota_log \<Rightarrow> esp_err \<times> string"
  oe_nvs_set_str :: "ota_log \<Rightarrow> esp_err"
  oe_nvs_commit :: "ota_log \<Rightarrow> esp_err"
  oe_begin :: "ota_log \<Rightarrow> esp_err"
  oe_img_desc :: "ota_log \<Rightarrow> esp_err \<times> esp_app_desc_t"
  oe_perform :: "ota_log \<Rightarrow> esp_err"
  oe_complete :: "ota_log \<Rightarrow> bool"
  oe_finish :: "ota_log \<Rightarrow> esp_err"

record ota_update_config_t =
  ota_url :: "string option"
  ota_cert_pem :: "bytes option"
  ota_cert_len :: nat
  ota_auto_reboot :: bool
  ota_check_delay_ms :: u32
  ota_wait_for_connectivity :: "(ota_log \<Rightarrow> u32 \<Rightarrow> bool) option"
  ota_validate :: "(ota_log \<Rightarrow> esp_app_desc_t \<Rightarrow> esp_app_desc_t option \<Rightarrow> bytes \<Rightarrow> string option \<Rightarrow> esp_err) option"
  ota_initial_backoff_ms :: u32
  ota_max_backoff_ms :: u32
  ota_max_retries :: u8
  ota_nvs_namespace :: "string option"
  ota_nvs_key :: "string option"

definition OTA_DEFAULT_CHECK_DELAY_MS :: u32 where "OTA_DEFAULT_CHECK_DELAY_MS = 1000"
definition OTA_DEFAULT_INITIAL_BACKOFF_MS :: u32 where "OTA_DEFAULT_INITIAL_BACKOFF_MS = 5000"
definition OTA_DEFAULT_MAX_BACKOFF_MS :: u32 where "OTA_DEFAULT_MAX_BACKOFF_MS = 60000"
definition OTA_DEFAULT_MAX_RETRIES :: u8 where "OTA_DEFAULT_MAX_RETRIES = 5"

definition ota_get_namespace :: "ota_update_config_t \<Rightarrow> string" where
  "ota_get_namespace cfg = (case ota_nvs_namespace cfg of Some ns \<Rightarrow> ns | None \<Rightarrow> ''ota_state'')"

definition ota_get_version_key :: "ota_update_config_t \<Rightarrow> string" where
  "ota_get_version_key cfg = (case ota_nvs_key cfg of Some k \<Rightarrow> k | None \<Rightarrow> ''last_version'')"

section \<open>The version in flash\<close>

text \<open>The stored version, \<open>None\<close> when there is none, and the error of the calls.\<close>

definition ota_load_last_version ::
  "ota_env \<Rightarrow> ota_update_config_t \<Rightarrow> ota_log \<Rightarrow> (esp_err \<times> string option) \<times> ota_log" where
  "ota_load_last_version env cfg evs =
     (let err = oe_nvs_open env evs; evs = OtaNvsOpen (ota_get_namespace cfg) False err # evs in
      if err = ESP_ERR_NVS_NOT_FOUND then ((ESP_OK, None), evs)
      else if err \<noteq> ESP_OK then ((err, None), evs)
      else
        let (err, v) = oe_nvs_get_str env evs;
            evs = OtaNvsClose # OtaNvsGetStr (ota_get_version_key cfg) err # evs in
        if err = ESP_ERR_NVS_NOT_FOUND then ((ESP_OK, None), evs)
        else if err = ESP_OK then ((ESP_OK, Some v), evs)
        else ((err, None), evs))"

definition ota_store_last_version ::
  "ota_env \<Rightarrow> ota_update_config_t \<Rightarrow> string \<Rightarrow> ota_log \<Rightarrow> esp_err \<times> ota_log" where
  "ota_store_last_version env cfg version evs =
     (let err = oe_nvs_open env evs; evs = OtaNvsOpen (ota_get_namespace cfg) True err # evs in
      if err \<noteq> ESP_OK then (err, evs)
      else
        let err = oe_nvs_set_str env evs; evs = OtaNvsSetStr (ota_get_version_key cfg) version err # evs in
        if err = ESP_OK then
          (let err = oe_nvs_commit env evs in (err, OtaNvsClose # OtaNvsCommit err # evs))
        else (err, OtaNvsClose # evs))"

text \<open>The descriptor of the running image; \<open>None\<close> when \<^verbatim>\<open>false\<close> is returned.\<close>

definition ota_get_running_app_desc :: "ota_env \<Rightarrow> ota_log \<Rightarrow> esp_app_desc_t option \<times> ota_log" where
  "ota_get_running_app_desc env evs =
     (let found = oe_running_partition env evs; evs = OtaRunningPartition found # evs in
      if \<not> found then (None, evs)
      else let (err, desc) = oe_partition_desc env evs; evs = OtaPartitionDesc err # evs in
        if err \<noteq> ESP_OK then (None, evs) else (Some desc, evs))"

section \<open>One update\<close>

text \<open>The transfer loop: poll every 50 ms until the library reports an end.\<close>

partial_function (option) ota_transfer :: "ota_env \<Rightarrow> ota_log \<Rightarrow> (esp_err \<times> ota_log) option" where
  "ota_transfer env evs =
     (if oe_perform env evs = ESP_ERR_HTTPS_OTA_IN_PROGRESS
      then ota_transfer env (OtaDelay 50 # OtaPerform ESP_ERR_HTTPS_OTA_IN_PROGRESS # evs)
      else Some (oe_perform env evs, OtaPerform (oe_perform env evs) # evs))"

text \<open>The result: the error, the descriptor applied, and whether to try again.\<close>

record ota_outcome =
  oo_err :: esp_err
  oo_applied :: esp_app_desc_t
  oo_should_retry :: bool

definition ota_failed :: "esp_err \<Rightarrow> bool \<Rightarrow> ota_outcome" where
  "ota_failed err retry = \<lparr>oo_err = err, oo_applied = zero_app_desc, oo_should_retry = retry\<rparr>"

definition ota_install :: "ota_env \<Rightarrow> esp_app_desc_t \<Rightarrow> ota_log \<Rightarrow> (ota_outcome \<times> ota_log) option" where
  "ota_install env new_desc evs =
     (case ota_transfer env evs of
        None \<Rightarrow> None
      | Some (err, evs) \<Rightarrow>
          if err \<noteq> ESP_OK then Some (ota_failed err True, OtaAbort # evs)
          else
            let complete = oe_complete env evs; evs = OtaComplete complete # evs in
            if \<not> complete then Some (ota_failed ESP_ERR_INVALID_RESPONSE True, OtaAbort # evs)
            else
              let err = oe_finish env evs; evs = OtaFinish err # evs in
              if err \<noteq> ESP_OK then Some (ota_failed err (err \<noteq> ESP_ERR_OTA_VALIDATE_FAILED), evs)
              else Some (\<lparr>oo_err = ESP_OK, oo_applied = new_desc, oo_should_retry = False\<rparr>, evs))"

definition ota_perform_update ::
  "ota_env \<Rightarrow> ota_update_config_t \<Rightarrow> esp_app_desc_t option \<Rightarrow> string option \<Rightarrow> ota_log \<Rightarrow> (ota_outcome \<times> ota_log) option" where
  "ota_perform_update env cfg running_app stored_version evs =
     (let err = oe_begin env evs; evs = OtaBegin (ota_url cfg) err # evs in
      if err \<noteq> ESP_OK then Some (ota_failed err True, evs)
      else
        let (err, new_desc) = oe_img_desc env evs; evs = OtaImgDesc err # evs in
        if err \<noteq> ESP_OK then Some (ota_failed err True, OtaAbort # evs)
        else case ota_validate cfg of
          None \<Rightarrow> ota_install env new_desc evs
        | Some validate \<Rightarrow>
            let err = validate evs new_desc running_app (app_elf_sha256 new_desc) stored_version;
                evs = OtaValidate new_desc err # evs in
            if err \<noteq> ESP_OK then Some (ota_failed err False, OtaAbort # evs)
            else ota_install env new_desc evs)"

section \<open>The task\<close>

definition ota_next_backoff :: "u32 \<Rightarrow> u32 \<Rightarrow> u32" where
  "ota_next_backoff backoff_ms max_backoff_ms =
     (let next_backoff = (ucast backoff_ms :: u64) * 2 in
      if next_backoff > ucast max_backoff_ms then max_backoff_ms
      else if next_backoff = 0 then max_backoff_ms
      else ucast next_backoff)"

definition ota_succeeded :: "ota_env \<Rightarrow> ota_update_config_t \<Rightarrow> esp_app_desc_t \<Rightarrow> ota_log \<Rightarrow> ota_log" where
  "ota_succeeded env cfg applied evs =
     (case ota_store_last_version env cfg (app_version applied) evs of (_, evs) \<Rightarrow>
        if ota_auto_reboot cfg then OtaRestart # OtaDelay 1000 # evs
        else OtaDeleteTask # OtaFreeConfig # evs)"

text \<open>
  The \<^verbatim>\<open>for\<close> loop over the attempts, with the number of them that are left.
  \<^verbatim>\<open>esp_restart\<close> does not return.
\<close>

fun ota_attempts ::
  "ota_env \<Rightarrow> ota_update_config_t \<Rightarrow> esp_app_desc_t option \<Rightarrow> string option \<Rightarrow> u32 \<Rightarrow> nat \<Rightarrow> u32 \<Rightarrow> ota_log \<Rightarrow> ota_log option" where
  "ota_attempts env cfg running stored max_backoff_ms 0 backoff_ms evs = Some (OtaDeleteTask # OtaFreeConfig # evs)"
| "ota_attempts env cfg running stored max_backoff_ms (Suc left) backoff_ms evs =
     (case ota_perform_update env cfg running stored evs of
        None \<Rightarrow> None
      | Some (outcome, evs) \<Rightarrow>
          if oo_err outcome = ESP_OK then Some (ota_succeeded env cfg (oo_applied outcome) evs)
          else if \<not> oo_should_retry outcome then Some (OtaDeleteTask # OtaFreeConfig # evs)
          else if left > 0 then
            ota_attempts env cfg running stored max_backoff_ms left (ota_next_backoff backoff_ms max_backoff_ms)
              (if backoff_ms > 0 then OtaDelay (unat backoff_ms) # evs else evs)
          else ota_attempts env cfg running stored max_backoff_ms left backoff_ms evs)"

partial_function (option) ota_wait :: "(ota_log \<Rightarrow> u32 \<Rightarrow> bool) \<Rightarrow> ota_log \<Rightarrow> ota_log option" where
  "ota_wait wait evs =
     (if wait evs 5000 then Some (OtaConnectivity True # evs)
      else ota_wait wait (OtaDelay 2000 # OtaConnectivity False # evs))"

definition ota_max_attempts :: "ota_update_config_t \<Rightarrow> u8" where
  "ota_max_attempts cfg = (if ota_max_retries cfg \<noteq> 0 then ota_max_retries cfg else OTA_DEFAULT_MAX_RETRIES)"

definition ota_first_backoff :: "ota_update_config_t \<Rightarrow> u32" where
  "ota_first_backoff cfg = (if ota_initial_backoff_ms cfg \<noteq> 0 then ota_initial_backoff_ms cfg else OTA_DEFAULT_INITIAL_BACKOFF_MS)"

definition ota_backoff_limit :: "ota_update_config_t \<Rightarrow> u32" where
  "ota_backoff_limit cfg = (if ota_max_backoff_ms cfg \<noteq> 0 then ota_max_backoff_ms cfg else OTA_DEFAULT_MAX_BACKOFF_MS)"

definition ota_check_loop :: "ota_env \<Rightarrow> ota_update_config_t \<Rightarrow> ota_log \<Rightarrow> ota_log option" where
  "ota_check_loop env cfg evs =
     (case ota_get_running_app_desc env evs of (running, evs) \<Rightarrow>
      case ota_load_last_version env cfg evs of ((_, stored), evs) \<Rightarrow>
        ota_attempts env cfg running stored (ota_backoff_limit cfg)
          (unat (ota_max_attempts cfg)) (ota_first_backoff cfg) evs)"

definition ota_task :: "ota_env \<Rightarrow> ota_update_config_t option \<Rightarrow> ota_log \<Rightarrow> ota_log option" where
  "ota_task env arg evs =
     (case arg of
        None \<Rightarrow> Some (OtaDeleteTask # evs)
      | Some cfg \<Rightarrow>
          let evs = (if ota_check_delay_ms cfg > 0 then OtaDelay (unat (ota_check_delay_ms cfg)) # evs else evs);
              evs = OtaMarkValid (oe_mark_valid env evs) # evs in
          case ota_wait_for_connectivity cfg of
            None \<Rightarrow> ota_check_loop env cfg evs
          | Some wait \<Rightarrow> (case ota_wait wait evs of None \<Rightarrow> None | Some evs \<Rightarrow> ota_check_loop env cfg evs))"

definition ota_update_task_entry :: "ota_env \<Rightarrow> ota_update_config_t option \<Rightarrow> ota_log \<Rightarrow> ota_log option" where
  "ota_update_task_entry env arg evs = ota_task env arg evs"

text \<open>
  \<open>allocated\<close> and \<open>created\<close> are the results of \<^verbatim>\<open>malloc\<close> and \<^verbatim>\<open>xTaskCreate\<close>. The result is the
  error, and the configuration handed to the new task.
\<close>

definition ota_update_schedule :: "bool \<Rightarrow> bool \<Rightarrow> ota_update_config_t option \<Rightarrow> esp_err \<times> ota_update_config_t option" where
  "ota_update_schedule allocated created arg =
     (case arg of
        None \<Rightarrow> (ESP_ERR_INVALID_ARG, None)
      | Some config \<Rightarrow>
          if ota_url config = None then (ESP_ERR_INVALID_ARG, None)
          else if \<not> allocated then (ESP_ERR_NO_MEM, None)
          else
            let copy = config\<lparr>
              ota_check_delay_ms := if ota_check_delay_ms config = 0 then OTA_DEFAULT_CHECK_DELAY_MS else ota_check_delay_ms config,
              ota_initial_backoff_ms := if ota_initial_backoff_ms config = 0 then OTA_DEFAULT_INITIAL_BACKOFF_MS else ota_initial_backoff_ms config,
              ota_max_backoff_ms := if ota_max_backoff_ms config = 0 then OTA_DEFAULT_MAX_BACKOFF_MS else ota_max_backoff_ms config,
              ota_max_retries := if ota_max_retries config = 0 then OTA_DEFAULT_MAX_RETRIES else ota_max_retries config\<rparr>
            in if \<not> created then (ESP_ERR_NO_MEM, None) else (ESP_OK, Some copy))"

section \<open>The protocol of an update\<close>

text \<open>
  What the OTA library and the node may rely on, as a machine over the calls: an image is
  transferred only after its descriptor was read and, with a callback, accepted; a handle that
  was opened is released once, by an abort or by the finish; a rejected or corrupt image ends
  the task; the version is stored and the node restarts only after a finish that succeeded.
\<close>

datatype ota_phase = PIdle | POpened | PDescribed | PReady | PTransferred | PComplete | PFailing bool | PInstalled | PFinal | PGone

fun ota_quiet :: "ota_event \<Rightarrow> bool" where
  "ota_quiet (OtaDelay ms) = True"
| "ota_quiet (OtaMarkValid err) = True"
| "ota_quiet (OtaConnectivity ok) = True"
| "ota_quiet (OtaRunningPartition ok) = True"
| "ota_quiet (OtaPartitionDesc err) = True"
| "ota_quiet (OtaNvsOpen ns writing err) = (\<not> writing)"
| "ota_quiet (OtaNvsGetStr k err) = True"
| "ota_quiet OtaNvsClose = True"
| "ota_quiet e = False"

fun ota_storing :: "ota_event \<Rightarrow> bool" where
  "ota_storing (OtaNvsOpen ns writing err) = writing"
| "ota_storing (OtaNvsSetStr k v err) = True"
| "ota_storing (OtaNvsCommit err) = True"
| "ota_storing OtaNvsClose = True"
| "ota_storing e = False"

inductive ota_step :: "bool \<Rightarrow> ota_phase \<Rightarrow> ota_event \<Rightarrow> ota_phase \<Rightarrow> bool" for validating :: bool where
  quiet: "ota_quiet e \<Longrightarrow> ota_step validating PIdle e PIdle"
| delay: "ph \<in> {PReady, PInstalled} \<Longrightarrow> ota_step validating ph (OtaDelay ms) ph"
| begin_ok: "ota_step validating PIdle (OtaBegin url ESP_OK) POpened"
| begin_fail: "err \<noteq> ESP_OK \<Longrightarrow> ota_step validating PIdle (OtaBegin url err) PIdle"
| desc_ok: "ota_step validating POpened (OtaImgDesc ESP_OK) (if validating then PDescribed else PReady)"
| desc_fail: "err \<noteq> ESP_OK \<Longrightarrow> ota_step validating POpened (OtaImgDesc err) (PFailing True)"
| accept: "ota_step validating PDescribed (OtaValidate d ESP_OK) PReady"
| reject: "err \<noteq> ESP_OK \<Longrightarrow> ota_step validating PDescribed (OtaValidate d err) (PFailing False)"
| in_progress: "ota_step validating PReady (OtaPerform ESP_ERR_HTTPS_OTA_IN_PROGRESS) PReady"
| transferred: "ota_step validating PReady (OtaPerform ESP_OK) PTransferred"
| broken: "err \<noteq> ESP_OK \<Longrightarrow> err \<noteq> ESP_ERR_HTTPS_OTA_IN_PROGRESS \<Longrightarrow> ota_step validating PReady (OtaPerform err) (PFailing True)"
| complete: "ota_step validating PTransferred (OtaComplete True) PComplete"
| incomplete: "ota_step validating PTransferred (OtaComplete False) (PFailing True)"
| finish_ok: "ota_step validating PComplete (OtaFinish ESP_OK) PInstalled"
| finish_invalid: "ota_step validating PComplete (OtaFinish ESP_ERR_OTA_VALIDATE_FAILED) PFinal"
| finish_fail: "err \<noteq> ESP_OK \<Longrightarrow> err \<noteq> ESP_ERR_OTA_VALIDATE_FAILED \<Longrightarrow> ota_step validating PComplete (OtaFinish err) PIdle"
| abort: "ota_step validating (PFailing retry) OtaAbort (if retry then PIdle else PFinal)"
| store: "ota_storing e \<Longrightarrow> ota_step validating PInstalled e PInstalled"
| free_config: "ph \<in> {PIdle, PInstalled, PFinal} \<Longrightarrow> ota_step validating ph OtaFreeConfig PFinal"
| delete_task: "ota_step validating PFinal OtaDeleteTask PGone"
| restart: "ota_step validating PInstalled OtaRestart PGone"

text \<open>The phase a log leads to.\<close>

inductive ota_reaches :: "bool \<Rightarrow> ota_log \<Rightarrow> ota_phase \<Rightarrow> bool" for validating :: bool where
  start: "ota_reaches validating [] PIdle"
| step: "ota_reaches validating evs ph \<Longrightarrow> ota_step validating ph e ph' \<Longrightarrow> ota_reaches validating (e # evs) ph'"

inductive_cases ota_reaches_nilE: "ota_reaches validating [] ph"
inductive_cases ota_reaches_consE: "ota_reaches validating (e # evs) ph"
inductive_simps ota_perform_step: "ota_step validating ph (OtaPerform err) ph'"
inductive_simps ota_restart_step: "ota_step validating ph OtaRestart ph'"
inductive_simps ota_begin_step: "ota_step validating ph (OtaBegin url err) ph'"

fun ota_begins :: "ota_log \<Rightarrow> nat" where
  "ota_begins [] = 0"
| "ota_begins (OtaBegin url err # evs) = Suc (ota_begins evs)"
| "ota_begins (e # evs) = ota_begins evs"

lemma ota_reaches_quiet:
  "ota_reaches v evs PIdle \<Longrightarrow> ota_quiet e \<Longrightarrow> ota_reaches v (e # evs) PIdle"
  by (rule ota_reaches.step [OF _ ota_step.quiet])

lemma ota_reaches_store: "ota_reaches v evs PInstalled \<Longrightarrow> ota_storing e \<Longrightarrow> ota_reaches v (e # evs) PInstalled"
  by (rule ota_reaches.step [OF _ ota_step.store])

lemma ota_transfer_path:
  assumes "ota_transfer env evs = Some r"
  shows "\<forall>v. ota_reaches v evs PReady \<longrightarrow>
    ota_reaches v (snd r) (if fst r = ESP_OK then PTransferred else PFailing True) \<and> ota_begins (snd r) = ota_begins evs"
proof (rule ota_transfer.raw_induct [where P = "\<lambda>env evs r. \<forall>v. ota_reaches v evs PReady \<longrightarrow>
    ota_reaches v (snd r) (if fst r = ESP_OK then PTransferred else PFailing True) \<and> ota_begins (snd r) = ota_begins evs", OF _ assms])
  fix f :: "ota_env \<Rightarrow> ota_log \<Rightarrow> (esp_err \<times> ota_log) option" and env evs r
  assume IH: "\<And>env evs r. f env evs = Some r \<Longrightarrow> \<forall>v. ota_reaches v evs PReady \<longrightarrow>
      ota_reaches v (snd r) (if fst r = ESP_OK then PTransferred else PFailing True) \<and> ota_begins (snd r) = ota_begins evs"
    and eq: "(if oe_perform env evs = ESP_ERR_HTTPS_OTA_IN_PROGRESS
      then f env (OtaDelay 50 # OtaPerform ESP_ERR_HTTPS_OTA_IN_PROGRESS # evs)
      else Some (oe_perform env evs, OtaPerform (oe_perform env evs) # evs)) = Some r"
  show "\<forall>v. ota_reaches v evs PReady \<longrightarrow>
    ota_reaches v (snd r) (if fst r = ESP_OK then PTransferred else PFailing True) \<and> ota_begins (snd r) = ota_begins evs"
  proof (cases "oe_perform env evs = ESP_ERR_HTTPS_OTA_IN_PROGRESS")
    case True
    with eq have "f env (OtaDelay 50 # OtaPerform ESP_ERR_HTTPS_OTA_IN_PROGRESS # evs) = Some r" by simp
    note IH [OF this]
    moreover have "ota_reaches v (OtaDelay 50 # OtaPerform ESP_ERR_HTTPS_OTA_IN_PROGRESS # evs) PReady"
      if "ota_reaches v evs PReady" for v
      using ota_reaches.step [OF that ota_step.in_progress] ota_step.delay by (rule ota_reaches.step) simp
    ultimately show ?thesis by auto
  next
    case False
    with eq show ?thesis
      by (auto intro!: ota_reaches.step [OF _ ota_step.transferred] ota_reaches.step [OF _ ota_step.broken])
  qed
qed

text \<open>The phase after an update, and after the task.\<close>

definition ota_phase_after :: "ota_outcome \<Rightarrow> ota_phase" where
  "ota_phase_after outcome = (if oo_err outcome = ESP_OK then PInstalled else if oo_should_retry outcome then PIdle else PFinal)"

lemma ota_install_path:
  assumes "ota_install env d evs = Some (outcome, evs')" "ota_reaches v evs PReady"
  shows "ota_reaches v evs' (ota_phase_after outcome)" "ota_begins evs' = ota_begins evs"
proof -
  obtain err evs1 where tr: "ota_transfer env evs = Some (err, evs1)" using assms(1) by (auto simp: ota_install_def split: option.splits)
  from ota_transfer_path [OF tr] assms(2)
  have r: "ota_reaches v evs1 (if err = ESP_OK then PTransferred else PFailing True)" and b: "ota_begins evs1 = ota_begins evs" by auto
  have fail: "ota_reaches v (OtaAbort # evs2) PIdle" if "ota_reaches v evs2 (PFailing True)" for evs2
    using ota_reaches.step [OF that ota_step.abort] by simp
  show "ota_reaches v evs' (ota_phase_after outcome)"
    using assms(1) r
    by (auto simp: ota_install_def tr Let_def ota_phase_after_def ota_failed_def split: if_splits
      intro!: fail ota_reaches.step [OF _ ota_step.finish_ok] ota_reaches.step [OF _ ota_step.finish_fail]
        ota_reaches.step [OF _ ota_step.finish_invalid] ota_reaches.step [OF _ ota_step.complete] ota_reaches.step [OF _ ota_step.incomplete])
  show "ota_begins evs' = ota_begins evs"
    using assms(1) b by (auto simp: ota_install_def tr Let_def split: if_splits)
qed

lemma ota_perform_update_path:
  assumes "ota_perform_update env cfg running stored evs = Some (outcome, evs')" "ota_reaches (ota_validate cfg \<noteq> None) evs PIdle"
  shows "ota_reaches (ota_validate cfg \<noteq> None) evs' (ota_phase_after outcome)" "ota_begins evs' = Suc (ota_begins evs)"
proof -
  have opened: "ota_reaches v (OtaBegin url ESP_OK # evs) POpened" if "ota_reaches v evs PIdle" for v url
    using that ota_step.begin_ok by (rule ota_reaches.step)
  have ready: "ota_reaches True (OtaValidate d ESP_OK # OtaImgDesc ESP_OK # OtaBegin url ESP_OK # evs) PReady"
    if "ota_reaches True evs PIdle" for d url
    using ota_reaches.step [OF ota_reaches.step [OF opened [OF that] ota_step.desc_ok], of _ _ ] ota_step.accept by simp
  have ready': "ota_reaches False (OtaImgDesc ESP_OK # OtaBegin url ESP_OK # evs) PReady"
    if "ota_reaches False evs PIdle" for url
    using ota_reaches.step [OF opened [OF that] ota_step.desc_ok] by simp
  have undescribed: "ota_reaches v (OtaAbort # OtaImgDesc err # OtaBegin url ESP_OK # evs) PIdle"
    if "ota_reaches v evs PIdle" "err \<noteq> ESP_OK" for v err url
    using ota_reaches.step [OF ota_reaches.step [OF opened [OF that(1)] ota_step.desc_fail [OF that(2)]] ota_step.abort] by simp
  have rejected: "ota_reaches True (OtaAbort # OtaValidate d err # OtaImgDesc ESP_OK # OtaBegin url ESP_OK # evs) PFinal"
    if "ota_reaches True evs PIdle" "err \<noteq> ESP_OK" for d err url
    using ota_reaches.step [OF ota_reaches.step [OF ota_reaches.step [OF opened [OF that(1)] ota_step.desc_ok], of _ "PFailing False"] ota_step.abort]
      ota_step.reject [OF that(2)] by simp
  from assms show "ota_reaches (ota_validate cfg \<noteq> None) evs' (ota_phase_after outcome)"
    by (auto simp: ota_perform_update_def Let_def ota_phase_after_def ota_failed_def split: if_splits prod.splits option.splits
      dest!: ota_install_path(1) [OF _ ready] ota_install_path(1) [OF _ ready']
      intro!: undescribed rejected ota_reaches.step [OF _ ota_step.begin_fail])
  from assms show "ota_begins evs' = Suc (ota_begins evs)"
    by (auto simp: ota_perform_update_def Let_def split: if_splits prod.splits option.splits
      dest!: ota_install_path(2) [OF _ ready] ota_install_path(2) [OF _ ready'])
qed

text \<open>The calls of a task before its first attempt, and after a success.\<close>

lemma ota_get_running_path:
  "ota_reaches v evs PIdle \<Longrightarrow> ota_get_running_app_desc env evs = (r, evs') \<Longrightarrow> ota_reaches v evs' PIdle \<and> ota_begins evs' = ota_begins evs"
  by (auto simp: ota_get_running_app_desc_def Let_def split: if_splits prod.splits intro!: ota_reaches_quiet)

lemma ota_load_path:
  "ota_reaches v evs PIdle \<Longrightarrow> ota_load_last_version env cfg evs = (r, evs') \<Longrightarrow> ota_reaches v evs' PIdle \<and> ota_begins evs' = ota_begins evs"
  by (auto simp: ota_load_last_version_def Let_def split: if_splits prod.splits intro!: ota_reaches_quiet)

lemma ota_succeeded_path:
  assumes "ota_reaches v evs PInstalled"
  shows "ota_reaches v (ota_succeeded env cfg d evs) PGone \<and> ota_begins (ota_succeeded env cfg d evs) = ota_begins evs"
proof -
  obtain err evs1 where st: "ota_store_last_version env cfg (app_version d) evs = (err, evs1)" by fastforce
  then have s: "ota_reaches v evs1 PInstalled" and b: "ota_begins evs1 = ota_begins evs"
    using assms by (auto simp: ota_store_last_version_def Let_def split: if_splits intro!: ota_reaches_store)
  have "ota_reaches v (OtaRestart # OtaDelay 1000 # evs1) PGone"
    using ota_reaches.step [OF ota_reaches.step [OF s ota_step.delay] ota_step.restart] by simp
  moreover have "ota_reaches v (OtaDeleteTask # OtaFreeConfig # evs1) PGone"
    using ota_reaches.step [OF ota_reaches.step [OF s ota_step.free_config] ota_step.delete_task] by simp
  ultimately show ?thesis using b by (simp add: ota_succeeded_def st)
qed

lemma ota_gone:
  "ota_reaches v evs ph \<Longrightarrow> ph \<in> {PIdle, PInstalled, PFinal} \<Longrightarrow> ota_reaches v (OtaDeleteTask # OtaFreeConfig # evs) PGone"
  using ota_reaches.step [OF ota_reaches.step [OF _ ota_step.free_config] ota_step.delete_task] by blast

lemma ota_attempts_path:
  assumes "ota_attempts env cfg running stored mx n backoff evs = Some evs'" "ota_reaches (ota_validate cfg \<noteq> None) evs PIdle"
  shows "ota_reaches (ota_validate cfg \<noteq> None) evs' PGone \<and> ota_begins evs' \<le> ota_begins evs + n"
  using assms
proof (induction n arbitrary: backoff evs)
  case 0
  then show ?case by (auto intro!: ota_gone)
next
  case (Suc n)
  then obtain outcome evs1 where up: "ota_perform_update env cfg running stored evs = Some (outcome, evs1)"
    by (auto split: option.splits)
  from ota_perform_update_path [OF up Suc.prems(2)]
  have r: "ota_reaches (ota_validate cfg \<noteq> None) evs1 (ota_phase_after outcome)" and b: "ota_begins evs1 = Suc (ota_begins evs)" by auto
  show ?case
  proof (cases "oo_err outcome \<noteq> ESP_OK \<and> oo_should_retry outcome")
    case False
    with Suc.prems(1) r b show ?thesis
      using ota_succeeded_path [of _ evs1 env cfg "oo_applied outcome"]
      by (auto simp: up ota_phase_after_def split: if_splits intro!: ota_gone)
  next
    case True
    then have idle: "ota_reaches (ota_validate cfg \<noteq> None) evs1 PIdle" using r by (auto simp: ota_phase_after_def)
    then have "ota_reaches (ota_validate cfg \<noteq> None) (OtaDelay ms # evs1) PIdle" for ms by (rule ota_reaches_quiet) simp
    with True Suc.prems(1) b idle ota_gone [OF idle] show ?thesis by (auto simp: up split: if_splits dest!: Suc.IH)
  qed
qed

lemma ota_wait_path:
  assumes "ota_wait wait evs = Some evs'"
  shows "\<forall>v. ota_reaches v evs PIdle \<longrightarrow> ota_reaches v evs' PIdle \<and> ota_begins evs' = ota_begins evs"
proof (rule ota_wait.raw_induct [where P = "\<lambda>wait evs evs'. \<forall>v. ota_reaches v evs PIdle \<longrightarrow>
    ota_reaches v evs' PIdle \<and> ota_begins evs' = ota_begins evs", OF _ assms])
  fix f :: "(ota_log \<Rightarrow> u32 \<Rightarrow> bool) \<Rightarrow> ota_log \<Rightarrow> ota_log option" and wait evs evs'
  assume IH: "\<And>wait evs evs'. f wait evs = Some evs' \<Longrightarrow> \<forall>v. ota_reaches v evs PIdle \<longrightarrow>
      ota_reaches v evs' PIdle \<and> ota_begins evs' = ota_begins evs"
    and eq: "(if wait evs 5000 then Some (OtaConnectivity True # evs)
      else f wait (OtaDelay 2000 # OtaConnectivity False # evs)) = Some evs'"
  show "\<forall>v. ota_reaches v evs PIdle \<longrightarrow> ota_reaches v evs' PIdle \<and> ota_begins evs' = ota_begins evs"
    using eq by (auto split: if_splits dest!: IH intro!: ota_reaches_quiet)
qed

lemma ota_task_path:
  assumes "ota_task env (Some cfg) evs = Some evs'" "ota_reaches (ota_validate cfg \<noteq> None) evs PIdle"
  shows "ota_reaches (ota_validate cfg \<noteq> None) evs' PGone \<and> ota_begins evs' \<le> ota_begins evs + unat (ota_max_attempts cfg)"
proof -
  let ?v = "ota_validate cfg \<noteq> None"
  define evs1 where "evs1 = (let evs = (if ota_check_delay_ms cfg > 0 then OtaDelay (unat (ota_check_delay_ms cfg)) # evs else evs)
    in OtaMarkValid (oe_mark_valid env evs) # evs)"
  have start: "ota_reaches ?v evs1 PIdle" "ota_begins evs1 = ota_begins evs"
    using assms(2) by (auto simp: evs1_def Let_def intro!: ota_reaches_quiet)
  have "\<exists>evs2. ota_check_loop env cfg evs2 = Some evs' \<and> ota_reaches ?v evs2 PIdle \<and> ota_begins evs2 = ota_begins evs"
  proof (cases "ota_wait_for_connectivity cfg")
    case None
    with assms(1) start show ?thesis by (auto simp: ota_task_def evs1_def Let_def)
  next
    case (Some wait)
    then obtain evs2 where "ota_wait wait evs1 = Some evs2" "ota_check_loop env cfg evs2 = Some evs'"
      using assms(1) by (auto simp: ota_task_def evs1_def Let_def split: option.splits)
    with ota_wait_path start show ?thesis by metis
  qed
  then obtain evs2 where loop: "ota_check_loop env cfg evs2 = Some evs'" and idle: "ota_reaches ?v evs2 PIdle" and b: "ota_begins evs2 = ota_begins evs"
    by blast
  obtain running evs3 where run: "ota_get_running_app_desc env evs2 = (running, evs3)" by fastforce
  obtain err stored evs4 where load: "ota_load_last_version env cfg evs3 = ((err, stored), evs4)" by (metis prod.exhaust)
  from ota_get_running_path [OF idle run] ota_load_path [OF _ load, of ?v]
  have "ota_reaches ?v evs4 PIdle" "ota_begins evs4 = ota_begins evs" using b by auto
  with loop ota_attempts_path show ?thesis by (fastforce simp: ota_check_loop_def run load)
qed

section \<open>Termination\<close>

text \<open>The log after \<open>n\<close> polls of a transfer in progress, and of a wait for connectivity.\<close>

fun ota_polls :: "nat \<Rightarrow> ota_log \<Rightarrow> ota_log" where
  "ota_polls 0 evs = evs"
| "ota_polls (Suc n) evs = ota_polls n (OtaDelay 50 # OtaPerform ESP_ERR_HTTPS_OTA_IN_PROGRESS # evs)"

fun ota_waits :: "nat \<Rightarrow> ota_log \<Rightarrow> ota_log" where
  "ota_waits 0 evs = evs"
| "ota_waits (Suc n) evs = ota_waits n (OtaDelay 2000 # OtaConnectivity False # evs)"

lemma ota_transfer_returns:
  "oe_perform env (ota_polls n evs) \<noteq> ESP_ERR_HTTPS_OTA_IN_PROGRESS \<Longrightarrow> \<exists>r. ota_transfer env evs = Some r"
proof (induction n arbitrary: evs)
  case 0
  then show ?case by (simp add: ota_transfer.simps)
next
  case (Suc n)
  then show ?case by (cases "oe_perform env evs = ESP_ERR_HTTPS_OTA_IN_PROGRESS") (auto simp: ota_transfer.simps [of env evs])
qed

lemma ota_transfer_ended:
  assumes "ota_transfer env evs = Some r"
  shows "\<exists>n. oe_perform env (ota_polls n evs) \<noteq> ESP_ERR_HTTPS_OTA_IN_PROGRESS"
proof (rule ota_transfer.raw_induct [where P = "\<lambda>env evs r. \<exists>n. oe_perform env (ota_polls n evs) \<noteq> ESP_ERR_HTTPS_OTA_IN_PROGRESS", OF _ assms])
  fix f :: "ota_env \<Rightarrow> ota_log \<Rightarrow> (esp_err \<times> ota_log) option" and env evs r
  assume IH: "\<And>env evs r. f env evs = Some r \<Longrightarrow> \<exists>n. oe_perform env (ota_polls n evs) \<noteq> ESP_ERR_HTTPS_OTA_IN_PROGRESS"
    and eq: "(if oe_perform env evs = ESP_ERR_HTTPS_OTA_IN_PROGRESS
      then f env (OtaDelay 50 # OtaPerform ESP_ERR_HTTPS_OTA_IN_PROGRESS # evs)
      else Some (oe_perform env evs, OtaPerform (oe_perform env evs) # evs)) = Some r"
  show "\<exists>n. oe_perform env (ota_polls n evs) \<noteq> ESP_ERR_HTTPS_OTA_IN_PROGRESS"
  proof (cases "oe_perform env evs = ESP_ERR_HTTPS_OTA_IN_PROGRESS")
    case True
    with eq have "f env (OtaDelay 50 # OtaPerform ESP_ERR_HTTPS_OTA_IN_PROGRESS # evs) = Some r" by simp
    from IH [OF this] show ?thesis by (metis ota_polls.simps(2))
  next
    case False
    then show ?thesis by (intro exI [of _ 0]) simp
  qed
qed

lemma ota_wait_returns: "wait (ota_waits n evs) 5000 \<Longrightarrow> \<exists>evs'. ota_wait wait evs = Some evs'"
proof (induction n arbitrary: evs)
  case 0
  then show ?case by (simp add: ota_wait.simps)
next
  case (Suc n)
  then show ?case by (cases "wait evs 5000") (auto simp: ota_wait.simps [of wait evs])
qed

text \<open>An environment that ends every transfer, and connectivity that comes back.\<close>

definition ota_transfers_end :: "ota_env \<Rightarrow> bool" where
  "ota_transfers_end env \<longleftrightarrow> (\<forall>evs. \<exists>n. oe_perform env (ota_polls n evs) \<noteq> ESP_ERR_HTTPS_OTA_IN_PROGRESS)"

definition ota_connects :: "ota_update_config_t \<Rightarrow> bool" where
  "ota_connects cfg \<longleftrightarrow> (case ota_wait_for_connectivity cfg of None \<Rightarrow> True | Some wait \<Rightarrow> (\<forall>evs. \<exists>n. wait (ota_waits n evs) 5000))"

lemma ota_perform_update_returns: "ota_transfers_end env \<Longrightarrow> \<exists>r. ota_perform_update env cfg running stored evs = Some r"
  unfolding ota_transfers_end_def ota_perform_update_def ota_install_def
  by (auto simp: Let_def split: prod.split option.split) (metis option.distinct(1) ota_transfer_returns)+

lemma ota_attempts_returns:
  "ota_transfers_end env \<Longrightarrow> \<exists>evs'. ota_attempts env cfg running stored mx n backoff evs = Some evs'"
proof (induction n arbitrary: backoff evs)
  case 0
  then show ?case by simp
next
  case (Suc n)
  then show ?case using ota_perform_update_returns [OF Suc.prems, of cfg running stored evs] by auto
qed

lemma ota_check_loop_returns: "ota_transfers_end env \<Longrightarrow> \<exists>evs'. ota_check_loop env cfg evs = Some evs'"
  by (auto simp: ota_check_loop_def ota_attempts_returns split: prod.split)

lemma ota_task_returns: "ota_transfers_end env \<Longrightarrow> ota_connects cfg \<Longrightarrow> \<exists>evs'. ota_task env (Some cfg) evs = Some evs'"
  unfolding ota_task_def ota_connects_def
  by (auto simp: Let_def ota_check_loop_returns split: option.splits) (metis option.distinct(1) ota_wait_returns)+

lemma ota_goneD:
  assumes "ota_reaches v evs PGone"
  shows "\<exists>evs'. evs = OtaRestart # evs' \<or> evs = OtaDeleteTask # evs'"
  using assms
proof (cases rule: ota_reaches.cases)
  case (step evs ph e)
  from step(3) show ?thesis by (cases rule: ota_step.cases) (auto simp: step(1) split: if_splits)
qed

section \<open>What the protocol gives\<close>

text \<open>
  The verdict on the image of the latest attempt and the result of its finish; the handles
  opened and released.
\<close>

fun ota_verdict :: "ota_log \<Rightarrow> esp_err option" where
  "ota_verdict [] = None"
| "ota_verdict (OtaValidate d err # evs) = Some err"
| "ota_verdict (OtaBegin url err # evs) = None"
| "ota_verdict (e # evs) = ota_verdict evs"

fun ota_finished :: "ota_log \<Rightarrow> esp_err option" where
  "ota_finished [] = None"
| "ota_finished (OtaFinish err # evs) = Some err"
| "ota_finished (OtaBegin url err # evs) = None"
| "ota_finished (e # evs) = ota_finished evs"

fun ota_opened :: "ota_log \<Rightarrow> nat" where
  "ota_opened [] = 0"
| "ota_opened (OtaBegin url err # evs) = (if err = ESP_OK then Suc (ota_opened evs) else ota_opened evs)"
| "ota_opened (e # evs) = ota_opened evs"

fun ota_released :: "ota_log \<Rightarrow> nat" where
  "ota_released [] = 0"
| "ota_released (OtaAbort # evs) = Suc (ota_released evs)"
| "ota_released (OtaFinish err # evs) = Suc (ota_released evs)"
| "ota_released (e # evs) = ota_released evs"

fun ota_open :: "ota_phase \<Rightarrow> bool" where
  "ota_open PIdle = False"
| "ota_open PInstalled = False"
| "ota_open PFinal = False"
| "ota_open PGone = False"
| "ota_open ph = True"

definition ota_inv :: "bool \<Rightarrow> ota_log \<Rightarrow> ota_phase \<Rightarrow> bool" where
  "ota_inv v evs ph \<longleftrightarrow>
     (v \<longrightarrow> ph \<in> {PReady, PTransferred, PComplete, PInstalled} \<longrightarrow> ota_verdict evs = Some ESP_OK) \<and>
     (ph = PInstalled \<longrightarrow> ota_finished evs = Some ESP_OK) \<and>
     ota_opened evs = ota_released evs + (if ota_open ph then 1 else 0) \<and>
     (ph \<notin> {PFailing False, PFinal, PGone} \<longrightarrow> (\<forall>d err. OtaValidate d err \<in> set evs \<longrightarrow> err = ESP_OK))"

lemma ota_quiet_frame:
  "ota_quiet e \<or> ota_storing e \<Longrightarrow> ota_verdict (e # evs) = ota_verdict evs \<and> ota_finished (e # evs) = ota_finished evs \<and>
     ota_opened (e # evs) = ota_opened evs \<and> ota_released (e # evs) = ota_released evs \<and> (\<forall>d err. e \<noteq> OtaValidate d err)"
  by (cases e) auto

lemma ota_reaches_inv: "ota_reaches v evs ph \<Longrightarrow> ota_inv v evs ph"
proof (induction rule: ota_reaches.induct)
  case start
  show ?case by (simp add: ota_inv_def)
next
  case (step evs ph e ph')
  from step.hyps(2) step.IH show ?case
    by (cases rule: ota_step.cases) (auto simp: ota_inv_def ota_quiet_frame split: if_splits)
qed

lemma ota_reaches_suffix: "ota_reaches v (post @ evs) ph \<Longrightarrow> \<exists>ph'. ota_reaches v evs ph'"
  by (induction post arbitrary: ph) (auto elim: ota_reaches_consE)

lemma ota_reaches_mid:
  assumes "ota_reaches v (post @ e # pre) ph"
  obtains ph1 ph2 where "ota_inv v pre ph1" "ota_step v ph1 e ph2"
  using ota_reaches_suffix [OF assms] ota_reaches_inv by (metis ota_reaches_consE)

section \<open>The properties\<close>

text \<open>
  C21.The update task ends. When every transfer of the OTA library ends and connectivity comes
  back, the task returns, by a restart of the node or by deleting itself, after at most the
  configured number of attempts, five when none is configured.
\<close>

theorem ota_task_ends:
  assumes "ota_transfers_end env" "ota_connects cfg"
  shows "\<exists>evs. (ota_task env (Some cfg) [] = Some (OtaRestart # evs) \<or> ota_task env (Some cfg) [] = Some (OtaDeleteTask # evs)) \<and>
    ota_begins evs \<le> (if ota_max_retries cfg = 0 then 5 else unat (ota_max_retries cfg))"
proof -
  obtain log where t: "ota_task env (Some cfg) [] = Some log" using ota_task_returns [OF assms] by blast
  from ota_task_path [OF t] have r: "ota_reaches (ota_validate cfg \<noteq> None) log PGone"
    and b: "ota_begins log \<le> unat (ota_max_attempts cfg)" by (auto intro: ota_reaches.start)
  have m: "unat (ota_max_attempts cfg) = (if ota_max_retries cfg = 0 then 5 else unat (ota_max_retries cfg))"
    by (simp add: ota_max_attempts_def OTA_DEFAULT_MAX_RETRIES_def)
  from ota_goneD [OF r] t b m show ?thesis by auto
qed

text \<open>An environment that fails the first begin, and a configuration without a callback.\<close>

definition demo_ota_env :: ota_env where
  "demo_ota_env = \<lparr>oe_mark_valid = \<lambda>_. ESP_OK, oe_running_partition = \<lambda>_. True,
     oe_partition_desc = \<lambda>_. (ESP_OK, zero_app_desc), oe_nvs_open = \<lambda>_. ESP_OK,
     oe_nvs_get_str = \<lambda>_. (ESP_ERR_NVS_NOT_FOUND, []), oe_nvs_set_str = \<lambda>_. ESP_OK, oe_nvs_commit = \<lambda>_. ESP_OK,
     oe_begin = \<lambda>evs. if ota_begins evs = 0 then ESP_FAIL else ESP_OK,
     oe_img_desc = \<lambda>_. (ESP_OK, zero_app_desc\<lparr>app_version := ''2.0''\<rparr>),
     oe_perform = \<lambda>evs. if hd evs = OtaDelay 50 then ESP_OK else ESP_ERR_HTTPS_OTA_IN_PROGRESS,
     oe_complete = \<lambda>_. True, oe_finish = \<lambda>_. ESP_OK\<rparr>"

definition demo_ota_cfg :: ota_update_config_t where
  "demo_ota_cfg = \<lparr>ota_url = Some ''u'', ota_cert_pem = None, ota_cert_len = 0, ota_auto_reboot = True,
     ota_check_delay_ms = 1000, ota_wait_for_connectivity = Some (\<lambda>evs ms. OtaConnectivity False \<in> set evs),
     ota_validate = Some (\<lambda>evs d running sha stored. if app_version d = ''2.0'' then ESP_OK else ESP_ERR_INVALID_VERSION),
     ota_initial_backoff_ms = 0, ota_max_backoff_ms = 0, ota_max_retries = 2, ota_nvs_namespace = None, ota_nvs_key = None\<rparr>"

lemma demo_ota_ends: "ota_transfers_end demo_ota_env" "ota_connects demo_ota_cfg"
  unfolding ota_transfers_end_def ota_connects_def
  by (auto simp: demo_ota_env_def demo_ota_cfg_def intro!: exI [of _ 1])

theorem ota_task_ends_witness:
  "\<exists>evs. (ota_task demo_ota_env (Some demo_ota_cfg) [] = Some (OtaRestart # evs) \<or>
     ota_task demo_ota_env (Some demo_ota_cfg) [] = Some (OtaDeleteTask # evs)) \<and> ota_begins evs \<le> 2"
  using ota_task_ends [OF demo_ota_ends] by (simp add: demo_ota_cfg_def)

text \<open>The run of the demonstration: one failed begin, then an update that restarts the node.\<close>

lemma ota_attempts_numeral:
  "ota_attempts env cfg running stored mx (numeral k) backoff evs = ota_attempts env cfg running stored mx (Suc (pred_numeral k)) backoff evs"
  by (simp add: numeral_eq_Suc)

lemma demo_ota_run:
  "\<exists>evs. ota_task demo_ota_env (Some demo_ota_cfg) [] = Some (OtaRestart # evs) \<and> ota_begins evs = Suc (Suc 0)"
  by (simp add: ota_task_def demo_ota_cfg_def demo_ota_env_def ota_wait.simps ota_check_loop_def ota_get_running_app_desc_def
    ota_load_last_version_def ota_max_attempts_def ota_first_backoff_def ota_backoff_limit_def ota_perform_update_def
    ota_install_def ota_transfer.simps ota_failed_def ota_succeeded_def ota_store_last_version_def ota_attempts_numeral [unfolded ota_attempts.simps] Let_def
    OTA_DEFAULT_INITIAL_BACKOFF_MS_def)

text \<open>
  C15.Only an accepted image is installed. In every run of the task with a validation callback,
  each write to flash comes after the callback accepted the image of that attempt, no attempt
  follows a rejection, every opened handle is released exactly once, and the node restarts only
  after a finish that reported success.
\<close>

theorem ota_installs_only_accepted:
  assumes "ota_task env (Some cfg) [] = Some log" "ota_validate cfg \<noteq> None"
  shows "(\<forall>post err pre. log = post @ OtaPerform err # pre \<longrightarrow> ota_verdict pre = Some ESP_OK) \<and>
    (\<forall>post url err pre d verr. log = post @ OtaBegin url err # pre \<longrightarrow> OtaValidate d verr \<in> set pre \<longrightarrow> verr = ESP_OK) \<and>
    (\<forall>post pre. log = post @ OtaRestart # pre \<longrightarrow> ota_verdict pre = Some ESP_OK \<and> ota_finished pre = Some ESP_OK) \<and>
    ota_opened log = ota_released log"
proof -
  have r: "ota_reaches True log PGone"
    using ota_task_path [OF assms(1)] assms(2) by (auto intro: ota_reaches.start)
  note mid = ota_reaches_mid [of True]
  have "ota_verdict pre = Some ESP_OK" if "log = post @ OtaPerform err # pre" for post err pre
    using r unfolding that by (rule mid) (auto simp: ota_perform_step ota_inv_def)
  moreover have "verr = ESP_OK" if "log = post @ OtaBegin url err # pre" "OtaValidate d verr \<in> set pre" for post url err pre d verr
    using r unfolding that(1) by (rule mid) (use that(2) in \<open>auto simp: ota_begin_step ota_inv_def\<close>)
  moreover have "ota_verdict pre = Some ESP_OK \<and> ota_finished pre = Some ESP_OK" if "log = post @ OtaRestart # pre" for post pre
    using r unfolding that by (rule mid) (auto simp: ota_restart_step ota_inv_def)
  moreover have "ota_opened log = ota_released log" using ota_reaches_inv [OF r] by (simp add: ota_inv_def)
  ultimately show ?thesis by blast
qed

theorem ota_installs_only_accepted_witness:
  "\<exists>evs. ota_task demo_ota_env (Some demo_ota_cfg) [] = Some (OtaRestart # evs) \<and>
    ota_verdict evs = Some ESP_OK \<and> ota_finished evs = Some ESP_OK \<and> ota_opened evs = ota_released evs"
proof -
  obtain evs where t: "ota_task demo_ota_env (Some demo_ota_cfg) [] = Some (OtaRestart # evs)"
    using demo_ota_run by blast
  have "ota_validate demo_ota_cfg \<noteq> None" by (simp add: demo_ota_cfg_def)
  from ota_installs_only_accepted [OF t this] t show ?thesis by simp
qed

text \<open>
  The delays between attempts. From a first delay that is not zero, the delay before the
  attempt after \<open>k\<close> more failures is the first delay doubled \<open>k\<close> times, capped by the limit; the
  computation never overflows. The first delay itself is not capped.
\<close>

theorem ota_backoff_closed_form:
  assumes "first \<noteq> 0"
  shows "unat (((\<lambda>b. ota_next_backoff b mx) ^^ k) first) = (if k = 0 then unat first else min (2 ^ k * unat first) (unat mx))"
proof -
  have step: "unat (ota_next_backoff b mx) = (if b = 0 then unat mx else min (2 * unat b) (unat mx))" for b
  proof -
    have b: "unat b < 2 ^ 32" and m: "unat mx < 2 ^ 32" using unsigned_less [of b, where 'a = nat] unsigned_less [of mx, where 'a = nat] by auto
    have d: "unat ((ucast b :: u64) * 2) = 2 * unat b" using b by (subst unat_mult_lem [THEN iffD1]) auto
    have u: "unat (ucast ((ucast b :: u64) * 2) :: u32) = 2 * unat b" if "2 * unat b \<le> unat mx"
      using that m d by (subst unat_ucast_u64_u32) auto
    have "ucast mx < (ucast b :: u64) * 2 \<longleftrightarrow> unat mx < 2 * unat b" by (simp add: word_less_nat_alt d)
    moreover have "(ucast b :: u64) * 2 = 0 \<longleftrightarrow> b = 0" using d by (simp add: unat_eq_zero [symmetric] del: unat_eq_zero)
    ultimately show ?thesis by (auto simp: ota_next_backoff_def Let_def u min_def)
  qed
  show ?thesis
  proof (induction k)
    case 0
    then show ?case by simp
  next
    case (Suc k)
    have "unat first \<noteq> 0" using assms by (simp add: unat_eq_zero)
    then show ?case using Suc by (auto simp: step unat_eq_zero [symmetric] min_def split: if_splits)
  qed
qed

theorem ota_backoff_closed_form_witness:
  "unat (((\<lambda>b. ota_next_backoff b 60000) ^^ 4) 5000) = 60000 \<and> unat (((\<lambda>b. ota_next_backoff b 60000) ^^ 3) 5000) = 40000 \<and>
   unat (((\<lambda>b. ota_next_backoff b 60000) ^^ 0) 90000) = 90000"
proof -
  have "unat (((\<lambda>b. ota_next_backoff b 60000) ^^ 4) 5000) = 60000" by (subst ota_backoff_closed_form) simp_all
  moreover have "unat (((\<lambda>b. ota_next_backoff b 60000) ^^ 3) 5000) = 40000" by (subst ota_backoff_closed_form) simp_all
  moreover have "unat (((\<lambda>b. ota_next_backoff b 60000) ^^ 0) 90000) = 90000" by (subst ota_backoff_closed_form) simp_all
  ultimately show ?thesis by blast
qed

text \<open>
  Scheduling fills in the defaults the task would use anyway, and accepts exactly a
  configuration with a URL while memory lasts.
\<close>

lemma ota_schedule_ok:
  "fst (ota_update_schedule allocated created arg) = ESP_OK \<longleftrightarrow>
     (\<exists>config. arg = Some config \<and> ota_url config \<noteq> None) \<and> allocated \<and> created"
  by (auto simp: ota_update_schedule_def Let_def split: option.split)

lemma ota_schedule_defaults:
  "ota_update_schedule allocated created (Some config) = (ESP_OK, Some copy) \<Longrightarrow>
     ota_max_attempts copy = ota_max_attempts config \<and> ota_first_backoff copy = ota_first_backoff config \<and>
     ota_backoff_limit copy = ota_backoff_limit config \<and> ota_check_delay_ms copy \<noteq> 0"
  by (auto simp: ota_update_schedule_def Let_def ota_max_attempts_def ota_first_backoff_def ota_backoff_limit_def
    OTA_DEFAULT_CHECK_DELAY_MS_def OTA_DEFAULT_MAX_RETRIES_def OTA_DEFAULT_INITIAL_BACKOFF_MS_def
    OTA_DEFAULT_MAX_BACKOFF_MS_def split: if_splits)

end
