(* ===== verification/CertStore.thy ===== *)
theory CertStore
  imports Prelude
begin

text \<open>
  The certificates of a node, \<^verbatim>\<open>components/cert_store/cert_store.c\<close>: a PEM file is taken from NVS,
  else from the SPIFFS partition, else from the image.

  Each call of the platform is an event with its outcome in a log, newest first; outcomes and
  data are functions of the log. A buffer is the list of its bytes, the terminating zero
  included. \<^verbatim>\<open>cert_build\<close> is what the options \<^verbatim>\<open>CONFIG_CERT_STORE_*\<close> say and what the image holds.
\<close>

section \<open>Model\<close>

datatype cert_which = ServerCert | ServerKey | CaCert

datatype cert_event =
    CsNvsInit esp_err | CsNvsOpen esp_err | CsNvsLength string esp_err | CsNvsGet string esp_err | CsNvsClose
  | CsMalloc nat bool | CsFree | CsMount esp_err
  | CsFopen string bool | CsSeek bool | CsTell int | CsRewind | CsRead nat | CsFclose

record cert_build =
  cb_from_nvs :: bool
  cb_from_spiffs :: bool
  cb_mount_point :: string
  cb_embedded :: "cert_which \<Rightarrow> bytes"

record cert_env =
  ce_nvs_init :: "cert_event list \<Rightarrow> esp_err"
  ce_nvs_open :: "cert_event list \<Rightarrow> esp_err"
  ce_nvs_length :: "cert_event list \<Rightarrow> string \<Rightarrow> esp_err \<times> nat"
  ce_nvs_get :: "cert_event list \<Rightarrow> string \<Rightarrow> nat \<Rightarrow> esp_err \<times> bytes"
  ce_malloc :: "cert_event list \<Rightarrow> nat \<Rightarrow> bool"
  ce_mount :: "cert_event list \<Rightarrow> esp_err"
  ce_fopen :: "cert_event list \<Rightarrow> string \<Rightarrow> bool"
  ce_seek :: "cert_event list \<Rightarrow> bool"
  ce_tell :: "cert_event list \<Rightarrow> int"
  ce_fread :: "cert_event list \<Rightarrow> nat \<Rightarrow> bytes"

record cert_store_blob_t =
  cbl_embedded :: bytes
  cbl_override :: "bytes option"
  cbl_override_len :: nat

record cert_store =
  cs_blob :: "cert_which \<Rightarrow> cert_store_blob_t"
  cs_initialized :: bool
  cs_mounted :: bool
  cs_log :: "cert_event list"

definition cert_note :: "cert_event \<Rightarrow> cert_store \<Rightarrow> cert_store" where
  "cert_note e s = s\<lparr>cs_log := e # cs_log s\<rparr>"

definition set_override :: "cert_which \<Rightarrow> bytes \<Rightarrow> cert_store \<Rightarrow> cert_store" where
  "set_override w data s = s\<lparr>cs_blob := (cs_blob s)(w := (cs_blob s w)\<lparr>cbl_override := Some (data @ [0]), cbl_override_len := length data\<rparr>)\<rparr>"

text \<open>The part of \<^verbatim>\<open>cert_store_load_from_nvs\<close> with the handle open.\<close>

definition load_nvs_blob :: "cert_env \<Rightarrow> string \<Rightarrow> cert_which \<Rightarrow> cert_store \<Rightarrow> cert_store" where
  "load_nvs_blob env key w s =
     (case ce_nvs_length env (cs_log s) key of (err, required) \<Rightarrow>
      let s = cert_note (CsNvsLength key err) s in
      if err = ESP_OK \<and> required > 0 then
        (let ok = ce_malloc env (cs_log s) (required + 1); s = cert_note (CsMalloc (required + 1) ok) s in
         if \<not> ok then cert_note CsNvsClose s
         else case ce_nvs_get env (cs_log s) key required of (err, data) \<Rightarrow>
           let s = cert_note (CsNvsGet key err) s;
               s = (if err = ESP_OK then set_override w data s else cert_note CsFree s)
           in cert_note CsNvsClose s)
      else cert_note CsNvsClose s)"

definition cert_store_load_from_nvs :: "cert_build \<Rightarrow> cert_env \<Rightarrow> string \<Rightarrow> cert_which \<Rightarrow> cert_store \<Rightarrow> cert_store" where
  "cert_store_load_from_nvs build env key w s =
     (if \<not> cb_from_nvs build then s
      else if cbl_override (cs_blob s w) \<noteq> None then s
      else
        let err = ce_nvs_init env (cs_log s); s = cert_note (CsNvsInit err) s in
        if err \<noteq> ESP_OK then s
        else
          let err = ce_nvs_open env (cs_log s); s = cert_note (CsNvsOpen err) s in
          if err \<noteq> ESP_OK then s else load_nvs_blob env key w s)"

definition cert_store_mount_spiffs :: "cert_build \<Rightarrow> cert_env \<Rightarrow> cert_store \<Rightarrow> esp_err \<times> cert_store" where
  "cert_store_mount_spiffs build env s =
     (if \<not> cb_from_spiffs build then (ESP_ERR_NOT_SUPPORTED, s)
      else if cs_mounted s then (ESP_OK, s)
      else
        let err = ce_mount env (cs_log s); s = cert_note (CsMount err) s
        in (err, if err = ESP_OK then s\<lparr>cs_mounted := True\<rparr> else s))"

text \<open>The part of \<^verbatim>\<open>cert_store_load_from_spiffs\<close> with the file open and its size known.\<close>

definition load_file :: "cert_env \<Rightarrow> nat \<Rightarrow> cert_which \<Rightarrow> cert_store \<Rightarrow> cert_store" where
  "load_file env fsize w s =
     (let s = cert_note CsRewind s; ok = ce_malloc env (cs_log s) (fsize + 1); s = cert_note (CsMalloc (fsize + 1) ok) s in
      if \<not> ok then cert_note CsFclose s
      else
        let data = ce_fread env (cs_log s) fsize; s = cert_note CsFclose (cert_note (CsRead fsize) s)
        in if length data \<noteq> fsize then cert_note CsFree s else set_override w data s)"

definition cert_store_load_from_spiffs :: "cert_build \<Rightarrow> cert_env \<Rightarrow> string \<Rightarrow> cert_which \<Rightarrow> cert_store \<Rightarrow> cert_store" where
  "cert_store_load_from_spiffs build env filename w s =
     (if \<not> cb_from_spiffs build then s
      else if cbl_override (cs_blob s w) \<noteq> None then s
      else case cert_store_mount_spiffs build env s of (err, s) \<Rightarrow>
        if err \<noteq> ESP_OK then s
        else
          let path = cb_mount_point build @ ''/'' @ filename in
          if length path \<ge> 128 then s
          else
            let opened = ce_fopen env (cs_log s) path; s = cert_note (CsFopen path opened) s in
            if \<not> opened then s
            else
              let ok = ce_seek env (cs_log s); s = cert_note (CsSeek ok) s in
              if \<not> ok then cert_note CsFclose s
              else
                let fsize = ce_tell env (cs_log s); s = cert_note (CsTell fsize) s
                in if fsize \<le> 0 then cert_note CsFclose s else load_file env (nat fsize) w s)"

definition cert_store_init_once :: "cert_build \<Rightarrow> cert_env \<Rightarrow> cert_store \<Rightarrow> cert_store" where
  "cert_store_init_once build env s =
     (if cs_initialized s then s
      else
        let s = s\<lparr>cs_initialized := True\<rparr>;
            s = cert_store_load_from_nvs build env ''server_cert'' ServerCert s;
            s = cert_store_load_from_nvs build env ''server_key'' ServerKey s;
            s = cert_store_load_from_nvs build env ''ca_cert'' CaCert s;
            s = cert_store_load_from_spiffs build env ''server_cert.pem'' ServerCert s;
            s = cert_store_load_from_spiffs build env ''server_key.pem'' ServerKey s
        in cert_store_load_from_spiffs build env ''ca_cert.pem'' CaCert s)"

text \<open>The buffer that is pointed to, and the length.\<close>

definition cert_store_select_blob :: "cert_build \<Rightarrow> cert_env \<Rightarrow> cert_which \<Rightarrow> cert_store \<Rightarrow> (bytes \<times> nat) \<times> cert_store" where
  "cert_store_select_blob build env w s =
     (let s = cert_store_init_once build env s; blob = cs_blob s w in
      case cbl_override blob of
        Some data \<Rightarrow> if cbl_override_len blob > 0 then ((data, cbl_override_len blob), s)
                     else ((cbl_embedded blob, length (cbl_embedded blob)), s)
      | None \<Rightarrow> ((cbl_embedded blob, length (cbl_embedded blob)), s))"

definition cert_store_server_cert :: "cert_build \<Rightarrow> cert_env \<Rightarrow> cert_store \<Rightarrow> (bytes \<times> nat) \<times> cert_store" where
  "cert_store_server_cert build env s = cert_store_select_blob build env ServerCert s"

definition cert_store_server_key :: "cert_build \<Rightarrow> cert_env \<Rightarrow> cert_store \<Rightarrow> (bytes \<times> nat) \<times> cert_store" where
  "cert_store_server_key build env s = cert_store_select_blob build env ServerKey s"

definition cert_store_ca_cert :: "cert_build \<Rightarrow> cert_env \<Rightarrow> cert_store \<Rightarrow> (bytes \<times> nat) \<times> cert_store" where
  "cert_store_ca_cert build env s = cert_store_select_blob build env CaCert s"

definition cert_static :: "cert_build \<Rightarrow> cert_store" where
  "cert_static build = \<lparr>cs_blob = (\<lambda>w. \<lparr>cbl_embedded = cb_embedded build w, cbl_override = None, cbl_override_len = 0\<rparr>),
     cs_initialized = False, cs_mounted = False, cs_log = []\<rparr>"

section \<open>Nothing is leaked, nothing is loaded twice\<close>

definition handle_weight :: "cert_event \<Rightarrow> int" where
  "handle_weight e = (case e of CsNvsOpen err \<Rightarrow> if err = ESP_OK then 1 else 0 | CsNvsClose \<Rightarrow> - 1 | _ \<Rightarrow> 0)"

definition file_weight :: "cert_event \<Rightarrow> int" where
  "file_weight e = (case e of CsFopen p ok \<Rightarrow> if ok then 1 else 0 | CsFclose \<Rightarrow> - 1 | _ \<Rightarrow> 0)"

definition buffer_weight :: "cert_event \<Rightarrow> int" where
  "buffer_weight e = (case e of CsMalloc n ok \<Rightarrow> if ok then 1 else 0 | CsFree \<Rightarrow> - 1 | _ \<Rightarrow> 0)"

definition cert_balance :: "(cert_event \<Rightarrow> int) \<Rightarrow> cert_store \<Rightarrow> int" where
  "cert_balance f s = sum_list (map f (cs_log s))"

definition cert_held :: "cert_store \<Rightarrow> int" where
  "cert_held s = sum_list (map (\<lambda>w. if cbl_override (cs_blob s w) = None then 0 else 1) [ServerCert, ServerKey, CaCert])"

definition cert_balanced :: "cert_store \<Rightarrow> bool" where
  "cert_balanced s \<longleftrightarrow> cert_balance handle_weight s = 0 \<and> cert_balance file_weight s = 0 \<and> cert_balance buffer_weight s = cert_held s"

lemma note_simps [simp]:
  "cert_balance f (cert_note e s) = f e + cert_balance f s" "cs_blob (cert_note e s) = cs_blob s" "cert_held (cert_note e s) = cert_held s"
  "cs_initialized (cert_note e s) = cs_initialized s" "cs_mounted (cert_note e s) = cs_mounted s"
  by (simp_all add: cert_balance_def cert_note_def cert_held_def)

lemma set_override_simps [simp]:
  "cert_balance f (set_override w d s) = cert_balance f s" "cs_initialized (set_override w d s) = cs_initialized s"
  by (simp_all add: cert_balance_def set_override_def)

lemma set_override_held: "cbl_override (cs_blob s w) = None \<Longrightarrow> cert_held (set_override w d s) = cert_held s + 1"
  by (cases w) (simp_all add: cert_held_def set_override_def)

lemmas weights = handle_weight_def file_weight_def buffer_weight_def

lemma load_nvs_balanced: "cert_balanced s \<Longrightarrow> cert_balanced (cert_store_load_from_nvs build env key w s)"
  by (auto simp: cert_balanced_def cert_store_load_from_nvs_def load_nvs_blob_def Let_def weights set_override_held split: prod.split)

lemma mount_balanced:
  "cert_balanced s \<Longrightarrow> cert_balanced (snd (cert_store_mount_spiffs build env s))"
  "cs_blob (snd (cert_store_mount_spiffs build env s)) = cs_blob s"
proof -
  have f: "cert_balance g (s\<lparr>cs_mounted := b\<rparr>) = cert_balance g s" "cert_held (s\<lparr>cs_mounted := b\<rparr>) = cert_held s" for g b s
    by (simp_all add: cert_balance_def cert_held_def)
  show "cert_balanced s \<Longrightarrow> cert_balanced (snd (cert_store_mount_spiffs build env s))"
    "cs_blob (snd (cert_store_mount_spiffs build env s)) = cs_blob s"
    by (simp_all add: cert_store_mount_spiffs_def cert_balanced_def Let_def f weights)
qed

lemma load_file_balanced:
  assumes "cert_balance handle_weight s = 0" "cert_balance file_weight s = 1" "cert_balance buffer_weight s = cert_held s" "cbl_override (cs_blob s w) = None"
  shows "cert_balanced (load_file env n w s)"
  using assms by (simp add: load_file_def cert_balanced_def Let_def weights set_override_held)

lemma load_spiffs_balanced:
  assumes "cert_balanced s"
  shows "cert_balanced (cert_store_load_from_spiffs build env file w s)"
proof -
  obtain err s1 where m: "cert_store_mount_spiffs build env s = (err, s1)" by fastforce
  have b: "cert_balanced s1" "cs_blob s1 = cs_blob s" using mount_balanced(1) [OF assms, of build env] mount_balanced(2) [of build env s] m by simp_all
  then have f: "cert_balanced (load_file env n w (cert_note (CsTell k) (cert_note (CsSeek ok) (cert_note (CsFopen p True) s1))))"
    if "cbl_override (cs_blob s w) = None" for n k ok p
    using that by (intro load_file_balanced) (simp_all add: cert_balanced_def weights)
  show ?thesis
  proof (cases "cb_from_spiffs build \<and> cbl_override (cs_blob s w) = None \<and> err = ESP_OK")
    case True
    have c: "cert_balanced (cert_note (CsFopen p False) s1)"
      "cert_balanced (cert_note CsFclose (cert_note (CsSeek False) (cert_note (CsFopen p True) s1)))"
      "cert_balanced (cert_note CsFclose (cert_note (CsTell k) (cert_note (CsSeek True) (cert_note (CsFopen p True) s1))))" for p k
      using b(1) by (simp_all add: cert_balanced_def weights)
    show ?thesis using True m b(1) c f by (auto simp: cert_store_load_from_spiffs_def Let_def)
  next
    case False
    with m b(1) assms show ?thesis by (auto simp: cert_store_load_from_spiffs_def)
  qed
qed

lemma init_once_balanced: "cert_balanced s \<Longrightarrow> cert_balanced (cert_store_init_once build env s)"
proof -
  have f: "cert_balanced (s\<lparr>cs_initialized := True\<rparr>) = cert_balanced s"
    by (simp add: cert_balanced_def cert_balance_def cert_held_def)
  show "cert_balanced s \<Longrightarrow> cert_balanced (cert_store_init_once build env s)"
    by (simp add: cert_store_init_once_def Let_def f load_nvs_balanced load_spiffs_balanced)
qed

lemma loads_initialized:
  "cs_initialized (cert_store_load_from_nvs build env key w s) = cs_initialized s"
  "cs_initialized (cert_store_load_from_spiffs build env file w s) = cs_initialized s"
  by (simp_all add: cert_store_load_from_nvs_def load_nvs_blob_def cert_store_load_from_spiffs_def cert_store_mount_spiffs_def
      load_file_def Let_def split: prod.split)

lemma init_once_initialized: "cs_initialized (cert_store_init_once build env s)"
  by (simp add: cert_store_init_once_def Let_def loads_initialized)

lemma select_state: "snd (cert_store_select_blob build env w s) = cert_store_init_once build env s"
  by (simp add: cert_store_select_blob_def Let_def split: option.split)

text \<open>The states after some calls of the three functions of the interface.\<close>

inductive cert_run :: "cert_build \<Rightarrow> cert_env \<Rightarrow> cert_store \<Rightarrow> bool" for build env where
  cert_begin: "cert_run build env (cert_static build)"
| cert_call: "cert_run build env s \<Longrightarrow> cert_run build env (snd (cert_store_select_blob build env w s))"

text \<open>
  C37. Nothing is leaked and nothing is loaded twice. However the flash, the file system and the
  heap behave, after any calls every NVS handle and every file that was opened is closed, and the
  buffers that were allocated and not freed are the overrides in use; a call after the first
  touches the platform no more and gives the same buffer as before.
\<close>

theorem cert_store_releases:
  assumes "cert_run build env s"
  shows "cert_balance handle_weight s = 0 \<and> cert_balance file_weight s = 0 \<and> cert_balance buffer_weight s = cert_held s \<and>
    (\<forall>w v. let r = cert_store_select_blob build env w s in
       cert_store_select_blob build env v (snd r) = (fst (cert_store_select_blob build env v s), snd r))"
proof -
  have b: "cert_balanced s" using assms
  proof induction
    case cert_begin
    show ?case by (simp add: cert_static_def cert_balanced_def cert_balance_def cert_held_def)
  next
    case (cert_call s w)
    then show ?case by (simp add: select_state init_once_balanced)
  qed
  have i: "cert_store_init_once build env (cert_store_init_once build env s) = cert_store_init_once build env s" for s
    using init_once_initialized [of build env s] by (subst cert_store_init_once_def) simp
  have "cert_store_select_blob build env v (snd (cert_store_select_blob build env w s)) =
      (fst (cert_store_select_blob build env v s), snd (cert_store_select_blob build env w s))" for w v
    by (simp add: select_state) (simp add: cert_store_select_blob_def i Let_def split: option.split)
  with b show ?thesis by (simp add: cert_balanced_def Let_def)
qed

section \<open>Which certificate is used\<close>

definition nvs_key :: "cert_which \<Rightarrow> string" where
  "nvs_key w = (case w of ServerCert \<Rightarrow> ''server_cert'' | ServerKey \<Rightarrow> ''server_key'' | CaCert \<Rightarrow> ''ca_cert'')"

definition pem_path :: "cert_build \<Rightarrow> cert_which \<Rightarrow> string" where
  "pem_path build w = cb_mount_point build @ ''/'' @
     (case w of ServerCert \<Rightarrow> ''server_cert.pem'' | ServerKey \<Rightarrow> ''server_key.pem'' | CaCert \<Rightarrow> ''ca_cert.pem'')"

text \<open>A platform without errors, with blobs in NVS and files in SPIFFS.\<close>

fun last_opened :: "cert_event list \<Rightarrow> string" where
  "last_opened [] = []"
| "last_opened (CsFopen p ok # l) = (if ok then p else last_opened l)"
| "last_opened (e # l) = last_opened l"

definition working :: "(string \<Rightarrow> bytes option) \<Rightarrow> (string \<Rightarrow> bytes option) \<Rightarrow> cert_env" where
  "working nvs files = \<lparr>ce_nvs_init = (\<lambda>_. ESP_OK), ce_nvs_open = (\<lambda>_. ESP_OK),
     ce_nvs_length = (\<lambda>_ key. case nvs key of None \<Rightarrow> (ESP_ERR_NVS_NOT_FOUND, 0) | Some d \<Rightarrow> (ESP_OK, length d)),
     ce_nvs_get = (\<lambda>_ key n. case nvs key of None \<Rightarrow> (ESP_ERR_NVS_NOT_FOUND, []) | Some d \<Rightarrow> (ESP_OK, d)),
     ce_malloc = (\<lambda>_ _. True), ce_mount = (\<lambda>_. ESP_OK), ce_fopen = (\<lambda>_ p. files p \<noteq> None), ce_seek = (\<lambda>_. True),
     ce_tell = (\<lambda>l. case files (last_opened l) of None \<Rightarrow> 0 | Some d \<Rightarrow> int (length d)),
     ce_fread = (\<lambda>l n. case files (last_opened l) of None \<Rightarrow> [] | Some d \<Rightarrow> d)\<rparr>"

definition there :: "bytes option \<Rightarrow> bool" where
  "there d \<longleftrightarrow> d \<noteq> None \<and> d \<noteq> Some []"

text \<open>The specification: NVS, else SPIFFS, else the image.\<close>

definition cert_chosen :: "cert_build \<Rightarrow> (string \<Rightarrow> bytes option) \<Rightarrow> (string \<Rightarrow> bytes option) \<Rightarrow> cert_which \<Rightarrow> bytes \<times> nat" where
  "cert_chosen build nvs files w =
     (if cb_from_nvs build \<and> there (nvs (nvs_key w)) then (the (nvs (nvs_key w)) @ [0], length (the (nvs (nvs_key w))))
      else if cb_from_spiffs build \<and> length (pem_path build w) < 128 \<and> there (files (pem_path build w))
      then (the (files (pem_path build w)) @ [0], length (the (files (pem_path build w))))
      else (cb_embedded build w, length (cb_embedded build w)))"

lemma working_nvs:
  "cs_blob (cert_store_load_from_nvs build (working nvs files) key w s) =
    (if cb_from_nvs build \<and> cbl_override (cs_blob s w) = None \<and> there (nvs key)
     then cs_blob (set_override w (the (nvs key)) s) else cs_blob s)"
  by (auto simp: cert_store_load_from_nvs_def load_nvs_blob_def working_def there_def set_override_def Let_def split: option.split)

lemma last_opened_note [simp]:
  "last_opened (cs_log (cert_note (CsFopen p True) s)) = p" "last_opened (cs_log (cert_note (CsSeek ok) s)) = last_opened (cs_log s)"
  "last_opened (cs_log (cert_note (CsTell k) s)) = last_opened (cs_log s)" "last_opened (cs_log (cert_note CsRewind s)) = last_opened (cs_log s)"
  "last_opened (cs_log (cert_note (CsMalloc n ok) s)) = last_opened (cs_log s)"
  by (simp_all add: cert_note_def)

lemma working_file:
  assumes "files (last_opened (cs_log s)) = Some d"
  shows "cs_blob (load_file (working nvs files) (length d) w s) = cs_blob (set_override w d s)"
  using assms by (simp add: load_file_def working_def set_override_def Let_def)

lemma working_spiffs:
  "cs_blob (cert_store_load_from_spiffs build (working nvs files) file w s) =
    (let path = cb_mount_point build @ ''/'' @ file in
     if cb_from_spiffs build \<and> cbl_override (cs_blob s w) = None \<and> length path < 128 \<and> there (files path)
     then cs_blob (set_override w (the (files path)) s) else cs_blob s)"
proof -
  let ?path = "cb_mount_point build @ ''/'' @ file" and ?e = "working nvs files"
  obtain s1 where m: "cb_from_spiffs build \<Longrightarrow> cert_store_mount_spiffs build ?e s = (ESP_OK, s1)" "cs_blob s1 = cs_blob s"
    by (cases "cb_from_spiffs build"; cases "cs_mounted s") (auto simp: cert_store_mount_spiffs_def working_def Let_def)
  have w: "ce_fopen ?e l p = (files p \<noteq> None)" "ce_seek ?e l" for l p by (simp_all add: working_def)
  show ?thesis
  proof (cases "cb_from_spiffs build \<and> cbl_override (cs_blob s w) = None \<and> length ?path < 128 \<and> there (files ?path)")
    case True
    then obtain d where d: "files ?path = Some d" "d \<noteq> []" by (auto simp: there_def)
    let ?t = "cert_note (CsTell (int (length d))) (cert_note (CsSeek True) (cert_note (CsFopen ?path True) s1))"
    have "ce_tell ?e (cs_log (cert_note (CsSeek True) (cert_note (CsFopen ?path True) s1))) = int (length d)"
      using d(1) by (simp add: working_def)
    then have "cert_store_load_from_spiffs build ?e file w s = load_file ?e (length d) w ?t"
      using True d m by (simp add: cert_store_load_from_spiffs_def w Let_def)
    then show ?thesis using working_file [of files ?t d nvs w] True d m(2) by (simp add: Let_def set_override_def)
  next
    case False
    then show ?thesis using m
      by (auto simp: cert_store_load_from_spiffs_def w there_def working_def Let_def split: option.split)
  qed
qed

lemma set_override_blob: "cs_blob (set_override w d s) v =
    (if v = w then (cs_blob s w)\<lparr>cbl_override := Some (d @ [0]), cbl_override_len := length d\<rparr> else cs_blob s v)"
  by (simp add: set_override_def)

lemma working_other:
  "v \<noteq> w \<Longrightarrow> cs_blob (cert_store_load_from_nvs build (working nvs files) key w s) v = cs_blob s v"
  "v \<noteq> w \<Longrightarrow> cs_blob (cert_store_load_from_spiffs build (working nvs files) file w s) v = cs_blob s v"
  by (simp_all add: working_nvs working_spiffs set_override_blob Let_def)

definition overridden :: "bytes option \<Rightarrow> cert_store_blob_t \<Rightarrow> cert_store_blob_t" where
  "overridden d b = b\<lparr>cbl_override := Some (the d @ [0]), cbl_override_len := length (the d)\<rparr>"

lemma working_own:
  "cs_blob (cert_store_load_from_nvs build (working nvs files) key w s) w =
    (if cb_from_nvs build \<and> cbl_override (cs_blob s w) = None \<and> there (nvs key) then overridden (nvs key) (cs_blob s w) else cs_blob s w)"
  "cs_blob (cert_store_load_from_spiffs build (working nvs files) file w s) w =
    (if cb_from_spiffs build \<and> cbl_override (cs_blob s w) = None \<and> length (cb_mount_point build @ ''/'' @ file) < 128 \<and>
        there (files (cb_mount_point build @ ''/'' @ file))
     then overridden (files (cb_mount_point build @ ''/'' @ file)) (cs_blob s w) else cs_blob s w)"
  by (simp_all add: working_nvs working_spiffs set_override_blob overridden_def Let_def)

definition blob_given :: "cert_store_blob_t \<Rightarrow> bytes \<times> nat" where
  "blob_given b = (case cbl_override b of
     Some data \<Rightarrow> if cbl_override_len b > 0 then (data, cbl_override_len b) else (cbl_embedded b, length (cbl_embedded b))
   | None \<Rightarrow> (cbl_embedded b, length (cbl_embedded b)))"

lemma select_given: "fst (cert_store_select_blob build env w s) = blob_given (cs_blob (cert_store_init_once build env s) w)"
  by (simp add: cert_store_select_blob_def blob_given_def Let_def split: option.split)

lemma init_once_own:
  fixes build nvs files
  defines "own w \<equiv> cs_blob (cert_store_init_once build (working nvs files) (cert_static build)) w"
  shows "own w = (let b = \<lparr>cbl_embedded = cb_embedded build w, cbl_override = None, cbl_override_len = 0\<rparr>;
      b = (if cb_from_nvs build \<and> cbl_override b = None \<and> there (nvs (nvs_key w)) then overridden (nvs (nvs_key w)) b else b)
    in if cb_from_spiffs build \<and> cbl_override b = None \<and> length (pem_path build w) < 128 \<and> there (files (pem_path build w))
       then overridden (files (pem_path build w)) b else b)"
proof -
  have f: "cs_blob ((cert_static build)\<lparr>cs_initialized := True\<rparr>) w =
      \<lparr>cbl_embedded = cb_embedded build w, cbl_override = None, cbl_override_len = 0\<rparr>" for w
    by (simp add: cert_static_def)
  have start: "\<not> cs_initialized (cert_static build)" by (simp add: cert_static_def)
  show ?thesis
    unfolding own_def cert_store_init_once_def Let_def if_not_P [OF start] pem_path_def nvs_key_def
    by (cases w) (simp_all only: working_other working_own f cert_which.distinct not_False_eq_True cert_which.case)
qed

lemma select_chosen:
  "fst (cert_store_select_blob build (working nvs files) w (cert_static build)) = cert_chosen build nvs files w"
proof -
  have pos: "there x \<Longrightarrow> the x \<noteq> []" for x by (auto simp: there_def)
  show ?thesis
    unfolding select_given init_once_own by (auto simp: cert_chosen_def blob_given_def overridden_def pos)
qed

text \<open>
  C27. The right certificate is used. On a platform without errors each of the three functions
  gives the blob in NVS if there is one that is not empty, else the file in SPIFFS, else what is
  in the image, and each certificate is chosen on its own.
\<close>

theorem cert_store_chooses:
  "fst (cert_store_server_cert build (working nvs files) (cert_static build)) = cert_chosen build nvs files ServerCert \<and>
   fst (cert_store_server_key build (working nvs files) (cert_static build)) = cert_chosen build nvs files ServerKey \<and>
   fst (cert_store_ca_cert build (working nvs files) (cert_static build)) = cert_chosen build nvs files CaCert"
  by (simp add: cert_store_server_cert_def cert_store_server_key_def cert_store_ca_cert_def select_chosen)

text \<open>
  What mbedTLS and the servers and clients of the ESP-IDF over it document: a PEM file is taken
  as such when the last of its bytes, within its length, is the terminating zero.
\<close>

definition pem_terminated :: "bytes \<times> nat \<Rightarrow> bool" where
  "pem_terminated r \<longleftrightarrow> 0 < snd r \<and> snd r \<le> length (fst r) \<and> fst r ! (snd r - 1) = 0"

text \<open>
  A PEM file that overrides the image is not accepted as PEM. The zero that the code appends
  is behind the length that it gives, and the file on SPIFFS has none of its own; the
  embedded certificates, which the build terminates, have it within theirs.
\<close>

theorem pem_override_not_terminated:
  assumes "cb_from_spiffs build" "length (pem_path build w) < 128" "\<not> (cb_from_nvs build \<and> there (nvs (nvs_key w)))"
    and "files (pem_path build w) = Some d" "d \<noteq> []" "0 \<notin> set d" "\<exists>e. cb_embedded build w = e @ [0]"
  shows "\<not> pem_terminated (fst (cert_store_select_blob build (working nvs files) w (cert_static build))) \<and>
    pem_terminated (fst (cert_store_select_blob build (working nvs (\<lambda>_. None)) w (cert_static build)))"
proof -
  have "fst (cert_store_select_blob build (working nvs files) w (cert_static build)) = (d @ [0], length d)"
    using assms(1-5) by (auto simp: select_chosen cert_chosen_def there_def)
  moreover have "(d @ [0]) ! (length d - 1) \<in> set d" using assms(5) by (simp add: nth_append)
  moreover have "fst (cert_store_select_blob build (working nvs (\<lambda>_. None)) w (cert_static build)) =
      (cb_embedded build w, length (cb_embedded build w))"
    using assms(3) by (auto simp: select_chosen cert_chosen_def there_def)
  ultimately show ?thesis using assms(6,7) by (auto simp: pem_terminated_def)
qed

definition demo_certs :: cert_build where
  "demo_certs = \<lparr>cb_from_nvs = True, cb_from_spiffs = True, cb_mount_point = ''/certs'', cb_embedded = (\<lambda>_. [45, 45, 0])\<rparr>"

theorem pem_override_not_terminated_witness:
  "\<not> pem_terminated (fst (cert_store_select_blob demo_certs
     (working (\<lambda>_. None) [''/certs/ca_cert.pem'' \<mapsto> [45, 45, 45]]) CaCert (cert_static demo_certs)))"
proof -
  have "cb_from_spiffs demo_certs" "length (pem_path demo_certs CaCert) < 128"
    "\<not> (cb_from_nvs demo_certs \<and> there ((\<lambda>_. None) (nvs_key CaCert)))"
    "[''/certs/ca_cert.pem'' \<mapsto> [45, 45, 45]] (pem_path demo_certs CaCert) = Some [45, 45, 45 :: u8]"
    "[45, 45, 45 :: u8] \<noteq> []" "0 \<notin> set [45, 45, 45 :: u8]" "\<exists>e. cb_embedded demo_certs CaCert = e @ [0]"
    by (simp_all add: demo_certs_def pem_path_def there_def exI [of _ "[45, 45]"])
  from pem_override_not_terminated [OF this(1,2), where nvs = "\<lambda>_. None" and
      files = "[''/certs/ca_cert.pem'' \<mapsto> [45, 45, 45]]" and d = "[45, 45, 45]", OF this(3-7)] show ?thesis by blast
qed

theorem cert_store_releases_witness:
  "let s = snd (cert_store_select_blob demo_certs ((working (\<lambda>_. Some [1]) (\<lambda>_. Some [2]))\<lparr>ce_fread := (\<lambda>_ _. [])\<rparr>) CaCert
      (cert_static demo_certs)) in cert_balance handle_weight s = 0 \<and> cert_balance buffer_weight s = cert_held s"
  using cert_store_releases [OF cert_call [OF cert_begin]] by (simp add: Let_def)

end
