(* ===== verification/Display.thy ===== *)
theory Display
  imports Prelude
begin

text \<open>
  The display of the HMI node below LVGL: \<^verbatim>\<open>common/util/memory_profile.c\<close> (how much memory
  there is, and the size of the draw buffers), \<^verbatim>\<open>components/esp_lcd_panel_rgb\<close> (the panel) and
  \<^verbatim>\<open>hmi_node/main/display/lvgl_port.c\<close> (LVGL on the panel).

  Calls of the platform are events of a log, newest first; what it answers is a function of the
  log. \<^verbatim>\<open>size_t\<close> has 32 bits. \<^verbatim>\<open>memory_profile_init\<close> is the branch without \<^verbatim>\<open>CONFIG_SPIRAM\<close>: the
  other one does the same, up to a closing brace too many at line 46.
\<close>

section \<open>The memory\<close>

record memory_profile_t =
  mp_chip_model :: u32
  mp_chip_revision :: u32
  mp_cores :: u32
  mp_flash_size_bytes :: u32
  mp_psram_size_bytes :: u32
  mp_internal_ram_total_bytes :: u32
  mp_internal_ram_free_bytes :: u32
  mp_psram_free_bytes :: u32
  mp_psram_available :: bool

definition zero_profile :: memory_profile_t where
  "zero_profile = \<lparr>mp_chip_model = 0, mp_chip_revision = 0, mp_cores = 0, mp_flash_size_bytes = 0, mp_psram_size_bytes = 0,
     mp_internal_ram_total_bytes = 0, mp_internal_ram_free_bytes = 0, mp_psram_free_bytes = 0, mp_psram_available = False\<rparr>"

text \<open>What the ESP-IDF reports of the chip, the flash, the PSRAM and the two heaps.\<close>

record mem_env =
  me_chip :: "u32 \<times> u32 \<times> u32"
  me_flash :: "esp_err \<times> u32"
  me_psram_initialized :: bool
  me_psram_size :: u32
  me_psram_free :: u32
  me_internal_allocated :: u32
  me_internal_free :: u32

record mem_profile =
  mps_profile :: memory_profile_t
  mps_initialised :: bool

definition memory_profile_init :: "mem_env \<Rightarrow> mem_profile \<Rightarrow> esp_err \<times> mem_profile" where
  "memory_profile_init env s =
     (if mps_initialised s then (ESP_OK, s)
      else
        let p = zero_profile;
            p = (case me_chip env of (model, revision, cores) \<Rightarrow>
                   p\<lparr>mp_chip_model := model, mp_chip_revision := revision, mp_cores := cores\<rparr>);
            p = (if fst (me_flash env) = ESP_OK then p\<lparr>mp_flash_size_bytes := snd (me_flash env)\<rparr> else p);
            p = p\<lparr>mp_psram_available := me_psram_initialized env\<rparr>;
            p = (if mp_psram_available p
                 then p\<lparr>mp_psram_size_bytes := me_psram_size env, mp_psram_free_bytes := me_psram_free env\<rparr> else p);
            p = p\<lparr>mp_internal_ram_total_bytes := me_internal_allocated env + me_internal_free env,
                  mp_internal_ram_free_bytes := me_internal_free env\<rparr>
        in (ESP_OK, s\<lparr>mps_profile := p, mps_initialised := True\<rparr>))"

definition memory_profile_get :: "mem_env \<Rightarrow> mem_profile \<Rightarrow> memory_profile_t option \<times> mem_profile" where
  "memory_profile_get env s =
     (if \<not> mps_initialised s then
        (case memory_profile_init env s of (err, s) \<Rightarrow> if err \<noteq> ESP_OK then (None, s) else (Some (mps_profile s), s))
      else (Some (mps_profile s), s))"

text \<open>The numbers of the line that \<^verbatim>\<open>memory_profile_log\<close> prints, \<open>None\<close> where it warns.\<close>

definition memory_profile_log :: "mem_env \<Rightarrow> mem_profile \<Rightarrow> (u32 \<times> u32 \<times> u32 \<times> u32 \<times> u32 \<times> bool \<times> u32) option \<times> mem_profile" where
  "memory_profile_log env s =
     (case memory_profile_get env s of
        (None, s) \<Rightarrow> (None, s)
      | (Some p, s) \<Rightarrow>
          (Some (mp_chip_model p, mp_chip_revision p, mp_cores p, mp_flash_size_bytes p div 1024, mp_psram_size_bytes p div 1024,
             mp_psram_available p, mp_internal_ram_free_bytes p div 1024), s))"

definition memory_profile_recommend_draw_buffer_px :: "mem_env \<Rightarrow> u32 \<Rightarrow> u32 \<Rightarrow> u32 \<Rightarrow> mem_profile \<Rightarrow> u32 \<times> mem_profile" where
  "memory_profile_recommend_draw_buffer_px env hor_res ver_res min_lines s =
     (case memory_profile_get env s of
        (None, s) \<Rightarrow> (hor_res * min_lines, s)
      | (Some p, s) \<Rightarrow>
          let frame_pixels = hor_res * ver_res; min_pixels = hor_res * min_lines in
          if \<not> mp_psram_available p \<or> mp_psram_size_bytes p = 0 then
            (let capped = frame_pixels div 8 in (if capped < min_pixels then min_pixels else capped, s))
          else if mp_psram_size_bytes p \<ge> 16 * 1024 * 1024 then (frame_pixels, s)
          else if mp_psram_size_bytes p \<ge> 8 * 1024 * 1024 then
            (let half = frame_pixels div 2 in (if half > min_pixels then half else min_pixels, s))
          else (let quarter = frame_pixels div 4 in (if quarter < min_pixels then min_pixels else quarter, s)))"

section \<open>The panel\<close>

record esp_lcd_rgb_panel_helper_config_t =
  hc_de_gpio_num :: int
  hc_pclk_gpio_num :: int
  hc_hsync_gpio_num :: int
  hc_vsync_gpio_num :: int
  hc_data_gpio_nums :: "int list"
  hc_data_gpio_nums_count :: nat
  hc_disp_gpio_num :: int
  hc_hsync_back_porch :: int
  hc_hsync_front_porch :: int
  hc_hsync_pulse_width :: int
  hc_vsync_back_porch :: int
  hc_vsync_front_porch :: int
  hc_vsync_pulse_width :: int
  hc_pclk_hz :: u32
  hc_pclk_active_neg :: bool
  hc_hsync_polarity :: bool
  hc_vsync_polarity :: bool
  hc_de_polarity :: bool

text \<open>The fields of the configuration of the ESP-IDF that the code sets.\<close>

record rgb_panel_config =
  rc_data_gpio_nums :: "int list"
  rc_bits_per_pixel :: nat
  rc_hsync_gpio_num :: int
  rc_vsync_gpio_num :: int
  rc_de_gpio_num :: int
  rc_pclk_gpio_num :: int
  rc_disp_gpio_num :: int
  rc_pclk_hz :: u32
  rc_h_res :: nat
  rc_v_res :: nat
  rc_hsync_back_porch :: int
  rc_hsync_front_porch :: int
  rc_hsync_pulse_width :: int
  rc_vsync_back_porch :: int
  rc_vsync_front_porch :: int
  rc_vsync_pulse_width :: int
  rc_hsync_idle_low :: bool
  rc_vsync_idle_low :: bool
  rc_de_idle_high :: bool
  rc_pclk_active_neg :: bool

text \<open>A request that may fail is logged with its result.\<close>

datatype disp_request =
    NewRgbPanel rgb_panel_config | PanelReset | PanelInit | PanelDraw int int int int
  | TickTimerCreate | TickTimerStart nat

datatype disp_call =
    Asked disp_request esp_err | CreateRecursiveMutex | PanelDel
  | LvInit | SpiramAlloc u32 | DrawBufInit u32 | DispRegister nat nat
  | DispFlushReady | TickInc nat | DispTimerHandler

record disp_env =
  de_mutex :: "disp_call list \<Rightarrow> bool"
  de_result :: "disp_call list \<Rightarrow> disp_request \<Rightarrow> esp_err"
  de_spiram :: "disp_call list \<Rightarrow> u32 \<Rightarrow> bool"
  de_mem :: mem_env

text \<open>The static variables of the port: which pointers are not NULL; and the log.\<close>

record display =
  dp_lvgl_mutex :: bool
  dp_buf1 :: bool
  dp_buf2 :: bool
  dp_panel :: bool
  dp_mem :: mem_profile
  dp_log :: "disp_call list"

definition disp_note :: "disp_call \<Rightarrow> display \<Rightarrow> display" where
  "disp_note c s = s\<lparr>dp_log := c # dp_log s\<rparr>"

definition disp_do :: "disp_env \<Rightarrow> disp_request \<Rightarrow> display \<Rightarrow> esp_err \<times> display" where
  "disp_do env c s = (let err = de_result env (dp_log s) c in (err, disp_note (Asked c err) s))"

definition rgb_config :: "esp_lcd_rgb_panel_helper_config_t \<Rightarrow> rgb_panel_config" where
  "rgb_config config = \<lparr>rc_data_gpio_nums = hc_data_gpio_nums config, rc_bits_per_pixel = 16,
     rc_hsync_gpio_num = hc_hsync_gpio_num config, rc_vsync_gpio_num = hc_vsync_gpio_num config,
     rc_de_gpio_num = hc_de_gpio_num config, rc_pclk_gpio_num = hc_pclk_gpio_num config,
     rc_disp_gpio_num = hc_disp_gpio_num config, rc_pclk_hz = hc_pclk_hz config, rc_h_res = 1024, rc_v_res = 600,
     rc_hsync_back_porch = hc_hsync_back_porch config, rc_hsync_front_porch = hc_hsync_front_porch config,
     rc_hsync_pulse_width = hc_hsync_pulse_width config, rc_vsync_back_porch = hc_vsync_back_porch config,
     rc_vsync_front_porch = hc_vsync_front_porch config, rc_vsync_pulse_width = hc_vsync_pulse_width config,
     rc_hsync_idle_low = hc_hsync_polarity config, rc_vsync_idle_low = hc_vsync_polarity config,
     rc_de_idle_high = hc_de_polarity config, rc_pclk_active_neg = hc_pclk_active_neg config\<rparr>"

text \<open>The second result is whether \<^verbatim>\<open>*panel_handle\<close> is written.\<close>

definition esp_lcd_new_panel_rgb_default ::
  "disp_env \<Rightarrow> esp_lcd_rgb_panel_helper_config_t option \<Rightarrow> bool \<Rightarrow> display \<Rightarrow> esp_err \<times> bool \<times> display" where
  "esp_lcd_new_panel_rgb_default env configp panel_handle s =
     (case configp of
        None \<Rightarrow> (ESP_ERR_INVALID_ARG, False, s)
      | Some config \<Rightarrow>
          if \<not> panel_handle \<or> hc_data_gpio_nums_count config \<noteq> 16 then (ESP_ERR_INVALID_ARG, False, s)
          else case disp_do env (NewRgbPanel (rgb_config config)) s of (err, s) \<Rightarrow>
            if err \<noteq> ESP_OK then (err, False, s)
            else case disp_do env PanelReset s of (err, s) \<Rightarrow>
              if err \<noteq> ESP_OK then (err, False, disp_note PanelDel s)
              else case disp_do env PanelInit s of (err, s) \<Rightarrow>
                if err \<noteq> ESP_OK then (err, False, disp_note PanelDel s) else (ESP_OK, True, s))"

section \<open>LVGL on the panel\<close>

definition HMI_LCD_DATA_PINS :: "int list" where
  "HMI_LCD_DATA_PINS = [42, 41, 40, 39, 45, 48, 47, 21, 14, 38, 18, 17, 10, 9, 4, 8]"

definition HMI_LCD_DE :: int where "HMI_LCD_DE = 5"
definition HMI_LCD_PCLK :: int where "HMI_LCD_PCLK = 7"
definition HMI_LCD_HSYNC :: int where "HMI_LCD_HSYNC = 46"
definition HMI_LCD_VSYNC :: int where "HMI_LCD_VSYNC = 3"
definition HMI_LCD_DISP :: int where "HMI_LCD_DISP = 6"

definition lcd_config :: esp_lcd_rgb_panel_helper_config_t where
  "lcd_config = \<lparr>hc_de_gpio_num = HMI_LCD_DE, hc_pclk_gpio_num = HMI_LCD_PCLK, hc_hsync_gpio_num = HMI_LCD_HSYNC,
     hc_vsync_gpio_num = HMI_LCD_VSYNC, hc_data_gpio_nums = HMI_LCD_DATA_PINS, hc_data_gpio_nums_count = 16,
     hc_disp_gpio_num = HMI_LCD_DISP, hc_hsync_back_porch = 20, hc_hsync_front_porch = 160, hc_hsync_pulse_width = 20,
     hc_vsync_back_porch = 12, hc_vsync_front_porch = 23, hc_vsync_pulse_width = 10, hc_pclk_hz = 50000000,
     hc_pclk_active_neg = True, hc_hsync_polarity = False, hc_vsync_polarity = False, hc_de_polarity = True\<rparr>"

definition display_flush_cb :: "disp_env \<Rightarrow> int \<times> int \<times> int \<times> int \<Rightarrow> display \<Rightarrow> bool \<times> display" where
  "display_flush_cb env area s =
     (case area of (x1, y1, x2, y2) \<Rightarrow>
      case disp_do env (PanelDraw x1 y1 (x2 + 1) (y2 + 1)) s of (_, s) \<Rightarrow> (False, disp_note DispFlushReady s))"

definition lvgl_tick :: "display \<Rightarrow> display" where
  "lvgl_tick s = disp_note (TickInc 5) s"

text \<open>\<^verbatim>\<open>ESP_ERROR_CHECK\<close> stops the node. \<open>colour_size\<close> is \<^verbatim>\<open>sizeof(lv_color_t)\<close>.\<close>

datatype port_outcome = PortReturned esp_err | PortAborted esp_err

definition lvgl_port_buffers :: "disp_env \<Rightarrow> u32 \<Rightarrow> u32 \<Rightarrow> display \<Rightarrow> display" where
  "lvgl_port_buffers env colour_size px s =
     (let s = disp_note (SpiramAlloc (px * colour_size)) (s\<lparr>dp_buf1 := de_spiram env (dp_log s) (px * colour_size)\<rparr>)
      in disp_note (SpiramAlloc (px * colour_size)) (s\<lparr>dp_buf2 := de_spiram env (dp_log s) (px * colour_size)\<rparr>))"

definition lvgl_port_timer :: "disp_env \<Rightarrow> display \<Rightarrow> port_outcome \<times> display" where
  "lvgl_port_timer env s =
     (case disp_do env TickTimerCreate s of (err, s) \<Rightarrow>
        if err \<noteq> ESP_OK then (PortAborted err, s)
        else case disp_do env (TickTimerStart 5000) s of (err, s) \<Rightarrow>
          if err \<noteq> ESP_OK then (PortAborted err, s) else (PortReturned ESP_OK, s))"

definition lvgl_port_init :: "disp_env \<Rightarrow> u32 \<Rightarrow> display \<Rightarrow> port_outcome \<times> display" where
  "lvgl_port_init env colour_size s =
     (let s = disp_note CreateRecursiveMutex (s\<lparr>dp_lvgl_mutex := de_mutex env (dp_log s)\<rparr>) in
      if \<not> dp_lvgl_mutex s then (PortReturned ESP_ERR_NO_MEM, s)
      else case esp_lcd_new_panel_rgb_default env (Some lcd_config) True s of (err, written, s) \<Rightarrow>
        let s = (if written then s\<lparr>dp_panel := True\<rparr> else s) in
        if err \<noteq> ESP_OK then (PortReturned err, s)
        else
          let s = disp_note LvInit s in
          case memory_profile_recommend_draw_buffer_px (de_mem env) 1024 600 40 (dp_mem s) of (px, m) \<Rightarrow>
            let s = lvgl_port_buffers env colour_size px (s\<lparr>dp_mem := m\<rparr>) in
            if \<not> dp_buf1 s \<or> \<not> dp_buf2 s then (PortReturned ESP_ERR_NO_MEM, s)
            else lvgl_port_timer env (disp_note (DispRegister 1024 600) (disp_note (DrawBufInit px) s)))"

definition lvgl_port_flush_ready :: "display \<Rightarrow> display" where
  "lvgl_port_flush_ready s = disp_note DispTimerHandler s"

section \<open>The size of the draw buffers\<close>

lemma memory_profile_get_Some: "\<exists>p s'. memory_profile_get env s = (Some p, s') \<and> mps_initialised s' \<and> mps_profile s' = p \<and>
    (mps_initialised s \<longrightarrow> s' = s)"
  by (auto simp: memory_profile_get_def memory_profile_init_def Let_def split: prod.split)

lemma memory_profile_get_again: "memory_profile_get env s = (Some p, s') \<Longrightarrow> memory_profile_get env' s' = (Some p, s')"
  using memory_profile_get_Some [of env s] by (auto simp: memory_profile_get_def)

lemma if_less_max: "(if a < b then b else a) = max b (a :: 'a :: linorder)"
  by (simp add: max_def not_less [symmetric])

lemma recommend_cases:
  assumes "memory_profile_get env s = (Some p, s')"
  shows "memory_profile_recommend_draw_buffer_px env hor ver lines s =
    ((if mp_psram_available p \<and> mp_psram_size_bytes p \<ge> 16 * 1024 * 1024 then hor * ver
      else max (hor * lines) ((hor * ver) div (if \<not> mp_psram_available p \<or> mp_psram_size_bytes p = 0 then 8
        else if mp_psram_size_bytes p \<ge> 8 * 1024 * 1024 then 2 else 4))), s')"
  unfolding memory_profile_recommend_draw_buffer_px_def assms prod.case option.case Let_def if_less_max
  by (cases "mp_psram_available p"; cases "mp_psram_size_bytes p = 0"; cases "16 * 1024 * 1024 \<le> mp_psram_size_bytes p";
      cases "8 * 1024 * 1024 \<le> mp_psram_size_bytes p") (simp_all add: max.commute)

text \<open>
  The recommended draw buffer holds at least the lines asked for and at most the screen,
  whatever the chip reports, and asking again gives the same size.
\<close>

theorem draw_buffer_bounds:
  assumes "unat hor * unat ver < 2 ^ 32" "lines \<le> ver"
    and "memory_profile_recommend_draw_buffer_px env hor ver lines s = (px, s')"
  shows "unat hor * unat lines \<le> unat px \<and> unat px \<le> unat hor * unat ver \<and>
    memory_profile_recommend_draw_buffer_px env' hor ver lines s' = (px, s')"
proof -
  obtain p s1 where g: "memory_profile_get env s = (Some p, s1)" using memory_profile_get_Some by blast
  note c = recommend_cases [OF g] and again = recommend_cases [OF memory_profile_get_again [OF g]]
  have s': "s' = s1" using assms(3) c by simp
  have lines: "unat hor * unat lines \<le> unat hor * unat ver" using assms(2) by (simp add: word_le_nat_alt)
  have f: "unat (hor * ver) = unat hor * unat ver" using assms(1) by (simp add: unat_word_ariths)
  have "unat hor * unat lines < 2 ^ 32" using lines assms(1) by linarith
  then have m: "unat (hor * lines) = unat hor * unat lines" by (simp add: unat_word_ariths)
  have d: "unat ((hor * ver) div k) \<le> unat hor * unat ver" for k by (simp add: unat_div f)
  have "unat hor * unat lines \<le> unat px \<and> unat px \<le> unat hor * unat ver"
    using assms(3) c lines d by (auto simp: f m max_def word_le_nat_alt split: if_splits)
  then show ?thesis using again assms(3) c s' by simp
qed

definition demo_mem :: mem_env where
  "demo_mem = \<lparr>me_chip = (9, 2, 2), me_flash = (ESP_OK, 16777216), me_psram_initialized = True, me_psram_size = 8388608,
     me_psram_free = 8000000, me_internal_allocated = 100000, me_internal_free = 200000\<rparr>"

definition mem_start :: mem_profile where
  "mem_start = \<lparr>mps_profile = zero_profile, mps_initialised = False\<rparr>"

lemma demo_draw_buffer: "fst (memory_profile_recommend_draw_buffer_px demo_mem 1024 600 40 mem_start) = 307200"
  by (simp add: memory_profile_recommend_draw_buffer_px_def memory_profile_get_def memory_profile_init_def demo_mem_def
      mem_start_def Let_def zero_profile_def word_le_nat_alt word_less_nat_alt)

theorem draw_buffer_bounds_witness:
  "fst (memory_profile_recommend_draw_buffer_px demo_mem 1024 600 40 mem_start) = 307200 \<and>
   (case memory_profile_recommend_draw_buffer_px demo_mem 1024 600 40 mem_start of (px, s') \<Rightarrow>
      40960 \<le> unat px \<and> unat px \<le> 614400 \<and>
      memory_profile_recommend_draw_buffer_px (demo_mem\<lparr>me_psram_size := 0\<rparr>) 1024 600 40 s' = (px, s'))"
proof -
  obtain px s' where r: "memory_profile_recommend_draw_buffer_px demo_mem 1024 600 40 mem_start = (px, s')" by fastforce
  have "px = 307200" using r demo_draw_buffer by simp
  with draw_buffer_bounds [OF _ _ r, of "demo_mem\<lparr>me_psram_size := 0\<rparr>"] r show ?thesis by (simp add: word_le_nat_alt)
qed

section \<open>The start of the port\<close>

lemma note_log [simp]: "dp_log (disp_note c s) = c # dp_log s" by (simp add: disp_note_def)

lemma note_fields [simp]:
  "dp_lvgl_mutex (disp_note c s) = dp_lvgl_mutex s" "dp_buf1 (disp_note c s) = dp_buf1 s" "dp_buf2 (disp_note c s) = dp_buf2 s"
  "dp_panel (disp_note c s) = dp_panel s" "dp_mem (disp_note c s) = dp_mem s"
  by (simp_all add: disp_note_def)

text \<open>
  What \<^verbatim>\<open>esp_lcd_new_panel_rgb_default\<close> does: a panel that is not reset or not initialised is
  deleted, and one that is handed out was created, reset and initialised.
\<close>

definition panel_started :: "disp_call list" where
  "panel_started = [Asked PanelInit ESP_OK, Asked PanelReset ESP_OK, Asked (NewRgbPanel (rgb_config lcd_config)) ESP_OK]"

definition panel_failed :: "esp_err \<Rightarrow> disp_call list \<Rightarrow> bool" where
  "panel_failed e new \<longleftrightarrow> e \<noteq> ESP_OK \<and>
     new \<in> {[Asked (NewRgbPanel (rgb_config lcd_config)) e],
       [PanelDel, Asked PanelReset e, Asked (NewRgbPanel (rgb_config lcd_config)) ESP_OK],
       [PanelDel, Asked PanelInit e, Asked PanelReset ESP_OK, Asked (NewRgbPanel (rgb_config lcd_config)) ESP_OK]}"

lemma new_panel_cases:
  assumes "esp_lcd_new_panel_rgb_default env (Some lcd_config) True s = (err, written, s')"
  shows "written = (err = ESP_OK)" "dp_lvgl_mutex s' = dp_lvgl_mutex s" "dp_mem s' = dp_mem s" "dp_panel s' = dp_panel s"
    "err = ESP_OK \<longrightarrow> dp_log s' = panel_started @ dp_log s"
    "err \<noteq> ESP_OK \<longrightarrow> (\<exists>new. panel_failed err new \<and> dp_log s' = new @ dp_log s)"
proof -
  let ?c = "NewRgbPanel (rgb_config lcd_config)"
  define e1 where "e1 = de_result env (dp_log s) ?c"
  define e2 where "e2 = de_result env (Asked ?c e1 # dp_log s) PanelReset"
  define e3 where "e3 = de_result env (Asked PanelReset e2 # Asked ?c e1 # dp_log s) PanelInit"
  have pins: "hc_data_gpio_nums_count lcd_config = 16" by (simp add: lcd_config_def)
  have "(err, written, s') =
      (if e1 \<noteq> ESP_OK then (e1, False, disp_note (Asked ?c e1) s)
       else if e2 \<noteq> ESP_OK then (e2, False, disp_note PanelDel (disp_note (Asked PanelReset e2) (disp_note (Asked ?c e1) s)))
       else if e3 \<noteq> ESP_OK then (e3, False, disp_note PanelDel (disp_note (Asked PanelInit e3) (disp_note (Asked PanelReset e2) (disp_note (Asked ?c e1) s))))
       else (ESP_OK, True, disp_note (Asked PanelInit e3) (disp_note (Asked PanelReset e2) (disp_note (Asked ?c e1) s))))"
    using assms unfolding esp_lcd_new_panel_rgb_default_def disp_do_def option.case prod.case Let_def pins note_log e1_def e2_def e3_def
    by simp
  then consider
      "err = e1" "e1 \<noteq> ESP_OK" "\<not> written" "s' = disp_note (Asked ?c e1) s"
    | "err = e2" "e2 \<noteq> ESP_OK" "e1 = ESP_OK" "\<not> written" "s' = disp_note PanelDel (disp_note (Asked PanelReset e2) (disp_note (Asked ?c e1) s))"
    | "err = e3" "e3 \<noteq> ESP_OK" "e1 = ESP_OK" "e2 = ESP_OK" "\<not> written"
        "s' = disp_note PanelDel (disp_note (Asked PanelInit e3) (disp_note (Asked PanelReset e2) (disp_note (Asked ?c e1) s)))"
    | "err = ESP_OK" "e3 = ESP_OK" "e1 = ESP_OK" "e2 = ESP_OK" "written"
        "s' = disp_note (Asked PanelInit e3) (disp_note (Asked PanelReset e2) (disp_note (Asked ?c e1) s))"
    by (simp split: if_splits)
  then have "written = (err = ESP_OK) \<and> dp_lvgl_mutex s' = dp_lvgl_mutex s \<and> dp_mem s' = dp_mem s \<and> dp_panel s' = dp_panel s \<and>
      (if err = ESP_OK then dp_log s' = panel_started @ dp_log s
       else \<exists>new. panel_failed err new \<and> dp_log s' = new @ dp_log s)"
    by cases (simp_all add: panel_started_def panel_failed_def)
  then show "written = (err = ESP_OK)" "dp_lvgl_mutex s' = dp_lvgl_mutex s" "dp_mem s' = dp_mem s" "dp_panel s' = dp_panel s"
    "err = ESP_OK \<longrightarrow> dp_log s' = panel_started @ dp_log s"
    "err \<noteq> ESP_OK \<longrightarrow> (\<exists>new. panel_failed err new \<and> dp_log s' = new @ dp_log s)"
    by (simp_all split: if_splits)
qed

definition port_ready_log :: "u32 \<Rightarrow> u32 \<Rightarrow> disp_call list" where
  "port_ready_log px colour_size =
     [Asked (TickTimerStart 5000) ESP_OK, Asked TickTimerCreate ESP_OK, DispRegister 1024 600, DrawBufInit px,
      SpiramAlloc (px * colour_size), SpiramAlloc (px * colour_size), LvInit] @ panel_started @ [CreateRecursiveMutex]"

lemma recommend_screen:
  assumes "memory_profile_recommend_draw_buffer_px env 1024 600 40 s = (px, s')"
  shows "40960 \<le> unat px \<and> unat px \<le> 614400"
proof -
  obtain p s1 where g: "memory_profile_get env s = (Some p, s1)" using memory_profile_get_Some by blast
  from recommend_cases [OF g, of 1024 600 40] assms show ?thesis by (auto simp: max_def word_le_nat_alt split: if_splits)
qed

text \<open>The part of the start with the panel there: the buffers, and then everything else or nothing.\<close>

lemma port_with_panel:
  assumes "lvgl_port_init env colour_size s = (PortReturned err, s')" "s0 = disp_note CreateRecursiveMutex (s\<lparr>dp_lvgl_mutex := de_mutex env (dp_log s)\<rparr>)"
    and "dp_lvgl_mutex s0" "esp_lcd_new_panel_rgb_default env (Some lcd_config) True s0 = (ESP_OK, True, s1)"
    and "memory_profile_recommend_draw_buffer_px (de_mem env) 1024 600 40 (dp_mem s) = (px, mp)"
  shows "dp_panel s' \<and> dp_lvgl_mutex s' \<and> (\<exists>new. dp_log s' = new @ dp_log s \<and>
    (if err = ESP_OK then new = port_ready_log px colour_size \<and> dp_buf1 s' \<and> dp_buf2 s'
     else new = [SpiramAlloc (px * colour_size), SpiramAlloc (px * colour_size), LvInit] @ panel_started @ [CreateRecursiveMutex] \<and>
       (\<not> dp_buf1 s' \<or> \<not> dp_buf2 s')))"
proof -
  let ?s2 = "disp_note LvInit (s1\<lparr>dp_panel := True\<rparr>)"
  have s1: "dp_log s1 = panel_started @ [CreateRecursiveMutex] @ dp_log s" "dp_lvgl_mutex s1" "dp_mem s1 = dp_mem s"
    using new_panel_cases(2-5) [OF assms(4)] assms(2,3) by simp_all
  let ?s3 = "lvgl_port_buffers env colour_size px (?s2\<lparr>dp_mem := mp\<rparr>)"
  have s3: "dp_log ?s3 = [SpiramAlloc (px * colour_size), SpiramAlloc (px * colour_size), LvInit] @ dp_log s1" "dp_panel ?s3" "dp_lvgl_mutex ?s3"
    using s1(2) by (simp_all add: lvgl_port_buffers_def Let_def)
  have "(if dp_buf1 ?s3 \<and> dp_buf2 ?s3 then lvgl_port_timer env (disp_note (DispRegister 1024 600) (disp_note (DrawBufInit px) ?s3))
      else (PortReturned ESP_ERR_NO_MEM, ?s3)) = (PortReturned err, s')"
    using assms s1(3) by (auto simp: lvgl_port_init_def Let_def)
  with s3 s1(1) show ?thesis
    by (auto simp: lvgl_port_timer_def disp_do_def port_ready_log_def Let_def split: if_splits)
qed

text \<open>
  C34. The display comes up completely or is not registered. When \<^verbatim>\<open>lvgl_port_init\<close> returns
  \<^verbatim>\<open>ESP_OK\<close>, the panel was created, reset and initialised with success, both draw buffers exist
  and have the recommended size, which holds between 40 lines and the screen, and then the display
  was registered and its clock created and started with success. When it returns an error, LVGL has
  no display; either the panel gave that error, was deleted if there was one, and is not kept, or
  the panel runs and a buffer is missing, or there is no mutex.
\<close>

theorem lvgl_port_init_all_or_nothing:
  assumes "lvgl_port_init env colour_size s = (PortReturned err, s')"
    and "memory_profile_recommend_draw_buffer_px (de_mem env) 1024 600 40 (dp_mem s) = (px, mp)"
  shows "\<exists>new. dp_log s' = new @ dp_log s \<and>
    (if err = ESP_OK then dp_lvgl_mutex s' \<and> dp_panel s' \<and> dp_buf1 s' \<and> dp_buf2 s' \<and>
         new = port_ready_log px colour_size \<and> 40960 \<le> unat px \<and> unat px \<le> 614400
     else (\<forall>x y. DispRegister x y \<notin> set new) \<and>
       (\<not> dp_lvgl_mutex s' \<and> new = [CreateRecursiveMutex] \<or>
        dp_panel s' = dp_panel s \<and> (\<exists>panel. panel_failed err panel \<and> new = panel @ [CreateRecursiveMutex]) \<or>
        dp_panel s' \<and> (\<not> dp_buf1 s' \<or> \<not> dp_buf2 s') \<and> set panel_started \<subseteq> set new))"
proof -
  define s0 where "s0 = disp_note CreateRecursiveMutex (s\<lparr>dp_lvgl_mutex := de_mutex env (dp_log s)\<rparr>)"
  obtain e w s1 where n: "esp_lcd_new_panel_rgb_default env (Some lcd_config) True s0 = (e, w, s1)" using prod_cases3 by blast
  note c = new_panel_cases [OF n]
  consider "\<not> dp_lvgl_mutex s0" | "dp_lvgl_mutex s0" "e \<noteq> ESP_OK" | "dp_lvgl_mutex s0" "e = ESP_OK" by blast
  then show ?thesis
  proof cases
    case 1
    with assms(1) show ?thesis by (auto simp: lvgl_port_init_def s0_def Let_def)
  next
    case 2
    with assms(1) n c(1) have s': "err = e" "s' = s1" by (simp_all add: lvgl_port_init_def s0_def Let_def)
    obtain panel where p: "panel_failed e panel" "dp_log s1 = panel @ CreateRecursiveMutex # dp_log s"
      using 2 c(6) by (auto simp: s0_def)
    moreover have "\<forall>x y. DispRegister x y \<notin> set panel" using p(1) by (auto simp: panel_failed_def)
    moreover have "dp_panel s1 = dp_panel s" using c(4) by (simp add: s0_def)
    ultimately show ?thesis using s' 2(2) by (intro exI [of _ "panel @ [CreateRecursiveMutex]"]) auto
  next
    case 3
    with n c(1) have "esp_lcd_new_panel_rgb_default env (Some lcd_config) True s0 = (ESP_OK, True, s1)" by simp
    from port_with_panel [OF assms(1) s0_def 3(1) this assms(2)] recommend_screen [OF assms(2)] show ?thesis
      by (auto simp: panel_started_def split: if_splits)
  qed
qed

definition demo_disp :: disp_env where
  "demo_disp = \<lparr>de_mutex = (\<lambda>_. True), de_result = (\<lambda>_ _. ESP_OK), de_spiram = (\<lambda>_ _. True), de_mem = demo_mem\<rparr>"

definition disp_start :: display where
  "disp_start = \<lparr>dp_lvgl_mutex = False, dp_buf1 = False, dp_buf2 = False, dp_panel = False, dp_mem = mem_start, dp_log = []\<rparr>"

lemma demo_port: "\<exists>s'. lvgl_port_init demo_disp 2 disp_start = (PortReturned ESP_OK, s')"
  by (auto simp: lvgl_port_init_def esp_lcd_new_panel_rgb_default_def disp_do_def demo_disp_def disp_start_def lvgl_port_timer_def
      lvgl_port_buffers_def lcd_config_def Let_def split: prod.split)

theorem lvgl_port_init_all_or_nothing_witness:
  "\<exists>s'. lvgl_port_init demo_disp 2 disp_start = (PortReturned ESP_OK, s') \<and> dp_log s' = port_ready_log 307200 2 \<and> dp_buf2 s'"
proof -
  obtain s' where r: "lvgl_port_init demo_disp 2 disp_start = (PortReturned ESP_OK, s')" using demo_port by blast
  obtain mp where px: "memory_profile_recommend_draw_buffer_px (de_mem demo_disp) 1024 600 40 (dp_mem disp_start) = (307200, mp)"
    using demo_draw_buffer by (metis (no_types) demo_disp_def disp_start_def disp_env.select_convs(4) display.select_convs(5) prod.collapse)
  from lvgl_port_init_all_or_nothing [OF r px] show ?thesis using r by (auto simp: disp_start_def)
qed

text \<open>
  Without PSRAM there is no display: the size recommended for a chip without it is asked of the
  PSRAM heap all the same, and the port gives up. The user interface task goes on regardless.
\<close>

theorem lvgl_port_init_needs_psram:
  assumes "\<forall>l n. \<not> de_spiram env l n"
  shows "fst (lvgl_port_init env colour_size s) \<noteq> PortReturned ESP_OK"
proof
  assume "fst (lvgl_port_init env colour_size s) = PortReturned ESP_OK"
  then obtain s' where r: "lvgl_port_init env colour_size s = (PortReturned ESP_OK, s')" by (metis prod.collapse)
  then show False using assms
    by (auto simp: lvgl_port_init_def lvgl_port_buffers_def Let_def split: if_splits prod.splits)
qed

end
