(* ===== verification/Peripherals.thy ===== *)
theory Peripherals
  imports Display
begin

text \<open>
  Small drivers around the two nodes: the touch controller \<^verbatim>\<open>hmi_node/main/touch/gt911.c\<close>, the
  heartbeat tasks \<^verbatim>\<open>t_heartbeat.c\<close> of both nodes, and \<^verbatim>\<open>common/util/time_sync.c\<close>. Calls of the
  platform are events of a log, newest first. \<^verbatim>\<open>None\<close> is a node that \<^verbatim>\<open>ESP_ERROR_CHECK\<close> stopped.
\<close>

section \<open>The touch controller\<close>

datatype touch_op = TouchStart | TouchByte u8 | TouchBytes bytes | TouchRead nat | TouchStop

datatype touch_call =
    TouchParamConfig int int nat | TouchInstall | TouchBegin "touch_op list"
  | GpioOutput "int list" | GpioLevel int nat | TaskDelay nat

record touch_env =
  tc_result :: "touch_call list \<Rightarrow> touch_call \<Rightarrow> esp_err"
  tc_data :: "touch_call list \<Rightarrow> touch_op list \<Rightarrow> bytes"

record gt911 =
  gt_addr :: u8
  gt_log :: "touch_call list"

record gt911_touch_data_t =
  td_x :: u16
  td_y :: u16
  td_pressed :: bool

definition HMI_TOUCH_SCL :: int where "HMI_TOUCH_SCL = 9"
definition HMI_TOUCH_SDA :: int where "HMI_TOUCH_SDA = 8"
definition HMI_TOUCH_INT :: int where "HMI_TOUCH_INT = 4"
definition HMI_TOUCH_RST :: int where "HMI_TOUCH_RST = 2"

definition touch_do :: "touch_env \<Rightarrow> touch_call \<Rightarrow> gt911 \<Rightarrow> esp_err \<times> gt911" where
  "touch_do env c s = (tc_result env (gt_log s) c, s\<lparr>gt_log := c # gt_log s\<rparr>)"

definition gt911_i2c_init :: "touch_env \<Rightarrow> gt911 \<Rightarrow> (esp_err \<times> gt911) option" where
  "gt911_i2c_init env s =
     (case touch_do env (TouchParamConfig HMI_TOUCH_SDA HMI_TOUCH_SCL 400000) s of (err, s) \<Rightarrow>
        if err \<noteq> ESP_OK then None else Some (touch_do env TouchInstall s))"

definition gt911_write :: "touch_env \<Rightarrow> u16 \<Rightarrow> bytes \<Rightarrow> gt911 \<Rightarrow> esp_err \<times> gt911" where
  "gt911_write env reg data s =
     touch_do env (TouchBegin ([TouchStart, TouchByte (push_bit 1 (gt_addr s) OR 0), TouchByte (ucast (reg AND 0xFF)),
       TouchByte (ucast (drop_bit 8 reg AND 0xFF))] @ (if data \<noteq> [] then [TouchBytes data] else []) @ [TouchStop])) s"

definition gt911_read :: "touch_env \<Rightarrow> u16 \<Rightarrow> nat \<Rightarrow> gt911 \<Rightarrow> esp_err \<times> bytes \<times> gt911" where
  "gt911_read env reg len s =
     (let ops = [TouchStart, TouchByte (push_bit 1 (gt_addr s) OR 0), TouchByte (ucast (reg AND 0xFF)),
            TouchByte (ucast (drop_bit 8 reg AND 0xFF)), TouchStart, TouchByte (push_bit 1 (gt_addr s) OR 1), TouchRead len, TouchStop];
          data = tc_data env (gt_log s) ops
      in case touch_do env (TouchBegin ops) s of (err, s) \<Rightarrow> (err, data, s))"

definition gt911_reset_sequence :: "touch_env \<Rightarrow> gt911 \<Rightarrow> gt911" where
  "gt911_reset_sequence env s =
     s\<lparr>gt_log := [TaskDelay 50, GpioLevel HMI_TOUCH_RST 1, TaskDelay 50, GpioLevel HMI_TOUCH_INT 0, GpioLevel HMI_TOUCH_RST 0,
        GpioOutput [HMI_TOUCH_RST, HMI_TOUCH_INT]] @ gt_log s\<rparr>"

definition gt911_init :: "touch_env \<Rightarrow> gt911 \<Rightarrow> (esp_err \<times> gt911) option" where
  "gt911_init env s =
     (case gt911_i2c_init env s of
        None \<Rightarrow> None
      | Some (_, s) \<Rightarrow>
          case gt911_read env 0x8140 4 (gt911_reset_sequence env s) of (err, _, s) \<Rightarrow>
            if err = ESP_OK then Some (ESP_OK, s)
            else case gt911_read env 0x8140 4 (s\<lparr>gt_addr := 0x14\<rparr>) of (err, _, s) \<Rightarrow>
              Some (if err \<noteq> ESP_OK then ESP_FAIL else ESP_OK, s))"

definition gt911_read_touch ::
  "touch_env \<Rightarrow> gt911_touch_data_t option \<Rightarrow> gt911 \<Rightarrow> bool \<times> gt911_touch_data_t option \<times> gt911" where
  "gt911_read_touch env datap s =
     (case datap of
        None \<Rightarrow> (False, None, s)
      | Some data \<Rightarrow>
          case gt911_read env 0x814E 1 s of (err, status, s) \<Rightarrow>
            if err \<noteq> ESP_OK then (False, Some data, s)
            else if status ! 0 AND 0x80 = 0 then (False, Some (data\<lparr>td_pressed := False\<rparr>), s)
            else case gt911_read env 0x8150 8 s of (err, buf, s) \<Rightarrow>
              if err \<noteq> ESP_OK then (False, Some data, s)
              else
                let data = data\<lparr>td_x := push_bit 8 (ucast (buf ! 1)) OR ucast (buf ! 0),
                      td_y := push_bit 8 (ucast (buf ! 3)) OR ucast (buf ! 2), td_pressed := True\<rparr>
                in case gt911_write env 0x814E [0] s of (_, s) \<Rightarrow> (True, Some data, s))"

text \<open>
  The touch controller shares pins with the display. Its clock, its data and its interrupt
  are three of the sixteen data lines of the panel, and its reset drives one of them: in every
  run of \<^verbatim>\<open>gt911_init\<close> a data line of the panel is made an ordinary output.
\<close>

theorem touch_takes_display_pins:
  assumes "gt911_init env s = Some (err, s')"
  shows "{HMI_TOUCH_SCL, HMI_TOUCH_SDA, HMI_TOUCH_INT} \<subseteq> set (hc_data_gpio_nums lcd_config) \<and>
    (\<exists>pins. GpioOutput pins \<in> set (gt_log s') \<and> set pins \<inter> set (hc_data_gpio_nums lcd_config) \<noteq> {})"
proof -
  have p: "HMI_TOUCH_INT \<in> set (hc_data_gpio_nums lcd_config)" "HMI_TOUCH_SCL \<in> set (hc_data_gpio_nums lcd_config)"
    "HMI_TOUCH_SDA \<in> set (hc_data_gpio_nums lcd_config)"
    by (simp_all add: lcd_config_def HMI_LCD_DATA_PINS_def HMI_TOUCH_INT_def HMI_TOUCH_SCL_def HMI_TOUCH_SDA_def)
  have "GpioOutput [HMI_TOUCH_RST, HMI_TOUCH_INT] \<in> set (gt_log s')"
    using assms by (auto simp: gt911_init_def gt911_read_def gt911_reset_sequence_def touch_do_def Let_def
        split: option.splits prod.splits if_splits)
  with p show ?thesis by (intro conjI exI [of _ "[HMI_TOUCH_RST, HMI_TOUCH_INT]"]) auto
qed

definition demo_touch :: touch_env where
  "demo_touch = \<lparr>tc_result = (\<lambda>_ _. ESP_OK), tc_data = (\<lambda>_ ops. if TouchByte 0x4E \<in> set ops then [0x80] else replicate 8 1)\<rparr>"

definition gt911_static :: gt911 where "gt911_static = \<lparr>gt_addr = 0x5D, gt_log = []\<rparr>"

theorem touch_takes_display_pins_witness:
  "\<exists>s'. gt911_init demo_touch gt911_static = Some (ESP_OK, s') \<and> (\<exists>pins. GpioOutput pins \<in> set (gt_log s') \<and>
     set pins \<inter> set (hc_data_gpio_nums lcd_config) \<noteq> {})"
proof -
  obtain s' where "gt911_init demo_touch gt911_static = Some (ESP_OK, s')"
    by (simp add: gt911_init_def gt911_i2c_init_def gt911_read_def touch_do_def demo_touch_def Let_def)
  with touch_takes_display_pins [OF this] show ?thesis by blast
qed

text \<open>
  A lifted finger is a touch. The lower half of the status register counts the fingers; a status
  that is ready with no finger, which the controller gives when the last one is lifted, is
  reported as a touch at the coordinates that are still in the buffer. The register number
  goes over the bus with its lower byte first.
\<close>

theorem release_is_reported_as_touch:
  assumes "\<forall>l ops. tc_result env l (TouchBegin ops) = ESP_OK"
    and "\<forall>l ops. TouchByte 0x4E \<in> set ops \<longrightarrow> tc_data env l ops = [0x80]"
  shows "\<exists>d' s'. gt911_read_touch env (Some d) s = (True, Some d', s') \<and> td_pressed d' \<and>
    (\<exists>rest. gt_log s' = rest @ [TouchBegin [TouchStart, TouchByte (push_bit 1 (gt_addr s)), TouchByte 0x4E, TouchByte 0x81, TouchStart,
       TouchByte (push_bit 1 (gt_addr s) OR 1), TouchRead 1, TouchStop]] @ gt_log s)"
  using assms by (simp add: gt911_read_touch_def gt911_read_def gt911_write_def touch_do_def Let_def)

theorem release_is_reported_as_touch_witness:
  "\<exists>d' s'. gt911_read_touch demo_touch (Some \<lparr>td_x = 0, td_y = 0, td_pressed = False\<rparr>) gt911_static = (True, Some d', s') \<and> td_pressed d'"
proof -
  have "\<forall>l ops. tc_result demo_touch l (TouchBegin ops) = ESP_OK"
    "\<forall>l ops. TouchByte 0x4E \<in> set ops \<longrightarrow> tc_data demo_touch l ops = [0x80]"
    by (simp_all add: demo_touch_def)
  from release_is_reported_as_touch [OF this] show ?thesis by blast
qed

section \<open>Heartbeats\<close>

datatype led_call = LedConfig "int list" | LedLevel int nat | LedDelay nat

definition SENSOR_NODE_STATUS_LED :: int where "SENSOR_NODE_STATUS_LED = 2"
definition HMI_STATUS_LED :: int where "HMI_STATUS_LED = 1"

text \<open>What the task does before its loop, and one turn of the loop.\<close>

definition heartbeat_config :: "int \<Rightarrow> led_call list \<Rightarrow> led_call list" where
  "heartbeat_config led evs = LedConfig [led] # evs"

definition heartbeat_turn :: "int \<Rightarrow> led_call list \<Rightarrow> led_call list" where
  "heartbeat_turn led evs = [LedDelay 900, LedLevel led 0, LedDelay 100, LedLevel led 1] @ evs"

definition sensor_heartbeat :: "nat \<Rightarrow> led_call list \<Rightarrow> led_call list" where
  "sensor_heartbeat n evs = (heartbeat_turn SENSOR_NODE_STATUS_LED ^^ n) (heartbeat_config SENSOR_NODE_STATUS_LED evs)"

definition hmi_heartbeat :: "nat \<Rightarrow> led_call list \<Rightarrow> led_call list" where
  "hmi_heartbeat n evs = (heartbeat_turn HMI_STATUS_LED ^^ n) (heartbeat_config HMI_STATUS_LED evs)"

section \<open>The time of day\<close>

datatype sntp_call = SntpStop | SntpPollMode | SntpServer string | SntpNotify | SntpInit

record time_sync =
  tsy_synced :: bool
  tsy_log :: "sntp_call list"

definition time_sync_notification_cb :: "time_sync \<Rightarrow> time_sync" where
  "time_sync_notification_cb s = s\<lparr>tsy_synced := True\<rparr>"

definition time_sync_start :: "string option \<Rightarrow> time_sync \<Rightarrow> esp_err \<times> time_sync" where
  "time_sync_start server s =
     (ESP_OK, s\<lparr>tsy_log := [SntpInit, SntpNotify,
        SntpServer (case server of None \<Rightarrow> ''pool.ntp.org'' | Some t \<Rightarrow> if t \<noteq> [] then t else ''pool.ntp.org''),
        SntpPollMode, SntpStop] @ tsy_log s\<rparr>)"

text \<open>\<^verbatim>\<open>tv\<close> is what \<^verbatim>\<open>gettimeofday\<close> answers: seconds and microseconds.\<close>

definition time_sync_get_epoch_ms :: "64 word \<times> int \<Rightarrow> 64 word" where
  "time_sync_get_epoch_ms tv = fst tv * 1000 + word_of_int (snd tv div 1000)"

lemma time_sync_get_epoch_ms_exact:
  assumes "0 \<le> sint sec" "sint sec < 2 ^ 52" "0 \<le> usec" "usec < 1000000"
  shows "sint (time_sync_get_epoch_ms (sec, usec)) = sint sec * 1000 + usec div 1000"
proof -
  have "time_sync_get_epoch_ms (sec, usec) = word_of_int (sint sec * 1000 + usec div 1000)"
    by (simp add: time_sync_get_epoch_ms_def)
  moreover have "0 \<le> usec div 1000" "usec div 1000 < 1000" using assms(3,4) by (simp_all add: div_less_iff_less_mult zdiv_mono1)
  ultimately have "sint (time_sync_get_epoch_ms (sec, usec)) = signed_take_bit 63 (sint sec * 1000 + usec div 1000)"
    by (simp only: sint_sbintrunc') simp
  then show ?thesis
    using assms(1,2) \<open>0 \<le> usec div 1000\<close> \<open>usec div 1000 < 1000\<close> by (simp add: signed_take_bit_int_eq_self)
qed

end
