(* ===== verification/Lvgl.thy ===== *)
theory Lvgl
  imports HmiModel
begin

text \<open>
  The ground of the user interface of the HMI node: the LVGL calls that
  \<^verbatim>\<open>hmi_node/main/display/ui_screens.c\<close> makes, its static variables, and the texts of
  \<^verbatim>\<open>ui_locale.c\<close>.

  LVGL is not part of the repository. A call of it is an entry of a log, newest first; what a
  widget reports (a slider's value, the text of an input) is a function of the log in the
  environment. An object pointer may be NULL; a created object is a number that has not been
  handed out before. A static pointer is looked up in a map from its name.
\<close>

section \<open>LVGL\<close>

type_synonym objp = "nat option"

datatype lv_class = LvObj | LvLabel | LvSwitch | LvSlider | LvBtn | LvChart | LvTextarea | LvDropdown | LvTabviewTop int

datatype lv_coord = Px int | Pct int | SizeContent

datatype lv_palette = PaletteRed | PalettePink | PaletteBlue | PaletteTeal | PaletteGrey | PaletteAmber nat

datatype lv_color = Hex nat | PaletteMain lv_palette | PaletteDarken lv_palette nat

datatype lv_opa = OPA_0 | OPA_40 | OPA_COVER | OPA_TRANSP | OpaValue int

datatype anim_value = AnimCoord int | AnimOpa lv_opa

datatype lv_part = Part0 | PartMainDefault | PartKnobDefault

datatype lv_flow = FlowRow | FlowColumn | FlowRowWrap

datatype lv_align = AlignStart | AlignCenter

datatype lv_style =
    StyleRadius int | StyleBgOpa lv_opa | StylePadAll int | StylePadGap int | StyleBorderWidth int
  | StyleTextFont | StyleTextColor lv_color | StyleBgColor lv_color | StyleTranslateY int | StyleOpa lv_opa

text \<open>The callbacks the file registers, the event codes it handles, and the context pointers.\<close>

datatype ui_handler =
    GpioSwitchEventCb | PwmSliderEventCb | PwmFreqEventCb | TextScaleEventCb | PrefsApplyEventCb | PrefsResetEventCb

datatype lv_event_code = EVENT_VALUE_CHANGED | EVENT_RELEASED | EVENT_CLICKED | EVENT_OTHER nat

datatype user_data = NoData | GpioCtx nat nat | PwmCtx nat

datatype anim_exec = AnimTranslateExec | AnimFadeExec

record lv_anim =
  an_var :: objp
  an_start :: anim_value
  an_end :: anim_value
  an_time :: nat
  an_delay :: nat
  an_ease_out :: bool
  an_exec :: anim_exec

datatype lv_call =
    LvCreate lv_class objp objp
  | LvAddTab objp string objp
  | LvSetSize objp lv_coord lv_coord
  | LvSetWidth objp lv_coord
  | LvStyle objp lv_style lv_part
  | LvFlexFlow objp lv_flow
  | LvFlexAlign objp lv_align lv_align lv_align
  | LvLabelText objp string
  | LvCheck objp
  | LvUncheck objp
  | LvAddEventCb objp ui_handler lv_event_code user_data
  | LvSliderRange objp int int
  | LvSliderValue objp int
  | LvTextareaOneLine objp bool
  | LvTextareaPassword objp bool
  | LvTextareaText objp string
  | LvDropdownOptions objp string
  | LvDropdownSelected objp u16
  | LvChartPoints objp nat
  | LvChartLine objp
  | LvChartDiv objp nat nat
  | LvChartRange objp int int
  | LvChartSeries objp lv_color objp
  | LvChartNext objp objp "int option"
  | LvTabTitle objp nat string
  | LvAnimStart lv_anim
  | LvTheme objp lv_color lv_color bool
  | LvZoom objp u16
  | LvLock
  | LvUnlock
  | LvTimerHandler

text \<open>
  What LVGL answers, and the arithmetic of \<^verbatim>\<open>float\<close>: the rounding of a result, and what the
  conversion to a coordinate gives where C leaves it undefined.
\<close>

record lv_env =
  lv_disp_get_default :: "lv_call list \<Rightarrow> objp"
  lv_scr_act :: "lv_call list \<Rightarrow> objp"
  lv_slider_get_value :: "lv_call list \<Rightarrow> objp \<Rightarrow> int"
  lv_checked :: "lv_call list \<Rightarrow> objp \<Rightarrow> bool"
  lv_textarea_get_text :: "lv_call list \<Rightarrow> objp \<Rightarrow> string option"
  lv_dropdown_get_selected :: "lv_call list \<Rightarrow> objp \<Rightarrow> u16"
  lv_obj_get_index :: "lv_call list \<Rightarrow> objp \<Rightarrow> nat"
  fl_round :: "rat \<Rightarrow> rat"
  lv_coord_undef :: "c_float \<Rightarrow> int"

section \<open>The static variables\<close>

datatype widget =
    S_tabview | S_status_label | S_crc_badge | S_wifi_badge
  | S_dashboard_tab | S_gpio_tab | S_pwm_tab | S_traces_tab | S_settings_tab | S_accessibility_tab
  | S_sht20_name nat | S_sht20_temp nat | S_sht20_hum nat | S_ds18_name nat | S_ds18_temp nat
  | S_gpio_switch nat nat | S_gpio_state_label nat nat
  | S_pwm_slider nat | S_pwm_label nat | S_pwm_freq_slider | S_pwm_freq_label
  | S_chart_temp | S_chart_hum | S_chart_ds | S_temp_series nat | S_hum_series nat | S_ds_series nat
  | S_ssid_ta | S_password_ta | S_mdns_ta | S_theme_switch | S_units_switch | S_language_dd
  | S_high_contrast_switch | S_text_scale_slider | S_text_scale_label | S_touch_targets_switch
  | S_ssid_label | S_password_label | S_mdns_label | S_dark_theme_label | S_use_fahrenheit_label
  | S_apply_label | S_reset_label | S_language_label | S_high_contrast_label | S_text_scale_title
  | S_touch_targets_label | S_apply_btn | S_reset_btn

text \<open>\<^verbatim>\<open>ui_callbacks_t\<close>: which of the callbacks are set.\<close>

record ui_callbacks_t =
  cb_set_pwm :: bool
  cb_set_pwm_frequency :: bool
  cb_write_gpio :: bool
  cb_apply_preferences :: bool
  cb_reset_preferences :: bool

record gpio_switch_ctx_t =
  gs_device_index :: u8
  gs_pin_index :: u8

record pwm_slider_ctx_t =
  pw_channel :: u8
  pw_value_label :: objp

record ui =
  ui_log :: "lv_call list"
  ui_objs :: nat
  ui_w :: "widget \<Rightarrow> objp"
  ui_gpio_ctx :: "nat \<Rightarrow> nat \<Rightarrow> gpio_switch_ctx_t"
  ui_pwm_ctx :: "nat \<Rightarrow> pwm_slider_ctx_t"
  ui_callbacks :: ui_callbacks_t
  ui_updating :: bool
  ui_active_prefs :: hmi_user_preferences_t
  ui_last_proto_update :: proto_sensor_update_t
  ui_has_last_proto_update :: bool
  ui_last_connected :: bool
  ui_last_crc_ok :: bool
  ui_last_sequence_id :: u32

definition calls :: "lv_call list \<Rightarrow> ui \<Rightarrow> ui" where
  "calls cs s = s\<lparr>ui_log := rev cs @ ui_log s\<rparr>"

text \<open>An object is created; its pointer is kept in a local or in a static variable.\<close>

definition lv_create :: "lv_class \<Rightarrow> objp \<Rightarrow> ui \<Rightarrow> objp \<times> ui" where
  "lv_create cls parent s = (let p = Some (ui_objs s) in (p, calls [LvCreate cls parent p] (s\<lparr>ui_objs := Suc (ui_objs s)\<rparr>)))"

definition lv_tabview_add_tab :: "objp \<Rightarrow> string \<Rightarrow> ui \<Rightarrow> objp \<times> ui" where
  "lv_tabview_add_tab tv title s = (let p = Some (ui_objs s) in (p, calls [LvAddTab tv title p] (s\<lparr>ui_objs := Suc (ui_objs s)\<rparr>)))"

definition lv_chart_add_series :: "objp \<Rightarrow> lv_color \<Rightarrow> ui \<Rightarrow> objp \<times> ui" where
  "lv_chart_add_series chart col s = (let p = Some (ui_objs s) in (p, calls [LvChartSeries chart col p] (s\<lparr>ui_objs := Suc (ui_objs s)\<rparr>)))"

definition set_w :: "widget \<Rightarrow> objp \<Rightarrow> ui \<Rightarrow> ui" where
  "set_w x p s = s\<lparr>ui_w := (ui_w s)(x := p)\<rparr>"

definition keep :: "widget \<Rightarrow> objp \<times> ui \<Rightarrow> ui" where
  "keep x r = set_w x (fst r) (snd r)"

text \<open>A call on a static pointer behind a test that it is not NULL.\<close>

definition if_set :: "widget \<Rightarrow> (objp \<Rightarrow> lv_call list) \<Rightarrow> ui \<Rightarrow> ui" where
  "if_set x f s = (if ui_w s x = None then s else calls (f (ui_w s x)) s)"

section \<open>Texts\<close>

record ui_locale_pack_t =
  tab_dashboard :: string
  tab_gpio :: string
  tab_pwm :: string
  tab_traces :: string
  tab_settings :: string
  tab_accessibility :: string
  label_wifi_ssid :: string
  label_wifi_password :: string
  label_mdns_target :: string
  label_dark_theme :: string
  label_use_fahrenheit :: string
  label_apply :: string
  label_reset :: string
  label_wifi_connected :: string
  label_wifi_disconnected :: string
  label_crc_ok :: string
  label_crc_error :: string
  label_crc_unknown :: string
  label_temperature_prefix :: string
  label_humidity_prefix :: string
  label_sensor_fallback :: string
  label_sequence_prefix :: string
  label_language :: string
  label_high_contrast :: string
  label_text_scale :: string
  label_touch_targets :: string
  dropdown_languages :: string
  label_gpio_on :: string
  label_gpio_off :: string
  label_frequency :: string
  label_channel_prefix :: string

definition s_pack_en :: ui_locale_pack_t where
  "s_pack_en =
     \<lparr>tab_dashboard = ''Dashboard'',
      tab_gpio = ''GPIO'',
      tab_pwm = ''PWM'',
      tab_traces = ''Traces'',
      tab_settings = ''Settings'',
      tab_accessibility = ''Accessibility'',
      label_wifi_ssid = ''Wi-Fi SSID'',
      label_wifi_password = ''Wi-Fi Password'',
      label_mdns_target = ''mDNS Target Host'',
      label_dark_theme = ''Dark Theme'',
      label_use_fahrenheit = ''Use '' @ [CHR 0xC2, CHR 0xB0] @ ''F'',
      label_apply = ''Apply'',
      label_reset = ''Reset'',
      label_wifi_connected = ''Wi-Fi: Connected'',
      label_wifi_disconnected = ''Wi-Fi: Disconnected'',
      label_crc_ok = ''CRC: OK'',
      label_crc_error = ''CRC: ERROR'',
      label_crc_unknown = ''CRC: N/A'',
      label_temperature_prefix = ''Temp'',
      label_humidity_prefix = ''RH'',
      label_sensor_fallback = ''Sensor'',
      label_sequence_prefix = ''Seq'',
      label_language = ''Language'',
      label_high_contrast = ''High Contrast'',
      label_text_scale = ''Text Scale'',
      label_touch_targets = ''Large touch targets'',
      dropdown_languages = ''English'' @ [CHR 0x0A] @ ''Fran'' @ [CHR 0xC3, CHR 0xA7] @ ''ais'',
      label_gpio_on = ''ON'',
      label_gpio_off = ''OFF'',
      label_frequency = ''Frequency'',
      label_channel_prefix = ''Channel''\<rparr>"

definition s_pack_fr :: ui_locale_pack_t where
  "s_pack_fr =
     \<lparr>tab_dashboard = ''Tableau'',
      tab_gpio = ''GPIO'',
      tab_pwm = ''PWM'',
      tab_traces = ''Courbes'',
      tab_settings = ''R'' @ [CHR 0xC3, CHR 0xA9] @ ''glages'',
      tab_accessibility = ''Accessibilit'' @ [CHR 0xC3, CHR 0xA9],
      label_wifi_ssid = ''SSID Wi-Fi'',
      label_wifi_password = ''Mot de passe Wi-Fi'',
      label_mdns_target = ''H'' @ [CHR 0xC3, CHR 0xB4] @ ''te mDNS'',
      label_dark_theme = ''Th'' @ [CHR 0xC3, CHR 0xA8] @ ''me sombre'',
      label_use_fahrenheit = ''Afficher '' @ [CHR 0xC2, CHR 0xB0] @ ''F'',
      label_apply = ''Appliquer'',
      label_reset = ''R'' @ [CHR 0xC3, CHR 0xA9] @ ''initialiser'',
      label_wifi_connected = ''Wi-Fi : Connect'' @ [CHR 0xC3, CHR 0xA9],
      label_wifi_disconnected = ''Wi-Fi : D'' @ [CHR 0xC3, CHR 0xA9] @ ''connect'' @ [CHR 0xC3, CHR 0xA9],
      label_crc_ok = ''CRC : OK'',
      label_crc_error = ''CRC : ERREUR'',
      label_crc_unknown = ''CRC : N/A'',
      label_temperature_prefix = ''Temp'',
      label_humidity_prefix = ''HR'',
      label_sensor_fallback = ''Capteur'',
      label_sequence_prefix = ''Seq'',
      label_language = ''Langue'',
      label_high_contrast = ''Contraste '' @ [CHR 0xC3, CHR 0xA9] @ ''lev'' @ [CHR 0xC3, CHR 0xA9],
      label_text_scale = ''Taille du texte'',
      label_touch_targets = ''Grandes zones tactiles'',
      dropdown_languages = ''English'' @ [CHR 0x0A] @ ''Fran'' @ [CHR 0xC3, CHR 0xA7] @ ''ais'',
      label_gpio_on = ''ACTIF'',
      label_gpio_off = ''INACTIF'',
      label_frequency = ''Fr'' @ [CHR 0xC3, CHR 0xA9] @ ''quence'',
      label_channel_prefix = ''Canal''\<rparr>"

definition HMI_LANGUAGE_FR :: u32 where "HMI_LANGUAGE_FR = 1"

definition ui_locale_get_pack :: "u32 \<Rightarrow> ui_locale_pack_t" where
  "ui_locale_get_pack language = (if language = HMI_LANGUAGE_FR then s_pack_fr else s_pack_en)"

end
