(* ===== verification/UiUpdate.thy ===== *)
theory UiUpdate
  imports Lvgl
begin

text \<open>
  What \<^verbatim>\<open>hmi_node/main/display/ui_screens.c\<close> does once its widgets exist: showing an update, the
  state of the connection and the preferences, and turning the events of the widgets into calls
  of the application. Such a call is always the last thing a function does, so it is part of
  its result, of type \<open>ui_call option\<close>.
\<close>

section \<open>Formatting\<close>

definition fmt_d :: "int \<Rightarrow> string" where
  "fmt_d i = (if i < 0 then ''-'' else []) @ dec_string (nat \<bar>i\<bar>)"

definition fmt_tenths :: "rat \<Rightarrow> string" where
  "fmt_tenths r =
     (let h = nat (round_half_even (\<bar>r\<bar> * 10)) in (if r < 0 then ''-'' else []) @ dec_string (h div 10) @ ''.'' @ dec_string (h mod 10))"

definition fmt_1f :: "c_float \<Rightarrow> string" where
  "fmt_1f v = (case v of Num r \<Rightarrow> fmt_tenths r | NaN \<Rightarrow> ''nan'')"

definition format_rom_code :: "bytes \<Rightarrow> nat \<Rightarrow> string" where
  "format_rom_code rom_code sz = (if sz < 17 then [] else fmt_rom (take 8 rom_code))"

definition DEGREE :: string where "DEGREE = [CHR 0xC2, CHR 0xB0]"

definition to_fahrenheit :: "lv_env \<Rightarrow> c_float \<Rightarrow> c_float" where
  "to_fahrenheit env = float_apply (\<lambda>c. fl_round env (fl_round env (fl_round env (c * 9) / 5) + 32))"

definition format_temperature :: "lv_env \<Rightarrow> nat \<Rightarrow> c_float \<Rightarrow> bool \<Rightarrow> string" where
  "format_temperature env sz celsius use_fahrenheit =
     (if \<not> float_isfinite celsius then cstr_copy sz ''--''
      else cstr_copy sz (fmt_2f (if use_fahrenheit then to_fahrenheit env celsius else celsius) @ '' '' @ DEGREE @
             (if use_fahrenheit then ''F'' else ''C'')))"

section \<open>Appearance\<close>

definition get_locale :: "ui \<Rightarrow> ui_locale_pack_t" where
  "get_locale s =
     (let lang = prf_language (ui_active_prefs s)
      in ui_locale_get_pack (if lang \<ge> HMI_LANGUAGE_MAX then HMI_LANGUAGE_EN else lang))"

definition apply_display_zoom :: "lv_env \<Rightarrow> ui \<Rightarrow> ui" where
  "apply_display_zoom env s =
     (let disp = lv_disp_get_default env (ui_log s) in
      if disp = None then s
      else
        let scale = prf_text_scale_percent (ui_active_prefs s);
            percent = (if scale \<noteq> 0 then ucast scale else 100 :: u32);
            percent = (if percent < 80 then 80 else percent);
            percent = (if percent > 140 then 140 else percent)
        in calls [LvZoom disp (ucast (percent * 256 div 100))] s)"

definition apply_theme :: "lv_env \<Rightarrow> bool \<Rightarrow> ui \<Rightarrow> ui" where
  "apply_theme env dark s =
     (let s = calls [LvLock] s;
          disp = lv_disp_get_default env (ui_log s);
          high = prf_high_contrast (ui_active_prefs s);
          primary = (if high then Hex 0x000000 else PaletteMain PaletteBlue);
          secondary = (if high then Hex 0xFFD54F else PaletteDarken PaletteGrey 2);
          s = calls [LvTheme disp primary secondary dark] s;
          s = apply_display_zoom env s;
          scr = lv_scr_act env (ui_log s);
          s = (if scr = None then s
               else calls [LvStyle scr (StyleBgColor (if high then Hex 0x000000 else if dark then Hex 0x101418 else Hex 0xF5F7FA)) Part0,
                      LvStyle scr (StyleBgOpa OPA_COVER) Part0] s)
      in calls [LvUnlock] s)"

definition update_text_scale_label :: "lv_env \<Rightarrow> ui \<Rightarrow> ui" where
  "update_text_scale_label env s =
     (let label = ui_w s S_text_scale_label; slider = ui_w s S_text_scale_slider in
      if label = None \<or> slider = None then s
      else let v = word_of_int (lv_slider_get_value env (ui_log s) slider) :: u16
           in calls [LvLabelText label (cstr_copy 16 (fmt_u v @ ''%''))] s)"

definition touch_pad :: "ui \<Rightarrow> int" where
  "touch_pad s = (if prf_large_touch_targets (ui_active_prefs s) then 12 else 4)"

definition pad_widget :: "widget \<Rightarrow> ui \<Rightarrow> ui" where
  "pad_widget x s = if_set x (\<lambda>p. [LvStyle p (StylePadAll (touch_pad s)) PartMainDefault]) s"

definition apply_touch_target_style :: "ui \<Rightarrow> ui" where
  "apply_touch_target_style s =
     (let large = prf_large_touch_targets (ui_active_prefs s);
          height = (if large then 60 else 48); width = (if large then 170 else 140);
          s = for_loop (\<lambda>dev. for_loop (\<lambda>pin. pad_widget (S_gpio_switch dev pin)) 16 0) 2 0 s;
          s = pad_widget S_theme_switch s;
          s = pad_widget S_units_switch s;
          s = pad_widget S_high_contrast_switch s;
          s = pad_widget S_touch_targets_switch s;
          s = if_set S_apply_btn (\<lambda>p. [LvSetSize p (Px width) (Px height)]) s;
          s = if_set S_reset_btn (\<lambda>p. [LvSetSize p (Px width) (Px height)]) s
      in if_set S_text_scale_slider (\<lambda>p. [LvStyle p (StylePadAll (touch_pad s)) PartMainDefault,
           LvStyle p (StylePadAll (touch_pad s)) PartKnobDefault]) s)"

section \<open>Events\<close>

datatype ui_call =
    CallSetPwm u8 u16
  | CallSetPwmFrequency u16
  | CallWriteGpio u8 u8 u16 u16
  | CallApplyPreferences hmi_user_preferences_t
  | CallResetPreferences

definition dispatch_gpio_write :: "gpio_switch_ctx_t option \<Rightarrow> bool \<Rightarrow> ui \<Rightarrow> ui_call option" where
  "dispatch_gpio_write ctxp on s =
     (case ctxp of
        None \<Rightarrow> None
      | Some ctx \<Rightarrow>
          if \<not> cb_write_gpio (ui_callbacks s) then None
          else
            let port = (if gs_pin_index ctx < 8 then 0 else 1);
                bit_no = gs_pin_index ctx mod 8;
                mask16 = push_bit (unat bit_no) 1 :: u16
            in Some (CallWriteGpio (gs_device_index ctx) port mask16 (if on then mask16 else 0)))"

definition dispatch_pwm_value :: "pwm_slider_ctx_t option \<Rightarrow> u16 \<Rightarrow> ui \<Rightarrow> ui \<times> ui_call option" where
  "dispatch_pwm_value ctxp v s =
     (case ctxp of
        None \<Rightarrow> (s, None)
      | Some ctx \<Rightarrow>
          let s = (if pw_value_label ctx = None then s else calls [LvLabelText (pw_value_label ctx) (cstr_copy 16 (fmt_d (sint v)))] s)
          in (s, if cb_set_pwm (ui_callbacks s) then Some (CallSetPwm (pw_channel ctx) v) else None))"

definition dispatch_pwm_frequency :: "u16 \<Rightarrow> ui \<Rightarrow> ui \<times> ui_call option" where
  "dispatch_pwm_frequency freq s =
     (let s = if_set S_pwm_freq_label (\<lambda>p. [LvLabelText p (cstr_copy 16 (fmt_u freq @ '' Hz''))]) s
      in (s, if cb_set_pwm_frequency (ui_callbacks s) then Some (CallSetPwmFrequency freq) else None))"

definition dispatch_apply_preferences ::
  "string option \<Rightarrow> string option \<Rightarrow> string option \<Rightarrow> bool \<Rightarrow> bool \<Rightarrow> bool \<Rightarrow> bool \<Rightarrow> u8 \<Rightarrow> u32 \<Rightarrow> ui \<Rightarrow> ui_call option" where
  "dispatch_apply_preferences ssid password mdns dark fahrenheit high_contrast large_touch_targets text_scale_percent language s =
     (if \<not> cb_apply_preferences (ui_callbacks s) then None
      else
        let prefs = ui_active_prefs s;
            prefs = (case ssid of None \<Rightarrow> prefs | Some t \<Rightarrow> prefs\<lparr>prf_ssid := cstr_copy 33 t\<rparr>);
            prefs = (case password of None \<Rightarrow> prefs | Some t \<Rightarrow> prefs\<lparr>prf_password := cstr_copy 65 t\<rparr>);
            prefs = (case mdns of None \<Rightarrow> prefs | Some t \<Rightarrow> prefs\<lparr>prf_mdns_target := cstr_copy 64 t\<rparr>)
        in Some (CallApplyPreferences (prefs\<lparr>prf_dark_theme := dark, prf_use_fahrenheit := fahrenheit,
             prf_high_contrast := high_contrast, prf_large_touch_targets := large_touch_targets,
             prf_text_scale_percent := if text_scale_percent < 80 \<or> text_scale_percent > 140 then 100 else text_scale_percent,
             prf_language := if language < HMI_LANGUAGE_MAX then language else HMI_LANGUAGE_EN\<rparr>)))"

definition dispatch_reset_preferences :: "ui \<Rightarrow> ui_call option" where
  "dispatch_reset_preferences s = (if \<not> cb_reset_preferences (ui_callbacks s) then None else Some CallResetPreferences)"

text \<open>What an event tells its handler: its code, its target and the context pointer.\<close>

record lv_event =
  ev_code :: lv_event_code
  ev_target :: objp
  ev_user_data :: user_data

definition gpio_ctx_of :: "user_data \<Rightarrow> ui \<Rightarrow> gpio_switch_ctx_t option" where
  "gpio_ctx_of d s = (case d of GpioCtx dev pin \<Rightarrow> Some (ui_gpio_ctx s dev pin) | _ \<Rightarrow> None)"

definition pwm_ctx_of :: "user_data \<Rightarrow> ui \<Rightarrow> pwm_slider_ctx_t option" where
  "pwm_ctx_of d s = (case d of PwmCtx ch \<Rightarrow> Some (ui_pwm_ctx s ch) | _ \<Rightarrow> None)"

definition gpio_switch_event_cb :: "lv_env \<Rightarrow> lv_event \<Rightarrow> ui \<Rightarrow> ui \<times> ui_call option" where
  "gpio_switch_event_cb env e s =
     (if ui_updating s then (s, None)
      else if ev_code e \<noteq> EVENT_VALUE_CHANGED then (s, None)
      else case gpio_ctx_of (ev_user_data e) s of
        None \<Rightarrow> (s, None)
      | Some ctx \<Rightarrow> (s, dispatch_gpio_write (Some ctx) (lv_checked env (ui_log s) (ev_target e)) s))"

definition pwm_slider_event_cb :: "lv_env \<Rightarrow> lv_event \<Rightarrow> ui \<Rightarrow> ui \<times> ui_call option" where
  "pwm_slider_event_cb env e s =
     (if ui_updating s then (s, None)
      else if ev_code e \<noteq> EVENT_VALUE_CHANGED \<and> ev_code e \<noteq> EVENT_RELEASED then (s, None)
      else case pwm_ctx_of (ev_user_data e) s of
        None \<Rightarrow> (s, None)
      | Some ctx \<Rightarrow> dispatch_pwm_value (Some ctx) (word_of_int (lv_slider_get_value env (ui_log s) (ev_target e))) s)"

definition pwm_freq_event_cb :: "lv_env \<Rightarrow> lv_event \<Rightarrow> ui \<Rightarrow> ui \<times> ui_call option" where
  "pwm_freq_event_cb env e s =
     (if ui_updating s then (s, None)
      else if ev_code e \<noteq> EVENT_VALUE_CHANGED \<and> ev_code e \<noteq> EVENT_RELEASED then (s, None)
      else if \<not> cb_set_pwm_frequency (ui_callbacks s) then (s, None)
      else dispatch_pwm_frequency (word_of_int (lv_slider_get_value env (ui_log s) (ev_target e))) s)"

definition text_scale_event_cb :: "lv_env \<Rightarrow> lv_event \<Rightarrow> ui \<Rightarrow> ui \<times> ui_call option" where
  "text_scale_event_cb env e s =
     (if ev_code e \<noteq> EVENT_VALUE_CHANGED then (s, None) else (update_text_scale_label env s, None))"

definition prefs_apply_event_cb :: "lv_env \<Rightarrow> lv_event \<Rightarrow> ui \<Rightarrow> ui \<times> ui_call option" where
  "prefs_apply_event_cb env e s =
     (if ev_code e \<noteq> EVENT_CLICKED then (s, None)
      else
        let l = ui_log s; w = ui_w s; p = ui_active_prefs s;
            text_scale = (if w S_text_scale_slider \<noteq> None then word_of_int (lv_slider_get_value env l (w S_text_scale_slider))
              else if prf_text_scale_percent p \<noteq> 0 then prf_text_scale_percent p else 100);
            selected = (if w S_language_dd \<noteq> None then lv_dropdown_get_selected env l (w S_language_dd) else ucast (prf_language p));
            language = (if ucast selected < HMI_LANGUAGE_MAX then ucast selected else HMI_LANGUAGE_EN)
        in (s, dispatch_apply_preferences (lv_textarea_get_text env l (w S_ssid_ta)) (lv_textarea_get_text env l (w S_password_ta))
              (lv_textarea_get_text env l (w S_mdns_ta)) (lv_checked env l (w S_theme_switch)) (lv_checked env l (w S_units_switch))
              (w S_high_contrast_switch \<noteq> None \<and> lv_checked env l (w S_high_contrast_switch))
              (w S_touch_targets_switch \<noteq> None \<and> lv_checked env l (w S_touch_targets_switch)) text_scale language s))"

definition prefs_reset_event_cb :: "lv_env \<Rightarrow> lv_event \<Rightarrow> ui \<Rightarrow> ui \<times> ui_call option" where
  "prefs_reset_event_cb env e s = (if ev_code e \<noteq> EVENT_CLICKED then (s, None) else (s, dispatch_reset_preferences s))"

definition run_handler :: "lv_env \<Rightarrow> ui_handler \<Rightarrow> lv_event \<Rightarrow> ui \<Rightarrow> ui \<times> ui_call option" where
  "run_handler env h =
     (case h of GpioSwitchEventCb \<Rightarrow> gpio_switch_event_cb env | PwmSliderEventCb \<Rightarrow> pwm_slider_event_cb env
      | PwmFreqEventCb \<Rightarrow> pwm_freq_event_cb env | TextScaleEventCb \<Rightarrow> text_scale_event_cb env
      | PrefsApplyEventCb \<Rightarrow> prefs_apply_event_cb env | PrefsResetEventCb \<Rightarrow> prefs_reset_event_cb env)"

section \<open>Showing the state\<close>

definition show_pin :: "ui_locale_pack_t \<Rightarrow> proto_sensor_update_t \<Rightarrow> nat \<Rightarrow> nat \<Rightarrow> ui \<Rightarrow> ui" where
  "show_pin loc update dev pin s =
     (let porta = mcp_port_a (su_mcp update ! dev); portb = mcp_port_b (su_mcp update ! dev);
          on = (if pin < 8 then drop_bit pin porta AND 1 \<noteq> 0 else drop_bit (pin - 8) portb AND 1 \<noteq> 0);
          sw = ui_w s (S_gpio_switch dev pin)
      in if sw = None then s
         else if on then calls [LvCheck sw, LvLabelText (ui_w s (S_gpio_state_label dev pin)) (label_gpio_on loc)] s
         else calls [LvUncheck sw, LvLabelText (ui_w s (S_gpio_state_label dev pin)) (label_gpio_off loc)] s)"

definition update_gpio_state :: "proto_sensor_update_t \<Rightarrow> ui \<Rightarrow> ui" where
  "update_gpio_state update s =
     (let s = s\<lparr>ui_updating := True\<rparr>; loc = get_locale s;
          s = for_loop (\<lambda>dev. for_loop (show_pin loc update dev) 16 0) 2 0 s
      in s\<lparr>ui_updating := False\<rparr>)"

definition show_duty :: "proto_sensor_update_t \<Rightarrow> nat \<Rightarrow> ui \<Rightarrow> ui" where
  "show_duty update ch s =
     (let duty = pca_duty_cycle (su_pwm update) ! ch;
          s = if_set (S_pwm_slider ch) (\<lambda>p. [LvSliderValue p (uint duty)]) s
      in if_set (S_pwm_label ch) (\<lambda>p. [LvLabelText p (cstr_copy 16 (fmt_u duty))]) s)"

definition update_pwm_state :: "proto_sensor_update_t \<Rightarrow> ui \<Rightarrow> ui" where
  "update_pwm_state update s =
     (let s = s\<lparr>ui_updating := True\<rparr>; freq = pca_frequency_hz (su_pwm update);
          s = calls [LvSliderValue (ui_w s S_pwm_freq_slider) (uint freq),
                LvLabelText (ui_w s S_pwm_freq_label) (cstr_copy 16 (fmt_u freq @ '' Hz''))] s;
          s = for_loop (show_duty update) 16 0 s
      in s\<lparr>ui_updating := False\<rparr>)"

text \<open>
  \<^verbatim>\<open>(lv_coord_t)(value * 10.0f)\<close>: a coordinate has 16 bits, and what a conversion from NaN or out
  of range gives is undefined in C and is the argument \<open>lv_coord_undef\<close>.
\<close>

definition chart_point :: "lv_env \<Rightarrow> c_float \<Rightarrow> int" where
  "chart_point env v =
     (case float_apply (\<lambda>v. fl_round env (v * 10)) v of
        NaN \<Rightarrow> lv_coord_undef env NaN
      | Num x \<Rightarrow> if - (2 ^ 15) \<le> rat_trunc x \<and> rat_trunc x < 2 ^ 15 then rat_trunc x else lv_coord_undef env (Num x))"

definition chart_temperature :: "lv_env \<Rightarrow> bool \<Rightarrow> c_float \<Rightarrow> int" where
  "chart_temperature env use_fahrenheit temp = chart_point env (if use_fahrenheit then to_fahrenheit env temp else temp)"

definition chart_sht20 :: "lv_env \<Rightarrow> proto_sensor_update_t \<Rightarrow> bool \<Rightarrow> nat \<Rightarrow> ui \<Rightarrow> ui" where
  "chart_sht20 env update use_fahrenheit i s =
     (let r = su_sht20 update ! i; ok = (i < su_sht20_count update \<and> sht_valid r);
          temp = sht_temperature_c r; hum = sht_humidity_percent r
      in calls
        [LvChartNext (ui_w s S_chart_temp) (ui_w s (S_temp_series i))
           (if ok \<and> float_isfinite temp then Some (chart_temperature env use_fahrenheit temp) else None),
         LvChartNext (ui_w s S_chart_hum) (ui_w s (S_hum_series i))
           (if ok \<and> float_isfinite hum then Some (chart_point env hum) else None)] s)"

definition chart_ds18b20 :: "lv_env \<Rightarrow> proto_sensor_update_t \<Rightarrow> bool \<Rightarrow> nat \<Rightarrow> ui \<Rightarrow> ui" where
  "chart_ds18b20 env update use_fahrenheit i s =
     (let temp = ds_temperature_c (su_ds18b20 update ! i) in
      if i < su_ds18b20_count update \<and> \<not> float_isnan temp
      then calls [LvChartNext (ui_w s S_chart_ds) (ui_w s (S_ds_series i)) (Some (chart_temperature env use_fahrenheit temp))] s
      else s)"

definition update_charts :: "lv_env \<Rightarrow> proto_sensor_update_t \<Rightarrow> bool \<Rightarrow> ui \<Rightarrow> ui" where
  "update_charts env update use_fahrenheit s =
     for_loop (chart_ds18b20 env update use_fahrenheit) 4 0 (for_loop (chart_sht20 env update use_fahrenheit) 2 0 s)"

definition ui_update_connection_status :: "bool \<Rightarrow> ui \<Rightarrow> ui" where
  "ui_update_connection_status conn s =
     (let label = ui_w s S_status_label in
      if label = None then s
      else let s = s\<lparr>ui_last_connected := conn\<rparr>; loc = get_locale s in
        if conn then calls [LvLabelText label (label_wifi_connected loc), LvStyle label (StyleTextColor (Hex 0x66FF66)) Part0] s
        else calls [LvLabelText label (label_wifi_disconnected loc), LvStyle label (StyleTextColor (Hex 0xFF5555)) Part0] s)"

definition ui_update_crc_status :: "bool \<Rightarrow> ui \<Rightarrow> ui" where
  "ui_update_crc_status ok s =
     (let badge = ui_w s S_crc_badge in
      if badge = None then s
      else let s = s\<lparr>ui_last_crc_ok := ok\<rparr>; loc = get_locale s in
        if ok then calls [LvLabelText badge (label_crc_ok loc), LvStyle badge (StyleTextColor (Hex 0x66FFAA)) Part0] s
        else calls [LvLabelText badge (label_crc_error loc), LvStyle badge (StyleTextColor (Hex 0xFF6666)) Part0] s)"

definition no_value :: "string \<Rightarrow> string" where
  "no_value prefix = prefix @ '': --''"

definition show_sht20 :: "lv_env \<Rightarrow> ui_locale_pack_t \<Rightarrow> proto_sensor_update_t \<Rightarrow> bool \<Rightarrow> nat \<Rightarrow> ui \<Rightarrow> ui" where
  "show_sht20 env loc update use_fahrenheit i s =
     (let name = ui_w s (S_sht20_name i); temp = ui_w s (S_sht20_temp i); hum = ui_w s (S_sht20_hum i);
          r = su_sht20 update ! i; pt = label_temperature_prefix loc; ph = label_humidity_prefix loc
      in if i < su_sht20_count update then calls
           [LvLabelText name (sht_id r @ (if sht_valid r then [] else '' (fault)'')),
            LvLabelText temp (if sht_valid r \<and> float_isfinite (sht_temperature_c r)
              then pt @ '': '' @ format_temperature env 64 (sht_temperature_c r) use_fahrenheit else no_value pt),
            LvLabelText hum (if sht_valid r \<and> float_isfinite (sht_humidity_percent r)
              then ph @ '': '' @ cstr_copy 64 (fmt_1f (sht_humidity_percent r) @ '' %'') else no_value ph)] s
         else calls
           [LvLabelText name (label_sensor_fallback loc @ '' '' @ dec_string (i + 1)),
            LvLabelText temp (no_value pt), LvLabelText hum (no_value ph)] s)"

definition show_ds18b20 :: "lv_env \<Rightarrow> ui_locale_pack_t \<Rightarrow> proto_sensor_update_t \<Rightarrow> bool \<Rightarrow> nat \<Rightarrow> ui \<Rightarrow> ui" where
  "show_ds18b20 env loc update use_fahrenheit i s =
     (let pt = label_temperature_prefix loc; r = su_ds18b20 update ! i in
      if i < su_ds18b20_count update then calls
        [LvLabelText (ui_w s (S_ds18_name i)) (format_rom_code (ds_rom_code r) 17),
         LvLabelText (ui_w s (S_ds18_temp i)) (pt @ '': '' @ format_temperature env 64 (ds_temperature_c r) use_fahrenheit)] s
      else calls [LvLabelText (ui_w s (S_ds18_temp i)) (no_value pt)] s)"

definition ui_update_sensor_data :: "lv_env \<Rightarrow> proto_sensor_update_t option \<Rightarrow> bool \<Rightarrow> ui \<Rightarrow> ui" where
  "ui_update_sensor_data env updatep use_fahrenheit s =
     (case updatep of
        None \<Rightarrow> s
      | Some update \<Rightarrow>
          let loc = get_locale s;
              s = for_loop (show_sht20 env loc update use_fahrenheit) 2 0 s;
              s = for_loop (show_ds18b20 env loc update use_fahrenheit) 4 0 s;
              s = if_set S_wifi_badge (\<lambda>p. [LvLabelText p (label_sequence_prefix loc @ '': '' @ fmt_u (su_sequence_id update))]) s;
              s = update_gpio_state update s;
              s = update_pwm_state update s;
              s = update_charts env update use_fahrenheit s
          in s\<lparr>ui_last_sequence_id := su_sequence_id update, ui_last_proto_update := update, ui_has_last_proto_update := True\<rparr>)"

section \<open>Preferences\<close>

definition set_tab_title :: "lv_env \<Rightarrow> widget \<Rightarrow> string \<Rightarrow> ui \<Rightarrow> ui" where
  "set_tab_title env tab title s =
     if_set tab (\<lambda>p. [LvTabTitle (ui_w s S_tabview) (lv_obj_get_index env (ui_log s) p) title]) s"

definition set_text :: "widget \<Rightarrow> string \<Rightarrow> ui \<Rightarrow> ui" where
  "set_text x txt s = if_set x (\<lambda>p. [LvLabelText p txt]) s"

definition clear_sht20 :: "ui_locale_pack_t \<Rightarrow> nat \<Rightarrow> ui \<Rightarrow> ui" where
  "clear_sht20 loc i s =
     set_text (S_sht20_hum i) (no_value (label_humidity_prefix loc))
       (set_text (S_sht20_temp i) (no_value (label_temperature_prefix loc))
         (set_text (S_sht20_name i) (label_sensor_fallback loc @ '' '' @ dec_string (i + 1)) s))"

definition clear_ds18b20 :: "ui_locale_pack_t \<Rightarrow> nat \<Rightarrow> ui \<Rightarrow> ui" where
  "clear_ds18b20 loc i s = set_text (S_ds18_temp i) (no_value (label_temperature_prefix loc)) s"

definition refresh_tabs :: "lv_env \<Rightarrow> ui_locale_pack_t \<Rightarrow> ui \<Rightarrow> ui" where
  "refresh_tabs env loc s =
     (if ui_w s S_tabview = None then s
      else
        let s = set_tab_title env S_dashboard_tab (tab_dashboard loc) s;
            s = set_tab_title env S_gpio_tab (tab_gpio loc) s;
            s = set_tab_title env S_pwm_tab (tab_pwm loc) s;
            s = set_tab_title env S_traces_tab (tab_traces loc) s;
            s = set_tab_title env S_settings_tab (tab_settings loc) s
        in set_tab_title env S_accessibility_tab (tab_accessibility loc) s)"

definition refresh_labels :: "ui_locale_pack_t \<Rightarrow> ui \<Rightarrow> ui" where
  "refresh_labels loc s =
     (let s = set_text S_ssid_label (label_wifi_ssid loc) s;
          s = set_text S_password_label (label_wifi_password loc) s;
          s = set_text S_mdns_label (label_mdns_target loc) s;
          s = set_text S_dark_theme_label (label_dark_theme loc) s;
          s = set_text S_use_fahrenheit_label (label_use_fahrenheit loc) s;
          s = set_text S_apply_label (label_apply loc) s;
          s = set_text S_reset_label (label_reset loc) s;
          s = set_text S_language_label (label_language loc) s;
          s = set_text S_high_contrast_label (label_high_contrast loc) s;
          s = set_text S_text_scale_title (label_text_scale loc) s;
          s = set_text S_touch_targets_label (label_touch_targets loc) s
      in if_set S_language_dd (\<lambda>p. [LvDropdownOptions p (dropdown_languages loc)]) s)"

definition refresh_localised_text :: "lv_env \<Rightarrow> ui \<Rightarrow> ui" where
  "refresh_localised_text env s =
     (let loc = get_locale s;
          s = refresh_tabs env loc s;
          s = refresh_labels loc s;
          s = if_set S_wifi_badge (\<lambda>p. [LvLabelText p (if ui_last_sequence_id s \<noteq> 0
                then label_sequence_prefix loc @ '': '' @ fmt_u (ui_last_sequence_id s) else no_value (label_sequence_prefix loc))]) s;
          s = update_text_scale_label env s;
          s = (if ui_w s S_status_label = None then s else ui_update_connection_status (ui_last_connected s) s);
          s = (if ui_w s S_crc_badge = None then s
               else if ui_has_last_proto_update s then ui_update_crc_status (ui_last_crc_ok s) s
               else calls [LvLabelText (ui_w s S_crc_badge) (label_crc_unknown loc),
                      LvStyle (ui_w s S_crc_badge) (StyleTextColor (Hex 0xAAAAAA)) Part0] s)
      in if ui_has_last_proto_update s
         then ui_update_sensor_data env (Some (ui_last_proto_update s)) (prf_use_fahrenheit (ui_active_prefs s)) s
         else for_loop (clear_ds18b20 loc) 4 0 (for_loop (clear_sht20 loc) 2 0 s))"

definition set_switch :: "widget \<Rightarrow> bool \<Rightarrow> ui \<Rightarrow> ui" where
  "set_switch x on s = calls [if on then LvCheck (ui_w s x) else LvUncheck (ui_w s x)] s"

definition ui_apply_preferences :: "lv_env \<Rightarrow> hmi_user_preferences_t option \<Rightarrow> ui \<Rightarrow> ui" where
  "ui_apply_preferences env prefsp s =
     (case prefsp of
        None \<Rightarrow> s
      | Some prefs \<Rightarrow>
          let s = s\<lparr>ui_active_prefs := prefs\<rparr>;
              s = apply_theme env (prf_dark_theme prefs) s;
              s = s\<lparr>ui_updating := True\<rparr>;
              s = calls [LvTextareaText (ui_w s S_ssid_ta) (prf_ssid prefs), LvTextareaText (ui_w s S_password_ta) (prf_password prefs),
                    LvTextareaText (ui_w s S_mdns_ta) (prf_mdns_target prefs)] s;
              s = set_switch S_theme_switch (prf_dark_theme prefs) s;
              s = set_switch S_units_switch (prf_use_fahrenheit prefs) s;
              s = (if ui_w s S_high_contrast_switch = None then s else set_switch S_high_contrast_switch (prf_high_contrast prefs) s);
              s = (if ui_w s S_touch_targets_switch = None then s else set_switch S_touch_targets_switch (prf_large_touch_targets prefs) s);
              s = (if ui_w s S_text_scale_slider = None then s
                   else update_text_scale_label env (calls [LvSliderValue (ui_w s S_text_scale_slider) (uint (prf_text_scale_percent prefs))] s));
              s = if_set S_language_dd (\<lambda>p. [LvDropdownSelected p
                    (ucast (if prf_language prefs < HMI_LANGUAGE_MAX then prf_language prefs else HMI_LANGUAGE_EN))]) s;
              s = s\<lparr>ui_updating := False\<rparr>;
              s = apply_touch_target_style s
          in refresh_localised_text env s)"

definition ui_process :: "ui \<Rightarrow> ui" where
  "ui_process s = calls [LvTimerHandler] s"

end
