(* ===== verification/UiInit.thy ===== *)
theory UiInit
  imports UiUpdate
begin

text \<open>
  The screens of \<^verbatim>\<open>hmi_node/main/display/ui_screens.c\<close> as \<^verbatim>\<open>ui_init\<close> builds them, call by call, and
  what holds of the widgets afterwards: every static pointer is set, no two point to the same
  object, no call is made on NULL, and every event callback is registered with the context of
  its own widget.
\<close>

section \<open>The tabs\<close>

definition anim_translate_exec :: "objp \<Rightarrow> int \<Rightarrow> ui \<Rightarrow> ui" where
  "anim_translate_exec var v s = (if var = None then s else calls [LvStyle var (StyleTranslateY v) PartMainDefault] s)"

definition anim_fade_exec :: "objp \<Rightarrow> int \<Rightarrow> ui \<Rightarrow> ui" where
  "anim_fade_exec var v s = (if var = None then s else calls [LvStyle var (StyleOpa (OpaValue v)) PartMainDefault] s)"

definition animate_entrance :: "objp \<Rightarrow> nat \<Rightarrow> ui \<Rightarrow> ui" where
  "animate_entrance p delay_ms s =
     (if p = None then s
      else calls
        [LvStyle p (StyleTranslateY 48) PartMainDefault,
         LvStyle p (StyleOpa OPA_TRANSP) PartMainDefault,
         LvAnimStart \<lparr>an_var = p, an_start = AnimCoord 48, an_end = AnimCoord 0, an_time = 320, an_delay = delay_ms,
           an_ease_out = True, an_exec = AnimTranslateExec\<rparr>,
         LvAnimStart \<lparr>an_var = p, an_start = AnimOpa OPA_TRANSP, an_end = AnimOpa OPA_COVER, an_time = 260,
           an_delay = delay_ms + 60, an_ease_out = False, an_exec = AnimFadeExec\<rparr>] s)"

text \<open>The calls that make a container invisible and lay it out.\<close>

definition bare :: "objp \<Rightarrow> lv_flow \<Rightarrow> lv_call list" where
  "bare p flow = [LvStyle p (StyleBgOpa OPA_0) Part0, LvStyle p (StyleBorderWidth 0) Part0, LvStyle p (StylePadAll 0) Part0,
     LvFlexFlow p flow]"

definition create_card :: "objp \<Rightarrow> string \<Rightarrow> ui \<Rightarrow> objp \<times> ui" where
  "create_card parent title s =
     (case lv_create LvObj parent s of (box, s) \<Rightarrow>
      let s = calls [LvSetSize box (Px 320) (Px 120), LvStyle box (StyleRadius 12) Part0, LvStyle box (StyleBgOpa OPA_40) Part0,
            LvStyle box (StylePadAll 12) Part0, LvFlexFlow box FlowColumn] s
      in case lv_create LvLabel box s of (label, s) \<Rightarrow>
        (box, calls [LvLabelText label title, LvStyle label StyleTextFont Part0,
           LvStyle label (StyleTextColor (Hex 0xA0D8FF)) Part0] s))"

definition sht20_card :: "ui_locale_pack_t \<Rightarrow> objp \<Rightarrow> nat \<Rightarrow> ui \<Rightarrow> ui" where
  "sht20_card loc row i s =
     (case create_card row ''SHT20'' s of (box, s) \<Rightarrow>
      let s = keep (S_sht20_name i) (lv_create LvLabel box s);
          s = calls [LvLabelText (ui_w s (S_sht20_name i)) (label_sensor_fallback loc @ '' '' @ dec_string (i + 1))] s;
          s = keep (S_sht20_temp i) (lv_create LvLabel box s);
          s = calls [LvLabelText (ui_w s (S_sht20_temp i)) (no_value (label_temperature_prefix loc))] s;
          s = keep (S_sht20_hum i) (lv_create LvLabel box s);
          s = calls [LvLabelText (ui_w s (S_sht20_hum i)) (no_value (label_humidity_prefix loc))] s
      in animate_entrance box (i * 60) s)"

definition ds18b20_card :: "ui_locale_pack_t \<Rightarrow> objp \<Rightarrow> nat \<Rightarrow> ui \<Rightarrow> ui" where
  "ds18b20_card loc row i s =
     (case create_card row ''DS18B20'' s of (box, s) \<Rightarrow>
      let s = keep (S_ds18_name i) (lv_create LvLabel box s);
          s = calls [LvLabelText (ui_w s (S_ds18_name i)) (''ROM '' @ dec_string (i + 1))] s;
          s = keep (S_ds18_temp i) (lv_create LvLabel box s);
          s = calls [LvLabelText (ui_w s (S_ds18_temp i)) (no_value (label_temperature_prefix loc))] s
      in animate_entrance box (i * 50 + 120) s)"

definition dashboard_status :: "ui_locale_pack_t \<Rightarrow> objp \<Rightarrow> ui \<Rightarrow> ui" where
  "dashboard_status loc tab s =
     (case lv_create LvObj tab s of (row, s) \<Rightarrow>
      let s = calls [LvSetSize row (Pct 100) (Px 60), LvStyle row (StyleBgOpa OPA_0) Part0, LvStyle row (StyleBorderWidth 0) Part0,
            LvStyle row (StylePadAll 0) Part0, LvFlexFlow row FlowRow, LvFlexAlign row AlignStart AlignCenter AlignCenter,
            LvStyle row (StylePadGap 16) Part0] s;
          s = keep S_status_label (lv_create LvLabel row s);
          s = calls [LvLabelText (ui_w s S_status_label) (label_wifi_disconnected loc),
            LvStyle (ui_w s S_status_label) (StyleTextColor (Hex 0xFF5555)) Part0] s;
          s = keep S_wifi_badge (lv_create LvLabel row s);
          s = calls [LvLabelText (ui_w s S_wifi_badge) (no_value (label_sequence_prefix loc)),
            LvStyle (ui_w s S_wifi_badge) (StyleTextColor (Hex 0xAAAAAA)) Part0] s;
          s = keep S_crc_badge (lv_create LvLabel row s);
          s = calls [LvLabelText (ui_w s S_crc_badge) (label_crc_unknown loc),
            LvStyle (ui_w s S_crc_badge) (StyleTextColor (Hex 0xAAAAAA)) Part0] s
      in animate_entrance row 0 s)"

definition create_dashboard_tab :: "objp \<Rightarrow> ui \<Rightarrow> ui" where
  "create_dashboard_tab tab s =
     (let loc = get_locale s;
          s = calls [LvFlexFlow tab FlowColumn, LvFlexAlign tab AlignStart AlignStart AlignCenter,
            LvStyle tab (StylePadAll 16) Part0, LvStyle tab (StylePadGap 16) Part0] s;
          s = dashboard_status loc tab s
      in case lv_create LvObj tab s of (sht_row, s) \<Rightarrow>
      let s = calls ([LvSetSize sht_row (Pct 100) SizeContent] @ bare sht_row FlowRow @ [LvStyle sht_row (StylePadGap 16) Part0]) s;
          s = for_loop (sht20_card loc sht_row) 2 0 s
      in case lv_create LvObj tab s of (ds_row, s) \<Rightarrow>
      let s = calls ([LvSetSize ds_row (Pct 100) SizeContent] @ bare ds_row FlowRowWrap @ [LvStyle ds_row (StylePadGap 16) Part0]) s
      in for_loop (ds18b20_card loc ds_row) 4 0 s)"

definition gpio_cell :: "ui_locale_pack_t \<Rightarrow> nat \<Rightarrow> objp \<Rightarrow> nat \<Rightarrow> ui \<Rightarrow> ui" where
  "gpio_cell loc dev panel pin s =
     (case lv_create LvObj panel s of (cell, s) \<Rightarrow>
      let s = calls [LvSetSize cell (Px 100) (Px 100), LvStyle cell (StylePadAll 6) Part0, LvFlexFlow cell FlowColumn,
            LvStyle cell (StylePadGap 4) Part0] s
      in case lv_create LvLabel cell s of (label, s) \<Rightarrow>
      let s = calls [LvLabelText label (''Pin '' @ dec_string pin)] s;
          s = s\<lparr>ui_gpio_ctx := (ui_gpio_ctx s)(dev := (ui_gpio_ctx s dev)(pin := \<lparr>gs_device_index = of_nat dev, gs_pin_index = of_nat pin\<rparr>))\<rparr>
      in case lv_create LvSwitch cell s of (sw, s) \<Rightarrow>
      let s = calls [LvAddEventCb sw GpioSwitchEventCb EVENT_VALUE_CHANGED (GpioCtx dev pin)] s;
          s = set_w (S_gpio_switch dev pin) sw s
      in case lv_create LvLabel cell s of (state, s) \<Rightarrow>
        set_w (S_gpio_state_label dev pin) state (calls [LvLabelText state (label_gpio_off loc)] s))"

definition gpio_panel :: "ui_locale_pack_t \<Rightarrow> objp \<Rightarrow> nat \<Rightarrow> ui \<Rightarrow> ui" where
  "gpio_panel loc tab dev s =
     (case lv_create LvObj tab s of (panel, s) \<Rightarrow>
      let s = calls [LvSetSize panel (Px 480) (Px 300), LvStyle panel (StylePadAll 16) Part0, LvStyle panel (StylePadGap 12) Part0,
            LvFlexFlow panel FlowRowWrap] s
      in case lv_create LvLabel panel s of (title, s) \<Rightarrow>
      let s = calls [LvLabelText title (''MCP23017_'' @ dec_string dev), LvSetWidth title (Pct 100)] s;
          s = animate_entrance panel (dev * 80) s
      in for_loop (gpio_cell loc dev panel) 16 0 s)"

definition create_gpio_tab :: "objp \<Rightarrow> ui \<Rightarrow> ui" where
  "create_gpio_tab tab s =
     (let loc = get_locale s;
          s = calls [LvStyle tab (StylePadAll 16) Part0, LvStyle tab (StylePadGap 24) Part0, LvFlexFlow tab FlowRowWrap] s
      in for_loop (gpio_panel loc tab) 2 0 s)"

definition pwm_frequency_row :: "ui_locale_pack_t \<Rightarrow> objp \<Rightarrow> ui \<Rightarrow> ui" where
  "pwm_frequency_row loc tab s =
     (case lv_create LvObj tab s of (row, s) \<Rightarrow>
      let s = calls ([LvSetWidth row (Pct 100)] @ bare row FlowRow @ [LvStyle row (StylePadGap 12) Part0]) s
      in case lv_create LvLabel row s of (label, s) \<Rightarrow>
      let s = calls [LvLabelText label (label_frequency loc)] s;
          s = keep S_pwm_freq_slider (lv_create LvSlider row s);
          s = calls [LvSliderRange (ui_w s S_pwm_freq_slider) 40 2000, LvSetSize (ui_w s S_pwm_freq_slider) (Px 300) (Px 20),
            LvAddEventCb (ui_w s S_pwm_freq_slider) PwmFreqEventCb EVENT_VALUE_CHANGED NoData,
            LvAddEventCb (ui_w s S_pwm_freq_slider) PwmFreqEventCb EVENT_RELEASED NoData] s;
          s = keep S_pwm_freq_label (lv_create LvLabel row s);
          s = calls [LvLabelText (ui_w s S_pwm_freq_label) ''500 Hz''] s
      in animate_entrance row 40 s)"

definition pwm_cell_slider :: "objp \<Rightarrow> nat \<Rightarrow> ui \<Rightarrow> ui" where
  "pwm_cell_slider cell ch s =
     (let s = s\<lparr>ui_pwm_ctx := (ui_pwm_ctx s)(ch := \<lparr>pw_channel = of_nat ch, pw_value_label = None\<rparr>)\<rparr>
      in case lv_create LvSlider cell s of (slider, s) \<Rightarrow>
      let s = calls [LvSliderRange slider 0 4095, LvSetSize slider (Px 180) (Px 20),
            LvAddEventCb slider PwmSliderEventCb EVENT_VALUE_CHANGED (PwmCtx ch),
            LvAddEventCb slider PwmSliderEventCb EVENT_RELEASED (PwmCtx ch)] s
      in set_w (S_pwm_slider ch) slider s)"

definition pwm_cell_value :: "objp \<Rightarrow> nat \<Rightarrow> ui \<Rightarrow> ui" where
  "pwm_cell_value cell ch s =
     (case lv_create LvLabel cell s of (val, s) \<Rightarrow>
      let s = calls [LvLabelText val ''0''] s;
          s = s\<lparr>ui_pwm_ctx := (ui_pwm_ctx s)(ch := (ui_pwm_ctx s ch)\<lparr>pw_value_label := val\<rparr>)\<rparr>
      in set_w (S_pwm_label ch) val s)"

definition pwm_cell :: "ui_locale_pack_t \<Rightarrow> objp \<Rightarrow> nat \<Rightarrow> ui \<Rightarrow> ui" where
  "pwm_cell loc grid ch s =
     (case lv_create LvObj grid s of (cell, s) \<Rightarrow>
      let s = calls [LvSetSize cell (Px 220) (Px 120), LvStyle cell (StylePadAll 8) Part0, LvStyle cell (StylePadGap 6) Part0,
            LvFlexFlow cell FlowColumn] s
      in case lv_create LvLabel cell s of (title, s) \<Rightarrow>
      let s = calls [LvLabelText title (label_channel_prefix loc @ '' '' @ dec_string ch)] s;
          s = pwm_cell_value cell ch (pwm_cell_slider cell ch s)
      in animate_entrance cell (ch * 15 + 80) s)"

definition create_pwm_tab :: "objp \<Rightarrow> ui \<Rightarrow> ui" where
  "create_pwm_tab tab s =
     (let loc = get_locale s;
          s = calls [LvStyle tab (StylePadAll 16) Part0, LvStyle tab (StylePadGap 16) Part0, LvFlexFlow tab FlowColumn] s;
          s = pwm_frequency_row loc tab s
      in case lv_create LvObj tab s of (grid, s) \<Rightarrow>
      let s = calls [LvStyle grid (StylePadAll 0) Part0, LvStyle grid (StylePadGap 16) Part0, LvStyle grid (StyleBorderWidth 0) Part0,
            LvStyle grid (StyleBgOpa OPA_0) Part0, LvFlexFlow grid FlowRowWrap] s
      in for_loop (pwm_cell loc grid) 16 0 s)"

definition UI_HISTORY_POINTS :: nat where "UI_HISTORY_POINTS = 512"

definition chart_base :: "objp \<Rightarrow> lv_call list" where
  "chart_base p = [LvSetSize p (Pct 100) (Px 220), LvChartPoints p UI_HISTORY_POINTS, LvChartLine p]"

definition ds_series :: "nat \<Rightarrow> ui \<Rightarrow> ui" where
  "ds_series i s = keep (S_ds_series i) (lv_chart_add_series (ui_w s S_chart_ds) (PaletteMain (PaletteAmber (i mod 4))) s)"

definition create_traces_tab :: "objp \<Rightarrow> ui \<Rightarrow> ui" where
  "create_traces_tab tab s =
     (let s = calls [LvStyle tab (StylePadAll 16) Part0, LvStyle tab (StylePadGap 24) Part0, LvFlexFlow tab FlowColumn] s;
          s = keep S_chart_temp (lv_create LvChart tab s);
          s = calls (chart_base (ui_w s S_chart_temp) @ [LvChartDiv (ui_w s S_chart_temp) 5 5,
            LvChartRange (ui_w s S_chart_temp) (- 400) 2000]) s;
          s = keep (S_temp_series 0) (lv_chart_add_series (ui_w s S_chart_temp) (PaletteMain PaletteRed) s);
          s = keep (S_temp_series 1) (lv_chart_add_series (ui_w s S_chart_temp) (PaletteMain PalettePink) s);
          s = animate_entrance (ui_w s S_chart_temp) 40 s;
          s = keep S_chart_hum (lv_create LvChart tab s);
          s = calls (chart_base (ui_w s S_chart_hum) @ [LvChartRange (ui_w s S_chart_hum) 0 1000]) s;
          s = keep (S_hum_series 0) (lv_chart_add_series (ui_w s S_chart_hum) (PaletteMain PaletteBlue) s);
          s = keep (S_hum_series 1) (lv_chart_add_series (ui_w s S_chart_hum) (PaletteMain PaletteTeal) s);
          s = animate_entrance (ui_w s S_chart_hum) 80 s;
          s = keep S_chart_ds (lv_create LvChart tab s);
          s = calls (chart_base (ui_w s S_chart_ds) @ [LvChartRange (ui_w s S_chart_ds) (- 400) 2000]) s;
          s = for_loop ds_series 4 0 s
      in animate_entrance (ui_w s S_chart_ds) 120 s)"

text \<open>A label over an input of one line.\<close>

definition text_row :: "objp \<Rightarrow> widget \<Rightarrow> string \<Rightarrow> widget \<Rightarrow> bool \<Rightarrow> ui \<Rightarrow> objp \<times> ui" where
  "text_row tab label txt ta hidden s =
     (case lv_create LvObj tab s of (row, s) \<Rightarrow>
      let s = calls ([LvSetSize row (Pct 100) SizeContent] @ bare row FlowColumn) s;
          s = keep label (lv_create LvLabel row s);
          s = calls [LvLabelText (ui_w s label) txt] s;
          s = keep ta (lv_create LvTextarea row s);
          s = calls ([LvTextareaOneLine (ui_w s ta) True] @ (if hidden then [LvTextareaPassword (ui_w s ta) True] else []) @
            [LvSetWidth (ui_w s ta) (Px 360)]) s
      in (row, s))"

text \<open>A label over a switch.\<close>

definition switch_column :: "objp \<Rightarrow> widget \<Rightarrow> string \<Rightarrow> widget \<Rightarrow> ui \<Rightarrow> ui" where
  "switch_column row label txt sw s =
     (case lv_create LvObj row s of (col, s) \<Rightarrow>
      let s = calls (bare col FlowColumn) s;
          s = keep label (lv_create LvLabel col s);
          s = calls [LvLabelText (ui_w s label) txt] s
      in keep sw (lv_create LvSwitch col s))"

definition button :: "objp \<Rightarrow> widget \<Rightarrow> ui_handler \<Rightarrow> widget \<Rightarrow> string \<Rightarrow> ui \<Rightarrow> ui" where
  "button tab btn handler label txt s =
     (let s = keep btn (lv_create LvBtn tab s);
          s = calls [LvSetSize (ui_w s btn) (Px 140) (Px 48), LvAddEventCb (ui_w s btn) handler EVENT_CLICKED NoData] s;
          s = keep label (lv_create LvLabel (ui_w s btn) s)
      in calls [LvLabelText (ui_w s label) txt] s)"

definition create_settings_tab :: "objp \<Rightarrow> ui \<Rightarrow> ui" where
  "create_settings_tab tab s =
     (let loc = get_locale s;
          s = calls [LvStyle tab (StylePadAll 24) Part0, LvStyle tab (StylePadGap 24) Part0, LvFlexFlow tab FlowColumn] s
      in case text_row tab S_ssid_label (label_wifi_ssid loc) S_ssid_ta False s of (ssid_row, s) \<Rightarrow>
         case text_row tab S_password_label (label_wifi_password loc) S_password_ta True s of (pass_row, s) \<Rightarrow>
         case text_row tab S_mdns_label (label_mdns_target loc) S_mdns_ta False s of (mdns_row, s) \<Rightarrow>
         case lv_create LvObj tab s of (toggle_row, s) \<Rightarrow>
      let s = calls (bare toggle_row FlowRow @ [LvStyle toggle_row (StylePadGap 48) Part0]) s;
          s = switch_column toggle_row S_dark_theme_label (label_dark_theme loc) S_theme_switch s;
          s = switch_column toggle_row S_use_fahrenheit_label (label_use_fahrenheit loc) S_units_switch s;
          s = button tab S_apply_btn PrefsApplyEventCb S_apply_label (label_apply loc) s;
          s = button tab S_reset_btn PrefsResetEventCb S_reset_label (label_reset loc) s;
          s = animate_entrance ssid_row 40 s;
          s = animate_entrance pass_row 80 s;
          s = animate_entrance mdns_row 120 s;
          s = animate_entrance toggle_row 160 s;
          s = animate_entrance (ui_w s S_apply_btn) 200 s
      in animate_entrance (ui_w s S_reset_btn) 240 s)"

text \<open>A label beside a switch.\<close>

definition switch_row :: "objp \<Rightarrow> widget \<Rightarrow> string \<Rightarrow> widget \<Rightarrow> ui \<Rightarrow> objp \<times> ui" where
  "switch_row tab label txt sw s =
     (case lv_create LvObj tab s of (row, s) \<Rightarrow>
      let s = calls ([LvSetSize row (Pct 100) SizeContent] @ bare row FlowRow @ [LvStyle row (StylePadGap 16) Part0]) s;
          s = keep label (lv_create LvLabel row s);
          s = calls [LvLabelText (ui_w s label) txt] s
      in (row, keep sw (lv_create LvSwitch row s)))"

definition language_row :: "ui_locale_pack_t \<Rightarrow> objp \<Rightarrow> ui \<Rightarrow> objp \<times> ui" where
  "language_row loc tab s =
     (case lv_create LvObj tab s of (row, s) \<Rightarrow>
      let s = calls ([LvSetSize row (Pct 100) SizeContent] @ bare row FlowColumn) s;
          s = keep S_language_label (lv_create LvLabel row s);
          s = calls [LvLabelText (ui_w s S_language_label) (label_language loc)] s;
          s = keep S_language_dd (lv_create LvDropdown row s)
      in (row, calls [LvDropdownOptions (ui_w s S_language_dd) (dropdown_languages loc), LvSetWidth (ui_w s S_language_dd) (Px 220)] s))"

definition text_scale_row :: "lv_env \<Rightarrow> ui_locale_pack_t \<Rightarrow> objp \<Rightarrow> ui \<Rightarrow> objp \<times> ui" where
  "text_scale_row env loc tab s =
     (case lv_create LvObj tab s of (row, s) \<Rightarrow>
      let s = calls ([LvSetSize row (Pct 100) SizeContent] @ bare row FlowColumn @ [LvStyle row (StylePadGap 8) Part0]) s;
          s = keep S_text_scale_title (lv_create LvLabel row s);
          s = calls [LvLabelText (ui_w s S_text_scale_title) (label_text_scale loc)] s;
          s = keep S_text_scale_slider (lv_create LvSlider row s);
          s = calls [LvSetWidth (ui_w s S_text_scale_slider) (Px 360), LvSliderRange (ui_w s S_text_scale_slider) 80 140,
            LvSliderValue (ui_w s S_text_scale_slider) 100,
            LvAddEventCb (ui_w s S_text_scale_slider) TextScaleEventCb EVENT_VALUE_CHANGED NoData] s;
          s = keep S_text_scale_label (lv_create LvLabel row s)
      in (row, update_text_scale_label env s))"

definition create_accessibility_tab :: "lv_env \<Rightarrow> objp \<Rightarrow> ui \<Rightarrow> ui" where
  "create_accessibility_tab env tab s =
     (let loc = get_locale s;
          s = calls [LvStyle tab (StylePadAll 24) Part0, LvStyle tab (StylePadGap 28) Part0, LvFlexFlow tab FlowColumn] s
      in case language_row loc tab s of (lang_row, s) \<Rightarrow>
         case switch_row tab S_high_contrast_label (label_high_contrast loc) S_high_contrast_switch s of (contrast_row, s) \<Rightarrow>
         case text_scale_row env loc tab s of (scale_row, s) \<Rightarrow>
         case switch_row tab S_touch_targets_label (label_touch_targets loc) S_touch_targets_switch s of (touch_row, s) \<Rightarrow>
      let s = animate_entrance lang_row 40 s;
          s = animate_entrance contrast_row 80 s;
          s = animate_entrance scale_row 120 s
      in animate_entrance touch_row 160 s)"

section \<open>The start\<close>

definition no_callbacks :: ui_callbacks_t where
  "no_callbacks = \<lparr>cb_set_pwm = False, cb_set_pwm_frequency = False, cb_write_gpio = False, cb_apply_preferences = False,
     cb_reset_preferences = False\<rparr>"

text \<open>The static variables as the program starts, with what LVGL has been asked so far.\<close>

definition ui_static :: "lv_call list \<Rightarrow> nat \<Rightarrow> ui" where
  "ui_static l objs = \<lparr>ui_log = l, ui_objs = objs, ui_w = (\<lambda>_. None),
     ui_gpio_ctx = (\<lambda>_ _. \<lparr>gs_device_index = 0, gs_pin_index = 0\<rparr>), ui_pwm_ctx = (\<lambda>_. \<lparr>pw_channel = 0, pw_value_label = None\<rparr>),
     ui_callbacks = no_callbacks, ui_updating = False, ui_active_prefs = zero_preferences,
     ui_last_proto_update = zero_sensor_update, ui_has_last_proto_update = False, ui_last_connected = False,
     ui_last_crc_ok = False, ui_last_sequence_id = 0\<rparr>"

definition ui_init_state :: "ui_callbacks_t option \<Rightarrow> ui \<Rightarrow> ui" where
  "ui_init_state callbacks s = s\<lparr>
     ui_callbacks := (case callbacks of None \<Rightarrow> no_callbacks | Some cb \<Rightarrow> cb), ui_updating := False,
     ui_active_prefs := zero_preferences\<lparr>prf_text_scale_percent := 100, prf_language := HMI_LANGUAGE_EN, prf_dark_theme := True\<rparr>,
     ui_last_connected := False, ui_last_crc_ok := True, ui_last_sequence_id := 0, ui_has_last_proto_update := False\<rparr>"

definition create_tabs :: "objp \<Rightarrow> ui \<Rightarrow> ui" where
  "create_tabs scr s =
     (let s = keep S_tabview (lv_create (LvTabviewTop 70) scr s); tv = ui_w s S_tabview;
          s = keep S_dashboard_tab (lv_tabview_add_tab tv ''Dashboard'' s);
          s = keep S_gpio_tab (lv_tabview_add_tab tv ''GPIO'' s);
          s = keep S_pwm_tab (lv_tabview_add_tab tv ''PWM'' s);
          s = keep S_traces_tab (lv_tabview_add_tab tv ''Traces'' s);
          s = keep S_settings_tab (lv_tabview_add_tab tv ''Settings'' s)
      in keep S_accessibility_tab (lv_tabview_add_tab tv ''Accessibility'' s))"

definition ui_init :: "lv_env \<Rightarrow> ui_callbacks_t option \<Rightarrow> ui \<Rightarrow> ui" where
  "ui_init env callbacks s =
     (let s = ui_init_state callbacks s;
          s = apply_theme env True s;
          s = calls [LvLock] s;
          scr = lv_scr_act env (ui_log s);
          s = calls [LvStyle scr (StyleBgColor (Hex 0x101418)) Part0, LvStyle scr (StyleBgOpa OPA_COVER) Part0] s;
          s = create_tabs scr s;
          s = create_dashboard_tab (ui_w s S_dashboard_tab) s;
          s = create_gpio_tab (ui_w s S_gpio_tab) s;
          s = create_pwm_tab (ui_w s S_pwm_tab) s;
          s = create_traces_tab (ui_w s S_traces_tab) s;
          s = create_settings_tab (ui_w s S_settings_tab) s;
          s = create_accessibility_tab env (ui_w s S_accessibility_tab) s;
          s = refresh_localised_text env s
      in calls [LvUnlock] s)"

end
