(* ===== verification/UiBuilt.thy ===== *)
theory UiBuilt
  imports UiInit
begin

text \<open>
  What the screens are after \<^verbatim>\<open>ui_init\<close>. The relation \<open>built\<close> says what a piece of the
  construction does to the static pointers, the contexts, the registered callbacks and the
  log; one rule per kind of statement composes it along the code.
\<close>

section \<open>Calls on NULL\<close>

fun non_null :: "lv_call \<Rightarrow> bool" where
  "non_null (LvCreate cls parent p) = (parent \<noteq> None \<and> p \<noteq> None)"
| "non_null (LvAddTab tv title p) = (tv \<noteq> None \<and> p \<noteq> None)"
| "non_null (LvSetSize p x y) = (p \<noteq> None)"
| "non_null (LvSetWidth p x) = (p \<noteq> None)"
| "non_null (LvStyle p st part) = (p \<noteq> None)"
| "non_null (LvFlexFlow p fl) = (p \<noteq> None)"
| "non_null (LvFlexAlign p a b c) = (p \<noteq> None)"
| "non_null (LvLabelText p t) = (p \<noteq> None)"
| "non_null (LvCheck p) = (p \<noteq> None)"
| "non_null (LvUncheck p) = (p \<noteq> None)"
| "non_null (LvAddEventCb p h c d) = (p \<noteq> None)"
| "non_null (LvSliderRange p a b) = (p \<noteq> None)"
| "non_null (LvSliderValue p v) = (p \<noteq> None)"
| "non_null (LvTextareaOneLine p b) = (p \<noteq> None)"
| "non_null (LvTextareaPassword p b) = (p \<noteq> None)"
| "non_null (LvTextareaText p t) = (p \<noteq> None)"
| "non_null (LvDropdownOptions p t) = (p \<noteq> None)"
| "non_null (LvDropdownSelected p v) = (p \<noteq> None)"
| "non_null (LvChartPoints p n) = (p \<noteq> None)"
| "non_null (LvChartLine p) = (p \<noteq> None)"
| "non_null (LvChartDiv p a b) = (p \<noteq> None)"
| "non_null (LvChartRange p a b) = (p \<noteq> None)"
| "non_null (LvChartSeries p col q) = (p \<noteq> None \<and> q \<noteq> None)"
| "non_null (LvChartNext p q v) = (p \<noteq> None \<and> q \<noteq> None)"
| "non_null (LvTabTitle p i t) = (p \<noteq> None)"
| "non_null (LvAnimStart a) = (an_var a \<noteq> None)"
| "non_null (LvZoom p z) = (p \<noteq> None)"
| "non_null _ = True"

fun registration :: "lv_call \<Rightarrow> (objp \<times> ui_handler \<times> lv_event_code \<times> user_data) set" where
  "registration (LvAddEventCb p h c d) = {(p, h, c, d)}"
| "registration _ = {}"

definition regs :: "lv_call list \<Rightarrow> (objp \<times> ui_handler \<times> lv_event_code \<times> user_data) set" where
  "regs cs = (\<Union>c \<in> set cs. registration c)"

lemma regs_simps [simp]: "regs [] = {}" "regs (c # cs) = registration c \<union> regs cs" "regs (xs @ ys) = regs xs \<union> regs ys"
  "regs (rev xs) = regs xs"
  by (auto simp: regs_def)

section \<open>Construction\<close>

definition ui_rest where
  "ui_rest s = (ui_callbacks s, ui_updating s, ui_active_prefs s, ui_last_proto_update s, ui_has_last_proto_update s,
     ui_last_connected s, ui_last_crc_ok s, ui_last_sequence_id s)"

definition built :: "widget set \<Rightarrow> (widget \<times> ui_handler \<times> lv_event_code \<times> user_data) set \<Rightarrow> ui \<Rightarrow> ui \<Rightarrow> bool" where
  "built W R s s' \<longleftrightarrow>
     (\<forall>x. x \<notin> W \<longrightarrow> ui_w s' x = ui_w s x) \<and>
     (\<forall>x \<in> W. \<exists>i. ui_w s' x = Some i \<and> ui_objs s \<le> i \<and> i < ui_objs s') \<and> inj_on (ui_w s') W \<and> ui_objs s \<le> ui_objs s' \<and>
     (\<exists>cs. ui_log s' = cs @ ui_log s \<and> list_all non_null cs \<and> regs cs = (\<lambda>(x, r). (ui_w s' x, r)) ` R) \<and> fst ` R \<subseteq> W \<and>
     (\<forall>dev pin. ui_gpio_ctx s' dev pin = (if S_gpio_switch dev pin \<in> W
        then \<lparr>gs_device_index = of_nat dev, gs_pin_index = of_nat pin\<rparr> else ui_gpio_ctx s dev pin)) \<and>
     (\<forall>ch. ui_pwm_ctx s' ch = (if S_pwm_label ch \<in> W
        then \<lparr>pw_channel = of_nat ch, pw_value_label = ui_w s' (S_pwm_label ch)\<rparr> else ui_pwm_ctx s ch)) \<and>
     ui_rest s' = ui_rest s"

lemma built_refl: "built {} {} s s"
  by (simp add: built_def)

lemma built_set: "built W R s s' \<Longrightarrow> x \<in> W \<Longrightarrow> ui_w s' x \<noteq> None"
  by (auto simp: built_def)

lemma built_kept: "built W R s s' \<Longrightarrow> x \<notin> W \<Longrightarrow> ui_w s' x = ui_w s x"
  by (auto simp: built_def)

lemma built_fresh: "built W R s s' \<Longrightarrow> x \<in> W \<Longrightarrow> \<exists>i. ui_w s' x = Some i \<and> ui_objs s \<le> i \<and> i < ui_objs s'"
  by (simp add: built_def)

lemma built_objs: "built W R s s' \<Longrightarrow> ui_objs s \<le> ui_objs s'"
  by (simp add: built_def)

lemma built_trans:
  assumes "built W R s s'" "built V Q s' s''" "W \<inter> V = {}"
  shows "built (V \<union> W) (Q \<union> R) s s''"
proof -
  have w: "ui_w s'' x = ui_w s' x" if "x \<in> W" for x using assms that by (auto simp: built_def)
  have d: "ui_w s'' x \<noteq> ui_w s'' y" if xy: "x \<in> W" "y \<in> V" for x y
  proof -
    obtain i where "ui_w s' x = Some i" "i < ui_objs s'" using built_fresh [OF assms(1) xy(1)] by blast
    moreover obtain j where "ui_w s'' y = Some j" "ui_objs s' \<le> j" using built_fresh [OF assms(2) xy(2)] by blast
    ultimately show ?thesis using w xy(1) by auto
  qed
  have inj: "inj_on (ui_w s'') (V \<union> W)"
  proof (rule inj_onI)
    fix x y assume xy: "x \<in> V \<union> W" "y \<in> V \<union> W" "ui_w s'' x = ui_w s'' y"
    have iv: "inj_on (ui_w s'') V" and iw: "inj_on (ui_w s') W" using assms(1,2) by (auto simp: built_def)
    consider "x \<in> V" "y \<in> V" | "x \<in> W" "y \<in> W" | "x \<in> V" "y \<in> W" | "x \<in> W" "y \<in> V" using xy by blast
    then show "x = y"
    proof cases
      case 1 then show ?thesis using iv xy(3) by (auto dest: inj_onD)
    next
      case 2 then show ?thesis using iw xy(3) w by (auto dest: inj_onD)
    next
      case 3 then show ?thesis using d xy(3) by metis
    next
      case 4 then show ?thesis using d xy(3) by metis
    qed
  qed
  have fresh: "\<exists>i. ui_w s'' x = Some i \<and> ui_objs s \<le> i \<and> i < ui_objs s''" if x: "x \<in> V \<union> W" for x
  proof (cases "x \<in> W")
    case True
    then obtain i where "ui_w s' x = Some i" "ui_objs s \<le> i" "i < ui_objs s'" using built_fresh [OF assms(1)] by blast
    then show ?thesis using w [OF True] built_objs [OF assms(2)] by simp
  next
    case False
    then have "x \<in> V" using x by blast
    then obtain i where "ui_w s'' x = Some i" "ui_objs s' \<le> i" "i < ui_objs s''" using built_fresh [OF assms(2)] by blast
    then show ?thesis using built_objs [OF assms(1)] by simp
  qed
  obtain cs ds where l: "ui_log s' = cs @ ui_log s" "list_all non_null cs" "regs cs = (\<lambda>(x, r). (ui_w s' x, r)) ` R"
    "ui_log s'' = ds @ ui_log s'" "list_all non_null ds" "regs ds = (\<lambda>(x, r). (ui_w s'' x, r)) ` Q"
    using assms(1,2) by (auto simp: built_def)
  have "fst ` R \<subseteq> W" using assms(1) by (simp add: built_def)
  then have "(\<lambda>(x, r). (ui_w s' x, r)) ` R = (\<lambda>(x, r). (ui_w s'' x, r)) ` R"
    using w by (force simp: image_iff)
  with l have log: "\<exists>cs. ui_log s'' = cs @ ui_log s \<and> list_all non_null cs \<and> regs cs = (\<lambda>(x, r). (ui_w s'' x, r)) ` (Q \<union> R)"
    by (intro exI [of _ "ds @ cs"]) (simp add: image_Un)
  show ?thesis unfolding built_def
  proof (intro conjI allI ballI impI)
    fix x assume "x \<notin> V \<union> W" then show "ui_w s'' x = ui_w s x" using assms(1,2) by (simp add: built_def)
  next
    fix dev pin show "ui_gpio_ctx s'' dev pin = (if S_gpio_switch dev pin \<in> V \<union> W
        then \<lparr>gs_device_index = of_nat dev, gs_pin_index = of_nat pin\<rparr> else ui_gpio_ctx s dev pin)"
      using assms by (auto simp: built_def)
  next
    fix ch show "ui_pwm_ctx s'' ch = (if S_pwm_label ch \<in> V \<union> W
        then \<lparr>pw_channel = of_nat ch, pw_value_label = ui_w s'' (S_pwm_label ch)\<rparr> else ui_pwm_ctx s ch)"
      using assms w [of "S_pwm_label ch"] by (auto simp: built_def)
  qed (use assms fresh inj log in \<open>auto simp: built_def\<close>)
qed

text \<open>One rule per statement; \<open>W\<close> and \<open>R\<close> grow along the code.\<close>

lemma built_calls_reg:
  assumes "built W R s0 s" "list_all non_null cs" "regs cs = (\<lambda>(x, r). (ui_w s x, r)) ` Q" "fst ` Q \<subseteq> W"
  shows "built W (Q \<union> R) s0 (calls cs s)"
proof -
  obtain ds where "ui_log s = ds @ ui_log s0" "list_all non_null ds" "regs ds = (\<lambda>(x, r). (ui_w s x, r)) ` R"
    using assms(1) by (auto simp: built_def)
  with assms(2,3) have "\<exists>es. ui_log (calls cs s) = es @ ui_log s0 \<and> list_all non_null es \<and>
      regs es = (\<lambda>(x, r). (ui_w s x, r)) ` (Q \<union> R)"
    by (intro exI [of _ "rev cs @ ds"]) (simp add: calls_def image_Un)
  with assms(1,4) show ?thesis by (simp add: built_def calls_def ui_rest_def image_Un)
qed

lemma built_calls: "built W R s0 s \<Longrightarrow> list_all non_null cs \<Longrightarrow> regs cs = {} \<Longrightarrow> built W R s0 (calls cs s)"
  using built_calls_reg [of W R s0 s cs "{}"] by simp

definition plain_widget :: "widget \<Rightarrow> bool" where
  "plain_widget x \<longleftrightarrow> (\<forall>dev pin. x \<noteq> S_gpio_switch dev pin) \<and> (\<forall>ch. x \<noteq> S_pwm_label ch)"

lemma new_object:
  "p \<noteq> None \<Longrightarrow> built {} {} s (snd (lv_create cls p s))"
  "p \<noteq> None \<Longrightarrow> built {} {} s (snd (lv_tabview_add_tab p txt s))"
  "p \<noteq> None \<Longrightarrow> built {} {} s (snd (lv_chart_add_series p col s))"
  "fst (lv_create cls p s) = Some (ui_objs s)" "fst (lv_tabview_add_tab p txt s) = Some (ui_objs s)"
  "fst (lv_chart_add_series p col s) = Some (ui_objs s)"
  "ui_objs (snd (lv_create cls p s)) = Suc (ui_objs s)" "ui_objs (snd (lv_tabview_add_tab p txt s)) = Suc (ui_objs s)"
  "ui_objs (snd (lv_chart_add_series p col s)) = Suc (ui_objs s)"
  by (simp_all add: built_def lv_create_def lv_tabview_add_tab_def lv_chart_add_series_def calls_def ui_rest_def Let_def)

lemma built_keep_new:
  assumes "built W R s0 s" "built {} {} s (snd r)" "fst r = Some (ui_objs s)" "ui_objs (snd r) = Suc (ui_objs s)"
    "x \<notin> W" "plain_widget x"
  shows "built (insert x W) R s0 (keep x r)"
proof -
  have "built {x} {} s (keep x r)"
    using assms(2-4,6) by (auto simp: built_def keep_def set_w_def plain_widget_def ui_rest_def)
  from built_trans [OF assms(1) this] assms(5) show ?thesis by simp
qed

lemma built_keep:
  "built W R s0 s \<Longrightarrow> p \<noteq> None \<Longrightarrow> x \<notin> W \<Longrightarrow> plain_widget x \<Longrightarrow> built (insert x W) R s0 (keep x (lv_create cls p s))"
  "built W R s0 s \<Longrightarrow> p \<noteq> None \<Longrightarrow> x \<notin> W \<Longrightarrow> plain_widget x \<Longrightarrow> built (insert x W) R s0 (keep x (lv_tabview_add_tab p txt s))"
  "built W R s0 s \<Longrightarrow> p \<noteq> None \<Longrightarrow> x \<notin> W \<Longrightarrow> plain_widget x \<Longrightarrow> built (insert x W) R s0 (keep x (lv_chart_add_series p col s))"
  by (rule built_keep_new; simp add: new_object)+

lemma built_create: "built W R s0 s \<Longrightarrow> p \<noteq> None \<Longrightarrow> built W R s0 (snd (lv_create cls p s))"
  using built_trans [OF _ new_object(1)] by fastforce

lemma create_set: "fst (lv_create cls p s) \<noteq> None"
  by (simp add: new_object)

lemma built_entrance: "built W R s0 s \<Longrightarrow> built W R s0 (animate_entrance p n s)"
  by (auto simp: animate_entrance_def intro!: built_calls)

lemma built_Let:
  assumes "built W1 R1 s0 v" and "\<And>s. built W1 R1 s0 s \<Longrightarrow> \<forall>x\<in>W1. ui_w s x \<noteq> None \<Longrightarrow> built W R s0 (f s)"
  shows "built W R s0 (Let v f)"
  using assms by (auto simp: Let_def dest: built_set)

lemma built_case:
  assumes "built W1 R1 s0 (snd r)" "fst r \<noteq> None"
    and "\<And>p s. p \<noteq> None \<Longrightarrow> built W1 R1 s0 s \<Longrightarrow> \<forall>x\<in>W1. ui_w s x \<noteq> None \<Longrightarrow> built W R s0 (f p s)"
  shows "built W R s0 (case r of (p, s) \<Rightarrow> f p s)"
  using assms(3) [of "fst r" "snd r"] assms(1,2) built_set [OF assms(1)] by (simp add: split_beta)

lemma built_snd_Let:
  "built W1 R1 s0 v \<Longrightarrow> (\<And>s. built W1 R1 s0 s \<Longrightarrow> \<forall>x\<in>W1. ui_w s x \<noteq> None \<Longrightarrow> built W R s0 (snd (f s))) \<Longrightarrow>
    built W R s0 (snd (Let v f))"
  using built_Let [of W1 R1 s0 v W R "\<lambda>s. snd (f s)"] by (simp add: Let_def)

lemma built_snd_case:
  "built W1 R1 s0 (snd r) \<Longrightarrow> fst r \<noteq> None \<Longrightarrow>
    (\<And>p s. p \<noteq> None \<Longrightarrow> built W1 R1 s0 s \<Longrightarrow> \<forall>x\<in>W1. ui_w s x \<noteq> None \<Longrightarrow> built W R s0 (snd (f p s))) \<Longrightarrow>
    built W R s0 (snd (case r of (p, s) \<Rightarrow> f p s))"
  using built_case [of W1 R1 s0 r W R "\<lambda>p s. snd (f p s)"] by (simp add: split_beta)

lemma built_snd_pair: "built W R s0 s \<Longrightarrow> built W R s0 (snd (x, s))"
  by simp

lemmas built_rules = built_refl built_Let built_case built_keep built_create create_set built_calls built_entrance

lemma built_for_loop:
  assumes "\<And>i s. i < n \<Longrightarrow> P s \<Longrightarrow> built (W i) (R i) s (body i s)" "P s"
    and "\<And>i s s'. i < n \<Longrightarrow> P s \<Longrightarrow> built (W i) (R i) s s' \<Longrightarrow> P s'"
    and "\<And>i j. i < j \<Longrightarrow> j < n \<Longrightarrow> W i \<inter> W j = {}"
  shows "built (\<Union>i<n. W i) (\<Union>i<n. R i) s (for_loop body n 0 s)"
proof -
  let ?I = "\<lambda>i t. i \<le> n \<longrightarrow> built (\<Union>j<i. W j) (\<Union>j<i. R j) s t \<and> P t"
  have "?I (0 + n) (for_loop body n 0 s)"
  proof (rule for_loop_invariant)
    show "?I 0 s" using assms(2) by (simp add: built_refl)
  next
    fix i t assume i: "0 \<le> i" "i < 0 + n" and I: "?I i t"
    show "?I (Suc i) (body i t)"
    proof (intro impI conjI)
      assume "Suc i \<le> n"
      then have I': "built (\<Union>j<i. W j) (\<Union>j<i. R j) s t" "P t" "i < n" using I by auto
      have b: "built (W i) (R i) t (body i t)" using assms(1) I' by blast
      have "(\<Union>j<i. W j) \<inter> W i = {}" using assms(4) I'(3) by blast
      from built_trans [OF I'(1) b this]
      show "built (\<Union>j<Suc i. W j) (\<Union>j<Suc i. R j) s (body i t)"
        by (simp add: lessThan_Suc Un_commute)
      show "P (body i t)" using assms(3) b I' by blast
    qed
  qed
  then show ?thesis by simp
qed

lemma built_for_loop_plain:
  assumes "\<And>i s. i < n \<Longrightarrow> built (W i) {} s (body i s)" "\<And>i j. i < j \<Longrightarrow> j < n \<Longrightarrow> W i \<inter> W j = {}"
  shows "built (\<Union>i<n. W i) {} s (for_loop body n 0 s)"
  using built_for_loop [where P = "\<lambda>_. True" and R = "\<lambda>_. {}" and W = W and n = n and body = body] assms by simp

section \<open>The tabs\<close>

lemma create_card_built: "parent \<noteq> None \<Longrightarrow> built {} {} s (snd (create_card parent title s))"
  and create_card_set: "fst (create_card parent title s) \<noteq> None"
   apply (simp_all add: create_card_def split_beta Let_def create_set)
  by (rule built_rules | simp add: create_set)+

lemma sht20_card_built: "row \<noteq> None \<Longrightarrow> built {S_sht20_hum i, S_sht20_temp i, S_sht20_name i} {} s (sht20_card loc row i s)"
  unfolding sht20_card_def
  by (rule built_rules create_card_built create_card_set | assumption | simp add: plain_widget_def)+

lemma ds18b20_card_built: "row \<noteq> None \<Longrightarrow> built {S_ds18_temp i, S_ds18_name i} {} s (ds18b20_card loc row i s)"
  unfolding ds18b20_card_def
  by (rule built_rules create_card_built create_card_set | assumption | simp add: plain_widget_def)+

lemma dashboard_status_built: "tab \<noteq> None \<Longrightarrow> built {S_crc_badge, S_wifi_badge, S_status_label} {} s (dashboard_status loc tab s)"
  unfolding dashboard_status_def
  by (rule built_rules | assumption | simp add: plain_widget_def)+

lemma sht20_cards_built:
  "row \<noteq> None \<Longrightarrow> built (\<Union>i<2. {S_sht20_hum i, S_sht20_temp i, S_sht20_name i}) {} s (for_loop (sht20_card loc row) 2 0 s)"
  by (rule built_for_loop_plain) (auto intro: sht20_card_built)

lemma ds18b20_cards_built:
  "row \<noteq> None \<Longrightarrow> built (\<Union>i<4. {S_ds18_temp i, S_ds18_name i}) {} s (for_loop (ds18b20_card loc row) 4 0 s)"
  by (rule built_for_loop_plain) (auto intro: ds18b20_card_built)

definition dashboard_widgets :: "widget set" where
  "dashboard_widgets = (\<Union>i<4. {S_ds18_temp i, S_ds18_name i}) \<union>
     ((\<Union>i<2. {S_sht20_hum i, S_sht20_temp i, S_sht20_name i}) \<union> {S_crc_badge, S_wifi_badge, S_status_label})"

lemma list_all_bare [simp]: "list_all non_null (bare p flow) = (p \<noteq> None)" "regs (bare p flow) = {}"
  by (auto simp: bare_def)

lemma create_dashboard_tab_built: "tab \<noteq> None \<Longrightarrow> built dashboard_widgets {} s (create_dashboard_tab tab s)"
proof -
  assume t: "tab \<noteq> None"
  have "built ((\<Union>i<4. {S_ds18_temp i, S_ds18_name i}) \<union>
     ((\<Union>i<2. {S_sht20_hum i, S_sht20_temp i, S_sht20_name i}) \<union> ({S_crc_badge, S_wifi_badge, S_status_label} \<union> {})))
     ({} \<union> ({} \<union> ({} \<union> {}))) s (create_dashboard_tab tab s)"
    unfolding create_dashboard_tab_def Let_def [of "get_locale s"]
    by (rule built_trans [OF _ sht20_cards_built] built_trans [OF _ ds18b20_cards_built] built_trans [OF _ dashboard_status_built]
        built_rules t | assumption | (simp add: t; fail) | force)+
  then show ?thesis by (simp add: dashboard_widgets_def)
qed

lemma gpio_cell_built:
  "panel \<noteq> None \<Longrightarrow> built {S_gpio_switch dev pin, S_gpio_state_label dev pin}
     {(S_gpio_switch dev pin, GpioSwitchEventCb, EVENT_VALUE_CHANGED, GpioCtx dev pin)} s (gpio_cell loc dev panel pin s)"
  by (auto simp: gpio_cell_def built_def Let_def lv_create_def calls_def set_w_def ui_rest_def)

lemma gpio_cells_built:
  "panel \<noteq> None \<Longrightarrow> built (\<Union>pin<16. {S_gpio_switch dev pin, S_gpio_state_label dev pin})
     (\<Union>pin<16. {(S_gpio_switch dev pin, GpioSwitchEventCb, EVENT_VALUE_CHANGED, GpioCtx dev pin)}) s
     (for_loop (gpio_cell loc dev panel) 16 0 s)"
  by (rule built_for_loop [where P = "\<lambda>_. True"]) (auto intro: gpio_cell_built)

lemma gpio_panel_built:
  assumes t: "tab \<noteq> None"
  shows "built ((\<Union>pin<16. {S_gpio_switch dev pin, S_gpio_state_label dev pin}) \<union> {})
     ((\<Union>pin<16. {(S_gpio_switch dev pin, GpioSwitchEventCb, EVENT_VALUE_CHANGED, GpioCtx dev pin)}) \<union> {}) s (gpio_panel loc tab dev s)"
  unfolding gpio_panel_def
  by (rule built_trans [OF _ gpio_cells_built] built_rules t | assumption | (simp add: t; fail) | force)+

definition gpio_widgets :: "widget set" where
  "gpio_widgets = (\<Union>dev<2. \<Union>pin<16. {S_gpio_switch dev pin, S_gpio_state_label dev pin})"

definition gpio_regs :: "(widget \<times> ui_handler \<times> lv_event_code \<times> user_data) set" where
  "gpio_regs = (\<Union>dev<2. \<Union>pin<16. {(S_gpio_switch dev pin, GpioSwitchEventCb, EVENT_VALUE_CHANGED, GpioCtx dev pin)})"

lemma gpio_panels_built: "tab \<noteq> None \<Longrightarrow> built gpio_widgets gpio_regs s (for_loop (gpio_panel loc tab) 2 0 s)"
  unfolding gpio_widgets_def gpio_regs_def
  by (rule built_for_loop [where P = "\<lambda>_. True"]) (use gpio_panel_built in auto)

lemma create_gpio_tab_built:
  assumes t: "tab \<noteq> None"
  shows "built (gpio_widgets \<union> {}) (gpio_regs \<union> {}) s (create_gpio_tab tab s)"
  unfolding create_gpio_tab_def Let_def [of "get_locale s"]
  by (rule built_trans [OF _ gpio_panels_built] built_rules t | assumption | (simp add: t; fail))+

text \<open>The three shapes in which callbacks of a widget just kept are registered.\<close>

lemma built_register:
  "built W R s0 s \<Longrightarrow> x \<in> W \<Longrightarrow> non_null a \<Longrightarrow> registration a = {} \<Longrightarrow>
    built W ({(x, h, c, d)} \<union> R) s0 (calls [a, LvAddEventCb (ui_w s x) h c d] s)"
  "built W R s0 s \<Longrightarrow> x \<in> W \<Longrightarrow> list_all non_null [a, a'] \<Longrightarrow> regs [a, a'] = {} \<Longrightarrow>
    built W ({(x, h, c, d), (x, h', c', d')} \<union> R) s0
      (calls [a, a', LvAddEventCb (ui_w s x) h c d, LvAddEventCb (ui_w s x) h' c' d'] s)"
  "built W R s0 s \<Longrightarrow> x \<in> W \<Longrightarrow> list_all non_null [a, a', a''] \<Longrightarrow> regs [a, a', a''] = {} \<Longrightarrow>
    built W ({(x, h, c, d)} \<union> R) s0 (calls [a, a', a'', LvAddEventCb (ui_w s x) h c d] s)"
  by (rule built_calls_reg; (auto dest: built_set))+

lemma pwm_frequency_row_built:
  assumes t: "tab \<noteq> None"
  shows "built {S_pwm_freq_label, S_pwm_freq_slider} ({(S_pwm_freq_slider, PwmFreqEventCb, EVENT_VALUE_CHANGED, NoData),
     (S_pwm_freq_slider, PwmFreqEventCb, EVENT_RELEASED, NoData)} \<union> {}) s (pwm_frequency_row loc tab s)"
  unfolding pwm_frequency_row_def
  by (rule built_register built_rules t | assumption | (simp add: t plain_widget_def; fail))+

lemma pwm_widgets_built:
  "cell \<noteq> None \<Longrightarrow> built {S_pwm_slider ch, S_pwm_label ch}
     {(S_pwm_slider ch, PwmSliderEventCb, EVENT_VALUE_CHANGED, PwmCtx ch), (S_pwm_slider ch, PwmSliderEventCb, EVENT_RELEASED, PwmCtx ch)} s
     (pwm_cell_value cell ch (pwm_cell_slider cell ch s))"
  by (auto simp: pwm_cell_value_def pwm_cell_slider_def built_def Let_def lv_create_def calls_def set_w_def ui_rest_def)

lemma pwm_cell_built:
  assumes t: "grid \<noteq> None"
  shows "built ({S_pwm_slider ch, S_pwm_label ch} \<union> {})
     ({(S_pwm_slider ch, PwmSliderEventCb, EVENT_VALUE_CHANGED, PwmCtx ch), (S_pwm_slider ch, PwmSliderEventCb, EVENT_RELEASED, PwmCtx ch)} \<union> {}) s
     (pwm_cell loc grid ch s)"
  unfolding pwm_cell_def
  by (rule built_trans [OF _ pwm_widgets_built] built_rules t | assumption | (simp add: t; fail))+

lemma pwm_cells_built:
  "grid \<noteq> None \<Longrightarrow> built (\<Union>ch<16. {S_pwm_slider ch, S_pwm_label ch})
     (\<Union>ch<16. {(S_pwm_slider ch, PwmSliderEventCb, EVENT_VALUE_CHANGED, PwmCtx ch), (S_pwm_slider ch, PwmSliderEventCb, EVENT_RELEASED, PwmCtx ch)}) s
     (for_loop (pwm_cell loc grid) 16 0 s)"
  by (rule built_for_loop [where P = "\<lambda>_. True"]) (use pwm_cell_built in auto)

definition pwm_widgets :: "widget set" where
  "pwm_widgets = (\<Union>ch<16. {S_pwm_slider ch, S_pwm_label ch}) \<union> {S_pwm_freq_label, S_pwm_freq_slider}"

definition pwm_regs :: "(widget \<times> ui_handler \<times> lv_event_code \<times> user_data) set" where
  "pwm_regs = (\<Union>ch<16. {(S_pwm_slider ch, PwmSliderEventCb, EVENT_VALUE_CHANGED, PwmCtx ch), (S_pwm_slider ch, PwmSliderEventCb, EVENT_RELEASED, PwmCtx ch)}) \<union>
     {(S_pwm_freq_slider, PwmFreqEventCb, EVENT_VALUE_CHANGED, NoData), (S_pwm_freq_slider, PwmFreqEventCb, EVENT_RELEASED, NoData)}"

lemma create_pwm_tab_built:
  assumes t: "tab \<noteq> None"
  shows "built pwm_widgets pwm_regs s (create_pwm_tab tab s)"
proof -
  have "built ((\<Union>ch<16. {S_pwm_slider ch, S_pwm_label ch}) \<union> ({S_pwm_freq_label, S_pwm_freq_slider} \<union> {}))
     ((\<Union>ch<16. {(S_pwm_slider ch, PwmSliderEventCb, EVENT_VALUE_CHANGED, PwmCtx ch), (S_pwm_slider ch, PwmSliderEventCb, EVENT_RELEASED, PwmCtx ch)}) \<union>
      (({(S_pwm_freq_slider, PwmFreqEventCb, EVENT_VALUE_CHANGED, NoData), (S_pwm_freq_slider, PwmFreqEventCb, EVENT_RELEASED, NoData)} \<union> {}) \<union> {})) s
     (create_pwm_tab tab s)"
    unfolding create_pwm_tab_def Let_def [of "get_locale s"]
    by (rule built_trans [OF _ pwm_frequency_row_built] built_trans [OF _ pwm_cells_built] built_rules t
        | assumption | (simp add: t; fail) | force)+
  then show ?thesis by (simp add: pwm_widgets_def pwm_regs_def)
qed

lemma ds_series_built: "ui_w s S_chart_ds \<noteq> None \<Longrightarrow> built {S_ds_series i} {} s (ds_series i s)"
  unfolding ds_series_def
  by (rule built_rules | assumption | simp add: plain_widget_def)+

lemma ds_series_all_built: "ui_w s S_chart_ds \<noteq> None \<Longrightarrow> built (\<Union>i<4. {S_ds_series i}) {} s (for_loop ds_series 4 0 s)"
  using built_for_loop [where P = "\<lambda>s. ui_w s S_chart_ds \<noteq> None" and W = "\<lambda>i. {S_ds_series i}" and R = "\<lambda>_. {}" and n = 4 and body = ds_series]
  by (auto intro: ds_series_built simp: built_kept)

definition traces_widgets :: "widget set" where
  "traces_widgets = (\<Union>i<4. {S_ds_series i}) \<union> {S_chart_ds, S_hum_series 1, S_hum_series 0, S_chart_hum, S_temp_series 1,
     S_temp_series 0, S_chart_temp}"

lemma list_all_chart_base [simp]: "list_all non_null (chart_base p) = (p \<noteq> None)" "regs (chart_base p) = {}"
  by (auto simp: chart_base_def)

lemma create_traces_tab_built:
  assumes t: "tab \<noteq> None"
  shows "built traces_widgets {} s (create_traces_tab tab s)"
proof -
  have "built ((\<Union>i<4. {S_ds_series i}) \<union> {S_chart_ds, S_hum_series 1, S_hum_series 0, S_chart_hum, S_temp_series 1,
     S_temp_series 0, S_chart_temp}) ({} \<union> {}) s (create_traces_tab tab s)"
    unfolding create_traces_tab_def
    by (rule built_trans [OF _ ds_series_all_built] built_rules t | assumption | (simp add: t plain_widget_def; fail))+
  then show ?thesis by (simp add: traces_widgets_def)
qed

lemma text_row_built:
  "tab \<noteq> None \<Longrightarrow> label \<noteq> ta \<Longrightarrow> plain_widget label \<Longrightarrow> plain_widget ta \<Longrightarrow>
    built {ta, label} {} s (snd (text_row tab label txt ta hidden s))"
  unfolding text_row_def
  by (rule built_snd_Let built_snd_case built_snd_pair built_rules | assumption | (simp; fail))+

lemma text_row_set: "fst (text_row tab label txt ta hidden s) \<noteq> None"
  by (simp add: text_row_def split_beta Let_def new_object)

lemma switch_column_built:
  "row \<noteq> None \<Longrightarrow> label \<noteq> sw \<Longrightarrow> plain_widget label \<Longrightarrow> plain_widget sw \<Longrightarrow>
    built {sw, label} {} s (switch_column row label txt sw s)"
  unfolding switch_column_def
  by (rule built_rules | assumption | (simp; fail))+

lemma button_built:
  "tab \<noteq> None \<Longrightarrow> label \<noteq> btn \<Longrightarrow> plain_widget label \<Longrightarrow> plain_widget btn \<Longrightarrow>
    built {label, btn} ({(btn, handler, EVENT_CLICKED, NoData)} \<union> {}) s (button tab btn handler label txt s)"
  unfolding button_def
  by (rule built_register built_rules | assumption | (simp; fail))+

definition settings_widgets :: "widget set" where
  "settings_widgets = {S_reset_label, S_reset_btn} \<union> ({S_apply_label, S_apply_btn} \<union> ({S_units_switch, S_use_fahrenheit_label} \<union>
     ({S_theme_switch, S_dark_theme_label} \<union> ({S_mdns_ta, S_mdns_label} \<union> ({S_password_ta, S_password_label} \<union> {S_ssid_ta, S_ssid_label})))))"

definition settings_regs :: "(widget \<times> ui_handler \<times> lv_event_code \<times> user_data) set" where
  "settings_regs = {(S_apply_btn, PrefsApplyEventCb, EVENT_CLICKED, NoData), (S_reset_btn, PrefsResetEventCb, EVENT_CLICKED, NoData)}"

lemma create_settings_tab_built:
  assumes t: "tab \<noteq> None"
  shows "built settings_widgets settings_regs s (create_settings_tab tab s)"
proof -
  have "built ({S_reset_label, S_reset_btn} \<union> ({S_apply_label, S_apply_btn} \<union> ({S_units_switch, S_use_fahrenheit_label} \<union>
     ({S_theme_switch, S_dark_theme_label} \<union> ({S_mdns_ta, S_mdns_label} \<union> ({S_password_ta, S_password_label} \<union> ({S_ssid_ta, S_ssid_label} \<union> {})))))))
     (({(S_reset_btn, PrefsResetEventCb, EVENT_CLICKED, NoData)} \<union> {}) \<union> (({(S_apply_btn, PrefsApplyEventCb, EVENT_CLICKED, NoData)} \<union> {}) \<union>
       ({} \<union> ({} \<union> ({} \<union> ({} \<union> ({} \<union> {}))))))) s (create_settings_tab tab s)"
    unfolding create_settings_tab_def Let_def [of "get_locale s"]
    by (rule built_trans [OF _ text_row_built] text_row_set built_trans [OF _ switch_column_built] built_trans [OF _ button_built] built_rules t
        | assumption | (simp add: t plain_widget_def; fail))+
  then show ?thesis by (simp add: settings_widgets_def settings_regs_def)
qed

lemma switch_row_built:
  "tab \<noteq> None \<Longrightarrow> label \<noteq> sw \<Longrightarrow> plain_widget label \<Longrightarrow> plain_widget sw \<Longrightarrow>
    built {sw, label} {} s (snd (switch_row tab label txt sw s))"
  unfolding switch_row_def
  by (rule built_snd_Let built_snd_case built_snd_pair built_rules | assumption | (simp; fail))+

lemma language_row_built: "tab \<noteq> None \<Longrightarrow> built {S_language_dd, S_language_label} {} s (snd (language_row loc tab s))"
  unfolding language_row_def
  by (rule built_snd_Let built_snd_case built_snd_pair built_rules | assumption | (simp add: plain_widget_def; fail))+

lemma built_text_scale_label: "built W R s0 s \<Longrightarrow> built W R s0 (update_text_scale_label env s)"
  by (auto simp: update_text_scale_label_def Let_def intro!: built_calls)

lemma text_scale_row_built:
  "tab \<noteq> None \<Longrightarrow> built {S_text_scale_label, S_text_scale_slider, S_text_scale_title}
     ({(S_text_scale_slider, TextScaleEventCb, EVENT_VALUE_CHANGED, NoData)} \<union> {}) s (snd (text_scale_row env loc tab s))"
  unfolding text_scale_row_def
  by (rule built_snd_Let built_snd_case built_snd_pair built_text_scale_label built_register built_rules | assumption
      | (simp add: plain_widget_def; fail))+

lemma rows_set:
  "fst (switch_row tab label txt sw s) \<noteq> None" "fst (language_row loc tab s) \<noteq> None" "fst (text_scale_row env loc tab s) \<noteq> None"
  by (simp_all add: switch_row_def language_row_def text_scale_row_def split_beta Let_def new_object)

definition accessibility_widgets :: "widget set" where
  "accessibility_widgets = {S_touch_targets_switch, S_touch_targets_label} \<union> ({S_text_scale_label, S_text_scale_slider, S_text_scale_title} \<union>
     ({S_high_contrast_switch, S_high_contrast_label} \<union> {S_language_dd, S_language_label}))"

definition accessibility_regs :: "(widget \<times> ui_handler \<times> lv_event_code \<times> user_data) set" where
  "accessibility_regs = {(S_text_scale_slider, TextScaleEventCb, EVENT_VALUE_CHANGED, NoData)}"

lemma create_accessibility_tab_built:
  assumes t: "tab \<noteq> None"
  shows "built accessibility_widgets accessibility_regs s (create_accessibility_tab env tab s)"
proof -
  have "built ({S_touch_targets_switch, S_touch_targets_label} \<union> ({S_text_scale_label, S_text_scale_slider, S_text_scale_title} \<union>
     ({S_high_contrast_switch, S_high_contrast_label} \<union> ({S_language_dd, S_language_label} \<union> {}))))
     ({} \<union> (({(S_text_scale_slider, TextScaleEventCb, EVENT_VALUE_CHANGED, NoData)} \<union> {}) \<union> ({} \<union> ({} \<union> {})))) s
     (create_accessibility_tab env tab s)"
    unfolding create_accessibility_tab_def Let_def [of "get_locale s"]
    by (rule built_trans [OF _ switch_row_built] rows_set built_trans [OF _ language_row_built] built_trans [OF _ text_scale_row_built] built_rules t
        | assumption | (simp add: t plain_widget_def; fail))+
  then show ?thesis by (simp add: accessibility_widgets_def accessibility_regs_def)
qed

definition tab_widgets :: "widget set" where
  "tab_widgets = {S_accessibility_tab, S_settings_tab, S_traces_tab, S_pwm_tab, S_gpio_tab, S_dashboard_tab, S_tabview}"

lemma create_tabs_built:
  assumes t: "scr \<noteq> None"
  shows "built tab_widgets {} s (create_tabs scr s)"
  unfolding create_tabs_def tab_widgets_def
  apply (rule built_Let)
   apply (rule built_keep | rule built_refl | rule t | simp add: plain_widget_def)+
  apply (subst Let_def)
  by (rule built_rules | assumption | (simp add: plain_widget_def built_kept; fail))+

section \<open>Operations on the finished screens\<close>

text \<open>The static pointers the program has, and the callbacks it registers.\<close>

fun valid_widget :: "widget \<Rightarrow> bool" where
  "valid_widget (S_sht20_name i) = (i < 2)"
| "valid_widget (S_sht20_temp i) = (i < 2)"
| "valid_widget (S_sht20_hum i) = (i < 2)"
| "valid_widget (S_ds18_name i) = (i < 4)"
| "valid_widget (S_ds18_temp i) = (i < 4)"
| "valid_widget (S_gpio_switch dev pin) = (dev < 2 \<and> pin < 16)"
| "valid_widget (S_gpio_state_label dev pin) = (dev < 2 \<and> pin < 16)"
| "valid_widget (S_pwm_slider ch) = (ch < 16)"
| "valid_widget (S_pwm_label ch) = (ch < 16)"
| "valid_widget (S_temp_series i) = (i < 2)"
| "valid_widget (S_hum_series i) = (i < 2)"
| "valid_widget (S_ds_series i) = (i < 4)"
| "valid_widget _ = True"

definition all_widgets :: "widget set" where
  "all_widgets = accessibility_widgets \<union> (settings_widgets \<union> (traces_widgets \<union> (pwm_widgets \<union> (gpio_widgets \<union>
     (dashboard_widgets \<union> tab_widgets)))))"

definition all_regs :: "(widget \<times> ui_handler \<times> lv_event_code \<times> user_data) set" where
  "all_regs = accessibility_regs \<union> (settings_regs \<union> (pwm_regs \<union> gpio_regs))"

lemmas widget_sets = accessibility_widgets_def settings_widgets_def traces_widgets_def pwm_widgets_def gpio_widgets_def
  dashboard_widgets_def tab_widgets_def

lemma all_widgets_valid: "x \<in> all_widgets \<longleftrightarrow> valid_widget x"
  by (cases x) (auto simp: all_widgets_def widget_sets)

definition ui_ready :: "ui \<Rightarrow> bool" where
  "ui_ready s \<longleftrightarrow>
     (\<forall>x. valid_widget x \<longrightarrow> ui_w s x \<noteq> None) \<and> inj_on (ui_w s) (Collect valid_widget) \<and>
     (\<forall>dev < 2. \<forall>pin < 16. ui_gpio_ctx s dev pin = \<lparr>gs_device_index = of_nat dev, gs_pin_index = of_nat pin\<rparr>) \<and>
     (\<forall>ch < 16. ui_pwm_ctx s ch = \<lparr>pw_channel = of_nat ch, pw_value_label = ui_w s (S_pwm_label ch)\<rparr>) \<and>
     regs (ui_log s) = (\<lambda>(x, r). (ui_w s x, r)) ` all_regs \<and> list_all non_null (ui_log s) \<and> \<not> ui_updating s"

lemma ready_set: "ui_ready s \<Longrightarrow> valid_widget x \<Longrightarrow> ui_w s x \<noteq> None"
  by (simp add: ui_ready_def)

text \<open>An operation that only makes calls, none of them on NULL and none a registration.\<close>

definition lv_only :: "ui \<Rightarrow> ui \<Rightarrow> bool" where
  "lv_only s s' \<longleftrightarrow> ui_w s' = ui_w s \<and> ui_objs s' = ui_objs s \<and> ui_gpio_ctx s' = ui_gpio_ctx s \<and> ui_pwm_ctx s' = ui_pwm_ctx s \<and>
     ui_callbacks s' = ui_callbacks s \<and>
     (\<exists>cs. ui_log s' = cs @ ui_log s \<and> list_all non_null cs \<and> regs cs = {})"

definition ready_w :: "ui \<Rightarrow> bool" where
  "ready_w s \<longleftrightarrow> (\<forall>x. valid_widget x \<longrightarrow> ui_w s x \<noteq> None)"

lemma ready_w_kept: "lv_only s s' \<Longrightarrow> ready_w s \<Longrightarrow> ready_w s'"
  by (simp add: lv_only_def ready_w_def)

lemma only_refl: "lv_only s s"
  by (simp add: lv_only_def)

lemma only_trans:
  assumes "lv_only s s'" "lv_only s' s''"
  shows "lv_only s s''"
proof -
  obtain cs ds where "ui_log s' = cs @ ui_log s" "ui_log s'' = ds @ ui_log s'" "list_all non_null (ds @ cs)" "regs (ds @ cs) = {}"
    using assms by (auto simp: lv_only_def)
  then have "\<exists>cs. ui_log s'' = cs @ ui_log s \<and> list_all non_null cs \<and> regs cs = {}"
    by (intro exI [of _ "ds @ cs"]) simp
  with assms show ?thesis by (simp add: lv_only_def)
qed

lemma only_calls: "lv_only s0 s \<Longrightarrow> list_all non_null cs \<Longrightarrow> regs cs = {} \<Longrightarrow> lv_only s0 (calls cs s)"
  by (erule only_trans) (auto simp: lv_only_def calls_def list.pred_set intro!: exI [of _ "rev cs"])

lemma only_if_set: "lv_only s0 s \<Longrightarrow> (\<And>p. p \<noteq> None \<Longrightarrow> list_all non_null (f p) \<and> regs (f p) = {}) \<Longrightarrow> lv_only s0 (if_set x f s)"
  by (auto simp: if_set_def intro!: only_calls)

lemma only_fields:
  "lv_only s0 s \<Longrightarrow> lv_only s0 (s\<lparr>ui_updating := b\<rparr>)"
  "lv_only s0 s \<Longrightarrow> lv_only s0 (s\<lparr>ui_active_prefs := p\<rparr>)"
  "lv_only s0 s \<Longrightarrow> lv_only s0 (s\<lparr>ui_last_connected := b\<rparr>)"
  "lv_only s0 s \<Longrightarrow> lv_only s0 (s\<lparr>ui_last_crc_ok := b\<rparr>)"
  "lv_only s0 s \<Longrightarrow> lv_only s0 (s\<lparr>ui_last_sequence_id := q, ui_last_proto_update := u, ui_has_last_proto_update := b\<rparr>)"
  by (simp_all add: lv_only_def)

lemma only_Let:
  assumes "lv_only s0 v" "ready_w s0" and "\<And>s. lv_only s0 s \<Longrightarrow> ready_w s \<Longrightarrow> lv_only s0 (f s)"
  shows "lv_only s0 (Let v f)"
  using assms ready_w_kept by (simp add: Let_def)

lemma only_for_loop:
  assumes "lv_only s0 s" "ready_w s0" and "\<And>i s. i < n \<Longrightarrow> ready_w s \<Longrightarrow> lv_only s (body i s)"
  shows "lv_only s0 (for_loop body n 0 s)"
proof -
  have "lv_only s0 (for_loop body n 0 s) \<and> 0 + n \<le> n"
  proof (rule for_loop_invariant [where I = "\<lambda>i s. lv_only s0 s \<and> i \<le> n"])
    fix i s assume "0 \<le> i" "i < 0 + n" "lv_only s0 s \<and> i \<le> n"
    then show "lv_only s0 (body i s) \<and> Suc i \<le> n"
      using assms(2,3) ready_w_kept only_trans [of s0 s "body i s"] by simp
  qed (use assms in simp)
  then show ?thesis by simp
qed

lemma only_if: "(b \<Longrightarrow> lv_only s0 s) \<Longrightarrow> (\<not> b \<Longrightarrow> lv_only s0 t) \<Longrightarrow> lv_only s0 (if b then s else t)"
  by simp

lemmas only_rules = only_refl only_Let only_fields only_if_set only_calls only_if

end
