(* ===== verification/UiRun.thy ===== *)
theory UiRun
  imports UiBuilt
begin

text \<open>
  The user interface while it runs: its operations keep the screens wired, in every state the
  UI task can reach no call is made on NULL, a widget dispatches the command of its own pin
  or channel, and the screens show the last update.
\<close>

section \<open>Every operation only makes calls\<close>

lemma only_zoom: "lv_only s0 s \<Longrightarrow> lv_only s0 (apply_display_zoom env s)"
  by (auto simp: apply_display_zoom_def Let_def intro: only_calls)

lemma only_theme: "lv_only s0 s \<Longrightarrow> lv_only s0 (apply_theme env dark s)"
  unfolding apply_theme_def Let_def by (auto intro!: only_calls only_zoom)

lemma only_text_scale_label: "lv_only s0 s \<Longrightarrow> lv_only s0 (update_text_scale_label env s)"
  by (auto simp: update_text_scale_label_def Let_def intro: only_calls)

lemma only_pad: "lv_only s0 s \<Longrightarrow> lv_only s0 (pad_widget x s)"
  by (auto simp: pad_widget_def intro: only_if_set)

lemma only_touch_style: "ready_w s0 \<Longrightarrow> lv_only s0 s \<Longrightarrow> lv_only s0 (apply_touch_target_style s)"
  unfolding apply_touch_target_style_def Let_def
  by (intro only_if_set only_pad) (auto intro!: only_for_loop only_refl only_pad)

lemma only_show_pin: "ready_w s \<Longrightarrow> dev < 2 \<Longrightarrow> pin < 16 \<Longrightarrow> lv_only s (show_pin loc update dev pin s)"
  unfolding show_pin_def Let_def by (intro only_if only_calls only_refl) (auto simp: ready_w_def)

lemma only_gpio_state: "ready_w s0 \<Longrightarrow> lv_only s0 s \<Longrightarrow> lv_only s0 (update_gpio_state update s)"
  unfolding update_gpio_state_def Let_def
  by (intro only_fields) (auto intro!: only_for_loop only_refl only_fields only_show_pin)

lemma only_show_duty: "lv_only s (show_duty update ch s)"
  unfolding show_duty_def Let_def by (intro only_if_set only_refl) auto

lemma only_pwm_state: "ready_w s0 \<Longrightarrow> lv_only s0 s \<Longrightarrow> lv_only s0 (update_pwm_state update s)"
proof -
  assume r: "ready_w s0" and o: "lv_only s0 s"
  let ?s = "calls [LvSliderValue (ui_w s S_pwm_freq_slider) (uint (pca_frequency_hz (su_pwm update))),
    LvLabelText (ui_w s S_pwm_freq_label) (cstr_copy 16 (fmt_u (pca_frequency_hz (su_pwm update)) @ '' Hz''))] (s\<lparr>ui_updating := True\<rparr>)"
  have "lv_only s0 ?s" using ready_w_kept [OF o r] by (intro only_calls only_fields o) (auto simp: ready_w_def)
  from only_for_loop [OF this r] have "lv_only s0 (for_loop (show_duty update) 16 0 ?s)" using only_show_duty by blast
  then show ?thesis unfolding update_pwm_state_def Let_def by (simp add: only_fields)
qed

lemma only_chart_sht20: "ready_w s \<Longrightarrow> i < 2 \<Longrightarrow> lv_only s (chart_sht20 env update uf i s)"
  unfolding chart_sht20_def Let_def by (intro only_calls only_refl) (auto simp: ready_w_def)

lemma only_chart_ds18b20: "ready_w s \<Longrightarrow> i < 4 \<Longrightarrow> lv_only s (chart_ds18b20 env update uf i s)"
  unfolding chart_ds18b20_def Let_def by (intro only_if only_calls only_refl) (auto simp: ready_w_def)

lemma only_charts: "ready_w s0 \<Longrightarrow> lv_only s0 s \<Longrightarrow> lv_only s0 (update_charts env update uf s)"
  unfolding update_charts_def by (intro only_for_loop only_chart_sht20 only_chart_ds18b20)

lemma only_show_sht20: "ready_w s \<Longrightarrow> i < 2 \<Longrightarrow> lv_only s (show_sht20 env loc update uf i s)"
  unfolding show_sht20_def Let_def by (intro only_if only_calls only_refl) (auto simp: ready_w_def)

lemma only_show_ds18b20: "ready_w s \<Longrightarrow> i < 4 \<Longrightarrow> lv_only s (show_ds18b20 env loc update uf i s)"
  unfolding show_ds18b20_def Let_def by (intro only_if only_calls only_refl) (auto simp: ready_w_def)

lemma only_sensor_data: "ready_w s0 \<Longrightarrow> lv_only s0 s \<Longrightarrow> lv_only s0 (ui_update_sensor_data env updatep uf s)"
  unfolding ui_update_sensor_data_def Let_def
  by (cases updatep) (auto intro!: only_fields only_charts only_pwm_state only_gpio_state only_if_set only_for_loop only_show_sht20 only_show_ds18b20)

lemma only_connection: "lv_only s0 s \<Longrightarrow> lv_only s0 (ui_update_connection_status conn s)"
  unfolding ui_update_connection_status_def Let_def by (intro only_if only_calls only_fields) auto

lemma only_crc: "lv_only s0 s \<Longrightarrow> lv_only s0 (ui_update_crc_status ok s)"
  unfolding ui_update_crc_status_def Let_def by (intro only_if only_calls only_fields) auto

lemma only_set_text: "lv_only s0 s \<Longrightarrow> lv_only s0 (set_text x txt s)"
  unfolding set_text_def by (intro only_if_set) auto

lemma only_tab_title: "ready_w s0 \<Longrightarrow> lv_only s0 s \<Longrightarrow> lv_only s0 (set_tab_title env x txt s)"
  unfolding set_tab_title_def by (frule (1) ready_w_kept [rotated]) (intro only_if_set, auto simp: ready_w_def)

lemma only_tabs: "ready_w s0 \<Longrightarrow> lv_only s0 s \<Longrightarrow> lv_only s0 (refresh_tabs env loc s)"
  unfolding refresh_tabs_def Let_def by (intro only_if only_tab_title)

lemma only_labels: "lv_only s0 s \<Longrightarrow> lv_only s0 (refresh_labels loc s)"
  unfolding refresh_labels_def Let_def by (intro only_if_set only_set_text) auto

lemma only_clear: "lv_only s0 s \<Longrightarrow> lv_only s0 (clear_sht20 loc i s)" "lv_only s0 s \<Longrightarrow> lv_only s0 (clear_ds18b20 loc i s)"
  unfolding clear_sht20_def clear_ds18b20_def by (intro only_set_text; assumption)+

lemma only_refresh:
  assumes r: "ready_w s0" and o: "lv_only s0 s"
  shows "lv_only s0 (refresh_localised_text env s)"
  unfolding refresh_localised_text_def Let_def [of "get_locale s"]
  by (rule only_Let [OF _ r] o only_if only_sensor_data [OF r] only_for_loop [OF _ r] only_clear only_crc only_connection
        only_text_scale_label only_if_set only_labels only_tabs [OF r] only_calls only_refl | assumption | (simp; fail))+

lemma only_set_switch: "ready_w s0 \<Longrightarrow> lv_only s0 s \<Longrightarrow> valid_widget x \<Longrightarrow> lv_only s0 (set_switch x on s)"
  unfolding set_switch_def by (frule (1) ready_w_kept [rotated]) (intro only_calls, auto simp: ready_w_def)

lemma only_apply_preferences:
  assumes r: "ready_w s0" and o: "lv_only s0 s"
  shows "lv_only s0 (ui_apply_preferences env prefsp s)"
proof (cases prefsp)
  case None
  with o show ?thesis by (simp add: ui_apply_preferences_def)
next
  case (Some prefs)
  show ?thesis unfolding Some ui_apply_preferences_def option.case
    by (rule only_Let [OF _ r] o only_fields only_theme only_set_switch [OF r] only_if only_text_scale_label only_if_set
          only_touch_style [OF r] only_refresh [OF r] only_calls | assumption | (simp add: ready_w_def; fail))+
qed

section \<open>The flag of the running update\<close>

lemma for_loop_keeps: "(\<And>i s. f (body i s) = f s) \<Longrightarrow> f (for_loop body n i s) = f s"
  by (induction n arbitrary: i s) simp_all

lemma updating_kept [simp]:
  "ui_updating (calls cs s) = ui_updating s"
  "ui_updating (if_set x f s) = ui_updating s"
  "ui_updating (set_text x txt s) = ui_updating s"
  "ui_updating (set_tab_title env x txt s) = ui_updating s"
  "ui_updating (set_switch x on s) = ui_updating s"
  "ui_updating (pad_widget x s) = ui_updating s"
  "ui_updating (apply_display_zoom env s) = ui_updating s"
  "ui_updating (update_text_scale_label env s) = ui_updating s"
  "ui_updating (show_sht20 env loc update uf i s) = ui_updating s"
  "ui_updating (show_ds18b20 env loc update uf i s) = ui_updating s"
  "ui_updating (chart_sht20 env update uf i s) = ui_updating s"
  "ui_updating (chart_ds18b20 env update uf i s) = ui_updating s"
  "ui_updating (ui_update_connection_status conn s) = ui_updating s"
  "ui_updating (ui_update_crc_status ok s) = ui_updating s"
  by (simp_all add: calls_def if_set_def set_text_def set_tab_title_def set_switch_def pad_widget_def apply_display_zoom_def
      update_text_scale_label_def show_sht20_def show_ds18b20_def chart_sht20_def chart_ds18b20_def ui_update_connection_status_def
      ui_update_crc_status_def Let_def)

lemma updating_loops [simp]:
  "ui_updating (apply_theme env dark s) = ui_updating s"
  "ui_updating (apply_touch_target_style s) = ui_updating s"
  "ui_updating (update_charts env update uf s) = ui_updating s"
  "ui_updating (refresh_tabs env loc s) = ui_updating s"
  "ui_updating (refresh_labels loc s) = ui_updating s"
  "ui_updating (clear_sht20 loc i s) = ui_updating s"
  "ui_updating (clear_ds18b20 loc i s) = ui_updating s"
  by (simp_all add: apply_theme_def apply_touch_target_style_def update_charts_def refresh_tabs_def refresh_labels_def
      clear_sht20_def clear_ds18b20_def Let_def for_loop_keeps [where f = ui_updating])

lemma updating_off [simp]:
  "\<not> ui_updating (update_gpio_state update s)" "\<not> ui_updating (update_pwm_state update s)"
  by (simp_all add: update_gpio_state_def update_pwm_state_def Let_def)

lemma updating_sensor_data: "\<not> ui_updating s \<Longrightarrow> \<not> ui_updating (ui_update_sensor_data env updatep uf s)"
  by (cases updatep) (simp_all add: ui_update_sensor_data_def Let_def)

lemma updating_refresh: "\<not> ui_updating s \<Longrightarrow> \<not> ui_updating (refresh_localised_text env s)"
  by (auto simp: refresh_localised_text_def Let_def for_loop_keeps [where f = ui_updating] intro!: updating_sensor_data)

lemma updating_apply_preferences: "\<not> ui_updating s \<Longrightarrow> \<not> ui_updating (ui_apply_preferences env prefsp s)"
  by (cases prefsp) (simp_all add: ui_apply_preferences_def Let_def updating_refresh)

section \<open>The start leaves the screens wired\<close>

lemma ready_kept:
  assumes "ui_ready s" "lv_only s s'" "\<not> ui_updating s'"
  shows "ui_ready s'"
  using assms by (auto simp: ui_ready_def lv_only_def)

lemma ready_ready_w: "ui_ready s \<Longrightarrow> ready_w s"
  by (simp add: ui_ready_def ready_w_def)

lemma tabs_built:
  assumes "scr \<noteq> None" and s1: "s1 = create_tabs scr s" and s2: "s2 = create_dashboard_tab (ui_w s1 S_dashboard_tab) s1"
    and s3: "s3 = create_gpio_tab (ui_w s2 S_gpio_tab) s2" and s4: "s4 = create_pwm_tab (ui_w s3 S_pwm_tab) s3"
    and s5: "s5 = create_traces_tab (ui_w s4 S_traces_tab) s4" and s6: "s6 = create_settings_tab (ui_w s5 S_settings_tab) s5"
    and s7: "s7 = create_accessibility_tab env (ui_w s6 S_accessibility_tab) s6"
  shows "built all_widgets all_regs s s7"
proof -
  have b1: "built tab_widgets {} s s1" unfolding s1 by (rule create_tabs_built [OF assms(1)])
  have b2: "built (dashboard_widgets \<union> tab_widgets) ({} \<union> {}) s s2" unfolding s2
    by (rule built_trans [OF b1 create_dashboard_tab_built]) (auto simp: widget_sets built_set [OF b1])
  have b3: "built ((gpio_widgets \<union> {}) \<union> (dashboard_widgets \<union> tab_widgets)) ((gpio_regs \<union> {}) \<union> ({} \<union> {})) s s3" unfolding s3
    by (rule built_trans [OF b2 create_gpio_tab_built]) (rule built_set [OF b2], auto simp: widget_sets)
  have b4: "built (pwm_widgets \<union> ((gpio_widgets \<union> {}) \<union> (dashboard_widgets \<union> tab_widgets))) (pwm_regs \<union> ((gpio_regs \<union> {}) \<union> ({} \<union> {}))) s s4"
    unfolding s4 by (rule built_trans [OF b3 create_pwm_tab_built]) (rule built_set [OF b3], auto simp: widget_sets)
  have b5: "built (traces_widgets \<union> (pwm_widgets \<union> ((gpio_widgets \<union> {}) \<union> (dashboard_widgets \<union> tab_widgets))))
      ({} \<union> (pwm_regs \<union> ((gpio_regs \<union> {}) \<union> ({} \<union> {})))) s s5"
    unfolding s5 by (rule built_trans [OF b4 create_traces_tab_built]) (rule built_set [OF b4], auto simp: widget_sets)
  have b6: "built (settings_widgets \<union> (traces_widgets \<union> (pwm_widgets \<union> ((gpio_widgets \<union> {}) \<union> (dashboard_widgets \<union> tab_widgets)))))
      (settings_regs \<union> ({} \<union> (pwm_regs \<union> ((gpio_regs \<union> {}) \<union> ({} \<union> {}))))) s s6"
    unfolding s6 by (rule built_trans [OF b5 create_settings_tab_built]) (rule built_set [OF b5], auto simp: widget_sets)
  have "built (accessibility_widgets \<union> (settings_widgets \<union> (traces_widgets \<union> (pwm_widgets \<union> ((gpio_widgets \<union> {}) \<union> (dashboard_widgets \<union> tab_widgets))))))
      (accessibility_regs \<union> (settings_regs \<union> ({} \<union> (pwm_regs \<union> ((gpio_regs \<union> {}) \<union> ({} \<union> {})))))) s s7"
    unfolding s7 by (rule built_trans [OF b6 create_accessibility_tab_built]) (rule built_set [OF b6], auto simp: widget_sets)
  then show ?thesis by (simp add: all_widgets_def all_regs_def)
qed

lemma built_ready:
  assumes "built all_widgets all_regs s s'" "list_all non_null (ui_log s)" "regs (ui_log s) = {}" "\<not> ui_updating s"
  shows "ui_ready s'"
proof -
  obtain cs where l: "ui_log s' = cs @ ui_log s" "list_all non_null cs" "regs cs = (\<lambda>(x, r). (ui_w s' x, r)) ` all_regs"
    using assms(1) by (auto simp: built_def)
  have v: "Collect valid_widget = all_widgets" using all_widgets_valid by blast
  have "regs (ui_log s') = (\<lambda>(x, r). (ui_w s' x, r)) ` all_regs" "list_all non_null (ui_log s')"
    using l assms(2,3) by simp_all
  moreover have "inj_on (ui_w s') (Collect valid_widget)" "\<not> ui_updating s'"
    using assms(1,4) by (simp_all add: v built_def ui_rest_def)
  moreover have "\<forall>x. valid_widget x \<longrightarrow> ui_w s' x \<noteq> None"
    using built_set [OF assms(1)] all_widgets_valid by blast
  moreover have "\<forall>dev < 2. \<forall>pin < 16. ui_gpio_ctx s' dev pin = \<lparr>gs_device_index = of_nat dev, gs_pin_index = of_nat pin\<rparr>"
    "\<forall>ch < 16. ui_pwm_ctx s' ch = \<lparr>pw_channel = of_nat ch, pw_value_label = ui_w s' (S_pwm_label ch)\<rparr>"
    using assms(1) by (simp_all add: built_def all_widgets_valid)
  ultimately show ?thesis unfolding ui_ready_def by blast
qed


lemma ui_init_ready:
  assumes scr: "\<forall>l. lv_scr_act env l \<noteq> None" and l: "list_all non_null (ui_log s)" "regs (ui_log s) = {}"
  shows "ui_ready (ui_init env cbs s)" "ui_callbacks (ui_init env cbs s) = (case cbs of None \<Rightarrow> no_callbacks | Some cb \<Rightarrow> cb)"
proof -
  define t where "t = calls [LvLock] (apply_theme env True (ui_init_state cbs s))"
  define t0 where "t0 = calls [LvStyle (lv_scr_act env (ui_log t)) (StyleBgColor (Hex 0x101418)) Part0,
      LvStyle (lv_scr_act env (ui_log t)) (StyleBgOpa OPA_COVER) Part0] t"
  define s1 where "s1 = create_tabs (lv_scr_act env (ui_log t)) t0"
  define s2 where "s2 = create_dashboard_tab (ui_w s1 S_dashboard_tab) s1"
  define s3 where "s3 = create_gpio_tab (ui_w s2 S_gpio_tab) s2"
  define s4 where "s4 = create_pwm_tab (ui_w s3 S_pwm_tab) s3"
  define s5 where "s5 = create_traces_tab (ui_w s4 S_traces_tab) s4"
  define s6 where "s6 = create_settings_tab (ui_w s5 S_settings_tab) s5"
  define s7 where "s7 = create_accessibility_tab env (ui_w s6 S_accessibility_tab) s6"
  have init: "ui_init env cbs s = calls [LvUnlock] (refresh_localised_text env s7)"
    by (simp add: ui_init_def Let_def t_def t0_def s1_def s2_def s3_def s4_def s5_def s6_def s7_def)
  have o: "lv_only (ui_init_state cbs s) t0"
    unfolding t0_def t_def using scr by (intro only_calls only_theme only_refl) auto
  have u: "\<not> ui_updating t0" by (simp add: t0_def t_def ui_init_state_def)
  have b: "built all_widgets all_regs t0 s7"
    by (rule tabs_built [OF _ s1_def s2_def s3_def s4_def s5_def s6_def s7_def]) (use scr in blast)
  have r7: "ui_ready s7"
    using built_ready [OF b _ _ u] o l by (auto simp: lv_only_def ui_init_state_def)
  have o7: "lv_only s7 (ui_init env cbs s)" unfolding init
    by (intro only_calls only_refresh only_refl ready_ready_w r7) simp_all
  have u7: "\<not> ui_updating (ui_init env cbs s)"
    using r7 by (simp add: init updating_refresh ui_ready_def)
  show "ui_ready (ui_init env cbs s)" by (rule ready_kept [OF r7 o7 u7])
  show "ui_callbacks (ui_init env cbs s) = (case cbs of None \<Rightarrow> no_callbacks | Some cb \<Rightarrow> cb)"
    using o o7 b by (simp add: lv_only_def built_def ui_rest_def ui_init_state_def)
qed

section \<open>Runs\<close>

text \<open>
  A run of the UI task: the start, and then any sequence of its operations and of events. LVGL
  delivers to a callback the events it is registered for, with its widget and its context.
\<close>

inductive ui_run :: "lv_env \<Rightarrow> ui_callbacks_t option \<Rightarrow> ui \<Rightarrow> bool" for env cbs where
  run_init: "ui_run env cbs (ui_init env cbs (ui_static [] n))"
| run_update: "ui_run env cbs s \<Longrightarrow> ui_run env cbs (ui_update_sensor_data env u uf s)"
| run_connection: "ui_run env cbs s \<Longrightarrow> ui_run env cbs (ui_update_connection_status conn s)"
| run_crc: "ui_run env cbs s \<Longrightarrow> ui_run env cbs (ui_update_crc_status ok s)"
| run_preferences: "ui_run env cbs s \<Longrightarrow> ui_run env cbs (ui_apply_preferences env p s)"
| run_process: "ui_run env cbs s \<Longrightarrow> ui_run env cbs (ui_process s)"
| run_event: "ui_run env cbs s \<Longrightarrow> (q, h, c, d) \<in> regs (ui_log s) \<Longrightarrow>
    ui_run env cbs (fst (run_handler env h \<lparr>ev_code = c, ev_target = q, ev_user_data = d\<rparr> s))"

lemma handlers_only:
  "lv_only s (fst (gpio_switch_event_cb env e s))" "ui_updating (fst (gpio_switch_event_cb env e s)) = ui_updating s"
  "lv_only s (fst (pwm_slider_event_cb env e s))" "ui_updating (fst (pwm_slider_event_cb env e s)) = ui_updating s"
  "lv_only s (fst (pwm_freq_event_cb env e s))" "ui_updating (fst (pwm_freq_event_cb env e s)) = ui_updating s"
  "lv_only s (fst (text_scale_event_cb env e s))" "ui_updating (fst (text_scale_event_cb env e s)) = ui_updating s"
  "fst (prefs_apply_event_cb env e s) = s" "fst (prefs_reset_event_cb env e s) = s"
proof -
  show "lv_only s (fst (gpio_switch_event_cb env e s))" "ui_updating (fst (gpio_switch_event_cb env e s)) = ui_updating s"
    by (simp_all add: gpio_switch_event_cb_def only_refl split: option.split)
  have d: "lv_only s (fst (dispatch_pwm_value c v s))" "ui_updating (fst (dispatch_pwm_value c v s)) = ui_updating s" for c v
    by (auto simp: dispatch_pwm_value_def Let_def only_refl intro: only_calls split: option.split)
  show "lv_only s (fst (pwm_slider_event_cb env e s))" "ui_updating (fst (pwm_slider_event_cb env e s)) = ui_updating s"
    by (simp_all add: pwm_slider_event_cb_def only_refl d split: option.split)
  have f: "lv_only s (fst (dispatch_pwm_frequency v s))" "ui_updating (fst (dispatch_pwm_frequency v s)) = ui_updating s" for v
    by (auto simp: dispatch_pwm_frequency_def Let_def intro!: only_if_set only_refl)
  show "lv_only s (fst (pwm_freq_event_cb env e s))" "ui_updating (fst (pwm_freq_event_cb env e s)) = ui_updating s"
    by (simp_all add: pwm_freq_event_cb_def only_refl f)
  show "lv_only s (fst (text_scale_event_cb env e s))" "ui_updating (fst (text_scale_event_cb env e s)) = ui_updating s"
    by (simp_all add: text_scale_event_cb_def only_refl only_text_scale_label)
  show "fst (prefs_apply_event_cb env e s) = s" "fst (prefs_reset_event_cb env e s) = s"
    by (simp_all add: prefs_apply_event_cb_def prefs_reset_event_cb_def Let_def)
qed

lemma only_handler: "lv_only s (fst (run_handler env h e s))"
  by (cases h) (simp_all add: run_handler_def handlers_only only_refl)

lemma updating_handler: "ui_updating (fst (run_handler env h e s)) = ui_updating s"
  by (cases h) (simp_all add: run_handler_def handlers_only)

lemma kept:
  assumes "ui_ready s \<and> ui_callbacks s = cb" "lv_only s s'" "ui_updating s' = False"
  shows "ui_ready s' \<and> ui_callbacks s' = cb"
  using ready_kept [of s s'] assms by (simp add: lv_only_def)

lemma ready_updating: "ui_ready s \<and> P \<Longrightarrow> ui_updating s = False"
  by (simp add: ui_ready_def)

lemma ui_run_ready:
  assumes "ui_run env cbs s" "\<forall>l. lv_scr_act env l \<noteq> None"
  shows "ui_ready s \<and> ui_callbacks s = (case cbs of None \<Rightarrow> no_callbacks | Some cb \<Rightarrow> cb)"
  using assms(1)
proof induction
  case (run_init n)
  show ?case using ui_init_ready [OF assms(2), of "ui_static [] n"] by (simp add: ui_static_def)
next
  case (run_update s u uf)
  note r = run_update.IH
  show ?case using updating_sensor_data ready_updating [OF r] by (intro kept [OF r] only_sensor_data only_refl ready_ready_w) (use r in auto)
next
  case (run_connection s conn)
  note r = run_connection.IH
  show ?case using ready_updating [OF r] by (intro kept [OF r] only_connection only_refl) simp
next
  case (run_crc s ok)
  note r = run_crc.IH
  show ?case using ready_updating [OF r] by (intro kept [OF r] only_crc only_refl) simp
next
  case (run_preferences s p)
  note r = run_preferences.IH
  show ?case using updating_apply_preferences ready_updating [OF r]
    by (intro kept [OF r] only_apply_preferences only_refl ready_ready_w) (use r in auto)
next
  case (run_process s)
  note r = run_process.IH
  show ?case unfolding ui_process_def using ready_updating [OF r] by (intro kept [OF r] only_calls only_refl) simp_all
next
  case (run_event s q h c d)
  note r = run_event.IH
  show ?case using ready_updating [OF r] updating_handler by (intro kept [OF r] only_handler) simp
qed

section \<open>A start without a screen\<close>

text \<open>A call on NULL stays in the log, whatever follows.\<close>

definition null_called :: "ui \<Rightarrow> bool" where
  "null_called s \<longleftrightarrow> \<not> list_all non_null (ui_log s)"

lemma null_fields:
  "null_called s \<Longrightarrow> null_called (s\<lparr>ui_updating := a\<rparr>)" "null_called s \<Longrightarrow> null_called (s\<lparr>ui_objs := b\<rparr>)"
  "null_called s \<Longrightarrow> null_called (s\<lparr>ui_gpio_ctx := c\<rparr>)" "null_called s \<Longrightarrow> null_called (s\<lparr>ui_pwm_ctx := d\<rparr>)"
  "null_called s \<Longrightarrow> null_called (s\<lparr>ui_active_prefs := e\<rparr>)" "null_called s \<Longrightarrow> null_called (s\<lparr>ui_last_proto_update := f\<rparr>)"
  "null_called s \<Longrightarrow> null_called (s\<lparr>ui_has_last_proto_update := g\<rparr>)" "null_called s \<Longrightarrow> null_called (s\<lparr>ui_last_connected := h\<rparr>)"
  "null_called s \<Longrightarrow> null_called (s\<lparr>ui_last_crc_ok := j\<rparr>)" "null_called s \<Longrightarrow> null_called (s\<lparr>ui_last_sequence_id := k\<rparr>)"
  by (simp_all add: null_called_def)

lemma null_calls: "null_called s \<Longrightarrow> null_called (calls cs s)"
  by (simp add: null_called_def calls_def)

lemma null_makes:
  "null_called s \<Longrightarrow> null_called (snd (lv_create cls parent s))" "null_called s \<Longrightarrow> null_called (snd (lv_tabview_add_tab tv title s))"
  "null_called s \<Longrightarrow> null_called (snd (lv_chart_add_series chart col s))" "null_called s \<Longrightarrow> null_called (set_w x q s)"
  "null_called (snd r) \<Longrightarrow> null_called (keep x r)" "null_called s \<Longrightarrow> null_called (if_set x f s)"
  by (simp_all add: lv_create_def lv_tabview_add_tab_def lv_chart_add_series_def set_w_def keep_def if_set_def Let_def null_called_def calls_def)

lemma null_if:
  "(c \<Longrightarrow> null_called a) \<Longrightarrow> (\<not> c \<Longrightarrow> null_called b) \<Longrightarrow> null_called (if c then a else b)" by simp

lemma null_Let: "null_called s \<Longrightarrow> (\<And>t. null_called t \<Longrightarrow> null_called (f t)) \<Longrightarrow> null_called (Let s f)" by simp

lemma null_Let_pair: "null_called s \<Longrightarrow> (\<And>t. null_called t \<Longrightarrow> null_called (snd (f t))) \<Longrightarrow> null_called (snd (Let s f))" by simp

lemma null_case:
  "null_called (snd r) \<Longrightarrow> (\<And>x t. null_called t \<Longrightarrow> null_called (f x t)) \<Longrightarrow> null_called (case r of (x, t) \<Rightarrow> f x t)"
  by (cases r) simp

lemma null_case_pair:
  "null_called (snd r) \<Longrightarrow> (\<And>x t. null_called t \<Longrightarrow> null_called (snd (f x t))) \<Longrightarrow> null_called (snd (case r of (x, t) \<Rightarrow> f x t))"
  by (cases r) simp

lemma null_pair: "null_called s \<Longrightarrow> null_called (snd (x, s))" by simp

lemma null_value: "(\<And>x. null_called (f x)) \<Longrightarrow> null_called (Let v f)" by simp

lemma null_for_loop: "null_called s \<Longrightarrow> (\<And>i t. null_called t \<Longrightarrow> null_called (body i t)) \<Longrightarrow> null_called (for_loop body n i s)"
  by (induction n arbitrary: i s) simp_all

lemma null_animate: "null_called s \<Longrightarrow> null_called (animate_entrance q d s)"
  by (simp add: animate_entrance_def null_calls)

lemmas null_rules = null_fields null_calls null_makes null_if null_Let null_Let_pair null_case null_case_pair null_pair null_for_loop null_animate

lemma null_cards:
  "null_called s \<Longrightarrow> null_called (snd (create_card parent title s))"
  "null_called s \<Longrightarrow> null_called (sht20_card loc row i s)" "null_called s \<Longrightarrow> null_called (ds18b20_card loc row i s)"
proof -
  have c: "null_called s \<Longrightarrow> null_called (snd (create_card parent title s))" for parent title s
    unfolding create_card_def by (rule null_rules | assumption)+
  show "null_called s \<Longrightarrow> null_called (snd (create_card parent title s))" by (rule c)
  show "null_called s \<Longrightarrow> null_called (sht20_card loc row i s)"
    unfolding sht20_card_def by (rule null_rules c | assumption)+
  show "null_called s \<Longrightarrow> null_called (ds18b20_card loc row i s)"
    unfolding ds18b20_card_def by (rule null_rules c | assumption)+
qed

lemma null_dashboard: "null_called s \<Longrightarrow> null_called (create_dashboard_tab tab s)"
  unfolding create_dashboard_tab_def dashboard_status_def by (rule null_rules null_cards null_value | assumption)+

lemma null_gpio: "null_called s \<Longrightarrow> null_called (create_gpio_tab tab s)"
  unfolding create_gpio_tab_def gpio_panel_def gpio_cell_def by (rule null_rules null_value | assumption)+

lemma null_pwm: "null_called s \<Longrightarrow> null_called (create_pwm_tab tab s)"
  unfolding create_pwm_tab_def pwm_frequency_row_def pwm_cell_def pwm_cell_value_def pwm_cell_slider_def
  by (rule null_rules null_value | assumption)+

lemma null_traces: "null_called s \<Longrightarrow> null_called (create_traces_tab tab s)"
  unfolding create_traces_tab_def ds_series_def by (rule null_rules null_value | assumption)+

lemma null_settings: "null_called s \<Longrightarrow> null_called (create_settings_tab tab s)"
  unfolding create_settings_tab_def text_row_def switch_column_def button_def by (rule null_rules null_value | assumption)+

lemma null_text_scale: "null_called s \<Longrightarrow> null_called (update_text_scale_label env s)"
  by (simp add: update_text_scale_label_def Let_def null_calls)

lemma null_accessibility: "null_called s \<Longrightarrow> null_called (create_accessibility_tab env tab s)"
  unfolding create_accessibility_tab_def language_row_def switch_row_def text_scale_row_def
  by (rule null_rules null_text_scale null_value | assumption)+

lemma null_tabs: "null_called s \<Longrightarrow> null_called (create_tabs scr s)"
  unfolding create_tabs_def by (rule null_rules null_value | assumption)+

lemma null_touch_style: "null_called s \<Longrightarrow> null_called (apply_touch_target_style s)"
  unfolding apply_touch_target_style_def pad_widget_def by (rule null_rules null_value | assumption)+

lemma null_theme: "null_called s \<Longrightarrow> null_called (apply_theme env dark s)"
  unfolding apply_theme_def apply_display_zoom_def by (rule null_rules null_value | assumption)+

lemma null_status:
  "null_called s \<Longrightarrow> null_called (ui_update_connection_status conn s)" "null_called s \<Longrightarrow> null_called (ui_update_crc_status ok s)"
  unfolding ui_update_connection_status_def ui_update_crc_status_def by (rule null_rules null_value | assumption)+

lemma null_sensor_data:
  assumes n: "null_called s"
  shows "null_called (ui_update_sensor_data env u uf s)"
proof (cases u)
  case (Some update)
  show ?thesis
    unfolding Some option.case ui_update_sensor_data_def update_charts_def update_pwm_state_def update_gpio_state_def show_pin_def show_duty_def
      chart_sht20_def chart_ds18b20_def show_sht20_def show_ds18b20_def
    by (rule null_rules null_value n | assumption)+
qed (simp add: ui_update_sensor_data_def n)

lemma null_refresh: "null_called s \<Longrightarrow> null_called (refresh_localised_text env s)"
  unfolding refresh_localised_text_def refresh_tabs_def refresh_labels_def set_text_def set_tab_title_def clear_ds18b20_def clear_sht20_def
  by (rule null_rules null_text_scale null_status null_sensor_data null_value | assumption)+

lemma null_apply_preferences:
  assumes n: "null_called s"
  shows "null_called (ui_apply_preferences env prefsp s)"
proof (cases prefsp)
  case (Some prefs)
  show ?thesis
    unfolding Some option.case ui_apply_preferences_def set_switch_def
    by (rule null_rules null_theme null_text_scale null_touch_style null_refresh null_value n | assumption)+
qed (simp add: ui_apply_preferences_def n)

lemma null_handler: "null_called s \<Longrightarrow> null_called (fst (run_handler env h e s))"
proof -
  assume n: "null_called s"
  have v: "null_called (fst (dispatch_pwm_value c v s))" for c v
    using n by (auto simp: dispatch_pwm_value_def Let_def null_calls split: option.split)
  have f: "null_called (fst (dispatch_pwm_frequency v s))" for v
    using n by (simp add: dispatch_pwm_frequency_def Let_def null_makes)
  show ?thesis using n v f null_text_scale [OF n]
    by (cases h) (simp_all add: run_handler_def gpio_switch_event_cb_def pwm_slider_event_cb_def pwm_freq_event_cb_def
        text_scale_event_cb_def handlers_only(9,10) split: option.split)
qed

lemma ui_init_without_screen:
  assumes "\<forall>l. lv_scr_act env l = None"
  shows "null_called (ui_init env cbs s)"
proof -
  define t where "t = calls [LvLock] (apply_theme env True (ui_init_state cbs s))"
  define t0 where "t0 = calls [LvStyle None (StyleBgColor (Hex 0x101418)) Part0, LvStyle None (StyleBgOpa OPA_COVER) Part0] t"
  have n: "null_called t0" by (simp add: t0_def null_called_def calls_def)
  have "ui_init env cbs s =
     (let s = create_tabs None t0;
          s = create_dashboard_tab (ui_w s S_dashboard_tab) s;
          s = create_gpio_tab (ui_w s S_gpio_tab) s;
          s = create_pwm_tab (ui_w s S_pwm_tab) s;
          s = create_traces_tab (ui_w s S_traces_tab) s;
          s = create_settings_tab (ui_w s S_settings_tab) s;
          s = create_accessibility_tab env (ui_w s S_accessibility_tab) s;
          s = refresh_localised_text env s
      in calls [LvUnlock] s)"
    by (simp add: ui_init_def Let_def t0_def t_def assms)
  also have "null_called \<dots>"
    by (rule n null_calls null_Let null_tabs null_dashboard null_gpio null_pwm null_traces null_settings null_accessibility null_refresh | assumption)+
  finally show ?thesis .
qed

lemma ui_run_without_screen:
  assumes "ui_run env cbs s" "\<forall>l. lv_scr_act env l = None"
  shows "null_called s"
  using assms(1)
  by induction (simp_all add: ui_init_without_screen [OF assms(2)] null_sensor_data null_status null_apply_preferences null_handler
      ui_process_def null_calls)

section \<open>What the run guarantees\<close>

lemma regs_of:
  assumes "ui_ready s" "valid_widget x"
  shows "(ui_w s x, r) \<in> regs (ui_log s) \<longleftrightarrow> (x, r) \<in> all_regs"
proof -
  have v: "valid_widget y" if "(y, q) \<in> all_regs" for y q
    using that by (auto simp: all_regs_def accessibility_regs_def settings_regs_def pwm_regs_def gpio_regs_def)
  have "regs (ui_log s) = (\<lambda>(x, r). (ui_w s x, r)) ` all_regs" "inj_on (ui_w s) (Collect valid_widget)"
    using assms(1) by (simp_all add: ui_ready_def)
  with v assms(2) show ?thesis by (force dest: inj_onD)
qed

lemma pin_bits:
  assumes "pin < 16"
  shows "((of_nat pin :: u8) < 8) = (pin < 8)" "unat ((of_nat pin :: u8) mod 8) = pin mod 8"
proof -
  have u: "unat (of_nat pin :: u8) = pin" using assms by (simp add: unat_of_nat)
  show "((of_nat pin :: u8) < 8) = (pin < 8)" by (simp add: word_less_nat_alt u)
  show "unat ((of_nat pin :: u8) mod 8) = pin mod 8" by (simp add: unat_mod_distrib u)
qed

text \<open>
  C5. The user interface calls LVGL on NULL only when it was started without a screen. As long as
  LVGL has an active screen, in every state of a run, with whatever the sensor node sends and
  the user touches, each call so far had an object, every static pointer is set, no two of
  them point to the same object, and the flag that suppresses events is clear, so that no
  input is lost. When LVGL has none, as after a start of the display that failed and whose error
  the task ignores, a call on NULL has been made in every state of the run.
\<close>

theorem ui_never_calls_null:
  assumes "ui_run env cbs s"
  shows "((\<forall>l. lv_scr_act env l \<noteq> None) \<longrightarrow>
      list_all non_null (ui_log s) \<and> (\<forall>x. valid_widget x \<longrightarrow> ui_w s x \<noteq> None) \<and>
      inj_on (ui_w s) (Collect valid_widget) \<and> \<not> ui_updating s) \<and>
    ((\<forall>l. lv_scr_act env l = None) \<longrightarrow> \<not> list_all non_null (ui_log s))"
  using ui_run_ready [OF assms] ui_run_without_screen [OF assms] unfolding ui_ready_def null_called_def by blast

definition demo_lv :: lv_env where
  "demo_lv = \<lparr>lv_disp_get_default = (\<lambda>_. Some 0), lv_scr_act = (\<lambda>_. Some 1), lv_slider_get_value = (\<lambda>_ _. 100),
     lv_checked = (\<lambda>_ _. True), lv_textarea_get_text = (\<lambda>_ _. Some ''home''), lv_dropdown_get_selected = (\<lambda>_ _. 0),
     lv_obj_get_index = (\<lambda>_ _. 0), fl_round = (\<lambda>r. r), lv_coord_undef = (\<lambda>_. 0)\<rparr>"

definition demo_callbacks :: ui_callbacks_t where
  "demo_callbacks = \<lparr>cb_set_pwm = True, cb_set_pwm_frequency = True, cb_write_gpio = True, cb_apply_preferences = True,
     cb_reset_preferences = True\<rparr>"

lemma demo_scr: "\<forall>l. lv_scr_act demo_lv l \<noteq> None"
  by (simp add: demo_lv_def)

theorem ui_never_calls_null_witness:
  "list_all non_null (ui_log (ui_update_sensor_data demo_lv (Some zero_sensor_update) True
     (ui_init demo_lv (Some demo_callbacks) (ui_static [] 2)))) \<and>
   \<not> list_all non_null (ui_log (ui_process (ui_init (demo_lv\<lparr>lv_scr_act := \<lambda>_. None\<rparr>) (Some demo_callbacks) (ui_static [] 2))))"
proof -
  have none: "\<forall>l. lv_scr_act (demo_lv\<lparr>lv_scr_act := \<lambda>_. None\<rparr>) l = None" by simp
  show ?thesis
    using ui_never_calls_null [OF run_update [OF run_init]] demo_scr ui_never_calls_null [OF run_process [OF run_init]] none by blast
qed

lemma controls_facts:
  assumes "ui_run env (Some cb) s" "\<forall>l. lv_scr_act env l \<noteq> None" "cb_write_gpio cb" "cb_set_pwm cb" "cb_set_pwm_frequency cb"
  shows "dev < 2 \<Longrightarrow> pin < 16 \<Longrightarrow>
      (ui_w s (S_gpio_switch dev pin), h, c, d) \<in> regs (ui_log s) \<longleftrightarrow> h = GpioSwitchEventCb \<and> c = EVENT_VALUE_CHANGED \<and> d = GpioCtx dev pin"
    and "dev < 2 \<Longrightarrow> pin < 16 \<Longrightarrow>
      run_handler env GpioSwitchEventCb \<lparr>ev_code = EVENT_VALUE_CHANGED, ev_target = q, ev_user_data = GpioCtx dev pin\<rparr> s =
        (s, Some (CallWriteGpio (of_nat dev) (if pin < 8 then 0 else 1) (push_bit (pin mod 8) 1)
           (if lv_checked env (ui_log s) q then push_bit (pin mod 8) 1 else 0)))"
    and "ch < 16 \<Longrightarrow> (ui_w s (S_pwm_slider ch), h, c, d) \<in> regs (ui_log s) \<longleftrightarrow>
      h = PwmSliderEventCb \<and> (c = EVENT_VALUE_CHANGED \<or> c = EVENT_RELEASED) \<and> d = PwmCtx ch"
    and "ch < 16 \<Longrightarrow> c = EVENT_VALUE_CHANGED \<or> c = EVENT_RELEASED \<Longrightarrow>
      snd (run_handler env PwmSliderEventCb \<lparr>ev_code = c, ev_target = q, ev_user_data = PwmCtx ch\<rparr> s) =
        Some (CallSetPwm (of_nat ch) (word_of_int (lv_slider_get_value env (ui_log s) q)))"
    and "(ui_w s S_pwm_freq_slider, h, c, d) \<in> regs (ui_log s) \<longleftrightarrow>
      h = PwmFreqEventCb \<and> (c = EVENT_VALUE_CHANGED \<or> c = EVENT_RELEASED) \<and> d = NoData"
    and "c = EVENT_VALUE_CHANGED \<or> c = EVENT_RELEASED \<Longrightarrow>
      snd (run_handler env PwmFreqEventCb \<lparr>ev_code = c, ev_target = q, ev_user_data = NoData\<rparr> s) =
        Some (CallSetPwmFrequency (word_of_int (lv_slider_get_value env (ui_log s) q)))"
proof -
  have r: "ui_ready s" and cb: "ui_callbacks s = cb" using ui_run_ready [OF assms(1,2)] by simp_all
  have u: "\<not> ui_updating s" using r by (simp add: ui_ready_def)
  show "(ui_w s (S_gpio_switch dev pin), h, c, d) \<in> regs (ui_log s) \<longleftrightarrow> h = GpioSwitchEventCb \<and> c = EVENT_VALUE_CHANGED \<and> d = GpioCtx dev pin"
    if "dev < 2" "pin < 16" for h c d
    using that by (auto simp: regs_of [OF r] all_regs_def accessibility_regs_def settings_regs_def pwm_regs_def gpio_regs_def)
  show "(ui_w s (S_pwm_slider ch), h, c, d) \<in> regs (ui_log s) \<longleftrightarrow>
      h = PwmSliderEventCb \<and> (c = EVENT_VALUE_CHANGED \<or> c = EVENT_RELEASED) \<and> d = PwmCtx ch" if "ch < 16" for h c d
    using that by (auto simp: regs_of [OF r] all_regs_def accessibility_regs_def settings_regs_def pwm_regs_def gpio_regs_def)
  show "(ui_w s S_pwm_freq_slider, h, c, d) \<in> regs (ui_log s) \<longleftrightarrow>
      h = PwmFreqEventCb \<and> (c = EVENT_VALUE_CHANGED \<or> c = EVENT_RELEASED) \<and> d = NoData" for h c d
    by (auto simp: regs_of [OF r] all_regs_def accessibility_regs_def settings_regs_def pwm_regs_def gpio_regs_def)
  show "run_handler env GpioSwitchEventCb \<lparr>ev_code = EVENT_VALUE_CHANGED, ev_target = q, ev_user_data = GpioCtx dev pin\<rparr> s =
        (s, Some (CallWriteGpio (of_nat dev) (if pin < 8 then 0 else 1) (push_bit (pin mod 8) 1)
           (if lv_checked env (ui_log s) q then push_bit (pin mod 8) 1 else 0)))" if "dev < 2" "pin < 16" for q
  proof -
    have "ui_gpio_ctx s dev pin = \<lparr>gs_device_index = of_nat dev, gs_pin_index = of_nat pin\<rparr>"
      using r that by (simp add: ui_ready_def)
    with u cb assms(3) pin_bits [OF that(2)] show ?thesis
      by (simp add: run_handler_def gpio_switch_event_cb_def gpio_ctx_of_def dispatch_gpio_write_def Let_def)
  qed
  show "snd (run_handler env PwmSliderEventCb \<lparr>ev_code = c, ev_target = q, ev_user_data = PwmCtx ch\<rparr> s) =
        Some (CallSetPwm (of_nat ch) (word_of_int (lv_slider_get_value env (ui_log s) q)))"
    if "ch < 16" "c = EVENT_VALUE_CHANGED \<or> c = EVENT_RELEASED" for c q
  proof -
    have "ui_pwm_ctx s ch = \<lparr>pw_channel = of_nat ch, pw_value_label = ui_w s (S_pwm_label ch)\<rparr>"
      using r that by (simp add: ui_ready_def)
    with u cb assms(4) that(2) show ?thesis
      by (auto simp: run_handler_def pwm_slider_event_cb_def pwm_ctx_of_def dispatch_pwm_value_def Let_def calls_def)
  qed
  show "snd (run_handler env PwmFreqEventCb \<lparr>ev_code = c, ev_target = q, ev_user_data = NoData\<rparr> s) =
        Some (CallSetPwmFrequency (word_of_int (lv_slider_get_value env (ui_log s) q)))"
    if "c = EVENT_VALUE_CHANGED \<or> c = EVENT_RELEASED" for c q
    using u cb assms(5) that
    by (auto simp: run_handler_def pwm_freq_event_cb_def dispatch_pwm_frequency_def if_set_def calls_def Let_def)
qed

text \<open>
  C6. Every control commands its own output. After any run, the switch of a pin has one
  registered event, and it asks to write exactly the bit of that pin on that expander to the
  state of the switch; both events of a slider ask to set the duty of its own channel, and
  those of the frequency slider the frequency, to the value of the slider.
\<close>

theorem controls_command_their_own:
  assumes "ui_run env (Some cb) s" "\<forall>l. lv_scr_act env l \<noteq> None" "cb_write_gpio cb" "cb_set_pwm cb" "cb_set_pwm_frequency cb"
  shows "(\<forall>dev < 2. \<forall>pin < 16.
      (\<forall>h c d. (ui_w s (S_gpio_switch dev pin), h, c, d) \<in> regs (ui_log s) \<longleftrightarrow>
         (h, c, d) = (GpioSwitchEventCb, EVENT_VALUE_CHANGED, GpioCtx dev pin)) \<and>
      (\<forall>q. run_handler env GpioSwitchEventCb \<lparr>ev_code = EVENT_VALUE_CHANGED, ev_target = q, ev_user_data = GpioCtx dev pin\<rparr> s =
         (s, Some (CallWriteGpio (of_nat dev) (if pin < 8 then 0 else 1) (push_bit (pin mod 8) 1)
           (if lv_checked env (ui_log s) q then push_bit (pin mod 8) 1 else 0))))) \<and>
    (\<forall>ch < 16. \<forall>c \<in> {EVENT_VALUE_CHANGED, EVENT_RELEASED}.
      (ui_w s (S_pwm_slider ch), PwmSliderEventCb, c, PwmCtx ch) \<in> regs (ui_log s) \<and>
      (\<forall>q. snd (run_handler env PwmSliderEventCb \<lparr>ev_code = c, ev_target = q, ev_user_data = PwmCtx ch\<rparr> s) =
        Some (CallSetPwm (of_nat ch) (word_of_int (lv_slider_get_value env (ui_log s) q))))) \<and>
    (\<forall>c \<in> {EVENT_VALUE_CHANGED, EVENT_RELEASED}.
      (ui_w s S_pwm_freq_slider, PwmFreqEventCb, c, NoData) \<in> regs (ui_log s) \<and>
      (\<forall>q. snd (run_handler env PwmFreqEventCb \<lparr>ev_code = c, ev_target = q, ev_user_data = NoData\<rparr> s) =
        Some (CallSetPwmFrequency (word_of_int (lv_slider_get_value env (ui_log s) q)))))"
  using controls_facts [OF assms] by auto

theorem controls_command_their_own_witness:
  "snd (run_handler demo_lv GpioSwitchEventCb \<lparr>ev_code = EVENT_VALUE_CHANGED, ev_target = Some 7, ev_user_data = GpioCtx 1 11\<rparr>
      (ui_init demo_lv (Some demo_callbacks) (ui_static [] 2))) = Some (CallWriteGpio 1 1 8 8)"
proof -
  have "cb_write_gpio demo_callbacks" "cb_set_pwm demo_callbacks" "cb_set_pwm_frequency demo_callbacks"
    by (simp_all add: demo_callbacks_def)
  from controls_command_their_own [OF run_init demo_scr this, THEN conjunct1, rule_format, of 1 11] show ?thesis
    by (simp add: demo_lv_def)
qed

end
