(* ===== verification/UiShow.thy ===== *)
theory UiShow
  imports UiRun
begin

text \<open>
  What the screens show. The text of a label, the state of a switch and the position of a
  slider are those of the last call that set them; after an update they are the values of
  the update.
\<close>

section \<open>The look of a widget\<close>

fun label_text :: "lv_call list \<Rightarrow> objp \<Rightarrow> string option" where
  "label_text [] p = None"
| "label_text (LvLabelText q t # cs) p = (if q = p then Some t else label_text cs p)"
| "label_text (c # cs) p = label_text cs p"

fun switch_on :: "lv_call list \<Rightarrow> objp \<Rightarrow> bool option" where
  "switch_on [] p = None"
| "switch_on (LvCheck q # cs) p = (if q = p then Some True else switch_on cs p)"
| "switch_on (LvUncheck q # cs) p = (if q = p then Some False else switch_on cs p)"
| "switch_on (c # cs) p = switch_on cs p"

text \<open>The value the code last asked a slider for; LVGL clamps it to the range of the slider.\<close>

fun slider_at :: "lv_call list \<Rightarrow> objp \<Rightarrow> int option" where
  "slider_at [] p = None"
| "slider_at (LvSliderValue q v # cs) p = (if q = p then Some v else slider_at cs p)"
| "slider_at (c # cs) p = slider_at cs p"

text \<open>The points of a series, newest first, and what was last done to a dropdown.\<close>

fun series_points :: "lv_call list \<Rightarrow> objp \<Rightarrow> int option list" where
  "series_points [] p = []"
| "series_points (LvChartNext ch q v # cs) p = (if q = p then v # series_points cs p else series_points cs p)"
| "series_points (c # cs) p = series_points cs p"

datatype dropdown_call = OptionsSet string | SelectedSet u16

fun dropdown_last :: "lv_call list \<Rightarrow> objp \<Rightarrow> dropdown_call option" where
  "dropdown_last [] p = None"
| "dropdown_last (LvDropdownOptions q t # cs) p = (if q = p then Some (OptionsSet t) else dropdown_last cs p)"
| "dropdown_last (LvDropdownSelected q v # cs) p = (if q = p then Some (SelectedSet v) else dropdown_last cs p)"
| "dropdown_last (c # cs) p = dropdown_last cs p"

record look_t =
  lk_text :: "string option"
  lk_on :: "bool option"
  lk_slid :: "int option"
  lk_points :: "int option list"
  lk_dropdown :: "dropdown_call option"

definition look_at :: "lv_call list \<Rightarrow> objp \<Rightarrow> look_t" where
  "look_at l p = \<lparr>lk_text = label_text l p, lk_on = switch_on l p, lk_slid = slider_at l p, lk_points = series_points l p,
     lk_dropdown = dropdown_last l p\<rparr>"

definition look :: "ui \<Rightarrow> widget \<Rightarrow> look_t" where
  "look s x = look_at (ui_log s) (ui_w s x)"

text \<open>The object whose look a call changes.\<close>

fun changes :: "lv_call \<Rightarrow> objp option" where
  "changes (LvLabelText p t) = Some p"
| "changes (LvCheck p) = Some p"
| "changes (LvUncheck p) = Some p"
| "changes (LvSliderValue p v) = Some p"
| "changes (LvChartNext ch p v) = Some p"
| "changes (LvDropdownOptions p t) = Some p"
| "changes (LvDropdownSelected p v) = Some p"
| "changes c = None"

lemma unchanged: "\<forall>c \<in> set cs. changes c \<noteq> Some p \<Longrightarrow> look_at (cs @ l) p = look_at l p"
proof (induction cs)
  case (Cons c cs)
  then have "look_at (cs @ l) p = look_at l p" by simp
  with Cons.prems show ?case by (cases c) (auto simp: look_at_def)
qed simp

definition distinct_widgets :: "ui \<Rightarrow> bool" where
  "distinct_widgets s \<longleftrightarrow> inj_on (ui_w s) (Collect valid_widget) \<and> ready_w s"

text \<open>\<open>W\<close> holds every widget whose look the step from \<open>s\<close> to \<open>s'\<close> changes.\<close>

definition touches :: "widget set \<Rightarrow> ui \<Rightarrow> ui \<Rightarrow> bool" where
  "touches W s s' \<longleftrightarrow> ui_w s' = ui_w s \<and> (\<forall>x. valid_widget x \<and> x \<notin> W \<longrightarrow> look s' x = look s x)"

lemma touches_refl: "touches W s s"
  by (simp add: touches_def)

lemma touches_trans: "touches W s s' \<Longrightarrow> touches W s' s'' \<Longrightarrow> touches W s s''"
  by (simp add: touches_def)

lemma touches_mono: "touches V s s' \<Longrightarrow> V \<subseteq> W \<Longrightarrow> touches W s s'"
  by (auto simp: touches_def)

lemma touches_look: "touches W s s' \<Longrightarrow> valid_widget x \<Longrightarrow> x \<notin> W \<Longrightarrow> look s' x = look s x"
  by (simp add: touches_def)

lemma touches_distinct: "touches W s s' \<Longrightarrow> distinct_widgets s \<Longrightarrow> distinct_widgets s'"
  by (simp add: touches_def distinct_widgets_def ready_w_def)

lemma touches_calls:
  assumes "distinct_widgets s" "\<forall>c \<in> set cs. changes c = None \<or> (\<exists>x \<in> W. valid_widget x \<and> changes c = Some (ui_w s x))"
  shows "touches W s (calls cs s)"
proof -
  have "look (calls cs s) x = look s x" if x: "valid_widget x" "x \<notin> W" for x
  proof -
    have "changes c \<noteq> Some (ui_w s x)" if c: "c \<in> set (rev cs)" for c
    proof
      assume e: "changes c = Some (ui_w s x)"
      from c assms(2) have "changes c = None \<or> (\<exists>y \<in> W. valid_widget y \<and> changes c = Some (ui_w s y))" by simp
      with e obtain y where "y \<in> W" "valid_widget y" "ui_w s y = ui_w s x" by auto
      with assms(1) x show False by (auto simp: distinct_widgets_def dest: inj_onD)
    qed
    then have "\<forall>c \<in> set (rev cs). changes c \<noteq> Some (ui_w s x)" by blast
    from unchanged [OF this] show ?thesis by (simp add: look_def calls_def)
  qed
  then show ?thesis by (simp add: touches_def calls_def)
qed

lemma touches_for_loop:
  assumes "distinct_widgets s" "\<And>i s. i < n \<Longrightarrow> distinct_widgets s \<Longrightarrow> touches W s (body i s)"
  shows "touches W s (for_loop body n 0 s)"
proof -
  have "touches W s (for_loop body n 0 s) \<and> 0 + n \<le> n"
  proof (rule for_loop_invariant [where I = "\<lambda>i t. touches W s t \<and> i \<le> n"])
    fix i t assume i: "0 \<le> i" "i < 0 + n" "touches W s t \<and> i \<le> n"
    then have t: "touches W s t" "i < n" by simp_all
    from assms(2) [OF t(2) touches_distinct [OF t(1) assms(1)]] t(1) have "touches W s (body i t)" by (rule touches_trans [rotated])
    with t(2) show "touches W s (body i t) \<and> Suc i \<le> n" by simp
  qed (simp add: touches_refl)
  then show ?thesis by simp
qed

text \<open>A loop whose step \<open>i\<close> only touches \<open>W i\<close> leaves what each step shows.\<close>

lemma loop_shows:
  assumes "distinct_widgets s" and "\<And>i s. i < n \<Longrightarrow> distinct_widgets s \<Longrightarrow> touches (W i) s (body i s) \<and> P i (body i s)"
    and "\<And>i j s s'. i < j \<Longrightarrow> j < n \<Longrightarrow> touches (W j) s s' \<Longrightarrow> P i s \<Longrightarrow> P i s'"
  shows "\<forall>i < n. P i (for_loop body n 0 s)"
proof -
  let ?I = "\<lambda>i t. i \<le> n \<longrightarrow> distinct_widgets t \<and> (\<forall>j < i. P j t)"
  have "?I (0 + n) (for_loop body n 0 s)"
  proof (rule for_loop_invariant)
    show "?I 0 s" using assms(1) by simp
  next
    fix i t assume i: "0 \<le> i" "i < 0 + n" and I: "?I i t"
    show "?I (Suc i) (body i t)"
    proof
      assume "Suc i \<le> n"
      with I have d: "distinct_widgets t" "\<forall>j < i. P j t" "i < n" by auto
      have b: "touches (W i) t (body i t)" "P i (body i t)" using assms(2) d by blast+
      have "P j (body i t)" if "j < Suc i" for j
        using that b d assms(3) [of j i t "body i t"] by (cases "j = i") auto
      with touches_distinct [OF b(1) d(1)] show "distinct_widgets (body i t) \<and> (\<forall>j < Suc i. P j (body i t))" by blast
    qed
  qed
  then show ?thesis by simp
qed


section \<open>Pins\<close>

definition text_of :: "ui \<Rightarrow> widget \<Rightarrow> string option" where "text_of s x = lk_text (look s x)"
definition on_of :: "ui \<Rightarrow> widget \<Rightarrow> bool option" where "on_of s x = lk_on (look s x)"
definition slid_of :: "ui \<Rightarrow> widget \<Rightarrow> int option" where "slid_of s x = lk_slid (look s x)"
definition points_of :: "ui \<Rightarrow> widget \<Rightarrow> int option list" where "points_of s x = lk_points (look s x)"
definition dropdown_of :: "ui \<Rightarrow> widget \<Rightarrow> dropdown_call option" where "dropdown_of s x = lk_dropdown (look s x)"

lemma same_widget: "distinct_widgets s \<Longrightarrow> valid_widget x \<Longrightarrow> valid_widget y \<Longrightarrow> ui_w s x = ui_w s y \<longleftrightarrow> x = y"
  by (auto simp: distinct_widgets_def dest: inj_onD)

lemma widget_set: "distinct_widgets s \<Longrightarrow> valid_widget x \<Longrightarrow> ui_w s x \<noteq> None"
  by (simp add: distinct_widgets_def ready_w_def)

lemmas look_simps = text_of_def on_of_def slid_of_def points_of_def dropdown_of_def look_def look_at_def calls_def

definition pin_on :: "proto_sensor_update_t \<Rightarrow> nat \<Rightarrow> nat \<Rightarrow> bool" where
  "pin_on u dev pin = (if pin < 8 then bit (mcp_port_a (su_mcp u ! dev)) pin else bit (mcp_port_b (su_mcp u ! dev)) (pin - 8))"

definition pin_shown :: "proto_sensor_update_t \<Rightarrow> ui_locale_pack_t \<Rightarrow> nat \<Rightarrow> nat \<Rightarrow> ui \<Rightarrow> bool" where
  "pin_shown u loc dev pin s \<longleftrightarrow> on_of s (S_gpio_switch dev pin) = Some (pin_on u dev pin) \<and>
     text_of s (S_gpio_state_label dev pin) = Some (if pin_on u dev pin then label_gpio_on loc else label_gpio_off loc)"

lemma and_1_bit: "(drop_bit n w AND 1 \<noteq> 0) = bit (w :: 'a::len word) n"
  by (simp add: and_one_eq mod_2_eq_odd bit_iff_odd_drop_bit)

lemma show_pin_calls:
  "ui_w s (S_gpio_switch dev pin) \<noteq> None \<Longrightarrow> show_pin loc u dev pin s =
     calls [if pin_on u dev pin then LvCheck (ui_w s (S_gpio_switch dev pin)) else LvUncheck (ui_w s (S_gpio_switch dev pin)),
       LvLabelText (ui_w s (S_gpio_state_label dev pin)) (if pin_on u dev pin then label_gpio_on loc else label_gpio_off loc)] s"
  by (auto simp: show_pin_def Let_def pin_on_def and_1_bit)

lemma show_pin_shows:
  assumes "distinct_widgets s" "dev < 2" "pin < 16"
  shows "touches {S_gpio_switch dev pin, S_gpio_state_label dev pin} s (show_pin loc u dev pin s)" "pin_shown u loc dev pin (show_pin loc u dev pin s)"
proof -
  have w: "ui_w s (S_gpio_switch dev pin) \<noteq> None" using widget_set [OF assms(1)] assms(2,3) by simp
  show "touches {S_gpio_switch dev pin, S_gpio_state_label dev pin} s (show_pin loc u dev pin s)"
    unfolding show_pin_calls [OF w] by (rule touches_calls [OF assms(1)]) (use assms(2,3) in auto)
  show "pin_shown u loc dev pin (show_pin loc u dev pin s)"
    unfolding show_pin_calls [OF w] pin_shown_def using same_widget [OF assms(1)] by (simp add: look_simps)
qed

lemma touched_text: "touches W s s' \<Longrightarrow> valid_widget x \<Longrightarrow> x \<notin> W \<Longrightarrow> text_of s' x = text_of s x"
  and touched_on: "touches W s s' \<Longrightarrow> valid_widget x \<Longrightarrow> x \<notin> W \<Longrightarrow> on_of s' x = on_of s x"
  and touched_slid: "touches W s s' \<Longrightarrow> valid_widget x \<Longrightarrow> x \<notin> W \<Longrightarrow> slid_of s' x = slid_of s x"
  and touched_points: "touches W s s' \<Longrightarrow> valid_widget x \<Longrightarrow> x \<notin> W \<Longrightarrow> points_of s' x = points_of s x"
  and touched_dropdown: "touches W s s' \<Longrightarrow> valid_widget x \<Longrightarrow> x \<notin> W \<Longrightarrow> dropdown_of s' x = dropdown_of s x"
  by (simp_all add: touches_look text_of_def on_of_def slid_of_def points_of_def dropdown_of_def)

lemmas touched = touched_text touched_on touched_slid touched_points touched_dropdown

lemma pin_shown_kept:
  "pin_shown u loc dev pin s \<Longrightarrow> touches W s s' \<Longrightarrow> dev < 2 \<Longrightarrow> pin < 16 \<Longrightarrow> S_gpio_switch dev pin \<notin> W \<Longrightarrow>
    S_gpio_state_label dev pin \<notin> W \<Longrightarrow> pin_shown u loc dev pin s'"
  by (simp add: pin_shown_def touched)

definition pin_widgets :: "nat \<Rightarrow> widget set" where
  "pin_widgets dev = (\<Union>pin<16. {S_gpio_switch dev pin, S_gpio_state_label dev pin})"

lemma pin_row_shows:
  assumes "distinct_widgets s" "dev < 2"
  shows "touches (pin_widgets dev) s (for_loop (show_pin loc u dev) 16 0 s)" "\<forall>pin < 16. pin_shown u loc dev pin (for_loop (show_pin loc u dev) 16 0 s)"
proof -
  show "touches (pin_widgets dev) s (for_loop (show_pin loc u dev) 16 0 s)"
    by (rule touches_for_loop [OF assms(1)])
      (rule touches_mono [OF show_pin_shows(1)], use assms(2) in \<open>auto simp: pin_widgets_def\<close>)
  show "\<forall>pin < 16. pin_shown u loc dev pin (for_loop (show_pin loc u dev) 16 0 s)"
    by (rule loop_shows [where W = "\<lambda>pin. {S_gpio_switch dev pin, S_gpio_state_label dev pin}", OF assms(1)])
      (use show_pin_shows assms(2) in \<open>auto intro: pin_shown_kept\<close>)
qed

lemma touches_fields [simp]:
  "touches W (s\<lparr>ui_updating := b\<rparr>) s' = touches W s s'" "touches W s (s'\<lparr>ui_updating := b\<rparr>) = touches W s s'"
  "touches W s (s'\<lparr>ui_last_sequence_id := q, ui_last_proto_update := u, ui_has_last_proto_update := h\<rparr>) = touches W s s'"
  "distinct_widgets (s\<lparr>ui_updating := b\<rparr>) = distinct_widgets s"
  by (simp_all add: touches_def look_def distinct_widgets_def ready_w_def)

lemma look_fields [simp]:
  "look (s\<lparr>ui_updating := b\<rparr>) x = look s x"
  "look (s\<lparr>ui_last_sequence_id := q, ui_last_proto_update := u, ui_has_last_proto_update := h\<rparr>) x = look s x"
  by (simp_all add: look_def)

lemma shown_fields [simp]:
  "pin_shown u loc dev pin (s\<lparr>ui_updating := b\<rparr>) = pin_shown u loc dev pin s"
  "get_locale (s\<lparr>ui_updating := b\<rparr>) = get_locale s"
  "text_of (s\<lparr>ui_updating := b\<rparr>) x = text_of s x" "slid_of (s\<lparr>ui_updating := b\<rparr>) x = slid_of s x"
  "on_of (s\<lparr>ui_updating := b\<rparr>) x = on_of s x" "points_of (s\<lparr>ui_updating := b\<rparr>) x = points_of s x"
  "dropdown_of (s\<lparr>ui_updating := b\<rparr>) x = dropdown_of s x"
  by (simp_all add: pin_shown_def text_of_def on_of_def slid_of_def points_of_def dropdown_of_def get_locale_def)

lemma gpio_state_shows:
  assumes "distinct_widgets s"
  shows "touches gpio_widgets s (update_gpio_state u s)"
    "\<forall>dev < 2. \<forall>pin < 16. pin_shown u (get_locale s) dev pin (update_gpio_state u s)"
proof -
  let ?s = "s\<lparr>ui_updating := True\<rparr>" and ?loc = "get_locale (s\<lparr>ui_updating := True\<rparr>)"
  have d: "distinct_widgets ?s" using assms by simp
  have t: "touches gpio_widgets ?s (for_loop (\<lambda>dev. for_loop (show_pin ?loc u dev) 16 0) 2 0 ?s)"
    by (rule touches_for_loop [OF d]) (rule touches_mono [OF pin_row_shows(1)], auto simp: gpio_widgets_def pin_widgets_def)
  have p: "\<forall>dev < 2. \<forall>pin < 16. pin_shown u ?loc dev pin (for_loop (\<lambda>dev. for_loop (show_pin ?loc u dev) 16 0) 2 0 ?s)"
    by (rule loop_shows [where W = pin_widgets, OF d])
      (use pin_row_shows in \<open>auto intro: pin_shown_kept simp: pin_widgets_def\<close>)
  show "touches gpio_widgets s (update_gpio_state u s)" using t by (simp add: update_gpio_state_def Let_def)
  show "\<forall>dev < 2. \<forall>pin < 16. pin_shown u (get_locale s) dev pin (update_gpio_state u s)"
    using p by (simp add: update_gpio_state_def Let_def)
qed

section \<open>Sliders and readings\<close>

lemma short_decimal: "unat (w :: u16) < 2 ^ 16 \<Longrightarrow> length (fmt_u w) \<le> 5"
  using length_dec_string [of 5 "unat w"] by (simp add: fmt_u_def)

lemma u16_text [simp]: "cstr_copy 16 (fmt_u (w :: u16)) = fmt_u w" "cstr_copy 16 (fmt_u (w :: u16) @ '' Hz'') = fmt_u w @ '' Hz''"
proof -
  have "length (fmt_u w) \<le> 5" using short_decimal unsigned_less [of w, where 'a = nat] by simp
  then show "cstr_copy 16 (fmt_u w) = fmt_u w" "cstr_copy 16 (fmt_u w @ '' Hz'') = fmt_u w @ '' Hz''"
    by (simp_all add: cstr_copy_def)
qed

definition duty_shown :: "proto_sensor_update_t \<Rightarrow> nat \<Rightarrow> ui \<Rightarrow> bool" where
  "duty_shown u ch s \<longleftrightarrow> slid_of s (S_pwm_slider ch) = Some (uint (pca_duty_cycle (su_pwm u) ! ch)) \<and>
     text_of s (S_pwm_label ch) = Some (fmt_u (pca_duty_cycle (su_pwm u) ! ch))"

lemma show_duty_calls:
  assumes "distinct_widgets s" "ch < 16"
  shows "show_duty u ch s = calls [LvSliderValue (ui_w s (S_pwm_slider ch)) (uint (pca_duty_cycle (su_pwm u) ! ch)),
     LvLabelText (ui_w s (S_pwm_label ch)) (fmt_u (pca_duty_cycle (su_pwm u) ! ch))] s"
proof -
  have "ui_w s (S_pwm_slider ch) \<noteq> None" "ui_w s (S_pwm_label ch) \<noteq> None" using widget_set [OF assms(1)] assms(2) by simp_all
  then show ?thesis by (simp add: show_duty_def if_set_def Let_def calls_def)
qed

lemma show_duty_shows:
  assumes "distinct_widgets s" "ch < 16"
  shows "touches {S_pwm_slider ch, S_pwm_label ch} s (show_duty u ch s)" "duty_shown u ch (show_duty u ch s)"
  unfolding show_duty_calls [OF assms]
  by (rule touches_calls [OF assms(1)], use assms(2) in \<open>auto simp: duty_shown_def look_simps same_widget [OF assms(1)]\<close>)

definition frequency_shown :: "proto_sensor_update_t \<Rightarrow> ui \<Rightarrow> bool" where
  "frequency_shown u s \<longleftrightarrow> slid_of s S_pwm_freq_slider = Some (uint (pca_frequency_hz (su_pwm u))) \<and>
     text_of s S_pwm_freq_label = Some (fmt_u (pca_frequency_hz (su_pwm u)) @ '' Hz'')"

lemma pwm_state_shows:
  assumes "distinct_widgets s"
  shows "touches pwm_widgets s (update_pwm_state u s)" "\<forall>ch < 16. duty_shown u ch (update_pwm_state u s)"
    "frequency_shown u (update_pwm_state u s)"
proof -
  let ?t = "s\<lparr>ui_updating := True\<rparr>"
  let ?s = "calls [LvSliderValue (ui_w ?t S_pwm_freq_slider) (uint (pca_frequency_hz (su_pwm u))),
    LvLabelText (ui_w ?t S_pwm_freq_label) (fmt_u (pca_frequency_hz (su_pwm u)) @ '' Hz'')] ?t"
  have t: "distinct_widgets ?t" using assms by simp
  have f: "touches {S_pwm_freq_slider, S_pwm_freq_label} ?t ?s" by (rule touches_calls [OF t]) auto
  have fs: "frequency_shown u ?s" using same_widget [OF t] by (simp add: frequency_shown_def look_simps)
  have d: "distinct_widgets ?s" by (rule touches_distinct [OF f t])
  let ?r = "for_loop (show_duty u) 16 0 ?s" and ?W = "\<Union>ch<16. {S_pwm_slider ch, S_pwm_label ch}"
  have l: "touches ?W ?s ?r"
    by (rule touches_for_loop [OF d]) (rule touches_mono [OF show_duty_shows(1)], auto)
  have p: "\<forall>ch < 16. duty_shown u ch ?r"
    by (rule loop_shows [where W = "\<lambda>ch. {S_pwm_slider ch, S_pwm_label ch}", OF d])
      (use show_duty_shows in \<open>auto simp: duty_shown_def touched\<close>)
  have "frequency_shown u ?r" using fs touched [OF l] by (simp add: frequency_shown_def)
  then show "frequency_shown u (update_pwm_state u s)" by (simp add: update_pwm_state_def Let_def frequency_shown_def)
  show "\<forall>ch < 16. duty_shown u ch (update_pwm_state u s)" using p by (simp add: update_pwm_state_def Let_def duty_shown_def)
  have "touches pwm_widgets ?t ?r"
    by (rule touches_trans [OF touches_mono [OF f] touches_mono [OF l]]) (auto simp: pwm_widgets_def)
  then show "touches pwm_widgets s (update_pwm_state u s)" by (simp add: update_pwm_state_def Let_def)
qed

definition sht20_point :: "lv_env \<Rightarrow> proto_sensor_update_t \<Rightarrow> bool \<Rightarrow> nat \<Rightarrow> int option" where
  "sht20_point env u uf i = (let r = su_sht20 u ! i in
     if i < su_sht20_count u \<and> sht_valid r \<and> float_isfinite (sht_temperature_c r)
     then Some (chart_temperature env uf (sht_temperature_c r)) else None)"

definition chart_widgets :: "widget set" where
  "chart_widgets = (\<Union>i<2. {S_temp_series i, S_hum_series i}) \<union> (\<Union>i<4. {S_ds_series i})"

lemma chart_sht20_shows:
  assumes "distinct_widgets s" "i < 2"
  shows "touches {S_temp_series i, S_hum_series i} s (chart_sht20 env u uf i s)"
    "points_of (chart_sht20 env u uf i s) (S_temp_series i) = sht20_point env u uf i # points_of s (S_temp_series i)"
proof -
  show "touches {S_temp_series i, S_hum_series i} s (chart_sht20 env u uf i s)"
    unfolding chart_sht20_def Let_def by (rule touches_calls [OF assms(1)]) (use assms(2) in auto)
  show "points_of (chart_sht20 env u uf i s) (S_temp_series i) = sht20_point env u uf i # points_of s (S_temp_series i)"
    using assms(2) by (simp add: chart_sht20_def sht20_point_def Let_def look_simps same_widget [OF assms(1)])
qed

lemma charts_show:
  assumes d: "distinct_widgets s"
  shows "touches chart_widgets s (update_charts env u uf s)"
    "\<forall>i < 2. points_of (update_charts env u uf s) (S_temp_series i) = sht20_point env u uf i # points_of s (S_temp_series i)"
proof -
  let ?t = "for_loop (chart_sht20 env u uf) 2 0 s" and ?D = "\<Union>i<4. {S_ds_series i}" and ?T = "\<Union>i<2. {S_temp_series i, S_hum_series i}"
  have b: "touches ?D t (chart_ds18b20 env u uf i t)" if "i < 4" "distinct_widgets t" for i t
    unfolding chart_ds18b20_def Let_def using that by (auto intro!: touches_calls touches_refl)
  have t: "touches ?T s ?t"
    by (rule touches_for_loop [OF d]) (rule touches_mono [OF chart_sht20_shows(1)], auto)
  have t2: "touches ?D ?t (update_charts env u uf s)" unfolding update_charts_def
    by (rule touches_for_loop [OF touches_distinct [OF t d] b])
  show "touches chart_widgets s (update_charts env u uf s)"
    by (rule touches_trans [OF touches_mono [OF t] touches_mono [OF t2]]) (auto simp: chart_widgets_def)
  have k: "points_of (for_loop (chart_sht20 env u uf) 2 0 s) (S_temp_series i) = sht20_point env u uf i # points_of s (S_temp_series i)"
    if i: "i < 2" for i
  proof -
    note a0 = chart_sht20_shows [OF d, of 0 env u uf]
    note d1 = touches_distinct [OF a0(1) d]
    note a1 = chart_sht20_shows [OF d1, of 1 env u uf]
    consider "i = 0" | "i = 1" using i by linarith
    then show ?thesis
    proof cases
      case 1
      then show ?thesis using a0(2) touched_points [OF a1(1), of "S_temp_series 0"] by (simp add: numeral_2_eq_2)
    next
      case 2
      then show ?thesis using a1(2) touched_points [OF a0(1), of "S_temp_series 1"] by (simp add: numeral_2_eq_2)
    qed
  qed
  show "\<forall>i < 2. points_of (update_charts env u uf s) (S_temp_series i) = sht20_point env u uf i # points_of s (S_temp_series i)"
    using k touched_points [OF t2] by simp
qed

text \<open>The texts of an ambient sensor and of a thermometer.\<close>

definition sht20_shown :: "lv_env \<Rightarrow> proto_sensor_update_t \<Rightarrow> ui_locale_pack_t \<Rightarrow> bool \<Rightarrow> nat \<Rightarrow> ui \<Rightarrow> bool" where
  "sht20_shown env u loc uf i s \<longleftrightarrow> (let r = su_sht20 u ! i; there = i < su_sht20_count u in
     text_of s (S_sht20_name i) = Some (if there then sht_id r @ (if sht_valid r then [] else '' (fault)'')
       else label_sensor_fallback loc @ '' '' @ dec_string (i + 1)) \<and>
     text_of s (S_sht20_temp i) = Some (if there \<and> sht_valid r \<and> float_isfinite (sht_temperature_c r)
       then label_temperature_prefix loc @ '': '' @ format_temperature env 64 (sht_temperature_c r) uf
       else no_value (label_temperature_prefix loc)) \<and>
     text_of s (S_sht20_hum i) = Some (if there \<and> sht_valid r \<and> float_isfinite (sht_humidity_percent r)
       then label_humidity_prefix loc @ '': '' @ cstr_copy 64 (fmt_1f (sht_humidity_percent r) @ '' %'')
       else no_value (label_humidity_prefix loc)))"

lemma show_sht20_shows:
  assumes "distinct_widgets s" "i < 2"
  shows "touches {S_sht20_name i, S_sht20_temp i, S_sht20_hum i} s (show_sht20 env loc u uf i s)" "sht20_shown env u loc uf i (show_sht20 env loc u uf i s)"
proof -
  show "touches {S_sht20_name i, S_sht20_temp i, S_sht20_hum i} s (show_sht20 env loc u uf i s)"
    unfolding show_sht20_def Let_def using assms(2) by (simp add: touches_calls [OF assms(1)])
  show "sht20_shown env u loc uf i (show_sht20 env loc u uf i s)"
    using assms(2) by (simp add: show_sht20_def sht20_shown_def Let_def look_simps same_widget [OF assms(1)])
qed

definition ds18b20_shown :: "lv_env \<Rightarrow> proto_sensor_update_t \<Rightarrow> ui_locale_pack_t \<Rightarrow> bool \<Rightarrow> nat \<Rightarrow> ui \<Rightarrow> bool" where
  "ds18b20_shown env u loc uf i s \<longleftrightarrow>
     text_of s (S_ds18_temp i) = Some (if i < su_ds18b20_count u
       then label_temperature_prefix loc @ '': '' @ format_temperature env 64 (ds_temperature_c (su_ds18b20 u ! i)) uf
       else no_value (label_temperature_prefix loc)) \<and>
     (i < su_ds18b20_count u \<longrightarrow> text_of s (S_ds18_name i) = Some (format_rom_code (ds_rom_code (su_ds18b20 u ! i)) 17))"

lemma show_ds18b20_shows:
  assumes "distinct_widgets s" "i < 4"
  shows "touches {S_ds18_name i, S_ds18_temp i} s (show_ds18b20 env loc u uf i s)" "ds18b20_shown env u loc uf i (show_ds18b20 env loc u uf i s)"
proof -
  show "touches {S_ds18_name i, S_ds18_temp i} s (show_ds18b20 env loc u uf i s)"
    unfolding show_ds18b20_def Let_def using assms(2) by (simp add: touches_calls [OF assms(1)])
  show "ds18b20_shown env u loc uf i (show_ds18b20 env loc u uf i s)"
    using assms(2) by (simp add: show_ds18b20_def ds18b20_shown_def Let_def look_simps same_widget [OF assms(1)])
qed


section \<open>An update on the screens\<close>

definition sequence_shown :: "proto_sensor_update_t \<Rightarrow> ui_locale_pack_t \<Rightarrow> ui \<Rightarrow> bool" where
  "sequence_shown u loc s \<longleftrightarrow> text_of s S_wifi_badge = Some (label_sequence_prefix loc @ '': '' @ fmt_u (su_sequence_id u))"

definition update_shown :: "lv_env \<Rightarrow> proto_sensor_update_t \<Rightarrow> ui_locale_pack_t \<Rightarrow> bool \<Rightarrow> ui \<Rightarrow> bool" where
  "update_shown env u loc uf s \<longleftrightarrow> (\<forall>i < 2. sht20_shown env u loc uf i s) \<and> (\<forall>i < 4. ds18b20_shown env u loc uf i s) \<and>
     sequence_shown u loc s \<and> (\<forall>dev < 2. \<forall>pin < 16. pin_shown u loc dev pin s) \<and> (\<forall>ch < 16. duty_shown u ch s) \<and> frequency_shown u s"

definition reading_widgets :: "widget set" where
  "reading_widgets = (\<Union>i<2. {S_sht20_name i, S_sht20_temp i, S_sht20_hum i}) \<union> (\<Union>i<4. {S_ds18_name i, S_ds18_temp i}) \<union> {S_wifi_badge}"

lemma readings_show:
  assumes d: "distinct_widgets s" and s': "s' = if_set S_wifi_badge (\<lambda>p. [LvLabelText p (label_sequence_prefix loc @ '': '' @ fmt_u (su_sequence_id u))])
      (for_loop (show_ds18b20 env loc u uf) 4 0 (for_loop (show_sht20 env loc u uf) 2 0 s))"
  shows "touches reading_widgets s s'" "\<forall>i < 2. sht20_shown env u loc uf i s'" "\<forall>i < 4. ds18b20_shown env u loc uf i s'" "sequence_shown u loc s'"
proof -
  let ?A = "\<Union>i<2. {S_sht20_name i, S_sht20_temp i, S_sht20_hum i}" and ?B = "\<Union>i<4. {S_ds18_name i, S_ds18_temp i}"
  define s1 where "s1 = for_loop (show_sht20 env loc u uf) 2 0 s"
  define s2 where "s2 = for_loop (show_ds18b20 env loc u uf) 4 0 s1"
  have t1: "touches ?A s s1" unfolding s1_def
    by (rule touches_for_loop [OF d]) (rule touches_mono [OF show_sht20_shows(1)], auto)
  have p1: "\<forall>i < 2. sht20_shown env u loc uf i s1" unfolding s1_def
    by (rule loop_shows [where W = "\<lambda>i. {S_sht20_name i, S_sht20_temp i, S_sht20_hum i}", OF d])
      (use show_sht20_shows in \<open>auto simp: sht20_shown_def Let_def touched\<close>)
  note d1 = touches_distinct [OF t1 d]
  have t2: "touches ?B s1 s2" unfolding s2_def
    by (rule touches_for_loop [OF d1]) (rule touches_mono [OF show_ds18b20_shows(1)], auto)
  have p2: "\<forall>i < 4. ds18b20_shown env u loc uf i s2" unfolding s2_def
    by (rule loop_shows [where W = "\<lambda>i. {S_ds18_name i, S_ds18_temp i}", OF d1])
      (use show_ds18b20_shows in \<open>auto simp: ds18b20_shown_def touched\<close>)
  note d2 = touches_distinct [OF t2 d1]
  have e: "s' = calls [LvLabelText (ui_w s2 S_wifi_badge) (label_sequence_prefix loc @ '': '' @ fmt_u (su_sequence_id u))] s2"
    using widget_set [OF d2, of S_wifi_badge] by (auto simp: s' s1_def s2_def if_set_def)
  have t3: "touches {S_wifi_badge} s2 s'" unfolding e by (rule touches_calls [OF d2]) auto
  show "sequence_shown u loc s'" by (simp add: e sequence_shown_def look_simps)
  show "\<forall>i < 4. ds18b20_shown env u loc uf i s'" using p2 touched [OF t3] by (simp add: ds18b20_shown_def)
  show "\<forall>i < 2. sht20_shown env u loc uf i s'" using p1 touched [OF t3] touched [OF t2] by (simp add: sht20_shown_def Let_def)
  show "touches reading_widgets s s'"
    by (rule touches_trans [OF touches_trans [OF touches_mono [OF t1] touches_mono [OF t2]] touches_mono [OF t3]])
      (auto simp: reading_widgets_def)
qed

lemma get_locale_kept: "ui_active_prefs s' = ui_active_prefs s \<Longrightarrow> get_locale s' = get_locale s"
  by (simp add: get_locale_def)

lemma prefs_calls [simp]: "ui_active_prefs (calls cs s) = ui_active_prefs s" "ui_active_prefs (if_set x f s) = ui_active_prefs s"
  by (simp_all add: calls_def if_set_def)

lemma prefs_shown [simp]:
  "ui_active_prefs (show_sht20 env loc u uf i s) = ui_active_prefs s" "ui_active_prefs (show_ds18b20 env loc u uf i s) = ui_active_prefs s"
  by (simp_all add: show_sht20_def show_ds18b20_def Let_def)

lemma update_shows:
  assumes d: "distinct_widgets s" and s': "s' = ui_update_sensor_data env (Some u) uf s"
  shows "update_shown env u (get_locale s) uf s'"
    "touches (reading_widgets \<union> gpio_widgets \<union> pwm_widgets \<union> chart_widgets) s s'"
    "\<forall>i < 2. points_of s' (S_temp_series i) = sht20_point env u uf i # points_of s (S_temp_series i)"
proof -
  define loc where "loc = get_locale s"
  define s1 where "s1 = if_set S_wifi_badge (\<lambda>p. [LvLabelText p (label_sequence_prefix loc @ '': '' @ fmt_u (su_sequence_id u))])
      (for_loop (show_ds18b20 env loc u uf) 4 0 (for_loop (show_sht20 env loc u uf) 2 0 s))"
  define s2 where "s2 = update_gpio_state u s1"
  define s3 where "s3 = update_pwm_state u s2"
  define s4 where "s4 = update_charts env u uf s3"
  have e: "s' = s4\<lparr>ui_last_sequence_id := su_sequence_id u, ui_last_proto_update := u, ui_has_last_proto_update := True\<rparr>"
    by (simp add: s' ui_update_sensor_data_def Let_def loc_def s1_def s2_def s3_def s4_def)
  note r = readings_show [OF d s1_def]
  note d1 = touches_distinct [OF r(1) d]
  have loc1: "get_locale s1 = loc"
    unfolding s1_def loc_def by (intro get_locale_kept) (simp add: for_loop_keeps [where f = ui_active_prefs])
  note g = gpio_state_shows [OF d1, of u, folded s2_def, unfolded loc1]
  note d2 = touches_distinct [OF g(1) d1]
  note p = pwm_state_shows [OF d2, of u, folded s3_def]
  note d3 = touches_distinct [OF p(1) d2]
  note c = charts_show [OF d3, of env u uf, folded s4_def]
  have l: "look s' x = look s4 x" for x by (simp add: e)
  let ?W = "gpio_widgets \<union> pwm_widgets \<union> chart_widgets"
  have t14: "touches ?W s1 s4"
    by (rule touches_trans [OF touches_trans [OF touches_mono [OF g(1)] touches_mono [OF p(1)]] touches_mono [OF c(1)]]) auto
  have t24: "touches (pwm_widgets \<union> chart_widgets) s2 s4"
    by (rule touches_trans [OF touches_mono [OF p(1)] touches_mono [OF c(1)]]) auto
  have "\<forall>i < 2. sht20_shown env u loc uf i s4" "\<forall>i < 4. ds18b20_shown env u loc uf i s4" "sequence_shown u loc s4"
    using r(2-4) touched [OF t14]
    by (simp_all add: sht20_shown_def ds18b20_shown_def sequence_shown_def Let_def gpio_widgets_def pwm_widgets_def chart_widgets_def)
  moreover have "\<forall>dev < 2. \<forall>pin < 16. pin_shown u loc dev pin s4"
    using g(2) touched [OF t24] by (simp add: pin_shown_def pwm_widgets_def chart_widgets_def)
  moreover have "\<forall>ch < 16. duty_shown u ch s4" "frequency_shown u s4"
    using p(2,3) touched [OF c(1)] by (simp_all add: duty_shown_def frequency_shown_def chart_widgets_def)
  ultimately have "update_shown env u loc uf s4" by (simp add: update_shown_def)
  then show "update_shown env u (get_locale s) uf s'"
    by (simp add: update_shown_def sht20_shown_def ds18b20_shown_def sequence_shown_def pin_shown_def duty_shown_def frequency_shown_def
        text_of_def on_of_def slid_of_def l loc_def)
  have t: "touches (reading_widgets \<union> ?W) s s4"
    by (rule touches_trans [OF touches_mono [OF r(1)] touches_mono [OF t14]]) auto
  then show "touches (reading_widgets \<union> gpio_widgets \<union> pwm_widgets \<union> chart_widgets) s s'" by (simp add: e Un_assoc)
  have "touches (reading_widgets \<union> gpio_widgets \<union> pwm_widgets) s s3"
    by (rule touches_trans [OF touches_trans [OF touches_mono [OF r(1)] touches_mono [OF g(1)]] touches_mono [OF p(1)]]) auto
  then show "\<forall>i < 2. points_of s' (S_temp_series i) = sht20_point env u uf i # points_of s (S_temp_series i)"
    using c(2) touched_points by (simp add: points_of_def l touches_def reading_widgets_def gpio_widgets_def pwm_widgets_def)
qed

section \<open>Preferences on the screens\<close>

lemma touches_quiet: "\<forall>c \<in> set cs. changes c = None \<Longrightarrow> touches W s (calls cs s)"
  using unchanged [of "rev cs"] by (auto simp: touches_def look_def calls_def)

lemma touches_if_quiet: "(\<And>p. \<forall>c \<in> set (f p). changes c = None) \<Longrightarrow> touches W s (if_set x f s)"
  by (auto simp: if_set_def intro: touches_quiet touches_refl)

lemma touches_if_set:
  assumes "distinct_widgets s" "valid_widget x" "\<And>p. \<forall>c \<in> set (f p). changes c = None \<or> changes c = Some p"
  shows "touches {x} s (if_set x f s)"
  using assms by (auto simp: if_set_def intro!: touches_calls touches_refl)

lemma quiet_steps:
  "touches W s (apply_display_zoom env s)" "touches W s (pad_widget x s)" "touches W s (set_tab_title env x txt s)"
  by (auto simp: apply_display_zoom_def pad_widget_def set_tab_title_def Let_def intro: touches_quiet touches_refl touches_if_quiet)

lemma then_quiet:
  "touches W s0 s \<Longrightarrow> \<forall>c \<in> set cs. changes c = None \<Longrightarrow> touches W s0 (calls cs s)"
  "touches W s0 s \<Longrightarrow> (\<And>p. \<forall>c \<in> set (f p). changes c = None) \<Longrightarrow> touches W s0 (if_set x f s)"
  "touches W s0 s \<Longrightarrow> touches W s0 (apply_display_zoom env s)"
  "touches W s0 s \<Longrightarrow> touches W s0 (pad_widget x s)"
  "touches W s0 s \<Longrightarrow> touches W s0 (set_tab_title env x txt s)"
  "(b \<Longrightarrow> touches W s0 s) \<Longrightarrow> (\<not> b \<Longrightarrow> touches W s0 t) \<Longrightarrow> touches W s0 (if b then s else t)"
  by ((erule touches_trans, (rule touches_quiet touches_if_quiet quiet_steps; assumption?)) | simp)+

lemma theme_quiet: "touches W s (apply_theme env dark s)"
  unfolding apply_theme_def Let_def by (intro then_quiet touches_refl) simp_all

lemma quiet_loop:
  assumes "touches W s0 s" "\<And>i s. touches W s0 s \<Longrightarrow> touches W s0 (body i s)"
  shows "touches W s0 (for_loop body n k s)"
  using assms by (induction n arbitrary: k s) auto

lemma touch_style_quiet: "touches W s (apply_touch_target_style s)"
  unfolding apply_touch_target_style_def Let_def by (intro then_quiet touches_refl quiet_loop) simp_all

lemma tabs_quiet: "touches W s (refresh_tabs env loc s)"
  unfolding refresh_tabs_def Let_def by (intro then_quiet touches_refl)

lemma set_text_shows:
  assumes "distinct_widgets s" "valid_widget x"
  shows "touches {x} s (set_text x txt s)" "text_of (set_text x txt s) x = Some txt"
proof -
  show "touches {x} s (set_text x txt s)" unfolding set_text_def by (rule touches_if_set [OF assms]) simp
  show "text_of (set_text x txt s) x = Some txt"
    using widget_set [OF assms] by (auto simp: set_text_def if_set_def look_simps)
qed

lemma set_switch_shows:
  assumes "distinct_widgets s" "valid_widget x"
  shows "touches {x} s (set_switch x on s)" "on_of (set_switch x on s) x = Some on"
proof -
  show "touches {x} s (set_switch x on s)" unfolding set_switch_def by (rule touches_calls [OF assms(1)]) (use assms(2) in auto)
  show "on_of (set_switch x on s) x = Some on" by (simp add: set_switch_def look_simps)
qed

lemma text_scale_shows: "distinct_widgets s \<Longrightarrow> touches {S_text_scale_label} s (update_text_scale_label env s)"
  by (auto simp: update_text_scale_label_def Let_def intro!: touches_calls touches_refl)

lemma connection_shows:
  "distinct_widgets s \<Longrightarrow> touches {S_status_label} s (ui_update_connection_status conn s)"
  "distinct_widgets s \<Longrightarrow> touches {S_crc_badge} s (ui_update_crc_status ok s)"
proof -
  have f: "distinct_widgets (s\<lparr>ui_last_connected := b\<rparr>) = distinct_widgets s" "distinct_widgets (s\<lparr>ui_last_crc_ok := b\<rparr>) = distinct_widgets s"
    "touches W (s\<lparr>ui_last_connected := b\<rparr>) t = touches W s t" "touches W (s\<lparr>ui_last_crc_ok := b\<rparr>) t = touches W s t"
    "ui_w (s\<lparr>ui_last_connected := b\<rparr>) = ui_w s" "ui_w (s\<lparr>ui_last_crc_ok := b\<rparr>) = ui_w s" for s W t b
    by (simp_all add: distinct_widgets_def ready_w_def touches_def look_def)
  show "touches {S_status_label} s (ui_update_connection_status conn s)" if d: "distinct_widgets s"
  proof -
    have "touches {S_status_label} (s\<lparr>ui_last_connected := conn\<rparr>) (calls [LvLabelText (ui_w s S_status_label) t,
        LvStyle (ui_w s S_status_label) st Part0] (s\<lparr>ui_last_connected := conn\<rparr>))" for t st
      by (rule touches_calls) (auto simp: f d)
    then show ?thesis by (auto simp: ui_update_connection_status_def Let_def f touches_refl)
  qed
  show "touches {S_crc_badge} s (ui_update_crc_status ok s)" if d: "distinct_widgets s"
  proof -
    have "touches {S_crc_badge} (s\<lparr>ui_last_crc_ok := ok\<rparr>) (calls [LvLabelText (ui_w s S_crc_badge) t,
        LvStyle (ui_w s S_crc_badge) st Part0] (s\<lparr>ui_last_crc_ok := ok\<rparr>))" for t st
      by (rule touches_calls) (auto simp: f d)
    then show ?thesis by (auto simp: ui_update_crc_status_def Let_def f touches_refl)
  qed
qed

definition ui_data :: "ui \<Rightarrow> hmi_user_preferences_t \<times> proto_sensor_update_t \<times> bool" where
  "ui_data s = (ui_active_prefs s, ui_last_proto_update s, ui_has_last_proto_update s)"

lemma data_kept [simp]:
  "ui_data (calls cs s) = ui_data s" "ui_data (if_set x f s) = ui_data s" "ui_data (set_text x txt s) = ui_data s"
  "ui_data (set_switch x on s) = ui_data s" "ui_data (pad_widget x s) = ui_data s" "ui_data (set_tab_title env x txt s) = ui_data s"
  "ui_data (apply_display_zoom env s) = ui_data s" "ui_data (update_text_scale_label env s) = ui_data s"
  "ui_data (ui_update_connection_status conn s) = ui_data s" "ui_data (ui_update_crc_status ok s) = ui_data s"
  "ui_data (s\<lparr>ui_updating := b\<rparr>) = ui_data s"
  by (simp_all add: ui_data_def calls_def if_set_def set_text_def set_switch_def pad_widget_def set_tab_title_def apply_display_zoom_def
      update_text_scale_label_def ui_update_connection_status_def ui_update_crc_status_def Let_def)

lemma data_loops [simp]:
  "ui_data (apply_theme env dark s) = ui_data s" "ui_data (apply_touch_target_style s) = ui_data s"
  "ui_data (refresh_tabs env loc s) = ui_data s" "ui_data (refresh_labels loc s) = ui_data s"
  by (simp_all add: apply_theme_def apply_touch_target_style_def refresh_tabs_def refresh_labels_def Let_def for_loop_keeps [where f = ui_data])

definition label_texts :: "ui_locale_pack_t \<Rightarrow> (widget \<times> string) list" where
  "label_texts loc =
     [(S_ssid_label, label_wifi_ssid loc), (S_password_label, label_wifi_password loc), (S_mdns_label, label_mdns_target loc),
      (S_dark_theme_label, label_dark_theme loc), (S_use_fahrenheit_label, label_use_fahrenheit loc), (S_apply_label, label_apply loc),
      (S_reset_label, label_reset loc), (S_language_label, label_language loc), (S_high_contrast_label, label_high_contrast loc),
      (S_text_scale_title, label_text_scale loc), (S_touch_targets_label, label_touch_targets loc)]"

definition label_widgets :: "widget set" where
  "label_widgets = {S_ssid_label, S_password_label, S_mdns_label, S_dark_theme_label, S_use_fahrenheit_label, S_apply_label,
     S_reset_label, S_language_label, S_high_contrast_label, S_text_scale_title, S_touch_targets_label}"

lemma set_texts_show:
  assumes "distinct_widgets s" "distinct (map fst xs)" "\<forall>x \<in> fst ` set xs. valid_widget x"
  shows "touches (fst ` set xs) s (fold (\<lambda>(x, t). set_text x t) xs s) \<and>
    (\<forall>(x, t) \<in> set xs. text_of (fold (\<lambda>(x, t). set_text x t) xs s) x = Some t)"
  using assms
proof (induction xs arbitrary: s)
  case Nil
  then show ?case by (simp add: touches_refl)
next
  case (Cons xt xs)
  obtain x t where xt: "xt = (x, t)" by fastforce
  have v: "valid_widget x" using Cons.prems(3) xt by simp
  note a = set_text_shows [OF Cons.prems(1) v, of t]
  let ?s = "set_text x t s"
  have ih: "touches (fst ` set xs) ?s (fold (\<lambda>(x, t). set_text x t) xs ?s)"
    "\<forall>(y, u) \<in> set xs. text_of (fold (\<lambda>(x, t). set_text x t) xs ?s) y = Some u"
    using Cons.IH [OF touches_distinct [OF a(1) Cons.prems(1)]] Cons.prems(2,3) by auto
  have "text_of (fold (\<lambda>(x, t). set_text x t) xs ?s) x = Some t"
    using touched_text [OF ih(1) v] a(2) Cons.prems(2) xt by (auto simp: image_iff)
  moreover have "touches (fst ` set (xt # xs)) s (fold (\<lambda>(x, t). set_text x t) xs ?s)"
    by (rule touches_trans [OF touches_mono [OF a(1)] touches_mono [OF ih(1)]]) (auto simp: xt)
  ultimately show ?case using ih(2) by (simp add: xt)
qed

lemma refresh_labels_fold:
  "refresh_labels loc s = if_set S_language_dd (\<lambda>p. [LvDropdownOptions p (dropdown_languages loc)]) (fold (\<lambda>(x, t). set_text x t) (label_texts loc) s)"
  by (simp add: refresh_labels_def label_texts_def Let_def)

lemma labels_show:
  assumes d: "distinct_widgets s"
  shows "touches (label_widgets \<union> {S_language_dd}) s (refresh_labels loc s)"
    "\<forall>(x, t) \<in> set (label_texts loc). text_of (refresh_labels loc s) x = Some t"
    "dropdown_of (refresh_labels loc s) S_language_dd = Some (OptionsSet (dropdown_languages loc))"
proof -
  define s1 where "s1 = fold (\<lambda>(x, t). set_text x t) (label_texts loc) s"
  have "fst ` set (label_texts loc) = label_widgets" by (auto simp: label_texts_def label_widgets_def)
  with set_texts_show [OF d, of "label_texts loc"]
  have l: "touches label_widgets s s1" "\<forall>(x, t) \<in> set (label_texts loc). text_of s1 x = Some t"
    by (simp_all add: s1_def label_texts_def label_widgets_def)
  note d1 = touches_distinct [OF l(1) d]
  have e: "refresh_labels loc s = if_set S_language_dd (\<lambda>p. [LvDropdownOptions p (dropdown_languages loc)]) s1"
    by (simp add: refresh_labels_fold s1_def)
  have t: "touches {S_language_dd} s1 (refresh_labels loc s)" unfolding e by (rule touches_if_set [OF d1]) simp_all
  show "touches (label_widgets \<union> {S_language_dd}) s (refresh_labels loc s)"
    by (rule touches_trans [OF touches_mono [OF l(1)] touches_mono [OF t]]) auto
  show "\<forall>(x, t) \<in> set (label_texts loc). text_of (refresh_labels loc s) x = Some t"
    using l(2) touched_text [OF t] by (simp add: label_texts_def)
  show "dropdown_of (refresh_labels loc s) S_language_dd = Some (OptionsSet (dropdown_languages loc))"
    using widget_set [OF d1, of S_language_dd] by (auto simp: e if_set_def look_simps)
qed

definition status_widgets :: "widget set" where
  "status_widgets = {S_wifi_badge, S_text_scale_label, S_status_label, S_crc_badge}"

definition value_widgets :: "widget set" where
  "value_widgets = reading_widgets \<union> gpio_widgets \<union> pwm_widgets \<union> chart_widgets"

lemma clear_touches:
  assumes "distinct_widgets s"
  shows "touches value_widgets s (for_loop (clear_ds18b20 loc) 4 0 (for_loop (clear_sht20 loc) 2 0 s))"
proof -
  have t: "touches value_widgets t (set_text x tx t)" if "distinct_widgets t" "valid_widget x" "x \<in> reading_widgets" for t x tx
    by (rule touches_mono [OF set_text_shows(1) [OF that(1,2)]]) (use that(3) in \<open>auto simp: value_widgets_def\<close>)
  have a: "touches value_widgets t (clear_sht20 loc i t)" if "i < 2" "distinct_widgets t" for i t
  proof -
    have m: "S_sht20_name i \<in> reading_widgets" "S_sht20_temp i \<in> reading_widgets" "S_sht20_hum i \<in> reading_widgets"
      using that(1) by (auto simp: reading_widgets_def)
    note t1 = t [OF that(2) _ m(1)]
    note t2 = t [OF touches_distinct [OF t1 that(2)] _ m(2)]
    note t3 = t [OF touches_distinct [OF t2 touches_distinct [OF t1 that(2)]] _ m(3)]
    show ?thesis unfolding clear_sht20_def
      by (rule touches_trans [OF touches_trans [OF t1 t2] t3]) (use that(1) in simp_all)
  qed
  have b: "touches value_widgets t (clear_ds18b20 loc i t)" if "i < 4" "distinct_widgets t" for i t
    unfolding clear_ds18b20_def using that by (intro t) (auto simp: reading_widgets_def)
  have "touches value_widgets s (for_loop (clear_sht20 loc) 2 0 s)" by (rule touches_for_loop [OF assms a])
  from touches_trans [OF this touches_for_loop [OF touches_distinct [OF this assms] b]] show ?thesis .
qed

lemma refresh_shows:
  assumes d: "distinct_widgets s" and s': "s' = refresh_localised_text env s"
  shows "touches (label_widgets \<union> {S_language_dd} \<union> status_widgets \<union> value_widgets) s s'"
    "\<forall>(x, t) \<in> set (label_texts (get_locale s)). text_of s' x = Some t"
    "dropdown_of s' S_language_dd = Some (OptionsSet (dropdown_languages (get_locale s)))"
    "ui_has_last_proto_update s \<Longrightarrow> update_shown env (ui_last_proto_update s) (get_locale s) (prf_use_fahrenheit (ui_active_prefs s)) s' \<and>
      (\<forall>i < 2. points_of s' (S_temp_series i) =
         sht20_point env (ui_last_proto_update s) (prf_use_fahrenheit (ui_active_prefs s)) i # points_of s (S_temp_series i))"
proof -
  define loc where "loc = get_locale s"
  define s1 where "s1 = refresh_tabs env loc s"
  define s2 where "s2 = refresh_labels loc s1"
  define s3 where "s3 = if_set S_wifi_badge (\<lambda>p. [LvLabelText p (if ui_last_sequence_id s2 \<noteq> 0
      then label_sequence_prefix loc @ '': '' @ fmt_u (ui_last_sequence_id s2) else no_value (label_sequence_prefix loc))]) s2"
  define s4 where "s4 = update_text_scale_label env s3"
  define s5 where "s5 = (if ui_w s4 S_status_label = None then s4 else ui_update_connection_status (ui_last_connected s4) s4)"
  define s6 where "s6 = (if ui_w s5 S_crc_badge = None then s5
               else if ui_has_last_proto_update s5 then ui_update_crc_status (ui_last_crc_ok s5) s5
               else calls [LvLabelText (ui_w s5 S_crc_badge) (label_crc_unknown loc),
                      LvStyle (ui_w s5 S_crc_badge) (StyleTextColor (Hex 0xAAAAAA)) Part0] s5)"
  have e: "s' = (if ui_has_last_proto_update s6
         then ui_update_sensor_data env (Some (ui_last_proto_update s6)) (prf_use_fahrenheit (ui_active_prefs s6)) s6
         else for_loop (clear_ds18b20 loc) 4 0 (for_loop (clear_sht20 loc) 2 0 s6))"
    unfolding s' refresh_localised_text_def Let_def s6_def s5_def s4_def s3_def s2_def s1_def loc_def ..
  have dt: "ui_data s6 = ui_data s"
    unfolding s6_def s5_def s4_def s3_def s2_def s1_def by simp
  then have data: "ui_has_last_proto_update s6 = ui_has_last_proto_update s" "ui_last_proto_update s6 = ui_last_proto_update s"
    "ui_active_prefs s6 = ui_active_prefs s" by (simp_all add: ui_data_def)
  have t1: "touches {} s s1" unfolding s1_def by (rule tabs_quiet)
  note d1 = touches_distinct [OF t1 d]
  note l = labels_show [OF d1, of loc, folded s2_def]
  note d2 = touches_distinct [OF l(1) d1]
  have t3: "touches status_widgets s2 s3" unfolding s3_def
    by (rule touches_mono [OF touches_if_set [OF d2]]) (auto simp: status_widgets_def)
  note d3 = touches_distinct [OF t3 d2]
  have t4: "touches status_widgets s3 s4" unfolding s4_def
    by (rule touches_mono [OF text_scale_shows [OF d3]]) (auto simp: status_widgets_def)
  note d4 = touches_distinct [OF t4 d3]
  have t5: "touches status_widgets s4 s5" unfolding s5_def
    using touches_mono [OF connection_shows(1) [OF d4]] by (auto simp: status_widgets_def intro: touches_refl)
  note d5 = touches_distinct [OF t5 d4]
  have "touches status_widgets s5 (calls [LvLabelText (ui_w s5 S_crc_badge) t, LvStyle (ui_w s5 S_crc_badge) st Part0] s5)" for t st
    by (rule touches_calls [OF d5]) (auto simp: status_widgets_def)
  then have t6: "touches status_widgets s5 s6" unfolding s6_def
    using touches_mono [OF connection_shows(2) [OF d5]] by (auto simp: status_widgets_def intro: touches_refl)
  note d6 = touches_distinct [OF t6 d5]
  have t26: "touches status_widgets s2 s6" by (rule touches_trans [OF touches_trans [OF touches_trans [OF t3 t4] t5] t6])
  have t16: "touches (label_widgets \<union> {S_language_dd} \<union> status_widgets) s s6"
    by (rule touches_trans [OF touches_trans [OF touches_mono [OF t1] touches_mono [OF l(1)]] touches_mono [OF t26]]) auto
  note up = update_shows [OF d6 refl, of env "ui_last_proto_update s" "prf_use_fahrenheit (ui_active_prefs s)"]
  have loc6: "get_locale s6 = loc" using data(3) by (simp add: get_locale_def loc_def)
  have t7: "touches value_widgets s6 s'"
    using up(2) clear_touches [OF d6] by (simp add: e data value_widgets_def)
  show "touches (label_widgets \<union> {S_language_dd} \<union> status_widgets \<union> value_widgets) s s'"
    by (rule touches_trans [OF touches_mono [OF t16] touches_mono [OF t7]]) auto
  have t27: "touches (status_widgets \<union> value_widgets) s2 s'"
    by (rule touches_trans [OF touches_mono [OF t26] touches_mono [OF t7]]) auto
  show "\<forall>(x, t) \<in> set (label_texts (get_locale s)). text_of s' x = Some t"
    using l(2) touched_text [OF t27]
    by (simp add: label_texts_def loc_def status_widgets_def value_widgets_def reading_widgets_def gpio_widgets_def pwm_widgets_def chart_widgets_def)
  show "dropdown_of s' S_language_dd = Some (OptionsSet (dropdown_languages (get_locale s)))"
    using l(3) touched_dropdown [OF t27]
    by (simp add: loc_def status_widgets_def value_widgets_def reading_widgets_def gpio_widgets_def pwm_widgets_def chart_widgets_def)
  assume has: "ui_has_last_proto_update s"
  have "points_of s6 (S_temp_series i) = points_of s (S_temp_series i)" if "i < 2" for i
    using touched_points [OF t16] that by (simp add: label_widgets_def status_widgets_def)
  with up(1,3) has data loc6 show "update_shown env (ui_last_proto_update s) (get_locale s) (prf_use_fahrenheit (ui_active_prefs s)) s' \<and>
      (\<forall>i < 2. points_of s' (S_temp_series i) =
         sht20_point env (ui_last_proto_update s) (prf_use_fahrenheit (ui_active_prefs s)) i # points_of s (S_temp_series i))"
    by (simp add: e loc_def)
qed

definition input_widgets :: "widget set" where
  "input_widgets = {S_theme_switch, S_units_switch, S_high_contrast_switch, S_touch_targets_switch, S_text_scale_slider,
     S_text_scale_label, S_language_dd}"

definition inputs_shown :: "hmi_user_preferences_t \<Rightarrow> ui \<Rightarrow> bool" where
  "inputs_shown p s \<longleftrightarrow> on_of s S_theme_switch = Some (prf_dark_theme p) \<and> on_of s S_units_switch = Some (prf_use_fahrenheit p) \<and>
     on_of s S_high_contrast_switch = Some (prf_high_contrast p) \<and> on_of s S_touch_targets_switch = Some (prf_large_touch_targets p) \<and>
     slid_of s S_text_scale_slider = Some (uint (prf_text_scale_percent p))"

lemma inputs_show:
  assumes d: "distinct_widgets s"
    and s3: "s3 = set_switch S_theme_switch (prf_dark_theme p) s"
    and s4: "s4 = set_switch S_units_switch (prf_use_fahrenheit p) s3"
    and s5: "s5 = (if ui_w s4 S_high_contrast_switch = None then s4 else set_switch S_high_contrast_switch (prf_high_contrast p) s4)"
    and s6: "s6 = (if ui_w s5 S_touch_targets_switch = None then s5 else set_switch S_touch_targets_switch (prf_large_touch_targets p) s5)"
    and s7: "s7 = (if ui_w s6 S_text_scale_slider = None then s6
       else update_text_scale_label env (calls [LvSliderValue (ui_w s6 S_text_scale_slider) (uint (prf_text_scale_percent p))] s6))"
    and s8: "s8 = if_set S_language_dd (\<lambda>q. [LvDropdownSelected q v]) s7"
  shows "touches input_widgets s s8" "inputs_shown p s8" "ui_data s8 = ui_data s"
proof -
  have a3: "touches {S_theme_switch} s s3" "on_of s3 S_theme_switch = Some (prf_dark_theme p)" "distinct_widgets s3"
    unfolding s3 using set_switch_shows [OF d, of S_theme_switch] touches_distinct [OF _ d] by auto
  have a4: "touches {S_units_switch} s3 s4" "on_of s4 S_units_switch = Some (prf_use_fahrenheit p)" "distinct_widgets s4"
    unfolding s4 using set_switch_shows [OF a3(3), of S_units_switch] touches_distinct [OF _ a3(3)] by auto
  have a5: "touches {S_high_contrast_switch} s4 s5" "on_of s5 S_high_contrast_switch = Some (prf_high_contrast p)" "distinct_widgets s5"
    unfolding s5 using set_switch_shows [OF a4(3), of S_high_contrast_switch] touches_distinct [OF _ a4(3)] widget_set [OF a4(3), of S_high_contrast_switch] by auto
  have a6: "touches {S_touch_targets_switch} s5 s6" "on_of s6 S_touch_targets_switch = Some (prf_large_touch_targets p)" "distinct_widgets s6"
    unfolding s6 using set_switch_shows [OF a5(3), of S_touch_targets_switch] touches_distinct [OF _ a5(3)] widget_set [OF a5(3), of S_touch_targets_switch] by auto
  let ?t = "calls [LvSliderValue (ui_w s6 S_text_scale_slider) (uint (prf_text_scale_percent p))] s6"
  have b: "touches {S_text_scale_slider} s6 ?t" by (rule touches_calls [OF a6(3)]) auto
  have bs: "slid_of ?t S_text_scale_slider = Some (uint (prf_text_scale_percent p))" by (simp add: look_simps)
  have e7: "s7 = update_text_scale_label env ?t" using widget_set [OF a6(3), of S_text_scale_slider] by (auto simp: s7)
  have c: "touches {S_text_scale_label} ?t s7" unfolding e7 by (rule text_scale_shows [OF touches_distinct [OF b a6(3)]])
  have a7: "touches {S_text_scale_slider, S_text_scale_label} s6 s7" "slid_of s7 S_text_scale_slider = Some (uint (prf_text_scale_percent p))"
    using touches_trans [OF touches_mono [OF b] touches_mono [OF c]] bs touched_slid [OF c] by auto
  note d7 = touches_distinct [OF a7(1) a6(3)]
  have a8: "touches {S_language_dd} s7 s8" unfolding s8 by (rule touches_if_set [OF d7]) simp_all
  show "inputs_shown p s8"
    using a3(2) a4(2) a5(2) a6(2) a7(2) touched [OF a4(1)] touched [OF a5(1)] touched [OF a6(1)] touched [OF a7(1)] touched [OF a8]
    by (simp add: inputs_shown_def)
  show "touches input_widgets s s8" unfolding input_widgets_def
    by (rule touches_trans [OF touches_trans [OF touches_trans [OF touches_trans [OF touches_trans [OF touches_mono [OF a3(1)]
        touches_mono [OF a4(1)]] touches_mono [OF a5(1)]] touches_mono [OF a6(1)]] touches_mono [OF a7(1)]] touches_mono [OF a8]]) auto
  show "ui_data s8 = ui_data s" unfolding s8 s7 s6 s5 s4 s3 by simp
qed

lemma preferences_show:
  assumes d: "distinct_widgets s" and s': "s' = ui_apply_preferences env (Some p) s" and loc: "loc = get_locale (s\<lparr>ui_active_prefs := p\<rparr>)"
  shows "inputs_shown p s'" "\<forall>(x, t) \<in> set (label_texts loc). text_of s' x = Some t"
    "dropdown_of s' S_language_dd = Some (OptionsSet (dropdown_languages loc))"
    "ui_has_last_proto_update s \<Longrightarrow> update_shown env (ui_last_proto_update s) loc (prf_use_fahrenheit p) s' \<and>
      (\<forall>i < 2. points_of s' (S_temp_series i) = sht20_point env (ui_last_proto_update s) (prf_use_fahrenheit p) i # points_of s (S_temp_series i))"
    "ui_w s' = ui_w s"
proof -
  define s0 where "s0 = s\<lparr>ui_active_prefs := p\<rparr>"
  define s1 where "s1 = (apply_theme env (prf_dark_theme p) s0)\<lparr>ui_updating := True\<rparr>"
  define s2 where "s2 = calls [LvTextareaText (ui_w s1 S_ssid_ta) (prf_ssid p), LvTextareaText (ui_w s1 S_password_ta) (prf_password p),
                    LvTextareaText (ui_w s1 S_mdns_ta) (prf_mdns_target p)] s1"
  define s3 where "s3 = set_switch S_theme_switch (prf_dark_theme p) s2"
  define s4 where "s4 = set_switch S_units_switch (prf_use_fahrenheit p) s3"
  define s5 where "s5 = (if ui_w s4 S_high_contrast_switch = None then s4 else set_switch S_high_contrast_switch (prf_high_contrast p) s4)"
  define s6 where "s6 = (if ui_w s5 S_touch_targets_switch = None then s5 else set_switch S_touch_targets_switch (prf_large_touch_targets p) s5)"
  define s7 where "s7 = (if ui_w s6 S_text_scale_slider = None then s6
       else update_text_scale_label env (calls [LvSliderValue (ui_w s6 S_text_scale_slider) (uint (prf_text_scale_percent p))] s6))"
  define s8 where "s8 = if_set S_language_dd (\<lambda>q. [LvDropdownSelected q
      (ucast (if prf_language p < HMI_LANGUAGE_MAX then prf_language p else HMI_LANGUAGE_EN))]) s7"
  define s9 where "s9 = apply_touch_target_style (s8\<lparr>ui_updating := False\<rparr>)"
  have e: "s' = refresh_localised_text env s9"
    unfolding s' ui_apply_preferences_def option.case Let_def s9_def s8_def s7_def s6_def s5_def s4_def s3_def s2_def s1_def s0_def ..
  have d0: "distinct_widgets s0" "\<And>x. look s0 x = look s x" "ui_w s0 = ui_w s"
    using d by (simp_all add: s0_def distinct_widgets_def ready_w_def look_def)
  have t2: "touches {} s0 s2" unfolding s2_def s1_def
    by (intro then_quiet(1)) (simp_all add: theme_quiet)
  note i = inputs_show [OF touches_distinct [OF t2 d0(1)] s3_def s4_def s5_def s6_def s7_def s8_def]
  have t9: "touches {} s8 s9" unfolding s9_def using touch_style_quiet [of "{}" "s8\<lparr>ui_updating := False\<rparr>"] by simp
  have t09: "touches input_widgets s0 s9"
    by (rule touches_trans [OF touches_trans [OF touches_mono [OF t2] i(1)] touches_mono [OF t9]]) auto
  note d9 = touches_distinct [OF t09 d0(1)]
  have "ui_data s9 = ui_data s0" using i(3) by (simp add: s9_def s2_def s1_def)
  then have data: "ui_active_prefs s9 = p" "ui_last_proto_update s9 = ui_last_proto_update s"
    "ui_has_last_proto_update s9 = ui_has_last_proto_update s" by (simp_all add: ui_data_def s0_def)
  have l9: "get_locale s9 = loc" using data(1) by (simp add: loc get_locale_def)
  note r = refresh_shows [OF d9 e, unfolded l9 data]
  show "\<forall>(x, t) \<in> set (label_texts loc). text_of s' x = Some t" by (rule r(2))
  show "dropdown_of s' S_language_dd = Some (OptionsSet (dropdown_languages loc))" by (rule r(3))
  have "inputs_shown p s9" using i(2) touched [OF t9] by (simp add: inputs_shown_def)
  then show "inputs_shown p s'" using touched [OF r(1)]
    by (simp add: inputs_shown_def label_widgets_def status_widgets_def value_widgets_def reading_widgets_def gpio_widgets_def
        pwm_widgets_def chart_widgets_def)
  have "points_of s9 (S_temp_series k) = points_of s (S_temp_series k)" if "k < 2" for k
    using touched_points [OF t09, of "S_temp_series k"] that d0(2) by (simp add: input_widgets_def points_of_def)
  with r(4) show "update_shown env (ui_last_proto_update s) loc (prf_use_fahrenheit p) s' \<and>
      (\<forall>i < 2. points_of s' (S_temp_series i) = sht20_point env (ui_last_proto_update s) (prf_use_fahrenheit p) i # points_of s (S_temp_series i))"
    if "ui_has_last_proto_update s" using that by simp
  show "ui_w s' = ui_w s" using r(1) t09 d0(3) by (simp add: touches_def)
qed

end
