(* ===== verification/UiProps.thy ===== *)
theory UiProps
  imports UiShow
begin

text \<open>
  What the user sees and what a click sends, after any run of the interface: an update is on
  the screens, preferences are in the inputs and the texts, and which language the Apply button
  asks for.
\<close>

lemma ui_run_distinct:
  assumes "ui_run env cbs s" "\<forall>l. lv_scr_act env l \<noteq> None"
  shows "distinct_widgets s"
  using ui_run_ready [OF assms] by (simp add: distinct_widgets_def ui_ready_def ready_w_def)

text \<open>
  C16. An update is shown as it is. After any run, \<^verbatim>\<open>ui_update_sensor_data\<close> leaves on the screens
  exactly the values of the update, in the language and the unit that are chosen: identifiers,
  temperatures and humidities of the ambient sensors with faults and missing values marked, the
  addresses and temperatures of the thermometers, the sequence number, all 32 pins, all 16 duty
  cycles, the frequency; each temperature trace gets one point; and no other widget changes.
\<close>

theorem ui_shows_update:
  assumes "ui_run env cbs s" "\<forall>l. lv_scr_act env l \<noteq> None"
  shows "update_shown env u (get_locale s) uf (ui_update_sensor_data env (Some u) uf s) \<and>
    (\<forall>i < 2. points_of (ui_update_sensor_data env (Some u) uf s) (S_temp_series i) =
       sht20_point env u uf i # points_of s (S_temp_series i)) \<and>
    touches (reading_widgets \<union> gpio_widgets \<union> pwm_widgets \<union> chart_widgets) s (ui_update_sensor_data env (Some u) uf s)"
  using update_shows [OF ui_run_distinct [OF assms] refl] by blast

definition demo_reading :: proto_sensor_update_t where
  "demo_reading = zero_sensor_update\<lparr>su_sequence_id := 7, su_sht20_count := 1,
     su_sht20 := [\<lparr>sht_id = ''SHT20_1'', sht_temperature_c = Num 25, sht_humidity_percent = Num 40, sht_valid = True\<rparr>,
       \<lparr>sht_id = [], sht_temperature_c = Num 0, sht_humidity_percent = Num 0, sht_valid = False\<rparr>],
     su_mcp := [\<lparr>mcp_port_a = 4, mcp_port_b = 0\<rparr>, \<lparr>mcp_port_a = 0, mcp_port_b = 1\<rparr>]\<rparr>"

abbreviation demo_ui :: ui where
  "demo_ui \<equiv> ui_init demo_lv (Some demo_callbacks) (ui_static [] 2)"

theorem ui_shows_update_witness:
  "text_of (ui_update_sensor_data demo_lv (Some demo_reading) False demo_ui) (S_sht20_name 0) = Some ''SHT20_1'' \<and>
   on_of (ui_update_sensor_data demo_lv (Some demo_reading) False demo_ui) (S_gpio_switch 1 8) = Some True"
proof -
  let ?s = "ui_update_sensor_data demo_lv (Some demo_reading) False demo_ui"
  have shown: "update_shown demo_lv demo_reading (get_locale demo_ui) False ?s"
    using ui_shows_update [OF run_init demo_scr] by blast
  then have "sht20_shown demo_lv demo_reading (get_locale demo_ui) False 0 ?s" "pin_shown demo_reading (get_locale demo_ui) 1 8 ?s"
    by (simp_all add: update_shown_def)
  then show ?thesis by (simp add: sht20_shown_def pin_shown_def pin_on_def demo_reading_def Let_def)
qed

text \<open>
  C26. Preferences are shown as they are. After any run, \<^verbatim>\<open>ui_apply_preferences\<close> sets every switch
  and the slider to the preferences and every label to the language, and shows the last update
  again in the chosen unit. This puts the last reading in the traces a second time, after
  the points of the unit chosen before.
\<close>

theorem preferences_shown:
  assumes "ui_run env cbs s" "\<forall>l. lv_scr_act env l \<noteq> None"
    and "s' = ui_apply_preferences env (Some p) s" "loc = get_locale (s\<lparr>ui_active_prefs := p\<rparr>)"
  shows "inputs_shown p s' \<and> (\<forall>(x, t) \<in> set (label_texts loc). text_of s' x = Some t) \<and>
    (ui_has_last_proto_update s \<longrightarrow> update_shown env (ui_last_proto_update s) loc (prf_use_fahrenheit p) s' \<and>
      (\<forall>i < 2. points_of s' (S_temp_series i) =
         sht20_point env (ui_last_proto_update s) (prf_use_fahrenheit p) i # points_of s (S_temp_series i)))"
  using preferences_show [OF ui_run_distinct [OF assms(1,2)] assms(3,4)] by blast

definition french :: hmi_user_preferences_t where
  "french = zero_preferences\<lparr>prf_language := HMI_LANGUAGE_FR, prf_use_fahrenheit := True\<rparr>"

abbreviation demo_ui_7 :: ui where
  "demo_ui_7 \<equiv> ui_update_sensor_data demo_lv (Some demo_reading) False demo_ui"

theorem preferences_shown_witness:
  "text_of (ui_apply_preferences demo_lv (Some french) demo_ui_7) S_apply_label = Some ''Appliquer'' \<and>
   on_of (ui_apply_preferences demo_lv (Some french) demo_ui_7) S_units_switch = Some True \<and>
   (\<exists>older. points_of (ui_apply_preferences demo_lv (Some french) demo_ui_7) (S_temp_series 0) = Some 770 # Some 250 # older)"
proof -
  let ?s = "ui_apply_preferences demo_lv (Some french) demo_ui_7"
  have run: "ui_run demo_lv (Some demo_callbacks) demo_ui_7" by (rule run_update [OF run_init])
  have loc: "get_locale (demo_ui_7\<lparr>ui_active_prefs := french\<rparr>) = s_pack_fr"
    by (simp add: get_locale_def french_def ui_locale_get_pack_def HMI_LANGUAGE_FR_def HMI_LANGUAGE_MAX_def word_less_nat_alt word_le_nat_alt)
  have kept: "ui_has_last_proto_update demo_ui_7" "ui_last_proto_update demo_ui_7 = demo_reading"
    by (simp_all add: ui_update_sensor_data_def Let_def)
  have point: "sht20_point demo_lv demo_reading True 0 = Some 770" "sht20_point demo_lv demo_reading False 0 = Some 250"
    by (simp_all add: sht20_point_def demo_reading_def demo_lv_def chart_temperature_def chart_point_def to_fahrenheit_def rat_trunc_def Let_def)
  have prefs: "prf_use_fahrenheit french" by (simp add: french_def)
  have shown: "inputs_shown french ?s" "\<forall>(x, t) \<in> set (label_texts s_pack_fr). text_of ?s x = Some t"
    "\<forall>i < 2. points_of ?s (S_temp_series i) = sht20_point demo_lv demo_reading True i # points_of demo_ui_7 (S_temp_series i)"
    using preferences_shown [OF run demo_scr refl loc [symmetric]] kept prefs by simp_all
  have before: "points_of demo_ui_7 (S_temp_series 0) = Some 250 # points_of demo_ui (S_temp_series 0)"
    using update_shows(3) [OF ui_run_distinct [OF run_init demo_scr] refl, where u = demo_reading and uf = False] point(2) by simp
  have apply_text: "(S_apply_label, ''Appliquer'') \<in> set (label_texts s_pack_fr)" by (simp add: label_texts_def s_pack_fr_def)
  show ?thesis
    using shown(1,3) bspec [OF shown(2) apply_text] point(1) before prefs by (simp add: inputs_shown_def)
qed

section \<open>The choice of language\<close>

text \<open>
  What LVGL documents of a drop-down list nobody touches: setting its options selects the first
  of them, and what is selected changes by the two calls on it only.
\<close>

definition left_alone :: "lv_env \<Rightarrow> bool" where
  "left_alone env \<longleftrightarrow>
     (\<forall>l q t. lv_dropdown_get_selected env (LvDropdownOptions q t # l) q = 0) \<and>
     (\<forall>l q v. lv_dropdown_get_selected env (LvDropdownSelected q v # l) q = v) \<and>
     (\<forall>l q c. (\<forall>t. c \<noteq> LvDropdownOptions q t) \<and> (\<forall>v. c \<noteq> LvDropdownSelected q v) \<longrightarrow>
        lv_dropdown_get_selected env (c # l) q = lv_dropdown_get_selected env l q)"

lemma selected_last:
  assumes "left_alone env"
  shows "dropdown_last l q = Some (OptionsSet t) \<Longrightarrow> lv_dropdown_get_selected env l q = 0"
proof (induction l)
  case (Cons c l)
  then show ?case using assms by (cases c) (auto simp: left_alone_def split: if_splits)
qed simp

text \<open>
  C38. The choice of language is lost. \<^verbatim>\<open>ui_apply_preferences\<close> selects the language in the
  drop-down list and then sets the options of the list again, which selects the first: with
  any preferences on the screens, French ones too, the next click on Apply asks for English.
\<close>

theorem language_choice_lost:
  assumes "ui_run env (Some cb) s" "\<forall>l. lv_scr_act env l \<noteq> None" "cb_apply_preferences cb" "left_alone env"
    and "s' = ui_apply_preferences env (Some p) s"
  shows "\<exists>q. run_handler env PrefsApplyEventCb \<lparr>ev_code = EVENT_CLICKED, ev_target = b, ev_user_data = NoData\<rparr> s' =
    (s', Some (CallApplyPreferences q)) \<and> prf_language q = HMI_LANGUAGE_EN"
proof -
  note d = ui_run_distinct [OF assms(1,2)]
  have w: "ui_w s' = ui_w s" and o': "\<exists>t. dropdown_of s' S_language_dd = Some (OptionsSet t)"
    using preferences_show [OF d assms(5) refl] by auto
  have cb: "ui_callbacks s' = cb"
    using ui_run_ready [OF run_preferences [OF assms(1)] assms(2), of "Some p"] assms(5) by simp
  have "lv_dropdown_get_selected env (ui_log s') (ui_w s' S_language_dd) = 0"
    using o' selected_last [OF assms(4)] by (auto simp: dropdown_of_def look_def look_at_def)
  moreover have "ui_w s' S_language_dd \<noteq> None" using widget_set [OF d] w by simp
  ultimately show ?thesis
    using cb assms(3)
    by (simp add: run_handler_def prefs_apply_event_cb_def dispatch_apply_preferences_def Let_def HMI_LANGUAGE_MAX_def HMI_LANGUAGE_EN_def)
qed

fun demo_selected :: "lv_call list \<Rightarrow> objp \<Rightarrow> u16" where
  "demo_selected [] q = 0"
| "demo_selected (LvDropdownOptions p t # l) q = (if p = q then 0 else demo_selected l q)"
| "demo_selected (LvDropdownSelected p v # l) q = (if p = q then v else demo_selected l q)"
| "demo_selected (c # l) q = demo_selected l q"

lemma demo_left_alone: "left_alone (demo_lv\<lparr>lv_dropdown_get_selected := demo_selected\<rparr>)"
proof -
  have "(\<forall>t. c \<noteq> LvDropdownOptions q t) \<and> (\<forall>v. c \<noteq> LvDropdownSelected q v) \<Longrightarrow> demo_selected (c # l) q = demo_selected l q" for c l q
    by (cases c) auto
  then show ?thesis by (simp add: left_alone_def)
qed

theorem language_choice_lost_witness:
  "\<exists>q. snd (run_handler (demo_lv\<lparr>lv_dropdown_get_selected := demo_selected\<rparr>) PrefsApplyEventCb
       \<lparr>ev_code = EVENT_CLICKED, ev_target = Some 3, ev_user_data = NoData\<rparr>
       (ui_apply_preferences (demo_lv\<lparr>lv_dropdown_get_selected := demo_selected\<rparr>) (Some french)
         (ui_init (demo_lv\<lparr>lv_dropdown_get_selected := demo_selected\<rparr>) (Some demo_callbacks) (ui_static [] 2)))) =
    Some (CallApplyPreferences q) \<and> prf_language q \<noteq> prf_language french"
proof -
  let ?env = "demo_lv\<lparr>lv_dropdown_get_selected := demo_selected\<rparr>"
  have scr: "\<forall>l. lv_scr_act ?env l \<noteq> None" using demo_scr by simp
  have cb: "cb_apply_preferences demo_callbacks" by (simp add: demo_callbacks_def)
  have lang: "prf_language french = 1" by (simp add: french_def HMI_LANGUAGE_FR_def)
  from language_choice_lost [OF run_init scr cb demo_left_alone refl, where b = "Some 3" and p = french] obtain q
    where "run_handler ?env PrefsApplyEventCb \<lparr>ev_code = EVENT_CLICKED, ev_target = Some 3, ev_user_data = NoData\<rparr>
      (ui_apply_preferences ?env (Some french) (ui_init ?env (Some demo_callbacks) (ui_static [] 2))) =
      (ui_apply_preferences ?env (Some french) (ui_init ?env (Some demo_callbacks) (ui_static [] 2)), Some (CallApplyPreferences q))"
      "prf_language q = HMI_LANGUAGE_EN" by blast
  then have "snd (run_handler ?env PrefsApplyEventCb \<lparr>ev_code = EVENT_CLICKED, ev_target = Some 3, ev_user_data = NoData\<rparr>
      (ui_apply_preferences ?env (Some french) (ui_init ?env (Some demo_callbacks) (ui_static [] 2)))) = Some (CallApplyPreferences q)"
      "prf_language q \<noteq> prf_language french"
    by (simp_all only: snd_conv lang HMI_LANGUAGE_EN_def) simp
  then show ?thesis by blast
qed

end
