(* ===== verification/UiTask.thy ===== *)
theory UiTask
  imports UiProps Nodes Display
begin

text \<open>
  The task of the user interface, \<^verbatim>\<open>hmi_node/main/tasks/t_ui.c\<close>: it is where the data model, the
  screens, the preferences in flash and the link to the sensor node meet. Everything that calls
  LVGL runs in this task, the event callbacks too, within \<^verbatim>\<open>lv_timer_handler\<close>.

  \<open>ui_task_turn\<close> is one turn of the endless loop; its list of inputs is what the user
  does while the timers of LVGL run. A lock of the data model and the clock are arguments, as
  in the theories of those components.
\<close>

section \<open>The task\<close>

record ui_task_env =
  te_lv :: lv_env
  te_nvs :: nvs_env
  te_cli :: cli_env
  te_disp :: disp_env
  te_colour_size :: u32

record ui_task =
  ut_model :: hmi_data_model_t
  ut_prefs :: hmi_user_preferences_t
  ut_store :: prefs_store
  ut_ui :: ui
  ut_link :: hmi_link
  ut_display :: display

definition ui_send :: "ui_task_env \<Rightarrow> u32 \<Rightarrow> proto_command_t \<Rightarrow> ui_task \<Rightarrow> ui_task" where
  "ui_send env now cmd t = t\<lparr>ut_link := snd (hmi_ws_client_send_command (te_cli env) now (Some cmd) (ut_link t))\<rparr>"

definition ui_cb_set_pwm :: "ui_task_env \<Rightarrow> u32 \<Rightarrow> u8 \<Rightarrow> u16 \<Rightarrow> ui_task \<Rightarrow> ui_task" where
  "ui_cb_set_pwm env now channel duty t =
     ui_send env now (zero_command\<lparr>cmd_has_pwm_update := True, cmd_pwm_channel := channel, cmd_pwm_duty_cycle := duty\<rparr>) t"

definition ui_cb_set_pwm_freq :: "ui_task_env \<Rightarrow> u32 \<Rightarrow> u16 \<Rightarrow> ui_task \<Rightarrow> ui_task" where
  "ui_cb_set_pwm_freq env now freq t =
     ui_send env now (zero_command\<lparr>cmd_has_pwm_frequency := True, cmd_pwm_frequency := freq\<rparr>) t"

definition ui_cb_write_gpio :: "ui_task_env \<Rightarrow> u32 \<Rightarrow> u8 \<Rightarrow> u8 \<Rightarrow> u16 \<Rightarrow> u16 \<Rightarrow> ui_task \<Rightarrow> ui_task" where
  "ui_cb_write_gpio env now device_index port msk v t =
     ui_send env now (zero_command\<lparr>cmd_has_gpio_write := True, cmd_gpio_device_index := device_index, cmd_gpio_port := port,
       cmd_gpio_mask := msk, cmd_gpio_value := v\<rparr>) t"

definition ui_cb_apply_prefs :: "ui_task_env \<Rightarrow> bool \<Rightarrow> hmi_user_preferences_t option \<Rightarrow> ui_task \<Rightarrow> ui_task" where
  "ui_cb_apply_prefs env took prefsp t =
     (case prefsp of
        None \<Rightarrow> t
      | Some prefs \<Rightarrow>
          let t = t\<lparr>ut_prefs := prefs\<rparr>;
              t = t\<lparr>ut_model := hmi_data_model_set_preferences took (ut_prefs t) (ut_model t)\<rparr>;
              t = t\<lparr>ut_store := snd (hmi_prefs_store_save (te_nvs env) (ut_prefs t) (ut_store t))\<rparr>
          in t\<lparr>ut_ui := ui_apply_preferences (te_lv env) (Some (ut_prefs t)) (ut_ui t)\<rparr>)"

definition ui_get_prefs :: "bool \<Rightarrow> ui_task \<Rightarrow> ui_task" where
  "ui_get_prefs took t =
     (case hmi_data_model_get_preferences took (ut_model t) of None \<Rightarrow> t | Some p \<Rightarrow> t\<lparr>ut_prefs := p\<rparr>)"

definition ui_cb_reset_prefs :: "ui_task_env \<Rightarrow> bool \<Rightarrow> bool \<Rightarrow> ui_task \<Rightarrow> ui_task" where
  "ui_cb_reset_prefs env took1 took2 t =
     (let t = t\<lparr>ut_model := hmi_data_model_reset_preferences took1 (ut_model t)\<rparr>;
          t = ui_get_prefs took2 t;
          t = t\<lparr>ut_ui := ui_apply_preferences (te_lv env) (Some (ut_prefs t)) (ut_ui t)\<rparr>
      in t\<lparr>ut_store := snd (hmi_prefs_store_erase (te_nvs env) (ut_store t))\<rparr>)"

text \<open>An input of the user: the event LVGL delivers, the clock, and the outcomes of two locks.\<close>

record ui_input =
  in_target :: objp
  in_handler :: ui_handler
  in_code :: lv_event_code
  in_data :: user_data
  in_now :: u32
  in_took1 :: bool
  in_took2 :: bool

definition ui_callback :: "ui_task_env \<Rightarrow> ui_input \<Rightarrow> ui_call \<Rightarrow> ui_task \<Rightarrow> ui_task" where
  "ui_callback env i c t =
     (case c of
        CallSetPwm channel duty \<Rightarrow> ui_cb_set_pwm env (in_now i) channel duty t
      | CallSetPwmFrequency freq \<Rightarrow> ui_cb_set_pwm_freq env (in_now i) freq t
      | CallWriteGpio device_index port msk v \<Rightarrow> ui_cb_write_gpio env (in_now i) device_index port msk v t
      | CallApplyPreferences prefs \<Rightarrow> ui_cb_apply_prefs env (in_took1 i) (Some prefs) t
      | CallResetPreferences \<Rightarrow> ui_cb_reset_prefs env (in_took1 i) (in_took2 i) t)"

definition ui_task_input :: "ui_task_env \<Rightarrow> ui_input \<Rightarrow> ui_task \<Rightarrow> ui_task" where
  "ui_task_input env i t =
     (case run_handler (te_lv env) (in_handler i) \<lparr>ev_code = in_code i, ev_target = in_target i, ev_user_data = in_data i\<rparr> (ut_ui t) of
        (u, None) \<Rightarrow> t\<lparr>ut_ui := u\<rparr>
      | (u, Some c) \<Rightarrow> ui_callback env i c (t\<lparr>ut_ui := u\<rparr>))"

definition ui_task_callbacks :: ui_callbacks_t where
  "ui_task_callbacks = \<lparr>cb_set_pwm = True, cb_set_pwm_frequency = True, cb_write_gpio = True, cb_apply_preferences = True,
     cb_reset_preferences = True\<rparr>"

definition ui_task_prologue :: "ui_task_env \<Rightarrow> bool \<Rightarrow> bool \<Rightarrow> ui_task \<Rightarrow> ui_task" where
  "ui_task_prologue env took1 took2 t =
     (let t = t\<lparr>ut_display := snd (lvgl_port_init (te_disp env) (te_colour_size env) (ut_display t))\<rparr>;
          t = t\<lparr>ut_ui := ui_init (te_lv env) (Some ui_task_callbacks) (ut_ui t)\<rparr>;
          t = ui_get_prefs took1 t;
          t = t\<lparr>ut_ui := ui_apply_preferences (te_lv env) (Some (ut_prefs t)) (ut_ui t)\<rparr>
      in case hmi_data_model_peek_update took2 (ut_model t) of (there, update) \<Rightarrow>
        if there then t\<lparr>ut_ui := ui_update_sensor_data (te_lv env) update (prf_use_fahrenheit (ut_prefs t)) (ut_ui t)\<rparr> else t)"

definition ui_task_update :: "ui_task_env \<Rightarrow> bool \<Rightarrow> ui_task \<Rightarrow> ui_task" where
  "ui_task_update env took t =
     (case hmi_data_model_get_update took (ut_model t) of
        (None, m) \<Rightarrow> t\<lparr>ut_model := m\<rparr>
      | (Some update, m) \<Rightarrow>
          t\<lparr>ut_model := m, ut_ui := ui_update_sensor_data (te_lv env) (Some update) (prf_use_fahrenheit (ut_prefs t)) (ut_ui t)\<rparr>)"

definition ui_task_turn :: "ui_task_env \<Rightarrow> bool \<times> bool \<times> bool \<Rightarrow> ui_input list \<Rightarrow> ui_task \<Rightarrow> ui_task" where
  "ui_task_turn env took inputs t =
     (case took of (took1, took2, took3) \<Rightarrow>
      let t = ui_task_update env took1 t;
          t = t\<lparr>ut_ui := ui_update_connection_status (hmi_data_model_is_connected took2 (ut_model t)) (ut_ui t)\<rparr>;
          t = t\<lparr>ut_ui := ui_update_crc_status (hmi_data_model_get_crc_status took3 (ut_model t)) (ut_ui t)\<rparr>;
          t = t\<lparr>ut_ui := ui_process (ut_ui t)\<rparr>
      in fold (ui_task_input env) inputs t)"

definition ui_task_start :: "hmi_data_model_t \<Rightarrow> ui_task \<Rightarrow> ui_task" where
  "ui_task_start model t = t\<lparr>ut_model := model\<rparr>"

section \<open>Runs\<close>

text \<open>
  The task starts with the static variables of the interface cleared; between its turns the
  network task changes the data model and the link. An input is an event that is registered.
\<close>

definition ui_input_ok :: "ui_task \<Rightarrow> ui_input \<Rightarrow> bool" where
  "ui_input_ok t i \<longleftrightarrow> (in_target i, in_handler i, in_code i, in_data i) \<in> regs (ui_log (ut_ui t))"

inductive ui_task_run :: "ui_task_env \<Rightarrow> ui_task \<Rightarrow> bool" for env where
  task_start: "ut_ui t = ui_static [] n \<Longrightarrow> ui_task_run env (ui_task_prologue env took1 took2 t)"
| task_turn: "ui_task_run env t \<Longrightarrow> ui_task_run env (ui_task_turn env took [] t)"
| task_input: "ui_task_run env t \<Longrightarrow> ui_input_ok t i \<Longrightarrow> ui_task_run env (ui_task_input env i t)"
| task_network: "ui_task_run env t \<Longrightarrow> ui_task_run env (t\<lparr>ut_model := hmi_call_step c (ut_model t)\<rparr>)"
| task_link: "ui_task_run env t \<Longrightarrow> ui_task_run env (t\<lparr>ut_link := l\<rparr>)"

text \<open>A turn with inputs is a turn without and the inputs one after the other.\<close>

lemma turn_inputs: "ui_task_turn env took inputs t = fold (ui_task_input env) inputs (ui_task_turn env took [] t)"
  by (simp add: ui_task_turn_def Let_def split: prod.split)

section \<open>The preferences in force\<close>

text \<open>Only \<^verbatim>\<open>ui_apply_preferences\<close> changes the preferences the screens are drawn with.\<close>

lemma prefs_of_data: "ui_data s' = ui_data s \<Longrightarrow> ui_active_prefs s' = ui_active_prefs s"
  by (simp add: ui_data_def)

lemmas prefs_of_datas [simp] = data_kept [THEN prefs_of_data] data_loops [THEN prefs_of_data]

lemma prefs_states [simp]:
  "ui_active_prefs (update_gpio_state u s) = ui_active_prefs s" "ui_active_prefs (update_pwm_state u s) = ui_active_prefs s"
  "ui_active_prefs (update_charts env u uf s) = ui_active_prefs s"
  by (simp_all add: update_gpio_state_def update_pwm_state_def update_charts_def Let_def show_pin_def show_duty_def
      chart_sht20_def chart_ds18b20_def for_loop_keeps [where f = ui_active_prefs])

lemma prefs_sensor_data [simp]: "ui_active_prefs (ui_update_sensor_data env u uf s) = ui_active_prefs s"
  by (simp add: ui_update_sensor_data_def Let_def for_loop_keeps [where f = ui_active_prefs] split: option.split)

lemma prefs_clears [simp]:
  "ui_active_prefs (clear_sht20 loc i s) = ui_active_prefs s" "ui_active_prefs (clear_ds18b20 loc i s) = ui_active_prefs s"
  by (simp_all add: clear_sht20_def clear_ds18b20_def)

lemma prefs_refresh [simp]: "ui_active_prefs (refresh_localised_text env s) = ui_active_prefs s"
  by (simp add: refresh_localised_text_def Let_def for_loop_keeps [where f = ui_active_prefs])

lemma prefs_touch_style [simp]: "ui_active_prefs (s\<lparr>ui_updating := b\<rparr>) = ui_active_prefs s"
  by simp

lemma prefs_applied [simp]: "ui_active_prefs (ui_apply_preferences env (Some p) s) = p"
  by (simp add: ui_apply_preferences_def Let_def)

lemma prefs_process [simp]: "ui_active_prefs (ui_process s) = ui_active_prefs s"
  by (simp add: ui_process_def)

lemma prefs_handler [simp]: "ui_active_prefs (fst (run_handler env h e s)) = ui_active_prefs s"
  by (cases h) (simp_all add: run_handler_def gpio_switch_event_cb_def pwm_slider_event_cb_def pwm_freq_event_cb_def
      text_scale_event_cb_def prefs_apply_event_cb_def prefs_reset_event_cb_def dispatch_pwm_value_def dispatch_pwm_frequency_def
      Let_def split: option.split)

section \<open>What holds in every run\<close>

lemma callback_ui:
  assumes "ui_run (te_lv env) (Some ui_task_callbacks) (ut_ui t)" "ui_active_prefs (ut_ui t) = ut_prefs t"
  shows "ui_run (te_lv env) (Some ui_task_callbacks) (ut_ui (ui_callback env i c t)) \<and>
    ui_active_prefs (ut_ui (ui_callback env i c t)) = ut_prefs (ui_callback env i c t)"
  using assms run_preferences
  by (cases c) (simp_all add: ui_callback_def ui_cb_set_pwm_def ui_cb_set_pwm_freq_def ui_cb_write_gpio_def ui_send_def
      ui_cb_apply_prefs_def ui_cb_reset_prefs_def ui_get_prefs_def Let_def split: option.split)

lemma ui_task_run_ui:
  "ui_task_run env t \<Longrightarrow> ui_run (te_lv env) (Some ui_task_callbacks) (ut_ui t) \<and> ui_active_prefs (ut_ui t) = ut_prefs t"
proof (induction rule: ui_task_run.induct)
  case (task_start t n took1 took2)
  let ?t = "ui_get_prefs took1 (t\<lparr>ut_display := snd (lvgl_port_init (te_disp env) (te_colour_size env) (ut_display t)),
    ut_ui := ui_init (te_lv env) (Some ui_task_callbacks) (ut_ui t)\<rparr>)"
  have u: "ui_run (te_lv env) (Some ui_task_callbacks) (ut_ui ?t)"
    using run_init task_start by (simp add: ui_get_prefs_def split: option.split)
  show ?case
    using run_preferences [OF u] run_update [OF run_preferences [OF u]]
    by (simp add: ui_task_prologue_def Let_def split: prod.split)
next
  case (task_turn t took)
  have "ui_run (te_lv env) (Some ui_task_callbacks) (ut_ui (ui_task_update env took1 t)) \<and>
      ui_active_prefs (ut_ui (ui_task_update env took1 t)) = ut_prefs (ui_task_update env took1 t)" for took1
    using task_turn.IH run_update by (simp add: ui_task_update_def split: prod.split option.split)
  then show ?case
    by (simp add: ui_task_turn_def Let_def run_process run_crc run_connection split: prod.split)
next
  case (task_input t i)
  let ?r = "run_handler (te_lv env) (in_handler i) \<lparr>ev_code = in_code i, ev_target = in_target i, ev_user_data = in_data i\<rparr> (ut_ui t)"
  obtain u c where r: "?r = (u, c)" by fastforce
  have u: "ui_run (te_lv env) (Some ui_task_callbacks) u"
    using run_event [of "te_lv env" "Some ui_task_callbacks" "ut_ui t" "in_target i" "in_handler i" "in_code i" "in_data i"]
      task_input r by (simp add: ui_input_ok_def)
  have "ui_active_prefs u = ut_prefs t" using task_input r by (metis fst_conv prefs_handler)
  with u r callback_ui [of env "t\<lparr>ut_ui := u\<rparr>" i] show ?case
    by (cases c) (simp_all add: ui_task_input_def)
qed simp_all

section \<open>Telemetry on the screens\<close>

lemma status_text:
  assumes "distinct_widgets s"
  shows "text_of (ui_update_connection_status conn s) S_status_label =
      Some (if conn then label_wifi_connected (get_locale s) else label_wifi_disconnected (get_locale s))"
    "text_of (ui_update_crc_status ok s) S_crc_badge = Some (if ok then label_crc_ok (get_locale s) else label_crc_error (get_locale s))"
proof -
  have "ui_w s S_status_label \<noteq> None" "ui_w s S_crc_badge \<noteq> None" using widget_set [OF assms] by simp_all
  then show "text_of (ui_update_connection_status conn s) S_status_label =
      Some (if conn then label_wifi_connected (get_locale s) else label_wifi_disconnected (get_locale s))"
    "text_of (ui_update_crc_status ok s) S_crc_badge = Some (if ok then label_crc_ok (get_locale s) else label_crc_error (get_locale s))"
    by (auto simp: ui_update_connection_status_def ui_update_crc_status_def Let_def look_simps get_locale_def)
qed

lemma update_shown_kept:
  assumes "touches {S_status_label, S_crc_badge} s s'" "update_shown env u loc uf s"
  shows "update_shown env u loc uf s'"
  using assms(2) touched [OF assms(1)]
  by (simp add: update_shown_def sht20_shown_def ds18b20_shown_def sequence_shown_def pin_shown_def duty_shown_def frequency_shown_def Let_def)

lemma news_shown:
  assumes "ui_task_run env t" "\<forall>l. lv_scr_act (te_lv env) l \<noteq> None"
    and "hdm_mutex (ut_model t)" "hdm_has_update (ut_model t)"
    and "t' = ui_task_turn env (True, True, True) [] t" "loc = get_locale (ut_ui t)"
  shows "update_shown (te_lv env) (hdm_last_update (ut_model t)) loc (prf_use_fahrenheit (ut_prefs t)) (ut_ui t') \<and>
    text_of (ut_ui t') S_status_label =
      Some (if hdm_connected (ut_model t) then label_wifi_connected loc else label_wifi_disconnected loc) \<and>
    text_of (ut_ui t') S_crc_badge = Some (if hdm_last_crc_ok (ut_model t) then label_crc_ok loc else label_crc_error loc) \<and>
    ut_model t' = (ut_model t)\<lparr>hdm_has_update := False\<rparr> \<and> ut_prefs t' = ut_prefs t \<and>
    ui_active_prefs (ut_ui t') = ut_prefs t"
proof -
  let ?m = "ut_model t" and ?uf = "prf_use_fahrenheit (ut_prefs t)" and ?env = "te_lv env"
  let ?s1 = "ui_update_sensor_data ?env (Some (hdm_last_update ?m)) ?uf (ut_ui t)"
  let ?s2 = "ui_update_connection_status (hdm_connected ?m) ?s1"
  let ?s3 = "ui_update_crc_status (hdm_last_crc_ok ?m) ?s2"
  note run = ui_task_run_ui [OF assms(1)]
  have t': "t' = t\<lparr>ut_model := ?m\<lparr>hdm_has_update := False\<rparr>, ut_ui := ui_process ?s3\<rparr>"
    using assms(3,4) by (simp add: assms(5) ui_task_turn_def ui_task_update_def hmi_data_model_get_update_def hmi_model_lock_def
        hmi_data_model_is_connected_def hmi_data_model_get_crc_status_def Let_def)
  note d = ui_run_distinct [OF conjunct1 [OF run] assms(2)]
  note shown = update_shows [OF d refl, where u = "hdm_last_update ?m" and uf = ?uf, folded assms(6)]
  note d1 = touches_distinct [OF shown(2) d]
  note c2 = connection_shows(1) [OF d1, where conn = "hdm_connected ?m"]
  note d2 = touches_distinct [OF c2 d1]
  note c3 = connection_shows(2) [OF d2, where ok = "hdm_last_crc_ok ?m"]
  note d3 = touches_distinct [OF c3 d2]
  have p: "touches {} ?s3 (ui_process ?s3)" unfolding ui_process_def by (rule touches_calls [OF d3]) simp_all
  have loc: "get_locale ?s1 = loc" "get_locale ?s2 = loc" using assms(6) by (simp_all add: get_locale_def)
  have c23: "touches {S_status_label, S_crc_badge} ?s1 (ui_process ?s3)"
    by (rule touches_trans [OF touches_mono [OF c2] touches_trans [OF touches_mono [OF c3] touches_mono [OF p]]]) auto
  have "text_of (ui_process ?s3) S_status_label = text_of ?s2 S_status_label" "text_of (ui_process ?s3) S_crc_badge = text_of ?s3 S_crc_badge"
    using touched_text [OF p] touched_text [OF c3] by simp_all
  with status_text(1) [OF d1, where conn = "hdm_connected ?m"] status_text(2) [OF d2, where ok = "hdm_last_crc_ok ?m"] loc
  show ?thesis using update_shown_kept [OF c23 shown(1)] run by (simp add: t')
qed

text \<open>
  News is on the screens after one turn. In any run of the task, when the data model holds an
  update that is new and its locks are taken in time, one turn of the loop shows the update, in
  the language and the unit of the preferences in force, with the state of the link and of the
  checksum beside it, and takes the update out of the mailbox.
\<close>

theorem ui_task_shows_news:
  assumes "ui_task_run env t" "\<forall>l. lv_scr_act (te_lv env) l \<noteq> None"
    and "hdm_mutex (ut_model t)" "hdm_has_update (ut_model t)"
    and "t' = ui_task_turn env (True, True, True) [] t" "loc = get_locale (ut_ui t)"
  shows "update_shown (te_lv env) (hdm_last_update (ut_model t)) loc (prf_use_fahrenheit (ut_prefs t)) (ut_ui t') \<and>
    text_of (ut_ui t') S_status_label =
      Some (if hdm_connected (ut_model t) then label_wifi_connected loc else label_wifi_disconnected loc) \<and>
    text_of (ut_ui t') S_crc_badge = Some (if hdm_last_crc_ok (ut_model t) then label_crc_ok loc else label_crc_error loc) \<and>
    ut_model t' = (ut_model t)\<lparr>hdm_has_update := False\<rparr> \<and> ut_prefs t' = ut_prefs t \<and>
    ui_active_prefs (ut_ui t') = ut_prefs t"
  using assms by (rule news_shown)

lemma run_ws_rx: "ui_task_run env t \<Longrightarrow> ui_task_run env (t\<lparr>ut_model := hmi_ws_rx cj locks data crc (ut_model t)\<rparr>)"
  using task_network [of env t "(locks 0, SetCrcStatus False)"]
    task_network [OF task_network, of env t "(locks 1, SetCrcStatus True)" "(locks 0, SetUpdate u)" for u]
  by (simp add: hmi_ws_rx_def handle_sensor_update_def split: option.split)

lemma prologue_kept [simp]:
  "ut_model (ui_task_prologue env took1 took2 t) = ut_model t" "ut_link (ui_task_prologue env took1 took2 t) = ut_link t"
  by (simp_all add: ui_task_prologue_def ui_get_prefs_def Let_def split: prod.split option.split)

definition demo_te :: ui_task_env where
  "demo_te = \<lparr>te_lv = demo_lv, te_nvs = demo_nvs, te_cli = demo_cli_env, te_disp = demo_disp, te_colour_size = 2\<rparr>"

definition demo_boot :: ui_task where
  "demo_boot = \<lparr>ut_model = demo_hmi, ut_prefs = zero_preferences, ut_store = demo_store, ut_ui = ui_static [] 2,
     ut_link = demo_link, ut_display = disp_start\<rparr>"

abbreviation demo_task :: ui_task where
  "demo_task \<equiv> ui_task_prologue demo_te True True demo_boot"

lemma demo_boot_fields: "ut_ui demo_boot = ui_static [] 2" "ut_model demo_boot = demo_hmi" "ut_link demo_boot = demo_link"
    "hdm_mutex demo_hmi" "\<forall>l. lv_scr_act (te_lv demo_te) l \<noteq> None" "te_lv demo_te = demo_lv"
  using demo_scr by (auto simp: demo_boot_def demo_te_def demo_hmi_def hmi_data_model_init_def Let_def split: prod.split)

lemma demo_run: "ui_task_run demo_te demo_task"
  by (rule task_start) (rule demo_boot_fields(1))

theorem ui_task_shows_news_witness:
  "let t = demo_task\<lparr>ut_model := hmi_call_step (True, SetUpdate demo_reading) (ut_model demo_task)\<rparr>;
       t' = ui_task_turn demo_te (True, True, True) [] t
   in text_of (ut_ui t') (S_sht20_name 0) = Some ''SHT20_1'' \<and> on_of (ut_ui t') (S_gpio_switch 1 8) = Some True \<and>
      \<not> hdm_has_update (ut_model t')"
proof -
  let ?t = "demo_task\<lparr>ut_model := hmi_call_step (True, SetUpdate demo_reading) (ut_model demo_task)\<rparr>"
  let ?t' = "ui_task_turn demo_te (True, True, True) [] ?t"
  have m: "hdm_mutex (ut_model ?t)" "hdm_has_update (ut_model ?t)" "hdm_last_update (ut_model ?t) = demo_reading"
    using demo_boot_fields by (simp_all add: hmi_data_model_set_update_def hmi_model_lock_def)
  note shown = ui_task_shows_news [OF task_network [OF demo_run] demo_boot_fields(5) m(1,2) refl refl]
  have "update_shown demo_lv demo_reading (get_locale (ut_ui ?t)) (prf_use_fahrenheit (ut_prefs ?t)) (ut_ui ?t')"
    "\<not> hdm_has_update (ut_model ?t')"
    using shown m(3) demo_boot_fields(6) by simp_all
  then have "sht20_shown demo_lv demo_reading (get_locale (ut_ui ?t)) (prf_use_fahrenheit (ut_prefs ?t)) 0 (ut_ui ?t')"
    "pin_shown demo_reading (get_locale (ut_ui ?t)) 1 8 (ut_ui ?t')" "\<not> hdm_has_update (ut_model ?t')"
    by (simp_all add: update_shown_def)
  then show ?thesis by (simp add: sht20_shown_def pin_shown_def pin_on_def demo_reading_def Let_def)
qed

lemma telemetry_shown:
  assumes "srv_clients srv = Some cs" "clients_inv cs" "srv_handle srv" "sec_encryption_enabled (srv_sec srv)"
    and "gcm_correct (env_crypto env)" "length (env_random_iv env (srv_log srv)) = 12" "\<forall>n. env_alloc env (srv_log srv) ''frame'' n"
    and "sensor_model_inv model" "sdm_initialized model" "sdm_mutex model" "readings_below (10 ^ 6) (sdm_current model)"
    and "\<forall>e \<in> set (su_sht20 (sdm_current model)). list_all plain_char (sht_id e)"
    and "cjson_reads cj dbl (sensor_update_doc (sdm_current model))"
    and "sec_agree (srv_sec srv) (wc_sec c)" "cenv_crypto cenv = env_crypto env" "wc_rx_cb c"
    and "wc_rx_counter c < sec_tx_counter (srv_sec srv) + 1" "hdm_mutex (ut_model t)"
    and "sensor_ws_server_send_update env True model srv = (model', srv')"
    and "ui_task_run te t" "\<forall>l. lv_scr_act (te_lv te) l \<noteq> None" "j < length cs" "cl_fd (cs ! j) \<ge> 0"
  shows "\<exists>frame payload crc. EvSend (cl_fd (cs ! j)) WS_BINARY frame \<in> set (srv_log srv') \<and>
    wc_log (websocket_event_handler cenv (WsData True frame) c) = CEvRx payload crc # wc_log c \<and>
    (if readings_are_numbers (sdm_current model)
     then update_shown (te_lv te) (sensor_update_norm cj dbl (sdm_current model)) (get_locale (ut_ui t)) (prf_use_fahrenheit (ut_prefs t))
       (ut_ui (ui_task_turn te (True, True, True) [] (t\<lparr>ut_model := hmi_ws_rx cj (\<lambda>_. True) payload crc (ut_model t)\<rparr>)))
     else hmi_ws_rx cj (\<lambda>_. True) payload crc (ut_model t) = (ut_model t)\<lparr>hdm_last_crc_ok := False\<rparr>)"
proof -
  obtain frame payload crc where f: "EvSend (cl_fd (cs ! j)) WS_BINARY frame \<in> set (srv_log srv')"
    "wc_log (websocket_event_handler cenv (WsData True frame) c) = CEvRx payload crc # wc_log c"
    "hmi_ws_rx cj (\<lambda>_. True) payload crc (ut_model t) =
      (if readings_are_numbers (sdm_current model)
       then (ut_model t)\<lparr>hdm_last_update := sensor_update_norm cj dbl (sdm_current model), hdm_has_update := True, hdm_last_crc_ok := True\<rparr>
       else (ut_model t)\<lparr>hdm_last_crc_ok := False\<rparr>)"
    using update_delivered [OF assms(1-18) TrueI TrueI assms(19)] assms(22,23) by blast
  let ?t = "t\<lparr>ut_model := hmi_ws_rx cj (\<lambda>_. True) payload crc (ut_model t)\<rparr>"
  have "update_shown (te_lv te) (sensor_update_norm cj dbl (sdm_current model)) (get_locale (ut_ui t)) (prf_use_fahrenheit (ut_prefs t))
      (ut_ui (ui_task_turn te (True, True, True) [] ?t))" if "readings_are_numbers (sdm_current model)"
  proof -
    have "ui_task_run te ?t" by (rule run_ws_rx [OF assms(20)])
    moreover have "hdm_mutex (ut_model ?t)" "hdm_has_update (ut_model ?t)"
        "hdm_last_update (ut_model ?t) = sensor_update_norm cj dbl (sdm_current model)" using f(3) assms(18) that by simp_all
    ultimately show ?thesis using news_shown [OF _ assms(21) _ _ refl refl, of ?t] by simp
  qed
  moreover have "hmi_ws_rx cj (\<lambda>_. True) payload crc (ut_model t) = (ut_model t)\<lparr>hdm_last_crc_ok := False\<rparr>"
    if "\<not> readings_are_numbers (sdm_current model)" using f(3) that by simp
  ultimately have "if readings_are_numbers (sdm_current model)
     then update_shown (te_lv te) (sensor_update_norm cj dbl (sdm_current model)) (get_locale (ut_ui t)) (prf_use_fahrenheit (ut_prefs t))
       (ut_ui (ui_task_turn te (True, True, True) [] ?t))
     else hmi_ws_rx cj (\<lambda>_. True) payload crc (ut_model t) = (ut_model t)\<lparr>hdm_last_crc_ok := False\<rparr>"
    by (cases "readings_are_numbers (sdm_current model)") (simp_all only: if_True if_False not_False_eq_True True_implies_equals)
  with f(1,2) show ?thesis by blast
qed

text \<open>
  Telemetry reaches the screens. When the sensor node publishes a snapshot with the link
  encrypted, every connected client is sent one frame; an HMI node that shares the secrets and
  has seen no later counter decrypts it to one message, and after one turn of its user interface
  task the screens show the snapshot, to the resolution of the text, in the language and the
  unit in force, from the data model of one node to the labels, switches and sliders of the other,
  when every measured value is a number. Otherwise the update is refused as a whole.
\<close>

theorem telemetry_reaches_screens:
  assumes "srv_clients srv = Some cs" "clients_inv cs" "srv_handle srv" "sec_encryption_enabled (srv_sec srv)"
    and "gcm_correct (env_crypto env)" "length (env_random_iv env (srv_log srv)) = 12" "\<forall>n. env_alloc env (srv_log srv) ''frame'' n"
    and "sensor_model_inv model" "sdm_initialized model" "sdm_mutex model" "readings_below (10 ^ 6) (sdm_current model)"
    and "\<forall>e \<in> set (su_sht20 (sdm_current model)). list_all plain_char (sht_id e)"
    and "cjson_reads cj dbl (sensor_update_doc (sdm_current model))"
    and "sec_agree (srv_sec srv) (wc_sec c)" "cenv_crypto cenv = env_crypto env" "wc_rx_cb c"
    and "wc_rx_counter c < sec_tx_counter (srv_sec srv) + 1" "hdm_mutex (ut_model t)"
    and "sensor_ws_server_send_update env True model srv = (model', srv')"
    and "ui_task_run te t" "\<forall>l. lv_scr_act (te_lv te) l \<noteq> None" "j < length cs" "cl_fd (cs ! j) \<ge> 0"
  shows "\<exists>frame payload crc. EvSend (cl_fd (cs ! j)) WS_BINARY frame \<in> set (srv_log srv') \<and>
    wc_log (websocket_event_handler cenv (WsData True frame) c) = CEvRx payload crc # wc_log c \<and>
    (if readings_are_numbers (sdm_current model)
     then update_shown (te_lv te) (sensor_update_norm cj dbl (sdm_current model)) (get_locale (ut_ui t)) (prf_use_fahrenheit (ut_prefs t))
       (ut_ui (ui_task_turn te (True, True, True) [] (t\<lparr>ut_model := hmi_ws_rx cj (\<lambda>_. True) payload crc (ut_model t)\<rparr>)))
     else hmi_ws_rx cj (\<lambda>_. True) payload crc (ut_model t) = (ut_model t)\<lparr>hdm_last_crc_ok := False\<rparr>)"
  using assms by (rule telemetry_shown)

theorem telemetry_reaches_screens_witness:
  "\<exists>frame payload crc. EvSend 5 WS_BINARY frame \<in> set (srv_log (snd (sensor_ws_server_send_update demo_env True demo_model demo_srv))) \<and>
    sequence_shown (sensor_update_norm (doc_cjson [sensor_update_doc (sdm_current demo_model)]) (\<lambda>r. r) (sdm_current demo_model))
      (get_locale (ut_ui demo_task))
      (ut_ui (ui_task_turn demo_te (True, True, True) []
        (demo_task\<lparr>ut_model := hmi_ws_rx (doc_cjson [sensor_update_doc (sdm_current demo_model)]) (\<lambda>_. True) payload crc demo_hmi\<rparr>)))"
proof -
  obtain model' srv' where s: "sensor_ws_server_send_update demo_env True demo_model demo_srv = (model', srv')" by fastforce
  have m: "hdm_mutex (ut_model demo_task)" "ut_model demo_task = demo_hmi" using demo_boot_fields by simp_all
  have fd: "1 < length (the (srv_clients demo_srv))" "0 \<le> cl_fd (the (srv_clients demo_srv) ! 1)" "cl_fd (the (srv_clients demo_srv) ! 1) = 5"
    by (simp_all add: demo_srv_def)
  note n = if_P [OF demo_current_numbers]
  from telemetry_reaches_screens [OF demo_clients(1) demo_inv demo_sender(1) demo_clients(3) demo_sender(2-4) demo_model_ok(1-4,6)
      doc_cjson_reads demo_sender(5-8) m(1) s demo_run demo_boot_fields(5) fd(1,2), unfolded n] s m(2) fd(3)
  show ?thesis by (auto simp: update_shown_def)
qed

section \<open>From the screens to the outputs\<close>

definition switch_command :: "nat \<Rightarrow> nat \<Rightarrow> bool \<Rightarrow> proto_command_t" where
  "switch_command dev pin on = zero_command\<lparr>cmd_has_gpio_write := True, cmd_gpio_device_index := of_nat dev,
     cmd_gpio_port := if pin < 8 then 0 else 1, cmd_gpio_mask := push_bit (pin mod 8) 1,
     cmd_gpio_value := if on then push_bit (pin mod 8) 1 else 0\<rparr>"

lemma switch_sends:
  assumes "ui_task_run env t" "\<forall>l. lv_scr_act (te_lv env) l \<noteq> None" "dev < 2" "pin < 16"
    and "in_target i = ui_w (ut_ui t) (S_gpio_switch dev pin)" "in_handler i = GpioSwitchEventCb" "in_code i = EVENT_VALUE_CHANGED"
    and "in_data i = GpioCtx dev pin"
  shows "ui_input_ok t i"
    "ui_task_input env i t = ui_send env (in_now i) (switch_command dev pin (lv_checked (te_lv env) (ui_log (ut_ui t)) (in_target i))) t"
proof -
  have cb: "cb_write_gpio ui_task_callbacks" "cb_set_pwm ui_task_callbacks" "cb_set_pwm_frequency ui_task_callbacks"
    by (simp_all add: ui_task_callbacks_def)
  note f = controls_facts [OF conjunct1 [OF ui_task_run_ui [OF assms(1)]] assms(2) cb]
  show "ui_input_ok t i" using f(1) [OF assms(3,4)] assms(5-8) by (simp add: ui_input_ok_def)
  show "ui_task_input env i t = ui_send env (in_now i) (switch_command dev pin (lv_checked (te_lv env) (ui_log (ut_ui t)) (in_target i))) t"
    using f(2) [OF assms(3,4)] assms(6-8)
    by (simp add: ui_task_input_def ui_callback_def ui_cb_write_gpio_def switch_command_def)
qed

text \<open>
  C2. A switch on the screen reaches its output. In any run of the task, with the link up and
  encrypted and the sensor node in step, touching the switch of a pin sends one frame; the
  server of the sensor node passes its payload on, and the queue of the I/O task then ends with
  the command that writes this pin of this expander, and no other pin, to the state of the switch.
\<close>

theorem switch_reaches_output:
  assumes "ui_task_run env t" "\<forall>l. lv_scr_act (te_lv env) l \<noteq> None" "dev < 2" "pin < 16"
    and "in_target i = ui_w (ut_ui t) (S_gpio_switch dev pin)" "in_handler i = GpioSwitchEventCb" "in_code i = EVENT_VALUE_CHANGED"
    and "in_data i = GpioCtx dev pin" "on = lv_checked (te_lv env) (ui_log (ut_ui t)) (in_target i)"
    and "wc_client (hl_client (ut_link t))" "wc_connected (hl_client (ut_link t))" "sec_encryption_enabled (wc_sec (hl_client (ut_link t)))"
    and "gcm_correct (cenv_crypto (te_cli env))" "length (cenv_random (te_cli env) (wc_log (hl_client (ut_link t))) 12) = 12"
    and "\<forall>n. cenv_alloc (te_cli env) (wc_log (hl_client (ut_link t))) ''frame'' n"
    and "srv_clients srv = Some cs" "find_client cs fd = Some k" "cl_handshake_verified (cs ! k)"
    and "cl_last_counter (cs ! k) < sec_tx_counter (wc_sec (hl_client (ut_link t))) + 1"
    and "554 \<le> wss_rx_buffer_size (srv_cfg srv)" "srv_rx_cb srv" "sec_agree (wc_sec (hl_client (ut_link t))) (srv_sec srv)"
    and "env_crypto senv = cenv_crypto (te_cli env)"
    and "cjson_reads cj dbl (command_doc (stamped (in_now i) (hl_next_command_seq (ut_link t) + 1) (switch_command dev pin on)))"
    and "length q + 3 \<le> IO_QUEUE_LENGTH"
  shows "ui_input_ok t i \<and> (\<exists>frame payload crc srv'. CEvSend frame \<in> set (wc_log (hl_client (ut_link (ui_task_input env i t)))) \<and>
    ws_handler senv (frame_req fd WS_BINARY frame) srv = (ESP_OK, srv') \<and> srv_log srv' = EvRx payload crc # srv_log srv \<and>
    sensor_ws_rx cj drained payload crc q = q @ [IO_CMD_WRITE_GPIO (of_nat dev) (if pin < 8 then 0 else 1) (push_bit (pin mod 8) 1)
      (if on then push_bit (pin mod 8) 1 else 0)])"
proof -
  note s = switch_sends [OF assms(1-8), folded assms(9)]
  obtain err l where l: "hmi_ws_client_send_command (te_cli env) (in_now i) (Some (switch_command dev pin on)) (ut_link t) = (err, l)" by fastforce
  have "io_commands_of (switch_command dev pin on) = [IO_CMD_WRITE_GPIO (of_nat dev) (if pin < 8 then 0 else 1) (push_bit (pin mod 8) 1)
      (if on then push_bit (pin mod 8) 1 else 0)]"
    using assms(3) by (auto simp: io_commands_of_def switch_command_def zero_command_def less_2_cases_iff)
  with command_delivered [OF assms(10-15) l assms(16-25)] s l show ?thesis by (simp add: ui_send_def)
qed

text \<open>Pin 11 of the second expander, with the switch on.\<close>

definition demo_touch_pin :: ui_input where
  "demo_touch_pin = \<lparr>in_target = ui_w (ut_ui demo_task) (S_gpio_switch 1 11), in_handler = GpioSwitchEventCb,
     in_code = EVENT_VALUE_CHANGED, in_data = GpioCtx 1 11, in_now = 900, in_took1 = True, in_took2 = True\<rparr>"

theorem switch_reaches_output_witness:
  "ui_input_ok demo_task demo_touch_pin \<and>
   (\<exists>frame payload crc srv'. CEvSend frame \<in> set (wc_log (hl_client (ut_link (ui_task_input demo_te demo_touch_pin demo_task)))) \<and>
     ws_handler demo_env (frame_req 5 WS_BINARY frame) demo_peer = (ESP_OK, srv') \<and>
     sensor_ws_rx (doc_cjson [command_doc (stamped 900 1 (switch_command 1 11 True))]) (\<lambda>_. 0) payload crc [] = [IO_CMD_WRITE_GPIO 1 1 8 8])"
proof -
  have i: "in_target demo_touch_pin = ui_w (ut_ui demo_task) (S_gpio_switch 1 11)" "in_handler demo_touch_pin = GpioSwitchEventCb"
    "in_code demo_touch_pin = EVENT_VALUE_CHANGED" "in_data demo_touch_pin = GpioCtx 1 11" "in_now demo_touch_pin = 900"
    "True = lv_checked (te_lv demo_te) (ui_log (ut_ui demo_task)) (in_target demo_touch_pin)"
    by (simp_all add: demo_touch_pin_def demo_te_def demo_lv_def)
  have l: "ut_link demo_task = demo_link" "te_cli demo_te = demo_cli_env" by (simp_all add: demo_boot_def demo_te_def)
  have n: "(1::nat) < 2" "(11::nat) < 16" by simp_all
  note up = demo_link_up [folded l] and peer = demo_peer_up [folded l]
  note reads = demo_reads [of 900 "switch_command 1 11 True", folded l i(5)]
  from switch_reaches_output [OF demo_run demo_boot_fields(5) n i(1-4) i(6) up peer reads empty_queue, of "\<lambda>_. 0"] i(5)
  show ?thesis by auto
qed

section \<open>Preferences across a restart\<close>

text \<open>A restart keeps the flash and clears the rest.\<close>

definition restarted :: "ui_task_env \<Rightarrow> prefs_store \<Rightarrow> nat \<Rightarrow> ui_task \<Rightarrow> bool" where
  "restarted env store n t \<longleftrightarrow> ut_ui t = ui_static [] n \<and>
     (ut_model t, ut_store t) = hmi_data_model_init (te_nvs env) \<lparr>ps_ready = False, ps_log = ps_log store\<rparr>"

definition nvs_works :: "nvs_env \<Rightarrow> bool" where
  "nvs_works env \<longleftrightarrow> nvs_keeps env \<and> (\<forall>evs c. nvs_result env evs c = ESP_OK)"

lemma ensure_works:
  assumes "nvs_works env"
  shows "\<exists>s'. ensure_secure_nvs env s = (ESP_OK, s') \<and> stored_blob (ps_log s') = stored_blob (ps_log s)"
  using assms by (simp add: nvs_works_def ensure_secure_nvs_def secure_init_keys_def secure_init_erase_def nvs_do_def)

lemma save_stores:
  assumes "nvs_works env"
  shows "stored_blob (ps_log (snd (hmi_prefs_store_save env p s))) = Some (sanitize_preferences p)"
proof -
  obtain s' where "ensure_secure_nvs env s = (ESP_OK, s')" using ensure_works [OF assms] by blast
  then show ?thesis using assms by (simp add: nvs_works_def hmi_prefs_store_save_def nvs_do_def)
qed

lemma init_loads:
  assumes "nvs_works env" "stored_blob (ps_log s) = Some q"
  shows "hdm_preferences (fst (hmi_data_model_init env s)) = sanitize_preferences q \<and> hdm_mutex (fst (hmi_data_model_init env s))"
proof -
  obtain s1 where 1: "hmi_prefs_store_init env s = (ESP_OK, s1)" "stored_blob (ps_log s1) = Some q"
    using ensure_works [OF assms(1), of s] assms(2) by (auto simp: hmi_prefs_store_init_def)
  obtain s2 where 2: "ensure_secure_nvs env s1 = (ESP_OK, s2)" "stored_blob (ps_log s2) = Some q"
    using ensure_works [OF assms(1), of s1] 1(2) by auto
  have "nvs_blob env (NvsOpen False # ps_log s2) = (q, PREFS_SIZE)"
    using assms(1) 2(2) by (simp add: nvs_works_def nvs_keeps_def)
  then have "\<exists>s3. hmi_prefs_store_load env s1 = (ESP_OK, sanitize_preferences q, s3)"
    using assms(1) 2(1) by (simp add: nvs_works_def hmi_prefs_store_load_def nvs_do_def)
  with 1(1) show ?thesis by (auto simp: hmi_data_model_init_def Let_def)
qed

lemma dispatched_fit:
  assumes "dispatch_apply_preferences (Some a) (Some b) (Some c) dark uf hc lt sc lang s = Some (CallApplyPreferences p)"
  shows "sanitize_preferences p = p"
proof (rule sanitize_fixed)
  show "scale_ok p" using assms by (auto simp: dispatch_apply_preferences_def scale_ok_def Let_def split: if_splits)
  show "prefs_fit p" using assms length_cstr_copy [of 33 a] length_cstr_copy [of 65 b] length_cstr_copy [of 64 c]
    by (auto simp: dispatch_apply_preferences_def prefs_fit_def Let_def HMI_LANGUAGE_MAX_def HMI_LANGUAGE_EN_def split: if_splits)
qed

lemma prologue_prefs:
  assumes "hdm_mutex (ut_model t)"
  shows "ut_prefs (ui_task_prologue env True took2 t) = hdm_preferences (ut_model t)"
  using assms by (simp add: ui_task_prologue_def ui_get_prefs_def hmi_data_model_get_preferences_def hmi_model_lock_def Let_def split: prod.split)

text \<open>An update leaves the inputs of the preferences alone.\<close>

lemma inputs_shown_update:
  assumes "distinct_widgets s" "inputs_shown p s"
  shows "inputs_shown p (ui_update_sensor_data env (Some u) uf s)"
  using touched [OF update_shows(2) [OF assms(1) refl, of env u uf]] assms(2)
  by (simp add: inputs_shown_def reading_widgets_def gpio_widgets_def pwm_widgets_def chart_widgets_def)

lemma prologue_inputs:
  assumes "ut_ui t = ui_static [] n" "\<forall>l. lv_scr_act (te_lv env) l \<noteq> None"
  shows "inputs_shown (ut_prefs (ui_task_prologue env took1 took2 t)) (ut_ui (ui_task_prologue env took1 took2 t))"
proof -
  let ?t = "ui_get_prefs took1 (t\<lparr>ut_display := snd (lvgl_port_init (te_disp env) (te_colour_size env) (ut_display t)),
    ut_ui := ui_init (te_lv env) (Some ui_task_callbacks) (ut_ui t)\<rparr>)"
  have u: "ui_run (te_lv env) (Some ui_task_callbacks) (ut_ui ?t)"
    using run_init assms(1) by (simp add: ui_get_prefs_def split: option.split)
  note shown = preferences_show(1) [OF ui_run_distinct [OF u assms(2)] refl refl, where env = "te_lv env" and p = "ut_prefs ?t"]
  note d = ui_run_distinct [OF run_preferences [OF u] assms(2), of "Some (ut_prefs ?t)"]
  obtain there u' where peek: "hmi_data_model_peek_update took2 (ut_model ?t) = (there, u')" by fastforce
  have "\<exists>x. u' = Some x" if there
    using that peek by (auto simp: hmi_data_model_peek_update_def split: if_splits)
  then show ?thesis
    using shown inputs_shown_update [OF d shown] peek
    by (cases there) (auto simp: ui_task_prologue_def Let_def)
qed

text \<open>
  C7. What Apply stores is what the next start shows. A click on Apply takes the inputs for
  the preferences of the task, puts them on the screens and in flash, within their bounds; with
  a flash that works, the task that starts after a restart shows the same preferences.
\<close>

theorem applied_preferences_survive_restart:
  assumes "ui_task_run env t" "\<forall>l. lv_scr_act (te_lv env) l \<noteq> None" "nvs_works (te_nvs env)"
    and "\<forall>l q. lv_textarea_get_text (te_lv env) l q \<noteq> None"
    and "in_handler i = PrefsApplyEventCb" "in_code i = EVENT_CLICKED" "t' = ui_task_input env i t"
    and "restarted env (ut_store t') n t0" "t1 = ui_task_prologue env True took2 t0"
  shows "prf_dark_theme (ut_prefs t') = lv_checked (te_lv env) (ui_log (ut_ui t)) (ui_w (ut_ui t) S_theme_switch) \<and>
    prf_use_fahrenheit (ut_prefs t') = lv_checked (te_lv env) (ui_log (ut_ui t)) (ui_w (ut_ui t) S_units_switch) \<and>
    (\<forall>w. lv_textarea_get_text (te_lv env) (ui_log (ut_ui t)) (ui_w (ut_ui t) S_ssid_ta) = Some w \<longrightarrow> prf_ssid (ut_prefs t') = cstr_copy 33 w) \<and>
    prefs_fit (ut_prefs t') \<and> scale_ok (ut_prefs t') \<and> inputs_shown (ut_prefs t') (ut_ui t') \<and>
    ut_prefs t1 = ut_prefs t' \<and> inputs_shown (ut_prefs t') (ut_ui t1)"
proof -
  let ?s = "ut_ui t" and ?env = "te_lv env"
  note run = ui_task_run_ui [OF assms(1)]
  have cb: "cb_apply_preferences (ui_callbacks ?s)"
    using ui_run_ready [OF conjunct1 [OF run] assms(2)] by (simp add: ui_task_callbacks_def)
  obtain a b c where abc: "lv_textarea_get_text ?env (ui_log ?s) (ui_w ?s S_ssid_ta) = Some a"
    "lv_textarea_get_text ?env (ui_log ?s) (ui_w ?s S_password_ta) = Some b" "lv_textarea_get_text ?env (ui_log ?s) (ui_w ?s S_mdns_ta) = Some c"
    using assms(4) by blast
  obtain p where h: "run_handler ?env PrefsApplyEventCb \<lparr>ev_code = EVENT_CLICKED, ev_target = in_target i, ev_user_data = in_data i\<rparr> ?s =
      (?s, Some (CallApplyPreferences p))"
    and p: "prf_dark_theme p = lv_checked ?env (ui_log ?s) (ui_w ?s S_theme_switch)"
      "prf_use_fahrenheit p = lv_checked ?env (ui_log ?s) (ui_w ?s S_units_switch)" "prf_ssid p = cstr_copy 33 a"
      "sanitize_preferences p = p"
    using dispatched_fit [of a b c] cb
    by (simp add: run_handler_def prefs_apply_event_cb_def abc Let_def) (simp add: dispatch_apply_preferences_def Let_def)
  have t': "ut_prefs t' = p" "ut_ui t' = ui_apply_preferences ?env (Some p) ?s"
    "ut_store t' = snd (hmi_prefs_store_save (te_nvs env) p (ut_store t))"
    using h assms(5,6) by (simp_all add: assms(7) ui_task_input_def ui_callback_def ui_cb_apply_prefs_def Let_def)
  have fit: "prefs_fit p" "scale_ok p" using sanitize_fit [of p] p(4) by simp_all
  have shown: "inputs_shown p (ut_ui t')"
    using preferences_show(1) [OF ui_run_distinct [OF conjunct1 [OF run] assms(2)] t'(2) refl] .
  have m: "ut_model t0 = fst (hmi_data_model_init (te_nvs env) \<lparr>ps_ready = False, ps_log = ps_log (ut_store t')\<rparr>)" "ut_ui t0 = ui_static [] n"
    using assms(8) by (simp_all add: restarted_def prod_eq_iff)
  have "stored_blob (ps_log (ut_store t')) = Some p" using save_stores [OF assms(3), of p] p(4) by (simp add: t'(3))
  with init_loads [OF assms(3), of "\<lparr>ps_ready = False, ps_log = ps_log (ut_store t')\<rparr>" p] m(1) p(4)
  have "hdm_preferences (ut_model t0) = p" "hdm_mutex (ut_model t0)" by simp_all
  then have t1: "ut_prefs t1 = p" using prologue_prefs [of t0 env took2] by (simp add: assms(9))
  with prologue_inputs [OF m(2) assms(2), of True took2] p(1-3) abc(1) t'(1) fit shown show ?thesis by (simp add: assms(9))
qed

lemma demo_nvs_works: "nvs_works demo_nvs"
proof -
  have "stored_blob evs = Some p \<Longrightarrow> nvs_blob demo_nvs evs = (p, PREFS_SIZE)" for evs p
    by (induction evs rule: stored_blob.induct) (auto simp: demo_nvs_def)
  then show ?thesis by (simp add: nvs_works_def nvs_keeps_def demo_nvs_def)
qed

definition demo_apply :: ui_input where
  "demo_apply = \<lparr>in_target = ui_w (ut_ui demo_task) S_apply_btn, in_handler = PrefsApplyEventCb, in_code = EVENT_CLICKED,
     in_data = NoData, in_now = 900, in_took1 = True, in_took2 = True\<rparr>"

theorem applied_preferences_survive_restart_witness:
  "\<exists>t0. restarted demo_te (ut_store (ui_task_input demo_te demo_apply demo_task)) 2 t0 \<and>
     prf_ssid (ut_prefs (ui_task_prologue demo_te True True t0)) = ''home'' \<and>
     inputs_shown (ut_prefs (ui_task_input demo_te demo_apply demo_task)) (ut_ui (ui_task_prologue demo_te True True t0))"
proof -
  let ?t' = "ui_task_input demo_te demo_apply demo_task"
  obtain m st where ms: "hmi_data_model_init demo_nvs \<lparr>ps_ready = False, ps_log = ps_log (ut_store ?t')\<rparr> = (m, st)" by fastforce
  let ?t0 = "demo_boot\<lparr>ut_model := m, ut_store := st\<rparr>"
  have r: "restarted demo_te (ut_store ?t') 2 ?t0"
    using ms demo_boot_fields(1) by (simp add: restarted_def demo_te_def)
  have w: "nvs_works (te_nvs demo_te)" using demo_nvs_works by (simp add: demo_te_def)
  have home: "\<forall>l q. lv_textarea_get_text (te_lv demo_te) l q = Some ''home''" by (simp add: demo_te_def demo_lv_def)
  then have ta: "\<forall>l q. lv_textarea_get_text (te_lv demo_te) l q \<noteq> None" by simp
  have i: "in_handler demo_apply = PrefsApplyEventCb" "in_code demo_apply = EVENT_CLICKED" by (simp_all add: demo_apply_def)
  note s = applied_preferences_survive_restart [OF demo_run demo_boot_fields(5) w ta i refl r refl]
  have "prf_ssid (ut_prefs ?t') = cstr_copy 33 ''home''" using s home by blast
  then have "prf_ssid (ut_prefs ?t') = ''home''" by (simp add: cstr_copy_def)
  with s r show ?thesis by metis
qed

end
