(* ===== verification/NodeApps.thy ===== *)
theory NodeApps
  imports Nodes SensorTask Discovery Ota CertStore Display Peripherals UiTask
begin

text \<open>
  The start of both nodes and the loop of the sensor node: \<^verbatim>\<open>sensor_ws_server_start\<close> of
  \<^verbatim>\<open>sensor_node/main/net/ws_server.c\<close>, \<^verbatim>\<open>sensor_node/main/app_main.c\<close> and
  \<^verbatim>\<open>hmi_node/main/app_main.c\<close>.

  A node is the record of its components. \<open>None\<close> is a start that does not return (\<open>Wifi\<close>);
  \<open>Aborted\<close> is a node that \<^verbatim>\<open>ESP_ERROR_CHECK\<close>, \<^verbatim>\<open>assert\<close> or \<^verbatim>\<open>abort\<close> stopped. What the build
  configures is a record. The tasks that a start creates are modelled in their own theories; they
  change the data model between the turns of the loop.
\<close>

section \<open>The server of the sensor node\<close>

record sensor_build =
  sb_sec2_salt_base64 :: string
  sb_sec2_verifier_base64 :: string
  sb_crypto_secret_base64 :: string
  sb_totp_secret_base32 :: string
  sb_enable_encryption :: bool
  sb_enable_handshake :: bool
  sb_enable_totp :: bool
  sb_service_name :: string
  sb_pop :: string
  sb_prefer_ble :: bool
  sb_prov_timeout_ms :: u32
  sb_connect_timeout_ms :: u32
  sb_max_attempts :: u8
  sb_sec2_username :: string
  sb_port :: u16
  sb_auth_token :: string
  sb_handshake_ttl_ms :: u32
  sb_handshake_cache_size :: nat
  sb_totp_period_s :: u32
  sb_totp_digits :: u8
  sb_totp_window :: u32
  sb_ota_url :: string
  sb_allow_placeholder_secrets :: bool
  sb_onewire_gpio :: nat

record sensor_node_env =
  nd_build :: sensor_build
  nd_base64 :: "bytes \<Rightarrow> nat \<Rightarrow> base64_rc \<times> bytes"
  nd_wifi :: wifi_env
  nd_mdns :: "mdns_call list \<Rightarrow> esp_err"
  nd_cert_build :: cert_build
  nd_cert :: cert_env
  nd_srv :: srv_env
  nd_mem :: mem_env
  nd_i2c :: i2c_env
  nd_i2c_mutex :: bool
  nd_io_build :: io_build
  nd_ow :: ow_env
  nd_ota_alloc :: bool
  nd_ota_task :: bool
  nd_ota_wait :: "ota_log \<Rightarrow> u32 \<Rightarrow> bool"
  nd_round :: "rat \<Rightarrow> rat"

record sensor_node =
  sn_model :: sensor_data_model_t
  sn_srv :: ws_server
  sn_wifi :: wifi_manager
  sn_mdns :: "mdns_call list"
  sn_certs :: cert_store
  sn_sec2 :: wifi_manager_sec2_params_t
  sn_ws_secret :: bytes
  sn_totp_secret :: bytes
  sn_mem :: mem_profile
  sn_bus :: i2c_bus
  sn_ow :: ow_log
  sn_sensors :: sensors_task_ctx_t
  sn_io :: io_task
  sn_ota :: "ota_update_config_t option"

text \<open>The provisioning parameters and the secrets, or how the start ends without them.\<close>

definition sensor_load_sec2 :: "sensor_node_env \<Rightarrow> sensor_node \<Rightarrow> wifi_outcome option \<times> sensor_node" where
  "sensor_load_sec2 env s =
     (let cfg = nd_build env in
      case base64_utils_decode (nd_base64 env) (Some (sb_sec2_salt_base64 cfg)) (Some 32) of (err, salt) \<Rightarrow>
        if err \<noteq> ESP_OK then (Some (Aborted err), s)
        else case base64_utils_decode (nd_base64 env) (Some (sb_sec2_verifier_base64 cfg)) (Some 384) of (err, verifier) \<Rightarrow>
          if err \<noteq> ESP_OK then (Some (Aborted err), s)
          else (None, s\<lparr>sn_sec2 := \<lparr>sec2_salt = Some salt, sec2_salt_len = length salt,
                  sec2_verifier = Some verifier, sec2_verifier_len = length verifier\<rparr>\<rparr>))"

definition sensor_load_secrets :: "sensor_node_env \<Rightarrow> sensor_node \<Rightarrow> wifi_outcome option \<times> sensor_node" where
  "sensor_load_secrets env s =
     (let cfg = nd_build env;
          (err, secret) = (if sb_crypto_secret_base64 cfg \<noteq> []
             then base64_utils_decode (nd_base64 env) (Some (sb_crypto_secret_base64 cfg)) (Some 64) else (ESP_OK, []));
          s = s\<lparr>sn_ws_secret := secret\<rparr>
      in if err \<noteq> ESP_OK then (Some (Aborted err), s)
         else if (sb_enable_encryption cfg \<or> sb_enable_handshake cfg) \<and> secret = [] then (Some (Aborted ESP_FAIL), s)
         else
           let (err, totp) = (if sb_totp_secret_base32 cfg \<noteq> []
                 then base32_utils_decode (Some (sb_totp_secret_base32 cfg)) (Some 64) else (ESP_OK, []));
               s = s\<lparr>sn_totp_secret := totp\<rparr>
           in if err \<noteq> ESP_OK then (Some (Aborted err), s)
              else if sb_enable_totp cfg \<and> totp = [] then (Some (Aborted ESP_FAIL), s)
              else (None, s))"

definition sensor_wifi_config :: "sensor_build \<Rightarrow> wifi_manager_sec2_params_t \<Rightarrow> wifi_manager_config_t" where
  "sensor_wifi_config cfg sec2 =
     \<lparr>wcf_power_save = False, wcf_service_name_suffix = Some (sb_service_name cfg), wcf_pop = Some (sb_pop cfg),
      wcf_service_key = None, wcf_prefer_ble = sb_prefer_ble cfg, wcf_force_provisioning = False,
      wcf_provisioning_timeout_ms = sb_prov_timeout_ms cfg, wcf_connect_timeout_ms = sb_connect_timeout_ms cfg,
      wcf_max_connect_attempts = sb_max_attempts cfg, wcf_sec2_params = Some sec2,
      wcf_sec2_username = Some (sb_sec2_username cfg)\<rparr>"

definition sensor_rx_buffer_size :: "bool \<Rightarrow> nat" where
  "sensor_rx_buffer_size enable_encryption =
     SENSOR_DATA_MODEL_MAX_MESSAGE_SIZE + 4 + (if enable_encryption then WS_SECURITY_HEADER_LEN + WS_SECURITY_TAG_LEN else 0)"

definition sensor_server_config :: "sensor_build \<Rightarrow> bytes \<Rightarrow> bytes \<Rightarrow> bytes \<Rightarrow> bytes \<Rightarrow> ws_server_config_t" where
  "sensor_server_config cfg cert key secret totp =
     \<lparr>wss_port = sb_port cfg, wss_max_clients = 8, wss_auth_token = Some (sb_auth_token cfg),
      wss_server_cert = Some cert, wss_server_key = Some key, wss_ping_interval_ms = 10000, wss_pong_timeout_ms = 5000,
      wss_rx_buffer_size = sensor_rx_buffer_size (sb_enable_encryption cfg),
      wss_crypto_secret = (if length secret > 0 then Some secret else None),
      wss_enable_frame_encryption = sb_enable_encryption cfg, wss_enable_handshake_token = sb_enable_handshake cfg,
      wss_handshake_replay_window_ms = sb_handshake_ttl_ms cfg, wss_handshake_cache_size = sb_handshake_cache_size cfg,
      wss_enable_totp = sb_enable_totp cfg, wss_totp_secret = (if length totp > 0 then Some totp else None),
      wss_totp_period_s = sb_totp_period_s cfg, wss_totp_digits = sb_totp_digits cfg, wss_totp_window = sb_totp_window cfg,
      wss_get_time_unix = None\<rparr>"

text \<open>The part of \<^verbatim>\<open>sensor_ws_server_start\<close> from the certificates on.\<close>

definition sensor_serve :: "sensor_node_env \<Rightarrow> sensor_node \<Rightarrow> wifi_outcome \<times> sensor_node" where
  "sensor_serve env s =
     (case cert_store_server_cert (nd_cert_build env) (nd_cert env) (sn_certs s) of ((cert, cert_len), certs) \<Rightarrow>
      case cert_store_server_key (nd_cert_build env) (nd_cert env) certs of ((key, key_len), certs) \<Rightarrow>
      let s = s\<lparr>sn_certs := certs\<rparr>;
          cfg = sensor_server_config (nd_build env) (take cert_len cert) (take key_len key) (sn_ws_secret s) (sn_totp_secret s)
      in case ws_server_start (nd_srv env) (Some cfg) True (sn_srv s) of (err, srv) \<Rightarrow>
        let s = s\<lparr>sn_srv := srv\<rparr> in
        if err \<noteq> ESP_OK then (Aborted err, s) else (Returned ESP_OK, s))"

definition sensor_ws_server_start :: "sensor_node_env \<Rightarrow> sensor_node \<Rightarrow> (wifi_outcome \<times> sensor_node) option" where
  "sensor_ws_server_start env s =
     (case sensor_load_sec2 env s of
        (Some stop, s) \<Rightarrow> Some (stop, s)
      | (None, s) \<Rightarrow>
          (case sensor_load_secrets env s of
             (Some stop, s) \<Rightarrow> Some (stop, s)
           | (None, s) \<Rightarrow>
               (case wifi_manager_start (nd_wifi env) (Some (sensor_wifi_config (nd_build env) (sn_sec2 s))) (sn_wifi s) of
                  None \<Rightarrow> None
                | Some (Aborted err, w) \<Rightarrow> Some (Aborted err, s\<lparr>sn_wifi := w\<rparr>)
                | Some (Returned err, w) \<Rightarrow>
                    let s = s\<lparr>sn_wifi := w\<rparr> in
                    if err \<noteq> ESP_OK then Some (Aborted err, s)
                    else case mdns_helper_start (nd_mdns env) (Some ''sensor-node'') (Some ''Sensor Node'') (sb_port (nd_build env)) (sn_mdns s) of
                      (err, mdns) \<Rightarrow>
                        let s = s\<lparr>sn_mdns := mdns\<rparr> in
                        if err \<noteq> ESP_OK then Some (Aborted err, s) else Some (sensor_serve env s))))"

section \<open>The sensor node\<close>

definition sensor_validate_runtime_secrets :: "sensor_build \<Rightarrow> bool" where
  "sensor_validate_runtime_secrets cfg \<longleftrightarrow> sb_allow_placeholder_secrets cfg \<or>
     (length (sb_auth_token cfg) > 16 \<and> length (sb_pop cfg) > 8 \<and> length (sb_ota_url cfg) > 12)"

definition ota_config :: "string \<Rightarrow> bytes \<times> nat \<Rightarrow> (ota_log \<Rightarrow> u32 \<Rightarrow> bool) \<Rightarrow> ota_update_config_t" where
  "ota_config url ca wait = \<lparr>ota_url = Some url, ota_cert_pem = Some (fst ca), ota_cert_len = snd ca, ota_auto_reboot = True,
     ota_check_delay_ms = 5000, ota_wait_for_connectivity = Some wait, ota_validate = None, ota_initial_backoff_ms = 0,
     ota_max_backoff_ms = 0, ota_max_retries = 0, ota_nvs_namespace = None, ota_nvs_key = None\<rparr>"

definition sensor_start_tasks :: "sensor_node \<Rightarrow> sensor_node" where
  "sensor_start_tasks s =
     (let s = s\<lparr>sn_model := data_model_init\<rparr>;
          s = s\<lparr>sn_sensors := sensors_task_start (sn_model s) True (sn_sensors s)\<rparr>
      in s\<lparr>sn_io := io_task_start (sn_model s) (sn_bus s)\<rparr>)"

definition sensor_schedule_ota :: "sensor_node_env \<Rightarrow> sensor_node \<Rightarrow> wifi_outcome \<times> sensor_node" where
  "sensor_schedule_ota env s =
     (case cert_store_ca_cert (nd_cert_build env) (nd_cert env) (sn_certs s) of (ca, certs) \<Rightarrow>
      case ota_update_schedule (nd_ota_alloc env) (nd_ota_task env) (Some (ota_config (sb_ota_url (nd_build env)) ca (nd_ota_wait env))) of
        (err, task) \<Rightarrow>
          let s = s\<lparr>sn_certs := certs, sn_ota := task\<rparr>
          in if err \<noteq> ESP_OK then (Aborted err, s) else (Returned ESP_OK, s))"

text \<open>\<^verbatim>\<open>app_main\<close> up to its loop.\<close>

definition sensor_app_start :: "sensor_node_env \<Rightarrow> sensor_node \<Rightarrow> (wifi_outcome \<times> sensor_node) option" where
  "sensor_app_start env s =
     (if \<not> sensor_validate_runtime_secrets (nd_build env) then Some (Aborted ESP_FAIL, s)
      else case memory_profile_init (nd_mem env) (sn_mem s) of (err, mem) \<Rightarrow>
        let s = s\<lparr>sn_mem := mem\<rparr> in
        if err \<noteq> ESP_OK then Some (Aborted err, s)
        else
          let s = s\<lparr>sn_mem := snd (memory_profile_log (nd_mem env) (sn_mem s))\<rparr> in
          case i2c_bus_init (nd_i2c env) (io_map_get (nd_io_build env)) (nd_i2c_mutex env) (sn_bus s) of (err, bus) \<Rightarrow>
            let s = s\<lparr>sn_bus := bus\<rparr> in
            if err \<noteq> ESP_OK then Some (Aborted err, s)
            else case onewire_bus_manager_init (nd_ow env) (sb_onewire_gpio (nd_build env)) (sn_ow s) of (err, ow) \<Rightarrow>
              let s = s\<lparr>sn_ow := ow\<rparr> in
              if err \<noteq> ESP_OK then Some (Aborted err, s)
              else case sensor_ws_server_start env (sensor_start_tasks s) of
                None \<Rightarrow> None
              | Some (Aborted err, s) \<Rightarrow> Some (Aborted err, s)
              | Some (Returned err, s) \<Rightarrow> Some (sensor_schedule_ota env s))"

text \<open>One turn of the loop: \<open>now\<close> is \<^verbatim>\<open>monotonic_time_ms\<close>, \<open>took\<close> the outcome of each lock.\<close>

definition sensor_app_turn :: "sensor_node_env \<Rightarrow> u32 \<Rightarrow> (nat \<Rightarrow> bool) \<Rightarrow> sensor_node \<Rightarrow> sensor_node" where
  "sensor_app_turn env now took s =
     (let s = s\<lparr>sn_model := data_model_set_timestamp (took 0) now (sn_model s)\<rparr> in
      if data_model_should_publish (nd_round env) (took 1) (sn_model s) (nd_round env (3 / 10)) (nd_round env 1) then
        let s = s\<lparr>sn_model := data_model_increment_seq (took 2) (sn_model s)\<rparr> in
        case sensor_ws_server_send_update (nd_srv env) (took 3) (sn_model s) (sn_srv s) of (model, srv) \<Rightarrow>
          s\<lparr>sn_model := model, sn_srv := srv\<rparr>
      else s)"

section \<open>What is started\<close>

text \<open>
  C17. The server of the sensor node is started with everything it needs. When
  \<^verbatim>\<open>sensor_ws_server_start\<close> returns, the station start has returned \<^verbatim>\<open>ESP_OK\<close>, the service is
  announced under the port of the build, and the server runs with a certificate and a key that are
  not empty, with the secrets of every feature that is enabled, and with frames encrypted exactly
  when the build asks for it; in every other case the node stops.
\<close>

theorem sensor_server_started_secure:
  assumes "sensor_ws_server_start env s = Some (out, s')" "srv_stopped (sn_srv s)" "owned (sn_srv s)"
  shows "(case out of Aborted err \<Rightarrow> True | Returned err \<Rightarrow> err = ESP_OK \<and>
    (\<exists>w. wifi_manager_start (nd_wifi env) (Some (sensor_wifi_config (nd_build env) (sn_sec2 s'))) (sn_wifi s) = Some (Returned ESP_OK, w) \<and> sn_wifi s' = w) \<and>
    MdnsService None ''_hmi-sensor'' ''_tcp'' (sb_port (nd_build env)) \<in> set (sn_mdns s') \<and>
    (\<exists>cert key. cert \<noteq> [] \<and> key \<noteq> [] \<and>
      srv_running (sensor_server_config (nd_build env) cert key (sn_ws_secret s') (sn_totp_secret s')) (sn_srv s')) \<and>
    (sb_enable_encryption (nd_build env) \<or> sb_enable_handshake (nd_build env) \<longrightarrow> sn_ws_secret s' \<noteq> []) \<and>
    (sb_enable_totp (nd_build env) \<longrightarrow> sn_totp_secret s' \<noteq> []) \<and>
    sec_encryption_enabled (srv_sec (sn_srv s')) = sb_enable_encryption (nd_build env))"
proof (cases out)
  case (Returned err)
  obtain s1 where s1: "sensor_load_sec2 env s = (None, s1)" "sn_srv s1 = sn_srv s" "sn_wifi s1 = sn_wifi s" "sn_mdns s1 = sn_mdns s"
    using assms(1) Returned by (auto simp: sensor_ws_server_start_def sensor_load_sec2_def Let_def split: prod.splits if_splits)
  obtain s2 where s2: "sensor_load_secrets env s1 = (None, s2)" "sn_srv s2 = sn_srv s" "sn_wifi s2 = sn_wifi s" "sn_mdns s2 = sn_mdns s"
      "sn_sec2 s2 = sn_sec2 s1"
      "sb_enable_encryption (nd_build env) \<or> sb_enable_handshake (nd_build env) \<Longrightarrow> sn_ws_secret s2 \<noteq> []"
      "sb_enable_totp (nd_build env) \<Longrightarrow> sn_totp_secret s2 \<noteq> []"
    using assms(1) Returned s1
    by (auto simp: sensor_ws_server_start_def sensor_load_secrets_def Let_def split: prod.splits if_splits)
  obtain w where w: "wifi_manager_start (nd_wifi env) (Some (sensor_wifi_config (nd_build env) (sn_sec2 s2))) (sn_wifi s) = Some (Returned ESP_OK, w)"
    using assms(1) Returned s1(1) s2(1,3)
    by (auto simp: sensor_ws_server_start_def Let_def split: option.splits wifi_outcome.splits if_splits)
  obtain merr mdns where m: "mdns_helper_start (nd_mdns env) (Some ''sensor-node'') (Some ''Sensor Node'') (sb_port (nd_build env)) (sn_mdns s) = (merr, mdns)"
    by fastforce
  let ?s3 = "s2\<lparr>sn_wifi := w, sn_mdns := mdns\<rparr>"
  have serve: "merr = ESP_OK" "sensor_serve env ?s3 = (out, s')"
    using assms(1) Returned s1(1) s2(1,3,4) w m by (auto simp: sensor_ws_server_start_def Let_def split: if_splits)
  then have announced: "MdnsService None ''_hmi-sensor'' ''_tcp'' (sb_port (nd_build env)) \<in> set mdns"
    using m by (auto simp: mdns_helper_start_def Let_def split: if_splits)
  obtain cert n certs1 key k certs2 where c: "cert_store_server_cert (nd_cert_build env) (nd_cert env) (sn_certs ?s3) = ((cert, n), certs1)"
      "cert_store_server_key (nd_cert_build env) (nd_cert env) certs1 = ((key, k), certs2)"
    by (metis prod.collapse)
  let ?cfg = "sensor_server_config (nd_build env) (take n cert) (take k key) (sn_ws_secret s2) (sn_totp_secret s2)"
  have started: "err = ESP_OK" "ws_server_start (nd_srv env) (Some ?cfg) True (sn_srv s) = (ESP_OK, sn_srv s')"
      "s' = ?s3\<lparr>sn_certs := certs2, sn_srv := sn_srv s'\<rparr>"
    using serve(2) Returned c s2(2) by (auto simp: sensor_serve_def Let_def split: prod.splits if_splits)
  have fields: "sn_ws_secret s' = sn_ws_secret s2" "sn_totp_secret s' = sn_totp_secret s2" "sn_wifi s' = w" "sn_mdns s' = mdns" "sn_sec2 s' = sn_sec2 s2"
    by (subst started(3), simp)+
  have run: "srv_running ?cfg (sn_srv s')" using server_start_result [OF assms(2,3) started(2)] by simp
  moreover have "take n cert \<noteq> []" "take k key \<noteq> []"
    using started(2) by (auto simp: ws_server_start_def blank_def sensor_server_config_def split: if_splits)
  ultimately have served: "\<exists>cert key. cert \<noteq> [] \<and> key \<noteq> [] \<and>
      srv_running (sensor_server_config (nd_build env) cert key (sn_ws_secret s2) (sn_totp_secret s2)) (sn_srv s')"
    by blast
  have "sec_encryption_enabled (srv_sec (sn_srv s')) = sb_enable_encryption (nd_build env)"
    using run by (simp add: srv_running_def sensor_server_config_def)
  with served show ?thesis
    using Returned started(1) w announced s2(6,7) by (simp add: fields)
qed simp

section \<open>What is published\<close>

lemma set_timestamp_deadband:
  "within_deadband fl tt ht (sdm_current (data_model_set_timestamp took now m)) prev = within_deadband fl tt ht (sdm_current m) prev"
  "sdm_last_published (data_model_set_timestamp took now m) = sdm_last_published m"
  by (simp_all add: data_model_set_timestamp_def within_deadband_def)

definition settled :: "(rat \<Rightarrow> rat) \<Rightarrow> sensor_data_model_t \<Rightarrow> bool" where
  "settled fl m \<longleftrightarrow> su_sequence_id (sdm_last_published m) \<noteq> 0 \<and>
     within_deadband fl (fl (3 / 10)) (fl 1) (sdm_current m) (sdm_last_published m)"

lemma turn_settled:
  assumes "settled (nd_round env) (sn_model s)"
  shows "sensor_app_turn env now took s = s\<lparr>sn_model := data_model_set_timestamp (took 0) now (sn_model s)\<rparr>"
    "settled (nd_round env) (sn_model (sensor_app_turn env now took s))"
proof -
  show t: "sensor_app_turn env now took s = s\<lparr>sn_model := data_model_set_timestamp (took 0) now (sn_model s)\<rparr>"
    using assms by (simp add: sensor_app_turn_def settled_def should_publish_cases set_timestamp_deadband Let_def)
  show "settled (nd_round env) (sn_model (sensor_app_turn env now took s))"
    using assms unfolding t by (simp add: settled_def set_timestamp_deadband)
qed

lemma turns_settled:
  "settled (nd_round env) (sn_model s) \<Longrightarrow> sn_srv (fold (\<lambda>(now, took). sensor_app_turn env now took) turns s) = sn_srv s"
proof (induction turns arbitrary: s)
  case (Cons a turns)
  obtain now took where a: "a = (now, took)" by fastforce
  from turn_settled [OF Cons.prems, of now took] Cons.IH [of "sensor_app_turn env now took s"] a show ?case by simp
qed simp

lemma loop_step_model:
  assumes "sdm_initialized m" "sdm_mutex m"
  shows "sdm_initialized (data_model_set_timestamp True now m)" "sdm_mutex (data_model_set_timestamp True now m)"
    "sdm_initialized (data_model_increment_seq True m)" "sdm_mutex (data_model_increment_seq True m)"
    "sdm_current (data_model_increment_seq True (data_model_set_timestamp True now m)) =
       (sdm_current m)\<lparr>su_timestamp_ms := now, su_sequence_id := su_sequence_id (sdm_current m) + 1\<rparr>"
  using assms by (simp_all add: data_model_set_timestamp_def data_model_increment_seq_def data_model_lock_def)

lemma turn_publishes:
  assumes "sdm_initialized (sn_model s)" "sdm_mutex (sn_model s)"
    and "data_model_should_publish (nd_round env) True (sn_model s) (nd_round env (3 / 10)) (nd_round env 1)"
    and "m = data_model_increment_seq True (data_model_set_timestamp True now (sn_model s))"
    and "sensor_ws_server_send_update (nd_srv env) True m (sn_srv s) = (m', srv')"
  shows "sensor_app_turn env now (\<lambda>_. True) s = s\<lparr>sn_model := m', sn_srv := srv'\<rparr>"
  using assms loop_step_model(1,2) [OF assms(1,2), where now = now]
  by (simp add: sensor_app_turn_def should_publish_cases set_timestamp_deadband Let_def)

lemma sent_settles:
  assumes "sensor_ws_server_send_update env True m srv = (m', srv')" "sensor_model_inv m" "sdm_initialized m" "sdm_mutex m"
    and "readings_below (10 ^ 6) (sdm_current m)" "su_sequence_id (sdm_current m) \<noteq> 0" "0 \<le> fl (3 / 10)" "0 \<le> fl 1" "fl 0 = 0"
  shows "settled fl m'"
proof -
  obtain index len crc m1 where b: "data_model_build True m = (Some (index, len, crc), m1)"
    using data_model_build_succeeds [OF assms(2-5)] by blast
  note bd = data_model_build_SomeD [OF b assms(2)]
  have "m' = m1" using assms(1) b by (auto simp: sensor_ws_server_send_update_def Let_def split: if_splits)
  then show ?thesis using bd(5,6) assms(6-9) by (simp add: settled_def within_deadband_def float_near_refl)
qed

text \<open>
  C1. A change reaches the screens within one turn. When the readings of the sensor node have left
  the dead band, or nothing has been published, one turn of the loop of \<^verbatim>\<open>app_main\<close> publishes the
  snapshot under the next sequence number and the time of the turn, and is then at rest; with
  the link encrypted, every connected client is sent one frame, and an HMI node that shares the
  secrets and has seen no later counter shows that snapshot after one turn of its user
  interface task, to the resolution of the text, in the language and the unit in force, provided
  every measured value in it is a number. Otherwise (a sensor that was never read is published
  as NaN) the HMI refuses the whole snapshot and only notes that a message was bad.
\<close>

theorem change_reaches_screens:
  assumes "srv_clients (sn_srv s) = Some cs" "clients_inv cs" "srv_handle (sn_srv s)" "sec_encryption_enabled (srv_sec (sn_srv s))"
    and "gcm_correct (env_crypto (nd_srv env))" "length (env_random_iv (nd_srv env) (srv_log (sn_srv s))) = 12"
    and "\<forall>n. env_alloc (nd_srv env) (srv_log (sn_srv s)) ''frame'' n"
    and "sensor_model_inv (sn_model s)" "sdm_initialized (sn_model s)" "sdm_mutex (sn_model s)"
    and "readings_below (10 ^ 6) (sdm_current (sn_model s))" "su_sequence_id (sdm_current (sn_model s)) + 1 \<noteq> 0"
    and "\<forall>e \<in> set (su_sht20 (sdm_current (sn_model s))). list_all plain_char (sht_id e)"
    and "snapshot = (sdm_current (sn_model s))\<lparr>su_timestamp_ms := now, su_sequence_id := su_sequence_id (sdm_current (sn_model s)) + 1\<rparr>"
    and "cjson_reads cj dbl (sensor_update_doc snapshot)"
    and "data_model_should_publish (nd_round env) True (sn_model s) (nd_round env (3 / 10)) (nd_round env 1)"
    and "0 \<le> nd_round env (3 / 10)" "0 \<le> nd_round env 1" "nd_round env 0 = 0"
    and "sec_agree (srv_sec (sn_srv s)) (wc_sec c)" "cenv_crypto cenv = env_crypto (nd_srv env)" "wc_rx_cb c"
    and "wc_rx_counter c < sec_tx_counter (srv_sec (sn_srv s)) + 1" "hdm_mutex (ut_model t)"
    and "ui_task_run te t" "\<forall>l. lv_scr_act (te_lv te) l \<noteq> None" "j < length cs" "cl_fd (cs ! j) \<ge> 0"
    and "s' = sensor_app_turn env now (\<lambda>_. True) s"
  shows "settled (nd_round env) (sn_model s') \<and> (\<exists>frame payload crc.
    EvSend (cl_fd (cs ! j)) WS_BINARY frame \<in> set (srv_log (sn_srv s')) \<and>
    wc_log (websocket_event_handler cenv (WsData True frame) c) = CEvRx payload crc # wc_log c \<and>
    (if readings_are_numbers snapshot
     then update_shown (te_lv te) (sensor_update_norm cj dbl snapshot) (get_locale (ut_ui t)) (prf_use_fahrenheit (ut_prefs t))
       (ut_ui (ui_task_turn te (True, True, True) [] (t\<lparr>ut_model := hmi_ws_rx cj (\<lambda>_. True) payload crc (ut_model t)\<rparr>)))
     else hmi_ws_rx cj (\<lambda>_. True) payload crc (ut_model t) = (ut_model t)\<lparr>hdm_last_crc_ok := False\<rparr>))"
proof -
  define m where "m = data_model_increment_seq True (data_model_set_timestamp True now (sn_model s))"
  obtain m' srv' where send: "sensor_ws_server_send_update (nd_srv env) True m (sn_srv s) = (m', srv')" by fastforce
  note step = loop_step_model(1,2,5) [OF assms(9,10), where now = now]
  have m: "sensor_model_inv m" "sdm_initialized m" "sdm_mutex m" "sdm_current m = snapshot"
    using assms(8,14) step loop_step_model(3,4) [OF step(1,2)] by (simp_all add: m_def increment_seq_inv set_timestamp_inv)
  have snap: "readings_below (10 ^ 6) snapshot" "su_sequence_id snapshot \<noteq> 0" "\<forall>e \<in> set (su_sht20 snapshot). list_all plain_char (sht_id e)"
    using assms(11-14) by (simp_all add: readings_below_def)
  have s': "s' = s\<lparr>sn_model := m', sn_srv := srv'\<rparr>"
    unfolding assms(29) by (rule turn_publishes [OF assms(9,10,16) m_def send])
  have "settled (nd_round env) m'"
    using sent_settles [OF send m(1-3), where fl = "nd_round env"] snap m(4) assms(17-19) by simp
  with telemetry_shown [OF assms(1-7) m(1-3), unfolded m(4), OF snap(1,3) assms(15,20-24) send assms(25-28)] show ?thesis
    by (simp add: s')
qed

text \<open>
  C25. A sensor that fails is not announced. When an ambient sensor that has been read before
  fails, the sampling task marks its reading in the snapshot as not valid and leaves the numbers;
  the loop compares numbers only, so that however long it goes on, and whoever connects meanwhile,
  it sends nothing: every display goes on showing the last reading as a good one.
\<close>

theorem sensor_fault_is_not_announced:
  assumes "settled (nd_round env) (sn_model s)" "sc_model ctx = sn_model s" "sensor_model_inv (sn_model s)"
    and "ambient_sensor_read senv (map_ambient (io_map_get (se_build senv)) ! i) w = ((err, temp, hum), w1)" "err \<noteq> ESP_OK"
    and "i < 2" "i < su_sht20_count (sdm_current (sn_model s))" "sc_ambient_initialized ctx ! i"
    and "sht_temperature_c (su_sht20 (sdm_current (sn_model s)) ! i) = Num (sc_ambient_temp_ema ctx ! i)"
    and "sht_humidity_percent (su_sht20 (sdm_current (sn_model s)) ! i) = Num (sc_ambient_hum_ema ctx ! i)"
    and "sdm_initialized (sn_model s)" "sdm_mutex (sn_model s)" "se_took senv w1"
    and "update_ambient senv i (ctx, w) = (ctx', w')"
  shows "\<not> sht_valid (su_sht20 (sdm_current (sc_model ctx')) ! i) \<and>
    sdm_last_published (sc_model ctx') = sdm_last_published (sn_model s) \<and>
    sn_srv (fold (\<lambda>(now, took). sensor_app_turn env now took) turns (s\<lparr>sn_model := sc_model ctx', sn_srv := srv\<rparr>)) = srv"
proof -
  let ?m = "sn_model s" and ?cur = "sdm_current (sn_model s)"
  define entry where "entry = \<lparr>sht_id = cstr_copy 16 (ambient_id (map_ambient (io_map_get (se_build senv)) ! i) i),
    sht_temperature_c = Num (sc_ambient_temp_ema ctx ! i), sht_humidity_percent = Num (sc_ambient_hum_ema ctx ! i), sht_valid = False\<rparr>"
  have m': "sc_model ctx' = ?m\<lparr>sdm_current := ?cur\<lparr>su_sht20 := (su_sht20 ?cur)[i := entry]\<rparr>\<rparr>"
    using assms(2,4-8,11-14)
    by (auto simp: update_ambient_def with_model_def data_model_set_sht20_def data_model_lock_def entry_def Let_def)
  have len: "length (su_sht20 ?cur) = 2" using assms(3) by (simp add: sensor_model_inv_def sensor_update_wf_def)
  have same: "sht_temperature_c ((su_sht20 ?cur)[i := entry] ! j) = sht_temperature_c (su_sht20 ?cur ! j)"
    "sht_humidity_percent ((su_sht20 ?cur)[i := entry] ! j) = sht_humidity_percent (su_sht20 ?cur ! j)" for j
    using assms(6,9,10) len by (cases "j = i"; simp add: entry_def)+
  have "settled (nd_round env) (sc_model ctx')"
    using assms(1) by (simp add: settled_def m' within_deadband_def same)
  then have "sn_srv (fold (\<lambda>(now, took). sensor_app_turn env now took) turns (s\<lparr>sn_model := sc_model ctx', sn_srv := srv\<rparr>)) = srv"
    using turns_settled [of env "s\<lparr>sn_model := sc_model ctx', sn_srv := srv\<rparr>" turns] by simp
  moreover have "\<not> sht_valid ((su_sht20 ?cur)[i := entry] ! i)" using assms(6) len by (simp add: entry_def)
  ultimately show ?thesis by (simp add: m')
qed

text \<open>
  A sensor that was never read silences the others. When an ambient sensor fails before its
  first reading, the sampling task stores NaN as its values; whatever the loop of \<^verbatim>\<open>app_main\<close> then does,
  the snapshot it publishes holds this NaN, and such an update no HMI accepts.
\<close>

lemma build_keeps_current: "sdm_current (snd (data_model_build took m)) = sdm_current m"
  by (simp add: data_model_build_def Let_def split: option.split prod.split)

lemma turn_keeps_readings:
  "readings_are_numbers (sdm_current (sn_model (sensor_app_turn env now took s))) = readings_are_numbers (sdm_current (sn_model s))"
proof -
  let ?same = "\<lambda>m. (su_sht20_count (sdm_current m), su_sht20 (sdm_current m), su_ds18b20_count (sdm_current m), su_ds18b20 (sdm_current m))"
  have t: "?same (data_model_set_timestamp b now m) = ?same m" "?same (data_model_increment_seq b m) = ?same m" for b m
    by (simp_all add: data_model_set_timestamp_def data_model_increment_seq_def)
  have "sdm_current (fst (sensor_ws_server_send_update senv b m srv)) = sdm_current m" for senv b m srv
    using build_keeps_current [of b m] by (auto simp: sensor_ws_server_send_update_def Let_def split: prod.splits option.splits)
  then have "?same (sn_model (sensor_app_turn env now took s)) = ?same (sn_model s)"
    using t by (auto simp: sensor_app_turn_def Let_def split: prod.splits) (metis fst_conv)+
  then show ?thesis by (simp add: readings_are_numbers_def)
qed

theorem unread_sensor_spoils_updates:
  assumes "ambient_sensor_read senv (map_ambient (io_map_get (se_build senv)) ! i) w = ((err, temp, hum), w1)" "err \<noteq> ESP_OK"
    and "i < 2" "\<not> sc_ambient_initialized ctx ! i" "sensor_model_inv (sc_model ctx)" "sdm_initialized (sc_model ctx)" "sdm_mutex (sc_model ctx)"
    and "se_took senv w1" "update_ambient senv i (ctx, w) = (ctx', w')"
  shows "\<not> readings_are_numbers (sdm_current (sn_model
    (fold (\<lambda>(now, took). sensor_app_turn env now took) turns (s\<lparr>sn_model := sc_model ctx'\<rparr>))))"
proof -
  let ?cur = "sdm_current (sc_model ctx)" and ?cur' = "sdm_current (sc_model ctx')"
  define entry where "entry = \<lparr>sht_id = cstr_copy 16 (ambient_id (map_ambient (io_map_get (se_build senv)) ! i) i),
    sht_temperature_c = NaN, sht_humidity_percent = NaN, sht_valid = False\<rparr>"
  have cur: "su_sht20 ?cur' = (su_sht20 ?cur)[i := entry]" "i < su_sht20_count ?cur'"
    using assms(1-4,6-9)
    by (auto simp: update_ambient_def with_model_def data_model_set_sht20_def data_model_lock_def entry_def Let_def)
  have "length (su_sht20 ?cur) = 2" using assms(5) by (simp add: sensor_model_inv_def sensor_update_wf_def)
  then have "entry \<in> set (take (su_sht20_count ?cur') (su_sht20 ?cur'))"
    using cur assms(3) by (auto simp: in_set_conv_nth intro!: exI [of _ i])
  moreover have "sht_temperature_c entry = NaN" by (simp add: entry_def)
  ultimately have "\<not> readings_are_numbers ?cur'" by (auto simp: readings_are_numbers_def)
  moreover have "readings_are_numbers (sdm_current (sn_model (fold (\<lambda>(now, took). sensor_app_turn env now took) turns s1))) =
      readings_are_numbers (sdm_current (sn_model s1))" for s1
    by (induction turns arbitrary: s1) (simp_all add: turn_keeps_readings split: prod.split)
  ultimately show ?thesis by simp
qed

text \<open>A node whose only sensor has been read, has been published and stops answering.\<close>

definition mute_bus :: i2c_env where
  "mute_bus = empty_bus\<lparr>i2c_link := \<lambda>_. False\<rparr>"

definition demo_mute :: sensors_env where
  "demo_mute = (demo_sensors 7)\<lparr>se_i2c := mute_bus\<rparr>"

definition demo_published :: sensor_data_model_t where
  "demo_published = data_model_init\<lparr>sdm_current := zero_sensor_update\<lparr>su_sequence_id := 1, su_sht20_count := 1\<rparr>,
     sdm_last_published := zero_sensor_update\<lparr>su_sequence_id := 1, su_sht20_count := 1\<rparr>\<rparr>"

definition demo_read_ctx :: sensors_task_ctx_t where
  "demo_read_ctx = demo_sensors_ctx\<lparr>sc_model := demo_published, sc_ambient_initialized := [True, False]\<rparr>"

definition demo_sensor_build :: sensor_build where
  "demo_sensor_build = \<lparr>sb_sec2_salt_base64 = ''AQID'', sb_sec2_verifier_base64 = ''AQID'', sb_crypto_secret_base64 = ''AQID'',
     sb_totp_secret_base32 = [], sb_enable_encryption = True, sb_enable_handshake = True, sb_enable_totp = False,
     sb_service_name = ''SENSOR'', sb_pop = ''0123456789'', sb_prefer_ble = True, sb_prov_timeout_ms = 0, sb_connect_timeout_ms = 15000,
     sb_max_attempts = 5, sb_sec2_username = ''node'', sb_port = 8443, sb_auth_token = ''0123456789abcdefg'', sb_handshake_ttl_ms = 3000,
     sb_handshake_cache_size = 8, sb_totp_period_s = 30, sb_totp_digits = 6, sb_totp_window = 1,
     sb_ota_url = ''https://ota/sensor.json'', sb_allow_placeholder_secrets = False, sb_onewire_gpio = 4\<rparr>"

definition demo_node_env :: sensor_node_env where
  "demo_node_env = \<lparr>nd_build = demo_sensor_build, nd_base64 = (\<lambda>_ _. (B64_OK, [1, 2, 3])), nd_wifi = demo_online_wifi,
     nd_mdns = (\<lambda>_. ESP_OK), nd_cert_build = demo_certs\<lparr>cb_from_nvs := False, cb_from_spiffs := False\<rparr>,
     nd_cert = working (\<lambda>_. None) (\<lambda>_. None), nd_srv = demo_env, nd_mem = demo_mem, nd_i2c = sht20_demo, nd_i2c_mutex = True,
     nd_io_build = se_build (demo_sensors 0), nd_ow = demo_ow, nd_ota_alloc = True, nd_ota_task = True,
     nd_ota_wait = (\<lambda>_ _. True), nd_round = (\<lambda>x. x)\<rparr>"

definition demo_node :: sensor_node where
  "demo_node = \<lparr>sn_model = demo_published, sn_srv = demo_off, sn_wifi = wifi_manager_reset_state, sn_mdns = [],
     sn_certs = cert_static (nd_cert_build demo_node_env),
     sn_sec2 = \<lparr>sec2_salt = None, sec2_salt_len = 0, sec2_verifier = None, sec2_verifier_len = 0\<rparr>, sn_ws_secret = [], sn_totp_secret = [],
     sn_mem = mem_start, sn_bus = ready_bus, sn_ow = [], sn_sensors = demo_sensors_ctx, sn_io = demo_io, sn_ota = None\<rparr>"

lemma mute_bus_write: "bus_initialized s \<Longrightarrow> \<exists>s'. i2c_bus_write mute_bus addr wr s = (ESP_ERR_NO_MEM, s') \<and> bus_initialized s'"
  by (simp add: i2c_bus_write_def i2c_master_cmd_def numeral_3_eq_3 mute_bus_def Let_def i2c_bus_lock_def i2c_bus_unlock_def bus_emit_def)

lemma mute_bus_sht20: "bus_initialized s \<Longrightarrow> \<exists>s'. sht20_read_temperature_humidity fl mute_bus addr s = ((ESP_ERR_NO_MEM, None, None), s')"
proof -
  have m: "bus_initialized s \<Longrightarrow> \<exists>s'. sht20_measure_once mute_bus addr command s = ((ESP_ERR_NO_MEM, []), s') \<and> bus_initialized s'" for command s
    using mute_bus_write [of s addr "[command]"] by (auto simp: sht20_measure_once_def)
  have f: "bus_initialized s \<Longrightarrow> bus_initialized (sht20_after_failure mute_bus addr attempt s)" for attempt s
    using mute_bus_write [of "bus_emit e s" for e] mute_bus_write [of s addr "[SHT20_CMD_SOFT_RESET]"]
    by (auto simp: sht20_after_failure_def sht20_soft_reset_def Let_def split: prod.splits)
  have a: "bus_initialized s \<Longrightarrow> e = ESP_ERR_NO_MEM \<or> n > 0 \<Longrightarrow>
      \<exists>s'. sht20_attempts fl mute_bus addr command t n attempt e s = ((ESP_ERR_NO_MEM, None), s')" for command t n attempt e s
  proof (induction n arbitrary: attempt e s)
    case (Suc n)
    obtain s1 where "sht20_measure_once mute_bus addr command s = ((ESP_ERR_NO_MEM, []), s1)" "bus_initialized s1" using m Suc.prems by blast
    then show ?case using Suc.IH [OF f] by simp
  qed simp
  assume "bus_initialized s"
  from a [OF this, of ESP_FAIL SHT20_MAX_RETRIES SHT20_CMD_TRIGGER_TEMP True 0] obtain s' where
    "sht20_read_measurement fl mute_bus addr SHT20_CMD_TRIGGER_TEMP True s = ((ESP_ERR_NO_MEM, None), s')"
    by (auto simp: sht20_read_measurement_def SHT20_MAX_RETRIES_def)
  then show ?thesis by (simp add: sht20_read_temperature_humidity_def)
qed

theorem sensor_fault_is_not_announced_witness:
  "\<exists>ctx' w'. update_ambient demo_mute 0 (demo_read_ctx, demo_sensors_world) = (ctx', w') \<and>
    \<not> sht_valid (su_sht20 (sdm_current (sc_model ctx')) ! 0) \<and>
    sn_srv (fold (\<lambda>(now, took). sensor_app_turn demo_node_env now took) (replicate 1000 (7, \<lambda>_. True))
      (demo_node\<lparr>sn_model := sc_model ctx', sn_srv := demo_srv\<rparr>)) = demo_srv"
proof -
  have "amb_type (map_ambient (io_map_get (se_build demo_mute)) ! 0) = IO_AMBIENT_SENSOR_SHT20 \<and>
      amb_mux_channel (map_ambient (io_map_get (se_build demo_mute)) ! 0) = IO_MUX_CHANNEL_NONE \<and>
      cfg_ambient (se_build demo_mute) = IO_AMBIENT_SENSOR_SHT20" by code_simp
  moreover have "bus_initialized (sw_i2c demo_sensors_world)" by (simp add: demo_sensors_world_def ready_bus_def)
  ultimately have r: "case ambient_sensor_read demo_mute (map_ambient (io_map_get (se_build demo_mute)) ! 0) demo_sensors_world of
      ((err, _), _) \<Rightarrow> err \<noteq> ESP_OK"
    using mute_bus_sht20 [of "sw_i2c demo_sensors_world" "se_fl demo_mute" "amb_address (map_ambient (io_map_get (se_build demo_mute)) ! 0)"]
    by (auto simp: ambient_sensor_read_def select_ambient_channel_def demo_mute_def split: prod.splits)
  obtain err temp hum w1 where read: "ambient_sensor_read demo_mute (map_ambient (io_map_get (se_build demo_mute)) ! 0) demo_sensors_world =
      ((err, temp, hum), w1)" by (metis prod.collapse)
  obtain ctx' w' where u: "update_ambient demo_mute 0 (demo_read_ctx, demo_sensors_world) = (ctx', w')" by fastforce
  have m: "sn_model demo_node = demo_published" by (simp add: demo_node_def)
  have "settled (nd_round demo_node_env) demo_published"
    by (simp add: settled_def demo_published_def within_deadband_def demo_node_env_def float_near_refl)
  moreover have "sensor_model_inv demo_published"
    using init_inv sensor_update_wf_zero by (simp add: sensor_model_inv_def demo_published_def sensor_update_wf_def)
  moreover have "err \<noteq> ESP_OK" using r read by simp
  ultimately show ?thesis
    using sensor_fault_is_not_announced [where env = demo_node_env and s = demo_node and ctx = demo_read_ctx and srv = demo_srv and
        turns = "replicate 1000 (7, \<lambda>_. True)", unfolded m, OF _ _ _ read _ _ _ _ _ _ _ _ _ u] u
    by (simp add: demo_read_ctx_def demo_published_def demo_sensors_ctx_def zero_sensor_update_def zero_sht20_def data_model_init_def
        demo_mute_def demo_sensors_def)
qed

theorem sensor_server_started_secure_witness:
  "\<exists>s'. sensor_ws_server_start demo_node_env demo_node = Some (Returned ESP_OK, s') \<and> sn_ws_secret s' \<noteq> [] \<and>
    sec_encryption_enabled (srv_sec (sn_srv s'))"
proof -
  let ?sec2 = "\<lparr>sec2_salt = Some [1, 2, 3], sec2_salt_len = 3, sec2_verifier = Some [1, 2, 3], sec2_verifier_len = 3\<rparr>"
  have b: "nd_build demo_node_env = demo_sensor_build" by (simp add: demo_node_env_def)
  obtain w where w: "wifi_manager_start (nd_wifi demo_node_env) (Some (sensor_wifi_config demo_sensor_build ?sec2)) (sn_wifi demo_node) =
      Some (Returned ESP_OK, w)"
    using online_start [of "sensor_wifi_config demo_sensor_build ?sec2"]
    by (auto simp: demo_node_env_def demo_node_def sensor_wifi_config_def demo_sensor_build_def sec2_usable_def)
  let ?s1 = "demo_node\<lparr>sn_sec2 := ?sec2\<rparr>"
  let ?s2 = "?s1\<lparr>sn_ws_secret := [1, 2, 3], sn_totp_secret := []\<rparr>"
  have l1: "sensor_load_sec2 demo_node_env demo_node = (None, ?s1)"
    by (simp add: sensor_load_sec2_def base64_utils_decode_def demo_node_env_def demo_sensor_build_def Let_def)
  have l2: "sensor_load_secrets demo_node_env ?s1 = (None, ?s2)"
    unfolding sensor_load_secrets_def b by (simp add: base64_utils_decode_def demo_node_env_def demo_sensor_build_def Let_def)
  obtain mdns where m: "mdns_helper_start (nd_mdns demo_node_env) (Some ''sensor-node'') (Some ''Sensor Node'') (sb_port demo_sensor_build) (sn_mdns demo_node) = (ESP_OK, mdns)"
    by (simp add: mdns_helper_start_def demo_node_env_def Let_def)
  have "fst (ws_server_start demo_env (Some (sensor_server_config demo_sensor_build [45, 45, 0] [45, 45, 0] [1, 2, 3] [])) True demo_off) = ESP_OK"
    by code_simp
  then have "fst (sensor_serve demo_node_env (?s2\<lparr>sn_wifi := w, sn_mdns := mdns\<rparr>)) = Returned ESP_OK"
    by (auto simp: sensor_serve_def demo_node_env_def demo_node_def Let_def cert_store_server_cert_def cert_store_server_key_def
        cert_store_select_blob_def cert_store_init_once_def cert_store_load_from_nvs_def
        cert_store_load_from_spiffs_def cert_static_def demo_certs_def split: prod.splits)
  then obtain s' where "sensor_ws_server_start demo_node_env demo_node = Some (Returned ESP_OK, s')"
    using w m by (cases "sensor_serve demo_node_env (?s2\<lparr>sn_wifi := w, sn_mdns := mdns\<rparr>)")
      (simp add: sensor_ws_server_start_def l1 l2 b)
  moreover have "srv_stopped (sn_srv demo_node)" "owned (sn_srv demo_node)" using demo_off by (simp_all add: demo_node_def)
  ultimately show ?thesis using sensor_server_started_secure [of demo_node_env demo_node] by (fastforce simp: b demo_sensor_build_def)
qed

text \<open>A node on the link, with readings that have never been published.\<close>

definition demo_source :: sensor_node where
  "demo_source = demo_node\<lparr>sn_model := demo_model\<lparr>sdm_last_published := zero_sensor_update\<rparr>, sn_srv := demo_srv\<rparr>"

definition demo_snapshot :: proto_sensor_update_t where
  "demo_snapshot = (sdm_current demo_model)\<lparr>su_timestamp_ms := 7000, su_sequence_id := su_sequence_id (sdm_current demo_model) + 1\<rparr>"

theorem change_reaches_screens_witness:
  "\<exists>frame payload crc. EvSend 5 WS_BINARY frame \<in> set (srv_log (sn_srv (sensor_app_turn demo_node_env 7000 (\<lambda>_. True) demo_source))) \<and>
    update_shown demo_lv (sensor_update_norm (doc_cjson [sensor_update_doc demo_snapshot]) (\<lambda>r. r) demo_snapshot)
      (get_locale (ut_ui demo_task)) (prf_use_fahrenheit (ut_prefs demo_task))
      (ut_ui (ui_task_turn demo_te (True, True, True) []
        (demo_task\<lparr>ut_model := hmi_ws_rx (doc_cjson [sensor_update_doc demo_snapshot]) (\<lambda>_. True) payload crc demo_hmi\<rparr>)))"
proof -
  have f: "sn_srv demo_source = demo_srv" "nd_srv demo_node_env = demo_env" "nd_round demo_node_env = (\<lambda>x. x)"
    by (simp_all add: demo_source_def demo_node_env_def)
  have m: "sdm_current (sn_model demo_source) = sdm_current demo_model" "sdm_initialized (sn_model demo_source)"
    "sdm_mutex (sn_model demo_source)" "sensor_model_inv (sn_model demo_source)" "sdm_last_published (sn_model demo_source) = zero_sensor_update"
    using demo_model_ok(1-3) sensor_update_wf_zero by (simp_all add: demo_source_def sensor_model_inv_def)
  have p: "data_model_should_publish (nd_round demo_node_env) True (sn_model demo_source) (nd_round demo_node_env (3 / 10)) (nd_round demo_node_env 1)"
    using m by (simp add: should_publish_cases zero_sensor_update_def)
  have seq: "su_sequence_id (sdm_current demo_model) + 1 \<noteq> 0" by (simp add: demo_current)
  have t: "hdm_mutex (ut_model demo_task)" "ut_model demo_task = demo_hmi" "te_lv demo_te = demo_lv" using demo_boot_fields by simp_all
  have fd: "1 < length (the (srv_clients demo_srv))" "0 \<le> cl_fd (the (srv_clients demo_srv) ! 1)" "cl_fd (the (srv_clients demo_srv) ! 1) = 5"
    by (simp_all add: demo_srv_def)
  have "readings_are_numbers demo_snapshot" using demo_current_numbers by (simp add: demo_snapshot_def readings_are_numbers_def)
  then show ?thesis
    using change_reaches_screens [where s = demo_source and env = demo_node_env, unfolded f(1,2) m(1), OF demo_clients(1) demo_inv demo_sender(1) demo_clients(3)
        demo_sender(2-4) m(4,2,3) demo_model_ok(4) seq demo_model_ok(6) demo_snapshot_def doc_cjson_reads p _ _ _ demo_sender(5-8) t(1)
        demo_run demo_boot_fields(5) fd(1,2) refl]
    by (auto simp: f(3) t(2,3) demo_boot_fields(2) fd(3) [unfolded One_nat_def])
qed

section \<open>The HMI node\<close>

text \<open>
  The data model is a local variable of \<^verbatim>\<open>app_main\<close>, declared without \<^verbatim>\<open>static\<close>. What is at stake
  is the lifetime of that object, so the node keeps the objects of this type that exist, by their
  addresses: an object of static storage, or the one that an activation of a function holds in
  automatic storage. Activations are numbered in the order in which they are entered.
  The static pointers \<^verbatim>\<open>s_model\<close> of the network task and of the user interface task hold such an
  address once it has been given to them.
\<close>

datatype model_addr = StaticModel | AutoModel nat

datatype hmi_task_kind = TaskHeartbeat | TaskNet | TaskUi

record hmi_start_env =
  hs_auth_token :: string
  hs_pop :: string
  hs_ota_url :: string
  hs_allow_placeholder_secrets :: bool
  hs_mem :: mem_env
  hs_nvs :: nvs_env
  hs_cert_build :: cert_build
  hs_cert :: cert_env
  hs_ota_alloc :: bool
  hs_ota_task :: bool
  hs_ota_wait :: "ota_log \<Rightarrow> u32 \<Rightarrow> bool"

record hmi_node =
  hm_frames :: "nat list"
  hm_next_frame :: nat
  hm_objects :: "model_addr \<rightharpoonup> hmi_data_model_t"
  hm_net_model :: "model_addr option"
  hm_ui_model :: "model_addr option"
  hm_tasks :: "hmi_task_kind list"
  hm_store :: prefs_store
  hm_mem :: mem_profile
  hm_certs :: cert_store
  hm_ota :: "ota_update_config_t option"

definition hmi_validate_runtime_secrets :: "hmi_start_env \<Rightarrow> bool" where
  "hmi_validate_runtime_secrets env \<longleftrightarrow> hs_allow_placeholder_secrets env \<or>
     (length (hs_auth_token env) > 16 \<and> length (hs_pop env) > 8 \<and> length (hs_ota_url env) > 12)"

definition hmi_start_tasks :: "hmi_start_env \<Rightarrow> hmi_node \<Rightarrow> hmi_node" where
  "hmi_start_tasks env s =
     (case hmi_data_model_init (hs_nvs env) (hm_store s) of (model, store) \<Rightarrow>
        let a = AutoModel (hd (hm_frames s));
            s = s\<lparr>hm_objects := (hm_objects s)(a \<mapsto> model), hm_store := store\<rparr>;
            s = s\<lparr>hm_tasks := TaskHeartbeat # hm_tasks s\<rparr>;
            s = s\<lparr>hm_net_model := Some a, hm_tasks := TaskNet # hm_tasks s\<rparr>
        in s\<lparr>hm_ui_model := Some a, hm_tasks := TaskUi # hm_tasks s\<rparr>)"

definition hmi_schedule_ota :: "hmi_start_env \<Rightarrow> hmi_node \<Rightarrow> wifi_outcome \<times> hmi_node" where
  "hmi_schedule_ota env s =
     (case cert_store_ca_cert (hs_cert_build env) (hs_cert env) (hm_certs s) of (ca, certs) \<Rightarrow>
      case ota_update_schedule (hs_ota_alloc env) (hs_ota_task env) (Some (ota_config (hs_ota_url env) ca (hs_ota_wait env))) of
        (err, task) \<Rightarrow>
          let s = s\<lparr>hm_certs := certs, hm_ota := task\<rparr>
          in if err \<noteq> ESP_OK then (Aborted err, s) else (Returned ESP_OK, s))"

definition hmi_app_start :: "hmi_start_env \<Rightarrow> hmi_node \<Rightarrow> wifi_outcome \<times> hmi_node" where
  "hmi_app_start env s =
     (if \<not> hmi_validate_runtime_secrets env then (Aborted ESP_FAIL, s)
      else case memory_profile_init (hs_mem env) (hm_mem s) of (err, mem) \<Rightarrow>
        let s = s\<lparr>hm_mem := mem\<rparr> in
        if err \<noteq> ESP_OK then (Aborted err, s)
        else
          let s = s\<lparr>hm_mem := snd (memory_profile_log (hs_mem env) (hm_mem s))\<rparr>
          in hmi_schedule_ota env (hmi_start_tasks env s))"

text \<open>
  A call in C: it begins a new activation, and when the function returns its automatic objects
  cease to exist, while those of static storage and of the callers go on. A call that stops the
  node does not return.
\<close>

definition object_lives :: "nat list \<Rightarrow> model_addr \<Rightarrow> bool" where
  "object_lives frames a \<longleftrightarrow> (case a of StaticModel \<Rightarrow> True | AutoModel n \<Rightarrow> n \<in> set frames)"

definition c_call :: "(hmi_node \<Rightarrow> wifi_outcome \<times> hmi_node) \<Rightarrow> hmi_node \<Rightarrow> wifi_outcome \<times> hmi_node" where
  "c_call f s =
     (case f (s\<lparr>hm_frames := hm_next_frame s # hm_frames s, hm_next_frame := hm_next_frame s + 1\<rparr>) of
        (Returned err, t) \<Rightarrow>
          let frames = tl (hm_frames t)
          in (Returned err, t\<lparr>hm_frames := frames, hm_objects := (\<lambda>a. if object_lives frames a then hm_objects t a else None)\<rparr>)
      | (Aborted err, t) \<Rightarrow> (Aborted err, t))"

definition hmi_app_main :: "hmi_start_env \<Rightarrow> hmi_node \<Rightarrow> wifi_outcome \<times> hmi_node" where
  "hmi_app_main env s = c_call (hmi_app_start env) s"

text \<open>Every object in automatic storage belongs to an activation that was entered.\<close>

definition frames_ok :: "hmi_node \<Rightarrow> bool" where
  "frames_ok s \<longleftrightarrow> list_all (\<lambda>n. n < hm_next_frame s) (hm_frames s)"

text \<open>
  C39. The data model of the HMI node does not outlive its start. When \<^verbatim>\<open>app_main\<close> returns, which
  unlike that of the sensor node it does, all three tasks run and the update is scheduled;
  the network task and the user interface task hold one address, that of the data model which
  \<^verbatim>\<open>hmi_data_model_init\<close> filled and which existed up to the return. As a local variable it has
  then ceased to exist: both tasks are left with a pointer to nothing.
\<close>

theorem hmi_model_gone_after_start:
  assumes "hmi_app_main env s = (Returned err, s')" "frames_ok s"
  shows "err = ESP_OK \<and> hm_tasks s' = [TaskUi, TaskNet, TaskHeartbeat] @ hm_tasks s \<and> hm_ota s' \<noteq> None \<and>
    (\<exists>a t. hmi_app_start env (s\<lparr>hm_frames := hm_next_frame s # hm_frames s, hm_next_frame := hm_next_frame s + 1\<rparr>) = (Returned err, t) \<and>
      hm_objects t a = Some (fst (hmi_data_model_init (hs_nvs env) (hm_store s))) \<and>
      hm_net_model s' = Some a \<and> hm_ui_model s' = Some a \<and> hm_objects s' a = None)"
proof -
  let ?s = "s\<lparr>hm_frames := hm_next_frame s # hm_frames s, hm_next_frame := hm_next_frame s + 1\<rparr>" and ?a = "AutoModel (hm_next_frame s)"
  obtain t where t: "hmi_app_start env ?s = (Returned err, t)"
    "s' = t\<lparr>hm_frames := tl (hm_frames t), hm_objects := (\<lambda>a. if object_lives (tl (hm_frames t)) a then hm_objects t a else None)\<rparr>"
    using assms(1) by (auto simp: hmi_app_main_def c_call_def Let_def split: prod.splits wifi_outcome.splits)
  have "err = ESP_OK \<and> hm_tasks t = [TaskUi, TaskNet, TaskHeartbeat] @ hm_tasks s \<and> hm_ota t \<noteq> None \<and>
      hm_frames t = hm_next_frame s # hm_frames s \<and> hm_net_model t = Some ?a \<and> hm_ui_model t = Some ?a \<and>
      hm_objects t ?a = Some (fst (hmi_data_model_init (hs_nvs env) (hm_store s)))"
    using t(1) by (auto simp: hmi_app_start_def hmi_schedule_ota_def hmi_start_tasks_def ota_update_schedule_def ota_config_def
        Let_def split: prod.splits if_splits)
  moreover have "hm_next_frame s \<notin> set (hm_frames s)" using assms(2) by (auto simp: frames_ok_def list_all_iff)
  ultimately show ?thesis using t by (simp add: object_lives_def)
qed

definition demo_hmi_start :: hmi_start_env where
  "demo_hmi_start = \<lparr>hs_auth_token = ''0123456789abcdefg'', hs_pop = ''0123456789'', hs_ota_url = ''https://ota/hmi.json'',
     hs_allow_placeholder_secrets = False, hs_mem = demo_mem, hs_nvs = demo_nvs, hs_cert_build = demo_certs,
     hs_cert = working (\<lambda>_. None) (\<lambda>_. None), hs_ota_alloc = True, hs_ota_task = True, hs_ota_wait = (\<lambda>_ _. True)\<rparr>"

definition demo_hmi_node :: hmi_node where
  "demo_hmi_node = \<lparr>hm_frames = [], hm_next_frame = 0, hm_objects = Map.empty, hm_net_model = None, hm_ui_model = None, hm_tasks = [], hm_store = demo_store,
     hm_mem = mem_start, hm_certs = cert_static demo_certs, hm_ota = None\<rparr>"

theorem hmi_model_gone_after_start_witness:
  "\<exists>s' a. hmi_app_main demo_hmi_start demo_hmi_node = (Returned ESP_OK, s') \<and> hm_tasks s' = [TaskUi, TaskNet, TaskHeartbeat] \<and>
    hm_ui_model s' = Some a \<and> hm_objects s' a = None"
proof -
  have "fst (memory_profile_init demo_mem mem_start) = ESP_OK" by code_simp
  then have "\<exists>s'. hmi_app_main demo_hmi_start demo_hmi_node = (Returned ESP_OK, s')"
    by (auto simp: hmi_app_main_def c_call_def hmi_app_start_def hmi_schedule_ota_def hmi_validate_runtime_secrets_def ota_update_schedule_def
        ota_config_def demo_hmi_start_def demo_hmi_node_def Let_def split: prod.splits)
  moreover have "frames_ok demo_hmi_node" by (simp add: frames_ok_def demo_hmi_node_def)
  ultimately show ?thesis using hmi_model_gone_after_start [of demo_hmi_start demo_hmi_node] by (fastforce simp: demo_hmi_node_def)
qed

end
