(* ===== verification/Sessions.thy ===== *)
theory Sessions
  imports Link
begin

text \<open>
  Frames over several sessions of \<^verbatim>\<open>common/net/ws_server.c\<close> and \<^verbatim>\<open>common/net/ws_client.c\<close>. The key of
  the frames is derived from the secret of the build and is the same in every session and in
  both directions; the counters start from zero with every connection. Within a connection no
  frame is accepted twice (\<open>ws_security_no_replay\<close>); here is what holds across connections.
\<close>

section \<open>A frame that is accepted\<close>

lemma accepted_frame:
  assumes "srv_clients st = Some cs" "find_client cs fd = Some i" "length frame \<le> wss_rx_buffer_size (srv_cfg st)"
    and "srv_rx_cb st" "sec_encryption_enabled (srv_sec st)" "cl_handshake_verified (cs ! i)"
    and "ws_security_decrypt (env_crypto env) (Some (srv_sec st)) (Some frame) (Some (cl_last_counter (cs ! i))) = (ESP_OK, p, counter)"
  shows "\<exists>st'. ws_handler env (frame_req fd WS_BINARY frame) st = (ESP_OK, st') \<and>
    srv_log st' = (if 4 \<le> length p then EvRx (drop 4 p) (le_word (take 4 p)) else EvRx p 0) # srv_log st \<and>
    srv_sec st' = srv_sec st \<and> srv_cfg st' = srv_cfg st \<and> srv_rx_cb st' = srv_rx_cb st \<and>
    srv_clients st' = Some (cs[i := (cs ! i)\<lparr>cl_last_seen := env_ticks env (srv_log st),
       cl_last_counter := frame_counter frame, cl_awaiting_pong := False\<rparr>])"
proof -
  obtain ret st' where h: "ws_handler env (frame_req fd WS_BINARY frame) st = (ret, st')" by fastforce
  have "srv_sec st' = srv_sec st \<and> srv_cfg st' = srv_cfg st \<and> srv_rx_cb st' = srv_rx_cb st"
    using h assms by (auto simp: ws_handler_frame_req ws_handler_data_def ws_security_is_encryption_enabled_def update_client_def deliver_def)
  with ws_handler_binary_cases [OF assms(1-5) h] assms(6,7) h show ?thesis by auto
qed

lemma accepted_by_key:
  assumes "ws_security_decrypt cr (Some ctx) (Some frame) (Some seen) = (ESP_OK, p, counter)" "sec_encryption_enabled ctx"
    and "seen' < frame_counter frame"
  shows "ws_security_decrypt cr (Some ctx) (Some frame) (Some seen') = (ESP_OK, p, Some (frame_counter frame))"
  using assms by (auto simp: ws_security_decrypt_def ws_security_open_frame_def Let_def split: if_splits option.splits)

section \<open>A new session\<close>

lemma admitted_slot:
  assumes "srv_clients st = Some cs" "find_index (\<lambda>c. cl_fd c < 0) cs = Some j" "\<forall>c \<in> set cs. cl_fd c \<noteq> fd" "0 \<le> fd"
    and "req_is_get req" "req_fd req = fd" "fst (authorize_request env st req)" "ws_handler env req st = (r, st')"
  shows "r = ESP_OK \<and> srv_log st' = srv_log st \<and> srv_sec st' = srv_sec st \<and> srv_cfg st' = srv_cfg st \<and> srv_rx_cb st' = srv_rx_cb st \<and>
    (\<exists>cs'. srv_clients st' = Some cs' \<and> find_client cs' fd = Some j \<and> cl_handshake_verified (cs' ! j) \<and> cl_last_counter (cs' ! j) = 0)"
proof -
  obtain st1 where a: "authorize_request env st req = (True, st1)" using assms(7) by (metis prod.collapse)
  have "authorize_handshake env st req = (True, st1)" using a by (simp add: authorize_request_True)
  then have st1: "srv_log st1 = srv_log st" "srv_sec st1 = srv_sec st" "srv_cfg st1 = srv_cfg st" "srv_rx_cb st1 = srv_rx_cb st"
      "srv_clients st1 = Some cs" "handshake_on st1 = handshake_on st"
    using assms(1) by (auto simp: authorize_handshake_def handshake_on_def Let_def split: prod.splits option.splits if_splits)
  let ?c = "client_registered (handshake_on st) fd (env_ticks env (srv_log st))"
  have j: "j < length cs" using assms(2) by (auto elim: find_index_SomeE)
  have find: "find_client (cs[j := c]) fd = Some j" if "cl_fd c = fd" for c
    using assms(3) j that by (auto simp: find_client_def find_index_Some nth_list_update)
  have "ws_handler env req st = (ESP_OK, st1\<lparr>srv_clients := Some (if handshake_on st then mark_client_verified fd (cs[j := ?c]) else cs[j := ?c])\<rparr>)"
    using assms(2,5,6) a st1 by (simp add: ws_handler_def ws_handler_upgrade_def srv_add_client_def add_client_def handshake_on_def)
  then have r: "r = ESP_OK" "st' = st1\<lparr>srv_clients := Some (if handshake_on st then mark_client_verified fd (cs[j := ?c]) else cs[j := ?c])\<rparr>"
    using assms(8) by simp_all
  have fd: "cl_fd ?c = fd" by (simp add: client_registered_def)
  show ?thesis
    unfolding r using st1 find [OF fd] j
    by (auto simp: mark_client_verified_def find client_registered_def)
qed

text \<open>
  C14. A recorded command runs again. A frame that the server has accepted is accepted once more
  when its connection has closed and any other one has been admitted: the application gets
  the same data with a checksum in order. Nothing in a frame says which session it is from.
\<close>

theorem recorded_frame_accepted_again:
  assumes "srv_clients st = Some cs" "clients_inv cs" "find_client cs fd = Some i" "0 \<le> fd"
    and "length frame \<le> wss_rx_buffer_size (srv_cfg st)" "srv_rx_cb st" "sec_encryption_enabled (srv_sec st)"
    and "ws_handler env (frame_req fd WS_BINARY frame) st = (ESP_OK, st1)"
    and "req_is_get req" "req_fd req = fd2" "0 \<le> fd2" "\<forall>c \<in> set cs. cl_fd c = fd2 \<longrightarrow> fd2 = fd"
    and "fst (authorize_request env (ws_close_hook fd st1) req)" "ws_handler env req (ws_close_hook fd st1) = (r, st2)"
  shows "r = ESP_OK \<and> (\<exists>data crc st3. srv_log st1 = EvRx data crc # srv_log st \<and>
    ws_handler env (frame_req fd2 WS_BINARY frame) st2 = (ESP_OK, st3) \<and> srv_log st3 = EvRx data crc # srv_log st2)"
proof -
  have i: "i < length cs" "cl_fd (cs ! i) = fd" using assms(3) by (auto simp: find_client_def elim: find_index_SomeE)
  have v: "cl_handshake_verified (cs ! i)" using ws_handler_binary_cases [OF assms(1,3,5-8)] by (auto split: if_splits)
  obtain err p counter where d: "ws_security_decrypt (env_crypto env) (Some (srv_sec st)) (Some frame) (Some (cl_last_counter (cs ! i))) = (err, p, counter)"
    by (metis prod.collapse)
  have "err = ESP_OK" using ws_handler_binary_cases [OF assms(1,3,5-8)] v d by (auto split: esp_err.splits)
  note d = d [unfolded this]
  have counter: "0 < frame_counter frame"
    using d assms(7) by (auto simp: ws_security_decrypt_def dest!: ws_security_open_frame_advances)
      (metis word_coorder.not_eq_extremum word_not_simps(1))
  let ?c = "(cs ! i)\<lparr>cl_last_seen := env_ticks env (srv_log st), cl_last_counter := frame_counter frame, cl_awaiting_pong := False\<rparr>"
  let ?event = "if 4 \<le> length p then EvRx (drop 4 p) (le_word (take 4 p)) else EvRx p 0"
  have st1: "srv_log st1 = ?event # srv_log st" "srv_sec st1 = srv_sec st" "srv_cfg st1 = srv_cfg st" "srv_rx_cb st1" "srv_clients st1 = Some (cs[i := ?c])"
    using accepted_frame [OF assms(1,3,5-7) v d] assms(6,8) by simp_all
  have "clients_inv (cs[i := ?c])" using assms(2) by (rule clients_inv_keep) simp
  then have dropped: "srv_clients (drop_client fd st1) = Some (cs[i := client_cleared (handshake_on st1)])"
    using drop_client_slot [OF st1(5), of i] i assms(4) by simp
  let ?closed = "ws_close_hook fd st1" and ?free = "client_cleared (handshake_on st1)"
  have closed: "srv_clients ?closed = Some (cs[i := ?free])" "srv_log ?closed = srv_log st1" "srv_sec ?closed = srv_sec st" "srv_cfg ?closed = srv_cfg st"
      "srv_rx_cb ?closed"
    using dropped st1 by (simp_all add: ws_close_hook_def drop_client_def)
  obtain j where j: "find_index (\<lambda>c. cl_fd c < 0) (cs[i := ?free]) = Some j"
  proof (cases "find_index (\<lambda>c. cl_fd c < 0) (cs[i := ?free])")
    case None
    then show ?thesis using set_update_memI [OF i(1), of ?free] by (auto simp: find_index_None client_cleared_def)
  qed (rule that)
  have other: "\<forall>c \<in> set (cs[i := ?free]). cl_fd c \<noteq> fd2"
  proof
    fix c assume "c \<in> set (cs[i := ?free])"
    then obtain k where k: "k < length cs" "c = cs[i := ?free] ! k" by (auto simp: in_set_conv_nth)
    show "cl_fd c \<noteq> fd2"
    proof
      assume "cl_fd c = fd2"
      then have "k \<noteq> i" "cl_fd (cs ! k) = fd2" using k assms(11) i(1) by (auto simp: client_cleared_def nth_list_update split: if_splits)
      moreover then have "fd2 = fd" using assms(12) k(1) by auto
      ultimately show False
        using filter_distinct_index [of cl_fd client_used cs k i] assms(2,4) i k(1) by (auto simp: clients_inv_def client_fds_def client_used_def)
    qed
  qed
  obtain cs' where st2: "r = ESP_OK" "srv_log st2 = srv_log ?closed" "srv_sec st2 = srv_sec st" "srv_cfg st2 = srv_cfg st" "srv_rx_cb st2"
      "srv_clients st2 = Some cs'" "find_client cs' fd2 = Some j" "cl_handshake_verified (cs' ! j)" "cl_last_counter (cs' ! j) = 0"
    using admitted_slot [OF closed(1) j other assms(11,9,10,13,14)] closed by auto
  have "ws_security_decrypt (env_crypto env) (Some (srv_sec st2)) (Some frame) (Some (cl_last_counter (cs' ! j))) = (ESP_OK, p, Some (frame_counter frame))"
    using accepted_by_key [OF d assms(7), of 0] counter st2(3,9) by simp
  from accepted_frame [OF st2(6,7) _ st2(5) _ st2(8) this] assms(5,7) st2(3,4) obtain st3 where
    "ws_handler env (frame_req fd2 WS_BINARY frame) st2 = (ESP_OK, st3)" "srv_log st3 = ?event # srv_log st2" by auto
  with st2(1) st1(1) show ?thesis by (cases "4 \<le> length p") auto
qed

theorem recorded_frame_accepted_again_witness:
  "\<exists>st3. ws_handler demo_env (frame_req 7 WS_BINARY demo_frame)
      (snd (ws_handler demo_env demo_req (ws_close_hook 5 (snd (ws_handler demo_env (frame_req 5 WS_BINARY demo_frame) demo_srv))))) = (ESP_OK, st3) \<and>
    length (srv_log st3) = 2"
proof -
  obtain st1 where h1: "ws_handler demo_env (frame_req 5 WS_BINARY demo_frame) demo_srv = (ESP_OK, st1)"
    using demo_frame_ok by (metis prod.collapse)
  obtain r st2 where h2: "ws_handler demo_env demo_req (ws_close_hook 5 st1) = (r, st2)" by fastforce
  have "fst (authorize_request demo_env (ws_close_hook 5 (snd (ws_handler demo_env (frame_req 5 WS_BINARY demo_frame) demo_srv))) demo_req)"
    by code_simp
  then have a: "fst (authorize_request demo_env (ws_close_hook 5 st1) demo_req)" by (simp add: h1)
  have req: "req_is_get demo_req" "req_fd demo_req = 7" by (simp_all add: demo_req_def)
  have free: "\<forall>c \<in> set (the (srv_clients demo_srv)). cl_fd c = 7 \<longrightarrow> 7 = 5"
    by (auto simp: demo_srv_def client_cleared_def)
  have "srv_log st2 = srv_log st1"
  proof -
    have "srv_log (snd (ws_handler demo_env demo_req (ws_close_hook 5 (snd (ws_handler demo_env (frame_req 5 WS_BINARY demo_frame) demo_srv))))) =
        srv_log (snd (ws_handler demo_env (frame_req 5 WS_BINARY demo_frame) demo_srv))"
      by code_simp
    then show ?thesis by (simp add: h1 h2)
  qed
  moreover have "srv_log demo_srv = []" by (simp add: demo_srv_def)
  ultimately show ?thesis
    using recorded_frame_accepted_again [OF demo_clients(1) demo_inv demo_find(1) _ demo_find(2) demo_clients(2,3) h1 req _ free a h2] h1 h2
    by auto
qed

end
