(* ===== verification/Replay.thy ===== *)
theory Replay
  imports WsServerProps
begin

text \<open>
  Replayed upgrades, \<^verbatim>\<open>nonce_is_duplicate\<close> and \<^verbatim>\<open>nonce_store\<close> of \<^verbatim>\<open>common/net/ws_server.c\<close> over a
  run of the server: how long an admitted nonce stays in the cache while other requests come in.
\<close>

section \<open>The slots of the cache\<close>









section \<open>One request\<close>




section \<open>Runs of the server\<close>












end
