(* ===== verification/Ringbuf.thy ===== *)
theory Ringbuf
  imports Prelude
begin

text \<open>
  The byte ring buffer of \<^verbatim>\<open>common/util/ringbuf.c\<close>: head, tail and a \<open>full\<close> flag over a
  caller-supplied buffer. Writing never refuses a byte: a full ring drops its oldest one.
  The contract is the locale \<open>overwriting_queue\<close>, in which the effect of a whole write
  or read is derived from that of one push or pop; the ring interprets it.
\<close>

section \<open>The contract\<close>

definition last_n :: "nat \<Rightarrow> 'a list \<Rightarrow> 'a list" where
  "last_n n xs = drop (length xs - n) xs"

lemma length_last_n [simp]: "length (last_n n xs) = min n (length xs)"
  by (simp add: last_n_def)

lemma last_n_short: "length xs \<le> n \<Longrightarrow> last_n n xs = xs"
  by (simp add: last_n_def)

lemma last_n_append_last_n: "last_n n (last_n n xs @ ys) = last_n n (xs @ ys)"
  by (cases "length xs \<le> n") (auto simp: last_n_def add.commute)

locale overwriting_queue =
  fixes inv :: "'s \<Rightarrow> bool"
    and content :: "'s \<Rightarrow> 'a list"
    and cap :: "'s \<Rightarrow> nat"
    and push :: "'a \<Rightarrow> 's \<Rightarrow> 's"
    and front :: "'s \<Rightarrow> 'a"
    and pop :: "'s \<Rightarrow> 's"
  assumes content_bounded: "inv s \<Longrightarrow> length (content s) \<le> cap s"
    and push_inv: "inv s \<Longrightarrow> 0 < cap s \<Longrightarrow> inv (push a s)"
    and push_cap: "cap (push a s) = cap s"
    and push_content: "inv s \<Longrightarrow> 0 < cap s \<Longrightarrow> content (push a s) = last_n (cap s) (content s @ [a])"
    and pop_inv: "inv s \<Longrightarrow> content s \<noteq> [] \<Longrightarrow> inv (pop s)"
    and pop_cap: "cap (pop s) = cap s"
    and pop_content: "inv s \<Longrightarrow> content s \<noteq> [] \<Longrightarrow> content s = front s # content (pop s)"
begin

lemma fold_push:
  "inv s \<Longrightarrow> 0 < cap s \<Longrightarrow>
    inv (fold push as s) \<and> cap (fold push as s) = cap s \<and>
    content (fold push as s) = last_n (cap s) (content s @ as)"
proof (induction as arbitrary: s)
  case Nil
  then show ?case by (simp add: last_n_short content_bounded)
next
  case (Cons a as)
  have "last_n (cap s) (last_n (cap s) (content s @ [a]) @ as) = last_n (cap s) (content s @ a # as)"
    by (simp add: last_n_append_last_n)
  with Cons show ?case by (simp add: push_inv push_cap push_content)
qed

lemma pops:
  "inv s \<Longrightarrow> n \<le> length (content s) \<Longrightarrow>
    inv ((pop ^^ n) s) \<and> cap ((pop ^^ n) s) = cap s \<and> content ((pop ^^ n) s) = drop n (content s)"
proof (induction n)
  case 0
  then show ?case by simp
next
  case (Suc n)
  then have "content ((pop ^^ n) s) \<noteq> []" by simp
  with Suc show ?case
    using pop_content [of "(pop ^^ n) s"] pop_inv [of "(pop ^^ n) s"]
    by (simp add: pop_cap) (metis drop_Suc list.sel(3) tl_drop)
qed

lemma nth_front:
  assumes "inv s" and "n < length (content s)"
  shows "front ((pop ^^ n) s) = content s ! n"
proof -
  have "content ((pop ^^ n) s) = drop n (content s)" "inv ((pop ^^ n) s)"
    using assms pops [of s n] by auto
  with assms show ?thesis
    using pop_content [of "(pop ^^ n) s"] by (metis drop_eq_Nil hd_drop_conv_nth linorder_not_less list.sel(1))
qed

end

section \<open>The ring\<close>

record ringbuf_t =
  rb_buffer :: bytes
  rb_capacity :: nat
  rb_head :: nat
  rb_tail :: nat
  rb_full :: bool

definition ringbuf_init :: "bytes \<Rightarrow> nat \<Rightarrow> ringbuf_t" where
  "ringbuf_init buffer capacity =
     \<lparr>rb_buffer = buffer, rb_capacity = capacity, rb_head = 0, rb_tail = 0, rb_full = False\<rparr>"

definition ringbuf_size :: "ringbuf_t \<Rightarrow> nat" where
  "ringbuf_size rb =
     (if rb_full rb then rb_capacity rb
      else if rb_head rb \<ge> rb_tail rb then rb_head rb - rb_tail rb
      else rb_capacity rb - rb_tail rb + rb_head rb)"

definition ringbuf_is_empty :: "ringbuf_t \<Rightarrow> bool" where
  "ringbuf_is_empty rb \<longleftrightarrow> \<not> rb_full rb \<and> rb_head rb = rb_tail rb"

definition ringbuf_is_full :: "ringbuf_t \<Rightarrow> bool" where
  "ringbuf_is_full rb \<longleftrightarrow> rb_full rb"

definition advance_pointer :: "ringbuf_t \<Rightarrow> ringbuf_t" where
  "advance_pointer rb =
     (let tail = (if rb_full rb then (rb_tail rb + 1) mod rb_capacity rb else rb_tail rb);
          head = (rb_head rb + 1) mod rb_capacity rb
      in rb\<lparr>rb_head := head, rb_tail := tail, rb_full := (head = tail)\<rparr>)"

definition retreat_pointer :: "ringbuf_t \<Rightarrow> ringbuf_t" where
  "retreat_pointer rb = rb\<lparr>rb_full := False, rb_tail := (rb_tail rb + 1) mod rb_capacity rb\<rparr>"

text \<open>One turn of the loop of \<^verbatim>\<open>ringbuf_write\<close>, then the loop, which counts the bytes written.\<close>

definition ringbuf_put :: "u8 \<Rightarrow> ringbuf_t \<Rightarrow> ringbuf_t" where
  "ringbuf_put b rb = advance_pointer (rb\<lparr>rb_buffer := (rb_buffer rb)[rb_head rb := b]\<rparr>)"

fun ringbuf_write_loop :: "bytes \<Rightarrow> nat \<Rightarrow> ringbuf_t \<Rightarrow> nat \<times> ringbuf_t" where
  "ringbuf_write_loop [] written rb = (written, rb)"
| "ringbuf_write_loop (b # bs) written rb =
     (if rb_capacity rb > 0 then ringbuf_write_loop bs (written + 1) (ringbuf_put b rb) else (written, rb))"

definition ringbuf_write :: "ringbuf_t \<Rightarrow> bytes \<Rightarrow> nat \<times> ringbuf_t" where
  "ringbuf_write rb data = ringbuf_write_loop data 0 rb"

text \<open>The loop of \<^verbatim>\<open>ringbuf_read\<close>: \<open>len\<close> bytes are still wanted.\<close>

fun ringbuf_read_loop :: "nat \<Rightarrow> bytes \<Rightarrow> ringbuf_t \<Rightarrow> bytes \<times> ringbuf_t" where
  "ringbuf_read_loop 0 data rb = (data, rb)"
| "ringbuf_read_loop (Suc len) data rb =
     (if ringbuf_is_empty rb then (data, rb)
      else ringbuf_read_loop len (data @ [rb_buffer rb ! rb_tail rb]) (retreat_pointer rb))"

definition ringbuf_read :: "ringbuf_t \<Rightarrow> nat \<Rightarrow> bytes \<times> ringbuf_t" where
  "ringbuf_read rb len = ringbuf_read_loop len [] rb"

definition ringbuf_reset :: "ringbuf_t \<Rightarrow> ringbuf_t" where
  "ringbuf_reset rb = rb\<lparr>rb_head := 0, rb_tail := 0, rb_full := False\<rparr>"

section \<open>Invariant and abstraction\<close>

definition ringbuf_inv :: "ringbuf_t \<Rightarrow> bool" where
  "ringbuf_inv rb \<longleftrightarrow>
     length (rb_buffer rb) = rb_capacity rb \<and>
     (if rb_capacity rb = 0 then rb_head rb = 0 \<and> rb_tail rb = 0 \<and> \<not> rb_full rb
      else rb_head rb < rb_capacity rb \<and> rb_tail rb < rb_capacity rb \<and>
        (rb_full rb \<longrightarrow> rb_head rb = rb_tail rb))"

text \<open>The bytes held, oldest first.\<close>

definition ringbuf_content :: "ringbuf_t \<Rightarrow> bytes" where
  "ringbuf_content rb =
     map (\<lambda>k. rb_buffer rb ! ((rb_tail rb + k) mod rb_capacity rb)) [0..<ringbuf_size rb]"

lemma length_ringbuf_content [simp]: "length (ringbuf_content rb) = ringbuf_size rb"
  by (simp add: ringbuf_content_def)

lemma ringbuf_size_props:
  assumes "ringbuf_inv rb"
  shows "ringbuf_size rb \<le> rb_capacity rb"
    and "0 < rb_capacity rb \<Longrightarrow> rb_head rb = (rb_tail rb + ringbuf_size rb) mod rb_capacity rb"
    and "0 < rb_capacity rb \<Longrightarrow> rb_full rb \<longleftrightarrow> ringbuf_size rb = rb_capacity rb"
    and "ringbuf_is_empty rb \<longleftrightarrow> ringbuf_size rb = 0"
  using assms by (auto simp: ringbuf_inv_def ringbuf_size_def ringbuf_is_empty_def split: if_splits)

lemma ringbuf_size_eq:
  assumes "rb_tail rb < rb_capacity rb" and "m \<le> rb_capacity rb"
    and "rb_head rb = (rb_tail rb + m) mod rb_capacity rb"
    and "rb_full rb \<longleftrightarrow> m = rb_capacity rb"
  shows "ringbuf_size rb = m"
proof (cases "rb_tail rb + m < rb_capacity rb")
  case True
  with assms show ?thesis by (auto simp: ringbuf_size_def)
next
  case False
  with assms have "(rb_tail rb + m) mod rb_capacity rb = rb_tail rb + m - rb_capacity rb"
    by (simp add: mod_if not_less)
  with False assms show ?thesis by (auto simp: ringbuf_size_def)
qed

lemma mod_add_neq:
  fixes t c k n :: nat
  assumes "k < n" and "n < c"
  shows "(t + k) mod c \<noteq> (t + n) mod c"
proof
  assume "(t + k) mod c = (t + n) mod c"
  then have "c dvd (t + n) - (t + k)" using assms by (metis add_le_cancel_left less_imp_le mod_eq_dvd_iff_nat)
  then have "c dvd n - k" by simp
  with assms show False by (metis diff_is_0_eq' dvd_imp_le leD le_eq_less_or_eq less_imp_diff_less zero_less_diff)
qed

lemma Suc_mod_add: "Suc ((t + m) mod c) mod c = (t + Suc m) mod (c :: nat)"
  by (simp add: mod_Suc_eq)

subsection \<open>Push\<close>

lemma ringbuf_put_simps [frame_simps]:
  "rb_capacity (ringbuf_put b rb) = rb_capacity rb"
  "rb_buffer (ringbuf_put b rb) = (rb_buffer rb)[rb_head rb := b]"
  "rb_capacity (retreat_pointer rb) = rb_capacity rb"
  "rb_buffer (retreat_pointer rb) = rb_buffer rb"
  by (simp_all add: ringbuf_put_def advance_pointer_def retreat_pointer_def Let_def)

lemma ringbuf_put_size:
  assumes "ringbuf_inv rb" and "0 < rb_capacity rb"
  shows "ringbuf_size (ringbuf_put b rb) = min (rb_capacity rb) (ringbuf_size rb + 1)"
    and "rb_tail (ringbuf_put b rb) =
      (if ringbuf_size rb = rb_capacity rb then (rb_tail rb + 1) mod rb_capacity rb else rb_tail rb)"
proof -
  note sz = ringbuf_size_props [OF assms(1)]
  show tail: "rb_tail (ringbuf_put b rb) =
      (if ringbuf_size rb = rb_capacity rb then (rb_tail rb + 1) mod rb_capacity rb else rb_tail rb)"
    using sz(3) assms(2) by (simp add: ringbuf_put_def advance_pointer_def Let_def)
  have head: "rb_head (ringbuf_put b rb) = (rb_head rb + 1) mod rb_capacity rb"
    and full: "rb_full (ringbuf_put b rb) \<longleftrightarrow> rb_head (ringbuf_put b rb) = rb_tail (ringbuf_put b rb)"
    by (simp_all add: ringbuf_put_def advance_pointer_def Let_def)
  show "ringbuf_size (ringbuf_put b rb) = min (rb_capacity rb) (ringbuf_size rb + 1)"
  proof (cases "ringbuf_size rb = rb_capacity rb")
    case True
    then show ?thesis
      using sz(3) assms full head tail by (auto simp: ringbuf_size_def frame_simps ringbuf_inv_def)
  next
    case False
    then have less: "ringbuf_size rb < rb_capacity rb" using sz(1) by simp
    have t: "rb_tail rb < rb_capacity rb" using assms by (simp add: ringbuf_inv_def)
    have h: "rb_head (ringbuf_put b rb) = (rb_tail rb + (ringbuf_size rb + 1)) mod rb_capacity rb"
      using head sz(2) assms(2) by (simp add: Suc_mod_add)
    have "(rb_tail rb + (ringbuf_size rb + 1)) mod rb_capacity rb = rb_tail rb
        \<longleftrightarrow> ringbuf_size rb + 1 = rb_capacity rb"
      using mod_add_neq [of 0 "ringbuf_size rb + 1" "rb_capacity rb" "rb_tail rb"] less t
      by (cases "ringbuf_size rb + 1 = rb_capacity rb") auto
    with h False tail full less t show ?thesis
      by (subst ringbuf_size_eq [of _ "ringbuf_size rb + 1"]) (auto simp: frame_simps)
  qed
qed

lemma ringbuf_put_inv [inv_intros]:
  "ringbuf_inv rb \<Longrightarrow> 0 < rb_capacity rb \<Longrightarrow> ringbuf_inv (ringbuf_put b rb)"
  by (auto simp: ringbuf_inv_def ringbuf_put_def advance_pointer_def Let_def)

lemma ringbuf_put_content:
  assumes inv: "ringbuf_inv rb" and pos: "0 < rb_capacity rb"
  shows "ringbuf_content (ringbuf_put b rb) = last_n (rb_capacity rb) (ringbuf_content rb @ [b])"
proof (rule nth_equalityI)
  note sz = ringbuf_size_props [OF inv] and put = ringbuf_put_size [OF assms, of b]
  show len: "length (ringbuf_content (ringbuf_put b rb)) = length (last_n (rb_capacity rb) (ringbuf_content rb @ [b]))"
    by (simp add: put)
  fix k assume "k < length (ringbuf_content (ringbuf_put b rb))"
  then have k: "k < rb_capacity rb" "k < ringbuf_size rb + 1" by (simp_all add: put)
  have h: "rb_head rb = (rb_tail rb + ringbuf_size rb) mod rb_capacity rb" using sz(2) pos .
  have hl: "rb_head rb < length (rb_buffer rb)" using inv pos by (simp add: ringbuf_inv_def)
  have new: "ringbuf_content (ringbuf_put b rb) ! k =
      (rb_buffer rb)[rb_head rb := b] ! ((rb_tail (ringbuf_put b rb) + k) mod rb_capacity rb)"
    using k by (simp add: ringbuf_content_def put frame_simps)
  show "ringbuf_content (ringbuf_put b rb) ! k = last_n (rb_capacity rb) (ringbuf_content rb @ [b]) ! k"
  proof (cases "ringbuf_size rb = rb_capacity rb")
    case True
    then have idx: "(rb_tail (ringbuf_put b rb) + k) mod rb_capacity rb = (rb_tail rb + Suc k) mod rb_capacity rb"
      by (simp add: put mod_add_left_eq)
    have head: "rb_head rb = rb_tail rb" using h True inv pos by (simp add: ringbuf_inv_def)
    have old: "last_n (rb_capacity rb) (ringbuf_content rb @ [b]) ! k =
        (if Suc k < rb_capacity rb then ringbuf_content rb ! Suc k else b)"
      using True k by (auto simp: last_n_def nth_append)
    show ?thesis
    proof (cases "Suc k < rb_capacity rb")
      case True
      then have "(rb_tail rb + Suc k) mod rb_capacity rb \<noteq> rb_head rb"
        using mod_add_neq [of 0 "Suc k" "rb_capacity rb" "rb_tail rb"] head inv pos by (auto simp: ringbuf_inv_def)
      with True new idx old \<open>ringbuf_size rb = rb_capacity rb\<close> show ?thesis
        by (simp add: ringbuf_content_def)
    next
      case False
      then have "Suc k = rb_capacity rb" using k by simp
      then have "(rb_tail rb + Suc k) mod rb_capacity rb = rb_head rb"
        using head inv pos by (simp add: ringbuf_inv_def)
      with False new idx old hl show ?thesis by simp
    qed
  next
    case False
    then have less: "ringbuf_size rb < rb_capacity rb" using sz(1) by simp
    have old: "last_n (rb_capacity rb) (ringbuf_content rb @ [b]) ! k =
        (if k < ringbuf_size rb then ringbuf_content rb ! k else b)"
      using less k by (auto simp: last_n_def nth_append)
    show ?thesis
    proof (cases "k < ringbuf_size rb")
      case True
      then have "(rb_tail rb + k) mod rb_capacity rb \<noteq> rb_head rb"
        using mod_add_neq [of k "ringbuf_size rb" "rb_capacity rb" "rb_tail rb"] less h by simp
      with True new old False show ?thesis by (simp add: put ringbuf_content_def)
    next
      case False
      then have "k = ringbuf_size rb" using k by simp
      with less new old h hl show ?thesis by (simp add: put)
    qed
  qed
qed

subsection \<open>Pop\<close>

lemma retreat_pointer_size:
  assumes inv: "ringbuf_inv rb" and "ringbuf_size rb \<noteq> 0"
  shows "ringbuf_size (retreat_pointer rb) = ringbuf_size rb - 1"
    and "ringbuf_inv (retreat_pointer rb)"
proof -
  note sz = ringbuf_size_props [OF inv]
  have pos: "0 < rb_capacity rb" using sz(1) assms(2) by simp
  have "(rb_tail rb + 1 + (ringbuf_size rb - 1)) mod rb_capacity rb = rb_head rb"
    using sz(2) [OF pos] assms(2) by simp
  then have h: "rb_head rb = ((rb_tail rb + 1) mod rb_capacity rb + (ringbuf_size rb - 1)) mod rb_capacity rb"
    by (simp only: mod_add_left_eq)
  show "ringbuf_size (retreat_pointer rb) = ringbuf_size rb - 1"
    using h pos sz(1) assms(2) by (intro ringbuf_size_eq) (auto simp: retreat_pointer_def)
  show "ringbuf_inv (retreat_pointer rb)"
    using inv pos by (auto simp: ringbuf_inv_def retreat_pointer_def)
qed

lemma retreat_pointer_content:
  assumes inv: "ringbuf_inv rb" and ne: "ringbuf_content rb \<noteq> []"
  shows "ringbuf_content rb = rb_buffer rb ! rb_tail rb # ringbuf_content (retreat_pointer rb)"
proof -
  have n: "ringbuf_size rb \<noteq> 0" using ne by (metis length_0_conv length_ringbuf_content)
  then have t: "rb_tail rb mod rb_capacity rb = rb_tail rb"
    using inv ringbuf_size_props(1) [OF inv] by (auto simp: ringbuf_inv_def split: if_splits)
  have up: "[0..<ringbuf_size rb] = 0 # map Suc [0..<ringbuf_size rb - 1]"
    using n by (simp add: map_Suc_upt upt_conv_Cons)
  have "rb_tail (retreat_pointer rb) = (rb_tail rb + 1) mod rb_capacity rb"
    by (simp add: retreat_pointer_def)
  then have "(rb_tail (retreat_pointer rb) + k) mod rb_capacity rb = (rb_tail rb + Suc k) mod rb_capacity rb" for k
    by (simp add: mod_add_left_eq)
  then show ?thesis
    using retreat_pointer_size(1) [OF inv n] t
    by (simp add: ringbuf_content_def up frame_simps comp_def)
qed

interpretation ring: overwriting_queue ringbuf_inv ringbuf_content rb_capacity ringbuf_put
  "\<lambda>rb. rb_buffer rb ! rb_tail rb" retreat_pointer
proof
  fix rb b
  show "ringbuf_inv rb \<Longrightarrow> length (ringbuf_content rb) \<le> rb_capacity rb"
    by (simp add: ringbuf_size_props(1))
  show "ringbuf_inv rb \<Longrightarrow> 0 < rb_capacity rb \<Longrightarrow> ringbuf_inv (ringbuf_put b rb)"
    by (rule ringbuf_put_inv)
  show "ringbuf_inv rb \<Longrightarrow> 0 < rb_capacity rb \<Longrightarrow>
      ringbuf_content (ringbuf_put b rb) = last_n (rb_capacity rb) (ringbuf_content rb @ [b])"
    by (rule ringbuf_put_content)
  show "ringbuf_inv rb \<Longrightarrow> ringbuf_content rb \<noteq> [] \<Longrightarrow> ringbuf_inv (retreat_pointer rb)"
    using retreat_pointer_size(2) [of rb] by (auto simp flip: length_0_conv)
qed (simp_all add: frame_simps retreat_pointer_content)

section \<open>Whole writes and reads\<close>

lemma ringbuf_write_loop_fold:
  "ringbuf_write_loop data n rb =
     (if rb_capacity rb > 0 then (n + length data, fold ringbuf_put data rb) else (n, rb))"
  by (induction data n rb rule: ringbuf_write_loop.induct) (auto simp: frame_simps)

lemma ringbuf_read_loop_pops:
  "ringbuf_inv rb \<Longrightarrow> ringbuf_read_loop len data rb =
     (data @ take len (ringbuf_content rb), (retreat_pointer ^^ min len (ringbuf_size rb)) rb)"
proof (induction len data rb rule: ringbuf_read_loop.induct)
  case (1 data rb)
  then show ?case by simp
next
  case (2 len data rb)
  note sz = ringbuf_size_props(4) [OF 2(2)]
  show ?case
  proof (cases "ringbuf_is_empty rb")
    case True
    with sz have "ringbuf_content rb = []" by (simp flip: length_0_conv)
    with True sz show ?thesis by simp
  next
    case False
    with sz have ne: "ringbuf_content rb \<noteq> []" "ringbuf_size rb \<noteq> 0" by (auto simp flip: length_0_conv)
    then obtain m where m: "ringbuf_size rb = Suc m" by (cases "ringbuf_size rb") auto
    with False 2 ne show ?thesis
      using retreat_pointer_size [of rb] retreat_pointer_content [of rb]
      by (simp add: funpow_swap1)
  qed
qed

text \<open>
  C36. The ring refines an overwriting queue on a write: the invariant is kept, every byte
  is reported as written, and the content becomes the last \<open>capacity\<close> bytes of the old
  content followed by the data.
\<close>

theorem ringbuf_write_refines:
  assumes "ringbuf_inv rb" and "0 < rb_capacity rb" and "ringbuf_write rb data = (n, rb')"
  shows "n = length data \<and> ringbuf_inv rb' \<and> rb_capacity rb' = rb_capacity rb \<and>
    ringbuf_content rb' = last_n (rb_capacity rb) (ringbuf_content rb @ data)"
  using assms ring.fold_push [OF assms(1,2), of data]
  by (auto simp: ringbuf_write_def ringbuf_write_loop_fold)

theorem ringbuf_write_refines_witness:
  "\<exists>rb'. ringbuf_write (ringbuf_init [0, 0] 2) [1, 2, 3] = (3, rb') \<and> ringbuf_content rb' = [2, 3]"
proof -
  obtain n rb' where e: "ringbuf_write (ringbuf_init [0, 0] 2) [1, 2, 3] = (n, rb')" by fastforce
  have i: "ringbuf_inv (ringbuf_init [0, 0] 2)" "0 < rb_capacity (ringbuf_init [0, 0] 2)"
    by (simp_all add: ringbuf_inv_def ringbuf_init_def)
  from ringbuf_write_refines [OF i e] e show ?thesis
    by (auto simp: ringbuf_init_def ringbuf_content_def ringbuf_size_def last_n_def)
qed

text \<open>
  A read takes the oldest bytes: it returns the first \<open>min len size\<close> bytes in the
  order they were written and leaves the rest.
\<close>

theorem ringbuf_read_refines:
  assumes "ringbuf_inv rb" and "ringbuf_read rb len = (data, rb')"
  shows "data = take len (ringbuf_content rb) \<and> ringbuf_content rb' = drop len (ringbuf_content rb) \<and>
    ringbuf_inv rb' \<and> rb_capacity rb' = rb_capacity rb"
  using assms ring.pops [OF assms(1), of "min len (ringbuf_size rb)"]
  by (auto simp: ringbuf_read_def ringbuf_read_loop_pops min_def)

theorem ringbuf_read_refines_witness:
  "\<exists>rb'. ringbuf_read \<lparr>rb_buffer = [7, 8, 9], rb_capacity = 3, rb_head = 1, rb_tail = 2, rb_full = False\<rparr> 5
     = ([9, 7], rb') \<and> ringbuf_content rb' = []"
proof -
  let ?rb = "\<lparr>rb_buffer = [7, 8, 9 :: u8], rb_capacity = 3, rb_head = 1, rb_tail = 2, rb_full = False\<rparr>"
  obtain data rb' where e: "ringbuf_read ?rb 5 = (data, rb')" by fastforce
  have i: "ringbuf_inv ?rb" by (simp add: ringbuf_inv_def)
  have "ringbuf_content ?rb = [9, 7]" by (simp add: ringbuf_content_def ringbuf_size_def upt_rec)
  with ringbuf_read_refines [OF i e] e show ?thesis by auto
qed

lemma ringbuf_zero_capacity: "rb_capacity rb = 0 \<Longrightarrow> ringbuf_write rb data = (0, rb)"
  by (simp add: ringbuf_write_def ringbuf_write_loop_fold)

lemma ringbuf_init_inv [inv_intros]: "length b = c \<Longrightarrow> ringbuf_inv (ringbuf_init b c)"
  by (auto simp: ringbuf_init_def ringbuf_inv_def)

lemma ringbuf_init_content: "ringbuf_content (ringbuf_init b c) = []"
  by (simp add: ringbuf_init_def ringbuf_content_def ringbuf_size_def)

lemma ringbuf_reset_inv [inv_intros]: "ringbuf_inv rb \<Longrightarrow> ringbuf_inv (ringbuf_reset rb)"
  by (auto simp: ringbuf_reset_def ringbuf_inv_def split: if_splits)

lemma ringbuf_reset_content: "ringbuf_content (ringbuf_reset rb) = []"
  by (simp add: ringbuf_reset_def ringbuf_content_def ringbuf_size_def)

end
