(* ===== verification/Cbor.thy ===== *)
theory Cbor
  imports MessageProps
begin

text \<open>
  The messages in their CBOR form, the part of \<^verbatim>\<open>common/proto/messages.c\<close> under
  \<^verbatim>\<open>CONFIG_USE_CBOR\<close>, with the two functions that choose between the forms.

  TinyCBOR is the argument of both directions. The encoders make the calls that write one data
  item, here the value of type \<open>citem\<close>; \<open>writer\<close> gives the bytes TinyCBOR writes for it, and an
  encoder call fails when they exceed the buffer. The decoders move cursors of type \<open>'c\<close> with
  the functions of the record \<open>tinycbor\<close>. TinyCBOR defines them on some cursors only and asserts
  its demands: a text is copied from a text, a number is read from an item of its type, a
  container is entered where there is one and left from its end, and no cursor is advanced from
  the end. A call that breaks a demand is the outcome \<open>Misuse\<close> of the decoder, about which nothing
  more is known; \<open>Refused\<close> is the result \<^verbatim>\<open>false\<close> and \<open>Got\<close> the result \<^verbatim>\<open>true\<close> with the message.
  The loops over a container end when the cursor is at its end, which is up to TinyCBOR: they
  are partial functions, and \<open>None\<close> is a decoder that does not return.
\<close>

section \<open>Encoding\<close>

text \<open>A map lists its keys and values in turn; the flag tells an indefinite length.\<close>

datatype citem = CUint nat | CText string | CFloat c_float | CBool bool | CArray "citem list" | CMap bool "citem list"

definition cbor_sht20_item :: "proto_sht20_reading_t \<Rightarrow> citem" where
  "cbor_sht20_item e = CMap False
     [CText ''id'', CText (sht_id e), CText ''t'', CFloat (sht_temperature_c e),
      CText ''rh'', CFloat (sht_humidity_percent e), CText ''ok'', CBool (sht_valid e)]"

definition cbor_ds18b20_item :: "proto_ds18b20_reading_t \<Rightarrow> citem" where
  "cbor_ds18b20_item e = CMap False
     [CText ''rom'', CText (concat (map fmt_02X (ds_rom_code e))), CText ''t'', CFloat (ds_temperature_c e)]"

definition cbor_mcp_item :: "proto_mcp23017_state_t \<Rightarrow> citem" where
  "cbor_mcp_item e = CMap False [CText ''A'', CUint (unat (mcp_port_a e)), CText ''B'', CUint (unat (mcp_port_b e))]"

definition cbor_pwm_item :: "proto_pca9685_state_t \<Rightarrow> citem" where
  "cbor_pwm_item e = CMap False [CText ''pca9685'', CMap False
     [CText ''freq'', CUint (unat (pca_frequency_hz e)),
      CText ''duty'', CArray (map (\<lambda>i. CUint (unat (pca_duty_cycle e ! i))) [0..<16])]]"

definition sensor_update_item :: "proto_sensor_update_t \<Rightarrow> citem" where
  "sensor_update_item m = CMap True
     [CText ''v'', CUint 1, CText ''type'', CText ''sensor_update'',
      CText ''ts'', CUint (unat (su_timestamp_ms m)), CText ''seq'', CUint (unat (su_sequence_id m)),
      CText ''sht20'', CArray (map (\<lambda>i. cbor_sht20_item (su_sht20 m ! i)) [0..<su_sht20_count m]),
      CText ''ds18b20'', CArray (map (\<lambda>i. cbor_ds18b20_item (su_ds18b20 m ! i)) [0..<su_ds18b20_count m]),
      CText ''gpio'', CMap False [CText ''mcp0'', cbor_mcp_item (su_mcp m ! 0), CText ''mcp1'', cbor_mcp_item (su_mcp m ! 1)],
      CText ''pwm'', cbor_pwm_item (su_pwm m)]"

definition cbor_set_pwm_part :: "proto_command_t \<Rightarrow> citem list" where
  "cbor_set_pwm_part m = (if cmd_has_pwm_update m then
     [CText ''set_pwm'', CMap False [CText ''ch'', CUint (unat (cmd_pwm_channel m)), CText ''duty'', CUint (unat (cmd_pwm_duty_cycle m))]]
     else [])"

definition cbor_pwm_freq_part :: "proto_command_t \<Rightarrow> citem list" where
  "cbor_pwm_freq_part m = (if cmd_has_pwm_frequency m then
     [CText ''pwm_freq'', CMap False [CText ''freq'', CUint (unat (cmd_pwm_frequency m))]] else [])"

definition cbor_write_gpio_part :: "proto_command_t \<Rightarrow> citem list" where
  "cbor_write_gpio_part m = (if cmd_has_gpio_write m then
     [CText ''write_gpio'', CMap False
        [CText ''dev'', CText (if cmd_gpio_device_index m = 0 then ''mcp0'' else ''mcp1''),
         CText ''port'', CText (if cmd_gpio_port m = 0 then ''A'' else ''B''),
         CText ''mask'', CUint (unat (cmd_gpio_mask m)), CText ''value'', CUint (unat (cmd_gpio_value m))]] else [])"

definition command_item :: "proto_command_t \<Rightarrow> citem" where
  "command_item m = CMap True
     ([CText ''v'', CUint 1, CText ''type'', CText ''cmd'',
       CText ''ts'', CUint (unat (cmd_timestamp_ms m)), CText ''seq'', CUint (unat (cmd_sequence_id m))] @
      cbor_set_pwm_part m @ cbor_pwm_freq_part m @ cbor_write_gpio_part m)"

definition cbor_write :: "(citem \<Rightarrow> bytes) \<Rightarrow> citem \<Rightarrow> nat \<Rightarrow> (bytes \<times> u32) option" where
  "cbor_write writer it sz = (if sz = 0 \<or> length (writer it) > sz then None else Some (writer it, proto_crc32 (writer it)))"

definition encode_sensor_update_cbor_into :: "(citem \<Rightarrow> bytes) \<Rightarrow> proto_sensor_update_t \<Rightarrow> nat \<Rightarrow> (bytes \<times> u32) option" where
  "encode_sensor_update_cbor_into writer m sz = cbor_write writer (sensor_update_item m) sz"

definition encode_command_cbor_into :: "(citem \<Rightarrow> bytes) \<Rightarrow> proto_command_t \<Rightarrow> nat \<Rightarrow> (bytes \<times> u32) option" where
  "encode_command_cbor_into writer m sz = cbor_write writer (command_item m) sz"

text \<open>\<open>config_cbor\<close> is the option \<^verbatim>\<open>CONFIG_USE_CBOR\<close> of the build.\<close>

definition proto_encode_sensor_update_into ::
  "bool \<Rightarrow> (citem \<Rightarrow> bytes) \<Rightarrow> proto_sensor_update_t \<Rightarrow> bool \<Rightarrow> nat \<Rightarrow> (bytes \<times> u32) option" where
  "proto_encode_sensor_update_into config_cbor writer m use_cbor sz =
     (if config_cbor \<and> use_cbor then encode_sensor_update_cbor_into writer m sz else encode_sensor_update_json_into m sz)"

definition proto_encode_command_into ::
  "bool \<Rightarrow> (citem \<Rightarrow> bytes) \<Rightarrow> proto_command_t \<Rightarrow> bool \<Rightarrow> nat \<Rightarrow> (bytes \<times> u32) option" where
  "proto_encode_command_into config_cbor writer m use_cbor sz =
     (if config_cbor \<and> use_cbor then encode_command_cbor_into writer m sz else encode_command_json_into m sz)"

section \<open>Cursors\<close>

text \<open>
  The type of the item at a cursor. \<open>tc_text c n\<close> copies a text into a cleared buffer of \<open>n + 1\<close>
  bytes: whether it succeeds, the string in the buffer, and the cursor after it. The reads
  give the success and the value of the variable afterwards.
\<close>

datatype ctype = TUint | TText | TFloat | TDouble | TBool | TArray | TMap | TInvalid | TOther

record 'c tinycbor =
  tc_init :: "bytes \<Rightarrow> bool \<times> 'c"
  tc_type :: "'c \<Rightarrow> ctype"
  tc_at_end :: "'c \<Rightarrow> bool"
  tc_enter :: "'c \<Rightarrow> 'c option"
  tc_leave :: "'c \<Rightarrow> 'c \<Rightarrow> 'c"
  tc_advance :: "'c \<Rightarrow> 'c"
  tc_text :: "'c \<Rightarrow> nat \<Rightarrow> bool \<times> string \<times> 'c"
  tc_uint64 :: "'c \<Rightarrow> bool \<times> u64"
  tc_double :: "'c \<Rightarrow> bool \<times> c_float"
  tc_boolean :: "'c \<Rightarrow> bool \<times> bool"

datatype 'a cbor_out = Misuse | Refused | Got 'a

type_synonym 'a cres = "'a cbor_out option"

definition cbind :: "'a cres \<Rightarrow> ('a \<Rightarrow> 'b cres) \<Rightarrow> 'b cres" where
  "cbind r f = (case r of None \<Rightarrow> None | Some Misuse \<Rightarrow> Some Misuse | Some Refused \<Rightarrow> Some Refused | Some (Got x) \<Rightarrow> f x)"

text \<open>The calls with their demands.\<close>

definition cbor_container_at :: "'c tinycbor \<Rightarrow> 'c \<Rightarrow> bool" where
  "cbor_container_at tc c \<longleftrightarrow> tc_type tc c = TMap \<or> tc_type tc c = TArray"

definition cbor_copy_text :: "'c tinycbor \<Rightarrow> 'c \<Rightarrow> nat \<Rightarrow> (bool \<times> string \<times> 'c) cres" where
  "cbor_copy_text tc c n = Some (if tc_type tc c = TText then Got (tc_text tc c n) else Misuse)"

definition cbor_get_uint64 :: "'c tinycbor \<Rightarrow> 'c \<Rightarrow> (bool \<times> u64) cres" where
  "cbor_get_uint64 tc c = Some (if tc_type tc c = TUint then Got (tc_uint64 tc c) else Misuse)"

definition cbor_get_double :: "'c tinycbor \<Rightarrow> 'c \<Rightarrow> (bool \<times> c_float) cres" where
  "cbor_get_double tc c = Some (if tc_type tc c = TDouble then Got (tc_double tc c) else Misuse)"

definition cbor_get_boolean :: "'c tinycbor \<Rightarrow> 'c \<Rightarrow> (bool \<times> bool) cres" where
  "cbor_get_boolean tc c = Some (if tc_type tc c = TBool then Got (tc_boolean tc c) else Misuse)"

definition cbor_enter :: "'c tinycbor \<Rightarrow> 'c \<Rightarrow> 'c cres" where
  "cbor_enter tc c =
     Some (if \<not> cbor_container_at tc c then Misuse else case tc_enter tc c of None \<Rightarrow> Refused | Some p \<Rightarrow> Got p)"

definition cbor_leave :: "'c tinycbor \<Rightarrow> 'c \<Rightarrow> 'c \<Rightarrow> 'c cres" where
  "cbor_leave tc c p = Some (if cbor_container_at tc c \<and> tc_at_end tc p then Got (tc_leave tc c p) else Misuse)"

text \<open>Advance the cursor, at the end of a turn that leaves the state \<open>s\<close>.\<close>

definition cbor_next :: "'c tinycbor \<Rightarrow> 'c \<Rightarrow> 's \<Rightarrow> ('c \<times> 's) cres" where
  "cbor_next tc c s = Some (if tc_at_end tc c then Misuse else Got (tc_advance tc c, s))"

text \<open>A number or a measured value whose success is not checked.\<close>

definition cbor_read :: "'c tinycbor \<Rightarrow> 'c \<Rightarrow> (u64 \<Rightarrow> 's) \<Rightarrow> 's cres" where
  "cbor_read tc c store = cbind (cbor_get_uint64 tc c) (\<lambda>(_, v). Some (Got (store v)))"

definition cbor_read_float :: "'c tinycbor \<Rightarrow> 'c \<Rightarrow> (c_float \<Rightarrow> 's) \<Rightarrow> 's cres" where
  "cbor_read_float tc c store = cbind (cbor_get_double tc c) (\<lambda>(_, v). Some (Got (store v)))"

text \<open>\<^verbatim>\<open>while (!cbor_value_at_end(&c))\<close> around a body that may return false.\<close>

partial_function (option) cbor_while :: "'c tinycbor \<Rightarrow> ('c \<times> 's \<Rightarrow> ('c \<times> 's) cres) \<Rightarrow> 'c \<times> 's \<Rightarrow> ('c \<times> 's) cres" where
  "cbor_while tc body st =
     (if tc_at_end tc (fst st) then Some (Got st)
      else case body st of None \<Rightarrow> None | Some Misuse \<Rightarrow> Some Misuse | Some Refused \<Rightarrow> Some Refused
        | Some (Got st') \<Rightarrow> cbor_while tc body st')"

text \<open>Enter the container at the cursor, loop over it, and leave it.\<close>

definition cbor_container :: "'c tinycbor \<Rightarrow> ('c \<times> 's \<Rightarrow> ('c \<times> 's) cres) \<Rightarrow> 'c \<times> 's \<Rightarrow> ('c \<times> 's) cres" where
  "cbor_container tc body st =
     cbind (cbor_enter tc (fst st)) (\<lambda>p.
     cbind (cbor_while tc body (p, snd st)) (\<lambda>(p, s).
     cbind (cbor_leave tc (fst st) p) (\<lambda>c. Some (Got (c, s)))))"

section \<open>Decoding commands\<close>

definition cbor_set_pwm_entry :: "'c tinycbor \<Rightarrow> 'c \<times> proto_command_t \<Rightarrow> ('c \<times> proto_command_t) cres" where
  "cbor_set_pwm_entry tc st =
     cbind (cbor_copy_text tc (fst st) 7) (\<lambda>(ok, sub, c).
       let msg = snd st in
       if \<not> ok then Some Refused
       else cbind
         (if sub = ''ch'' then cbor_read tc c (\<lambda>v. msg\<lparr>cmd_pwm_channel := ucast v\<rparr>)
          else if sub = ''duty'' then cbor_read tc c (\<lambda>v. msg\<lparr>cmd_pwm_duty_cycle := ucast v\<rparr>)
          else Some (Got msg))
         (cbor_next tc c))"

definition cbor_pwm_freq_entry :: "'c tinycbor \<Rightarrow> 'c \<times> proto_command_t \<Rightarrow> ('c \<times> proto_command_t) cres" where
  "cbor_pwm_freq_entry tc st =
     cbind (cbor_copy_text tc (fst st) 7) (\<lambda>(_, sub, c).
       let msg = snd st in
       cbind
         (if sub = ''freq'' then cbor_read tc c (\<lambda>v. msg\<lparr>cmd_pwm_frequency := ucast v, cmd_has_pwm_frequency := True\<rparr>)
          else Some (Got msg))
         (cbor_next tc c))"

definition cbor_write_gpio_entry :: "'c tinycbor \<Rightarrow> 'c \<times> proto_command_t \<Rightarrow> ('c \<times> proto_command_t) cres" where
  "cbor_write_gpio_entry tc st =
     cbind (cbor_copy_text tc (fst st) 11) (\<lambda>(_, sub, c).
       let msg = snd st in
       cbind
         (if sub = ''dev'' then
            cbind (cbor_copy_text tc c 7) (\<lambda>(_, dev, c). Some (Got (c, msg\<lparr>cmd_gpio_device_index := if dev = ''mcp1'' then 1 else 0\<rparr>)))
          else if sub = ''port'' then
            cbind (cbor_copy_text tc c 1) (\<lambda>(_, port, c). Some (Got (c, msg\<lparr>cmd_gpio_port := if take 1 port = ''B'' then 1 else 0\<rparr>)))
          else if sub = ''mask'' then cbor_read tc c (\<lambda>v. (c, msg\<lparr>cmd_gpio_mask := ucast v\<rparr>))
          else if sub = ''value'' then cbor_read tc c (\<lambda>v. (c, msg\<lparr>cmd_gpio_value := ucast v\<rparr>))
          else Some (Got (c, msg)))
         (\<lambda>(c, msg). cbor_next tc c msg))"

text \<open>A container part of the message: after leaving it the cursor is advanced once more.\<close>

definition cbor_part :: "'c tinycbor \<Rightarrow> ('c \<times> 's \<Rightarrow> ('c \<times> 's) cres) \<Rightarrow> ('s \<Rightarrow> 's) \<Rightarrow> 'c \<times> 's \<Rightarrow> ('c \<times> 's) cres" where
  "cbor_part tc body finish st = cbind (cbor_container tc body st) (\<lambda>(c, s). cbor_next tc c (finish s))"

text \<open>A number of the message that must be there.\<close>

definition cbor_number :: "'c tinycbor \<Rightarrow> (u64 \<Rightarrow> 's \<Rightarrow> 's) \<Rightarrow> 'c \<times> 's \<Rightarrow> ('c \<times> 's) cres" where
  "cbor_number tc store st =
     cbind (cbor_get_uint64 tc (fst st)) (\<lambda>(ok, v).
       if \<not> ok then Some Refused else cbor_next tc (fst st) (store v (snd st)))"

definition cbor_command_entry :: "'c tinycbor \<Rightarrow> 'c \<times> proto_command_t \<Rightarrow> ('c \<times> proto_command_t) cres" where
  "cbor_command_entry tc st =
     cbind (cbor_copy_text tc (fst st) 15) (\<lambda>(ok, key, c).
        let st = (c, snd st) in
        if \<not> ok then Some Refused
        else if key = ''ts'' then cbor_number tc (\<lambda>v m. m\<lparr>cmd_timestamp_ms := ucast v\<rparr>) st
        else if key = ''seq'' then cbor_number tc (\<lambda>v m. m\<lparr>cmd_sequence_id := ucast v\<rparr>) st
        else if key = ''set_pwm'' then cbor_part tc (cbor_set_pwm_entry tc) (\<lambda>m. m\<lparr>cmd_has_pwm_update := True\<rparr>) st
        else if key = ''pwm_freq'' then cbor_part tc (cbor_pwm_freq_entry tc) (\<lambda>m. m) st
        else if key = ''write_gpio'' then cbor_part tc (cbor_write_gpio_entry tc) (\<lambda>m. m\<lparr>cmd_has_gpio_write := True\<rparr>) st
        else cbor_next tc c (snd st))"

text \<open>The top level of both decoders: parse, check for a map, loop over it.\<close>

definition cbor_document :: "'c tinycbor \<Rightarrow> ('c \<times> 's \<Rightarrow> ('c \<times> 's) cres) \<Rightarrow> bytes \<Rightarrow> 's \<Rightarrow> 's cres" where
  "cbor_document tc entry payload msg =
     (case tc_init tc payload of (ok, root_item) \<Rightarrow>
        if \<not> ok \<or> tc_type tc root_item \<noteq> TMap then Some Refused
        else cbind (cbor_enter tc root_item) (\<lambda>c. cbind (cbor_while tc entry (c, msg)) (\<lambda>(_, msg). Some (Got msg))))"

text \<open>The JSON form, whose decoder always returns.\<close>

definition json_result :: "'a option \<Rightarrow> 'a cres" where
  "json_result r = Some (case r of None \<Rightarrow> Refused | Some msg \<Rightarrow> Got msg)"

definition proto_decode_command ::
  "bool \<Rightarrow> 'c tinycbor \<Rightarrow> 'j cjson \<Rightarrow> bytes \<Rightarrow> bool \<Rightarrow> u32 \<Rightarrow> proto_command_t cres" where
  "proto_decode_command config_cbor tc cj payload is_cbor expected_crc32 =
     (if \<not> crc_ok payload expected_crc32 then Some Refused
      else if config_cbor \<and> is_cbor then cbor_document tc (cbor_command_entry tc) payload zero_command
      else json_result (map_option (decode_command_json cj) (cj_parse cj payload)))"

section \<open>Decoding updates\<close>

text \<open>A loop over an array that stops at the capacity \<open>n + idx\<close> of its target.\<close>

fun cbor_array_loop :: "'c tinycbor \<Rightarrow> ('c \<times> 'e \<Rightarrow> ('c \<times> 'e) cres) \<Rightarrow> nat \<Rightarrow> nat \<Rightarrow> 'c \<Rightarrow> 'e list \<Rightarrow> (nat \<times> 'c \<times> 'e list) cres" where
  "cbor_array_loop tc entry 0 idx c es = Some (Got (idx, c, es))"
| "cbor_array_loop tc entry (Suc n) idx c es =
     (if tc_at_end tc c then Some (Got (idx, c, es))
      else cbind (entry (c, es ! idx)) (\<lambda>(c, e). cbor_array_loop tc entry n (Suc idx) c (es[idx := e])))"

text \<open>The array at the cursor: the number of entries read, the cursor after the array, the entries.\<close>

definition cbor_array :: "'c tinycbor \<Rightarrow> ('c \<times> 'e \<Rightarrow> ('c \<times> 'e) cres) \<Rightarrow> nat \<Rightarrow> 'c \<Rightarrow> 'e list \<Rightarrow> (nat \<times> 'c \<times> 'e list) cres" where
  "cbor_array tc entry cap c es =
     cbind (cbor_enter tc c) (\<lambda>arr.
     cbind (cbor_array_loop tc entry cap 0 arr es) (\<lambda>(idx, arr, es).
     cbind (cbor_leave tc c arr) (\<lambda>c. Some (Got (idx, c, es)))))"

definition cbor_sht20_field :: "'c tinycbor \<Rightarrow> 'c \<times> proto_sht20_reading_t \<Rightarrow> ('c \<times> proto_sht20_reading_t) cres" where
  "cbor_sht20_field tc st =
     cbind (cbor_copy_text tc (fst st) 7) (\<lambda>(ok, sub, c).
        let e = snd st in
        if \<not> ok then Some Refused
        else cbind
          (if sub = ''id'' then cbind (cbor_copy_text tc c 15) (\<lambda>(_, i, c). Some (Got (c, e\<lparr>sht_id := i\<rparr>)))
           else if sub = ''t'' then cbor_read_float tc c (\<lambda>v. (c, e\<lparr>sht_temperature_c := v\<rparr>))
           else if sub = ''rh'' then cbor_read_float tc c (\<lambda>v. (c, e\<lparr>sht_humidity_percent := v\<rparr>))
           else if sub = ''ok'' then
             cbind (cbor_get_boolean tc c) (\<lambda>(ok, v). if \<not> ok then Some Refused else Some (Got (c, e\<lparr>sht_valid := v\<rparr>)))
           else Some (Got (c, e)))
          (\<lambda>(c, e). cbor_next tc c e))"

definition cbor_ds18b20_field :: "'c tinycbor \<Rightarrow> 'c \<times> proto_ds18b20_reading_t \<Rightarrow> ('c \<times> proto_ds18b20_reading_t) cres" where
  "cbor_ds18b20_field tc st =
     cbind (cbor_copy_text tc (fst st) 7) (\<lambda>(ok, sub, c).
        let e = snd st in
        if \<not> ok then Some Refused
        else cbind
          (if sub = ''rom'' then
             cbind (cbor_copy_text tc c 16) (\<lambda>(_, rom, c). Some (Got (c, e\<lparr>ds_rom_code := snd (parse_rom rom (ds_rom_code e))\<rparr>)))
           else if sub = ''t'' then cbor_read_float tc c (\<lambda>v. (c, e\<lparr>ds_temperature_c := v\<rparr>))
           else Some (Got (c, e)))
          (\<lambda>(c, e). cbor_next tc c e))"

text \<open>
  \<^verbatim>\<open>sscanf("mcp%zu")\<close> on a key of at most five characters: after the prefix white space, an
  optional sign and at least one digit; a minus negates in the 32 bits of \<^verbatim>\<open>size_t\<close>.
\<close>

definition dec_value :: "string \<Rightarrow> nat" where
  "dec_value s = foldl (\<lambda>v c. v * 10 + (of_char c - 48)) 0 s"

definition sscanf_mcp :: "string \<Rightarrow> u32 option" where
  "sscanf_mcp s =
     (if take 3 s \<noteq> ''mcp'' then None
      else
        let t = dropWhile (\<lambda>c. of_char c \<in> {32, 9, 10, 11, 12, 13 :: nat}) (drop 3 s);
            minus = (take 1 t = ''-'');
            t = (if take 1 t = ''-'' \<or> take 1 t = ''+'' then drop 1 t else t);
            digits = takeWhile (\<lambda>c. c \<in> set ''0123456789'') t
        in if digits = [] then None
           else Some (if minus then - of_nat (dec_value digits) else of_nat (dec_value digits)))"

definition cbor_port_entry :: "'c tinycbor \<Rightarrow> 'c \<times> proto_mcp23017_state_t \<Rightarrow> ('c \<times> proto_mcp23017_state_t) cres" where
  "cbor_port_entry tc st =
     cbind (cbor_copy_text tc (fst st) 1) (\<lambda>(_, port_key, c).
        let e = snd st in
        cbind
          (cbor_read tc c (\<lambda>v. if take 1 port_key = ''A'' then e\<lparr>mcp_port_a := ucast v\<rparr>
             else if take 1 port_key = ''B'' then e\<lparr>mcp_port_b := ucast v\<rparr> else e))
          (cbor_next tc c))"

definition cbor_gpio_entry :: "'c tinycbor \<Rightarrow> 'c \<times> proto_sensor_update_t \<Rightarrow> ('c \<times> proto_sensor_update_t) cres" where
  "cbor_gpio_entry tc st =
     cbind (cbor_copy_text tc (fst st) 5) (\<lambda>(_, dev_key, c).
        let msg = snd st; idx = (case sscanf_mcp dev_key of None \<Rightarrow> 2 | Some i \<Rightarrow> unat i) in
        if idx < 2 then
          cbind (cbor_container tc (cbor_port_entry tc) (c, su_mcp msg ! idx)) (\<lambda>(c, e). Some (Got (c, msg\<lparr>su_mcp := (su_mcp msg)[idx := e]\<rparr>)))
        else cbor_next tc c msg)"

definition cbor_duty_entry :: "'c tinycbor \<Rightarrow> 'c \<times> u16 \<Rightarrow> ('c \<times> u16) cres" where
  "cbor_duty_entry tc st = cbind (cbor_read tc (fst st) ucast) (cbor_next tc (fst st))"

definition cbor_pca_entry :: "'c tinycbor \<Rightarrow> 'c \<times> proto_pca9685_state_t \<Rightarrow> ('c \<times> proto_pca9685_state_t) cres" where
  "cbor_pca_entry tc st =
     cbind (cbor_copy_text tc (fst st) 7) (\<lambda>(_, sub, c).
        let e = snd st in
        if sub = ''freq'' then cbind (cbor_read tc c (\<lambda>v. e\<lparr>pca_frequency_hz := ucast v\<rparr>)) (cbor_next tc c)
        else if sub = ''duty'' then
          cbind (cbor_array tc (cbor_duty_entry tc) 16 c (pca_duty_cycle e)) (\<lambda>(_, c, ds). Some (Got (c, e\<lparr>pca_duty_cycle := ds\<rparr>)))
        else cbor_next tc c e)"

definition cbor_pwm_entry :: "'c tinycbor \<Rightarrow> 'c \<times> proto_sensor_update_t \<Rightarrow> ('c \<times> proto_sensor_update_t) cres" where
  "cbor_pwm_entry tc st =
     cbind (cbor_copy_text tc (fst st) 11) (\<lambda>(_, pwm_key, c).
        let msg = snd st in
        if pwm_key = ''pca9685'' then
          cbind (cbor_container tc (cbor_pca_entry tc) (c, su_pwm msg)) (\<lambda>(c, e). Some (Got (c, msg\<lparr>su_pwm := e\<rparr>)))
        else cbor_next tc c msg)"

definition cbor_update_entry :: "'c tinycbor \<Rightarrow> 'c \<times> proto_sensor_update_t \<Rightarrow> ('c \<times> proto_sensor_update_t) cres" where
  "cbor_update_entry tc st =
     cbind (cbor_copy_text tc (fst st) 15) (\<lambda>(ok, key, c).
        let msg = snd st in
        if \<not> ok then Some Refused
        else if key = ''ts'' then cbor_number tc (\<lambda>v m. m\<lparr>su_timestamp_ms := ucast v\<rparr>) (c, msg)
        else if key = ''seq'' then cbor_number tc (\<lambda>v m. m\<lparr>su_sequence_id := ucast v\<rparr>) (c, msg)
        else if key = ''sht20'' then
          cbind (cbor_array tc (\<lambda>(c, e). cbor_container tc (cbor_sht20_field tc) (c, e\<lparr>sht_valid := False\<rparr>)) 2 c (su_sht20 msg))
            (\<lambda>(idx, c, es). cbor_next tc c (msg\<lparr>su_sht20_count := idx, su_sht20 := es\<rparr>))
        else if key = ''ds18b20'' then
          cbind (cbor_array tc (cbor_container tc (cbor_ds18b20_field tc)) 4 c (su_ds18b20 msg))
            (\<lambda>(idx, c, es). cbor_next tc c (msg\<lparr>su_ds18b20_count := idx, su_ds18b20 := es\<rparr>))
        else if key = ''gpio'' then cbor_part tc (cbor_gpio_entry tc) (\<lambda>m. m) (c, msg)
        else if key = ''pwm'' then cbor_part tc (cbor_pwm_entry tc) (\<lambda>m. m) (c, msg)
        else cbor_next tc c msg)"

definition proto_decode_sensor_update ::
  "bool \<Rightarrow> 'c tinycbor \<Rightarrow> 'j cjson \<Rightarrow> bytes \<Rightarrow> bool \<Rightarrow> u32 \<Rightarrow> proto_sensor_update_t cres" where
  "proto_decode_sensor_update config_cbor tc cj payload is_cbor expected_crc32 =
     (if \<not> crc_ok payload expected_crc32 then Some Refused
      else if config_cbor \<and> is_cbor then cbor_document tc (cbor_update_entry tc) payload zero_sensor_update
      else json_result (map_option (decode_sensor_update_json cj) (cj_parse cj payload)))"

section \<open>What TinyCBOR promises\<close>

text \<open>
  \<open>rest c\<close> are the items from the cursor to the end of its container: the cursor has the type of
  the first, and the invalid type at the end. A text is copied when it fits; an array or a map
  is entered at its first item, and leaving it from its end moves behind it. Nothing is said of
  the calls that TinyCBOR does not allow.
\<close>

fun item_type :: "citem \<Rightarrow> ctype" where
  "item_type (CUint _) = TUint"
| "item_type (CText _) = TText"
| "item_type (CFloat _) = TFloat"
| "item_type (CBool _) = TBool"
| "item_type (CArray _) = TArray"
| "item_type (CMap _ _) = TMap"

definition cbor_api :: "'c tinycbor \<Rightarrow> ('c \<Rightarrow> citem list) \<Rightarrow> bool" where
  "cbor_api tc rest \<longleftrightarrow>
     (\<forall>c. tc_type tc c = (case rest c of [] \<Rightarrow> TInvalid | x # _ \<Rightarrow> item_type x)) \<and>
     (\<forall>c. tc_at_end tc c \<longleftrightarrow> rest c = []) \<and>
     (\<forall>c i ys xs. rest c = CMap i ys # xs \<or> rest c = CArray ys # xs \<longrightarrow> (\<exists>d. tc_enter tc c = Some d \<and> rest d = ys)) \<and>
     (\<forall>c d i ys xs. (rest c = CMap i ys # xs \<or> rest c = CArray ys # xs) \<and> rest d = [] \<longrightarrow> rest (tc_leave tc c d) = xs) \<and>
     (\<forall>c x xs. rest c = x # xs \<longrightarrow> rest (tc_advance tc c) = xs) \<and>
     (\<forall>c t xs n. rest c = CText t # xs \<and> length t \<le> n \<and> CHR 0x00 \<notin> set t \<longrightarrow> (\<exists>d. tc_text tc c n = (True, t, d) \<and> rest d = xs)) \<and>
     (\<forall>c v xs. rest c = CUint v # xs \<and> v < 2 ^ 64 \<longrightarrow> tc_uint64 tc c = (True, of_nat v))"

text \<open>TinyCBOR parses the payload as the item.\<close>

definition cbor_parses :: "'c tinycbor \<Rightarrow> ('c \<Rightarrow> citem list) \<Rightarrow> bytes \<Rightarrow> citem \<Rightarrow> bool" where
  "cbor_parses tc rest payload it \<longleftrightarrow> (\<exists>c. tc_init tc payload = (True, c) \<and> rest c = [it])"

lemma cbind_simps [simp]:
  "cbind None f = None" "cbind (Some Misuse) f = Some Misuse" "cbind (Some Refused) f = Some Refused" "cbind (Some (Got x)) f = f x"
  by (simp_all add: cbind_def)

lemma cbor_copies:
  assumes "cbor_api tc rest" "rest c = CText t # xs" "length t \<le> n" "CHR 0x00 \<notin> set t"
  obtains d where "cbor_copy_text tc c n = Some (Got (True, t, d))" "rest d = xs"
proof -
  obtain d where "tc_text tc c n = (True, t, d)" "rest d = xs" using assms unfolding cbor_api_def by metis
  moreover have "tc_type tc c = TText" using assms(1,2) by (simp add: cbor_api_def)
  ultimately show ?thesis using that by (simp add: cbor_copy_text_def)
qed

lemma cbor_no_text:
  assumes "cbor_api tc rest" "rest c = x # xs" "\<nexists>t. x = CText t"
  shows "cbor_copy_text tc c n = Some Misuse"
proof -
  have "tc_type tc c = item_type x" using assms(1,2) by (simp add: cbor_api_def)
  then have "tc_type tc c \<noteq> TText" using assms(3) by (cases x) simp_all
  then show ?thesis by (simp add: cbor_copy_text_def)
qed

lemma cbor_enters:
  assumes "cbor_api tc rest" "rest c = CMap i ys # xs \<or> rest c = CArray ys # xs"
  obtains d where "cbor_enter tc c = Some (Got d)" "rest d = ys"
proof -
  obtain d where "tc_enter tc c = Some d" "rest d = ys" using assms unfolding cbor_api_def by metis
  moreover have "cbor_container_at tc c" using assms by (auto simp: cbor_api_def cbor_container_at_def)
  ultimately show ?thesis using that by (simp add: cbor_enter_def)
qed

lemma cbor_leaves:
  assumes "cbor_api tc rest" "rest c = CMap i ys # xs \<or> rest c = CArray ys # xs" "rest p = []"
  obtains d where "cbor_leave tc c p = Some (Got d)" "rest d = xs"
proof -
  have "rest (tc_leave tc c p) = xs" using assms unfolding cbor_api_def by metis
  moreover have "cbor_container_at tc c" "tc_at_end tc p" using assms by (auto simp: cbor_api_def cbor_container_at_def)
  ultimately show ?thesis using that by (simp add: cbor_leave_def)
qed

lemma cbor_moves:
  assumes "cbor_api tc rest" "rest c = x # xs"
  obtains d where "\<And>s. cbor_next tc c s = Some (Got (d, s))" "rest d = xs"
  using assms by (simp add: cbor_api_def cbor_next_def)

lemma cbor_past_end: "cbor_api tc rest \<Longrightarrow> rest c = [] \<Longrightarrow> cbor_next tc c s = Some Misuse"
  by (simp add: cbor_api_def cbor_next_def)

lemma cbor_reads:
  assumes "cbor_api tc rest" "rest c = CUint v # xs" "v < 2 ^ 64"
  shows "cbor_get_uint64 tc c = Some (Got (True, of_nat v))" "cbor_read tc c store = Some (Got (store (of_nat v)))"
  using assms by (simp_all add: cbor_api_def cbor_get_uint64_def cbor_read_def)

lemma cbor_while_end: "cbor_api tc rest \<Longrightarrow> rest c = [] \<Longrightarrow> cbor_while tc body (c, s) = Some (Got (c, s))"
  by (subst cbor_while.simps) (simp add: cbor_api_def)

lemma cbor_while_step:
  "cbor_api tc rest \<Longrightarrow> rest c \<noteq> [] \<Longrightarrow> body (c, s) = Some (Got (c', s')) \<Longrightarrow> cbor_while tc body (c, s) = cbor_while tc body (c', s')"
  by (subst cbor_while.simps) (simp add: cbor_api_def)

lemma cbor_while_misuse:
  "cbor_api tc rest \<Longrightarrow> rest c \<noteq> [] \<Longrightarrow> body (c, s) = Some Misuse \<Longrightarrow> cbor_while tc body (c, s) = Some Misuse"
  by (subst cbor_while.simps) (simp add: cbor_api_def)

lemma cbor_while_misuse_next:
  assumes "cbor_api tc rest" "rest c \<noteq> []" "body (c, s) = Some (Got (c', s'))" "rest c' \<noteq> []" "body (c', s') = Some Misuse"
  shows "cbor_while tc body (c, s) = Some Misuse"
  using cbor_while_step [where body = body, OF assms(1-3)] cbor_while_misuse [where body = body, OF assms(1,4,5)] by simp

section \<open>Updates are never decoded\<close>

lemma update_entry_other:
  assumes "cbor_api tc rest" "rest c = CText k # v # xs" "length k \<le> 15" "CHR 0x00 \<notin> set k"
    "k \<notin> {''ts'', ''seq'', ''sht20'', ''ds18b20'', ''gpio'', ''pwm''}"
  shows "\<exists>d. cbor_update_entry tc (c, msg) = Some (Got (d, msg)) \<and> rest d = xs"
proof -
  obtain d where d: "cbor_copy_text tc c 15 = Some (Got (True, k, d))" "rest d = v # xs" using cbor_copies [OF assms(1-4)] by blast
  obtain d' where "\<And>s :: proto_sensor_update_t. cbor_next tc d s = Some (Got (d', s))" "rest d' = xs" using cbor_moves [OF assms(1) d(2)] by metis
  then show ?thesis using assms(5) d(1) by (simp add: cbor_update_entry_def Let_def)
qed

lemma cbor_number_got:
  assumes "cbor_api tc rest" "rest c = CUint v # xs" "v < 2 ^ 64"
  shows "\<exists>d. cbor_number tc store (c, s) = Some (Got (d, store (of_nat v) s)) \<and> rest d = xs"
proof -
  obtain d where "cbor_next tc c (store (of_nat v) s) = Some (Got (d, store (of_nat v) s))" "rest d = xs" using cbor_moves [OF assms(1,2)] by metis
  then show ?thesis by (simp add: cbor_number_def cbor_reads(1) [OF assms])
qed

lemma update_entry_number:
  assumes "cbor_api tc rest" "rest c = CText k # CUint v # xs" "k = ''ts'' \<or> k = ''seq''" "v < 2 ^ 64"
  shows "\<exists>d msg'. cbor_update_entry tc (c, msg) = Some (Got (d, msg')) \<and> rest d = xs"
proof -
  have "length k \<le> 15" "CHR 0x00 \<notin> set k" using assms(3) by auto
  then obtain d where d: "cbor_copy_text tc c 15 = Some (Got (True, k, d))" "rest d = CUint v # xs" using cbor_copies [OF assms(1,2)] by blast
  from assms(3) have "cbor_update_entry tc (c, msg) =
      cbor_number tc (if k = ''ts'' then (\<lambda>v m. m\<lparr>su_timestamp_ms := ucast v\<rparr>) else (\<lambda>v m. m\<lparr>su_sequence_id := ucast v\<rparr>)) (d, msg)"
    using d(1) by (elim disjE; simp add: cbor_update_entry_def Let_def)
  then show ?thesis using cbor_number_got [OF assms(1) d(2) assms(4)] by metis
qed

text \<open>
  The identifier of a reading is copied, and then the key behind it is skipped: the number of
  that key is the next text to be copied.
\<close>

lemma sht20_item_misuse:
  assumes "cbor_api tc rest" "rest c = cbor_sht20_item e # xs" "length (sht_id e) \<le> 15" "CHR 0x00 \<notin> set (sht_id e)"
  shows "cbor_container tc (cbor_sht20_field tc) (c, e0) = Some Misuse"
proof -
  let ?tail = "[CText ''rh'', CFloat (sht_humidity_percent e), CText ''ok'', CBool (sht_valid e)]"
  obtain p where p: "cbor_enter tc c = Some (Got p)"
      "rest p = CText ''id'' # CText (sht_id e) # CText ''t'' # CFloat (sht_temperature_c e) # ?tail"
    using cbor_enters [OF assms(1)] assms(2) unfolding cbor_sht20_item_def by blast
  obtain p1 where p1: "cbor_copy_text tc p 7 = Some (Got (True, ''id'', p1))" "rest p1 = tl (rest p)"
    using cbor_copies [OF assms(1) p(2), of 7] p(2) by auto
  obtain p2 where p2: "cbor_copy_text tc p1 15 = Some (Got (True, sht_id e, p2))" "rest p2 = tl (rest p1)"
    using cbor_copies [OF assms(1), of p1 "sht_id e" "tl (rest p1)" 15] p(2) p1(2) assms(3,4) by auto
  let ?e = "e0\<lparr>sht_id := sht_id e\<rparr>"
  obtain p3 where p3: "cbor_next tc p2 ?e = Some (Got (p3, ?e))" "rest p3 = CFloat (sht_temperature_c e) # ?tail"
    using cbor_moves [OF assms(1), of p2] p(2) p1(2) p2(2) by (metis list.sel(3))
  have "cbor_sht20_field tc (p, e0) = Some (Got (p3, ?e))" using p1 p2 p3 by (simp add: cbor_sht20_field_def Let_def)
  moreover have "cbor_sht20_field tc (p3, ?e) = Some Misuse" using cbor_no_text [OF assms(1) p3(2), of 7] by (simp add: cbor_sht20_field_def)
  ultimately have "cbor_while tc (cbor_sht20_field tc) (p, e0) = Some Misuse"
    using cbor_while_misuse_next [where body = "cbor_sht20_field tc", OF assms(1)] p(2) p3(2) by simp
  then show ?thesis by (simp add: cbor_container_def p(1))
qed

lemma update_entry_sht20:
  assumes "cbor_api tc rest" "rest c = CText ''sht20'' # CArray (map cbor_sht20_item es) # k # y # xs" "\<nexists>t. y = CText t"
    "\<forall>e \<in> set es. length (sht_id e) \<le> 15 \<and> CHR 0x00 \<notin> set (sht_id e)"
  shows "cbor_while tc (cbor_update_entry tc) (c, msg) = Some Misuse"
proof -
  obtain d where d: "cbor_copy_text tc c 15 = Some (Got (True, ''sht20'', d))" "rest d = CArray (map cbor_sht20_item es) # k # y # xs"
    using cbor_copies [OF assms(1,2), of 15] by auto
  obtain arr where arr: "cbor_enter tc d = Some (Got arr)" "rest arr = map cbor_sht20_item es" using cbor_enters [OF assms(1)] d(2) by blast
  have at_end: "tc_at_end tc arr \<longleftrightarrow> es = []" using assms(1) arr(2) by (simp add: cbor_api_def)
  show ?thesis
  proof (cases es)
    case Nil
    let ?msg = "msg\<lparr>su_sht20_count := 0\<rparr>"
    obtain q where q: "cbor_leave tc d arr = Some (Got q)" "rest q = k # y # xs"
      using cbor_leaves [OF assms(1), of d _ _ "k # y # xs" arr] d(2) arr(2) Nil by auto
    obtain q' where q': "cbor_next tc q ?msg = Some (Got (q', ?msg))" "rest q' = y # xs" using cbor_moves [OF assms(1) q(2)] by metis
    have "cbor_update_entry tc (c, msg) = Some (Got (q', ?msg))"
      using d(1) arr(1) at_end Nil q(1) q'(1)
      by (simp add: cbor_update_entry_def cbor_array_def numeral_2_eq_2 Let_def)
    moreover have "cbor_update_entry tc (q', ?msg) = Some Misuse"
      using cbor_no_text [OF assms(1) q'(2) assms(3), of 15] by (simp add: cbor_update_entry_def)
    ultimately show ?thesis using cbor_while_misuse_next [where body = "cbor_update_entry tc", OF assms(1)] assms(2) q'(2) by simp
  next
    case (Cons e es')
    have "cbor_container tc (cbor_sht20_field tc) (arr, (su_sht20 msg ! 0)\<lparr>sht_valid := False\<rparr>) = Some Misuse"
      using sht20_item_misuse [OF assms(1), of arr e "map cbor_sht20_item es'"] arr(2) Cons assms(4) by simp
    then have "cbor_update_entry tc (c, msg) = Some Misuse"
      using d(1) arr(1) at_end Cons by (simp add: cbor_update_entry_def cbor_array_def numeral_2_eq_2 Let_def)
    then show ?thesis using assms(2) by (intro cbor_while_misuse [OF assms(1)]) simp_all
  qed
qed

lemma cbor_document_map:
  assumes "cbor_api tc rest" "cbor_parses tc rest payload (CMap i kvs)"
  obtains c where "rest c = kvs"
    "cbor_document tc entry payload msg = cbind (cbor_while tc entry (c, msg)) (\<lambda>(_, msg). Some (Got msg))"
proof -
  obtain r where r: "tc_init tc payload = (True, r)" "rest r = [CMap i kvs]" using assms(2) by (auto simp: cbor_parses_def)
  then have "tc_type tc r = TMap" using assms(1) by (simp add: cbor_api_def)
  moreover obtain c where "cbor_enter tc r = Some (Got c)" "rest c = kvs" using cbor_enters [OF assms(1)] r(2) by blast
  ultimately show thesis using that r(1) by (simp add: cbor_document_def)
qed

lemma unat_u32_64: "unat (w :: u32) < 2 ^ 64"
  by (rule less_trans [OF unsigned_less]) simp

text \<open>
  The CBOR decoder decodes no update that the CBOR encoder writes. A text value is copied with
  the cursor moved behind it and then advanced once more, and a container is left and then
  advanced, so that the next key is skipped and its value is copied as a text, which TinyCBOR
  does not allow: with any reading of an ambient sensor this happens behind its identifier,
  and without one behind the array of ambient sensors.
\<close>

theorem cbor_updates_are_misread:
  assumes "cbor_api tc rest" "proto_encode_sensor_update_into True writer m True sz = Some (p, crc)"
    "cbor_parses tc rest p (sensor_update_item m)" "sensor_update_wf m" "\<forall>e \<in> set (su_sht20 m). CHR 0x00 \<notin> set (sht_id e)"
  shows "proto_decode_sensor_update True tc cj p True crc = Some Misuse"
proof -
  have crc: "crc_ok p crc"
    using assms(2) by (auto simp: proto_encode_sensor_update_into_def encode_sensor_update_cbor_into_def cbor_write_def crc_ok_def split: if_splits)
  let ?es = "map (\<lambda>i. su_sht20 m ! i) [0..<su_sht20_count m]" and ?body = "cbor_update_entry tc"
  define tl1 where "tl1 = CText ''ds18b20'' # CArray (map (\<lambda>i. cbor_ds18b20_item (su_ds18b20 m ! i)) [0..<su_ds18b20_count m]) #
    [CText ''gpio'', CMap False [CText ''mcp0'', cbor_mcp_item (su_mcp m ! 0), CText ''mcp1'', cbor_mcp_item (su_mcp m ! 1)],
      CText ''pwm'', cbor_pwm_item (su_pwm m)]"
  let ?kvs = "[CText ''v'', CUint 1, CText ''type'', CText ''sensor_update'',
      CText ''ts'', CUint (unat (su_timestamp_ms m)), CText ''seq'', CUint (unat (su_sequence_id m)),
      CText ''sht20'', CArray (map cbor_sht20_item ?es)] @ tl1"
  have "sensor_update_item m = CMap True ?kvs" by (simp add: sensor_update_item_def tl1_def comp_def)
  with assms(3) have "cbor_parses tc rest p (CMap True ?kvs)" by simp
  then obtain c0 where c0: "rest c0 = ?kvs"
    and doc: "cbor_document tc ?body p zero_sensor_update = cbind (cbor_while tc ?body (c0, zero_sensor_update)) (\<lambda>(_, msg). Some (Got msg))"
    by (rule cbor_document_map [OF assms(1), where entry = ?body and msg = zero_sensor_update])
  obtain c1 where c1: "?body (c0, zero_sensor_update) = Some (Got (c1, zero_sensor_update))" "rest c1 = tl (tl (rest c0))"
    using update_entry_other [OF assms(1), of c0 "''v''"] c0 by auto
  obtain c2 where c2: "?body (c1, zero_sensor_update) = Some (Got (c2, zero_sensor_update))" "rest c2 = tl (tl (rest c1))"
    using update_entry_other [OF assms(1), of c1 "''type''"] c0 c1 by auto
  obtain c3 m3 where c3: "?body (c2, zero_sensor_update) = Some (Got (c3, m3))" "rest c3 = tl (tl (rest c2))"
    using update_entry_number [OF assms(1), of c2 "''ts''"] c0 c1 c2 unat_u32_64 by fastforce
  obtain c4 m4 where c4: "?body (c3, m3) = Some (Got (c4, m4))" "rest c4 = tl (tl (rest c3))"
    using update_entry_number [OF assms(1), of c3 "''seq''"] c0 c1 c2 c3 unat_u32_64 by fastforce
  have ids: "\<forall>e \<in> set ?es. length (sht_id e) \<le> 15 \<and> CHR 0x00 \<notin> set (sht_id e)"
  proof
    fix e assume "e \<in> set ?es"
    then have "e \<in> set (su_sht20 m)" using assms(4) by (auto simp: sensor_update_wf_def)
    then show "length (sht_id e) \<le> 15 \<and> CHR 0x00 \<notin> set (sht_id e)"
      using assms(4,5) unfolding sensor_update_wf_def by fastforce
  qed
  have "cbor_while tc ?body (c4, m4) = Some Misuse"
    by (rule update_entry_sht20 [OF assms(1) _ _ ids]) (use c0 c1 c2 c3 c4 in \<open>auto simp: tl1_def\<close>)
  moreover have "rest c0 \<noteq> []" "rest c1 \<noteq> []" "rest c2 \<noteq> []" "rest c3 \<noteq> []" using c0 c1 c2 c3 by simp_all
  ultimately have "cbor_while tc ?body (c0, zero_sensor_update) = Some Misuse"
    using cbor_while_step [where body = ?body, OF assms(1)] c1(1) c2(1) c3(1) c4(1) by metis
  then show ?thesis by (simp add: proto_decode_sensor_update_def crc doc)
qed

section \<open>Commands\<close>

lemma command_entry_other:
  assumes "cbor_api tc rest" "rest c = CText k # v # xs" "k = ''v'' \<or> k = ''type''"
  shows "\<exists>d. cbor_command_entry tc (c, msg) = Some (Got (d, msg)) \<and> rest d = xs"
proof -
  have "length k \<le> 15" "CHR 0x00 \<notin> set k" using assms(3) by auto
  then obtain d where d: "cbor_copy_text tc c 15 = Some (Got (True, k, d))" "rest d = v # xs" using cbor_copies [OF assms(1,2)] by blast
  obtain d' where "cbor_next tc d msg = Some (Got (d', msg))" "rest d' = xs" using cbor_moves [OF assms(1) d(2)] by metis
  then show ?thesis using assms(3) d(1) by (auto simp: cbor_command_entry_def Let_def)
qed

lemma ucast_through_u64: "(ucast (ucast (a :: u8) :: u64) :: u8) = a" "(ucast (ucast (b :: u16) :: u64) :: u16) = b"
  "(ucast (ucast (w :: u32) :: u64) :: u32) = w"
  by (rule bit_word_eqI; simp add: bit_ucast_iff)+

lemma command_entry_number:
  assumes "cbor_api tc rest" "rest c = CText k # CUint (unat (w :: u32)) # xs" "k = ''ts'' \<or> k = ''seq''"
  shows "\<exists>d. cbor_command_entry tc (c, msg) =
    Some (Got (d, if k = ''ts'' then msg\<lparr>cmd_timestamp_ms := w\<rparr> else msg\<lparr>cmd_sequence_id := w\<rparr>)) \<and> rest d = xs"
proof -
  have "length k \<le> 15" "CHR 0x00 \<notin> set k" using assms(3) by auto
  then obtain d where d: "cbor_copy_text tc c 15 = Some (Got (True, k, d))" "rest d = CUint (unat w) # xs" using cbor_copies [OF assms(1,2)] by blast
  let ?store = "if k = ''ts'' then (\<lambda>(v :: u64) m. m\<lparr>cmd_timestamp_ms := ucast v\<rparr>) else (\<lambda>v m. m\<lparr>cmd_sequence_id := ucast v\<rparr>)"
  from assms(3) have "cbor_command_entry tc (c, msg) = cbor_number tc ?store (d, msg)"
    using d(1) by (elim disjE; simp add: cbor_command_entry_def Let_def)
  moreover have "?store (of_nat (unat w)) msg = (if k = ''ts'' then msg\<lparr>cmd_timestamp_ms := w\<rparr> else msg\<lparr>cmd_sequence_id := w\<rparr>)"
    by (simp add: ucast_through_u64)
  ultimately show ?thesis using cbor_number_got [OF assms(1) d(2) unat_u32_64, where s = msg and store = ?store] by simp
qed

text \<open>
  A container part is read and left, and then the cursor is advanced: at the end of the message
  this is not allowed, and otherwise it skips the key of the next part, whose container is the
  next text to be copied.
\<close>

lemma cbor_part_end:
  assumes "cbor_api tc rest" "rest c = CMap i ys # xs" "cbor_enter tc c = Some (Got p)" "cbor_while tc body (p, s) = Some (Got (q, s'))" "rest q = []"
  shows "xs = [] \<Longrightarrow> cbor_part tc body finish (c, s) = Some Misuse"
    "xs = x # xs' \<Longrightarrow> \<exists>d. cbor_part tc body finish (c, s) = Some (Got (d, finish s')) \<and> rest d = xs'"
proof -
  obtain d where d: "cbor_leave tc c q = Some (Got d)" "rest d = xs" using cbor_leaves [OF assms(1)] assms(2,5) by blast
  then have part: "cbor_part tc body finish (c, s) = cbor_next tc d (finish s')"
    by (simp add: cbor_part_def cbor_container_def assms(3,4))
  show "xs = [] \<Longrightarrow> cbor_part tc body finish (c, s) = Some Misuse" using part cbor_past_end [OF assms(1)] d(2) by simp
  show "xs = x # xs' \<Longrightarrow> \<exists>d. cbor_part tc body finish (c, s) = Some (Got (d, finish s')) \<and> rest d = xs'"
    using part cbor_moves [OF assms(1), of d x xs'] d(2) by metis
qed

text \<open>What follows a part in a message: nothing, or a key with its container.\<close>

definition parts_follow :: "citem list \<Rightarrow> bool" where
  "parts_follow xs \<longleftrightarrow> xs = [] \<or> (\<exists>k i ys xs'. xs = CText k # CMap i ys # xs')"

lemma message_misuse_behind_part:
  assumes "cbor_api tc rest" "rest c \<noteq> []" "parts_follow xs"
    and "xs = [] \<Longrightarrow> cbor_command_entry tc (c, msg) = Some Misuse"
    and "\<And>x xs'. xs = x # xs' \<Longrightarrow> \<exists>d msg'. cbor_command_entry tc (c, msg) = Some (Got (d, msg')) \<and> rest d = xs'"
  shows "cbor_while tc (cbor_command_entry tc) (c, msg) = Some Misuse"
proof (cases "xs = []")
  case True
  show ?thesis by (rule cbor_while_misuse [where body = "cbor_command_entry tc", OF assms(1,2) assms(4) [OF True]])
next
  case False
  then obtain k i ys xs' where xs: "xs = CText k # CMap i ys # xs'" using assms(3) by (auto simp: parts_follow_def)
  then obtain d msg' where d: "cbor_command_entry tc (c, msg) = Some (Got (d, msg'))" "rest d = CMap i ys # xs'" using assms(5) by blast
  have "cbor_command_entry tc (d, msg') = Some Misuse"
    using cbor_no_text [OF assms(1) d(2), of 15] by (simp add: cbor_command_entry_def)
  then show ?thesis using cbor_while_misuse_next [where body = "cbor_command_entry tc", OF assms(1,2) d(1)] d(2) by simp
qed

lemma short_words: "unat (a :: u8) < 2 ^ 64" "unat (b :: u16) < 2 ^ 64"
  by (rule less_trans [OF unsigned_less], simp)+

lemma set_pwm_loop:
  assumes "cbor_api tc rest" "rest p = [CText ''ch'', CUint (unat (ch :: u8)), CText ''duty'', CUint (unat (duty :: u16))]"
  shows "\<exists>q. cbor_while tc (cbor_set_pwm_entry tc) (p, msg) = Some (Got (q, msg\<lparr>cmd_pwm_channel := ch, cmd_pwm_duty_cycle := duty\<rparr>)) \<and> rest q = []"
proof -
  let ?body = "cbor_set_pwm_entry tc" and ?m1 = "msg\<lparr>cmd_pwm_channel := ch\<rparr>" and ?m2 = "msg\<lparr>cmd_pwm_channel := ch, cmd_pwm_duty_cycle := duty\<rparr>"
  obtain p1 where p1: "cbor_copy_text tc p 7 = Some (Got (True, ''ch'', p1))" "rest p1 = CUint (unat ch) # [CText ''duty'', CUint (unat duty)]"
    using cbor_copies [OF assms(1) assms(2), of 7] by auto
  obtain p2 where p2: "cbor_next tc p1 ?m1 = Some (Got (p2, ?m1))" "rest p2 = CText ''duty'' # [CUint (unat duty)]"
    using cbor_moves [OF assms(1) p1(2)] by metis
  obtain p3 where p3: "cbor_copy_text tc p2 7 = Some (Got (True, ''duty'', p3))" "rest p3 = [CUint (unat duty)]"
    using cbor_copies [OF assms(1) p2(2), of 7] by auto
  obtain p4 where p4: "cbor_next tc p3 ?m2 = Some (Got (p4, ?m2))" "rest p4 = []" using cbor_moves [OF assms(1) p3(2)] by metis
  have 1: "?body (p, msg) = Some (Got (p2, ?m1))"
    using p1(1) p2(1) by (simp add: cbor_set_pwm_entry_def Let_def ucast_through_u64 cbor_reads(2) [OF assms(1) p1(2) short_words(1)])
  have 2: "?body (p2, ?m1) = Some (Got (p4, ?m2))"
    using p3(1) p4(1) by (simp add: cbor_set_pwm_entry_def Let_def ucast_through_u64 cbor_reads(2) [OF assms(1) p3(2) short_words(2)])
  have "cbor_while tc ?body (p, msg) = cbor_while tc ?body (p2, ?m1)"
    by (rule cbor_while_step [where body = ?body, OF assms(1) _ 1]) (simp add: assms(2))
  also have "\<dots> = cbor_while tc ?body (p4, ?m2)" by (rule cbor_while_step [where body = ?body, OF assms(1) _ 2]) (simp add: p2(2))
  also have "\<dots> = Some (Got (p4, ?m2))" by (rule cbor_while_end [OF assms(1) p4(2)])
  finally show ?thesis using p4(2) by blast
qed

lemma pwm_freq_loop:
  assumes "cbor_api tc rest" "rest p = [CText ''freq'', CUint (unat (freq :: u16))]"
  shows "\<exists>q. cbor_while tc (cbor_pwm_freq_entry tc) (p, msg) =
    Some (Got (q, msg\<lparr>cmd_pwm_frequency := freq, cmd_has_pwm_frequency := True\<rparr>)) \<and> rest q = []"
proof -
  let ?body = "cbor_pwm_freq_entry tc" and ?m = "msg\<lparr>cmd_pwm_frequency := freq, cmd_has_pwm_frequency := True\<rparr>"
  obtain p1 where p1: "cbor_copy_text tc p 7 = Some (Got (True, ''freq'', p1))" "rest p1 = [CUint (unat freq)]"
    using cbor_copies [OF assms(1) assms(2), of 7] by auto
  obtain p2 where p2: "cbor_next tc p1 ?m = Some (Got (p2, ?m))" "rest p2 = []" using cbor_moves [OF assms(1) p1(2)] by metis
  have 1: "?body (p, msg) = Some (Got (p2, ?m))"
    using p1(1) p2(1) by (simp add: cbor_pwm_freq_entry_def Let_def ucast_through_u64 cbor_reads(2) [OF assms(1) p1(2) short_words(2)])
  have "cbor_while tc ?body (p, msg) = cbor_while tc ?body (p2, ?m)"
    by (rule cbor_while_step [where body = ?body, OF assms(1) _ 1]) (simp add: assms(2))
  also have "\<dots> = Some (Got (p2, ?m))" by (rule cbor_while_end [OF assms(1) p2(2)])
  finally show ?thesis using p2(2) by blast
qed

text \<open>The device is copied and the key of the port skipped; the port is then taken for a key, the key of the mask skipped, and its number copied as a text.\<close>

lemma write_gpio_misuse:
  assumes "cbor_api tc rest" "dev = ''mcp0'' \<or> dev = ''mcp1''" "port = ''A'' \<or> port = ''B''"
    "rest p = CText ''dev'' # CText dev # CText ''port'' # CText port # CText ''mask'' # CUint v # xs"
  shows "cbor_while tc (cbor_write_gpio_entry tc) (p, msg) = Some Misuse"
proof -
  let ?body = "cbor_write_gpio_entry tc" and ?m = "msg\<lparr>cmd_gpio_device_index := if dev = ''mcp1'' then 1 else 0\<rparr>"
  have short: "length dev \<le> 7" "CHR 0x00 \<notin> set dev" "length port \<le> 11" "CHR 0x00 \<notin> set port" using assms(2,3) by auto
  obtain p1 where p1: "cbor_copy_text tc p 11 = Some (Got (True, ''dev'', p1))" "rest p1 = CText dev # CText ''port'' # CText port # CText ''mask'' # CUint v # xs"
    using cbor_copies [OF assms(1,4), of 11] by auto
  obtain p2 where p2: "cbor_copy_text tc p1 7 = Some (Got (True, dev, p2))" "rest p2 = CText ''port'' # CText port # CText ''mask'' # CUint v # xs"
    using cbor_copies [OF assms(1) p1(2) short(1,2)] by auto
  obtain p3 where p3: "cbor_next tc p2 ?m = Some (Got (p3, ?m))" "rest p3 = CText port # CText ''mask'' # CUint v # xs"
    using cbor_moves [OF assms(1) p2(2)] by metis
  have 1: "?body (p, msg) = Some (Got (p3, ?m))" using p1(1) p2(1) p3(1) by (simp add: cbor_write_gpio_entry_def Let_def)
  obtain p4 where p4: "cbor_copy_text tc p3 11 = Some (Got (True, port, p4))" "rest p4 = CText ''mask'' # CUint v # xs"
    using cbor_copies [OF assms(1) p3(2) short(3,4)] by auto
  obtain p5 where p5: "cbor_next tc p4 ?m = Some (Got (p5, ?m))" "rest p5 = CUint v # xs" using cbor_moves [OF assms(1) p4(2)] by metis
  have 2: "?body (p3, ?m) = Some (Got (p5, ?m))" using p4(1) p5(1) assms(3) by (auto simp: cbor_write_gpio_entry_def Let_def)
  have 3: "?body (p5, ?m) = Some Misuse" using cbor_no_text [OF assms(1) p5(2), of 11] by (simp add: cbor_write_gpio_entry_def)
  have "cbor_while tc ?body (p, msg) = cbor_while tc ?body (p3, ?m)"
    by (rule cbor_while_step [where body = ?body, OF assms(1) _ 1]) (simp add: assms(4))
  also have "\<dots> = Some Misuse"
    by (rule cbor_while_misuse_next [where body = ?body, OF assms(1) _ 2 _ 3]) (simp_all add: p3(2) p5(2))
  finally show ?thesis .
qed

lemma command_parts_misuse:
  assumes "cbor_api tc rest" "rest c = cbor_set_pwm_part m @ cbor_pwm_freq_part m @ cbor_write_gpio_part m" "rest c \<noteq> []"
  shows "cbor_while tc (cbor_command_entry tc) (c, msg) = Some Misuse"
proof -
  have "cmd_has_pwm_update m \<or> cmd_has_pwm_frequency m \<or> cmd_has_gpio_write m"
    using assms(2,3) by (auto simp: cbor_set_pwm_part_def cbor_pwm_freq_part_def cbor_write_gpio_part_def split: if_splits)
  then consider (pwm) "cmd_has_pwm_update m" | (freq) "\<not> cmd_has_pwm_update m" "cmd_has_pwm_frequency m"
    | (gpio) "\<not> cmd_has_pwm_update m" "\<not> cmd_has_pwm_frequency m" "cmd_has_gpio_write m" by blast
  then show ?thesis
  proof cases
    case pwm
    let ?xs = "cbor_pwm_freq_part m @ cbor_write_gpio_part m"
    let ?ys = "[CText ''ch'', CUint (unat (cmd_pwm_channel m)), CText ''duty'', CUint (unat (cmd_pwm_duty_cycle m))]"
    have "rest c = CText ''set_pwm'' # CMap False ?ys # ?xs" using assms(2) pwm by (simp add: cbor_set_pwm_part_def)
    then obtain d where d: "cbor_copy_text tc c 15 = Some (Got (True, ''set_pwm'', d))" "rest d = CMap False ?ys # ?xs"
      using cbor_copies [OF assms(1), of c "''set_pwm''" _ 15] by auto
    obtain p where p: "cbor_enter tc d = Some (Got p)" "rest p = ?ys" using cbor_enters [OF assms(1)] d(2) by blast
    obtain q where q: "cbor_while tc (cbor_set_pwm_entry tc) (p, msg) =
        Some (Got (q, msg\<lparr>cmd_pwm_channel := cmd_pwm_channel m, cmd_pwm_duty_cycle := cmd_pwm_duty_cycle m\<rparr>))" "rest q = []"
      using set_pwm_loop [OF assms(1) p(2)] by blast
    note part = cbor_part_end [OF assms(1) d(2) p(1) q, where finish = "\<lambda>m. m\<lparr>cmd_has_pwm_update := True\<rparr>"]
    have entry: "cbor_command_entry tc (c, msg) = cbor_part tc (cbor_set_pwm_entry tc) (\<lambda>m. m\<lparr>cmd_has_pwm_update := True\<rparr>) (d, msg)"
      using d(1) by (simp add: cbor_command_entry_def Let_def)
    have follow: "parts_follow ?xs" by (auto simp: parts_follow_def cbor_pwm_freq_part_def cbor_write_gpio_part_def)
    show ?thesis by (rule message_misuse_behind_part [OF assms(1,3) follow]; unfold entry; use part in \<open>blast\<close>)
  next
    case freq
    let ?xs = "cbor_write_gpio_part m" and ?ys = "[CText ''freq'', CUint (unat (cmd_pwm_frequency m))]"
    have "rest c = CText ''pwm_freq'' # CMap False ?ys # ?xs" using assms(2) freq by (simp add: cbor_set_pwm_part_def cbor_pwm_freq_part_def)
    then obtain d where d: "cbor_copy_text tc c 15 = Some (Got (True, ''pwm_freq'', d))" "rest d = CMap False ?ys # ?xs"
      using cbor_copies [OF assms(1), of c "''pwm_freq''" _ 15] by auto
    obtain p where p: "cbor_enter tc d = Some (Got p)" "rest p = ?ys" using cbor_enters [OF assms(1)] d(2) by blast
    obtain q where q: "cbor_while tc (cbor_pwm_freq_entry tc) (p, msg) =
        Some (Got (q, msg\<lparr>cmd_pwm_frequency := cmd_pwm_frequency m, cmd_has_pwm_frequency := True\<rparr>))" "rest q = []"
      using pwm_freq_loop [OF assms(1) p(2)] by blast
    note part = cbor_part_end [OF assms(1) d(2) p(1) q, where finish = "\<lambda>m. m"]
    have entry: "cbor_command_entry tc (c, msg) = cbor_part tc (cbor_pwm_freq_entry tc) (\<lambda>m. m) (d, msg)"
      using d(1) by (simp add: cbor_command_entry_def Let_def)
    have follow: "parts_follow ?xs" by (auto simp: parts_follow_def cbor_write_gpio_part_def)
    show ?thesis by (rule message_misuse_behind_part [OF assms(1,3) follow]; unfold entry; use part in \<open>blast\<close>)
  next
    case gpio
    let ?dev = "if cmd_gpio_device_index m = 0 then ''mcp0'' else ''mcp1''" and ?port = "if cmd_gpio_port m = 0 then ''A'' else ''B''"
    let ?ys = "CText ''dev'' # CText ?dev # CText ''port'' # CText ?port # CText ''mask'' # CUint (unat (cmd_gpio_mask m)) #
      [CText ''value'', CUint (unat (cmd_gpio_value m))]"
    have "rest c = CText ''write_gpio'' # CMap False ?ys # []"
      using assms(2) gpio by (simp add: cbor_set_pwm_part_def cbor_pwm_freq_part_def cbor_write_gpio_part_def)
    then obtain d where d: "cbor_copy_text tc c 15 = Some (Got (True, ''write_gpio'', d))" "rest d = CMap False ?ys # []"
      using cbor_copies [OF assms(1), of c "''write_gpio''" _ 15] by auto
    obtain p where p: "cbor_enter tc d = Some (Got p)" "rest p = ?ys" using cbor_enters [OF assms(1)] d(2) by blast
    have "cbor_while tc (cbor_write_gpio_entry tc) (p, msg) = Some Misuse"
      by (rule write_gpio_misuse [OF assms(1) _ _ p(2)]) auto
    then have "cbor_command_entry tc (c, msg) = Some Misuse"
      using d(1) p(1) by (simp add: cbor_command_entry_def cbor_part_def cbor_container_def Let_def)
    then show ?thesis by (rule cbor_while_misuse [OF assms(1,3)])
  qed
qed

text \<open>
  C40. In CBOR form only a command that commands nothing is decoded. A command without a duty, a
  frequency and a GPIO write is decoded to itself. With any of them the decoder calls TinyCBOR in
  a way it does not allow: it advances the cursor from the end of the message behind a last
  part, or copies a map or a number as a text because it skipped a key.
\<close>

theorem cbor_commands_are_misread:
  assumes "cbor_api tc rest" "proto_encode_command_into True writer m True sz = Some (p, crc)"
    "cbor_parses tc rest p (command_item m)"
  shows "proto_decode_command True tc cj p True crc =
    Some (if cmd_has_pwm_update m \<or> cmd_has_pwm_frequency m \<or> cmd_has_gpio_write m then Misuse else Got (command_norm m))"
proof -
  have crc: "crc_ok p crc"
    using assms(2) by (auto simp: proto_encode_command_into_def encode_command_cbor_into_def cbor_write_def crc_ok_def split: if_splits)
  let ?body = "cbor_command_entry tc" and ?parts = "cbor_set_pwm_part m @ cbor_pwm_freq_part m @ cbor_write_gpio_part m"
  let ?kvs = "[CText ''v'', CUint 1, CText ''type'', CText ''cmd'', CText ''ts'', CUint (unat (cmd_timestamp_ms m)),
      CText ''seq'', CUint (unat (cmd_sequence_id m))] @ ?parts"
  have "cbor_parses tc rest p (CMap True ?kvs)" using assms(3) by (simp add: command_item_def)
  then obtain c0 where c0: "rest c0 = ?kvs"
    and doc: "cbor_document tc ?body p zero_command = cbind (cbor_while tc ?body (c0, zero_command)) (\<lambda>(_, msg). Some (Got msg))"
    by (rule cbor_document_map [OF assms(1), where entry = ?body and msg = zero_command])
  obtain c1 where c1: "?body (c0, zero_command) = Some (Got (c1, zero_command))" "rest c1 = tl (tl ?kvs)"
    using command_entry_other [OF assms(1), of c0 "''v''"] c0 by auto
  obtain c2 where c2: "?body (c1, zero_command) = Some (Got (c2, zero_command))" "rest c2 = tl (tl (tl (tl ?kvs)))"
    using command_entry_other [OF assms(1), of c1 "''type''"] c1 by auto
  let ?m3 = "zero_command\<lparr>cmd_timestamp_ms := cmd_timestamp_ms m\<rparr>" and ?m4 = "zero_command\<lparr>cmd_timestamp_ms := cmd_timestamp_ms m, cmd_sequence_id := cmd_sequence_id m\<rparr>"
  obtain c3 where c3: "?body (c2, zero_command) = Some (Got (c3, ?m3))" "rest c3 = CText ''seq'' # CUint (unat (cmd_sequence_id m)) # ?parts"
    using command_entry_number [OF assms(1), of c2 "''ts''"] c2 by fastforce
  obtain c4 where c4: "?body (c3, ?m3) = Some (Got (c4, ?m4))" "rest c4 = ?parts"
    using command_entry_number [OF assms(1) c3(2)] by fastforce
  have "rest c0 \<noteq> []" "rest c1 \<noteq> []" "rest c2 \<noteq> []" "rest c3 \<noteq> []" using c0 c1 c2 c3 by simp_all
  then have all: "cbor_while tc ?body (c0, zero_command) = cbor_while tc ?body (c4, ?m4)"
    using cbor_while_step [where body = ?body, OF assms(1)] c1(1) c2(1) c3(1) c4(1) by metis
  show ?thesis
  proof (cases "?parts = []")
    case True
    then have none: "\<not> cmd_has_pwm_update m" "\<not> cmd_has_pwm_frequency m" "\<not> cmd_has_gpio_write m"
      by (auto simp: cbor_set_pwm_part_def cbor_pwm_freq_part_def cbor_write_gpio_part_def split: if_splits)
    then have "?m4 = command_norm m" by (cases m) (simp add: command_norm_def zero_command_def)
    moreover have "cbor_while tc ?body (c4, ?m4) = Some (Got (c4, ?m4))" using c4(2) True by (intro cbor_while_end [OF assms(1)]) simp
    ultimately show ?thesis using all none by (simp add: proto_decode_command_def crc doc)
  next
    case False
    then have "cmd_has_pwm_update m \<or> cmd_has_pwm_frequency m \<or> cmd_has_gpio_write m"
      by (auto simp: cbor_set_pwm_part_def cbor_pwm_freq_part_def cbor_write_gpio_part_def split: if_splits)
    moreover have "cbor_while tc ?body (c4, ?m4) = Some Misuse" using command_parts_misuse [OF assms(1) c4(2)] c4(2) False by simp
    ultimately show ?thesis using all by (simp add: proto_decode_command_def crc doc)
  qed
qed

section \<open>A library that keeps its promises\<close>

text \<open>The cursor is the list of remaining items, and every payload is the same document.\<close>

definition demo_cbor :: "citem \<Rightarrow> citem list tinycbor" where
  "demo_cbor it = \<lparr>tc_init = (\<lambda>_. (True, [it])),
     tc_type = (\<lambda>c. case c of [] \<Rightarrow> TInvalid | x # _ \<Rightarrow> item_type x),
     tc_at_end = (\<lambda>c. c = []),
     tc_enter = (\<lambda>c. case c of CMap _ ys # _ \<Rightarrow> Some ys | CArray ys # _ \<Rightarrow> Some ys | _ \<Rightarrow> None),
     tc_leave = (\<lambda>c _. tl c), tc_advance = tl,
     tc_text = (\<lambda>c n. case c of CText t # xs \<Rightarrow> if length t \<le> n then (True, t, xs) else (False, [], c) | _ \<Rightarrow> (False, [], c)),
     tc_uint64 = (\<lambda>c. case c of CUint v # _ \<Rightarrow> (True, of_nat v) | _ \<Rightarrow> (False, 0)),
     tc_double = (\<lambda>c. (False, NaN)),
     tc_boolean = (\<lambda>c. case c of CBool b # _ \<Rightarrow> (True, b) | _ \<Rightarrow> (False, False))\<rparr>"

lemma demo_cbor_ok: "cbor_api (demo_cbor it) (\<lambda>c. c)" "cbor_parses (demo_cbor it) (\<lambda>c. c) p it"
  by (auto simp: cbor_api_def demo_cbor_def cbor_parses_def split: list.splits citem.splits)

theorem cbor_updates_are_misread_witness:
  "\<exists>p crc. proto_encode_sensor_update_into True (\<lambda>_. [0xBF, 0xFF]) zero_sensor_update True 2048 = Some (p, crc) \<and>
    proto_decode_sensor_update True (demo_cbor (sensor_update_item zero_sensor_update)) (doc_cjson []) p True crc = Some Misuse"
proof -
  obtain p crc where e: "proto_encode_sensor_update_into True (\<lambda>_. [0xBF, 0xFF]) zero_sensor_update True 2048 = Some (p, crc)"
    by (simp add: proto_encode_sensor_update_into_def encode_sensor_update_cbor_into_def cbor_write_def)
  have "sensor_update_wf zero_sensor_update" "\<forall>e \<in> set (su_sht20 zero_sensor_update). CHR 0x00 \<notin> set (sht_id e)"
    by (simp_all add: sensor_update_wf_def zero_sensor_update_def zero_sht20_def zero_ds18b20_def)
  from cbor_updates_are_misread [OF demo_cbor_ok(1) e demo_cbor_ok(2) this] e show ?thesis by blast
qed

theorem cbor_commands_are_misread_witness:
  "(\<exists>p crc. proto_encode_command_into True (\<lambda>_. [0xBF, 0xFF]) (zero_command\<lparr>cmd_sequence_id := 7\<rparr>) True 512 = Some (p, crc) \<and>
     proto_decode_command True (demo_cbor (command_item (zero_command\<lparr>cmd_sequence_id := 7\<rparr>))) (doc_cjson []) p True crc =
       Some (Got (zero_command\<lparr>cmd_sequence_id := 7\<rparr>))) \<and>
   (\<exists>p crc. proto_encode_command_into True (\<lambda>_. [0xBF, 0xFF]) (zero_command\<lparr>cmd_has_pwm_update := True\<rparr>) True 512 = Some (p, crc) \<and>
     proto_decode_command True (demo_cbor (command_item (zero_command\<lparr>cmd_has_pwm_update := True\<rparr>))) (doc_cjson []) p True crc = Some Misuse)"
proof -
  have enc: "\<exists>p crc. proto_encode_command_into True (\<lambda>_. [0xBF, 0xFF]) m True 512 = Some (p, crc)" for m
    by (simp add: proto_encode_command_into_def encode_command_cbor_into_def cbor_write_def)
  show ?thesis
    using cbor_commands_are_misread [OF demo_cbor_ok(1) _ demo_cbor_ok(2), where cj = "doc_cjson []"]
      enc [of "zero_command\<lparr>cmd_sequence_id := 7\<rparr>"] enc [of "zero_command\<lparr>cmd_has_pwm_update := True\<rparr>"]
    by (fastforce simp: command_norm_def zero_command_def)
qed

end
