(* ===== verification/Spec2Isabelle.thy ===== *)
theory Spec2Isabelle
  imports NodeApps Sessions Replay Ringbuf Base32 Cbor
begin

text \<open>
  \<^bold>\<open>A verification development for the two-node ESP32 firmware.\<close>

  \<^bold>\<open>The program.\<close> A sensor node reads sensors, drives I/O chips and serves a secure
  WebSocket; an HMI node connects to it, shows the telemetry and sends commands. The sources are
  \<^verbatim>\<open>src/common\<close> (link, messages, utilities), \<^verbatim>\<open>src/sensor_node\<close> and \<^verbatim>\<open>src/hmi_node\<close>.
  Telemetry flows from \<^verbatim>\<open>data_model_build\<close> through \<^verbatim>\<open>ws_server_send\<close>, the encrypted frame and
  \<^verbatim>\<open>on_data\<close> of the client into the data model of the HMI; commands flow from
  \<^verbatim>\<open>hmi_ws_client_send_command\<close> through \<^verbatim>\<open>ws_handler\<close> into the queue of the I/O task.

  \<^bold>\<open>The theories\<close>, each with the code it models; a definition has the name of its function.

  \<^item> \<^verbatim>\<open>Prelude\<close>: C integers as words, \<^verbatim>\<open>esp_err_t\<close>, C strings, decimal printing, little-endian
    integers, searches and counted loops on lists.
  \<^item> \<^verbatim>\<open>Crc\<close>: \<^verbatim>\<open>common/proto/proto_crc32.c\<close> and the CRC-8 of \<^verbatim>\<open>drivers/sht20.c\<close>; both are
    instances of a byte-wise checksum (locale \<open>byte_crc\<close>); the CRC-32 is equal to the bit-serial
    division and injective on bursts.
  \<^item> \<^verbatim>\<open>Ringbuf\<close>: \<^verbatim>\<open>common/util/ringbuf.c\<close> refines a queue that forgets its oldest bytes (locale
    \<open>overwriting_queue\<close>).
  \<^item> \<^verbatim>\<open>Base32\<close>: \<^verbatim>\<open>common/util/base32_utils.c\<close>, \<^verbatim>\<open>base64_utils.c\<close>: the decoder against the bits of its
    input, and the round trip with the encoding of RFC 4648.
  \<^item> \<^verbatim>\<open>Totp\<close>: \<^verbatim>\<open>common/util/totp.c\<close>: range of the codes, the verification window.
  \<^item> \<^verbatim>\<open>WsSecurity\<close>: \<^verbatim>\<open>common/net/ws_security.c\<close>: key derivation, encrypted frames, counters,
    handshake signature; sessions deliver, nothing is accepted twice (locale \<open>replay_guard\<close>).
  \<^item> \<^verbatim>\<open>NonceCache\<close>, \<^verbatim>\<open>ClientTable\<close>, \<^verbatim>\<open>WsServer\<close>, \<^verbatim>\<open>WsServerProps\<close>: \<^verbatim>\<open>common/net/ws_server.c\<close>: header
    parsers and nonce cache; client slots (locale \<open>slot_table\<close>); authorisation, frame handler,
    keep-alive, broadcast, start and stop; and what they guarantee. \<^verbatim>\<open>Replay\<close>: runs of upgrades
    through the nonce cache; an admitted nonce is refused until as many others were stored as the
    cache has slots, or the window is over.
  \<^item> \<^verbatim>\<open>WsClient\<close>: \<^verbatim>\<open>common/net/ws_client.c\<close>: upgrade headers, reconnection, frames.
  \<^item> \<^verbatim>\<open>Link\<close>: server and client together: upgrades are admitted, broadcasts arrive.
    \<^verbatim>\<open>Sessions\<close>: no frame is accepted twice in one connection, but a recorded frame is accepted again
    in the next one.
  \<^item> \<^verbatim>\<open>Messages\<close>, \<^verbatim>\<open>MessageProps\<close>: the JSON codec of \<^verbatim>\<open>common/proto/messages.c\<close>, its documents and
    round trips; an update with a NaN among its readings is printed as text that is not JSON, and
    refused. \<^verbatim>\<open>Cbor\<close>: the CBOR form of the same messages (\<^verbatim>\<open>CONFIG_USE_CBOR\<close>, off by
    default): the decoder calls TinyCBOR outside its contract on every update and on every
    command that commands anything.
  \<^item> \<^verbatim>\<open>SensorModel\<close>: \<^verbatim>\<open>sensor_node/main/data_model.c\<close>: snapshot, publication policy, double buffer.
  \<^item> \<^verbatim>\<open>HmiModel\<close>: \<^verbatim>\<open>hmi_node/main/data_model.c\<close>, \<^verbatim>\<open>prefs_store.c\<close>: mailbox of updates (locale
    \<open>mailbox\<close>) and preferences in flash.
  \<^item> \<^verbatim>\<open>I2cBus\<close>, \<^verbatim>\<open>Devices\<close>, \<^verbatim>\<open>IoTask\<close>: \<^verbatim>\<open>sensor_node/main/i2c_bus.c\<close>, the drivers of the I/O chips, and
    \<^verbatim>\<open>tasks/t_io.c\<close>: bounded retries and recovery, what reaches the chips, the turn of the task, and that
    no pin of an expander is ever made an output.
  \<^item> \<^verbatim>\<open>Ambient\<close>, \<^verbatim>\<open>Ds18b20\<close>, \<^verbatim>\<open>SensorTask\<close>: the drivers \<^verbatim>\<open>sht20.c\<close>, \<^verbatim>\<open>bme280.c\<close>, \<^verbatim>\<open>ds18b20.c\<close> with
    \<^verbatim>\<open>onewire_bus_manager.c\<close>, and the task \<^verbatim>\<open>tasks/t_sensors.c\<close> over \<^verbatim>\<open>io/io_map.c\<close>: checked
    readings, accuracy of the BME280 formula, and what the task publishes in the data model.
  \<^item> \<^verbatim>\<open>Ota\<close>: \<^verbatim>\<open>common/ota/ota_update.c\<close>: the update task ends, and writes accepted images only.
  \<^item> \<^verbatim>\<open>Wifi\<close>: \<^verbatim>\<open>common/net/wifi_manager.c\<close> and the wait of \<^verbatim>\<open>sensor_node/main/app_main.c\<close>: start and
    provisioning, reconnection delays, and on which paths a start returns.
  \<^item> \<^verbatim>\<open>Discovery\<close>: \<^verbatim>\<open>common/net/mdns_helper.c\<close>, \<^verbatim>\<open>common/util/monotonic.c\<close> and, of the HMI node,
    \<^verbatim>\<open>net/ws_client.c\<close> with \<^verbatim>\<open>tasks/t_net_rx.c\<close>: the announcement, the search, the cached endpoint,
    and the start of the client.
  \<^item> \<^verbatim>\<open>Nodes\<close>: the applications of both nodes on the link: a published snapshot reaches the data
    model of the HMI, and a command the queue of the I/O task.
  \<^item> \<^verbatim>\<open>Lvgl\<close>, \<^verbatim>\<open>UiUpdate\<close>, \<^verbatim>\<open>UiInit\<close>: \<^verbatim>\<open>hmi_node/main/display/ui_screens.c\<close> with \<^verbatim>\<open>ui_locale.c\<close>: the calls
    of LVGL and the static variables of the file; callbacks, updates and preferences; the
    construction of the six screens. LVGL is the log of the calls made to it and its replies.
  \<^item> \<^verbatim>\<open>UiBuilt\<close>, \<^verbatim>\<open>UiRun\<close>, \<^verbatim>\<open>UiShow\<close>, \<^verbatim>\<open>UiProps\<close>: what is built (every widget once, every control with its
    own context), runs of the interface (no call on a NULL object unless it was started without a
    screen, controls command their own pin and channel), and what the screens show after an update and after a change of preferences.
  \<^item> \<^verbatim>\<open>Display\<close>: \<^verbatim>\<open>common/util/memory_profile.c\<close>, \<^verbatim>\<open>components/esp_lcd_panel_rgb\<close> and
    \<^verbatim>\<open>display/lvgl_port.c\<close>: draw buffers and the start of the display. \<^verbatim>\<open>Peripherals\<close>: \<^verbatim>\<open>touch/gt911.c\<close>, the
    heartbeats of both nodes, \<^verbatim>\<open>common/util/time_sync.c\<close>.
  \<^item> \<^verbatim>\<open>UiTask\<close>: \<^verbatim>\<open>hmi_node/main/tasks/t_ui.c\<close>, where screens, data model, flash and link meet: the
    end-to-end statements from a snapshot to the labels, from a switch to the I/O queue, and of
    preferences over a restart.
  \<^item> \<^verbatim>\<open>CertStore\<close>: \<^verbatim>\<open>components/cert_store/cert_store.c\<close>: where a certificate comes from, and that
    nothing is leaked.
  \<^item> \<^verbatim>\<open>NodeApps\<close>: \<^verbatim>\<open>sensor_ws_server_start\<close>, \<^verbatim>\<open>sensor_node/main/app_main.c\<close> with its loop and
    \<^verbatim>\<open>hmi_node/main/app_main.c\<close>: the components put together, what a start guarantees, a turn
    of the sensor loop from a changed reading to the screens of the HMI, and what goes wrong: a
    failed sensor is not announced, one never read spoils every update, and the data model of the
    HMI node ends with the call of \<^verbatim>\<open>app_main\<close>. For the last one the node keeps the objects of
    static storage and of the running activations apart, as C does.

  \<^bold>\<open>State and effects.\<close> A component's static variables are a record that its operations take
  and return. A call of the platform (timers, HTTP server, WebSocket client, I2C driver, flash)
  is an event that is put in front of a log in the state, and its result is a function of that
  log in an environment record, so that statements hold for every behaviour of the platform.
  What the code needs of it is a named hypothesis, such as \<open>gcm_correct\<close> (decryption
  inverts encryption), \<open>cjson_reads\<close> (cJSON parses the text of a document to its tree) or
  \<open>nvs_keeps\<close>; each has an instance that satisfies it among the witnesses. Cryptography, Base64,
  cJSON and HMAC are such arguments. A function that takes a mutex with a timeout has the
  outcome as an argument. Errors are values of \<open>esp_err\<close> or \<open>None\<close>. A \<^verbatim>\<open>float\<close> of a message is the
  rational it stands for or NaN (\<open>c_float\<close>), with the rounding of operations an argument; the
  numbers that the drivers and filters compute are rationals. Infinite values and overflow of a
  \<^verbatim>\<open>float\<close> are not modelled.

  \<^bold>\<open>Loops.\<close> A loop bounded by a list or a counter is a structural recursion or \<open>for_loop\<close>; the
  poll of the BME280 is a function with a termination proof. Loops that may run forever (the
  download and the waits of \<open>Ota\<close>, the waits of \<open>Wifi\<close>, the search of \<open>Discovery\<close>, the container
  loops of \<open>Cbor\<close>) are partial functions into \<open>option\<close>, where
  \<open>None\<close> is a run that does not return, and termination is a theorem. The endless loops of the
  tasks are modelled by their bodies, such as \<open>io_task_turn\<close>, \<open>sensors_task_turn\<close>, \<open>ui_task_turn\<close> and
  \<open>sensor_app_turn\<close>. No fuel is used.

  \<^bold>\<open>Not modelled.\<close> What is not in the repository: FreeRTOS, the ESP-IDF drivers, LVGL, cJSON, TinyCBOR
  and mbedTLS are arguments. In the repository: the hooks for unit tests (in \<^verbatim>\<open>ui_screens.c\<close>, the
  client table and the OTA update), the tables of default platform functions of \<^verbatim>\<open>ws_server.c\<close> and
  \<^verbatim>\<open>ws_client.c\<close>, which only forward to the ESP-IDF, log messages, and the compile-time assertions
  on placeholder secrets. Interleaving within an operation is not modelled: operations on a data
  model run under its mutex, those of the link under the lock or the task of the library that
  calls them, those of LVGL in the task of the user interface. What the tasks of the HMI node read
  through a pointer whose object has ended is undefined in C: the theories of the tasks describe
  them on a data model that exists.
\<close>

end
